(* ===== verification/Prelude.thy ===== *)
theory Prelude
  imports Main "HOL-Library.Word" "HOL-Library.Multiset"
begin

text \<open>
  What every component of the model shares: the integer types of \<^verbatim>\<open>include/oversub/checked.hpp\<close>
  (\<^verbatim>\<open>u8\<close>, \<^verbatim>\<open>u16\<close>, \<^verbatim>\<open>u32\<close>, \<^verbatim>\<open>u64\<close>) as words of that width, the sum type used for a function that
  may return early, decimal printing (\<^verbatim>\<open>std::to_string\<close>), first-wins insertion
  (\<^verbatim>\<open>unordered_map::emplace\<close>), association lists, and the collections of rewrite rules that the
  component theories extend.
\<close>

unbundle bit_operations_syntax

type_synonym u8 = "8 word"
type_synonym u16 = "16 word"
type_synonym u32 = "32 word"
type_synonym u64 = "64 word"

named_theorems checked_simps \<open>exact results of the checked operations\<close>
named_theorems codec_simps \<open>decoding what was encoded\<close>
named_theorems frame_simps \<open>fields an operation does not write\<close>

section \<open>Words read as numbers\<close>

lemma unat_u64_less [simp]: "unat (x :: u64) < 18446744073709551616"
  using unsigned_less [of x, where ?'a = nat] by simp

lemma unat_u32_less [simp]: "unat (x :: u32) < 4294967296"
  using unsigned_less [of x, where ?'a = nat] by simp

lemma unat_u64_le: "unat (x :: u64) \<le> 18446744073709551615"
  using unat_u64_less [of x] by linarith

lemma unat_widened: "unat (ucast (c :: u32) :: u64) = unat c"
proof -
  have "unat c < 2 ^ 64" by (rule less_trans [OF unat_u32_less]) simp
  then show ?thesis by (simp add: unsigned_ucast_eq take_bit_nat_eq_self)
qed


lemma unat_add_u64:
  assumes "unat (a :: u64) + unat b < 18446744073709551616"
  shows "unat (a + b) = unat a + unat b"
  using assms by (simp add: unat_word_ariths)

lemma unat_mult_u64:
  assumes "unat (a :: u64) * unat b < 18446744073709551616"
  shows "unat (a * b) = unat a * unat b"
  using assms by (simp add: unat_word_ariths)

lemma unat_diff_u64: "(b :: u64) \<le> a \<Longrightarrow> unat (a - b) = unat a - unat b"
  by (rule unat_sub)

lemma word_eq_by_unat: "(a :: 'a::len word) = b \<longleftrightarrow> unat a = unat b"
  by (simp add: word_unat_eq_iff)

lemma unat_word_of_nat_u64 [simp]:
  "n < 18446744073709551616 \<Longrightarrow> unat (word_of_nat n :: u64) = n"
  by (simp add: unat_of_nat)

lemma unat_word_of_nat_u32 [simp]:
  "n < 4294967296 \<Longrightarrow> unat (word_of_nat n :: u32) = n"
  by (simp add: unat_of_nat)

lemma unat_inc: "(x :: 'a::len word) \<noteq> - 1 \<Longrightarrow> unat (x + 1) = Suc (unat x)"
  using unatSuc [of x] by (simp add: add.commute add_eq_0_iff)

section \<open>Early return\<close>

text \<open>
  A C++ function with early returns is a chain of phases; a phase is \<open>Inl r\<close> when it returns
  \<open>r\<close> from the whole function and \<open>Inr x\<close> when it falls through with \<open>x\<close>.
\<close>

definition and_then :: "'r + 'a \<Rightarrow> ('a \<Rightarrow> 'r + 'b) \<Rightarrow> 'r + 'b" where
  "and_then m f = (case m of Inl r \<Rightarrow> Inl r | Inr x \<Rightarrow> f x)"

lemma and_then_simps [simp]:
  "and_then (Inl r) f = Inl r"
  "and_then (Inr x) f = f x"
  by (simp_all add: and_then_def)

lemma and_then_Inr_iff: "and_then m f = Inr y \<longleftrightarrow> (\<exists>x. m = Inr x \<and> f x = Inr y)"
  by (cases m) auto

lemma and_then_Inl_iff:
  "and_then m f = Inl r \<longleftrightarrow> m = Inl r \<or> (\<exists>x. m = Inr x \<and> f x = Inl r)"
  by (cases m) auto

text \<open>The value a function returns once its last phase has returned.\<close>

definition returned :: "'r + 'r \<Rightarrow> 'r" where
  "returned m = (case m of Inl r \<Rightarrow> r | Inr r \<Rightarrow> r)"

lemma returned_simps [simp]: "returned (Inl r) = r" "returned (Inr r) = r"
  by (simp_all add: returned_def)

text \<open>A loop over a list whose body may return early.\<close>

fun for_each :: "('s \<Rightarrow> 'a \<Rightarrow> 'r + 's) \<Rightarrow> 's \<Rightarrow> 'a list \<Rightarrow> 'r + 's" where
  "for_each f s [] = Inr s"
| "for_each f s (x # xs) = and_then (f s x) (\<lambda>s'. for_each f s' xs)"

text \<open>
  Loop invariants: what the body keeps on the way through, and what it guarantees of a value it
  returns early.
\<close>

lemma for_each_invariant:
  assumes "for_each f s xs = Inr t" and "I s"
    and "\<And>s x s'. x \<in> set xs \<Longrightarrow> I s \<Longrightarrow> f s x = Inr s' \<Longrightarrow> I s'"
  shows "I t"
  using assms
proof (induction xs arbitrary: s)
  case Nil
  then show ?case by simp
next
  case (Cons x xs)
  from Cons.prems(1) obtain s' where "f s x = Inr s'" and rest: "for_each f s' xs = Inr t"
    by (auto simp: and_then_Inr_iff)
  with Cons.prems have "I s'" by (metis list.set_intros(1))
  with rest show ?case
    by (rule Cons.IH) (use Cons.prems(3) in \<open>meson list.set_intros(2)\<close>)
qed

lemma for_each_early:
  assumes "for_each f s xs = Inl r" and "I s"
    and "\<And>s x s'. x \<in> set xs \<Longrightarrow> I s \<Longrightarrow> f s x = Inr s' \<Longrightarrow> I s'"
    and "\<And>s x r. x \<in> set xs \<Longrightarrow> I s \<Longrightarrow> f s x = Inl r \<Longrightarrow> Q r"
  shows "Q r"
  using assms
proof (induction xs arbitrary: s)
  case Nil
  then show ?case by simp
next
  case (Cons x xs)
  show ?case
  proof (cases "f s x")
    case (Inl r')
    with Cons.prems(1) have "f s x = Inl r" by simp
    then show ?thesis by (rule Cons.prems(4) [rotated 2]) (use Cons.prems(2) in simp_all)
  next
    case (Inr s')
    with Cons.prems have "I s'" by (metis list.set_intros(1))
    moreover from Inr Cons.prems(1) have "for_each f s' xs = Inl r" by simp
    ultimately show ?thesis
      using Cons.IH Cons.prems(3,4) by (metis list.set_intros(2))
  qed
qed

text \<open>The invariant may speak of the elements consumed so far.\<close>

lemma for_each_prefix:
  assumes "for_each f s xs = Inr t" and "I [] s"
    and "\<And>ys x s s'. set ys \<subseteq> set xs \<Longrightarrow> x \<in> set xs \<Longrightarrow> I ys s \<Longrightarrow> f s x = Inr s' \<Longrightarrow> I (ys @ [x]) s'"
  shows "I xs t"
proof -
  have "I (ys @ zs) t"
    if "for_each f s zs = Inr t" "I ys s" "set ys \<subseteq> set xs" "set zs \<subseteq> set xs" for ys zs s
    using that
  proof (induction zs arbitrary: ys s)
    case (Cons z zs)
    from Cons.prems(1) obtain s' where step: "f s z = Inr s'" "for_each f s' zs = Inr t"
      by (auto simp: and_then_Inr_iff)
    with Cons.prems have "I (ys @ [z]) s'" by (intro assms(3)) auto
    from Cons.IH [OF step(2) this] Cons.prems show ?case by simp
  qed simp
  from this [OF assms(1,2)] show ?thesis by simp
qed

text \<open>A loop whose body only checks: it falls through exactly when every element passes.\<close>

lemma for_each_check: "for_each f () xs = Inr u \<longleftrightarrow> (\<forall>x \<in> set xs. f () x = Inr ())"
  by (induction xs) (auto simp: and_then_Inr_iff)

lemma for_each_check_fails: "for_each f () xs = Inl r \<Longrightarrow> \<exists>x \<in> set xs. f () x = Inl r"
  by (induction xs) (auto simp: and_then_Inl_iff)

section \<open>Printing\<close>

text \<open>\<^verbatim>\<open>std::to_string\<close> of an unsigned integer: its decimal digits.\<close>

fun decimal :: "nat \<Rightarrow> string" where
  "decimal n = (if n < 10 then [char_of (48 + n)] else decimal (n div 10) @ [char_of (48 + n mod 10)])"

declare decimal.simps [simp del]

definition to_string_u64 :: "u64 \<Rightarrow> string" where
  "to_string_u64 x = decimal (unat x)"

definition to_string_u32 :: "u32 \<Rightarrow> string" where
  "to_string_u32 x = decimal (unat x)"

definition bool_name :: "bool \<Rightarrow> string" where
  "bool_name b = (if b then ''true'' else ''false'')"

section \<open>Containers\<close>

text \<open>\<^verbatim>\<open>unordered_map::emplace\<close> keeps the value of a key that is already there.\<close>

definition emplace :: "('k \<rightharpoonup> 'v) \<Rightarrow> 'k \<Rightarrow> 'v \<Rightarrow> ('k \<rightharpoonup> 'v)" where
  "emplace m k v = (case m k of None \<Rightarrow> m(k \<mapsto> v) | Some _ \<Rightarrow> m)"

lemma emplace_old [simp]: "m k = Some w \<Longrightarrow> emplace m k v = m"
  by (simp add: emplace_def)

lemma emplace_new [simp]: "m k = None \<Longrightarrow> emplace m k v = m(k \<mapsto> v)"
  by (simp add: emplace_def)

lemma dom_emplace [simp]: "dom (emplace m k v) = insert k (dom m)"
  by (auto simp: emplace_def split: option.splits)

text \<open>
  An \<^verbatim>\<open>unordered_map\<close> that the code iterates over is an association list, one entry per key, in
  the order of first insertion; \<open>slot_get\<close> reads with the default \<open>0\<close> of \<^verbatim>\<open>operator[]\<close> and
  \<open>slot_put\<close> writes.
\<close>

definition slot_get :: "('k \<times> u64) list \<Rightarrow> 'k \<Rightarrow> u64" where
  "slot_get m k = (case map_of m k of None \<Rightarrow> 0 | Some v \<Rightarrow> v)"

fun slot_put :: "('k \<times> 'v) list \<Rightarrow> 'k \<Rightarrow> 'v \<Rightarrow> ('k \<times> 'v) list" where
  "slot_put [] k v = [(k, v)]"
| "slot_put ((k', v') # m) k v = (if k' = k then (k, v) # m else (k', v') # slot_put m k v)"

lemma map_of_slot_put [simp]: "map_of (slot_put m k v) = (map_of m)(k \<mapsto> v)"
  by (induction m k v rule: slot_put.induct) (auto simp: fun_eq_iff)

lemma keys_slot_put: "fst ` set (slot_put m k v) = insert k (fst ` set m)"
  by (induction m k v rule: slot_put.induct) auto

lemma distinct_slot_put: "distinct (map fst m) \<Longrightarrow> distinct (map fst (slot_put m k v))"
  by (induction m k v rule: slot_put.induct) (auto simp: keys_slot_put)

section \<open>Sorting\<close>

text \<open>
  \<^verbatim>\<open>std::sort\<close> on a key is \<^const>\<open>sort_key\<close>. Where the keys are distinct the sorted sequence is
  unique, so it does not depend on the order of the input nor on the stability of the sort.
\<close>

lemma sort_key_unique:
  assumes "mset xs = mset ys" and "distinct (map f xs)"
  shows "sort_key f xs = sort_key f ys"
proof (rule properties_for_sort_key)
  show "mset (sort_key f ys) = mset xs" using assms(1) by simp
  show "sorted (map f (sort_key f ys))" by simp
  fix k
  assume "k \<in> set (sort_key f ys)"
  from assms have dy: "distinct (map f ys)"
    by (metis mset_eq_imp_distinct_iff mset_map)
  have one: "filter (\<lambda>y. f k = f y) zs = (if k \<in> set zs then [k] else [])"
    if "distinct (map f zs)" "\<forall>z \<in> set zs. f z = f k \<longrightarrow> z = k" for zs
    using that by (induction zs) (auto simp: image_iff filter_empty_conv)
  have same: "f z = f k \<Longrightarrow> z = k" if "z \<in> set ys" for z
    using dy that \<open>k \<in> set (sort_key f ys)\<close>
    by (auto simp: distinct_map dest: inj_onD)
  have sets: "set xs = set ys" using assms(1) by (rule mset_eq_setD)
  have ds: "distinct (map f (sort_key f ys))"
    using dy by (metis mset_eq_imp_distinct_iff mset_map mset_sort)
  show "filter (\<lambda>y. f k = f y) (sort_key f ys) = filter (\<lambda>y. f k = f y) xs"
    using one [of "sort_key f ys"] one [of xs] ds assms(2) same sets by simp
qed

text \<open>The code's duplicate test: sort, then look for two equal neighbours.\<close>

fun adjacent_equal :: "'a list \<Rightarrow> bool" where
  "adjacent_equal (x # y # zs) = (x = y \<or> adjacent_equal (y # zs))"
| "adjacent_equal _ = False"

lemma adjacent_equal_sorted: "sorted xs \<Longrightarrow> adjacent_equal xs = (\<not> distinct xs)"
  by (induction xs rule: adjacent_equal.induct) (auto simp: order.antisym)

end
