(* ===== verification/Status.thy ===== *)
theory Status
  imports Prelude
begin

text \<open>
  \<^verbatim>\<open>include/oversub/status.hpp\<close> and \<^verbatim>\<open>src/status.cpp\<close>: status codes, reason codes, outcomes,
  constraints, corrective kinds and the predicates the runtime branches on.

  Every enumeration of the code has the underlying type \<^verbatim>\<open>u32\<close>, and values of it are read from
  files and from the wire by \<^verbatim>\<open>static_cast\<close>, which is defined for every \<^verbatim>\<open>u32\<close>. A small enumeration is
  a datatype with the source's enumerators and one constructor \<open>..._cast n\<close> for a value no enumerator
  names; \<open>..._of_u32\<close> is the cast from \<^verbatim>\<open>u32\<close> and \<open>..._to_u32\<close> the cast back. \<open>reason_code\<close>, with its 110
  enumerators, is the \<^verbatim>\<open>u32\<close> itself and its enumerators are named values.
\<close>

section \<open>Status codes\<close>

datatype status_code =
  Status_Ok
| Status_InvalidArgument
| Status_OutOfRange
| Status_NotFound
| Status_AlreadyExists
| Status_Stale
| Status_Conflict
| Status_Denied
| Status_Fenced
| Status_CorruptData
| Status_IntegrityFailure
| Status_IoError
| Status_Overflow
| Status_Unsupported
| Status_Cancelled
| Status_ShuttingDown
| Status_Busy
| Status_Duplicate
| Status_QueueFull
| Status_NotAuthoritative
| Status_InternalError
| Status_cast u32

primrec status_code_to_u32 :: "status_code \<Rightarrow> u32" where
  "status_code_to_u32 Status_Ok = 0"
| "status_code_to_u32 Status_InvalidArgument = 1"
| "status_code_to_u32 Status_OutOfRange = 2"
| "status_code_to_u32 Status_NotFound = 3"
| "status_code_to_u32 Status_AlreadyExists = 4"
| "status_code_to_u32 Status_Stale = 5"
| "status_code_to_u32 Status_Conflict = 6"
| "status_code_to_u32 Status_Denied = 7"
| "status_code_to_u32 Status_Fenced = 8"
| "status_code_to_u32 Status_CorruptData = 9"
| "status_code_to_u32 Status_IntegrityFailure = 10"
| "status_code_to_u32 Status_IoError = 11"
| "status_code_to_u32 Status_Overflow = 12"
| "status_code_to_u32 Status_Unsupported = 13"
| "status_code_to_u32 Status_Cancelled = 14"
| "status_code_to_u32 Status_ShuttingDown = 15"
| "status_code_to_u32 Status_Busy = 16"
| "status_code_to_u32 Status_Duplicate = 17"
| "status_code_to_u32 Status_QueueFull = 18"
| "status_code_to_u32 Status_NotAuthoritative = 19"
| "status_code_to_u32 Status_InternalError = 20"
| "status_code_to_u32 (Status_cast n) = n"

definition status_code_of_u32 :: "u32 \<Rightarrow> status_code" where
  "status_code_of_u32 n =
     (if n = 0 then Status_Ok
      else if n = 1 then Status_InvalidArgument
      else if n = 2 then Status_OutOfRange
      else if n = 3 then Status_NotFound
      else if n = 4 then Status_AlreadyExists
      else if n = 5 then Status_Stale
      else if n = 6 then Status_Conflict
      else if n = 7 then Status_Denied
      else if n = 8 then Status_Fenced
      else if n = 9 then Status_CorruptData
      else if n = 10 then Status_IntegrityFailure
      else if n = 11 then Status_IoError
      else if n = 12 then Status_Overflow
      else if n = 13 then Status_Unsupported
      else if n = 14 then Status_Cancelled
      else if n = 15 then Status_ShuttingDown
      else if n = 16 then Status_Busy
      else if n = 17 then Status_Duplicate
      else if n = 18 then Status_QueueFull
      else if n = 19 then Status_NotAuthoritative
      else if n = 20 then Status_InternalError
      else Status_cast n)"

definition wf_status_code :: "status_code \<Rightarrow> bool" where
  "wf_status_code x = (case x of Status_cast n \<Rightarrow> 21 \<le> n | _ \<Rightarrow> True)"

lemma status_code_of_to_u32 [codec_simps]: "wf_status_code x \<Longrightarrow> status_code_of_u32 (status_code_to_u32 x) = x"
  by (cases x) (auto simp: wf_status_code_def status_code_of_u32_def word_le_nat_alt)

lemma status_code_to_of_u32 [simp]: "status_code_to_u32 (status_code_of_u32 n) = n"
  by (simp add: status_code_of_u32_def)

lemma wf_status_code_of_u32 [simp]: "wf_status_code (status_code_of_u32 n)"
  by (simp add: status_code_of_u32_def wf_status_code_def word_le_nat_alt word_eq_by_unat; arith)

primrec status_code_name :: "status_code \<Rightarrow> string" where
  "status_code_name Status_Ok = ''Ok''"
| "status_code_name Status_InvalidArgument = ''InvalidArgument''"
| "status_code_name Status_OutOfRange = ''OutOfRange''"
| "status_code_name Status_NotFound = ''NotFound''"
| "status_code_name Status_AlreadyExists = ''AlreadyExists''"
| "status_code_name Status_Stale = ''Stale''"
| "status_code_name Status_Conflict = ''Conflict''"
| "status_code_name Status_Denied = ''Denied''"
| "status_code_name Status_Fenced = ''Fenced''"
| "status_code_name Status_CorruptData = ''CorruptData''"
| "status_code_name Status_IntegrityFailure = ''IntegrityFailure''"
| "status_code_name Status_IoError = ''IoError''"
| "status_code_name Status_Overflow = ''Overflow''"
| "status_code_name Status_Unsupported = ''Unsupported''"
| "status_code_name Status_Cancelled = ''Cancelled''"
| "status_code_name Status_ShuttingDown = ''ShuttingDown''"
| "status_code_name Status_Busy = ''Busy''"
| "status_code_name Status_Duplicate = ''Duplicate''"
| "status_code_name Status_QueueFull = ''QueueFull''"
| "status_code_name Status_NotAuthoritative = ''NotAuthoritative''"
| "status_code_name Status_InternalError = ''InternalError''"
| "status_code_name (Status_cast n) = ''UnknownStatusCode''"

section \<open>Reason codes\<close>

datatype reason_code = ReasonCode (reason_value: u32)

abbreviation "Reason_None \<equiv> ReasonCode 0"
abbreviation "Reason_InvalidIdentity \<equiv> ReasonCode 1"
abbreviation "Reason_InvalidField \<equiv> ReasonCode 2"
abbreviation "Reason_PolicyRatioInvalid \<equiv> ReasonCode 3"
abbreviation "Reason_PolicyRatioOutOfBound \<equiv> ReasonCode 4"
abbreviation "Reason_PolicyThresholdsInverted \<equiv> ReasonCode 5"
abbreviation "Reason_PolicyFreshnessUnbounded \<equiv> ReasonCode 6"
abbreviation "Reason_PolicyDomainDuplicate \<equiv> ReasonCode 7"
abbreviation "Reason_PolicyDomainEmpty \<equiv> ReasonCode 8"
abbreviation "Reason_PolicyDomainUnknown \<equiv> ReasonCode 9"
abbreviation "Reason_PolicyDomainTooLarge \<equiv> ReasonCode 10"
abbreviation "Reason_PolicyDomainMemberDuplicate \<equiv> ReasonCode 11"
abbreviation "Reason_PolicyServiceClassDuplicate \<equiv> ReasonCode 12"
abbreviation "Reason_PolicyServiceClassIneligibleDemand \<equiv> ReasonCode 13"
abbreviation "Reason_PolicyRiskBudgetInvalid \<equiv> ReasonCode 14"
abbreviation "Reason_PolicyRiskBudgetGenerationMismatch \<equiv> ReasonCode 15"
abbreviation "Reason_PolicyGenerationMismatch \<equiv> ReasonCode 16"
abbreviation "Reason_PolicyDigestMismatch \<equiv> ReasonCode 17"
abbreviation "Reason_PolicyLimitExceeded \<equiv> ReasonCode 18"
abbreviation "Reason_PolicyReserveInvalid \<equiv> ReasonCode 19"
abbreviation "Reason_DomainNotInPolicy \<equiv> ReasonCode 20"
abbreviation "Reason_DomainGenerationMismatch \<equiv> ReasonCode 21"
abbreviation "Reason_DomainMembershipChanged \<equiv> ReasonCode 22"
abbreviation "Reason_ResourceNotInDomain \<equiv> ReasonCode 23"
abbreviation "Reason_ResourceGenerationMismatch \<equiv> ReasonCode 24"
abbreviation "Reason_ResourceMissingFromCapacitySnapshot \<equiv> ReasonCode 25"
abbreviation "Reason_ResourceDuplicateInCapacitySnapshot \<equiv> ReasonCode 26"
abbreviation "Reason_ResourceCapacityInvalid \<equiv> ReasonCode 27"
abbreviation "Reason_ResourceUsableExceedsPhysical \<equiv> ReasonCode 28"
abbreviation "Reason_ResourceFailed \<equiv> ReasonCode 29"
abbreviation "Reason_ResourceDegraded \<equiv> ReasonCode 30"
abbreviation "Reason_ResourceHealthUnknown \<equiv> ReasonCode 31"
abbreviation "Reason_ResourcePoolMismatch \<equiv> ReasonCode 32"
abbreviation "Reason_EpochMismatch \<equiv> ReasonCode 33"
abbreviation "Reason_EpochRegression \<equiv> ReasonCode 34"
abbreviation "Reason_EpochNotAdvanced \<equiv> ReasonCode 35"
abbreviation "Reason_GenerationAheadOfRuntime \<equiv> ReasonCode 36"
abbreviation "Reason_GenerationUnset \<equiv> ReasonCode 37"
abbreviation "Reason_SnapshotMissing \<equiv> ReasonCode 38"
abbreviation "Reason_SnapshotEmpty \<equiv> ReasonCode 39"
abbreviation "Reason_SnapshotTooLarge \<equiv> ReasonCode 40"
abbreviation "Reason_SnapshotGenerationMismatch \<equiv> ReasonCode 41"
abbreviation "Reason_SnapshotFutureDated \<equiv> ReasonCode 42"
abbreviation "Reason_SnapshotStale \<equiv> ReasonCode 43"
abbreviation "Reason_SnapshotDigestMismatch \<equiv> ReasonCode 44"
abbreviation "Reason_SnapshotOutOfOrder \<equiv> ReasonCode 45"
abbreviation "Reason_SnapshotDuplicate \<equiv> ReasonCode 46"
abbreviation "Reason_GuaranteeContradiction \<equiv> ReasonCode 47"
abbreviation "Reason_GuaranteeDuplicate \<equiv> ReasonCode 48"
abbreviation "Reason_GuaranteeSumExceedsUsable \<equiv> ReasonCode 49"
abbreviation "Reason_GuaranteeFloorExceedsCeiling \<equiv> ReasonCode 50"
abbreviation "Reason_GuaranteeOutOfScope \<equiv> ReasonCode 51"
abbreviation "Reason_GuaranteeServiceClassUnknown \<equiv> ReasonCode 52"
abbreviation "Reason_ReservationSumOverflow \<equiv> ReasonCode 53"
abbreviation "Reason_AdmissionDuplicate \<equiv> ReasonCode 54"
abbreviation "Reason_AdmissionKindConflict \<equiv> ReasonCode 55"
abbreviation "Reason_AdmissionServiceClassUnknown \<equiv> ReasonCode 56"
abbreviation "Reason_AdmissionSumOverflow \<equiv> ReasonCode 57"
abbreviation "Reason_AdmissionExceedsContingentCeiling \<equiv> ReasonCode 58"
abbreviation "Reason_AdmissionNoContingentCeiling \<equiv> ReasonCode 59"
abbreviation "Reason_BurstPoolExceeded \<equiv> ReasonCode 60"
abbreviation "Reason_ServiceClassShareExceeded \<equiv> ReasonCode 61"
abbreviation "Reason_RiskBudgetExceeded \<equiv> ReasonCode 62"
abbreviation "Reason_RiskBudgetExposureOverflow \<equiv> ReasonCode 63"
abbreviation "Reason_ArithmeticOverflow \<equiv> ReasonCode 64"
abbreviation "Reason_EvidenceIncomplete \<equiv> ReasonCode 65"
abbreviation "Reason_EvidenceContradictory \<equiv> ReasonCode 66"
abbreviation "Reason_EvidenceDuplicate \<equiv> ReasonCode 67"
abbreviation "Reason_EvidenceReplayed \<equiv> ReasonCode 68"
abbreviation "Reason_EvidenceFutureDated \<equiv> ReasonCode 69"
abbreviation "Reason_EvidenceSequenceRegression \<equiv> ReasonCode 70"
abbreviation "Reason_EvidencePayloadTooLarge \<equiv> ReasonCode 71"
abbreviation "Reason_EvidenceMalformed \<equiv> ReasonCode 72"
abbreviation "Reason_PublisherNotRegistered \<equiv> ReasonCode 73"
abbreviation "Reason_PublisherFenced \<equiv> ReasonCode 74"
abbreviation "Reason_PublisherIncarnationStale \<equiv> ReasonCode 75"
abbreviation "Reason_PublisherIncarnationUnknown \<equiv> ReasonCode 76"
abbreviation "Reason_PublisherProtocolMismatch \<equiv> ReasonCode 77"
abbreviation "Reason_PublisherSequenceReplayed \<equiv> ReasonCode 78"
abbreviation "Reason_WorkerIncarnationFenced \<equiv> ReasonCode 79"
abbreviation "Reason_WorkerEpochStale \<equiv> ReasonCode 80"
abbreviation "Reason_AttemptAbandoned \<equiv> ReasonCode 81"
abbreviation "Reason_DecisionStale \<equiv> ReasonCode 82"
abbreviation "Reason_DecisionSuperseded \<equiv> ReasonCode 83"
abbreviation "Reason_DecisionEpochMismatch \<equiv> ReasonCode 84"
abbreviation "Reason_DecisionGenerationMismatch \<equiv> ReasonCode 85"
abbreviation "Reason_DecisionNotAuthoritative \<equiv> ReasonCode 86"
abbreviation "Reason_DecisionCancelled \<equiv> ReasonCode 87"
abbreviation "Reason_DecisionAlreadyFenced \<equiv> ReasonCode 88"
abbreviation "Reason_PersistenceCorrupt \<equiv> ReasonCode 89"
abbreviation "Reason_PersistenceVersionUnsupported \<equiv> ReasonCode 90"
abbreviation "Reason_PersistenceIntegrityFailure \<equiv> ReasonCode 91"
abbreviation "Reason_PersistenceTruncated \<equiv> ReasonCode 92"
abbreviation "Reason_PersistenceTooLarge \<equiv> ReasonCode 93"
abbreviation "Reason_PersistenceJournalPartial \<equiv> ReasonCode 94"
abbreviation "Reason_PersistenceNotInitialized \<equiv> ReasonCode 95"
abbreviation "Reason_TransportClosed \<equiv> ReasonCode 96"
abbreviation "Reason_TransportError \<equiv> ReasonCode 97"
abbreviation "Reason_FrameTooLarge \<equiv> ReasonCode 98"
abbreviation "Reason_FrameTruncated \<equiv> ReasonCode 99"
abbreviation "Reason_FrameMalformed \<equiv> ReasonCode 100"
abbreviation "Reason_ProtocolViolation \<equiv> ReasonCode 101"
abbreviation "Reason_BufferLimitExceeded \<equiv> ReasonCode 102"
abbreviation "Reason_QueueLimitExceeded \<equiv> ReasonCode 103"
abbreviation "Reason_PayloadTooLarge \<equiv> ReasonCode 104"
abbreviation "Reason_ShuttingDown \<equiv> ReasonCode 105"
abbreviation "Reason_Cancelled \<equiv> ReasonCode 106"
abbreviation "Reason_LimitExceeded \<equiv> ReasonCode 107"
abbreviation "Reason_UnsupportedOperation \<equiv> ReasonCode 108"
abbreviation "Reason_Internal \<equiv> ReasonCode 109"

definition reason_names :: "(reason_code \<times> string) list" where
  "reason_names =
    [(Reason_None, ''None''),
     (Reason_InvalidIdentity, ''InvalidIdentity''),
     (Reason_InvalidField, ''InvalidField''),
     (Reason_PolicyRatioInvalid, ''PolicyRatioInvalid''),
     (Reason_PolicyRatioOutOfBound, ''PolicyRatioOutOfBound''),
     (Reason_PolicyThresholdsInverted, ''PolicyThresholdsInverted''),
     (Reason_PolicyFreshnessUnbounded, ''PolicyFreshnessUnbounded''),
     (Reason_PolicyDomainDuplicate, ''PolicyDomainDuplicate''),
     (Reason_PolicyDomainEmpty, ''PolicyDomainEmpty''),
     (Reason_PolicyDomainUnknown, ''PolicyDomainUnknown''),
     (Reason_PolicyDomainTooLarge, ''PolicyDomainTooLarge''),
     (Reason_PolicyDomainMemberDuplicate, ''PolicyDomainMemberDuplicate''),
     (Reason_PolicyServiceClassDuplicate, ''PolicyServiceClassDuplicate''),
     (Reason_PolicyServiceClassIneligibleDemand, ''PolicyServiceClassIneligibleDemand''),
     (Reason_PolicyRiskBudgetInvalid, ''PolicyRiskBudgetInvalid''),
     (Reason_PolicyRiskBudgetGenerationMismatch, ''PolicyRiskBudgetGenerationMismatch''),
     (Reason_PolicyGenerationMismatch, ''PolicyGenerationMismatch''),
     (Reason_PolicyDigestMismatch, ''PolicyDigestMismatch''),
     (Reason_PolicyLimitExceeded, ''PolicyLimitExceeded''),
     (Reason_PolicyReserveInvalid, ''PolicyReserveInvalid''),
     (Reason_DomainNotInPolicy, ''DomainNotInPolicy''),
     (Reason_DomainGenerationMismatch, ''DomainGenerationMismatch''),
     (Reason_DomainMembershipChanged, ''DomainMembershipChanged''),
     (Reason_ResourceNotInDomain, ''ResourceNotInDomain''),
     (Reason_ResourceGenerationMismatch, ''ResourceGenerationMismatch''),
     (Reason_ResourceMissingFromCapacitySnapshot, ''ResourceMissingFromCapacitySnapshot''),
     (Reason_ResourceDuplicateInCapacitySnapshot, ''ResourceDuplicateInCapacitySnapshot''),
     (Reason_ResourceCapacityInvalid, ''ResourceCapacityInvalid''),
     (Reason_ResourceUsableExceedsPhysical, ''ResourceUsableExceedsPhysical''),
     (Reason_ResourceFailed, ''ResourceFailed''),
     (Reason_ResourceDegraded, ''ResourceDegraded''),
     (Reason_ResourceHealthUnknown, ''ResourceHealthUnknown''),
     (Reason_ResourcePoolMismatch, ''ResourcePoolMismatch''),
     (Reason_EpochMismatch, ''EpochMismatch''),
     (Reason_EpochRegression, ''EpochRegression''),
     (Reason_EpochNotAdvanced, ''EpochNotAdvanced''),
     (Reason_GenerationAheadOfRuntime, ''GenerationAheadOfRuntime''),
     (Reason_GenerationUnset, ''GenerationUnset''),
     (Reason_SnapshotMissing, ''SnapshotMissing''),
     (Reason_SnapshotEmpty, ''SnapshotEmpty''),
     (Reason_SnapshotTooLarge, ''SnapshotTooLarge''),
     (Reason_SnapshotGenerationMismatch, ''SnapshotGenerationMismatch''),
     (Reason_SnapshotFutureDated, ''SnapshotFutureDated''),
     (Reason_SnapshotStale, ''SnapshotStale''),
     (Reason_SnapshotDigestMismatch, ''SnapshotDigestMismatch''),
     (Reason_SnapshotOutOfOrder, ''SnapshotOutOfOrder''),
     (Reason_SnapshotDuplicate, ''SnapshotDuplicate''),
     (Reason_GuaranteeContradiction, ''GuaranteeContradiction''),
     (Reason_GuaranteeDuplicate, ''GuaranteeDuplicate''),
     (Reason_GuaranteeSumExceedsUsable, ''GuaranteeSumExceedsUsable''),
     (Reason_GuaranteeFloorExceedsCeiling, ''GuaranteeFloorExceedsCeiling''),
     (Reason_GuaranteeOutOfScope, ''GuaranteeOutOfScope''),
     (Reason_GuaranteeServiceClassUnknown, ''GuaranteeServiceClassUnknown''),
     (Reason_ReservationSumOverflow, ''ReservationSumOverflow''),
     (Reason_AdmissionDuplicate, ''AdmissionDuplicate''),
     (Reason_AdmissionKindConflict, ''AdmissionKindConflict''),
     (Reason_AdmissionServiceClassUnknown, ''AdmissionServiceClassUnknown''),
     (Reason_AdmissionSumOverflow, ''AdmissionSumOverflow''),
     (Reason_AdmissionExceedsContingentCeiling, ''AdmissionExceedsContingentCeiling''),
     (Reason_AdmissionNoContingentCeiling, ''AdmissionNoContingentCeiling''),
     (Reason_BurstPoolExceeded, ''BurstPoolExceeded''),
     (Reason_ServiceClassShareExceeded, ''ServiceClassShareExceeded''),
     (Reason_RiskBudgetExceeded, ''RiskBudgetExceeded''),
     (Reason_RiskBudgetExposureOverflow, ''RiskBudgetExposureOverflow''),
     (Reason_ArithmeticOverflow, ''ArithmeticOverflow''),
     (Reason_EvidenceIncomplete, ''EvidenceIncomplete''),
     (Reason_EvidenceContradictory, ''EvidenceContradictory''),
     (Reason_EvidenceDuplicate, ''EvidenceDuplicate''),
     (Reason_EvidenceReplayed, ''EvidenceReplayed''),
     (Reason_EvidenceFutureDated, ''EvidenceFutureDated''),
     (Reason_EvidenceSequenceRegression, ''EvidenceSequenceRegression''),
     (Reason_EvidencePayloadTooLarge, ''EvidencePayloadTooLarge''),
     (Reason_EvidenceMalformed, ''EvidenceMalformed''),
     (Reason_PublisherNotRegistered, ''PublisherNotRegistered''),
     (Reason_PublisherFenced, ''PublisherFenced''),
     (Reason_PublisherIncarnationStale, ''PublisherIncarnationStale''),
     (Reason_PublisherIncarnationUnknown, ''PublisherIncarnationUnknown''),
     (Reason_PublisherProtocolMismatch, ''PublisherProtocolMismatch''),
     (Reason_PublisherSequenceReplayed, ''PublisherSequenceReplayed''),
     (Reason_WorkerIncarnationFenced, ''WorkerIncarnationFenced''),
     (Reason_WorkerEpochStale, ''WorkerEpochStale''),
     (Reason_AttemptAbandoned, ''AttemptAbandoned''),
     (Reason_DecisionStale, ''DecisionStale''),
     (Reason_DecisionSuperseded, ''DecisionSuperseded''),
     (Reason_DecisionEpochMismatch, ''DecisionEpochMismatch''),
     (Reason_DecisionGenerationMismatch, ''DecisionGenerationMismatch''),
     (Reason_DecisionNotAuthoritative, ''DecisionNotAuthoritative''),
     (Reason_DecisionCancelled, ''DecisionCancelled''),
     (Reason_DecisionAlreadyFenced, ''DecisionAlreadyFenced''),
     (Reason_PersistenceCorrupt, ''PersistenceCorrupt''),
     (Reason_PersistenceVersionUnsupported, ''PersistenceVersionUnsupported''),
     (Reason_PersistenceIntegrityFailure, ''PersistenceIntegrityFailure''),
     (Reason_PersistenceTruncated, ''PersistenceTruncated''),
     (Reason_PersistenceTooLarge, ''PersistenceTooLarge''),
     (Reason_PersistenceJournalPartial, ''PersistenceJournalPartial''),
     (Reason_PersistenceNotInitialized, ''PersistenceNotInitialized''),
     (Reason_TransportClosed, ''TransportClosed''),
     (Reason_TransportError, ''TransportError''),
     (Reason_FrameTooLarge, ''FrameTooLarge''),
     (Reason_FrameTruncated, ''FrameTruncated''),
     (Reason_FrameMalformed, ''FrameMalformed''),
     (Reason_ProtocolViolation, ''ProtocolViolation''),
     (Reason_BufferLimitExceeded, ''BufferLimitExceeded''),
     (Reason_QueueLimitExceeded, ''QueueLimitExceeded''),
     (Reason_PayloadTooLarge, ''PayloadTooLarge''),
     (Reason_ShuttingDown, ''ShuttingDown''),
     (Reason_Cancelled, ''Cancelled''),
     (Reason_LimitExceeded, ''LimitExceeded''),
     (Reason_UnsupportedOperation, ''UnsupportedOperation''),
     (Reason_Internal, ''Internal'')]"

definition reason_code_name :: "reason_code \<Rightarrow> string" where
  "reason_code_name r = (case map_of reason_names r of Some s \<Rightarrow> s | None \<Rightarrow> ''UnknownReasonCode'')"

section \<open>Status values\<close>

record status =
  st_code :: status_code
  st_reason :: reason_code
  st_detail :: string

definition status_ok :: "status \<Rightarrow> bool" where
  "status_ok s = (st_code s = Status_Ok)"

definition status_success :: status where
  "status_success = \<lparr>st_code = Status_Ok, st_reason = Reason_None, st_detail = ''''\<rparr>"

definition status_failure :: "status_code \<Rightarrow> reason_code \<Rightarrow> string \<Rightarrow> status" where
  "status_failure c r d = \<lparr>st_code = c, st_reason = r, st_detail = d\<rparr>"

definition status_to_string :: "status \<Rightarrow> string" where
  "status_to_string s =
     status_code_name (st_code s)
     @ (if st_reason s \<noteq> Reason_None then '' ('' @ reason_code_name (st_reason s) @ '')'' else '''')
     @ (if st_detail s \<noteq> '''' then '': '' @ st_detail s else '''')"

lemma status_ok_success [simp]: "status_ok status_success"
  by (simp add: status_ok_def status_success_def)

lemma status_ok_failure [simp]: "status_ok (status_failure c r d) = (c = Status_Ok)"
  by (simp add: status_ok_def status_failure_def)

lemma status_failure_sel [simp]:
  "st_code (status_failure c r d) = c"
  "st_reason (status_failure c r d) = r"
  "st_detail (status_failure c r d) = d"
  by (simp_all add: status_failure_def)

section \<open>Governance outcomes\<close>

datatype outcome =
  Outcome_WithinPolicy
| Outcome_AtLimit
| Outcome_ReductionRequired
| Outcome_EmergencyReduction
| Outcome_PolicyRejected
| Outcome_Unknown
| Outcome_Stale
| Outcome_ConflictingInput
| Outcome_cast u32

primrec outcome_to_u32 :: "outcome \<Rightarrow> u32" where
  "outcome_to_u32 Outcome_WithinPolicy = 0"
| "outcome_to_u32 Outcome_AtLimit = 1"
| "outcome_to_u32 Outcome_ReductionRequired = 2"
| "outcome_to_u32 Outcome_EmergencyReduction = 3"
| "outcome_to_u32 Outcome_PolicyRejected = 4"
| "outcome_to_u32 Outcome_Unknown = 5"
| "outcome_to_u32 Outcome_Stale = 6"
| "outcome_to_u32 Outcome_ConflictingInput = 7"
| "outcome_to_u32 (Outcome_cast n) = n"

definition outcome_of_u32 :: "u32 \<Rightarrow> outcome" where
  "outcome_of_u32 n =
     (if n = 0 then Outcome_WithinPolicy
      else if n = 1 then Outcome_AtLimit
      else if n = 2 then Outcome_ReductionRequired
      else if n = 3 then Outcome_EmergencyReduction
      else if n = 4 then Outcome_PolicyRejected
      else if n = 5 then Outcome_Unknown
      else if n = 6 then Outcome_Stale
      else if n = 7 then Outcome_ConflictingInput
      else Outcome_cast n)"

definition wf_outcome :: "outcome \<Rightarrow> bool" where
  "wf_outcome x = (case x of Outcome_cast n \<Rightarrow> 8 \<le> n | _ \<Rightarrow> True)"

lemma outcome_of_to_u32 [codec_simps]: "wf_outcome x \<Longrightarrow> outcome_of_u32 (outcome_to_u32 x) = x"
  by (cases x) (auto simp: wf_outcome_def outcome_of_u32_def word_le_nat_alt)

lemma outcome_to_of_u32 [simp]: "outcome_to_u32 (outcome_of_u32 n) = n"
  by (simp add: outcome_of_u32_def)

lemma wf_outcome_of_u32 [simp]: "wf_outcome (outcome_of_u32 n)"
  by (simp add: outcome_of_u32_def wf_outcome_def word_le_nat_alt word_eq_by_unat; arith)

primrec outcome_name :: "outcome \<Rightarrow> string" where
  "outcome_name Outcome_WithinPolicy = ''WITHIN_POLICY''"
| "outcome_name Outcome_AtLimit = ''AT_LIMIT''"
| "outcome_name Outcome_ReductionRequired = ''REDUCTION_REQUIRED''"
| "outcome_name Outcome_EmergencyReduction = ''EMERGENCY_REDUCTION''"
| "outcome_name Outcome_PolicyRejected = ''POLICY_REJECTED''"
| "outcome_name Outcome_Unknown = ''UNKNOWN''"
| "outcome_name Outcome_Stale = ''STALE''"
| "outcome_name Outcome_ConflictingInput = ''CONFLICTING_INPUT''"
| "outcome_name (Outcome_cast n) = ''UNKNOWN''"

definition outcome_is_authoritative :: "outcome \<Rightarrow> bool" where
  "outcome_is_authoritative out =
     (case out of
        Outcome_WithinPolicy \<Rightarrow> True
      | Outcome_AtLimit \<Rightarrow> True
      | Outcome_ReductionRequired \<Rightarrow> True
      | Outcome_EmergencyReduction \<Rightarrow> True
      | _ \<Rightarrow> False)"

definition outcome_allows_new_authority :: "outcome \<Rightarrow> bool" where
  "outcome_allows_new_authority out = (out = Outcome_WithinPolicy)"

definition outcome_requires_corrective :: "outcome \<Rightarrow> bool" where
  "outcome_requires_corrective out =
     (case out of
        Outcome_ReductionRequired \<Rightarrow> True
      | Outcome_EmergencyReduction \<Rightarrow> True
      | Outcome_PolicyRejected \<Rightarrow> True
      | Outcome_ConflictingInput \<Rightarrow> True
      | _ \<Rightarrow> False)"

primrec outcome_severity :: "outcome \<Rightarrow> u32" where
  "outcome_severity Outcome_WithinPolicy = 0"
| "outcome_severity Outcome_AtLimit = 1"
| "outcome_severity Outcome_ReductionRequired = 2"
| "outcome_severity Outcome_EmergencyReduction = 3"
| "outcome_severity Outcome_PolicyRejected = 4"
| "outcome_severity Outcome_Stale = 5"
| "outcome_severity Outcome_ConflictingInput = 6"
| "outcome_severity Outcome_Unknown = 7"
| "outcome_severity (Outcome_cast n) = 7"

lemma outcome_severity_0: "outcome_severity out = 0 \<longleftrightarrow> out = Outcome_WithinPolicy"
  by (cases out) auto

lemma outcome_severity_1: "outcome_severity out = 1 \<longleftrightarrow> out = Outcome_AtLimit"
  by (cases out) (auto simp: word_le_nat_alt)

lemma outcome_severity_ge2:
  "2 \<le> outcome_severity out \<longleftrightarrow> out \<noteq> Outcome_WithinPolicy \<and> out \<noteq> Outcome_AtLimit"
  by (cases out) (auto simp: word_le_nat_alt)

section \<open>Constraints, corrective intent, health and demand\<close>

datatype constraint =
  Constraint_None
| Constraint_ConfiguredRatio
| Constraint_PolicyRatioCap
| Constraint_DegradedRatioCap
| Constraint_RiskBudgetExposureAbsolute
| Constraint_RiskBudgetExposurePpm
| Constraint_MinimumProtectedHeadroom
| Constraint_EmergencyReserve
| Constraint_GuaranteeProtectionFloor
| Constraint_UsableCapacity
| Constraint_NoCapacity
| Constraint_ServiceClassExclusion
| Constraint_BurstPoolCap
| Constraint_DomainNotCovered
| Constraint_cast u32

primrec constraint_to_u32 :: "constraint \<Rightarrow> u32" where
  "constraint_to_u32 Constraint_None = 0"
| "constraint_to_u32 Constraint_ConfiguredRatio = 1"
| "constraint_to_u32 Constraint_PolicyRatioCap = 2"
| "constraint_to_u32 Constraint_DegradedRatioCap = 3"
| "constraint_to_u32 Constraint_RiskBudgetExposureAbsolute = 4"
| "constraint_to_u32 Constraint_RiskBudgetExposurePpm = 5"
| "constraint_to_u32 Constraint_MinimumProtectedHeadroom = 6"
| "constraint_to_u32 Constraint_EmergencyReserve = 7"
| "constraint_to_u32 Constraint_GuaranteeProtectionFloor = 8"
| "constraint_to_u32 Constraint_UsableCapacity = 9"
| "constraint_to_u32 Constraint_NoCapacity = 10"
| "constraint_to_u32 Constraint_ServiceClassExclusion = 11"
| "constraint_to_u32 Constraint_BurstPoolCap = 12"
| "constraint_to_u32 Constraint_DomainNotCovered = 13"
| "constraint_to_u32 (Constraint_cast n) = n"

definition constraint_of_u32 :: "u32 \<Rightarrow> constraint" where
  "constraint_of_u32 n =
     (if n = 0 then Constraint_None
      else if n = 1 then Constraint_ConfiguredRatio
      else if n = 2 then Constraint_PolicyRatioCap
      else if n = 3 then Constraint_DegradedRatioCap
      else if n = 4 then Constraint_RiskBudgetExposureAbsolute
      else if n = 5 then Constraint_RiskBudgetExposurePpm
      else if n = 6 then Constraint_MinimumProtectedHeadroom
      else if n = 7 then Constraint_EmergencyReserve
      else if n = 8 then Constraint_GuaranteeProtectionFloor
      else if n = 9 then Constraint_UsableCapacity
      else if n = 10 then Constraint_NoCapacity
      else if n = 11 then Constraint_ServiceClassExclusion
      else if n = 12 then Constraint_BurstPoolCap
      else if n = 13 then Constraint_DomainNotCovered
      else Constraint_cast n)"

definition wf_constraint :: "constraint \<Rightarrow> bool" where
  "wf_constraint x = (case x of Constraint_cast n \<Rightarrow> 14 \<le> n | _ \<Rightarrow> True)"

lemma constraint_of_to_u32 [codec_simps]: "wf_constraint x \<Longrightarrow> constraint_of_u32 (constraint_to_u32 x) = x"
  by (cases x) (auto simp: wf_constraint_def constraint_of_u32_def word_le_nat_alt)

lemma constraint_to_of_u32 [simp]: "constraint_to_u32 (constraint_of_u32 n) = n"
  by (simp add: constraint_of_u32_def)

lemma wf_constraint_of_u32 [simp]: "wf_constraint (constraint_of_u32 n)"
  by (simp add: constraint_of_u32_def wf_constraint_def word_le_nat_alt word_eq_by_unat; arith)

primrec constraint_name :: "constraint \<Rightarrow> string" where
  "constraint_name Constraint_None = ''NONE''"
| "constraint_name Constraint_ConfiguredRatio = ''CONFIGURED_RATIO''"
| "constraint_name Constraint_PolicyRatioCap = ''POLICY_RATIO_CAP''"
| "constraint_name Constraint_DegradedRatioCap = ''DEGRADED_RATIO_CAP''"
| "constraint_name Constraint_RiskBudgetExposureAbsolute = ''RISK_BUDGET_EXPOSURE_ABSOLUTE''"
| "constraint_name Constraint_RiskBudgetExposurePpm = ''RISK_BUDGET_EXPOSURE_PPM''"
| "constraint_name Constraint_MinimumProtectedHeadroom = ''MINIMUM_PROTECTED_HEADROOM''"
| "constraint_name Constraint_EmergencyReserve = ''EMERGENCY_RESERVE''"
| "constraint_name Constraint_GuaranteeProtectionFloor = ''GUARANTEE_PROTECTION_FLOOR''"
| "constraint_name Constraint_UsableCapacity = ''USABLE_CAPACITY''"
| "constraint_name Constraint_NoCapacity = ''NO_CAPACITY''"
| "constraint_name Constraint_ServiceClassExclusion = ''SERVICE_CLASS_EXCLUSION''"
| "constraint_name Constraint_BurstPoolCap = ''BURST_POOL_CAP''"
| "constraint_name Constraint_DomainNotCovered = ''DOMAIN_NOT_COVERED''"
| "constraint_name (Constraint_cast n) = ''NONE''"

datatype corrective_kind =
  Corrective_None
| Corrective_ReduceContingentAdmissionBudget
| Corrective_RequestBorrowedCapacityRecall
| Corrective_ReduceBurstPool
| Corrective_IncreaseProtectedHeadroom
| Corrective_FenceOversubscribedAdmission
| Corrective_RevalidateEvidence
| Corrective_ResolveConflictingEvidence
| Corrective_cast u32

primrec corrective_kind_to_u32 :: "corrective_kind \<Rightarrow> u32" where
  "corrective_kind_to_u32 Corrective_None = 0"
| "corrective_kind_to_u32 Corrective_ReduceContingentAdmissionBudget = 1"
| "corrective_kind_to_u32 Corrective_RequestBorrowedCapacityRecall = 2"
| "corrective_kind_to_u32 Corrective_ReduceBurstPool = 3"
| "corrective_kind_to_u32 Corrective_IncreaseProtectedHeadroom = 4"
| "corrective_kind_to_u32 Corrective_FenceOversubscribedAdmission = 5"
| "corrective_kind_to_u32 Corrective_RevalidateEvidence = 6"
| "corrective_kind_to_u32 Corrective_ResolveConflictingEvidence = 7"
| "corrective_kind_to_u32 (Corrective_cast n) = n"

definition corrective_kind_of_u32 :: "u32 \<Rightarrow> corrective_kind" where
  "corrective_kind_of_u32 n =
     (if n = 0 then Corrective_None
      else if n = 1 then Corrective_ReduceContingentAdmissionBudget
      else if n = 2 then Corrective_RequestBorrowedCapacityRecall
      else if n = 3 then Corrective_ReduceBurstPool
      else if n = 4 then Corrective_IncreaseProtectedHeadroom
      else if n = 5 then Corrective_FenceOversubscribedAdmission
      else if n = 6 then Corrective_RevalidateEvidence
      else if n = 7 then Corrective_ResolveConflictingEvidence
      else Corrective_cast n)"

definition wf_corrective_kind :: "corrective_kind \<Rightarrow> bool" where
  "wf_corrective_kind x = (case x of Corrective_cast n \<Rightarrow> 8 \<le> n | _ \<Rightarrow> True)"

lemma corrective_kind_of_to_u32 [codec_simps]: "wf_corrective_kind x \<Longrightarrow> corrective_kind_of_u32 (corrective_kind_to_u32 x) = x"
  by (cases x) (auto simp: wf_corrective_kind_def corrective_kind_of_u32_def word_le_nat_alt)

lemma corrective_kind_to_of_u32 [simp]: "corrective_kind_to_u32 (corrective_kind_of_u32 n) = n"
  by (simp add: corrective_kind_of_u32_def)

lemma wf_corrective_kind_of_u32 [simp]: "wf_corrective_kind (corrective_kind_of_u32 n)"
  by (simp add: corrective_kind_of_u32_def wf_corrective_kind_def word_le_nat_alt word_eq_by_unat; arith)

primrec corrective_kind_name :: "corrective_kind \<Rightarrow> string" where
  "corrective_kind_name Corrective_None = ''NONE''"
| "corrective_kind_name Corrective_ReduceContingentAdmissionBudget = ''REDUCE_CONTINGENT_ADMISSION_BUDGET''"
| "corrective_kind_name Corrective_RequestBorrowedCapacityRecall = ''REQUEST_BORROWED_CAPACITY_RECALL''"
| "corrective_kind_name Corrective_ReduceBurstPool = ''REDUCE_BURST_POOL''"
| "corrective_kind_name Corrective_IncreaseProtectedHeadroom = ''INCREASE_PROTECTED_HEADROOM''"
| "corrective_kind_name Corrective_FenceOversubscribedAdmission = ''FENCE_OVERSUBSCRIBED_ADMISSION''"
| "corrective_kind_name Corrective_RevalidateEvidence = ''REVALIDATE_EVIDENCE''"
| "corrective_kind_name Corrective_ResolveConflictingEvidence = ''RESOLVE_CONFLICTING_EVIDENCE''"
| "corrective_kind_name (Corrective_cast n) = ''NONE''"

datatype corrective_target =
  Target_Domain
| Target_Resource
| Target_Pool
| Target_ServiceClass
| Target_cast u32

primrec corrective_target_to_u32 :: "corrective_target \<Rightarrow> u32" where
  "corrective_target_to_u32 Target_Domain = 0"
| "corrective_target_to_u32 Target_Resource = 1"
| "corrective_target_to_u32 Target_Pool = 2"
| "corrective_target_to_u32 Target_ServiceClass = 3"
| "corrective_target_to_u32 (Target_cast n) = n"

definition corrective_target_of_u32 :: "u32 \<Rightarrow> corrective_target" where
  "corrective_target_of_u32 n =
     (if n = 0 then Target_Domain
      else if n = 1 then Target_Resource
      else if n = 2 then Target_Pool
      else if n = 3 then Target_ServiceClass
      else Target_cast n)"

definition wf_corrective_target :: "corrective_target \<Rightarrow> bool" where
  "wf_corrective_target x = (case x of Target_cast n \<Rightarrow> 4 \<le> n | _ \<Rightarrow> True)"

lemma corrective_target_of_to_u32 [codec_simps]: "wf_corrective_target x \<Longrightarrow> corrective_target_of_u32 (corrective_target_to_u32 x) = x"
  by (cases x) (auto simp: wf_corrective_target_def corrective_target_of_u32_def word_le_nat_alt)

lemma corrective_target_to_of_u32 [simp]: "corrective_target_to_u32 (corrective_target_of_u32 n) = n"
  by (simp add: corrective_target_of_u32_def)

lemma wf_corrective_target_of_u32 [simp]: "wf_corrective_target (corrective_target_of_u32 n)"
  by (simp add: corrective_target_of_u32_def wf_corrective_target_def word_le_nat_alt word_eq_by_unat; arith)

primrec corrective_target_name :: "corrective_target \<Rightarrow> string" where
  "corrective_target_name Target_Domain = ''DOMAIN''"
| "corrective_target_name Target_Resource = ''RESOURCE''"
| "corrective_target_name Target_Pool = ''POOL''"
| "corrective_target_name Target_ServiceClass = ''SERVICE_CLASS''"
| "corrective_target_name (Target_cast n) = ''DOMAIN''"

datatype resource_health =
  Health_Unknown
| Health_Healthy
| Health_Degraded
| Health_Failed
| Health_cast u32

primrec resource_health_to_u32 :: "resource_health \<Rightarrow> u32" where
  "resource_health_to_u32 Health_Unknown = 0"
| "resource_health_to_u32 Health_Healthy = 1"
| "resource_health_to_u32 Health_Degraded = 2"
| "resource_health_to_u32 Health_Failed = 3"
| "resource_health_to_u32 (Health_cast n) = n"

definition resource_health_of_u32 :: "u32 \<Rightarrow> resource_health" where
  "resource_health_of_u32 n =
     (if n = 0 then Health_Unknown
      else if n = 1 then Health_Healthy
      else if n = 2 then Health_Degraded
      else if n = 3 then Health_Failed
      else Health_cast n)"

definition wf_resource_health :: "resource_health \<Rightarrow> bool" where
  "wf_resource_health x = (case x of Health_cast n \<Rightarrow> 4 \<le> n | _ \<Rightarrow> True)"

lemma resource_health_of_to_u32 [codec_simps]: "wf_resource_health x \<Longrightarrow> resource_health_of_u32 (resource_health_to_u32 x) = x"
  by (cases x) (auto simp: wf_resource_health_def resource_health_of_u32_def word_le_nat_alt)

lemma resource_health_to_of_u32 [simp]: "resource_health_to_u32 (resource_health_of_u32 n) = n"
  by (simp add: resource_health_of_u32_def)

lemma wf_resource_health_of_u32 [simp]: "wf_resource_health (resource_health_of_u32 n)"
  by (simp add: resource_health_of_u32_def wf_resource_health_def word_le_nat_alt word_eq_by_unat; arith)

primrec resource_health_name :: "resource_health \<Rightarrow> string" where
  "resource_health_name Health_Unknown = ''UNKNOWN''"
| "resource_health_name Health_Healthy = ''HEALTHY''"
| "resource_health_name Health_Degraded = ''DEGRADED''"
| "resource_health_name Health_Failed = ''FAILED''"
| "resource_health_name (Health_cast n) = ''UNKNOWN''"

datatype demand_kind =
  Demand_Unknown
| Demand_Guaranteed
| Demand_Contingent
| Demand_Burst
| Demand_cast u32

primrec demand_kind_to_u32 :: "demand_kind \<Rightarrow> u32" where
  "demand_kind_to_u32 Demand_Unknown = 0"
| "demand_kind_to_u32 Demand_Guaranteed = 1"
| "demand_kind_to_u32 Demand_Contingent = 2"
| "demand_kind_to_u32 Demand_Burst = 3"
| "demand_kind_to_u32 (Demand_cast n) = n"

definition demand_kind_of_u32 :: "u32 \<Rightarrow> demand_kind" where
  "demand_kind_of_u32 n =
     (if n = 0 then Demand_Unknown
      else if n = 1 then Demand_Guaranteed
      else if n = 2 then Demand_Contingent
      else if n = 3 then Demand_Burst
      else Demand_cast n)"

definition wf_demand_kind :: "demand_kind \<Rightarrow> bool" where
  "wf_demand_kind x = (case x of Demand_cast n \<Rightarrow> 4 \<le> n | _ \<Rightarrow> True)"

lemma demand_kind_of_to_u32 [codec_simps]: "wf_demand_kind x \<Longrightarrow> demand_kind_of_u32 (demand_kind_to_u32 x) = x"
  by (cases x) (auto simp: wf_demand_kind_def demand_kind_of_u32_def word_le_nat_alt)

lemma demand_kind_to_of_u32 [simp]: "demand_kind_to_u32 (demand_kind_of_u32 n) = n"
  by (simp add: demand_kind_of_u32_def)

lemma wf_demand_kind_of_u32 [simp]: "wf_demand_kind (demand_kind_of_u32 n)"
  by (simp add: demand_kind_of_u32_def wf_demand_kind_def word_le_nat_alt word_eq_by_unat; arith)

primrec demand_kind_name :: "demand_kind \<Rightarrow> string" where
  "demand_kind_name Demand_Unknown = ''UNKNOWN''"
| "demand_kind_name Demand_Guaranteed = ''GUARANTEED''"
| "demand_kind_name Demand_Contingent = ''CONTINGENT''"
| "demand_kind_name Demand_Burst = ''BURST''"
| "demand_kind_name (Demand_cast n) = ''UNKNOWN''"

end
