(* ===== verification/Ids.thy ===== *)
theory Ids
  imports Prelude
begin

text \<open>
  \<^verbatim>\<open>include/oversub/ids.hpp\<close>: identities, generations, the fabric epoch and the priority
  reference. The class templates \<^verbatim>\<open>StrongId<Tag>\<close> and \<^verbatim>\<open>Gen<Tag>\<close> are datatypes with a phantom
  type argument, so that an identity of one kind cannot be used as another; \<open>0\<close> means unset.
\<close>

datatype 'tag strong_id = StrongId (id_value: u64)

definition id_valid :: "'tag strong_id \<Rightarrow> bool" where
  "id_valid i = (id_value i \<noteq> 0)"

definition id_to_string :: "'tag strong_id \<Rightarrow> string" where
  "id_to_string i = to_string_u64 (id_value i)"

instantiation strong_id :: (type) linorder
begin

definition less_eq_strong_id :: "'a strong_id \<Rightarrow> 'a strong_id \<Rightarrow> bool" where
  "less_eq_strong_id a b = (id_value a \<le> id_value b)"

definition less_strong_id :: "'a strong_id \<Rightarrow> 'a strong_id \<Rightarrow> bool" where
  "less_strong_id a b = (id_value a < id_value b)"

instance
  by standard (auto simp: less_eq_strong_id_def less_strong_id_def strong_id.expand)

end

datatype 'tag gen = Gen (gen_value: u64)

definition gen_valid :: "'tag gen \<Rightarrow> bool" where
  "gen_valid g = (gen_value g \<noteq> 0)"

definition gen_to_string :: "'tag gen \<Rightarrow> string" where
  "gen_to_string g = to_string_u64 (gen_value g)"

instantiation gen :: (type) linorder
begin

definition less_eq_gen :: "'a gen \<Rightarrow> 'a gen \<Rightarrow> bool" where
  "less_eq_gen a b = (gen_value a \<le> gen_value b)"

definition less_gen :: "'a gen \<Rightarrow> 'a gen \<Rightarrow> bool" where
  "less_gen a b = (gen_value a < gen_value b)"

instance
  by standard (auto simp: less_eq_gen_def less_gen_def gen.expand)

end

definition next_id :: "'tag strong_id \<Rightarrow> 'tag strong_id" where
  "next_id i = StrongId (id_value i + 1)"

definition next_gen :: "'tag gen \<Rightarrow> 'tag gen" where
  "next_gen g = Gen (gen_value g + 1)"

typedecl domain_tag
typedecl resource_tag
typedecl pool_tag
typedecl policy_tag
typedecl risk_budget_tag
typedecl service_class_tag
typedecl reservation_tag
typedecl admission_tag
typedecl evidence_tag
typedecl publisher_tag
typedecl decision_tag
typedecl incarnation_tag
typedecl attempt_tag
typedecl audit_record_tag
typedecl capacity_snapshot_tag
typedecl reservation_snapshot_tag
typedecl admission_snapshot_tag
typedecl state_revision_tag

type_synonym domain_id = "domain_tag strong_id"
type_synonym resource_id = "resource_tag strong_id"
type_synonym pool_id = "pool_tag strong_id"
type_synonym policy_id = "policy_tag strong_id"
type_synonym risk_budget_id = "risk_budget_tag strong_id"
type_synonym service_class_id = "service_class_tag strong_id"
type_synonym reservation_id = "reservation_tag strong_id"
type_synonym admission_id = "admission_tag strong_id"
type_synonym evidence_id = "evidence_tag strong_id"
type_synonym publisher_id = "publisher_tag strong_id"
type_synonym decision_id = "decision_tag strong_id"
type_synonym incarnation_id = "incarnation_tag strong_id"
type_synonym attempt_id = "attempt_tag strong_id"
type_synonym audit_record_id = "audit_record_tag strong_id"

type_synonym domain_generation = "domain_tag gen"
type_synonym policy_generation = "policy_tag gen"
type_synonym resource_generation = "resource_tag gen"
type_synonym capacity_snapshot_generation = "capacity_snapshot_tag gen"
type_synonym reservation_snapshot_generation = "reservation_snapshot_tag gen"
type_synonym admission_snapshot_generation = "admission_snapshot_tag gen"
type_synonym reservation_generation = "reservation_tag gen"
type_synonym admission_generation = "admission_tag gen"
type_synonym risk_budget_generation = "risk_budget_tag gen"
type_synonym state_revision = "state_revision_tag gen"

datatype fabric_epoch = FabricEpoch (epoch_value: u64)

definition epoch_valid :: "fabric_epoch \<Rightarrow> bool" where
  "epoch_valid e = (epoch_value e \<noteq> 0)"

definition epoch_to_string :: "fabric_epoch \<Rightarrow> string" where
  "epoch_to_string e = to_string_u64 (epoch_value e)"

datatype priority_ref = PriorityRef (priority_value: u32)

text \<open>The value identifies the identity, so sorting by value is sorting by identity.\<close>

lemma inj_id_value: "inj id_value"
  by (rule injI) (simp add: strong_id.expand)

lemma id_value_eq_iff: "id_value a = id_value b \<longleftrightarrow> a = b"
  by (auto simp: strong_id.expand)

lemma gen_value_eq_iff: "gen_value a = gen_value b \<longleftrightarrow> a = b"
  by (auto simp: gen.expand)

lemma distinct_id_value: "distinct (map (\<lambda>x. id_value (f x)) xs) = distinct (map f xs)"
  by (induction xs) (auto simp: id_value_eq_iff)

text \<open>A generation that does not wrap is strictly newer than the one before it.\<close>

lemma next_gen_greater: "gen_value g \<noteq> - 1 \<Longrightarrow> g < next_gen g"
  by (simp add: less_gen_def next_gen_def word_less_nat_alt unat_inc)

lemma gen_valid_next_gen: "gen_value g \<noteq> - 1 \<Longrightarrow> gen_valid (next_gen g)"
  by (simp add: gen_valid_def next_gen_def word_eq_by_unat [of _ 0] unat_inc)

end
