(* ===== verification/Checked.thy ===== *)
theory Checked
  imports Prelude
begin

text \<open>
  \<^verbatim>\<open>include/oversub/checked.hpp\<close> and \<^verbatim>\<open>src/checked.cpp\<close>: checked capacity arithmetic. A function
  that returns \<^verbatim>\<open>false\<close> and leaves its output unset returns \<^const>\<open>None\<close>. The exactness lemmas state
  each operation on the numbers its words stand for; the bitwise long division is proved equal to
  the path through a 128-bit product.
\<close>

type_synonym u128 = "128 word"

abbreviation u64_max :: u64 where "u64_max \<equiv> 18446744073709551615"

definition kPpmScale :: u64 where "kPpmScale = 1000000"

definition kMaxRatioTerm :: u64 where "kMaxRatioTerm = 1000000"

definition kHardMaxCapacityUnits :: u64 where "kHardMaxCapacityUnits = push_bit 48 1"

definition kHardMaxTicks :: u64 where "kHardMaxTicks = push_bit 62 1"

section \<open>Sums, differences and products\<close>

definition add_checked :: "u64 \<Rightarrow> u64 \<Rightarrow> u64 option" where
  "add_checked a b = (if a > u64_max - b then None else Some (a + b))"

definition sub_checked :: "u64 \<Rightarrow> u64 \<Rightarrow> u64 option" where
  "sub_checked a b = (if b > a then None else Some (a - b))"

definition mul_checked :: "u64 \<Rightarrow> u64 \<Rightarrow> u64 option" where
  "mul_checked a b = (if a \<noteq> 0 \<and> b > u64_max div a then None else Some (a * b))"

definition add_sat :: "u64 \<Rightarrow> u64 \<Rightarrow> u64" where
  "add_sat a b = (case add_checked a b of Some r \<Rightarrow> r | None \<Rightarrow> u64_max)"

definition mul_sat :: "u64 \<Rightarrow> u64 \<Rightarrow> u64" where
  "mul_sat a b = (case mul_checked a b of Some r \<Rightarrow> r | None \<Rightarrow> u64_max)"

fun sum_from :: "u64 \<Rightarrow> u64 list \<Rightarrow> u64 option" where
  "sum_from acc [] = Some acc"
| "sum_from acc (v # vs) = (case add_checked acc v of None \<Rightarrow> None | Some acc' \<Rightarrow> sum_from acc' vs)"

definition sum_checked :: "u64 list \<Rightarrow> u64 option" where
  "sum_checked vs = sum_from 0 vs"

section \<open>Multiply and divide\<close>

text \<open>The schoolbook 128-bit product over 32-bit limbs: the high word and the low word.\<close>

definition schoolbook_product :: "u64 \<Rightarrow> u64 \<Rightarrow> u64 \<times> u64" where
  "schoolbook_product a b =
     (let a0 = a AND 0xFFFFFFFF; a1 = drop_bit 32 a;
          b0 = b AND 0xFFFFFFFF; b1 = drop_bit 32 b;
          p00 = a0 * b0; p01 = a0 * b1; p10 = a1 * b0; p11 = a1 * b1;
          mid = drop_bit 32 p00 + (p01 AND 0xFFFFFFFF) + (p10 AND 0xFFFFFFFF);
          lo = (p00 AND 0xFFFFFFFF) OR push_bit 32 mid;
          hi = p11 + drop_bit 32 p01 + drop_bit 32 p10 + drop_bit 32 mid
      in (hi, lo))"

text \<open>The loop over the bits of \<open>lo\<close>; the first argument counts the bits still to be consumed.\<close>

fun division_steps :: "nat \<Rightarrow> u64 \<Rightarrow> u64 \<Rightarrow> u64 \<Rightarrow> u64 \<Rightarrow> u64 \<times> u64" where
  "division_steps 0 lo d rem quot = (quot, rem)"
| "division_steps (Suc k) lo d rem quot =
     (let carry = drop_bit 63 rem;
          rem' = push_bit 1 rem OR (drop_bit k lo AND 1);
          quot' = push_bit 1 quot
      in if carry \<noteq> 0 \<or> rem' \<ge> d
         then division_steps k lo d (rem' - d) (quot' OR 1)
         else division_steps k lo d rem' quot')"

definition long_division_ex :: "u64 \<Rightarrow> u64 \<Rightarrow> u64 \<Rightarrow> (u64 \<times> u64) option" where
  "long_division_ex a b d =
     (if d = 0 then None
      else let (hi, lo) = (case mul_checked a b of Some p \<Rightarrow> (0, p) | None \<Rightarrow> schoolbook_product a b)
           in if hi = 0 then Some (lo div d, lo mod d)
              else if hi \<ge> d then None
              else Some (division_steps 64 lo d hi 0))"

definition mul_div_floor_reference :: "u64 \<Rightarrow> u64 \<Rightarrow> u64 \<Rightarrow> u64 option" where
  "mul_div_floor_reference a b d = map_option fst (long_division_ex a b d)"

definition mul_div_floor :: "u64 \<Rightarrow> u64 \<Rightarrow> u64 \<Rightarrow> u64 option" where
  "mul_div_floor a b d =
     (if d = 0 then None
      else if a = 0 \<or> b = 0 then Some 0
      else let product = ucast a * ucast b :: u128;
               quotient = product div ucast d
           in if quotient > ucast u64_max then None else Some (ucast quotient))"

definition mul_div_floor_sat :: "u64 \<Rightarrow> u64 \<Rightarrow> u64 \<Rightarrow> u64" where
  "mul_div_floor_sat a b d = (case mul_div_floor a b d of None \<Rightarrow> u64_max | Some r \<Rightarrow> r)"

definition mul_div_ceil :: "u64 \<Rightarrow> u64 \<Rightarrow> u64 \<Rightarrow> u64 option" where
  "mul_div_ceil a b d =
     (if d = 0 then None
      else if a = 0 \<or> b = 0 then Some 0
      else let product = ucast a * ucast b :: u128;
               quotient = product div ucast d
           in if quotient > ucast u64_max then None
              else let q = ucast quotient; rem = ucast (product mod ucast d) :: u64
                   in if rem = 0 then Some q else add_checked q 1)"

definition ppm_of :: "u64 \<Rightarrow> u64 \<Rightarrow> u64 option" where
  "ppm_of value ppm = mul_div_floor value ppm kPpmScale"

section \<open>Ratios\<close>

record ratio =
  rat_num :: u64
  rat_den :: u64

abbreviation Ratio :: "u64 \<Rightarrow> u64 \<Rightarrow> ratio" where
  "Ratio n d \<equiv> \<lparr>rat_num = n, rat_den = d\<rparr>"

definition ratio_ge :: "ratio \<Rightarrow> ratio \<Rightarrow> bool" where
  "ratio_ge a b = (rat_num a * rat_den b \<ge> rat_num b * rat_den a)"

definition ratio_le :: "ratio \<Rightarrow> ratio \<Rightarrow> bool" where
  "ratio_le a b = ratio_ge b a"

definition ratio_gt :: "ratio \<Rightarrow> ratio \<Rightarrow> bool" where
  "ratio_gt a b = (\<not> ratio_ge b a)"

definition ratio_lt :: "ratio \<Rightarrow> ratio \<Rightarrow> bool" where
  "ratio_lt a b = (\<not> ratio_ge a b)"

definition ratio_eq :: "ratio \<Rightarrow> ratio \<Rightarrow> bool" where
  "ratio_eq a b = (rat_num a * rat_den b = rat_num b * rat_den a)"

definition ratio_min :: "ratio \<Rightarrow> ratio \<Rightarrow> ratio" where
  "ratio_min a b = (if ratio_le a b then a else b)"

definition ratio_valid :: "ratio \<Rightarrow> bool" where
  "ratio_valid r =
     (if rat_den r = 0 then False
      else if rat_num r = 0 then False
      else if rat_den r > kMaxRatioTerm \<or> rat_num r > kMaxRatioTerm then False
      else ratio_ge r (Ratio 1 1))"

definition ratio_ppm :: "ratio \<Rightarrow> u64" where
  "ratio_ppm r = (if rat_den r = 0 then u64_max else mul_div_floor_sat (rat_num r) kPpmScale (rat_den r))"

definition ratio_to_string :: "ratio \<Rightarrow> string" where
  "ratio_to_string r = to_string_u64 (rat_num r) @ '':'' @ to_string_u64 (rat_den r)"

section \<open>Exactness of the checked operations\<close>

lemma constants_simps [simp]:
  "unat kPpmScale = 1000000" "unat kMaxRatioTerm = 1000000"
  "unat kHardMaxCapacityUnits = 281474976710656" "unat kHardMaxTicks = 4611686018427387904"
  by (simp_all add: kPpmScale_def kMaxRatioTerm_def kHardMaxCapacityUnits_def kHardMaxTicks_def)

lemma unat_u64_max [simp]: "unat u64_max = 18446744073709551615"
  by simp

lemma le_u64_max [simp]: "x \<le> u64_max"
  using unat_u64_le [of x] by (simp add: word_le_nat_alt)

lemma add_checked_exact:
  "add_checked a b =
     (if unat a + unat b < 18446744073709551616 then Some (word_of_nat (unat a + unat b)) else None)"
  using unat_u64_le [of a] unat_u64_le [of b]
  by (auto simp: add_checked_def word_less_nat_alt unat_diff_u64)

lemma sub_checked_exact:
  "sub_checked a b = (if unat b \<le> unat a then Some (word_of_nat (unat a - unat b)) else None)"
  by (auto simp: sub_checked_def word_less_nat_alt of_nat_diff)

lemma mul_checked_exact:
  "mul_checked a b =
     (if unat a * unat b < 18446744073709551616 then Some (word_of_nat (unat a * unat b)) else None)"
proof (cases "a = 0")
  case False
  then have pos: "0 < unat a" by (simp add: unat_gt_0)
  have "unat b \<le> 18446744073709551615 div unat a \<longleftrightarrow> unat b * unat a \<le> 18446744073709551615"
    by (rule less_eq_div_iff_mult_less_eq [OF pos])
  with False show ?thesis
    by (auto simp: mul_checked_def word_less_nat_alt unat_div mult.commute)
qed (simp add: mul_checked_def)

lemma add_checked_Some:
  "add_checked a b = Some c \<longleftrightarrow> unat a + unat b < 18446744073709551616 \<and> unat c = unat a + unat b"
  by (auto simp: add_checked_exact word_eq_by_unat [of _ c] unat_add_u64)

lemma sub_checked_Some:
  "sub_checked a b = Some c \<longleftrightarrow> unat b \<le> unat a \<and> unat c = unat a - unat b"
  by (auto simp: sub_checked_exact word_eq_by_unat [of _ c] unat_diff_u64 word_le_nat_alt)

lemma mul_checked_Some:
  "mul_checked a b = Some c \<longleftrightarrow> unat a * unat b < 18446744073709551616 \<and> unat c = unat a * unat b"
  by (auto simp: mul_checked_exact word_eq_by_unat [of _ c] unat_mult_u64)

lemma add_sat_exact: "unat (add_sat a b) = min (unat a + unat b) 18446744073709551615"
  by (auto simp: add_sat_def add_checked_exact min_def unat_add_u64)

lemma mul_sat_exact: "unat (mul_sat a b) = min (unat a * unat b) 18446744073709551615"
  by (auto simp: mul_sat_def mul_checked_exact min_def unat_mult_u64)

lemma sum_from_exact:
  "sum_from acc vs =
     (if unat acc + sum_list (map unat vs) < 18446744073709551616
      then Some (word_of_nat (unat acc + sum_list (map unat vs))) else None)"
  by (induction vs arbitrary: acc) (auto simp: add_checked_exact add.assoc unat_add_u64)

text \<open>
  The checked sum of a list is the mathematical sum when that fits in 64 bits, whatever the order
  in which it is formed, and otherwise a refusal: it never wraps.
\<close>

lemma sum_checked_exact:
  "sum_checked vs =
     (if sum_list (map unat vs) < 2 ^ 64 then Some (word_of_nat (sum_list (map unat vs))) else None)"
  by (simp add: sum_checked_def sum_from_exact)

section \<open>Exactness of multiply and divide\<close>

text \<open>The 128-bit path: products and quotients of zero-extended words are exact.\<close>

lemma unat_ucast_u128 [simp]: "unat (ucast (x :: u64) :: u128) = unat x"
proof -
  have "unat x < 2 ^ 128" by (rule less_le_trans [OF unat_u64_less]) simp
  then show ?thesis by (simp add: unsigned_ucast_eq take_bit_nat_eq_self)
qed

lemma unat_product_u128: "unat (ucast (a :: u64) * ucast (b :: u64) :: u128) = unat a * unat b"
proof -
  have "unat a * unat b \<le> 18446744073709551615 * 18446744073709551615"
    using unat_u64_le [of a] unat_u64_le [of b] by (rule mult_le_mono)
  then show ?thesis by (simp add: unat_word_ariths)
qed

lemma unat_quotient_u128:
  "unat ((ucast (a :: u64) * ucast (b :: u64) :: u128) div ucast (d :: u64)) = unat a * unat b div unat d"
  by (simp add: unat_div unat_product_u128)

lemma unat_remainder_u128:
  "unat ((ucast (a :: u64) * ucast (b :: u64) :: u128) mod ucast (d :: u64)) = unat a * unat b mod unat d"
  by (simp add: unat_mod unat_product_u128)

lemma mul_div_floor_nat:
  "mul_div_floor a b d =
     (if d = 0 \<or> 2 ^ 64 \<le> unat a * unat b div unat d then None
      else Some (word_of_nat (unat a * unat b div unat d)))"
proof (cases "d = 0 \<or> a = 0 \<or> b = 0")
  case True
  then show ?thesis by (auto simp: mul_div_floor_def)
next
  case False
  then show ?thesis
    by (simp add: mul_div_floor_def Let_def word_less_nat_alt unat_quotient_u128)
       (simp add: word_eq_by_unat unsigned_ucast_eq unat_quotient_u128 take_bit_nat_eq_self not_le)
qed

lemma nat_ceiling_div:
  assumes "0 < (d :: nat)"
  shows "(p + d - 1) div d = (if p mod d = 0 then p div d else p div d + 1)"
proof -
  have "p + d - 1 = p mod d + (d - 1) + p div d * d"
    using assms by simp
  then have "(p + d - 1) div d = (p mod d + (d - 1)) div d + p div d"
    using assms by (metis add.commute div_mult_self1 less_numeral_extra(3))
  moreover have "(p mod d + (d - 1)) div d = (if p mod d = 0 then 0 else 1)"
  proof (cases "p mod d = 0")
    case False
    moreover have "p mod d < d" using assms by simp
    ultimately show ?thesis by (auto intro!: div_nat_eqI)
  qed (use assms in simp)
  ultimately show ?thesis by simp
qed

lemma mul_div_ceil_nat:
  "mul_div_ceil a b d =
     (if d = 0 \<or> 2 ^ 64 \<le> (unat a * unat b + unat d - 1) div unat d then None
      else Some (word_of_nat ((unat a * unat b + unat d - 1) div unat d)))"
proof (cases "d = 0 \<or> a = 0 \<or> b = 0")
  case True
  then show ?thesis by (auto simp: mul_div_ceil_def unat_gt_0)
next
  case False
  then have d: "0 < unat d" by (simp add: unat_gt_0)
  define p where "p = unat a * unat b"
  have r: "p mod unat d < 18446744073709551616"
    using mod_less_divisor [OF d, of p] unat_u64_less [of d] by (rule less_trans)
  have rem: "(ucast ((ucast a * ucast b :: u128) mod ucast d) :: u64) = word_of_nat (p mod unat d)"
    using r by (simp add: word_eq_by_unat unsigned_ucast_eq unat_remainder_u128 take_bit_nat_eq_self p_def)
  have zero: "(word_of_nat (p mod unat d) :: u64) = 0 \<longleftrightarrow> p mod unat d = 0"
    using r by (simp add: word_eq_by_unat)
  have big: "(ucast (u64_max :: u64) < (ucast a * ucast b :: u128) div ucast d) \<longleftrightarrow> 2 ^ 64 \<le> p div unat d"
    by (simp add: word_less_nat_alt unat_quotient_u128 p_def) linarith
  have quot: "(ucast ((ucast a * ucast b :: u128) div ucast d) :: u64) = word_of_nat (p div unat d)"
    if "p div unat d < 18446744073709551616"
    using that by (simp add: word_eq_by_unat unsigned_ucast_eq unat_quotient_u128 take_bit_nat_eq_self p_def)
  have unfold: "mul_div_ceil a b d =
     (if 2 ^ 64 \<le> p div unat d then None
      else if p mod unat d = 0 then Some (word_of_nat (p div unat d))
      else add_checked (word_of_nat (p div unat d)) 1)"
    using False by (simp only: mul_div_ceil_def Let_def big rem zero) (auto simp: quot not_le)
  show ?thesis
    unfolding unfold nat_ceiling_div [OF d] p_def [symmetric]
    using d by (auto simp: add_checked_exact)
qed

lemma unat_drop_bit: "unat (drop_bit n (x :: 'a::len word)) = unat x div 2 ^ n"
  by (simp add: unat_drop_bit_eq flip: drop_bit_eq_div)

text \<open>One step of the long division, on numbers.\<close>

lemma shift_in_bit:
  "unat (push_bit 1 (x :: u64) OR (y AND 1)) = (2 * unat x + unat y mod 2) mod 18446744073709551616"
proof -
  have bit: "unat (y AND 1) = unat y mod 2" by (simp add: and_one_eq unat_mod)
  consider "y AND 1 = 0" "unat y mod 2 = 0" | "y AND 1 = 1" "unat y mod 2 = 1"
    using bit by (cases "unat y mod 2 = 0") (auto simp: word_eq_by_unat)
  then show ?thesis
  proof cases
    case 1
    then show ?thesis by (simp add: unat_word_ariths push_bit_eq_mult mult.commute)
  next
    case 2
    moreover have "push_bit 1 x OR 1 = 2 * x + 1" by (simp add: or_one_eq push_bit_eq_mult)
    ultimately show ?thesis by (simp add: unat_word_ariths mod_simps)
  qed
qed

lemma nat_div_mod_step:
  assumes "0 < (d :: nat)" and "b < 2"
  shows "(2 * h + b) div d = 2 * (h div d) + (if d \<le> 2 * (h mod d) + b then 1 else 0)"
    and "(2 * h + b) mod d = (if d \<le> 2 * (h mod d) + b then 2 * (h mod d) + b - d else 2 * (h mod d) + b)"
proof -
  let ?r = "2 * (h mod d) + b"
  have split: "2 * h + b = ?r + 2 * (h div d) * d"
    by (metis (no_types, lifting) add.assoc add.commute distrib_left mod_div_mult_eq mult.assoc)
  have small: "h mod d < d" using assms by simp
  have "?r div d = (if d \<le> ?r then 1 else 0)"
    using small assms(2) by (auto intro!: div_nat_eqI)
  then show "(2 * h + b) div d = 2 * (h div d) + (if d \<le> ?r then 1 else 0)"
    using assms(1) unfolding split by simp
  have "?r mod d = (if d \<le> ?r then ?r - d else ?r)"
    using small assms(2) by (simp add: le_mod_geq)
  then show "(2 * h + b) mod d = (if d \<le> ?r then ?r - d else ?r)"
    unfolding split by simp
qed


lemma division_steps_exact:
  assumes "n \<le> 64" and "h mod unat d = unat rem" and "h div unat d = unat quot"
    and "unat quot < 2 ^ (64 - n)" and "0 < unat d"
  shows "division_steps n lo d rem quot =
     (word_of_nat ((h * 2 ^ n + unat lo mod 2 ^ n) div unat d),
      word_of_nat ((h * 2 ^ n + unat lo mod 2 ^ n) mod unat d))"
  using assms
proof (induction n lo d rem quot arbitrary: h rule: division_steps.induct)
  case (1 lo d rem quot)
  then show ?case by simp
next
  case (2 k lo d rem quot)
  define b where "b = unat lo div 2 ^ k mod 2"
  define r where "r = 2 * unat rem + b"
  define rem' where "rem' = push_bit 1 rem OR (drop_bit k lo AND 1)"
  define h' where "h' = 2 * h + b"
  have b: "b < 2" by (simp add: b_def)
  have d: "0 < unat d" by fact
  have rem: "unat rem < unat d" using 2(4) d by (metis mod_less_divisor)
  have r_bound: "r < 2 * unat d" using rem b by (simp add: r_def)
  have rem'_nat: "unat rem' = r mod 18446744073709551616"
    unfolding rem'_def shift_in_bit r_def b_def by (simp add: unat_drop_bit del: drop_bit_eq_div)
  have d64: "unat d < 18446744073709551616" by simp
  have carry: "drop_bit 63 rem \<noteq> 0 \<longleftrightarrow> 18446744073709551616 \<le> r"
    using b unfolding r_def word_eq_by_unat [of _ 0] unat_drop_bit by (simp add: div_eq_0_iff) linarith
  have taken: "(drop_bit 63 rem \<noteq> 0 \<or> d \<le> rem') \<longleftrightarrow> unat d \<le> r"
  proof (cases "r < 18446744073709551616")
    case False
    with d64 show ?thesis unfolding carry by linarith
  qed (simp add: carry word_le_nat_alt rem'_nat)
  have tail: "h' * 2 ^ k + unat lo mod 2 ^ k = h * 2 ^ Suc k + unat lo mod 2 ^ Suc k"
    using mod_mult2_eq [of "unat lo" "2 ^ k" 2] by (simp add: h'_def b_def algebra_simps)
  have quot2: "2 * unat quot + 1 < 2 ^ (64 - k)"
  proof -
    have "(2 :: nat) ^ (64 - k) = 2 * 2 ^ (64 - Suc k)"
      using 2(3) by (metis Suc_diff_Suc Suc_le_lessD power_Suc)
    with 2(6) show ?thesis by linarith
  qed
  have "(2 :: nat) ^ (64 - k) \<le> 2 ^ 64" by (rule power_increasing) simp_all
  with quot2 have quot64: "2 * unat quot + 1 < 18446744073709551616" by simp
  have q0: "unat (push_bit 1 quot) = 2 * unat quot"
    using quot64 by (simp add: push_bit_eq_mult unat_word_ariths mult.commute)
  have q1: "unat (push_bit 1 quot OR 1) = 2 * unat quot + 1"
    using quot64 by (simp add: or_one_eq push_bit_eq_mult unat_word_ariths mod_simps mult.commute)
  note step = nat_div_mod_step [OF d b, of h, folded h'_def, unfolded 2(4) 2(5), folded r_def]
  have unfold: "division_steps (Suc k) lo d rem quot =
    (if unat d \<le> r then division_steps k lo d (rem' - d) (push_bit 1 quot OR 1)
     else division_steps k lo d rem' (push_bit 1 quot))"
    unfolding taken [symmetric] rem'_def by (simp only: division_steps.simps Let_def)
  have k64: "k \<le> 64" using 2(3) by simp
  show ?case
  proof (cases "unat d \<le> r")
    case True
    have "unat (rem' - d) = r - unat d"
    proof (cases "r < 18446744073709551616")
      case True
      then have "unat rem' = r" by (simp add: rem'_nat)
      with \<open>unat d \<le> r\<close> show ?thesis by (simp add: unat_diff_u64 word_le_nat_alt)
    next
      case False
      then have "unat rem' = r - 18446744073709551616"
        unfolding rem'_nat using r_bound d64 mod_less [of "r - 18446744073709551616" 18446744073709551616]
        by (subst le_mod_geq) linarith+
      moreover from False r_bound d64 have "\<not> unat d \<le> r - 18446744073709551616" by linarith
      ultimately show ?thesis using False by (simp add: unat_sub_if')
    qed
    then have "h' mod unat d = unat (rem' - d)" "h' div unat d = unat (push_bit 1 quot OR 1)"
      unfolding q1 step using True by (simp_all only: if_True)
    from 2(1) [OF refl rem'_def refl _ k64 this _ d] taken True quot2 q1
    show ?thesis unfolding unfold tail [symmetric] by (simp only: if_True)
  next
    case False
    then have "unat rem' = r" using rem'_nat d64 by simp
    then have "h' mod unat d = unat rem'" "h' div unat d = unat (push_bit 1 quot)"
      unfolding q0 step using False by (simp_all only: if_False add_0_right)
    from 2(2) [OF refl rem'_def refl _ k64 this _ d] taken False quot2 q0
    show ?thesis unfolding unfold tail [symmetric] by simp
  qed
qed


text \<open>The schoolbook product is the 128-bit product.\<close>

lemma unat_low_half: "unat ((x :: u64) AND 0xFFFFFFFF) = unat x mod 4294967296"
proof -
  have "unat (x AND 0xFFFFFFFF) = unat x AND mask 32"
    by (simp add: unsigned_and_eq mask_eq_exp_minus_1)
  then show ?thesis by (simp add: take_bit_eq_mask [symmetric] take_bit_eq_mod)
qed

lemma unat_high_half: "unat (drop_bit 32 (x :: u64)) = unat x div 4294967296"
  by (simp only: unat_drop_bit) simp

lemma join_halves:
  "unat ((x :: u64) AND 0xFFFFFFFF OR push_bit 32 y) = unat x mod 4294967296 + unat y mod 4294967296 * 4294967296"
proof -
  have "(x AND mask 32) AND push_bit 32 y = 0"
    by (rule bit_eqI) (auto simp: bit_simps)
  then have "x AND 0xFFFFFFFF OR push_bit 32 y = (x AND 0xFFFFFFFF) + push_bit 32 y"
    by (simp add: disjunctive_add_eq_or mask_eq_exp_minus_1)
  moreover have shifted: "unat (push_bit 32 y) = unat y mod 4294967296 * 4294967296"
    by (simp add: push_bit_eq_mult unat_word_ariths mod_mult_mult2 [of _ 4294967296 4294967296, simplified])
  moreover have "unat x mod 4294967296 + unat y mod 4294967296 * 4294967296 < 18446744073709551616"
    using pos_mod_bound [of 4294967296 "int (unat x)"] by linarith
  ultimately show ?thesis
    using unat_add_u64 [of "x AND 0xFFFFFFFF" "push_bit 32 y"] by (simp only: unat_low_half)
qed

lemma nat_schoolbook:
  fixes p00 p01 p10 p11 :: nat
  defines "mid \<equiv> p00 div 4294967296 + p01 mod 4294967296 + p10 mod 4294967296"
  shows "(p11 + p01 div 4294967296 + p10 div 4294967296 + mid div 4294967296) * 18446744073709551616
    + (p00 mod 4294967296 + mid mod 4294967296 * 4294967296)
    = p11 * 18446744073709551616 + (p01 + p10) * 4294967296 + p00"
proof -
  have split: "\<exists>q r. n div 4294967296 = q \<and> n mod 4294967296 = r \<and> n = 4294967296 * q + r" for n :: nat
    by simp
  obtain q0 r0 where 0: "p00 div 4294967296 = q0" "p00 mod 4294967296 = r0" "p00 = 4294967296 * q0 + r0"
    using split by blast
  obtain q1 r1 where 1: "p01 div 4294967296 = q1" "p01 mod 4294967296 = r1" "p01 = 4294967296 * q1 + r1"
    using split by blast
  obtain q2 r2 where 2: "p10 div 4294967296 = q2" "p10 mod 4294967296 = r2" "p10 = 4294967296 * q2 + r2"
    using split by blast
  obtain q3 r3 where 3: "mid div 4294967296 = q3" "mid mod 4294967296 = r3" "mid = 4294967296 * q3 + r3"
    using split by blast
  have "q0 + r1 + r2 = 4294967296 * q3 + r3"
    using 3(3) unfolding mid_def 0(1) 1(2) 2(2) .
  then show ?thesis
    unfolding 0(1,2) 1(1) 2(1) 3(1,2) unfolding 0(3) 1(3) 2(3) by (simp add: algebra_simps)
qed

lemma schoolbook_product_exact:
  assumes "schoolbook_product a b = (hi, lo)"
  shows "unat hi * 18446744073709551616 + unat lo = unat a * unat b"
proof -
  let ?a0 = "unat a mod 4294967296" and ?a1 = "unat a div 4294967296"
  let ?b0 = "unat b mod 4294967296" and ?b1 = "unat b div 4294967296"
  have a: "unat a = ?a1 * 4294967296 + ?a0" and b: "unat b = ?b1 * 4294967296 + ?b0" by simp_all
  have half: "?a0 \<le> 4294967295" "?b0 \<le> 4294967295" "?a1 \<le> 4294967295" "?b1 \<le> 4294967295"
    using div_le_mono [OF unat_u64_le [of a], of 4294967296] div_le_mono [OF unat_u64_le [of b], of 4294967296]
    by (simp_all add: less_Suc_eq_le [symmetric])
  have limb: "u * v \<le> 4294967295 * 4294967295" if "u \<le> 4294967295" "v \<le> 4294967295" for u v :: nat
    using that by (rule mult_le_mono)
  define p00 where "p00 = (a AND 0xFFFFFFFF) * (b AND 0xFFFFFFFF)"
  define p01 where "p01 = (a AND 0xFFFFFFFF) * drop_bit 32 b"
  define p10 where "p10 = drop_bit 32 a * (b AND 0xFFFFFFFF)"
  define p11 where "p11 = drop_bit 32 a * drop_bit 32 b"
  define mid where "mid = drop_bit 32 p00 + (p01 AND 0xFFFFFFFF) + (p10 AND 0xFFFFFFFF)"
  have p00: "unat p00 = ?a0 * ?b0" and p01: "unat p01 = ?a0 * ?b1"
    and p10: "unat p10 = ?a1 * ?b0" and p11: "unat p11 = ?a1 * ?b1"
    unfolding p00_def p01_def p10_def p11_def
    using limb [OF half(1) half(2)] limb [OF half(1) half(4)] limb [OF half(3) half(2)] limb [OF half(3) half(4)]
    by (subst unat_mult_u64; simp only: unat_low_half unat_high_half; simp)+
  have mid: "unat mid = unat p00 div 4294967296 + unat p01 mod 4294967296 + unat p10 mod 4294967296"
  proof -
    have "unat p00 div 4294967296 \<le> 4294967295"
      using div_le_mono [OF unat_u64_le [of p00], of 4294967296] by simp
    moreover have "unat p01 mod 4294967296 \<le> 4294967295" "unat p10 mod 4294967296 \<le> 4294967295"
      by (simp_all add: less_Suc_eq_le [symmetric])
    ultimately show ?thesis
      unfolding mid_def by (simp add: unat_word_ariths unat_low_half unat_high_half mod_simps)
  qed
  have hi: "hi = p11 + drop_bit 32 p01 + drop_bit 32 p10 + drop_bit 32 mid"
    and lo: "lo = (p00 AND 0xFFFFFFFF) OR push_bit 32 mid"
    using assms by (auto simp: schoolbook_product_def Let_def p00_def p01_def p10_def p11_def mid_def)
  let ?hi = "unat p11 + unat p01 div 4294967296 + unat p10 div 4294967296 + unat mid div 4294967296"
  have lo_nat: "unat lo = unat p00 mod 4294967296 + unat mid mod 4294967296 * 4294967296"
    unfolding lo by (rule join_halves)
  have expand: "x * z * 18446744073709551616 + (y * z + x * w) * 4294967296 + y * w
    = (x * 4294967296 + y) * (z * 4294967296 + w)" for x y z w :: nat
    by (simp add: algebra_simps)
  have "?hi * 18446744073709551616 + unat lo
    = unat p11 * 18446744073709551616 + (unat p01 + unat p10) * 4294967296 + unat p00"
    unfolding lo_nat mid by (rule nat_schoolbook)
  also have "\<dots> = (?a1 * 4294967296 + ?a0) * (?b1 * 4294967296 + ?b0)"
    unfolding p00 p01 p10 p11 by (rule expand)
  also have "\<dots> = unat a * unat b" by simp
  finally have product: "?hi * 18446744073709551616 + unat lo = unat a * unat b" .
  have "unat a * unat b \<le> 18446744073709551615 * 18446744073709551615"
    using unat_u64_le [of a] unat_u64_le [of b] by (rule mult_le_mono)
  with product have "?hi * 18446744073709551616 + unat lo \<le> 18446744073709551615 * 18446744073709551615"
    by (simp only:)
  moreover have "h < 18446744073709551616"
    if "h * 18446744073709551616 + l \<le> 18446744073709551615 * 18446744073709551615" for h l :: nat
    using that by linarith
  ultimately have "?hi < 18446744073709551616" by blast
  then have "unat hi = ?hi"
    unfolding hi by (simp add: unat_word_ariths unat_high_half mod_simps)
  with product show ?thesis by simp
qed

text \<open>
  C39. The portable bitwise long division that cross-checks the fast path agrees with the 128-bit path
  on every input, failures included: the same quotient, and a refusal for the same arguments.
\<close>

theorem mul_div_floor_reference_agrees: "mul_div_floor_reference a b d = mul_div_floor a b d"
proof (cases "d = 0")
  case False
  then have d: "0 < unat d" by (simp add: unat_gt_0)
  obtain hi lo where p: "(case mul_checked a b of Some p \<Rightarrow> (0, p) | None \<Rightarrow> schoolbook_product a b) = (hi, lo)"
    by fastforce
  have product: "unat hi * 18446744073709551616 + unat lo = unat a * unat b"
    using p schoolbook_product_exact [of a b hi lo]
    by (auto simp: mul_checked_exact unat_mult_u64 split: if_splits)
  consider "hi = 0" | "hi \<noteq> 0" "d \<le> hi" | "hi \<noteq> 0" "hi < d" by fastforce
  then show ?thesis
  proof cases
    case 1
    have "unat lo div unat d < 18446744073709551616"
      by (rule le_less_trans [OF div_le_dividend unat_u64_less])
    with 1 False product [symmetric] show ?thesis
      by (simp add: mul_div_floor_reference_def long_division_ex_def p mul_div_floor_nat word_eq_by_unat unat_div)
  next
    case 2
    have "unat d * 18446744073709551616 \<le> unat a * unat b"
      unfolding product [symmetric] using 2(2) by (simp add: word_le_nat_alt trans_le_add1 mult.commute)
    then have "18446744073709551616 \<le> unat a * unat b div unat d"
      using d by (simp add: less_eq_div_iff_mult_less_eq mult.commute)
    with 2 False show ?thesis
      by (simp add: mul_div_floor_reference_def long_division_ex_def p mul_div_floor_nat)
  next
    case 3
    then have small: "unat hi < unat d" by (simp add: word_less_nat_alt)
    have "division_steps 64 lo d hi 0 =
       (word_of_nat ((unat hi * 2 ^ 64 + unat lo mod 2 ^ 64) div unat d),
        word_of_nat ((unat hi * 2 ^ 64 + unat lo mod 2 ^ 64) mod unat d))"
      by (rule division_steps_exact) (use small d in simp_all)
    then have loop: "\<exists>r. division_steps 64 lo d hi 0 = (word_of_nat (unat a * unat b div unat d), r)"
      using product by simp
    have "unat a * unat b < unat d * 18446744073709551616"
      unfolding product [symmetric] using small unat_u64_less [of lo] by linarith
    then have "unat a * unat b div unat d < 18446744073709551616"
      by (simp add: less_mult_imp_div_less mult.commute)
    with 3 False loop show ?thesis
      by (auto simp add: mul_div_floor_reference_def long_division_ex_def p mul_div_floor_nat not_le)
  qed
qed (simp add: mul_div_floor_reference_def long_division_ex_def mul_div_floor_def)

section \<open>The order on ratios\<close>

text \<open>
  The comparisons multiply crosswise without a check. Under the bound that \<open>ratio_valid\<close> enforces
  on both terms no product wraps, and they are the order of the rationals.
\<close>

definition ratio_bounded :: "ratio \<Rightarrow> bool" where
  "ratio_bounded r \<longleftrightarrow> rat_den r \<noteq> 0 \<and> rat_num r \<le> kMaxRatioTerm \<and> rat_den r \<le> kMaxRatioTerm"

lemma ratio_valid_bounded: "ratio_valid r \<Longrightarrow> ratio_bounded r"
  by (auto simp: ratio_valid_def ratio_bounded_def split: if_splits)

lemma unat_cross_product:
  "x \<le> kMaxRatioTerm \<Longrightarrow> y \<le> kMaxRatioTerm \<Longrightarrow> unat (x * y) = unat x * unat y"
  using mult_le_mono [of "unat x" 1000000 "unat y" 1000000]
  by (intro unat_mult_u64) (simp add: word_le_nat_alt)

lemma ratio_ge_bounded:
  "ratio_bounded a \<Longrightarrow> ratio_bounded b \<Longrightarrow>
     ratio_ge a b \<longleftrightarrow> unat (rat_num b) * unat (rat_den a) \<le> unat (rat_num a) * unat (rat_den b)"
  by (simp add: ratio_ge_def ratio_bounded_def word_le_nat_alt [of "_ * _"] unat_cross_product)

lemma ratio_bounded_pos: "ratio_bounded r \<Longrightarrow> 0 < unat (rat_den r)"
  by (simp add: ratio_bounded_def unat_gt_0)

lemma ratio_ge_refl: "ratio_ge a a"
  by (simp add: ratio_ge_def)

lemma ratio_ge_linear: "ratio_ge a b \<or> ratio_ge b a"
  by (auto simp: ratio_ge_def)

lemma ratio_ge_trans:
  assumes "ratio_bounded a" "ratio_bounded b" "ratio_bounded c" "ratio_ge a b" "ratio_ge b c"
  shows "ratio_ge a c"
proof -
  let ?n = "\<lambda>r. unat (rat_num r)" and ?d = "\<lambda>r. unat (rat_den r)"
  have ab: "?n b * ?d a \<le> ?n a * ?d b" and bc: "?n c * ?d b \<le> ?n b * ?d c"
    using assms by (simp_all add: ratio_ge_bounded)
  have "?n c * ?d a * ?d b = (?n c * ?d b) * ?d a" by simp
  also have "\<dots> \<le> (?n b * ?d c) * ?d a" using bc by (rule mult_right_mono) simp
  also have "\<dots> = (?n b * ?d a) * ?d c" by simp
  also have "\<dots> \<le> (?n a * ?d b) * ?d c" using ab by (rule mult_right_mono) simp
  finally have "?n c * ?d a * ?d b \<le> ?n a * ?d c * ?d b" by (simp add: mult_ac)
  then show ?thesis using assms ratio_bounded_pos [OF assms(2)] by (simp add: ratio_ge_bounded)
qed

lemma ratio_min_bounded: "ratio_bounded a \<Longrightarrow> ratio_bounded b \<Longrightarrow> ratio_bounded (ratio_min a b)"
  by (simp add: ratio_min_def)

lemma ratio_min_le: "ratio_le (ratio_min a b) a" "ratio_le (ratio_min a b) b"
  using ratio_ge_linear [of a b] ratio_ge_refl by (auto simp: ratio_min_def ratio_le_def)

text \<open>
  Scaling by a ratio is monotone: a smaller ratio never gives a larger capacity.
\<close>

lemma nat_scaled_mono:
  assumes "n1 * d2 \<le> n2 * (d1 :: nat)" and "0 < d1" and "0 < d2"
  shows "c * n1 div d1 \<le> c * n2 div d2"
proof -
  have "c * n1 div d1 = c * n1 * d2 div (d1 * d2)" using assms(3) by simp
  also have "\<dots> \<le> c * (n2 * d1) div (d1 * d2)"
    using assms(1) by (intro div_le_mono) (simp add: mult.assoc)
  also have "\<dots> = c * n2 * d1 div (d2 * d1)" by (simp add: mult_ac)
  also have "\<dots> = c * n2 div d2" using assms(2) by simp
  finally show ?thesis .
qed

section \<open>Properties\<close>

text \<open>
  C38. Multiply-and-divide is exact: the floor of the mathematical quotient when the divisor is not zero
  and the quotient fits in 64 bits, and a refusal in every other case.
\<close>

theorem mul_div_floor_exact:
  "mul_div_floor a b d =
     (if d = 0 \<or> 2 ^ 64 \<le> unat a * unat b div unat d then None
      else Some (word_of_nat (unat a * unat b div unat d)))"
  by (rule mul_div_floor_nat)

text \<open>
  The rounding-up variant is exact in the same sense, including the quotient whose increment no
  longer fits.
\<close>

theorem mul_div_ceil_exact:
  "mul_div_ceil a b d =
     (if d = 0 \<or> 2 ^ 64 \<le> (unat a * unat b + unat d - 1) div unat d then None
      else Some (word_of_nat ((unat a * unat b + unat d - 1) div unat d)))"
  by (rule mul_div_ceil_nat)

end
