(* ===== verification/Digest.thy ===== *)
theory Digest
  imports Prelude
begin

text \<open>
  \<^verbatim>\<open>include/oversub/digest.hpp\<close> and \<^verbatim>\<open>src/digest.cpp\<close>: SHA-256 with a streaming context and the
  canonical hasher every digest of the program goes through. A digest is its list of 32 bytes. The
  context keeps the filled prefix of \<^verbatim>\<open>buffer_\<close> (\<^verbatim>\<open>buffer_len_\<close> is its length); bytes behind it are
  overwritten before they are read. A \<^verbatim>\<open>std::string_view\<close> is hashed by the bytes of its characters.
\<close>

type_synonym digest = "u8 list"

definition digest_is_zero :: "digest \<Rightarrow> bool" where
  "digest_is_zero d = list_all (\<lambda>b. b = 0) d"

definition digest_zero :: digest where
  "digest_zero = replicate 32 0"

definition digest_ok :: "digest \<Rightarrow> bool" where
  "digest_ok d = (length d = 32)"

definition digest_to_hex :: "digest \<Rightarrow> string" where
  "digest_to_hex d =
     concat (map (\<lambda>b. [''0123456789abcdef'' ! unat (drop_bit 4 b), ''0123456789abcdef'' ! unat (b AND 15)]) d)"

definition string_bytes :: "string \<Rightarrow> u8 list" where
  "string_bytes s = map of_char s"

section \<open>The compression function\<close>

definition kK :: "u32 list" where
  "kK =
    [1116352408, 1899447441, 3049323471, 3921009573, 961987163, 1508970993,
     2453635748, 2870763221, 3624381080, 310598401, 607225278, 1426881987,
     1925078388, 2162078206, 2614888103, 3248222580, 3835390401, 4022224774,
     264347078, 604807628, 770255983, 1249150122, 1555081692, 1996064986,
     2554220882, 2821834349, 2952996808, 3210313671, 3336571891, 3584528711,
     113926993, 338241895, 666307205, 773529912, 1294757372, 1396182291,
     1695183700, 1986661051, 2177026350, 2456956037, 2730485921, 2820302411,
     3259730800, 3345764771, 3516065817, 3600352804, 4094571909, 275423344,
     430227734, 506948616, 659060556, 883997877, 958139571, 1322822218,
     1537002063, 1747873779, 1955562222, 2024104815, 2227730452, 2361852424,
     2428436474, 2756734187, 3204031479, 3329325298]"

definition rotr :: "u32 \<Rightarrow> nat \<Rightarrow> u32" where
  "rotr x n = drop_bit n x OR push_bit (32 - n) x"

definition initial_state :: "u32 list" where
  "initial_state =
    [1779033703, 3144134277, 1013904242, 2773480762, 1359893119, 2600822924,
     528734635, 1541459225]"

definition word_at :: "u8 list \<Rightarrow> nat \<Rightarrow> u32" where
  "word_at block i =
     push_bit 24 (ucast (block ! (i * 4))) OR push_bit 16 (ucast (block ! (i * 4 + 1)))
     OR push_bit 8 (ucast (block ! (i * 4 + 2))) OR ucast (block ! (i * 4 + 3))"

definition schedule_step :: "u32 list \<Rightarrow> u32 list" where
  "schedule_step w =
     (let i = length w;
          s0 = rotr (w ! (i - 15)) 7 XOR rotr (w ! (i - 15)) 18 XOR drop_bit 3 (w ! (i - 15));
          s1 = rotr (w ! (i - 2)) 17 XOR rotr (w ! (i - 2)) 19 XOR drop_bit 10 (w ! (i - 2))
      in w @ [w ! (i - 16) + s0 + w ! (i - 7) + s1])"

definition message_schedule :: "u8 list \<Rightarrow> u32 list" where
  "message_schedule block = (schedule_step ^^ 48) (map (word_at block) [0..<16])"

fun round_step :: "u32 list \<Rightarrow> u32 \<times> u32 \<Rightarrow> u32 list" where
  "round_step [a, b, c, d, e, f, g, h] (k, w) =
     (let s1 = rotr e 6 XOR rotr e 11 XOR rotr e 25;
          ch = (e AND f) XOR (NOT e AND g);
          temp1 = h + s1 + ch + k + w;
          s0 = rotr a 2 XOR rotr a 13 XOR rotr a 22;
          maj = (a AND b) XOR (a AND c) XOR (b AND c);
          temp2 = s0 + maj
      in [temp1 + temp2, a, b, c, d + temp1, e, f, g])"
| "round_step st _ = st"

definition compress :: "u32 list \<Rightarrow> u8 list \<Rightarrow> u32 list" where
  "compress st block = map2 (+) st (foldl round_step st (zip kK (message_schedule block)))"

section \<open>The streaming context\<close>

record sha_ctx =
  sha_state :: "u32 list"
  sha_bit_length :: u64
  sha_buffer :: "u8 list"
  sha_finished :: bool

definition sha_init :: sha_ctx where
  "sha_init = \<lparr>sha_state = initial_state, sha_bit_length = 0, sha_buffer = [], sha_finished = False\<rparr>"

definition sha_transform :: "sha_ctx \<Rightarrow> sha_ctx" where
  "sha_transform c = c\<lparr>sha_state := compress (sha_state c) (sha_buffer c), sha_buffer := []\<rparr>"

text \<open>
  The loop of \<^verbatim>\<open>update\<close>. The test on the buffer length only makes the function total: between
  calls the buffer is never full.
\<close>

function sha_absorb :: "sha_ctx \<Rightarrow> u8 list \<Rightarrow> sha_ctx" where
  "sha_absorb c data =
     (if data = [] \<or> 64 \<le> length (sha_buffer c) then c
      else let space = 64 - length (sha_buffer c);
               n = (if length data < space then length data else space);
               c' = c\<lparr>sha_buffer := sha_buffer c @ take n data\<rparr>;
               c'' = (if length (sha_buffer c') = 64 then sha_transform c' else c')
           in sha_absorb c'' (drop n data))"
  by pat_completeness auto

termination
  by (relation "measure (\<lambda>(c, data). length data)") auto

declare sha_absorb.simps [simp del]

definition sha_update :: "u8 list \<Rightarrow> sha_ctx \<Rightarrow> sha_ctx" where
  "sha_update data c =
     (if sha_finished c \<or> data = [] then c
      else sha_absorb (c\<lparr>sha_bit_length := sha_bit_length c + word_of_nat (length data) * 8\<rparr>) data)"

definition sha_push :: "u8 \<Rightarrow> sha_ctx \<Rightarrow> sha_ctx" where
  "sha_push b c =
     (let c' = c\<lparr>sha_buffer := sha_buffer c @ [b]\<rparr>
      in if length (sha_buffer c') = 64 then sha_transform c' else c')"

text \<open>The padding loop: zero bytes until 56 bytes of the block are filled.\<close>

fun sha_pad :: "nat \<Rightarrow> sha_ctx \<Rightarrow> sha_ctx" where
  "sha_pad 0 c = c"
| "sha_pad (Suc fuel) c = (if length (sha_buffer c) = 56 then c else sha_pad fuel (sha_push 0 c))"

definition be64 :: "u64 \<Rightarrow> u8 list" where
  "be64 x = map (\<lambda>i. ucast (drop_bit (56 - i * 8) x AND 255)) [0..<8]"

definition be32 :: "u32 \<Rightarrow> u8 list" where
  "be32 x = [ucast (drop_bit 24 x AND 255), ucast (drop_bit 16 x AND 255), ucast (drop_bit 8 x AND 255), ucast (x AND 255)]"

definition sha_finish :: "sha_ctx \<Rightarrow> sha_ctx \<times> digest" where
  "sha_finish c =
     (if sha_finished c then (c, digest_zero)
      else let bits = sha_bit_length c;
               c1 = sha_pad 64 (sha_push 128 c);
               c2 = sha_transform (c1\<lparr>sha_buffer := sha_buffer c1 @ be64 bits\<rparr>)
           in (c2\<lparr>sha_finished := True\<rparr>, concat (map be32 (sha_state c2))))"

definition sha256 :: "u8 list \<Rightarrow> digest" where
  "sha256 data = snd (sha_finish (sha_update data sha_init))"

section \<open>The canonical hasher\<close>

definition le32 :: "u32 \<Rightarrow> u8 list" where
  "le32 x = map (\<lambda>i. ucast (drop_bit (i * 8) x AND 255)) [0..<4]"

definition le64 :: "u64 \<Rightarrow> u8 list" where
  "le64 x = map (\<lambda>i. ucast (drop_bit (i * 8) x AND 255)) [0..<8]"

definition add_u8 :: "u8 \<Rightarrow> sha_ctx \<Rightarrow> sha_ctx" where
  "add_u8 x = sha_update [x]"

definition add_u32 :: "u32 \<Rightarrow> sha_ctx \<Rightarrow> sha_ctx" where
  "add_u32 x = sha_update (le32 x)"

definition add_u64 :: "u64 \<Rightarrow> sha_ctx \<Rightarrow> sha_ctx" where
  "add_u64 x = sha_update (le64 x)"

definition add_bool :: "bool \<Rightarrow> sha_ctx \<Rightarrow> sha_ctx" where
  "add_bool b = add_u8 (if b then 1 else 0)"

definition add_string :: "string \<Rightarrow> sha_ctx \<Rightarrow> sha_ctx" where
  "add_string s h = sha_update (string_bytes s) (add_u64 (word_of_nat (length s)) h)"

definition add_bytes :: "u8 list \<Rightarrow> sha_ctx \<Rightarrow> sha_ctx" where
  "add_bytes xs h = sha_update xs (add_u64 (word_of_nat (length xs)) h)"

definition add_digest :: "digest \<Rightarrow> sha_ctx \<Rightarrow> sha_ctx" where
  "add_digest d = sha_update d"

definition fold_step :: "u64 \<Rightarrow> u8 list \<Rightarrow> u64" where
  "fold_step acc chunk = acc XOR foldl (\<lambda>w b. push_bit 8 w OR ucast b) 0 chunk"

definition fold64 :: "sha_ctx \<Rightarrow> u64" where
  "fold64 h = (let d = snd (sha_finish h) in
     foldl fold_step 0 (map (\<lambda>k. take 8 (drop (k * 8) d)) [0..<4]))"

text \<open>A hasher fed with a sequence of fields, and its digest.\<close>

definition hasher_of :: "(sha_ctx \<Rightarrow> sha_ctx) list \<Rightarrow> sha_ctx" where
  "hasher_of ops = fold (\<lambda>f h. f h) ops sha_init"

definition canonical_digest :: "(sha_ctx \<Rightarrow> sha_ctx) list \<Rightarrow> digest" where
  "canonical_digest ops = snd (sha_finish (hasher_of ops))"

section \<open>The context between calls\<close>

definition sha_ready :: "sha_ctx \<Rightarrow> bool" where
  "sha_ready c \<longleftrightarrow> length (sha_buffer c) < 64 \<and> \<not> sha_finished c"

lemma sha_ready_init [simp]: "sha_ready sha_init"
  by (simp add: sha_ready_def sha_init_def)

lemma sha_transform_sel [simp]:
  "sha_buffer (sha_transform c) = []" "sha_finished (sha_transform c) = sha_finished c"
  "sha_bit_length (sha_transform c) = sha_bit_length c"
  "sha_state (sha_transform c) = compress (sha_state c) (sha_buffer c)"
  by (simp_all add: sha_transform_def)

lemma sha_push_frame [simp]:
  "sha_finished (sha_push b c) = sha_finished c" "sha_bit_length (sha_push b c) = sha_bit_length c"
  by (simp_all add: sha_push_def Let_def)

lemma fold_push_frame [simp]:
  "sha_finished (fold sha_push xs c) = sha_finished c"
  "sha_bit_length (fold sha_push xs c) = sha_bit_length c"
  by (induction xs arbitrary: c) simp_all

lemma sha_push_ready: "sha_ready c \<Longrightarrow> sha_ready (sha_push b c)"
  by (simp add: sha_ready_def sha_push_def Let_def)

lemma fold_push_ready: "sha_ready c \<Longrightarrow> sha_ready (fold sha_push xs c)"
  by (induction xs arbitrary: c) (simp_all add: sha_push_ready)

text \<open>Pushing bytes one at a time: below the block size they only gather in the buffer.\<close>

lemma fold_push_gather:
  "length (sha_buffer c) + length xs < 64 \<Longrightarrow> fold sha_push xs c = c\<lparr>sha_buffer := sha_buffer c @ xs\<rparr>"
  by (induction xs arbitrary: c) (simp_all add: sha_push_def)

lemma fold_push_block:
  assumes "length (sha_buffer c) + length xs = 64" and "xs \<noteq> []"
  shows "fold sha_push xs c = sha_transform (c\<lparr>sha_buffer := sha_buffer c @ xs\<rparr>)"
proof -
  from assms(2) obtain ys y where xs: "xs = ys @ [y]" by (metis rev_exhaust)
  with assms(1) have "fold sha_push ys c = c\<lparr>sha_buffer := sha_buffer c @ ys\<rparr>"
    by (intro fold_push_gather) simp
  with xs assms(1) show ?thesis by (simp add: sha_push_def Let_def)
qed

text \<open>The chunked loop of \<^verbatim>\<open>update\<close> has the effect of pushing every byte in turn.\<close>

lemma sha_absorb_pushes: "length (sha_buffer c) < 64 \<Longrightarrow> sha_absorb c data = fold sha_push data c"
proof (induction c data rule: sha_absorb.induct)
  case (1 c data)
  show ?case
  proof (cases "data = []")
    case True
    then show ?thesis by (simp add: sha_absorb.simps)
  next
    case False
    define n where "n = min (length data) (64 - length (sha_buffer c))"
    define c' where "c' = c\<lparr>sha_buffer := sha_buffer c @ take n data\<rparr>"
    define c'' where "c'' = (if length (sha_buffer c') = 64 then sha_transform c' else c')"
    have n: "(if length data < 64 - length (sha_buffer c) then length data else 64 - length (sha_buffer c)) = n"
      by (simp add: n_def)
    have step: "sha_absorb c data = sha_absorb c'' (drop n data)"
      unfolding sha_absorb.simps [of c data] Let_def n c'_def [symmetric] c''_def [symmetric]
      using False 1(2) by simp
    have len: "length (sha_buffer c') = length (sha_buffer c) + n" "length (sha_buffer c') \<le> 64" "take n data \<noteq> []"
      using False 1(2) by (auto simp: c'_def n_def)
    have "fold sha_push (take n data) c = c''"
      using fold_push_gather [of c "take n data"] fold_push_block [of c "take n data"] len
      by (auto simp: c''_def c'_def n_def)
    then have "fold sha_push data c = fold sha_push (drop n data) c''"
      by (metis append_take_drop_id comp_apply fold_append)
    moreover have "sha_absorb c'' (drop n data) = fold sha_push (drop n data) c''"
      by (rule 1(1) [OF _ refl n [symmetric] c'_def c''_def])
         (use False 1(2) len in \<open>auto simp: c''_def\<close>)
    ultimately show ?thesis using step by simp
  qed
qed

lemma sha_update_pushes:
  assumes "sha_ready c"
  shows "sha_update data c = fold sha_push data (c\<lparr>sha_bit_length := sha_bit_length c + word_of_nat (length data) * 8\<rparr>)"
  using assms by (cases "data = []") (simp_all add: sha_update_def sha_ready_def sha_absorb_pushes)

lemma sha_update_ready: "sha_ready c \<Longrightarrow> sha_ready (sha_update data c)"
  by (simp add: sha_update_pushes) (rule fold_push_ready, simp add: sha_ready_def)

lemma sha_push_bits: "sha_push b (c\<lparr>sha_bit_length := n\<rparr>) = (sha_push b c)\<lparr>sha_bit_length := n\<rparr>"
  by (simp add: sha_push_def sha_transform_def Let_def)

lemma fold_push_bits: "fold sha_push xs (c\<lparr>sha_bit_length := n\<rparr>) = (fold sha_push xs c)\<lparr>sha_bit_length := n\<rparr>"
  by (induction xs arbitrary: c) (simp_all add: sha_push_bits)

text \<open>Two updates are one update with the concatenated bytes.\<close>

lemma sha_update_append:
  assumes "sha_ready c"
  shows "sha_update ys (sha_update xs c) = sha_update (xs @ ys) c"
  using assms sha_update_ready [OF assms, of xs]
  by (simp add: sha_update_pushes fold_push_bits algebra_simps)

lemma fold_updates:
  "sha_ready c \<Longrightarrow> fold (\<lambda>f h. f h) (map sha_update xss) c = sha_update (concat xss) c"
proof (induction xss arbitrary: c)
  case Nil
  then show ?case by (simp add: sha_update_def)
next
  case (Cons xs xss)
  then show ?case by (simp add: sha_update_ready sha_update_append)
qed

text \<open>
  The digest does not depend on how the bytes are cut into updates: whatever sequence of chunks a
  hasher is fed with, its digest is the one-shot digest of the concatenation.
\<close>

theorem sha256_chunk_independent: "canonical_digest (map sha_update chunks) = sha256 (concat chunks)"
  by (simp add: canonical_digest_def hasher_of_def fold_updates sha256_def)

section \<open>SHA-256 as FIPS 180-4 states it\<close>

text \<open>The whole message padded at once and compressed block by block.\<close>

function compress_blocks :: "u32 list \<Rightarrow> u8 list \<Rightarrow> u32 list" where
  "compress_blocks st data =
     (if length data < 64 then st else compress_blocks (compress st (take 64 data)) (drop 64 data))"
  by pat_completeness auto

termination
  by (relation "measure (\<lambda>(st, data). length data)") auto

declare compress_blocks.simps [simp del]

definition padded :: "u8 list \<Rightarrow> u8 list" where
  "padded data = data @ [128] @ replicate ((119 - length data mod 64) mod 64) 0 @ be64 (word_of_nat (8 * length data))"

definition sha256_reference :: "u8 list \<Rightarrow> u8 list" where
  "sha256_reference data = concat (map be32 (compress_blocks initial_state (padded data)))"

lemma fold_push_state:
  "length (sha_buffer c) < 64 \<Longrightarrow>
     sha_state (fold sha_push xs c) = compress_blocks (sha_state c) (sha_buffer c @ xs)
     \<and> length (sha_buffer (fold sha_push xs c)) = (length (sha_buffer c) + length xs) mod 64"
proof (induction xs arbitrary: c)
  case Nil
  then show ?case by (simp add: compress_blocks.simps)
next
  case (Cons x xs)
  show ?case
  proof (cases "length (sha_buffer c) = 63")
    case True
    then have "sha_push x c = sha_transform (c\<lparr>sha_buffer := sha_buffer c @ [x]\<rparr>)"
      by (simp add: sha_push_def)
    with True Cons.IH [of "sha_push x c"] show ?thesis
      by (simp add: compress_blocks.simps [of "sha_state c" "sha_buffer c @ x # xs"])
  next
    case False
    then have "sha_push x c = c\<lparr>sha_buffer := sha_buffer c @ [x]\<rparr>"
      by (simp add: sha_push_def)
    with False Cons.prems Cons.IH [of "sha_push x c"] show ?thesis by simp
  qed
qed

lemma sha_pad_pushes:
  assumes "length (sha_buffer c) < 64" and "(56 + 64 - length (sha_buffer c)) mod 64 \<le> fuel"
  shows "sha_pad fuel c = fold sha_push (replicate ((56 + 64 - length (sha_buffer c)) mod 64) 0) c"
  using assms
proof (induction fuel arbitrary: c)
  case 0
  then show ?case by simp
next
  case (Suc fuel)
  let ?l = "length (sha_buffer c)"
  show ?case
  proof (cases "?l = 56")
    case False
    let ?k = "(120 - ?l) mod 64"
    have push: "length (sha_buffer (sha_push 0 c)) = (if ?l = 63 then 0 else ?l + 1)"
      using Suc.prems by (simp add: sha_push_def Let_def)
    have k: "?k = Suc ((120 - length (sha_buffer (sha_push 0 c))) mod 64)"
      unfolding push using False Suc.prems(1) by (auto simp: mod_if)
    from False have "sha_pad (Suc fuel) c = sha_pad fuel (sha_push 0 c)" by simp
    also have "\<dots> = fold sha_push (replicate ((120 - length (sha_buffer (sha_push 0 c))) mod 64) 0) (sha_push 0 c)"
      using Suc.IH [of "sha_push 0 c"] k Suc.prems push by simp
    also have "\<dots> = fold sha_push (replicate ?k 0) c" unfolding k by simp
    finally show ?thesis by simp
  qed simp
qed

lemma length_be64 [simp]: "length (be64 x) = 8"
  by (simp add: be64_def)

lemma sha256_by_blocks: "sha256 data = sha256_reference data"
proof -
  let ?c = "sha_update data sha_init"
  define k where "k = (119 - length data mod 64) mod 64"
  define bits where "bits = (word_of_nat (8 * length data) :: u64)"
  have c: "?c = (fold sha_push data sha_init)\<lparr>sha_bit_length := bits\<rparr>"
    by (simp add: sha_update_pushes fold_push_bits bits_def mult.commute) (simp add: sha_init_def)
  define c1 where "c1 = fold sha_push (data @ [128]) sha_init"
  have init: "sha_buffer sha_init = []" "sha_state sha_init = initial_state" "sha_finished sha_init = False"
    by (simp_all add: sha_init_def)
  have c1: "sha_push 128 ?c = c1\<lparr>sha_bit_length := bits\<rparr>"
    by (simp add: c c1_def sha_push_bits)
  have len1: "length (sha_buffer c1) = (length data + 1) mod 64"
    unfolding c1_def using fold_push_state [of sha_init "data @ [128]"] by (simp add: init)
  have k: "(56 + 64 - length (sha_buffer (c1\<lparr>sha_bit_length := bits\<rparr>))) mod 64 = k"
  proof -
    define r where "r = length data mod 64"
    have "r < 64" by (simp add: r_def)
    then have "(120 - (if Suc r = 64 then 0 else Suc r)) mod 64 = (119 - r) mod 64" by auto
    then show ?thesis by (simp add: len1 k_def r_def mod_Suc)
  qed
  have Suc56: "Suc (length data + k) mod 64 = 56"
  proof -
    have "Suc (length data + k) mod 64 = Suc (length data mod 64 + (119 - length data mod 64)) mod 64"
      unfolding k_def by (metis add_Suc mod_Suc_eq mod_add_left_eq mod_add_right_eq)
    also have "Suc (length data mod 64 + (119 - length data mod 64)) = 120"
      using pos_mod_bound [of 64 "int (length data)"] mod_less_divisor [of 64 "length data"] by linarith
    finally show ?thesis by simp
  qed
  define c2 where "c2 = fold sha_push (data @ [128] @ replicate k 0) sha_init"
  have "sha_pad 64 (sha_push 128 ?c) = fold sha_push (replicate k 0) (c1\<lparr>sha_bit_length := bits\<rparr>)"
    unfolding c1 k [symmetric] by (rule sha_pad_pushes) (simp_all add: len1)
  then have c2: "sha_pad 64 (sha_push 128 ?c) = c2\<lparr>sha_bit_length := bits\<rparr>"
    by (simp add: c1_def c2_def fold_push_bits sha_push_bits del: fold_replicate)
  have len2: "length (sha_buffer c2) = 56"
    unfolding c2_def using fold_push_state [of sha_init "data @ [128] @ replicate k 0"]
    by (simp add: init Suc56)
  have "sha_state (sha_transform (c2\<lparr>sha_buffer := sha_buffer c2 @ be64 bits\<rparr>))
    = sha_state (fold sha_push (be64 bits) c2)"
    using len2 by (subst fold_push_block) (auto simp: be64_def)
  also have "fold sha_push (be64 bits) c2 = fold sha_push (padded data) sha_init"
    by (simp add: c2_def padded_def k_def bits_def)
  also have "sha_state \<dots> = compress_blocks initial_state (padded data)"
    using fold_push_state [of sha_init "padded data"] by (simp add: init)
  finally have final: "compress (sha_state c2) (sha_buffer c2 @ be64 bits) = compress_blocks initial_state (padded data)"
    by simp
  have bits: "sha_bit_length ?c = bits" "\<not> sha_finished ?c" by (simp_all add: c init)
  have "snd (sha_finish ?c) = concat (map be32 (compress (sha_state c2) (sha_buffer c2 @ be64 bits)))"
    using bits by (simp add: sha_finish_def Let_def c2)
  then show ?thesis unfolding final by (simp add: sha256_def sha256_reference_def)
qed

section \<open>What a canonical digest is a digest of\<close>

lemma length_le64 [simp]: "length (le64 x) = 8"
  by (simp add: le64_def)

lemma length_le32 [simp]: "length (le32 x) = 4"
  by (simp add: le32_def)

lemma length_string_bytes [simp]: "length (string_bytes s) = length s"
  by (simp add: string_bytes_def)

lemma length_compress: "length st = 8 \<Longrightarrow> length (compress st block) = 8"
proof -
  have step: "length (round_step s kw) = 8" if "length s = 8" for s kw
    using that by (cases "(s, kw)" rule: round_step.cases) (auto simp: Let_def)
  have "length (foldl round_step s ks) = 8" if "length s = 8" for s ks
    using that by (induction ks arbitrary: s) (simp_all add: step)
  then show "length st = 8 \<Longrightarrow> length (compress st block) = 8"
    by (simp add: compress_def)
qed

lemma length_compress_blocks: "length st = 8 \<Longrightarrow> length (compress_blocks st data) = 8"
proof (induction st data rule: compress_blocks.induct)
  case (1 st data)
  then show ?case by (subst compress_blocks.simps) (simp add: length_compress)
qed

lemma sha256_length [simp]: "length (sha256 data) = 32"
proof -
  have four: "length (concat (map be32 ws)) = 4 * length ws" for ws
    by (induction ws) (simp_all add: be32_def)
  show ?thesis
    by (simp add: sha256_by_blocks sha256_reference_def four length_compress_blocks initial_state_def)
qed

text \<open>
  C40. The streaming implementation computes SHA-256: for every message it returns the digest of the
  message padded at once with a one bit, zeros up to 56 modulo 64 and its 64-bit length, and
  compressed block by block.
\<close>

theorem sha256_is_reference: "sha256 data = sha256_reference data"
  by (rule sha256_by_blocks)

section \<open>The bytes a canonical digest hashes\<close>

text \<open>\<open>feeds f bs\<close>: the hasher operation \<open>f\<close> feeds the bytes \<open>bs\<close>.\<close>

definition feeds :: "(sha_ctx \<Rightarrow> sha_ctx) \<Rightarrow> u8 list \<Rightarrow> bool" where
  "feeds f bs \<longleftrightarrow> (\<forall>h. sha_ready h \<longrightarrow> f h = sha_update bs h)"

lemma feeds_fields [simp]:
  "feeds (add_u8 b) [b]" "feeds (add_u32 y) (le32 y)" "feeds (add_u64 z) (le64 z)"
  "feeds (add_bool t) [if t then 1 else 0]" "feeds (add_digest d) d"
  by (simp_all add: feeds_def add_u8_def add_u32_def add_u64_def add_bool_def add_digest_def)

lemma feeds_add_string [simp]: "feeds (add_string s) (le64 (word_of_nat (length s)) @ string_bytes s)"
  by (simp add: feeds_def add_string_def add_u64_def sha_update_append)

lemma feeds_add_bytes [simp]: "feeds (add_bytes bs) (le64 (word_of_nat (length bs)) @ bs)"
  by (simp add: feeds_def add_bytes_def add_u64_def sha_update_append)

lemma fold_feeds:
  "list_all2 feeds ops bss \<Longrightarrow> sha_ready h \<Longrightarrow> fold (\<lambda>f h. f h) ops h = sha_update (concat bss) h"
proof (induction ops bss arbitrary: h rule: list_all2_induct)
  case Nil
  then show ?case by (simp add: sha_update_def)
next
  case (Cons f ops bs bss)
  then show ?case by (simp add: feeds_def sha_update_ready sha_update_append)
qed

lemma canonical_digest_feeds: "list_all2 feeds ops bss \<Longrightarrow> canonical_digest ops = sha256 (concat bss)"
  by (simp add: canonical_digest_def hasher_of_def sha256_def fold_feeds)

text \<open>A canonical digest of operations that feed bytes has 32 bytes.\<close>

definition fed :: "(sha_ctx \<Rightarrow> sha_ctx) \<Rightarrow> bool" where
  "fed f \<longleftrightarrow> (\<exists>bs. feeds f bs)"

lemma fed_fields [simp]:
  "fed (add_u8 b)" "fed (add_u32 y)" "fed (add_u64 z)" "fed (add_bool t)" "fed (add_digest d)" "fed (add_string s)" "fed (add_bytes bs)"
  by (auto simp: fed_def intro: feeds_fields feeds_add_string feeds_add_bytes)

lemma digest_ok_canonical: "list_all fed ops \<Longrightarrow> digest_ok (canonical_digest ops)"
proof -
  assume "list_all fed ops"
  then have "\<exists>bss. list_all2 feeds ops bss" by (induction ops) (auto simp: fed_def intro: list_all2_Cons [THEN iffD2])
  then show ?thesis using canonical_digest_feeds by (auto simp: digest_ok_def)
qed

lemma list_all_concat_map: "(\<And>x. list_all P (f x)) \<Longrightarrow> list_all P (concat (map f xs))"
  by (induction xs) simp_all

lemma list_all2_concat_map:
  "(\<And>x. list_all2 P (f x) (g x)) \<Longrightarrow> list_all2 P (concat (map f xs)) (concat (map g xs))"
  by (induction xs) (simp_all add: list_all2_appendI)

lemma canonical_digest_length [simp]: "length (canonical_digest (map sha_update bss)) = 32"
  by (simp add: canonical_digest_def hasher_of_def fold_updates flip: sha256_def)

end
