(* ===== verification/Bytes.thy ===== *)
theory Bytes
  imports Digest "HOL-Library.Monad_Syntax"
begin

text \<open>
  \<^verbatim>\<open>include/oversub/bytes.hpp\<close>: the bounded little-endian codec. A \<^verbatim>\<open>ByteWriter\<close> call is the list
  of bytes it appends (\<^const>\<open>None\<close> where it returns \<^verbatim>\<open>false\<close>), a \<^verbatim>\<open>ByteReader\<close> is the list of bytes it
  has left, and a read is the value with the bytes after it, or \<^const>\<open>None\<close> where it returns \<^verbatim>\<open>false\<close>.

  The locale \<open>codec\<close> is the contract between an encoder and a decoder of one type. It is
  interpreted for every codec of the durable files and of the protocol; the repetition of a codec
  is proved once inside it.
\<close>

section \<open>Writers\<close>

definition w_u8 :: "u8 \<Rightarrow> u8 list" where
  "w_u8 x = [x]"

definition w_u32 :: "u32 \<Rightarrow> u8 list" where
  "w_u32 x = map (\<lambda>i. ucast (drop_bit (i * 8) x AND 255)) [0..<4]"

definition w_u64 :: "u64 \<Rightarrow> u8 list" where
  "w_u64 x = map (\<lambda>i. ucast (drop_bit (i * 8) x AND 255)) [0..<8]"

definition w_bool :: "bool \<Rightarrow> u8 list" where
  "w_bool b = w_u8 (if b then 1 else 0)"

definition w_string :: "string \<Rightarrow> u32 \<Rightarrow> u8 list option" where
  "w_string s max_length =
     (if length s > unat max_length then None
      else Some (w_u32 (word_of_nat (length s)) @ string_bytes s))"

definition w_raw :: "u8 list \<Rightarrow> u8 list" where
  "w_raw xs = xs"

definition w_digest :: "digest \<Rightarrow> u8 list" where
  "w_digest d = w_raw d"

section \<open>Readers\<close>

type_synonym 'a reader = "u8 list \<Rightarrow> ('a \<times> u8 list) option"

definition r_u8 :: "u8 reader" where
  "r_u8 bs = (case bs of [] \<Rightarrow> None | b # rest \<Rightarrow> Some (b, rest))"

definition r_u32 :: "u32 reader" where
  "r_u32 bs =
     (if 4 > length bs then None
      else Some (fold (\<lambda>i out. out OR push_bit (i * 8) (ucast (bs ! i))) [0..<4] 0, drop 4 bs))"

definition r_u64 :: "u64 reader" where
  "r_u64 bs =
     (if 8 > length bs then None
      else Some (fold (\<lambda>i out. out OR push_bit (i * 8) (ucast (bs ! i))) [0..<8] 0, drop 8 bs))"

definition r_bool :: "bool reader" where
  "r_bool bs = do { (value, bs) \<leftarrow> r_u8 bs; Some (value \<noteq> 0, bs) }"

definition r_raw :: "nat \<Rightarrow> (u8 list) reader" where
  "r_raw len bs = (if len > length bs then None else Some (take len bs, drop len bs))"

definition bytes_string :: "u8 list \<Rightarrow> string" where
  "bytes_string bs = map (\<lambda>b. char_of (unat b)) bs"

definition r_string :: "u32 \<Rightarrow> string reader" where
  "r_string max_length bs = do {
     (len, bs) \<leftarrow> r_u32 bs;
     if len > max_length then None
     else do {
       (chars, bs) \<leftarrow> r_raw (unat len) bs;
       Some (bytes_string chars, bs)
     }
   }"

definition r_digest :: "digest reader" where
  "r_digest bs = r_raw 32 bs"

text \<open>A loop that reads a counted sequence.\<close>

fun r_times :: "nat \<Rightarrow> 'a reader \<Rightarrow> ('a list) reader" where
  "r_times 0 r bs = Some ([], bs)"
| "r_times (Suc n) r bs = do { (x, bs) \<leftarrow> r bs; (xs, bs) \<leftarrow> r_times n r bs; Some (x # xs, bs) }"

section \<open>The contract of a codec\<close>

locale codec =
  fixes enc :: "'a \<Rightarrow> u8 list"
    and dec :: "u8 list \<Rightarrow> ('a \<times> u8 list) option"
    and ok :: "'a \<Rightarrow> bool"
  assumes dec_enc: "ok x \<Longrightarrow> dec (enc x @ rest) = Some (x, rest)"
begin

lemma dec_enc_exact: "ok x \<Longrightarrow> dec (enc x) = Some (x, [])"
  using dec_enc [of x "[]"] by simp

text \<open>No encoding is a proper prefix of another one, and the encoder is injective.\<close>

lemma prefix_free:
  assumes "ok x" and "ok y" and "enc x @ u = enc y @ v"
  shows "x = y \<and> u = v"
proof -
  have "Some (x, u) = dec (enc x @ u)" by (rule dec_enc [OF assms(1), symmetric])
  also have "\<dots> = Some (y, v)" unfolding assms(3) by (rule dec_enc [OF assms(2)])
  finally show ?thesis by simp
qed

lemma injective: "ok x \<Longrightarrow> ok y \<Longrightarrow> enc x = enc y \<Longrightarrow> x = y"
  using prefix_free [of x y "[]" "[]"] by simp

lemma times_round:
  "list_all ok xs \<Longrightarrow> r_times (length xs) dec (concat (map enc xs) @ rest) = Some (xs, rest)"
  by (induction xs) (simp_all add: dec_enc)

end

section \<open>The scalar codecs\<close>

lemma r_u8_w_u8: "r_u8 (w_u8 x @ rest) = Some (x, rest)"
  by (simp add: r_u8_def w_u8_def)

text \<open>Gathering the bytes a word was cut into gives back its low bits.\<close>

lemma gather_bytes:
  fixes x :: "'a::len word"
  assumes "\<And>i. i < n \<Longrightarrow> bs ! i = (ucast (drop_bit (i * 8) x AND 255) :: u8)"
  shows "fold (\<lambda>i out. out OR push_bit (i * 8) (ucast (bs ! i))) [0..<n] 0 = take_bit (n * 8) x"
  using assms
proof (induction n)
  case 0
  then show ?case by simp
next
  case (Suc n)
  have byte: "bs ! n = ucast (drop_bit (n * 8) x AND mask 8)"
    using Suc.prems [of n] by (simp add: mask_eq_exp_minus_1)
  have "take_bit (n * 8) x OR push_bit (n * 8) (ucast (bs ! n)) = take_bit (Suc n * 8) x"
    unfolding byte by (rule bit_word_eqI) (auto simp: bit_simps)
  with Suc show ?case by simp
qed

lemma gather_word:
  fixes x :: "'a::len word"
  assumes "LENGTH('a) = n * 8"
  shows "fold (\<lambda>i out. out OR push_bit (i * 8) (ucast ((map (\<lambda>i. ucast (drop_bit (i * 8) x AND 255) :: u8) [0..<n] @ rest) ! i)))
           [0..<n] 0 = x"
  using assms by (subst gather_bytes) (simp_all add: nth_append take_bit_word_eq_self)

lemma r_u32_w_u32: "r_u32 (w_u32 x @ rest) = Some (x, rest)"
  unfolding r_u32_def w_u32_def by (subst gather_word) simp_all

lemma r_u64_w_u64: "r_u64 (w_u64 x @ rest) = Some (x, rest)"
  unfolding r_u64_def w_u64_def by (subst gather_word) simp_all

lemma r_bool_w_bool: "r_bool (w_bool b @ rest) = Some (b, rest)"
  by (simp add: r_bool_def w_bool_def r_u8_w_u8)

lemma unat_of_char: "unat (of_char c :: u8) = of_char c"
proof -
  have "(of_char c :: u8) = word_of_nat (of_char c)"
    by (cases c) (simp add: of_char_def horner_sum_simps)
  moreover have "(of_char c :: nat) < 256" by simp
  ultimately show ?thesis by (simp add: unat_of_nat)
qed

lemma bytes_string_bytes [simp]: "bytes_string (string_bytes s) = s"
  by (simp add: bytes_string_def string_bytes_def unat_of_char map_idI)

lemma string_bytes_inject [simp]: "string_bytes s = string_bytes t \<longleftrightarrow> s = t"
  by (metis bytes_string_bytes)

lemma r_raw_append: "length xs = n \<Longrightarrow> r_raw n (xs @ rest) = Some (xs, rest)"
  by (simp add: r_raw_def)

lemma r_digest_w_digest: "digest_ok d \<Longrightarrow> r_digest (w_digest d @ rest) = Some (d, rest)"
  by (simp add: r_digest_def w_digest_def w_raw_def digest_ok_def r_raw_append)

lemma r_string_w_string:
  "w_string s m = Some bs \<Longrightarrow> r_string m (bs @ rest) = Some (s, rest)"
proof -
  assume "w_string s m = Some bs"
  then have len: "length s \<le> unat m" and bs: "bs = w_u32 (word_of_nat (length s)) @ string_bytes s"
    by (auto simp: w_string_def split: if_splits)
  have "length s < 4294967296" by (rule le_less_trans [OF len]) simp
  then have "unat (word_of_nat (length s) :: u32) = length s" by simp
  with len show ?thesis
    by (simp add: r_string_def bs r_u32_w_u32 word_less_nat_alt r_raw_append)
qed

text \<open>A string written within its bound, as a codec of its own.\<close>

definition string_fits :: "u32 \<Rightarrow> string \<Rightarrow> bool" where
  "string_fits m s = (length s \<le> unat m)"

definition w_string_body :: "string \<Rightarrow> u8 list" where
  "w_string_body s = w_u32 (word_of_nat (length s)) @ string_bytes s"

lemma w_string_fits: "string_fits m s \<Longrightarrow> w_string s m = Some (w_string_body s)"
  by (simp add: w_string_def string_fits_def w_string_body_def)

lemma w_string_eq: "w_string s m = (if string_fits m s then Some (w_string_body s) else None)"
  by (simp add: w_string_def string_fits_def w_string_body_def)

interpretation u8_codec: codec w_u8 r_u8 "\<lambda>_. True"
  by unfold_locales (rule r_u8_w_u8)

interpretation u32_codec: codec w_u32 r_u32 "\<lambda>_. True"
  by unfold_locales (rule r_u32_w_u32)

interpretation u64_codec: codec w_u64 r_u64 "\<lambda>_. True"
  by unfold_locales (rule r_u64_w_u64)

interpretation bool_codec: codec w_bool r_bool "\<lambda>_. True"
  by unfold_locales (rule r_bool_w_bool)

interpretation digest_codec: codec w_digest r_digest digest_ok
  by unfold_locales (rule r_digest_w_digest)

interpretation string_codec: codec w_string_body "r_string m" "string_fits m" for m
  by unfold_locales (rule r_string_w_string, rule w_string_fits)

lemmas scalar_codecs [codec_simps] =
  r_u8_w_u8 r_u32_w_u32 r_u64_w_u64 r_bool_w_bool r_digest_w_digest string_codec.dec_enc

lemma length_writers [simp]:
  "length (w_u8 x) = 1" "length (w_u32 y) = 4" "length (w_u64 z) = 8" "length (w_bool b) = 1"
  by (simp_all add: w_u8_def w_u32_def w_u64_def w_bool_def)

lemma w_le: "w_u32 y = le32 y" "w_u64 z = le64 z"
  by (simp_all add: w_u32_def w_u64_def le32_def le64_def)

end
