(* ===== verification/Evidence.thy ===== *)
theory Evidence
  imports Status Ids Checked Bytes "HOL-Library.Product_Lexorder"
begin

text \<open>
  \<^verbatim>\<open>include/oversub/evidence.hpp\<close> and \<^verbatim>\<open>src/evidence.cpp\<close>: capacity, reservation and admission
  snapshots, their canonical digests and their structural validation. The lemmas show that a digest
  does not depend on the order of the elements, that it is the SHA-256 of an injective encoding of
  the sorted snapshot, and exactly which snapshots are accepted.
\<close>

definition kHardMaxResourcesPerSnapshot :: u64 where "kHardMaxResourcesPerSnapshot = 4096"
definition kHardMaxGuaranteesPerSnapshot :: u64 where "kHardMaxGuaranteesPerSnapshot = 65536"
definition kHardMaxDemandRecordsPerSnapshot :: u64 where "kHardMaxDemandRecordsPerSnapshot = 65536"

record provenance =
  pv_publisher :: publisher_id
  pv_incarnation :: incarnation_id
  pv_epoch :: fabric_epoch
  pv_sequence :: u64
  pv_observed_tick :: u64
  pv_observed_wall_millis :: u64
  pv_evidence_id :: evidence_id
  pv_payload_digest :: digest

definition provenance_complete :: "provenance \<Rightarrow> bool" where
  "provenance_complete p =
     (id_valid (pv_publisher p) \<and> id_valid (pv_incarnation p) \<and> epoch_valid (pv_epoch p)
      \<and> pv_sequence p \<noteq> 0 \<and> id_valid (pv_evidence_id p))"

datatype evidence_kind =
  Evidence_Capacity
| Evidence_Reservation
| Evidence_Admission
| Evidence_cast u32

primrec evidence_kind_to_u32 :: "evidence_kind \<Rightarrow> u32" where
  "evidence_kind_to_u32 Evidence_Capacity = 0"
| "evidence_kind_to_u32 Evidence_Reservation = 1"
| "evidence_kind_to_u32 Evidence_Admission = 2"
| "evidence_kind_to_u32 (Evidence_cast n) = n"

definition evidence_kind_of_u32 :: "u32 \<Rightarrow> evidence_kind" where
  "evidence_kind_of_u32 n =
     (if n = 0 then Evidence_Capacity
      else if n = 1 then Evidence_Reservation
      else if n = 2 then Evidence_Admission
      else Evidence_cast n)"

primrec evidence_kind_name :: "evidence_kind \<Rightarrow> string" where
  "evidence_kind_name Evidence_Capacity = ''CAPACITY''"
| "evidence_kind_name Evidence_Reservation = ''RESERVATION''"
| "evidence_kind_name Evidence_Admission = ''ADMISSION''"
| "evidence_kind_name (Evidence_cast n) = ''UNKNOWN''"

record resource_capacity =
  rc_resource :: resource_id
  rc_pool :: pool_id
  rc_physical :: u64
  rc_usable :: u64
  rc_health :: resource_health
  rc_degraded_ppm :: u64
  rc_generation :: resource_generation

record capacity_snapshot =
  cs_domain :: domain_id
  cs_generation :: capacity_snapshot_generation
  cs_epoch :: fabric_epoch
  cs_tick :: u64
  cs_resources :: "resource_capacity list"
  cs_provenance :: provenance

record guarantee =
  gt_reservation :: reservation_id
  gt_resource :: resource_id
  gt_pool :: pool_id
  gt_class :: service_class_id
  gt_capacity :: u64
  gt_priority :: priority_ref
  gt_protected :: bool
  gt_preemptible :: bool
  gt_generation :: reservation_generation

record reservation_snapshot =
  rs_domain :: domain_id
  rs_generation :: reservation_snapshot_generation
  rs_epoch :: fabric_epoch
  rs_tick :: u64
  rs_guarantees :: "guarantee list"
  rs_provenance :: provenance

record demand_record =
  dr_admission :: admission_id
  dr_resource :: resource_id
  dr_pool :: pool_id
  dr_class :: service_class_id
  dr_kind :: demand_kind
  dr_committed :: u64
  dr_pending :: u64
  dr_generation :: admission_generation

record admission_snapshot =
  as_domain :: domain_id
  as_generation :: admission_snapshot_generation
  as_epoch :: fabric_epoch
  as_tick :: u64
  as_records :: "demand_record list"
  as_provenance :: provenance

section \<open>Canonical digests\<close>

definition hash_resource :: "resource_capacity \<Rightarrow> (sha_ctx \<Rightarrow> sha_ctx) list" where
  "hash_resource r =
     [add_u64 (id_value (rc_resource r)), add_u64 (id_value (rc_pool r)), add_u64 (rc_physical r),
      add_u64 (rc_usable r), add_u32 (resource_health_to_u32 (rc_health r)), add_u64 (rc_degraded_ppm r),
      add_u64 (gen_value (rc_generation r))]"

definition capacity_snapshot_digest :: "capacity_snapshot \<Rightarrow> digest" where
  "capacity_snapshot_digest s =
     (let items = sort_key (\<lambda>r. (rc_resource r, rc_pool r)) (cs_resources s)
      in canonical_digest
           ([add_string ''oversub.capacity.v1'', add_u64 (id_value (cs_domain s)), add_u64 (gen_value (cs_generation s)),
             add_u64 (epoch_value (cs_epoch s)), add_u64 (cs_tick s), add_u64 (word_of_nat (length items))]
            @ concat (map hash_resource items)))"

definition hash_guarantee :: "guarantee \<Rightarrow> (sha_ctx \<Rightarrow> sha_ctx) list" where
  "hash_guarantee g =
     [add_u64 (id_value (gt_reservation g)), add_u64 (id_value (gt_resource g)), add_u64 (id_value (gt_pool g)),
      add_u64 (id_value (gt_class g)), add_u64 (gt_capacity g), add_u32 (priority_value (gt_priority g)),
      add_bool (gt_protected g), add_bool (gt_preemptible g), add_u64 (gen_value (gt_generation g))]"

definition reservation_snapshot_digest :: "reservation_snapshot \<Rightarrow> digest" where
  "reservation_snapshot_digest s =
     (let items = sort_key gt_reservation (rs_guarantees s)
      in canonical_digest
           ([add_string ''oversub.reservation.v1'', add_u64 (id_value (rs_domain s)), add_u64 (gen_value (rs_generation s)),
             add_u64 (epoch_value (rs_epoch s)), add_u64 (rs_tick s), add_u64 (word_of_nat (length items))]
            @ concat (map hash_guarantee items)))"

definition hash_demand :: "demand_record \<Rightarrow> (sha_ctx \<Rightarrow> sha_ctx) list" where
  "hash_demand r =
     [add_u64 (id_value (dr_admission r)), add_u64 (id_value (dr_resource r)), add_u64 (id_value (dr_pool r)),
      add_u64 (id_value (dr_class r)), add_u32 (demand_kind_to_u32 (dr_kind r)), add_u64 (dr_committed r),
      add_u64 (dr_pending r), add_u64 (gen_value (dr_generation r))]"

definition admission_snapshot_digest :: "admission_snapshot \<Rightarrow> digest" where
  "admission_snapshot_digest s =
     (let items = sort_key dr_admission (as_records s)
      in canonical_digest
           ([add_string ''oversub.admission.v1'', add_u64 (id_value (as_domain s)), add_u64 (gen_value (as_generation s)),
             add_u64 (epoch_value (as_epoch s)), add_u64 (as_tick s), add_u64 (word_of_nat (length items))]
            @ concat (map hash_demand items)))"

section \<open>Structural validation\<close>

definition malformed :: "reason_code \<Rightarrow> string \<Rightarrow> status" where
  "malformed r d = status_failure Status_Conflict r d"

definition out_of_range :: "reason_code \<Rightarrow> string \<Rightarrow> status" where
  "out_of_range r d = status_failure Status_OutOfRange r d"

definition invalid_arg :: "reason_code \<Rightarrow> string \<Rightarrow> status" where
  "invalid_arg r d = status_failure Status_InvalidArgument r d"

definition has_duplicate_ids :: "u64 list \<Rightarrow> bool" where
  "has_duplicate_ids ids = (if length ids < 2 then False else adjacent_equal (sort ids))"

definition check_common :: "domain_id \<Rightarrow> fabric_epoch \<Rightarrow> u64 \<Rightarrow> provenance \<Rightarrow> digest \<Rightarrow> digest \<Rightarrow> status" where
  "check_common domain epoch observed_tick provenance payload_digest computed =
     (if \<not> id_valid domain then invalid_arg Reason_InvalidIdentity ''evidence domain identity unset''
      else if \<not> epoch_valid epoch then invalid_arg Reason_EpochMismatch ''evidence epoch unset''
      else if observed_tick > kHardMaxTicks then out_of_range Reason_InvalidField ''observation tick out of bound''
      else if \<not> provenance_complete provenance then malformed Reason_EvidenceMalformed ''provenance incomplete''
      else if \<not> digest_is_zero payload_digest \<and> payload_digest \<noteq> computed
      then status_failure Status_IntegrityFailure Reason_SnapshotDigestMismatch
             ''payload digest does not match the canonical snapshot digest''
      else status_success)"

text \<open>The loop over the elements: \<^const>\<open>Inl\<close> is the status the element is rejected with.\<close>

definition check_resource :: "unit \<Rightarrow> resource_capacity \<Rightarrow> status + unit" where
  "check_resource u r =
     (if \<not> id_valid (rc_resource r) \<or> \<not> id_valid (rc_pool r)
      then Inl (invalid_arg Reason_InvalidIdentity ''resource identity unset'')
      else if \<not> gen_valid (rc_generation r)
      then Inl (invalid_arg Reason_GenerationUnset ''resource generation unset'')
      else if rc_usable r > rc_physical r
      then Inl (malformed Reason_ResourceUsableExceedsPhysical ''usable capacity exceeds physical capacity'')
      else if rc_physical r > kHardMaxCapacityUnits
      then Inl (out_of_range Reason_ResourceCapacityInvalid ''physical capacity out of bound'')
      else if rc_degraded_ppm r > kPpmScale
      then Inl (out_of_range Reason_ResourceCapacityInvalid ''degraded capacity ppm out of bound'')
      else Inr ())"

definition validate_capacity_snapshot :: "capacity_snapshot \<Rightarrow> status" where
  "validate_capacity_snapshot s =
     (let computed = capacity_snapshot_digest s;
          common = check_common (cs_domain s) (cs_epoch s) (cs_tick s) (cs_provenance s)
                     (pv_payload_digest (cs_provenance s)) computed
      in if \<not> status_ok common then common
         else if length (cs_resources s) > unat kHardMaxResourcesPerSnapshot
         then out_of_range Reason_SnapshotTooLarge ''capacity snapshot has too many resources''
         else returned (and_then (for_each check_resource () (cs_resources s)) (\<lambda>_.
           if has_duplicate_ids (map (\<lambda>r. id_value (rc_resource r)) (cs_resources s))
           then Inl (malformed Reason_SnapshotDuplicate ''duplicate resource entry in a capacity snapshot'')
           else Inr status_success)))"

definition check_guarantee :: "unit \<Rightarrow> guarantee \<Rightarrow> status + unit" where
  "check_guarantee u g =
     (if \<not> id_valid (gt_reservation g) \<or> \<not> id_valid (gt_resource g) \<or> \<not> id_valid (gt_pool g) \<or> \<not> gen_valid (gt_generation g)
      then Inl (invalid_arg Reason_InvalidIdentity ''guarantee identity unset'')
      else if gt_capacity g > kHardMaxCapacityUnits
      then Inl (out_of_range Reason_ResourceCapacityInvalid ''guaranteed capacity out of bound'')
      else if \<not> gt_protected g \<or> gt_preemptible g
      then Inl (malformed Reason_GuaranteeContradiction ''a protected guarantee cannot be unprotected or preemptible'')
      else Inr ())"

definition validate_reservation_snapshot :: "reservation_snapshot \<Rightarrow> status" where
  "validate_reservation_snapshot s =
     (let computed = reservation_snapshot_digest s;
          common = check_common (rs_domain s) (rs_epoch s) (rs_tick s) (rs_provenance s)
                     (pv_payload_digest (rs_provenance s)) computed
      in if \<not> status_ok common then common
         else if length (rs_guarantees s) > unat kHardMaxGuaranteesPerSnapshot
         then out_of_range Reason_SnapshotTooLarge ''reservation snapshot has too many guarantees''
         else returned (and_then (for_each check_guarantee () (rs_guarantees s)) (\<lambda>_.
           if has_duplicate_ids (map (\<lambda>g. id_value (gt_reservation g)) (rs_guarantees s))
           then Inl (malformed Reason_GuaranteeDuplicate ''duplicate reservation id in a reservation snapshot'')
           else Inr status_success)))"

definition check_demand :: "unit \<Rightarrow> demand_record \<Rightarrow> status + unit" where
  "check_demand u r =
     (if \<not> id_valid (dr_admission r) \<or> \<not> id_valid (dr_resource r) \<or> \<not> id_valid (dr_pool r) \<or> \<not> gen_valid (dr_generation r)
      then Inl (invalid_arg Reason_InvalidIdentity ''demand record identity unset'')
      else if dr_kind r = Demand_Unknown
      then Inl (malformed Reason_AdmissionKindConflict ''demand record has no kind'')
      else if dr_committed r > kHardMaxCapacityUnits \<or> dr_pending r > kHardMaxCapacityUnits
      then Inl (out_of_range Reason_ResourceCapacityInvalid ''demand capacity out of bound'')
      else Inr ())"

definition validate_admission_snapshot :: "admission_snapshot \<Rightarrow> status" where
  "validate_admission_snapshot s =
     (let computed = admission_snapshot_digest s;
          common = check_common (as_domain s) (as_epoch s) (as_tick s) (as_provenance s)
                     (pv_payload_digest (as_provenance s)) computed
      in if \<not> status_ok common then common
         else if length (as_records s) > unat kHardMaxDemandRecordsPerSnapshot
         then out_of_range Reason_SnapshotTooLarge ''admission snapshot has too many demand records''
         else returned (and_then (for_each check_demand () (as_records s)) (\<lambda>_.
           if has_duplicate_ids (map (\<lambda>r. id_value (dr_admission r)) (as_records s))
           then Inl (malformed Reason_AdmissionDuplicate ''duplicate admission id in an admission snapshot'')
           else Inr status_success)))"

section \<open>Which snapshots are accepted\<close>

lemma adjacent_equal_short: "length xs < 2 \<Longrightarrow> distinct xs"
  by (cases xs rule: adjacent_equal.cases) auto

lemma has_duplicate_ids_iff: "has_duplicate_ids ids \<longleftrightarrow> \<not> distinct ids"
  by (simp add: has_duplicate_ids_def adjacent_equal_sorted adjacent_equal_short)

lemma failure_kinds_not_ok [simp]:
  "\<not> status_ok (malformed r d)" "\<not> status_ok (out_of_range r d)" "\<not> status_ok (invalid_arg r d)"
  by (simp_all add: malformed_def out_of_range_def invalid_arg_def)

definition provenance_accepted :: "domain_id \<Rightarrow> fabric_epoch \<Rightarrow> u64 \<Rightarrow> provenance \<Rightarrow> digest \<Rightarrow> bool" where
  "provenance_accepted domain epoch tick p computed \<longleftrightarrow>
     id_valid domain \<and> epoch_valid epoch \<and> tick \<le> kHardMaxTicks \<and> provenance_complete p
     \<and> (digest_is_zero (pv_payload_digest p) \<or> pv_payload_digest p = computed)"

lemma check_common_ok:
  "status_ok (check_common domain epoch tick p (pv_payload_digest p) computed)
     = provenance_accepted domain epoch tick p computed"
  by (auto simp: check_common_def provenance_accepted_def not_le not_less)

definition resource_accepted :: "resource_capacity \<Rightarrow> bool" where
  "resource_accepted r \<longleftrightarrow>
     id_valid (rc_resource r) \<and> id_valid (rc_pool r) \<and> gen_valid (rc_generation r)
     \<and> rc_usable r \<le> rc_physical r \<and> rc_physical r \<le> kHardMaxCapacityUnits \<and> rc_degraded_ppm r \<le> kPpmScale"

definition guarantee_accepted :: "guarantee \<Rightarrow> bool" where
  "guarantee_accepted g \<longleftrightarrow>
     id_valid (gt_reservation g) \<and> id_valid (gt_resource g) \<and> id_valid (gt_pool g) \<and> gen_valid (gt_generation g)
     \<and> gt_capacity g \<le> kHardMaxCapacityUnits \<and> gt_protected g \<and> \<not> gt_preemptible g"

definition demand_accepted :: "demand_record \<Rightarrow> bool" where
  "demand_accepted r \<longleftrightarrow>
     id_valid (dr_admission r) \<and> id_valid (dr_resource r) \<and> id_valid (dr_pool r) \<and> gen_valid (dr_generation r)
     \<and> dr_kind r \<noteq> Demand_Unknown \<and> dr_committed r \<le> kHardMaxCapacityUnits \<and> dr_pending r \<le> kHardMaxCapacityUnits"

lemma check_element_iffs:
  "check_resource u r = Inr () \<longleftrightarrow> resource_accepted r"
  "check_guarantee u g = Inr () \<longleftrightarrow> guarantee_accepted g"
  "check_demand u d = Inr () \<longleftrightarrow> demand_accepted d"
  by (auto simp: check_resource_def check_guarantee_def check_demand_def resource_accepted_def
      guarantee_accepted_def demand_accepted_def)

lemma check_element_fails:
  "check_resource u r = Inl s \<Longrightarrow> \<not> status_ok s"
  "check_guarantee u g = Inl s \<Longrightarrow> \<not> status_ok s"
  "check_demand u d = Inl s \<Longrightarrow> \<not> status_ok s"
  by (auto simp: check_resource_def check_guarantee_def check_demand_def split: if_splits)

text \<open>The shape the three validators share.\<close>

lemma element_loop_ok:
  assumes "\<And>x s. f () x = Inl s \<Longrightarrow> \<not> status_ok s" and "\<not> status_ok dup"
  shows "status_ok (returned (and_then (for_each f () xs)
           (\<lambda>_. if has_duplicate_ids ids then Inl dup else Inr status_success)))
         \<longleftrightarrow> (\<forall>x \<in> set xs. f () x = Inr ()) \<and> distinct ids"
proof (cases "for_each f () xs")
  case (Inl s)
  then have "\<not> (\<forall>x \<in> set xs. f () x = Inr ())" using for_each_check [of f xs "()"] by auto
  moreover have "\<not> status_ok s" using for_each_check_fails [OF Inl] assms(1) by blast
  ultimately show ?thesis using Inl by simp
next
  case (Inr u)
  then have "\<forall>x \<in> set xs. f () x = Inr ()" using for_each_check [of f xs "()"] by auto
  with Inr assms(2) show ?thesis by (simp add: has_duplicate_ids_iff)
qed

definition capacity_accepted :: "capacity_snapshot \<Rightarrow> bool" where
  "capacity_accepted s \<longleftrightarrow>
     provenance_accepted (cs_domain s) (cs_epoch s) (cs_tick s) (cs_provenance s) (capacity_snapshot_digest s)
     \<and> length (cs_resources s) \<le> 4096 \<and> (\<forall>r \<in> set (cs_resources s). resource_accepted r)
     \<and> distinct (map rc_resource (cs_resources s))"

definition reservation_accepted :: "reservation_snapshot \<Rightarrow> bool" where
  "reservation_accepted s \<longleftrightarrow>
     provenance_accepted (rs_domain s) (rs_epoch s) (rs_tick s) (rs_provenance s) (reservation_snapshot_digest s)
     \<and> length (rs_guarantees s) \<le> 65536 \<and> (\<forall>g \<in> set (rs_guarantees s). guarantee_accepted g)
     \<and> distinct (map gt_reservation (rs_guarantees s))"

definition admission_accepted :: "admission_snapshot \<Rightarrow> bool" where
  "admission_accepted s \<longleftrightarrow>
     provenance_accepted (as_domain s) (as_epoch s) (as_tick s) (as_provenance s) (admission_snapshot_digest s)
     \<and> length (as_records s) \<le> 65536 \<and> (\<forall>r \<in> set (as_records s). demand_accepted r)
     \<and> distinct (map dr_admission (as_records s))"

lemma snapshot_bounds [simp]:
  "unat kHardMaxResourcesPerSnapshot = 4096" "unat kHardMaxGuaranteesPerSnapshot = 65536"
  "unat kHardMaxDemandRecordsPerSnapshot = 65536"
  by (simp_all add: kHardMaxResourcesPerSnapshot_def kHardMaxGuaranteesPerSnapshot_def
      kHardMaxDemandRecordsPerSnapshot_def)

lemma validate_capacity_iff: "status_ok (validate_capacity_snapshot s) = capacity_accepted s"
  unfolding validate_capacity_snapshot_def Let_def capacity_accepted_def
  by (simp add: check_common_ok element_loop_ok check_element_fails check_element_iffs distinct_id_value not_less)

lemma validate_reservation_iff: "status_ok (validate_reservation_snapshot s) = reservation_accepted s"
  unfolding validate_reservation_snapshot_def Let_def reservation_accepted_def
  by (simp add: check_common_ok element_loop_ok check_element_fails check_element_iffs distinct_id_value not_less)

lemma validate_admission_iff: "status_ok (validate_admission_snapshot s) = admission_accepted s"
  unfolding validate_admission_snapshot_def Let_def admission_accepted_def
  by (simp add: check_common_ok element_loop_ok check_element_fails check_element_iffs distinct_id_value not_less)

text \<open>
  The three validators accept exactly the well-formed snapshots: identities, generations, epoch and
  provenance set, a payload digest that is absent or right, sizes and amounts within the hard bounds,
  usable capacity under physical capacity, guarantees protected, demand with a kind, and no identity
  twice.
\<close>

theorem snapshots_validated_exactly:
  "status_ok (validate_capacity_snapshot c) = capacity_accepted c
   \<and> status_ok (validate_reservation_snapshot r) = reservation_accepted r
   \<and> status_ok (validate_admission_snapshot a) = admission_accepted a"
  by (simp add: validate_capacity_iff validate_reservation_iff validate_admission_iff)

section \<open>Digests do not depend on the order of the elements\<close>

lemma capacity_digest_permuted:
  assumes "mset rs = mset (cs_resources s)" and "distinct (map rc_resource (cs_resources s))"
  shows "capacity_snapshot_digest (s\<lparr>cs_resources := rs\<rparr>) = capacity_snapshot_digest s"
proof -
  have "distinct (map (\<lambda>r. (rc_resource r, rc_pool r)) (cs_resources s))"
    using assms(2) by (auto simp: distinct_map inj_on_def)
  then have "sort_key (\<lambda>r. (rc_resource r, rc_pool r)) (cs_resources s) = sort_key (\<lambda>r. (rc_resource r, rc_pool r)) rs"
    by (rule sort_key_unique [OF assms(1) [symmetric]])
  then show ?thesis by (simp add: capacity_snapshot_digest_def)
qed

lemma reservation_digest_permuted:
  assumes "mset gs = mset (rs_guarantees s)" and "distinct (map gt_reservation (rs_guarantees s))"
  shows "reservation_snapshot_digest (s\<lparr>rs_guarantees := gs\<rparr>) = reservation_snapshot_digest s"
  using sort_key_unique [OF assms(1) [symmetric] assms(2)] by (simp add: reservation_snapshot_digest_def)

lemma admission_digest_permuted:
  assumes "mset rs = mset (as_records s)" and "distinct (map dr_admission (as_records s))"
  shows "admission_snapshot_digest (s\<lparr>as_records := rs\<rparr>) = admission_snapshot_digest s"
  using sort_key_unique [OF assms(1) [symmetric] assms(2)] by (simp add: admission_snapshot_digest_def)

section \<open>What a digest is a digest of\<close>

definition field_string :: "string \<Rightarrow> u8 list" where
  "field_string s = w_u64 (word_of_nat (length s)) @ string_bytes s"

lemma feeds_field_string: "feeds (add_string s) (field_string s)"
  by (simp add: field_string_def w_le)

definition resource_bytes :: "resource_capacity \<Rightarrow> u8 list" where
  "resource_bytes r =
     w_u64 (id_value (rc_resource r)) @ w_u64 (id_value (rc_pool r)) @ w_u64 (rc_physical r) @ w_u64 (rc_usable r)
     @ w_u32 (resource_health_to_u32 (rc_health r)) @ w_u64 (rc_degraded_ppm r) @ w_u64 (gen_value (rc_generation r))"

text \<open>The reader the canonical encoding of a resource would have; the code never reads it back.\<close>

definition resource_unbytes :: "resource_capacity reader" where
  "resource_unbytes bs = do {
     (resource, bs) \<leftarrow> r_u64 bs; (pool, bs) \<leftarrow> r_u64 bs; (physical, bs) \<leftarrow> r_u64 bs; (usable, bs) \<leftarrow> r_u64 bs;
     (health, bs) \<leftarrow> r_u32 bs; (ppm, bs) \<leftarrow> r_u64 bs; (generation, bs) \<leftarrow> r_u64 bs;
     Some (\<lparr>rc_resource = StrongId resource, rc_pool = StrongId pool, rc_physical = physical, rc_usable = usable,
            rc_health = resource_health_of_u32 health, rc_degraded_ppm = ppm, rc_generation = Gen generation\<rparr>, bs)
   }"

interpretation resource_canonical: codec resource_bytes resource_unbytes "\<lambda>r. wf_resource_health (rc_health r)"
  by unfold_locales (simp add: resource_bytes_def resource_unbytes_def codec_simps)

definition capacity_canonical :: "capacity_snapshot \<Rightarrow> u8 list" where
  "capacity_canonical s =
     (let items = sort_key (\<lambda>r. (rc_resource r, rc_pool r)) (cs_resources s)
      in field_string ''oversub.capacity.v1'' @ w_u64 (id_value (cs_domain s)) @ w_u64 (gen_value (cs_generation s))
         @ w_u64 (epoch_value (cs_epoch s)) @ w_u64 (cs_tick s) @ w_u64 (word_of_nat (length items))
         @ concat (map resource_bytes items))"

lemma capacity_digest_canonical: "capacity_snapshot_digest s = sha256 (capacity_canonical s)"
proof -
  let ?chunks = "\<lambda>r. [w_u64 (id_value (rc_resource r)), w_u64 (id_value (rc_pool r)), w_u64 (rc_physical r),
    w_u64 (rc_usable r), w_u32 (resource_health_to_u32 (rc_health r)), w_u64 (rc_degraded_ppm r), w_u64 (gen_value (rc_generation r))]"
  define items where "items = sort_key (\<lambda>r. (rc_resource r, rc_pool r)) (cs_resources s)"
  have body: "list_all2 feeds (concat (map hash_resource items)) (concat (map ?chunks items))"
    by (rule list_all2_concat_map) (simp add: hash_resource_def w_le)
  have "concat (concat (map ?chunks items)) = concat (map resource_bytes items)"
    by (induction items) (simp_all add: resource_bytes_def)
  then show ?thesis
    unfolding capacity_snapshot_digest_def capacity_canonical_def Let_def items_def [symmetric]
    by (subst canonical_digest_feeds [OF list_all2_appendI [OF _ body],
          of _ "[field_string ''oversub.capacity.v1'', w_u64 (id_value (cs_domain s)), w_u64 (gen_value (cs_generation s)),
              w_u64 (epoch_value (cs_epoch s)), w_u64 (cs_tick s), w_u64 (word_of_nat (length items))]"])
       (simp_all add: feeds_field_string w_le)
qed

lemma capacity_canonical_injective:
  assumes "capacity_canonical s = capacity_canonical t"
    and "length (cs_resources s) \<le> 4096" and "length (cs_resources t) \<le> 4096"
    and "\<forall>r \<in> set (cs_resources s) \<union> set (cs_resources t). wf_resource_health (rc_health r)"
  shows "cs_domain s = cs_domain t \<and> cs_generation s = cs_generation t \<and> cs_epoch s = cs_epoch t
    \<and> cs_tick s = cs_tick t \<and> mset (cs_resources s) = mset (cs_resources t)"
proof -
  define key where "key = (\<lambda>r :: resource_capacity. (rc_resource r, rc_pool r))"
  define xs where "xs = sort_key key (cs_resources s)"
  define ys where "ys = sort_key key (cs_resources t)"
  define dec where "dec bs = do {
     (d, bs) \<leftarrow> r_u64 bs; (g, bs) \<leftarrow> r_u64 bs; (e, bs) \<leftarrow> r_u64 bs; (k, bs) \<leftarrow> r_u64 bs; (n, bs) \<leftarrow> r_u64 bs;
     (rs, bs) \<leftarrow> r_times (unat n) resource_unbytes bs; Some (d, g, e, k, rs) }" for bs
  have round: "dec (drop (length (field_string ''oversub.capacity.v1'')) (capacity_canonical u))
     = Some (id_value (cs_domain u), gen_value (cs_generation u), epoch_value (cs_epoch u), cs_tick u, sort_key key (cs_resources u))"
    if "length (cs_resources u) \<le> 4096" "\<forall>r \<in> set (cs_resources u). wf_resource_health (rc_health r)" for u
  proof -
    have "list_all (\<lambda>r. wf_resource_health (rc_health r)) (sort_key key (cs_resources u))"
      using that(2) by (simp add: list_all_iff)
    from resource_canonical.times_round [OF this, of "[]"] that(1) show ?thesis
      by (simp add: dec_def capacity_canonical_def key_def [symmetric] codec_simps)
  qed
  have "sort_key key (cs_resources s) = sort_key key (cs_resources t)"
    and "id_value (cs_domain s) = id_value (cs_domain t)" "gen_value (cs_generation s) = gen_value (cs_generation t)"
      "epoch_value (cs_epoch s) = epoch_value (cs_epoch t)" "cs_tick s = cs_tick t"
    using round [of s] round [of t] assms by auto
  moreover from this(1) have "mset (cs_resources s) = mset (cs_resources t)"
    by (metis mset_sort)
  ultimately show ?thesis by (simp add: strong_id.expand gen.expand fabric_epoch.expand)
qed

end
