(* ===== verification/Policy.thy ===== *)
theory Policy
  imports Evidence
begin

text \<open>
  \<^verbatim>\<open>include/oversub/policy.hpp\<close>, \<^verbatim>\<open>src/policy.cpp\<close> and the logical clock of \<^verbatim>\<open>src/clock.cpp\<close>: the
  policy with its domains, service classes, limits and thresholds, its canonical digest, its
  validation in the order of the code, and the sorted index the engine looks domains and classes
  up in. The lemmas say exactly which policies are installable and that the index finds what a
  linear scan finds.
\<close>

definition kHardMaxDomains :: u32 where "kHardMaxDomains = 4096"
definition kHardMaxResourcesPerDomain :: u32 where "kHardMaxResourcesPerDomain = 4096"
definition kHardMaxServiceClasses :: u32 where "kHardMaxServiceClasses = 4096"
definition kHardMaxCorrectiveIntents :: u32 where "kHardMaxCorrectiveIntents = 64"
definition kHardMaxExplanationLines :: u32 where "kHardMaxExplanationLines = 4096"
definition kHardMaxExplanationBytes :: u32 where "kHardMaxExplanationBytes = 262144"
definition kHardMaxNameLength :: u32 where "kHardMaxNameLength = 128"
definition kHardMaxRatioTermBound :: u64 where "kHardMaxRatioTermBound = 1000000"
definition kHardMaxExposurePpm :: u64 where "kHardMaxExposurePpm = 10000000"
definition kHardMaxFreshnessTicks :: u64 where "kHardMaxFreshnessTicks = push_bit 40 1"
definition kHardMaxCooldownTicks :: u64 where "kHardMaxCooldownTicks = push_bit 32 1"
definition kHardMaxConfirmations :: u64 where "kHardMaxConfirmations = 64"

section \<open>Data\<close>

record service_class_ref =
  sc_id :: service_class_id
  sc_name :: string
  sc_priority :: priority_ref
  sc_eligible :: bool
  sc_risk_weight_ppm :: u32
  sc_has_share_cap :: bool
  sc_share_cap_ppm :: u64

record risk_budget_policy =
  rb_id :: risk_budget_id
  rb_generation :: risk_budget_generation
  rb_has_absolute :: bool
  rb_max_units :: u64
  rb_has_ppm :: bool
  rb_max_ppm :: u64

record thresholds =
  th_warn_used_ppm :: u64
  th_reduce_overage_ppm :: u64
  th_emergency_overage_ppm :: u64

record hysteresis_policy =
  hy_escalation_confirmations :: u64
  hy_deescalation_confirmations :: u64
  hy_cooldown_ticks :: u64
  hy_margin_ppm :: u64

record domain_config =
  dm_id :: domain_id
  dm_generation :: domain_generation
  dm_name :: string
  dm_pool :: pool_id
  dm_members :: "resource_id list"
  dm_configured_ratio :: ratio
  dm_has_degraded_cap :: bool
  dm_degraded_cap :: ratio
  dm_reserve_units :: u64
  dm_headroom_units :: u64
  dm_burst_enabled :: bool
  dm_burst_cap_units :: u64

record policy_limits =
  lm_max_domains :: u32
  lm_max_resources_per_domain :: u32
  lm_max_service_classes :: u32
  lm_max_guarantees :: u64
  lm_max_demand_records :: u64
  lm_max_intents :: u32
  lm_max_lines :: u32
  lm_max_bytes :: u32
  lm_max_breakdown :: u32
  lm_max_capacity_units :: u64

record policy =
  pl_id :: policy_id
  pl_generation :: policy_generation
  pl_name :: string
  pl_ratio_cap :: ratio
  pl_domains :: "domain_config list"
  pl_classes :: "service_class_ref list"
  pl_risk_budget :: risk_budget_policy
  pl_thresholds :: thresholds
  pl_hysteresis :: hysteresis_policy
  pl_limits :: policy_limits
  pl_capacity_age :: u64
  pl_reservation_age :: u64
  pl_admission_age :: u64
  pl_digest :: digest

section \<open>Canonical digests\<close>

definition sorted_member_values :: "resource_id list \<Rightarrow> u64 list" where
  "sorted_member_values members = sort (map id_value members)"

definition hash_ratio :: "ratio \<Rightarrow> (sha_ctx \<Rightarrow> sha_ctx) list" where
  "hash_ratio r = [add_u64 (rat_num r), add_u64 (rat_den r)]"

definition hash_domain :: "domain_config \<Rightarrow> (sha_ctx \<Rightarrow> sha_ctx) list" where
  "hash_domain d =
     (let members = sorted_member_values (dm_members d)
      in [add_u64 (id_value (dm_id d)), add_u64 (gen_value (dm_generation d)), add_string (dm_name d),
          add_u64 (id_value (dm_pool d)), add_u64 (word_of_nat (length members))]
         @ map add_u64 members @ hash_ratio (dm_configured_ratio d)
         @ [add_bool (dm_has_degraded_cap d)] @ hash_ratio (dm_degraded_cap d)
         @ [add_u64 (dm_reserve_units d), add_u64 (dm_headroom_units d), add_bool (dm_burst_enabled d),
            add_u64 (dm_burst_cap_units d)])"

definition hash_class :: "service_class_ref \<Rightarrow> (sha_ctx \<Rightarrow> sha_ctx) list" where
  "hash_class c =
     [add_u64 (id_value (sc_id c)), add_string (sc_name c), add_u32 (priority_value (sc_priority c)),
      add_bool (sc_eligible c), add_u32 (sc_risk_weight_ppm c), add_bool (sc_has_share_cap c), add_u64 (sc_share_cap_ppm c)]"

definition hash_risk_budget :: "risk_budget_policy \<Rightarrow> (sha_ctx \<Rightarrow> sha_ctx) list" where
  "hash_risk_budget r =
     [add_u64 (id_value (rb_id r)), add_u64 (gen_value (rb_generation r)), add_bool (rb_has_absolute r),
      add_u64 (rb_max_units r), add_bool (rb_has_ppm r), add_u64 (rb_max_ppm r)]"

definition hash_limits :: "policy_limits \<Rightarrow> (sha_ctx \<Rightarrow> sha_ctx) list" where
  "hash_limits l =
     [add_u32 (lm_max_domains l), add_u32 (lm_max_resources_per_domain l), add_u32 (lm_max_service_classes l),
      add_u64 (lm_max_guarantees l), add_u64 (lm_max_demand_records l), add_u32 (lm_max_intents l),
      add_u32 (lm_max_lines l), add_u32 (lm_max_bytes l), add_u32 (lm_max_breakdown l), add_u64 (lm_max_capacity_units l)]"

definition policy_digest :: "policy \<Rightarrow> digest" where
  "policy_digest p =
     (let domains = sort_key dm_id (pl_domains p); classes = sort_key sc_id (pl_classes p);
          th = pl_thresholds p; hy = pl_hysteresis p
      in canonical_digest
           ([add_string ''oversub.policy.v1'', add_u64 (id_value (pl_id p)), add_u64 (gen_value (pl_generation p)),
             add_string (pl_name p)] @ hash_ratio (pl_ratio_cap p)
            @ [add_u64 (word_of_nat (length domains))] @ concat (map hash_domain domains)
            @ [add_u64 (word_of_nat (length classes))] @ concat (map hash_class classes)
            @ hash_risk_budget (pl_risk_budget p)
            @ [add_u64 (th_warn_used_ppm th), add_u64 (th_reduce_overage_ppm th), add_u64 (th_emergency_overage_ppm th),
               add_u64 (hy_escalation_confirmations hy), add_u64 (hy_deescalation_confirmations hy),
               add_u64 (hy_cooldown_ticks hy), add_u64 (hy_margin_ppm hy)]
            @ hash_limits (pl_limits p)
            @ [add_u64 (pl_capacity_age p), add_u64 (pl_reservation_age p), add_u64 (pl_admission_age p)]))"

definition compute_policy_digest :: "policy \<Rightarrow> policy" where
  "compute_policy_digest p = p\<lparr>pl_digest := policy_digest p\<rparr>"

definition domain_config_digest :: "domain_config \<Rightarrow> digest" where
  "domain_config_digest d =
     (let members = sorted_member_values (dm_members d)
      in canonical_digest
           ([add_string ''oversub.domain.v1'', add_u64 (id_value (dm_id d)), add_string (dm_name d),
             add_u64 (id_value (dm_pool d)), add_u64 (word_of_nat (length members))]
            @ map add_u64 members @ hash_ratio (dm_configured_ratio d)
            @ [add_bool (dm_has_degraded_cap d)] @ hash_ratio (dm_degraded_cap d)
            @ [add_u64 (dm_reserve_units d), add_u64 (dm_headroom_units d), add_bool (dm_burst_enabled d),
               add_u64 (dm_burst_cap_units d)]))"

section \<open>Validation\<close>

definition ratio_shape_bad :: "ratio \<Rightarrow> bool" where
  "ratio_shape_bad r = (rat_den r = 0 \<or> rat_num r = 0)"

definition ratio_out_of_bound :: "ratio \<Rightarrow> bool" where
  "ratio_out_of_bound r =
     (rat_num r > kHardMaxRatioTermBound \<or> rat_den r > kHardMaxRatioTermBound \<or> ratio_lt r (Ratio 1 1))"

definition has_duplicate_values :: "u64 list \<Rightarrow> bool" where
  "has_duplicate_values values = (if length values < 2 then False else adjacent_equal (sort values))"

definition check_policy_identity :: "policy \<Rightarrow> status + unit" where
  "check_policy_identity p =
     (if \<not> id_valid (pl_id p) then Inl (invalid_arg Reason_InvalidIdentity ''policy id unset'')
      else if \<not> gen_valid (pl_generation p) then Inl (invalid_arg Reason_InvalidIdentity ''policy generation unset'')
      else if length (pl_name p) > unat kHardMaxNameLength then Inl (invalid_arg Reason_InvalidField ''policy name too long'')
      else if ratio_shape_bad (pl_ratio_cap p)
      then Inl (invalid_arg Reason_PolicyRatioInvalid ''policy ratio cap has a zero term'')
      else if ratio_out_of_bound (pl_ratio_cap p)
      then Inl (invalid_arg Reason_PolicyRatioOutOfBound
                  (''policy ratio cap out of bound: '' @ ratio_to_string (pl_ratio_cap p)))
      else Inr ())"

definition check_policy_limits :: "policy \<Rightarrow> status + unit" where
  "check_policy_limits p =
     (let l = pl_limits p; exceeded = (\<lambda>d. Inl (invalid_arg Reason_PolicyLimitExceeded d)) in
      if lm_max_domains l = 0 \<or> lm_max_domains l > kHardMaxDomains then exceeded ''max_domains out of bound''
      else if lm_max_resources_per_domain l = 0 \<or> lm_max_resources_per_domain l > kHardMaxResourcesPerDomain
      then exceeded ''max_resources_per_domain out of bound''
      else if lm_max_service_classes l = 0 \<or> lm_max_service_classes l > kHardMaxServiceClasses
      then exceeded ''max_service_classes out of bound''
      else if lm_max_guarantees l = 0 \<or> lm_max_guarantees l > kHardMaxGuaranteesPerSnapshot
      then exceeded ''max_guarantees_per_snapshot out of bound''
      else if lm_max_demand_records l = 0 \<or> lm_max_demand_records l > kHardMaxDemandRecordsPerSnapshot
      then exceeded ''max_demand_records_per_snapshot out of bound''
      else if lm_max_intents l = 0 \<or> lm_max_intents l > kHardMaxCorrectiveIntents
      then exceeded ''max_corrective_intents out of bound''
      else if lm_max_lines l = 0 \<or> lm_max_lines l > kHardMaxExplanationLines
      then exceeded ''max_explanation_lines out of bound''
      else if lm_max_bytes l = 0 \<or> lm_max_bytes l > kHardMaxExplanationBytes
      then exceeded ''max_explanation_bytes out of bound''
      else if lm_max_breakdown l = 0 \<or> lm_max_breakdown l > kHardMaxResourcesPerDomain
      then exceeded ''max_resource_breakdown out of bound''
      else if lm_max_capacity_units l = 0 \<or> lm_max_capacity_units l > kHardMaxCapacityUnits
      then exceeded ''max_capacity_units out of bound''
      else if length (pl_domains p) > unat (lm_max_domains l) \<or> length (pl_domains p) > unat kHardMaxDomains
      then exceeded ''too many domains''
      else if length (pl_classes p) > unat (lm_max_service_classes l) \<or> length (pl_classes p) > unat kHardMaxServiceClasses
      then exceeded ''too many service classes''
      else Inr ())"

definition check_member :: "unit \<Rightarrow> resource_id \<Rightarrow> status + unit" where
  "check_member u m =
     (if \<not> id_valid m then Inl (invalid_arg Reason_InvalidIdentity ''member resource identity unset'') else Inr ())"

definition check_degraded_cap :: "policy \<Rightarrow> domain_config \<Rightarrow> status + unit" where
  "check_degraded_cap p d =
     (if \<not> dm_has_degraded_cap d then Inr ()
      else if ratio_shape_bad (dm_degraded_cap d)
      then Inl (invalid_arg Reason_PolicyRatioInvalid ''degraded ratio cap has a zero term'')
      else if ratio_out_of_bound (dm_degraded_cap d)
      then Inl (invalid_arg Reason_PolicyRatioOutOfBound
                  (''degraded ratio cap out of bound: '' @ ratio_to_string (dm_degraded_cap d)))
      else if ratio_gt (dm_degraded_cap d) (pl_ratio_cap p)
      then Inl (invalid_arg Reason_PolicyRatioOutOfBound ''degraded ratio cap exceeds the policy cap'')
      else if ratio_gt (dm_degraded_cap d) (dm_configured_ratio d)
      then Inl (invalid_arg Reason_PolicyRatioOutOfBound
                  ''degraded ratio cap exceeds the configured ratio (degradation must not raise the boundary)'')
      else Inr ())"

definition check_reserves :: "policy \<Rightarrow> domain_config \<Rightarrow> status + unit" where
  "check_reserves p d =
     (let max_units = lm_max_capacity_units (pl_limits p) in
      case add_checked (dm_reserve_units d) (dm_headroom_units d) of
        None \<Rightarrow> Inl (invalid_arg Reason_PolicyReserveInvalid ''emergency reserve plus minimum headroom overflows'')
      | Some reserve_sum \<Rightarrow>
          if dm_reserve_units d > max_units \<or> dm_headroom_units d > max_units
          then Inl (invalid_arg Reason_PolicyReserveInvalid ''reserve or headroom exceeds the capacity bound'')
          else if dm_burst_enabled d
          then (if dm_burst_cap_units d = 0
                then Inl (invalid_arg Reason_PolicyReserveInvalid ''burst pool enabled with a zero cap'')
                else if dm_burst_cap_units d > max_units
                then Inl (invalid_arg Reason_PolicyReserveInvalid ''burst pool cap exceeds the capacity bound'')
                else Inr ())
          else if dm_burst_cap_units d \<noteq> 0
          then Inl (invalid_arg Reason_PolicyReserveInvalid ''burst pool cap set while the burst pool is disabled'')
          else Inr ())"

definition check_domain :: "policy \<Rightarrow> unit \<Rightarrow> domain_config \<Rightarrow> status + unit" where
  "check_domain p u d =
     (if \<not> id_valid (dm_id d) \<or> \<not> id_valid (dm_pool d) \<or> \<not> gen_valid (dm_generation d)
      then Inl (invalid_arg Reason_InvalidIdentity ''domain identity unset'')
      else if length (dm_name d) > unat kHardMaxNameLength
      then Inl (invalid_arg Reason_InvalidField ''domain name too long'')
      else if dm_members d = [] then Inl (invalid_arg Reason_PolicyDomainEmpty ''domain has no member resources'')
      else if length (dm_members d) > unat (lm_max_resources_per_domain (pl_limits p))
              \<or> length (dm_members d) > unat kHardMaxResourcesPerDomain
      then Inl (invalid_arg Reason_PolicyDomainTooLarge ''domain has too many member resources'')
      else and_then (for_each check_member () (dm_members d)) (\<lambda>_.
        if has_duplicate_values (sorted_member_values (dm_members d))
        then Inl (invalid_arg Reason_PolicyDomainMemberDuplicate ''duplicate member resource'')
        else if ratio_shape_bad (dm_configured_ratio d)
        then Inl (invalid_arg Reason_PolicyRatioInvalid ''domain configured ratio has a zero term'')
        else if ratio_out_of_bound (dm_configured_ratio d)
        then Inl (invalid_arg Reason_PolicyRatioOutOfBound
                    (''domain configured ratio out of bound: '' @ ratio_to_string (dm_configured_ratio d)))
        else if ratio_gt (dm_configured_ratio d) (pl_ratio_cap p)
        then Inl (invalid_arg Reason_PolicyRatioOutOfBound ''domain configured ratio exceeds the policy cap'')
        else and_then (check_degraded_cap p d) (\<lambda>_. check_reserves p d)))"

definition check_policy_domains :: "policy \<Rightarrow> status + unit" where
  "check_policy_domains p =
     (if has_duplicate_values (map (\<lambda>d. id_value (dm_id d)) (pl_domains p))
      then Inl (invalid_arg Reason_PolicyDomainDuplicate ''duplicate domain id'')
      else for_each (check_domain p) () (pl_domains p))"

definition check_class :: "unit \<Rightarrow> service_class_ref \<Rightarrow> status + unit" where
  "check_class u c =
     (if \<not> id_valid (sc_id c) then Inl (invalid_arg Reason_InvalidIdentity ''service class identity unset'')
      else if length (sc_name c) > unat kHardMaxNameLength
      then Inl (invalid_arg Reason_InvalidField ''service class name too long'')
      else if ucast (sc_risk_weight_ppm c) > kPpmScale
      then Inl (invalid_arg Reason_InvalidField ''service class risk weight exceeds 1e6 ppm'')
      else if sc_has_share_cap c \<and> sc_share_cap_ppm c > kPpmScale
      then Inl (invalid_arg Reason_InvalidField ''service class contingent share cap exceeds 1e6 ppm'')
      else Inr ())"

definition check_policy_classes :: "policy \<Rightarrow> status + unit" where
  "check_policy_classes p =
     (if has_duplicate_values (map (\<lambda>c. id_value (sc_id c)) (pl_classes p))
      then Inl (invalid_arg Reason_PolicyServiceClassDuplicate ''duplicate service class id'')
      else for_each check_class () (pl_classes p))"

definition check_risk_budget :: "policy \<Rightarrow> status + unit" where
  "check_risk_budget p =
     (let b = pl_risk_budget p; bad = (\<lambda>d. Inl (invalid_arg Reason_PolicyRiskBudgetInvalid d)) in
      if \<not> id_valid (rb_id b) \<or> \<not> gen_valid (rb_generation b) then bad ''risk budget identity or generation unset''
      else if \<not> rb_has_absolute b \<and> \<not> rb_has_ppm b then bad ''risk budget has neither an absolute nor a ppm ceiling''
      else if rb_has_ppm b \<and> rb_max_ppm b > kHardMaxExposurePpm then bad ''risk budget ppm ceiling out of bound''
      else if rb_has_absolute b \<and> rb_max_units b > lm_max_capacity_units (pl_limits p)
      then bad ''risk budget absolute ceiling out of bound''
      else Inr ())"

definition check_thresholds :: "thresholds \<Rightarrow> status + unit" where
  "check_thresholds th =
     (if th_warn_used_ppm th = 0 \<or> th_warn_used_ppm th > kPpmScale
      then Inl (invalid_arg Reason_InvalidField ''warn threshold out of bound'')
      else if th_reduce_overage_ppm th = 0 \<or> th_reduce_overage_ppm th > kPpmScale
      then Inl (invalid_arg Reason_PolicyThresholdsInverted ''reduce threshold out of bound'')
      else if th_emergency_overage_ppm th < th_reduce_overage_ppm th \<or> th_emergency_overage_ppm th > kPpmScale
      then Inl (invalid_arg Reason_PolicyThresholdsInverted ''emergency threshold below the reduce threshold'')
      else Inr ())"

definition check_hysteresis :: "hysteresis_policy \<Rightarrow> status + unit" where
  "check_hysteresis hy =
     (let bad = (\<lambda>d. Inl (invalid_arg Reason_InvalidField d)) in
      if hy_escalation_confirmations hy = 0 \<or> hy_escalation_confirmations hy > kHardMaxConfirmations
      then bad ''escalation confirmations out of bound''
      else if hy_deescalation_confirmations hy = 0 \<or> hy_deescalation_confirmations hy > kHardMaxConfirmations
      then bad ''deescalation confirmations out of bound''
      else if hy_cooldown_ticks hy > kHardMaxCooldownTicks then bad ''cooldown ticks out of bound''
      else if hy_margin_ppm hy > kPpmScale then bad ''deescalation margin out of bound''
      else Inr ())"

definition check_age :: "unit \<Rightarrow> u64 \<Rightarrow> status + unit" where
  "check_age u age =
     (if age = 0 then Inl (invalid_arg Reason_PolicyFreshnessUnbounded ''evidence freshness budget of zero ticks'')
      else if age > kHardMaxFreshnessTicks
      then Inl (invalid_arg Reason_PolicyLimitExceeded ''evidence freshness budget out of bound'')
      else Inr ())"

definition check_policy_digest :: "policy \<Rightarrow> status + unit" where
  "check_policy_digest p =
     (if \<not> digest_is_zero (pl_digest p)
      then let recomputed = policy_digest p
           in if recomputed \<noteq> pl_digest p
              then Inl (status_failure Status_IntegrityFailure Reason_PolicyDigestMismatch
                          ''policy digest does not match its contents'')
              else Inr ()
      else Inr ())"

definition validate_policy :: "policy \<Rightarrow> status" where
  "validate_policy p = returned (
     and_then (check_policy_identity p) (\<lambda>_.
     and_then (check_policy_limits p) (\<lambda>_.
     and_then (check_policy_domains p) (\<lambda>_.
     and_then (check_policy_classes p) (\<lambda>_.
     and_then (check_risk_budget p) (\<lambda>_.
     and_then (check_thresholds (pl_thresholds p)) (\<lambda>_.
     and_then (check_hysteresis (pl_hysteresis p)) (\<lambda>_.
     and_then (for_each check_age () [pl_capacity_age p, pl_reservation_age p, pl_admission_age p]) (\<lambda>_.
     and_then (check_policy_digest p) (\<lambda>_. Inr status_success))))))))))"

section \<open>Lookup\<close>

definition find_domain :: "policy \<Rightarrow> domain_id \<Rightarrow> domain_config option" where
  "find_domain p i = List.find (\<lambda>d. dm_id d = i) (pl_domains p)"

definition find_service_class :: "policy \<Rightarrow> service_class_id \<Rightarrow> service_class_ref option" where
  "find_service_class p i = List.find (\<lambda>c. sc_id c = i) (pl_classes p)"

record policy_index =
  ix_domains :: "domain_config list"
  ix_classes :: "service_class_ref list"

definition index_rebuild :: "policy \<Rightarrow> policy_index" where
  "index_rebuild p = \<lparr>ix_domains = sort_key dm_id (pl_domains p), ix_classes = sort_key sc_id (pl_classes p)\<rparr>"

text \<open>\<^verbatim>\<open>std::lower_bound\<close>: binary search for the first element that is not below the key.\<close>

function lower_bound :: "('a \<Rightarrow> bool) \<Rightarrow> 'a list \<Rightarrow> nat \<Rightarrow> nat \<Rightarrow> nat" where
  "lower_bound below xs first len =
     (if len = 0 then first
      else let step = len div 2; it = first + step
           in if below (xs ! it) then lower_bound below xs (it + 1) (len - (step + 1))
              else lower_bound below xs first step)"
  by pat_completeness auto

termination
  by (relation "measure (\<lambda>(below, xs, first, len). len)") auto

declare lower_bound.simps [simp del]

definition index_domain :: "policy_index \<Rightarrow> domain_id \<Rightarrow> domain_config option" where
  "index_domain ix v =
     (let xs = ix_domains ix; it = lower_bound (\<lambda>d. dm_id d < v) xs 0 (length xs)
      in if it = length xs \<or> dm_id (xs ! it) \<noteq> v then None else Some (xs ! it))"

definition index_service_class :: "policy_index \<Rightarrow> service_class_id \<Rightarrow> service_class_ref option" where
  "index_service_class ix v =
     (let xs = ix_classes ix; it = lower_bound (\<lambda>c. sc_id c < v) xs 0 (length xs)
      in if it = length xs \<or> sc_id (xs ! it) \<noteq> v then None else Some (xs ! it))"

section \<open>The logical clock\<close>

type_synonym logical_clock = u64

definition clock_advance :: "u64 \<Rightarrow> logical_clock \<Rightarrow> bool \<times> logical_clock" where
  "clock_advance delta t = (case add_checked t delta of None \<Rightarrow> (False, t) | Some n \<Rightarrow> (True, n))"

definition clock_observe :: "u64 \<Rightarrow> logical_clock \<Rightarrow> bool \<times> logical_clock" where
  "clock_observe candidate t = (if candidate \<le> t then (False, t) else (True, candidate))"

definition clock_restore :: "u64 \<Rightarrow> logical_clock \<Rightarrow> bool \<times> logical_clock" where
  "clock_restore value t = (True, value)"

lemma clock_never_back: "t \<le> snd (clock_observe c t)" "t \<le> snd (clock_advance delta t)"
  by (auto simp: clock_observe_def clock_advance_def add_checked_Some word_le_nat_alt split: option.splits)

section \<open>Binary search finds what a scan finds\<close>

definition partitioned :: "('a \<Rightarrow> bool) \<Rightarrow> 'a list \<Rightarrow> bool" where
  "partitioned below xs \<longleftrightarrow> (\<forall>i j. i \<le> j \<longrightarrow> j < length xs \<longrightarrow> below (xs ! j) \<longrightarrow> below (xs ! i))"

definition splits_at :: "('a \<Rightarrow> bool) \<Rightarrow> 'a list \<Rightarrow> nat \<Rightarrow> nat \<Rightarrow> nat \<Rightarrow> bool" where
  "splits_at below xs first hi k \<longleftrightarrow>
     first \<le> k \<and> k \<le> hi \<and> (\<forall>i. first \<le> i \<longrightarrow> i < k \<longrightarrow> below (xs ! i))
     \<and> (\<forall>i. k \<le> i \<longrightarrow> i < hi \<longrightarrow> \<not> below (xs ! i))"

lemma splits_at_right:
  assumes "splits_at below xs (Suc it) hi k" and "partitioned below xs" and "below (xs ! it)"
    and "first \<le> it" and "it < length xs"
  shows "splits_at below xs first hi k"
  using assms unfolding splits_at_def partitioned_def by (metis Suc_leD Suc_leI le_trans not_le)

lemma splits_at_left:
  assumes "splits_at below xs first it k" and "partitioned below xs" and "\<not> below (xs ! it)"
    and "it \<le> hi" and "hi \<le> length xs"
  shows "splits_at below xs first hi k"
  using assms unfolding splits_at_def partitioned_def by (metis le_trans less_le_trans not_le)

lemma lower_bound_exact:
  "first + len \<le> length xs \<Longrightarrow> partitioned below xs \<Longrightarrow>
     splits_at below xs first (first + len) (lower_bound below xs first len)"
proof (induction below xs first len rule: lower_bound.induct)
  case (1 below xs first len)
  show ?case
  proof (cases "len = 0")
    case True
    then show ?thesis by (auto simp: lower_bound.simps splits_at_def)
  next
    case False
    define it where "it = first + len div 2"
    have it: "first \<le> it" "it < first + len" "it < length xs" using False 1(3) by (simp_all add: it_def)
    show ?thesis
    proof (cases "below (xs ! it)")
      case True
      have eq: "lower_bound below xs first len = lower_bound below xs (it + 1) (len - (len div 2 + 1))"
        using False True by (simp add: lower_bound.simps [of below xs first len] it_def Let_def)
      have sum: "it + 1 + (len - (len div 2 + 1)) = first + len" using it by (simp add: it_def)
      from 1(1) [OF False refl it_def True _ 1(4)] sum 1(3)
      have "splits_at below xs (Suc it) (first + len) (lower_bound below xs first len)"
        unfolding eq by (simp add: it_def)
      then show ?thesis by (rule splits_at_right [OF _ 1(4) True it(1,3)])
    next
      case above: False
      have eq: "lower_bound below xs first len = lower_bound below xs first (len div 2)"
        using False above by (simp add: lower_bound.simps [of below xs first len] it_def Let_def)
      from 1(2) [OF False refl it_def above _ 1(4)] 1(3)
      have "splits_at below xs first it (lower_bound below xs first len)"
        unfolding eq by (simp add: it_def)
      then show ?thesis by (rule splits_at_left [OF _ 1(4) above]) (use it 1(3) in simp_all)
    qed
  qed
qed

lemma find_by_key:
  assumes "distinct (map f xs)"
  shows "List.find (\<lambda>x. f x = v) xs = Some x \<longleftrightarrow> x \<in> set xs \<and> f x = v"
  using assms by (induction xs) auto

lemma lower_bound_find:
  fixes f :: "'a \<Rightarrow> 'k::linorder"
  assumes "distinct (map f xs)" and "ys = sort_key f xs" and "it = lower_bound (\<lambda>x. f x < v) ys 0 (length ys)"
  shows "(if it = length ys \<or> f (ys ! it) \<noteq> v then None else Some (ys ! it)) = List.find (\<lambda>x. f x = v) xs"
proof -
  have sorted: "f (ys ! i) \<le> f (ys ! j)" if "i \<le> j" "j < length ys" for i j
    using sorted_nth_mono [of "map f ys" i j] that assms(2) by simp
  have "partitioned (\<lambda>x. f x < v) ys"
    unfolding partitioned_def using sorted by (meson le_less_trans)
  from lower_bound_exact [of 0 "length ys" ys, OF _ this] assms(3)
  have bound: "it \<le> length ys" and above: "\<And>i. it \<le> i \<Longrightarrow> i < length ys \<Longrightarrow> v \<le> f (ys ! i)"
    and low: "\<And>i. i < it \<Longrightarrow> f (ys ! i) < v"
    by (auto simp: splits_at_def not_less)
  show ?thesis
  proof (cases "\<exists>x \<in> set xs. f x = v")
    case True
    then obtain j where j: "j < length ys" "f (ys ! j) = v"
      using assms(2) by (metis in_set_conv_nth set_sort)
    have "it \<le> j" using low [of j] j by (metis less_irrefl not_le)
    then have "it < length ys" using j by simp
    moreover have "f (ys ! it) = v"
      using above [of it] sorted [OF \<open>it \<le> j\<close> j(1)] j(2) \<open>it < length ys\<close> by simp
    moreover have "ys ! it \<in> set xs" using \<open>it < length ys\<close> assms(2) by (metis nth_mem set_sort)
    ultimately show ?thesis using find_by_key [OF assms(1), of v "ys ! it"] by auto
  next
    case False
    then have "List.find (\<lambda>x. f x = v) xs = None" by (simp add: find_None_iff)
    moreover have "it = length ys \<or> f (ys ! it) \<noteq> v"
      using False bound assms(2) by (metis le_neq_implies_less nth_mem set_sort)
    ultimately show ?thesis by simp
  qed
qed

lemma index_finds:
  "distinct (map dm_id (pl_domains p)) \<Longrightarrow> index_domain (index_rebuild p) i = find_domain p i"
  "distinct (map sc_id (pl_classes p)) \<Longrightarrow> index_service_class (index_rebuild p) c = find_service_class p c"
  unfolding index_domain_def index_service_class_def index_rebuild_def find_domain_def find_service_class_def Let_def
  by (simp_all only: policy_index.select_convs lower_bound_find [OF _ refl refl])

section \<open>Which policies are installable\<close>

definition ratio_installable :: "ratio \<Rightarrow> bool" where
  "ratio_installable r \<longleftrightarrow> rat_num r \<noteq> 0 \<and> ratio_bounded r \<and> ratio_ge r (Ratio 1 1)"

lemma ratio_installable_iff: "ratio_installable r \<longleftrightarrow> \<not> ratio_shape_bad r \<and> \<not> ratio_out_of_bound r"
  by (auto simp: ratio_installable_def ratio_shape_bad_def ratio_out_of_bound_def ratio_bounded_def
      kHardMaxRatioTermBound_def kMaxRatioTerm_def ratio_lt_def)

definition limits_installable :: "policy \<Rightarrow> bool" where
  "limits_installable p \<longleftrightarrow> (let l = pl_limits p in
     lm_max_domains l \<noteq> 0 \<and> lm_max_domains l \<le> kHardMaxDomains
     \<and> lm_max_resources_per_domain l \<noteq> 0 \<and> lm_max_resources_per_domain l \<le> kHardMaxResourcesPerDomain
     \<and> lm_max_service_classes l \<noteq> 0 \<and> lm_max_service_classes l \<le> kHardMaxServiceClasses
     \<and> lm_max_guarantees l \<noteq> 0 \<and> lm_max_guarantees l \<le> kHardMaxGuaranteesPerSnapshot
     \<and> lm_max_demand_records l \<noteq> 0 \<and> lm_max_demand_records l \<le> kHardMaxDemandRecordsPerSnapshot
     \<and> lm_max_intents l \<noteq> 0 \<and> lm_max_intents l \<le> kHardMaxCorrectiveIntents
     \<and> lm_max_lines l \<noteq> 0 \<and> lm_max_lines l \<le> kHardMaxExplanationLines
     \<and> lm_max_bytes l \<noteq> 0 \<and> lm_max_bytes l \<le> kHardMaxExplanationBytes
     \<and> lm_max_breakdown l \<noteq> 0 \<and> lm_max_breakdown l \<le> kHardMaxResourcesPerDomain
     \<and> lm_max_capacity_units l \<noteq> 0 \<and> lm_max_capacity_units l \<le> kHardMaxCapacityUnits
     \<and> length (pl_domains p) \<le> unat (lm_max_domains l)
     \<and> length (pl_classes p) \<le> unat (lm_max_service_classes l))"

definition domain_installable :: "policy \<Rightarrow> domain_config \<Rightarrow> bool" where
  "domain_installable p d \<longleftrightarrow>
     id_valid (dm_id d) \<and> id_valid (dm_pool d) \<and> gen_valid (dm_generation d) \<and> length (dm_name d) \<le> 128
     \<and> dm_members d \<noteq> [] \<and> length (dm_members d) \<le> unat (lm_max_resources_per_domain (pl_limits p))
     \<and> length (dm_members d) \<le> 4096
     \<and> (\<forall>m \<in> set (dm_members d). id_valid m) \<and> distinct (dm_members d)
     \<and> ratio_installable (dm_configured_ratio d) \<and> ratio_le (dm_configured_ratio d) (pl_ratio_cap p)
     \<and> (dm_has_degraded_cap d \<longrightarrow>
          ratio_installable (dm_degraded_cap d) \<and> ratio_le (dm_degraded_cap d) (pl_ratio_cap p)
          \<and> ratio_le (dm_degraded_cap d) (dm_configured_ratio d))
     \<and> unat (dm_reserve_units d) + unat (dm_headroom_units d) < 2 ^ 64
     \<and> dm_reserve_units d \<le> lm_max_capacity_units (pl_limits p)
     \<and> dm_headroom_units d \<le> lm_max_capacity_units (pl_limits p)
     \<and> (if dm_burst_enabled d
        then dm_burst_cap_units d \<noteq> 0 \<and> dm_burst_cap_units d \<le> lm_max_capacity_units (pl_limits p)
        else dm_burst_cap_units d = 0)"

definition class_installable :: "service_class_ref \<Rightarrow> bool" where
  "class_installable c \<longleftrightarrow>
     id_valid (sc_id c) \<and> length (sc_name c) \<le> 128 \<and> unat (sc_risk_weight_ppm c) \<le> 1000000
     \<and> (sc_has_share_cap c \<longrightarrow> sc_share_cap_ppm c \<le> kPpmScale)"

definition policy_installable :: "policy \<Rightarrow> bool" where
  "policy_installable p \<longleftrightarrow>
     id_valid (pl_id p) \<and> gen_valid (pl_generation p) \<and> length (pl_name p) \<le> 128
     \<and> ratio_installable (pl_ratio_cap p) \<and> limits_installable p
     \<and> distinct (map dm_id (pl_domains p)) \<and> (\<forall>d \<in> set (pl_domains p). domain_installable p d)
     \<and> distinct (map sc_id (pl_classes p)) \<and> (\<forall>c \<in> set (pl_classes p). class_installable c)
     \<and> check_risk_budget p = Inr () \<and> check_thresholds (pl_thresholds p) = Inr ()
     \<and> check_hysteresis (pl_hysteresis p) = Inr ()
     \<and> (\<forall>age \<in> {pl_capacity_age p, pl_reservation_age p, pl_admission_age p}. age \<noteq> 0 \<and> age \<le> kHardMaxFreshnessTicks)
     \<and> (digest_is_zero (pl_digest p) \<or> pl_digest p = policy_digest p)"

lemma has_duplicate_values_iff: "has_duplicate_values values \<longleftrightarrow> \<not> distinct values"
  by (simp add: has_duplicate_values_def adjacent_equal_sorted adjacent_equal_short)

lemma sorted_member_values_distinct [simp]: "distinct (sorted_member_values ms) = distinct ms"
  using distinct_id_value [of "\<lambda>m. m" ms] by (simp add: sorted_member_values_def)

lemma policy_bounds [simp]:
  "unat kHardMaxDomains = 4096" "unat kHardMaxResourcesPerDomain = 4096" "unat kHardMaxServiceClasses = 4096"
  "unat kHardMaxNameLength = 128" "unat kHardMaxExplanationLines = 4096" "unat kHardMaxExplanationBytes = 262144"
  "unat kHardMaxCorrectiveIntents = 64"
  by (simp_all add: kHardMaxDomains_def kHardMaxResourcesPerDomain_def kHardMaxServiceClasses_def kHardMaxNameLength_def
      kHardMaxExplanationLines_def kHardMaxExplanationBytes_def kHardMaxCorrectiveIntents_def)

lemma check_policy_identity_iff:
  "check_policy_identity p = Inr () \<longleftrightarrow>
     id_valid (pl_id p) \<and> gen_valid (pl_generation p) \<and> length (pl_name p) \<le> 128 \<and> ratio_installable (pl_ratio_cap p)"
  by (auto simp: check_policy_identity_def ratio_installable_iff)

lemma check_policy_limits_iff: "check_policy_limits p = Inr () \<longleftrightarrow> limits_installable p"
  by (auto simp: check_policy_limits_def limits_installable_def Let_def word_le_nat_alt word_less_nat_alt not_le)

lemma check_reserves_iff:
  "check_reserves p d = Inr () \<longleftrightarrow>
     unat (dm_reserve_units d) + unat (dm_headroom_units d) < 2 ^ 64
     \<and> dm_reserve_units d \<le> lm_max_capacity_units (pl_limits p)
     \<and> dm_headroom_units d \<le> lm_max_capacity_units (pl_limits p)
     \<and> (if dm_burst_enabled d
        then dm_burst_cap_units d \<noteq> 0 \<and> dm_burst_cap_units d \<le> lm_max_capacity_units (pl_limits p)
        else dm_burst_cap_units d = 0)"
  by (auto simp: check_reserves_def add_checked_exact Let_def)

lemma check_degraded_cap_iff:
  "check_degraded_cap p d = Inr () \<longleftrightarrow>
     (dm_has_degraded_cap d \<longrightarrow>
        ratio_installable (dm_degraded_cap d) \<and> ratio_le (dm_degraded_cap d) (pl_ratio_cap p)
        \<and> ratio_le (dm_degraded_cap d) (dm_configured_ratio d))"
  by (auto simp: check_degraded_cap_def ratio_installable_iff ratio_gt_def ratio_le_def)

lemma check_domain_iff: "check_domain p u d = Inr () \<longleftrightarrow> domain_installable p d"
  by (auto simp: check_domain_def domain_installable_def and_then_Inr_iff for_each_check check_member_def
      has_duplicate_values_iff ratio_installable_iff ratio_gt_def ratio_le_def
      check_degraded_cap_iff check_reserves_iff split: if_splits)

lemma check_class_iff: "check_class u c = Inr () \<longleftrightarrow> class_installable c"
proof -
  have "kPpmScale < ucast (sc_risk_weight_ppm c) \<longleftrightarrow> 1000000 < unat (sc_risk_weight_ppm c)"
    by (simp add: word_less_nat_alt unsigned_ucast_eq take_bit_nat_eq_self less_trans [OF unat_u32_less])
  then show ?thesis by (auto simp: check_class_def class_installable_def not_less)
qed

lemma unit_sum_eq: "(m = Inr ()) = (\<exists>u :: unit. m = Inr u)"
  by auto

lemma check_policy_digest_iff:
  "check_policy_digest p = Inr () \<longleftrightarrow> digest_is_zero (pl_digest p) \<or> pl_digest p = policy_digest p"
  by (auto simp: check_policy_digest_def Let_def)

lemma phase_failures:
  "check_policy_identity p = Inl s \<Longrightarrow> \<not> status_ok s"
  "check_policy_limits p = Inl s \<Longrightarrow> \<not> status_ok s"
  "check_risk_budget p = Inl s \<Longrightarrow> \<not> status_ok s"
  "check_thresholds th = Inl s \<Longrightarrow> \<not> status_ok s"
  "check_hysteresis hy = Inl s \<Longrightarrow> \<not> status_ok s"
  "check_age u age = Inl s \<Longrightarrow> \<not> status_ok s"
  "check_class u c = Inl s \<Longrightarrow> \<not> status_ok s"
  "check_member u m = Inl s \<Longrightarrow> \<not> status_ok s"
  "check_degraded_cap p d = Inl s \<Longrightarrow> \<not> status_ok s"
  "check_policy_digest p = Inl s \<Longrightarrow> \<not> status_ok s"
  by (auto simp: check_policy_identity_def check_policy_limits_def check_risk_budget_def check_thresholds_def
      check_hysteresis_def check_age_def check_class_def check_member_def check_degraded_cap_def
      check_policy_digest_def Let_def split: if_splits)

lemma check_reserves_fails: "check_reserves p d = Inl s \<Longrightarrow> \<not> status_ok s"
  by (auto simp: check_reserves_def Let_def split: if_splits option.splits)

lemma check_domain_fails: "check_domain p u d = Inl s \<Longrightarrow> \<not> status_ok s"
  by (auto simp: check_domain_def and_then_Inl_iff check_reserves_fails phase_failures
      dest!: for_each_check_fails split: if_splits)

lemma domain_loop_fails: "check_policy_domains p = Inl s \<Longrightarrow> \<not> status_ok s"
  by (auto simp: check_policy_domains_def check_domain_fails dest!: for_each_check_fails split: if_splits)

lemma class_loop_fails: "check_policy_classes p = Inl s \<Longrightarrow> \<not> status_ok s"
  by (auto simp: check_policy_classes_def phase_failures dest!: for_each_check_fails split: if_splits)

lemma age_loop_fails: "for_each check_age () ages = Inl s \<Longrightarrow> \<not> status_ok s"
  by (auto simp: phase_failures dest!: for_each_check_fails)

text \<open>One phase of the validation: it either rejects, or the rest decides.\<close>

lemma phase_ok:
  assumes "\<And>s. m = Inl s \<Longrightarrow> \<not> status_ok s"
  shows "status_ok (returned (and_then m (\<lambda>_ :: unit. k))) \<longleftrightarrow> m = Inr () \<and> status_ok (returned k)"
  using assms by (cases m) auto

lemma validate_policy_iff: "status_ok (validate_policy p) \<longleftrightarrow> policy_installable p"
proof -
  have domains: "check_policy_domains p = Inr () \<longleftrightarrow>
      distinct (map dm_id (pl_domains p)) \<and> (\<forall>d \<in> set (pl_domains p). domain_installable p d)"
    by (auto simp: check_policy_domains_def has_duplicate_values_iff distinct_id_value for_each_check check_domain_iff)
  have classes: "check_policy_classes p = Inr () \<longleftrightarrow>
      distinct (map sc_id (pl_classes p)) \<and> (\<forall>c \<in> set (pl_classes p). class_installable c)"
    by (auto simp: check_policy_classes_def has_duplicate_values_iff distinct_id_value for_each_check check_class_iff)
  have age: "check_age () a = Inr () \<longleftrightarrow> a \<noteq> 0 \<and> a \<le> kHardMaxFreshnessTicks" for a
    by (auto simp: check_age_def)
  show ?thesis
    unfolding validate_policy_def policy_installable_def
    by (simp add: phase_ok phase_failures domain_loop_fails class_loop_fails age_loop_fails
        domains classes check_policy_identity_iff check_policy_limits_iff check_policy_digest_iff
        for_each_check age del: for_each.simps)
qed

end
