(* ===== verification/Engine.thy ===== *)
theory Engine
  imports Policy
begin

text \<open>
  \<^verbatim>\<open>include/oversub/engine.hpp\<close> and \<^verbatim>\<open>src/engine.cpp\<close>: the pure evaluation of one domain. The body of
  \<^verbatim>\<open>evaluate_domain\<close> is cut into the phases its comments name; a phase is \<^const>\<open>Inl\<close> when it returns a
  result from the whole function. The partial accounting of a rejected evaluation stays in the
  result, as in the code, because the result digest covers it.

  The code iterates over one \<^verbatim>\<open>unordered_map\<close> in a way that can be observed (the contingent share
  caps); the order is a parameter \<open>iter\<close>, which returns its argument in some order. Nested hash maps
  keyed by resource and class are maps and association lists on pairs of the two values.
\<close>

section \<open>Data\<close>

record authority_vector =
  av_domain :: domain_id
  av_domain_generation :: domain_generation
  av_policy :: policy_id
  av_policy_generation :: policy_generation
  av_capacity_generation :: capacity_snapshot_generation
  av_reservation_generation :: reservation_snapshot_generation
  av_admission_generation :: admission_snapshot_generation
  av_risk_budget :: risk_budget_id
  av_risk_budget_generation :: risk_budget_generation
  av_epoch :: fabric_epoch
  av_resource_set_fold :: u64
  av_input_digest :: digest

definition authority_unset :: authority_vector where
  "authority_unset =
     \<lparr>av_domain = StrongId 0, av_domain_generation = Gen 0, av_policy = StrongId 0, av_policy_generation = Gen 0,
      av_capacity_generation = Gen 0, av_reservation_generation = Gen 0, av_admission_generation = Gen 0,
      av_risk_budget = StrongId 0, av_risk_budget_generation = Gen 0, av_epoch = FabricEpoch 0,
      av_resource_set_fold = 0, av_input_digest = digest_zero\<rparr>"

definition authority_complete :: "authority_vector \<Rightarrow> bool" where
  "authority_complete v =
     (id_valid (av_domain v) \<and> gen_valid (av_domain_generation v) \<and> id_valid (av_policy v)
      \<and> gen_valid (av_policy_generation v) \<and> gen_valid (av_capacity_generation v)
      \<and> gen_valid (av_reservation_generation v) \<and> gen_valid (av_admission_generation v)
      \<and> id_valid (av_risk_budget v) \<and> gen_valid (av_risk_budget_generation v) \<and> epoch_valid (av_epoch v))"

definition authority_to_string :: "authority_vector \<Rightarrow> string" where
  "authority_to_string v =
     ''domain='' @ id_to_string (av_domain v) @ ''@'' @ gen_to_string (av_domain_generation v)
     @ '' policy='' @ id_to_string (av_policy v) @ ''@'' @ gen_to_string (av_policy_generation v)
     @ '' capacity='' @ gen_to_string (av_capacity_generation v)
     @ '' reservations='' @ gen_to_string (av_reservation_generation v)
     @ '' admissions='' @ gen_to_string (av_admission_generation v)
     @ '' risk_budget='' @ id_to_string (av_risk_budget v) @ ''@'' @ gen_to_string (av_risk_budget_generation v)
     @ '' epoch='' @ epoch_to_string (av_epoch v)
     @ '' resource_fold='' @ to_string_u64 (av_resource_set_fold v)
     @ '' input='' @ take 16 (digest_to_hex (av_input_digest v))"

record authority_expectation =
  ex_epoch :: fabric_epoch
  ex_policy_generation :: policy_generation
  ex_domain_generation :: domain_generation
  ex_capacity_generation :: capacity_snapshot_generation
  ex_reservation_generation :: reservation_snapshot_generation
  ex_admission_generation :: admission_snapshot_generation
  ex_risk_budget_generation :: risk_budget_generation

record domain_evidence =
  ev_capacity :: "capacity_snapshot option"
  ev_reservations :: "reservation_snapshot option"
  ev_admissions :: "admission_snapshot option"

record resource_accounting =
  rx_resource :: resource_id
  rx_pool :: pool_id
  rx_health :: resource_health
  rx_physical :: u64
  rx_usable :: u64
  rx_effective_usable :: u64
  rx_guarantees :: u64
  rx_contingent_committed :: u64
  rx_contingent_pending :: u64
  rx_ceiling :: u64
  rx_contingent_ceiling :: u64
  rx_contingent_free :: u64
  rx_overage :: u64
  rx_protected_headroom :: u64
  rx_binding :: constraint

record domain_accounting =
  da_domain :: domain_id
  da_pool :: pool_id
  da_physical :: u64
  da_usable :: u64
  da_effective_usable :: u64
  da_guarantees :: u64
  da_reserve :: u64
  da_min_headroom :: u64
  da_protected_required :: u64
  da_floor_required :: u64
  da_configured_ratio :: ratio
  da_effective_ratio :: ratio
  da_configured_ratio_ppm :: u64
  da_effective_ratio_ppm :: u64
  da_ratio_reduced :: bool
  da_ceiling :: u64
  da_contingent_ceiling :: u64
  da_contingent_committed :: u64
  da_contingent_pending :: u64
  da_burst_committed :: u64
  da_guaranteed_admitted :: u64
  da_contingent_free :: u64
  da_committed :: u64
  da_overage :: u64
  da_protected_headroom :: u64
  da_used_ppm :: u64
  da_exposure :: u64
  da_risk_ceiling :: u64
  da_risk_remaining :: u64
  da_risk_exceeded :: bool
  da_oos_guarantees :: u64
  da_oos_demand :: u64
  da_degraded :: u32
  da_failed :: u32
  da_binding :: constraint
  da_approaching :: bool
  da_closed :: bool

definition accounting_zero :: domain_accounting where
  "accounting_zero =
     \<lparr>da_domain = StrongId 0, da_pool = StrongId 0, da_physical = 0, da_usable = 0, da_effective_usable = 0,
      da_guarantees = 0, da_reserve = 0, da_min_headroom = 0, da_protected_required = 0, da_floor_required = 0,
      da_configured_ratio = Ratio 1 1, da_effective_ratio = Ratio 1 1, da_configured_ratio_ppm = kPpmScale,
      da_effective_ratio_ppm = kPpmScale, da_ratio_reduced = False, da_ceiling = 0, da_contingent_ceiling = 0,
      da_contingent_committed = 0, da_contingent_pending = 0, da_burst_committed = 0, da_guaranteed_admitted = 0,
      da_contingent_free = 0, da_committed = 0, da_overage = 0, da_protected_headroom = 0, da_used_ppm = 0,
      da_exposure = 0, da_risk_ceiling = 0, da_risk_remaining = 0, da_risk_exceeded = False,
      da_oos_guarantees = 0, da_oos_demand = 0, da_degraded = 0, da_failed = 0, da_binding = Constraint_None,
      da_approaching = False, da_closed = True\<rparr>"

record corrective_intent =
  ci_kind :: corrective_kind
  ci_target :: corrective_target
  ci_domain :: domain_id
  ci_resource :: resource_id
  ci_pool :: pool_id
  ci_class :: service_class_id
  ci_amount :: u64
  ci_reason :: reason_code
  ci_rationale :: string

record evaluation_result =
  er_outcome :: outcome
  er_reason :: reason_code
  er_detail :: string
  er_accounting :: domain_accounting
  er_resources :: "resource_accounting list"
  er_intents :: "corrective_intent list"
  er_notes :: "string list"
  er_authority :: authority_vector
  er_authority_valid :: bool
  er_authorized :: bool
  er_increment :: u64
  er_fence_required :: bool
  er_digest :: digest

definition result_zero :: evaluation_result where
  "result_zero =
     \<lparr>er_outcome = Outcome_Unknown, er_reason = Reason_None, er_detail = '''', er_accounting = accounting_zero,
      er_resources = [], er_intents = [], er_notes = [], er_authority = authority_unset, er_authority_valid = False,
      er_authorized = False, er_increment = 0, er_fence_required = False, er_digest = digest_zero\<rparr>"

record resource_accum =
  ra_capacity :: resource_capacity
  ra_effective_usable :: u64
  ra_guarantees :: u64
  ra_contingent_committed :: u64
  ra_contingent_pending :: u64
  ra_committed :: u64
  ra_ceiling :: u64
  ra_contingent_ceiling :: u64
  ra_contingent_free :: u64
  ra_overage :: u64
  ra_protected_headroom :: u64

definition accum_of :: "resource_capacity \<Rightarrow> u64 \<Rightarrow> resource_accum" where
  "accum_of rc usable =
     \<lparr>ra_capacity = rc, ra_effective_usable = usable, ra_guarantees = 0, ra_contingent_committed = 0,
      ra_contingent_pending = 0, ra_committed = 0, ra_ceiling = 0, ra_contingent_ceiling = 0, ra_contingent_free = 0,
      ra_overage = 0, ra_protected_headroom = 0\<rparr>"

definition upd_acc :: "(domain_accounting \<Rightarrow> domain_accounting) \<Rightarrow> evaluation_result \<Rightarrow> evaluation_result" where
  "upd_acc f r = r\<lparr>er_accounting := f (er_accounting r)\<rparr>"

definition add_intent :: "policy_limits \<Rightarrow> corrective_intent \<Rightarrow> evaluation_result \<Rightarrow> evaluation_result" where
  "add_intent limits i r =
     (if length (er_intents r) \<ge> unat (lm_max_intents limits) then r else r\<lparr>er_intents := er_intents r @ [i]\<rparr>)"

definition base_intent :: "domain_config \<Rightarrow> corrective_kind \<Rightarrow> corrective_target \<Rightarrow> reason_code \<Rightarrow> string \<Rightarrow> corrective_intent" where
  "base_intent d kind target reason rationale =
     \<lparr>ci_kind = kind, ci_target = target, ci_domain = dm_id d, ci_resource = StrongId 0, ci_pool = dm_pool d,
      ci_class = StrongId 0, ci_amount = 0, ci_reason = reason, ci_rationale = rationale\<rparr>"

definition add_note :: "policy_limits \<Rightarrow> string \<Rightarrow> evaluation_result \<Rightarrow> evaluation_result" where
  "add_note limits t r =
     (if length (er_notes r) \<ge> unat (lm_max_lines limits) then r else r\<lparr>er_notes := er_notes r @ [t]\<rparr>)"

section \<open>The result digest and the grant\<close>

definition hash_accounting :: "domain_accounting \<Rightarrow> (sha_ctx \<Rightarrow> sha_ctx) list" where
  "hash_accounting a =
     [add_u64 (id_value (da_domain a)), add_u64 (id_value (da_pool a)), add_u64 (da_physical a), add_u64 (da_usable a),
      add_u64 (da_effective_usable a), add_u64 (da_guarantees a), add_u64 (da_reserve a), add_u64 (da_min_headroom a),
      add_u64 (da_protected_required a), add_u64 (da_floor_required a), add_u64 (rat_num (da_configured_ratio a)),
      add_u64 (rat_den (da_configured_ratio a)), add_u64 (rat_num (da_effective_ratio a)),
      add_u64 (rat_den (da_effective_ratio a)), add_bool (da_ratio_reduced a), add_u64 (da_ceiling a),
      add_u64 (da_contingent_ceiling a), add_u64 (da_contingent_committed a), add_u64 (da_contingent_pending a),
      add_u64 (da_burst_committed a), add_u64 (da_guaranteed_admitted a), add_u64 (da_contingent_free a),
      add_u64 (da_committed a), add_u64 (da_overage a), add_u64 (da_protected_headroom a), add_u64 (da_used_ppm a),
      add_u64 (da_exposure a), add_u64 (da_risk_ceiling a), add_u64 (da_risk_remaining a), add_bool (da_risk_exceeded a),
      add_u64 (da_oos_guarantees a), add_u64 (da_oos_demand a), add_u32 (da_degraded a), add_u32 (da_failed a),
      add_u32 (constraint_to_u32 (da_binding a)), add_bool (da_closed a)]"

definition hash_resource_accounting :: "resource_accounting \<Rightarrow> (sha_ctx \<Rightarrow> sha_ctx) list" where
  "hash_resource_accounting x =
     [add_u64 (id_value (rx_resource x)), add_u32 (resource_health_to_u32 (rx_health x)), add_u64 (rx_effective_usable x),
      add_u64 (rx_guarantees x), add_u64 (rx_contingent_committed x), add_u64 (rx_ceiling x),
      add_u64 (rx_contingent_ceiling x), add_u64 (rx_contingent_free x), add_u64 (rx_overage x)]"

definition hash_intent :: "corrective_intent \<Rightarrow> (sha_ctx \<Rightarrow> sha_ctx) list" where
  "hash_intent i =
     [add_u32 (corrective_kind_to_u32 (ci_kind i)), add_u32 (corrective_target_to_u32 (ci_target i)),
      add_u64 (ci_amount i), add_u32 (reason_value (ci_reason i))]"

definition evaluation_result_digest :: "evaluation_result \<Rightarrow> digest" where
  "evaluation_result_digest r = canonical_digest
     ([add_string ''oversub.result.v1'', add_u32 (outcome_to_u32 (er_outcome r)), add_u32 (reason_value (er_reason r))]
      @ hash_accounting (er_accounting r)
      @ [add_u64 (word_of_nat (length (er_resources r)))] @ concat (map hash_resource_accounting (er_resources r))
      @ [add_u64 (word_of_nat (length (er_intents r)))] @ concat (map hash_intent (er_intents r))
      @ [add_bool (er_authority_valid r), add_bool (er_authorized r), add_u64 (er_increment r),
         add_bool (er_fence_required r), add_digest (av_input_digest (er_authority r))])"

definition finalize_result :: "evaluation_result \<Rightarrow> evaluation_result" where
  "finalize_result r =
     (let valid = outcome_is_authoritative (er_outcome r);
          authorized = outcome_allows_new_authority (er_outcome r);
          r' = r\<lparr>er_authority_valid := valid, er_authorized := authorized,
                 er_increment := (if authorized then da_contingent_free (er_accounting r) else 0)\<rparr>
      in r'\<lparr>er_digest := evaluation_result_digest r'\<rparr>)"

end
