(* ===== verification/Evaluate.thy ===== *)
theory Evaluate
  imports Engine
begin

text \<open>
  The phases of \<^verbatim>\<open>evaluate_domain\<close> (\<^verbatim>\<open>src/engine.cpp\<close>) in the order of the code, from the binding of the
  evidence to the authority the runtime owns up to the outcome.
\<close>

section \<open>The result under construction and the rejection\<close>

definition initial_result :: "policy \<Rightarrow> domain_config \<Rightarrow> authority_expectation \<Rightarrow> evaluation_result" where
  "initial_result p d ex =
     result_zero\<lparr>
       er_accounting := accounting_zero\<lparr>
         da_domain := dm_id d, da_pool := dm_pool d, da_configured_ratio := dm_configured_ratio d,
         da_effective_ratio := dm_configured_ratio d, da_configured_ratio_ppm := ratio_ppm (dm_configured_ratio d),
         da_effective_ratio_ppm := ratio_ppm (dm_configured_ratio d), da_reserve := dm_reserve_units d,
         da_min_headroom := dm_headroom_units d\<rparr>,
       er_authority := authority_unset\<lparr>
         av_domain := dm_id d, av_domain_generation := dm_generation d, av_policy := pl_id p,
         av_policy_generation := pl_generation p, av_risk_budget := rb_id (pl_risk_budget p),
         av_risk_budget_generation := rb_generation (pl_risk_budget p), av_epoch := ex_epoch ex\<rparr>\<rparr>"

definition fence_outcome :: "outcome \<Rightarrow> bool" where
  "fence_outcome out =
     (out = Outcome_EmergencyReduction \<or> out = Outcome_PolicyRejected \<or> out = Outcome_ConflictingInput)"

definition reject_intents ::
  "policy_limits \<Rightarrow> domain_config \<Rightarrow> outcome \<Rightarrow> reason_code \<Rightarrow> evaluation_result \<Rightarrow> evaluation_result" where
  "reject_intents limits d out reason r =
     (if out = Outcome_Stale \<or> out = Outcome_Unknown
      then add_intent limits (base_intent d Corrective_RevalidateEvidence Target_Domain
             (if reason = Reason_None then Reason_EvidenceIncomplete else reason)
             ''authority cannot be established from the current evidence; revalidate'') r
      else if out = Outcome_ConflictingInput
      then add_intent limits (base_intent d Corrective_RevalidateEvidence Target_Domain Reason_EvidenceContradictory
             ''revalidate after the contradiction is resolved'')
             (add_intent limits (base_intent d Corrective_ResolveConflictingEvidence Target_Domain
                Reason_EvidenceContradictory
                ''evidence is structurally contradictory; resolve before any authority'') r)
      else if out = Outcome_PolicyRejected
      then add_intent limits (base_intent d Corrective_FenceOversubscribedAdmission Target_Domain reason
             ''policy does not authorize the current oversubscription state'') r
      else r)"

definition reject ::
  "policy \<Rightarrow> domain_config \<Rightarrow> evaluation_result \<Rightarrow> outcome \<Rightarrow> reason_code \<Rightarrow> string \<Rightarrow> evaluation_result" where
  "reject p d r out reason detail =
     (let r1 = r\<lparr>er_outcome := out, er_reason := reason, er_detail := detail\<rparr>;
          r2 = reject_intents (pl_limits p) d out reason r1
      in finalize_result (r2\<lparr>er_fence_required := fence_outcome out\<rparr>))"

section \<open>Binding\<close>

definition generation_reason :: "'tag gen \<Rightarrow> 'tag gen \<Rightarrow> reason_code" where
  "generation_reason actual expected =
     (if actual > expected then Reason_GenerationAheadOfRuntime else Reason_SnapshotGenerationMismatch)"

definition check_binding ::
  "policy \<Rightarrow> domain_config \<Rightarrow> authority_expectation \<Rightarrow> domain_evidence \<Rightarrow> evaluation_result
   \<Rightarrow> evaluation_result + (capacity_snapshot \<times> reservation_snapshot \<times> admission_snapshot)" where
  "check_binding p d ex ev r =
     (case (ev_capacity ev, ev_reservations ev, ev_admissions ev) of
        (Some cap, Some res, Some adm) \<Rightarrow>
          if \<not> epoch_valid (ex_epoch ex)
          then Inl (reject p d r Outcome_Unknown Reason_GenerationUnset ''runtime fabric epoch is unset'')
          else if \<not> gen_valid (ex_domain_generation ex) \<or> \<not> gen_valid (ex_policy_generation ex)
               \<or> \<not> gen_valid (ex_capacity_generation ex) \<or> \<not> gen_valid (ex_reservation_generation ex)
               \<or> \<not> gen_valid (ex_admission_generation ex) \<or> \<not> gen_valid (ex_risk_budget_generation ex)
          then Inl (reject p d r Outcome_Unknown Reason_GenerationUnset ''runtime authority generations are unset'')
          else if cs_domain cap \<noteq> dm_id d \<or> rs_domain res \<noteq> dm_id d \<or> as_domain adm \<noteq> dm_id d
          then Inl (reject p d r Outcome_ConflictingInput Reason_EvidenceContradictory
                      ''evidence was published for a different domain'')
          else if cs_epoch cap \<noteq> ex_epoch ex \<or> rs_epoch res \<noteq> ex_epoch ex \<or> as_epoch adm \<noteq> ex_epoch ex
          then Inl (reject p d r Outcome_Stale Reason_EpochMismatch ''evidence epoch does not match the fabric epoch'')
          else if dm_generation d \<noteq> ex_domain_generation ex
          then Inl (reject p d r Outcome_Stale Reason_DomainGenerationMismatch
                      ''domain configuration generation changed since the evaluation was requested'')
          else if pl_generation p \<noteq> ex_policy_generation ex
          then Inl (reject p d r Outcome_Stale Reason_PolicyGenerationMismatch
                      ''policy generation changed since the evaluation was requested'')
          else if rb_generation (pl_risk_budget p) \<noteq> ex_risk_budget_generation ex
          then Inl (reject p d r Outcome_Stale Reason_PolicyRiskBudgetGenerationMismatch
                      ''risk budget generation changed since the evaluation was requested'')
          else if cs_generation cap \<noteq> ex_capacity_generation ex
          then Inl (reject p d r Outcome_Stale (generation_reason (cs_generation cap) (ex_capacity_generation ex))
                      ''capacity snapshot generation does not match the authoritative generation'')
          else if rs_generation res \<noteq> ex_reservation_generation ex
          then Inl (reject p d r Outcome_Stale (generation_reason (rs_generation res) (ex_reservation_generation ex))
                      ''reservation snapshot generation does not match the authoritative generation'')
          else if as_generation adm \<noteq> ex_admission_generation ex
          then Inl (reject p d r Outcome_Stale (generation_reason (as_generation adm) (ex_admission_generation ex))
                      ''admission snapshot generation does not match the authoritative generation'')
          else Inr (cap, res, adm)
      | (c, s, a) \<Rightarrow>
          Inl (reject p d r Outcome_Unknown Reason_EvidenceIncomplete
                 (''missing evidence: '' @ (if c = None then ''capacity '' else '''')
                  @ (if s = None then ''reservation '' else '''') @ (if a = None then ''admission '' else ''''))))"

definition input_digest ::
  "policy \<Rightarrow> domain_config \<Rightarrow> authority_expectation \<Rightarrow> u64 \<Rightarrow> capacity_snapshot \<Rightarrow> reservation_snapshot
   \<Rightarrow> admission_snapshot \<Rightarrow> digest" where
  "input_digest p d ex tick cap res adm = canonical_digest
     [add_string ''oversub.input.v1'', add_u64 (id_value (dm_id d)), add_u64 (gen_value (dm_generation d)),
      add_u64 (id_value (pl_id p)), add_u64 (gen_value (pl_generation p)),
      add_u64 (gen_value (rb_generation (pl_risk_budget p))), add_u64 (epoch_value (ex_epoch ex)), add_u64 tick,
      add_digest (let g = pv_payload_digest (cs_provenance cap) in if digest_is_zero g then capacity_snapshot_digest cap else g),
      add_digest (let g = pv_payload_digest (rs_provenance res) in if digest_is_zero g then reservation_snapshot_digest res else g),
      add_digest (let g = pv_payload_digest (as_provenance adm) in if digest_is_zero g then admission_snapshot_digest adm else g)]"

definition bind_authority ::
  "policy \<Rightarrow> domain_config \<Rightarrow> authority_expectation \<Rightarrow> u64 \<Rightarrow> capacity_snapshot \<Rightarrow> reservation_snapshot
   \<Rightarrow> admission_snapshot \<Rightarrow> evaluation_result \<Rightarrow> evaluation_result" where
  "bind_authority p d ex tick cap res adm r =
     r\<lparr>er_authority := (er_authority r)\<lparr>
         av_capacity_generation := cs_generation cap, av_reservation_generation := rs_generation res,
         av_admission_generation := as_generation adm, av_input_digest := input_digest p d ex tick cap res adm\<rparr>\<rparr>"

section \<open>Freshness\<close>

definition stale_or_future :: "u64 \<Rightarrow> u64 \<Rightarrow> u64 \<Rightarrow> string \<Rightarrow> (outcome \<times> reason_code \<times> string) option" where
  "stale_or_future tick observed budget what =
     (if observed > tick
      then Some (Outcome_ConflictingInput, Reason_EvidenceFutureDated, what @ '' was observed after the evaluation tick'')
      else let age = tick - observed
           in if age > budget
              then Some (Outcome_Stale, Reason_SnapshotStale,
                         what @ '' is stale: age '' @ to_string_u64 age @ '' ticks exceeds the budget of ''
                         @ to_string_u64 budget)
              else None)"

definition check_freshness ::
  "policy \<Rightarrow> domain_config \<Rightarrow> u64 \<Rightarrow> capacity_snapshot \<Rightarrow> reservation_snapshot \<Rightarrow> admission_snapshot
   \<Rightarrow> evaluation_result \<Rightarrow> evaluation_result + unit" where
  "check_freshness p d tick cap res adm r =
     (case stale_or_future tick (cs_tick cap) (pl_capacity_age p) ''capacity evidence'' of
        Some (out, reason, detail) \<Rightarrow> Inl (reject p d r out reason detail)
      | None \<Rightarrow>
     (case stale_or_future tick (rs_tick res) (pl_reservation_age p) ''reservation evidence'' of
        Some (out, reason, detail) \<Rightarrow> Inl (reject p d r out reason detail)
      | None \<Rightarrow>
     (case stale_or_future tick (as_tick adm) (pl_admission_age p) ''admission evidence'' of
        Some (out, reason, detail) \<Rightarrow> Inl (reject p d r out reason detail)
      | None \<Rightarrow> Inr ())))"

section \<open>Bounds and membership\<close>

definition check_bounds ::
  "policy \<Rightarrow> domain_config \<Rightarrow> capacity_snapshot \<Rightarrow> reservation_snapshot \<Rightarrow> admission_snapshot
   \<Rightarrow> evaluation_result \<Rightarrow> evaluation_result + unit" where
  "check_bounds p d cap res adm r =
     (if length (cs_resources cap) > unat kHardMaxResourcesPerSnapshot
      then Inl (reject p d r Outcome_ConflictingInput Reason_SnapshotTooLarge
                  ''capacity snapshot exceeds the structural bound'')
      else if length (rs_guarantees res) > unat (lm_max_guarantees (pl_limits p))
              \<or> length (rs_guarantees res) > unat kHardMaxGuaranteesPerSnapshot
      then Inl (reject p d r Outcome_ConflictingInput Reason_SnapshotTooLarge
                  ''reservation snapshot exceeds the policy bound'')
      else if length (as_records adm) > unat (lm_max_demand_records (pl_limits p))
              \<or> length (as_records adm) > unat kHardMaxDemandRecordsPerSnapshot
      then Inl (reject p d r Outcome_ConflictingInput Reason_SnapshotTooLarge
                  ''admission snapshot exceeds the policy bound'')
      else Inr ())"

definition index_capacity ::
  "policy \<Rightarrow> domain_config \<Rightarrow> evaluation_result \<Rightarrow> (u64 \<rightharpoonup> resource_capacity) \<Rightarrow> resource_capacity
   \<Rightarrow> evaluation_result + (u64 \<rightharpoonup> resource_capacity)" where
  "index_capacity p d r m rc =
     (case m (id_value (rc_resource rc)) of
        Some _ \<Rightarrow> Inl (reject p d r Outcome_ConflictingInput Reason_SnapshotDuplicate
                         ''capacity snapshot repeats a resource identity'')
      | None \<Rightarrow> Inr (m(id_value (rc_resource rc) \<mapsto> rc)))"

record member_loop =
  ml_result :: evaluation_result
  ml_resources :: "resource_accum list"
  ml_index :: "u64 \<rightharpoonup> nat"

definition push_member :: "resource_id \<Rightarrow> resource_capacity \<Rightarrow> u64 \<Rightarrow> member_loop \<Rightarrow> member_loop" where
  "push_member member rc usable s =
     s\<lparr>ml_index := emplace (ml_index s) (id_value member) (length (ml_resources s)),
       ml_resources := ml_resources s @ [accum_of rc usable]\<rparr>"

definition collect_member ::
  "policy \<Rightarrow> domain_config \<Rightarrow> (u64 \<rightharpoonup> resource_capacity) \<Rightarrow> member_loop \<Rightarrow> resource_id
   \<Rightarrow> evaluation_result + member_loop" where
  "collect_member p d capacity s member =
     (case capacity (id_value member) of
        None \<Rightarrow> Inl (reject p d (ml_result s) Outcome_Unknown Reason_ResourceMissingFromCapacitySnapshot
                       (''capacity evidence does not cover member resource '' @ id_to_string member))
      | Some rc \<Rightarrow>
          if rc_pool rc \<noteq> dm_pool d
          then Inl (reject p d (ml_result s) Outcome_ConflictingInput Reason_ResourcePoolMismatch
                      (''member resource '' @ id_to_string member @ '' is reported in a different pool''))
          else (case rc_health rc of
            Health_Unknown \<Rightarrow>
              Inl (reject p d (ml_result s) Outcome_Unknown Reason_ResourceHealthUnknown
                     (''member resource '' @ id_to_string member @ '' has unknown health''))
          | Health_Healthy \<Rightarrow> Inr (push_member member rc (rc_usable rc) s)
          | Health_Degraded \<Rightarrow>
              (case ppm_of (rc_usable rc) (rc_degraded_ppm rc) of
                 None \<Rightarrow> Inl (reject p d (ml_result s) Outcome_Unknown Reason_ArithmeticOverflow
                                ''degraded capacity scaling overflowed'')
               | Some usable \<Rightarrow>
                   Inr (push_member member rc usable
                     (s\<lparr>ml_result := upd_acc (\<lambda>a. a\<lparr>da_degraded := da_degraded a + 1\<rparr>) (ml_result s)\<rparr>)))
          | Health_Failed \<Rightarrow>
              Inr (push_member member rc 0
                (s\<lparr>ml_result := upd_acc (\<lambda>a. a\<lparr>da_failed := da_failed a + 1\<rparr>) (ml_result s)\<rparr>))
          | Health_cast n \<Rightarrow> Inr (push_member member rc 0 s)))"

definition collect_members ::
  "policy \<Rightarrow> domain_config \<Rightarrow> capacity_snapshot \<Rightarrow> evaluation_result \<Rightarrow> evaluation_result + member_loop" where
  "collect_members p d cap r =
     and_then (for_each (index_capacity p d r) Map.empty (cs_resources cap)) (\<lambda>capacity.
       for_each (collect_member p d capacity) \<lparr>ml_result = r, ml_resources = [], ml_index = Map.empty\<rparr>
         (sort (dm_members d)))"

definition resource_set_fold :: "resource_accum list \<Rightarrow> u64" where
  "resource_set_fold resources = fold64 (hasher_of
     (add_string ''oversub.resourceset.v1''
      # concat (map (\<lambda>ra. [add_u64 (id_value (rc_resource (ra_capacity ra))),
                           add_u64 (gen_value (rc_generation (ra_capacity ra)))]) resources)))"

section \<open>Guarantees\<close>

definition or_reject :: "'a option \<Rightarrow> evaluation_result \<Rightarrow> evaluation_result + 'a" where
  "or_reject m r = (case m of None \<Rightarrow> Inl r | Some v \<Rightarrow> Inr v)"

definition pair_get :: "('k \<rightharpoonup> u64) \<Rightarrow> 'k \<Rightarrow> u64" where
  "pair_get m k = (case m k of None \<Rightarrow> 0 | Some v \<Rightarrow> v)"

record guarantee_loop =
  gl_result :: evaluation_result
  gl_resources :: "resource_accum list"
  gl_seen :: "u64 set"
  gl_by_class :: "u64 \<times> u64 \<rightharpoonup> u64"

definition sum_guarantee ::
  "policy \<Rightarrow> policy_index \<Rightarrow> domain_config \<Rightarrow> (u64 \<rightharpoonup> nat) \<Rightarrow> guarantee_loop \<Rightarrow> guarantee
   \<Rightarrow> evaluation_result + guarantee_loop" where
  "sum_guarantee p ix d index s0 g =
     (let r = gl_result s0; name = id_to_string (gt_reservation g);
          conflict = (\<lambda>reason detail. Inl (reject p d r Outcome_ConflictingInput reason detail)) in
      if id_value (gt_reservation g) \<in> gl_seen s0
      then conflict Reason_GuaranteeDuplicate (''reservation snapshot repeats reservation '' @ name)
      else let s = s0\<lparr>gl_seen := insert (id_value (gt_reservation g)) (gl_seen s0)\<rparr> in
      case index (id_value (gt_resource g)) of
        None \<Rightarrow> Inr (s\<lparr>gl_result := upd_acc (\<lambda>a. a\<lparr>da_oos_guarantees := add_sat (da_oos_guarantees a) (gt_capacity g)\<rparr>) r\<rparr>)
      | Some i \<Rightarrow>
          if \<not> gt_protected g \<or> gt_preemptible g
          then conflict Reason_GuaranteeContradiction (''guarantee '' @ name @ '' is not a protected obligation'')
          else if gt_pool g \<noteq> dm_pool d
          then conflict Reason_ResourcePoolMismatch (''guarantee '' @ name @ '' is reported in a different pool'')
          else if index_service_class ix (gt_class g) = None
          then conflict Reason_GuaranteeServiceClassUnknown (''guarantee '' @ name @ '' references an unknown service class'')
          else let ra = gl_resources s ! i; key = (id_value (gt_resource g), id_value (gt_class g));
                   overflow = reject p d r Outcome_Unknown Reason_ReservationSumOverflow ''guaranteed capacity sum overflowed''
               in and_then (or_reject (add_checked (ra_guarantees ra) (gt_capacity g)) overflow) (\<lambda>sum.
                  and_then (or_reject (add_checked (pair_get (gl_by_class s) key) (gt_capacity g)) overflow) (\<lambda>per_class.
                    Inr (s\<lparr>gl_resources := (gl_resources s)[i := ra\<lparr>ra_guarantees := sum\<rparr>],
                           gl_by_class := (gl_by_class s)(key \<mapsto> per_class)\<rparr>))))"

definition total_guarantees ::
  "policy \<Rightarrow> domain_config \<Rightarrow> evaluation_result \<Rightarrow> u64 \<Rightarrow> resource_accum \<Rightarrow> evaluation_result + u64" where
  "total_guarantees p d r acc ra =
     or_reject (add_checked acc (ra_guarantees ra))
       (reject p d r Outcome_Unknown Reason_ReservationSumOverflow ''guaranteed capacity total overflowed'')"

definition sum_guarantees ::
  "policy \<Rightarrow> policy_index \<Rightarrow> domain_config \<Rightarrow> (u64 \<rightharpoonup> nat) \<Rightarrow> reservation_snapshot \<Rightarrow> resource_accum list
   \<Rightarrow> evaluation_result \<Rightarrow> evaluation_result + guarantee_loop" where
  "sum_guarantees p ix d index res resources r =
     and_then (for_each (sum_guarantee p ix d index)
         \<lparr>gl_result = r, gl_resources = resources, gl_seen = {}, gl_by_class = Map.empty\<rparr> (rs_guarantees res)) (\<lambda>s.
       and_then (for_each (total_guarantees p d (gl_result s)) 0 (gl_resources s)) (\<lambda>total.
         Inr (s\<lparr>gl_result := upd_acc (\<lambda>a. a\<lparr>da_guarantees := total\<rparr>) (gl_result s)\<rparr>)))"

section \<open>Demand\<close>

record demand_loop =
  dl_result :: evaluation_result
  dl_resources :: "resource_accum list"
  dl_seen :: "u64 set"
  dl_contingent :: "(u64 \<times> u64) list"
  dl_admitted :: "((u64 \<times> u64) \<times> u64) list"
  dl_ineligible_amount :: u64
  dl_ineligible_class :: u64

definition demand_overflow :: "policy \<Rightarrow> domain_config \<Rightarrow> evaluation_result \<Rightarrow> string \<Rightarrow> evaluation_result" where
  "demand_overflow p d r detail = reject p d r Outcome_Unknown Reason_AdmissionSumOverflow detail"

definition admit_guaranteed ::
  "policy \<Rightarrow> domain_config \<Rightarrow> demand_loop \<Rightarrow> demand_record \<Rightarrow> evaluation_result + demand_loop" where
  "admit_guaranteed p d s rec =
     (let r = dl_result s; key = (id_value (dr_resource rec), id_value (dr_class rec)) in
      and_then (or_reject (add_checked (da_guaranteed_admitted (er_accounting r)) (dr_committed rec))
          (demand_overflow p d r ''guaranteed admitted total overflowed'')) (\<lambda>total.
        let r' = upd_acc (\<lambda>a. a\<lparr>da_guaranteed_admitted := total\<rparr>) r in
        and_then (or_reject (add_checked (slot_get (dl_admitted s) key) (dr_committed rec))
            (demand_overflow p d r' ''guaranteed admitted total overflowed'')) (\<lambda>per_class.
          Inr (s\<lparr>dl_result := r', dl_admitted := slot_put (dl_admitted s) key per_class\<rparr>))))"

definition admit_contingent ::
  "policy \<Rightarrow> domain_config \<Rightarrow> service_class_ref \<Rightarrow> nat \<Rightarrow> demand_loop \<Rightarrow> demand_record
   \<Rightarrow> evaluation_result + demand_loop" where
  "admit_contingent p d cls i s rec =
     (if \<not> sc_eligible cls
      then Inr (s\<lparr>dl_ineligible_amount := add_sat (dl_ineligible_amount s) (add_sat (dr_committed rec) (dr_pending rec)),
                  dl_ineligible_class := id_value (dr_class rec)\<rparr>)
      else let r0 = dl_result s; ra = dl_resources s ! i; class = id_value (dr_class rec);
               over = (\<lambda>r. demand_overflow p d r ''contingent committed total overflowed'');
               pend = (\<lambda>r. demand_overflow p d r ''pending demand overflowed'') in
           and_then (or_reject (add_checked (ra_contingent_committed ra) (dr_committed rec)) (over r0)) (\<lambda>ra_committed'.
           and_then (or_reject (add_checked (da_contingent_committed (er_accounting r0)) (dr_committed rec)) (over r0)) (\<lambda>committed.
           let r1 = upd_acc (\<lambda>a. a\<lparr>da_contingent_committed := committed\<rparr>) r0 in
           and_then (or_reject (add_checked (ra_contingent_pending ra) (dr_pending rec)) (pend r1)) (\<lambda>ra_pending'.
           and_then (or_reject (add_checked (da_contingent_pending (er_accounting r1)) (dr_pending rec)) (pend r1)) (\<lambda>pending.
           let r2 = upd_acc (\<lambda>a. a\<lparr>da_contingent_pending := pending\<rparr>) r1 in
           and_then (if dr_kind rec = Demand_Burst
                     then and_then (or_reject (add_checked (da_burst_committed (er_accounting r2)) (dr_committed rec))
                            (demand_overflow p d r2 ''burst committed overflowed'')) (\<lambda>burst.
                            Inr (upd_acc (\<lambda>a. a\<lparr>da_burst_committed := burst\<rparr>) r2))
                     else Inr r2) (\<lambda>r3.
           and_then (or_reject (add_checked (slot_get (dl_contingent s) class) (dr_committed rec)) (over r3)) (\<lambda>per_class.
           Inr (s\<lparr>dl_result := r3,
                  dl_resources := (dl_resources s)[i := ra\<lparr>ra_contingent_committed := ra_committed', ra_contingent_pending := ra_pending'\<rparr>],
                  dl_contingent := slot_put (dl_contingent s) class per_class\<rparr>))))))))"

definition sum_demand ::
  "policy \<Rightarrow> policy_index \<Rightarrow> domain_config \<Rightarrow> (u64 \<rightharpoonup> nat) \<Rightarrow> demand_loop \<Rightarrow> demand_record
   \<Rightarrow> evaluation_result + demand_loop" where
  "sum_demand p ix d index s0 rec =
     (let r = dl_result s0; name = id_to_string (dr_admission rec);
          conflict = (\<lambda>reason detail. Inl (reject p d r Outcome_ConflictingInput reason detail)) in
      if id_value (dr_admission rec) \<in> dl_seen s0
      then conflict Reason_AdmissionDuplicate (''admission snapshot repeats admission '' @ name)
      else let s = s0\<lparr>dl_seen := insert (id_value (dr_admission rec)) (dl_seen s0)\<rparr> in
      case index (id_value (dr_resource rec)) of
        None \<Rightarrow> Inr (s\<lparr>dl_result := upd_acc (\<lambda>a. a\<lparr>da_oos_demand := add_sat (da_oos_demand a) (dr_committed rec)\<rparr>) r\<rparr>)
      | Some i \<Rightarrow>
          if dr_pool rec \<noteq> dm_pool d
          then conflict Reason_ResourcePoolMismatch (''admission '' @ name @ '' is reported in a different pool'')
          else (case index_service_class ix (dr_class rec) of
            None \<Rightarrow> conflict Reason_AdmissionServiceClassUnknown (''admission '' @ name @ '' references an unknown service class'')
          | Some cls \<Rightarrow>
              (case dr_kind rec of
                 Demand_Guaranteed \<Rightarrow> admit_guaranteed p d s rec
               | Demand_Contingent \<Rightarrow> admit_contingent p d cls i s rec
               | Demand_Burst \<Rightarrow> admit_contingent p d cls i s rec
               | Demand_Unknown \<Rightarrow> conflict Reason_AdmissionKindConflict (''admission '' @ name @ '' has no kind'')
               | Demand_cast n \<Rightarrow> Inr s)))"

definition sum_demands ::
  "policy \<Rightarrow> policy_index \<Rightarrow> domain_config \<Rightarrow> (u64 \<rightharpoonup> nat) \<Rightarrow> admission_snapshot \<Rightarrow> resource_accum list
   \<Rightarrow> evaluation_result \<Rightarrow> evaluation_result + demand_loop" where
  "sum_demands p ix d index adm resources r =
     for_each (sum_demand p ix d index)
       \<lparr>dl_result = r, dl_resources = resources, dl_seen = {}, dl_contingent = [], dl_admitted = [],
        dl_ineligible_amount = 0, dl_ineligible_class = 0\<rparr> (as_records adm)"

text \<open>Guaranteed admissions that no reservation backs. The saturating sum does not depend on the order.\<close>

definition unmapped_guaranteed :: "(u64 \<times> u64 \<rightharpoonup> u64) \<Rightarrow> ((u64 \<times> u64) \<times> u64) list \<Rightarrow> u64" where
  "unmapped_guaranteed by_class admitted =
     fold (\<lambda>(key, amount) sum.
       let backed = pair_get by_class key
       in if amount > backed then add_sat sum (amount - backed) else sum) admitted 0"

section \<open>Totals and the boundary\<close>

record totals =
  tt_result :: evaluation_result
  tt_resources :: "resource_accum list"
  tt_closed :: bool

definition total_resource :: "resource_accum \<Rightarrow> totals \<Rightarrow> totals" where
  "total_resource ra t =
     (let a = er_accounting (tt_result t);
          eff = add_checked (da_effective_usable a) (ra_effective_usable ra);
          com = add_checked (ra_guarantees ra) (ra_contingent_committed ra);
          a' = a\<lparr>da_physical := add_sat (da_physical a) (rc_physical (ra_capacity ra)),
                 da_usable := add_sat (da_usable a) (rc_usable (ra_capacity ra)),
                 da_effective_usable := (case eff of None \<Rightarrow> da_effective_usable a | Some v \<Rightarrow> v)\<rparr>
      in \<lparr>tt_result = (tt_result t)\<lparr>er_accounting := a'\<rparr>,
          tt_resources = tt_resources t @ [ra\<lparr>ra_committed := (case com of None \<Rightarrow> ra_committed ra | Some v \<Rightarrow> v)\<rparr>],
          tt_closed = (tt_closed t \<and> eff \<noteq> None \<and> com \<noteq> None)\<rparr>)"

definition sum_totals ::
  "policy \<Rightarrow> domain_config \<Rightarrow> resource_accum list \<Rightarrow> evaluation_result \<Rightarrow> evaluation_result + totals" where
  "sum_totals p d resources r =
     (let t = fold total_resource resources \<lparr>tt_result = r, tt_resources = [], tt_closed = True\<rparr>;
          a = er_accounting (tt_result t)
      in if da_physical a > lm_max_capacity_units (pl_limits p) \<or> da_usable a > lm_max_capacity_units (pl_limits p)
         then Inl (reject p d (tt_result t) Outcome_ConflictingInput Reason_ResourceCapacityInvalid
                     ''domain capacity exceeds the policy capacity bound'')
         else Inr t)"

definition effective_ratio :: "policy \<Rightarrow> domain_config \<Rightarrow> bool \<Rightarrow> ratio \<times> constraint \<times> bool" where
  "effective_ratio p d degraded =
     (let (effective, constraint) =
        (if ratio_gt (dm_configured_ratio d) (pl_ratio_cap p) then (pl_ratio_cap p, Constraint_PolicyRatioCap)
         else (dm_configured_ratio d, Constraint_ConfiguredRatio))
      in if degraded
         then let degraded_cap = (if dm_has_degraded_cap d then dm_degraded_cap d else Ratio 1 1)
              in if ratio_lt degraded_cap effective then (degraded_cap, Constraint_DegradedRatioCap, True)
                 else (effective, constraint, False)
         else (effective, constraint, False))"

record ceilings =
  ce_candidates :: "(constraint \<times> u64) list"
  ce_ratio_ceiling :: u64
  ce_risk_ceiling :: u64
  ce_closed :: bool

definition ratio_ceiling :: "u64 \<Rightarrow> ratio \<Rightarrow> constraint \<Rightarrow> bool \<Rightarrow> ceilings" where
  "ratio_ceiling usable effective constraint closed =
     (case mul_div_floor usable (rat_num effective) (rat_den effective) of
        None \<Rightarrow> \<lparr>ce_candidates = [], ce_ratio_ceiling = 0, ce_risk_ceiling = 0, ce_closed = False\<rparr>
      | Some v \<Rightarrow> \<lparr>ce_candidates = [(constraint, v)], ce_ratio_ceiling = v, ce_risk_ceiling = 0, ce_closed = closed\<rparr>)"

definition add_risk :: "constraint \<Rightarrow> u64 option \<Rightarrow> ceilings \<Rightarrow> ceilings" where
  "add_risk constraint m c =
     (case m of
        None \<Rightarrow> c\<lparr>ce_closed := False\<rparr>
      | Some v \<Rightarrow> c\<lparr>ce_risk_ceiling := (if ce_risk_ceiling c = 0 \<or> v < ce_risk_ceiling c then v else ce_risk_ceiling c),
                     ce_candidates := ce_candidates c @ [(constraint, v)]\<rparr>)"

definition risk_ceilings :: "risk_budget_policy \<Rightarrow> u64 \<Rightarrow> ceilings \<Rightarrow> ceilings" where
  "risk_ceilings b usable c =
     (let c1 = (if rb_has_absolute b
                then add_risk Constraint_RiskBudgetExposureAbsolute (add_checked usable (rb_max_units b)) c else c)
      in if rb_has_ppm b
         then add_risk Constraint_RiskBudgetExposurePpm (mul_div_floor usable (kPpmScale + rb_max_ppm b) kPpmScale) c1
         else c1)"

definition choose_ceiling :: "(constraint \<times> u64) list \<Rightarrow> u64 \<Rightarrow> constraint \<Rightarrow> u64 \<times> constraint" where
  "choose_ceiling candidates ceiling binding =
     fold (\<lambda>(constraint, v) (ceiling, binding). if v < ceiling then (v, constraint) else (ceiling, binding))
       candidates (ceiling, binding)"

record boundary =
  bd_accounting :: domain_accounting
  bd_effective :: ratio
  bd_risk_ceiling :: u64
  bd_closed :: bool

definition draw_boundary :: "policy \<Rightarrow> domain_config \<Rightarrow> domain_accounting \<Rightarrow> bool \<Rightarrow> boundary" where
  "draw_boundary p d a closed =
     (let degraded = (da_degraded a > 0 \<or> da_failed a > 0);
          (effective, ratio_constraint, reduced) = effective_ratio p d degraded;
          usable = da_effective_usable a;
          c = risk_ceilings (pl_risk_budget p) usable (ratio_ceiling usable effective ratio_constraint closed);
          (chosen, chosen_binding) = choose_ceiling (ce_candidates c) (ce_ratio_ceiling c) ratio_constraint;
          (ceiling, binding) = (if usable = 0 then (0, Constraint_NoCapacity) else (chosen, chosen_binding))
      in \<lparr>bd_accounting = a\<lparr>da_ratio_reduced := reduced, da_effective_ratio := effective,
                             da_effective_ratio_ppm := ratio_ppm effective, da_ceiling := ceiling,
                             da_risk_ceiling := (if ce_risk_ceiling c \<noteq> 0 then ce_risk_ceiling c else ceiling),
                             da_binding := binding\<rparr>,
          bd_effective = effective, bd_risk_ceiling = ce_risk_ceiling c, bd_closed = ce_closed c\<rparr>)"

text \<open>\<open>x - y\<close> where that is positive, and \<open>0\<close> otherwise: the conditional differences of the code.\<close>

definition excess :: "u64 \<Rightarrow> u64 \<Rightarrow> u64" where
  "excess x y = (if x > y then x - y else 0)"

definition derive_accounting :: "policy \<Rightarrow> boundary \<Rightarrow> domain_accounting \<times> bool" where
  "derive_accounting p b =
     (let a = bd_accounting b; ceiling = da_ceiling a; risk_ceiling = bd_risk_ceiling b;
          pr = add_checked (da_guarantees a) (da_reserve a);
          protected_required = (case pr of None \<Rightarrow> 0 | Some v \<Rightarrow> v);
          fl = add_checked protected_required (da_min_headroom a);
          floor_required = (case fl of None \<Rightarrow> 0 | Some v \<Rightarrow> v);
          contingent_ceiling = (if ceiling \<ge> protected_required then ceiling - protected_required else 0);
          ct = add_checked (da_guarantees a) (da_contingent_committed a);
          committed = (case ct of None \<Rightarrow> da_committed a | Some v \<Rightarrow> v);
          overage = excess committed ceiling;
          used = (if contingent_ceiling = 0 then (if da_contingent_committed a = 0 then 0 else kPpmScale)
                  else mul_div_floor_sat (da_contingent_committed a) kPpmScale contingent_ceiling)
      in (a\<lparr>da_protected_required := protected_required, da_floor_required := floor_required,
            da_contingent_ceiling := contingent_ceiling, da_committed := committed, da_overage := overage,
            da_contingent_free := excess contingent_ceiling (da_contingent_committed a),
            da_protected_headroom := excess (da_effective_usable a) protected_required,
            da_exposure := excess committed (da_effective_usable a),
            da_risk_remaining := excess (da_risk_ceiling a) committed,
            da_risk_exceeded := (risk_ceiling \<noteq> 0 \<and> committed > risk_ceiling),
            da_used_ppm := used,
            da_approaching := (overage = 0 \<and> used \<ge> th_warn_used_ppm (pl_thresholds p))\<rparr>,
          bd_closed b \<and> pr \<noteq> None \<and> fl \<noteq> None \<and> ct \<noteq> None))"

section \<open>The per-resource view\<close>

definition resource_boundary :: "ratio \<Rightarrow> resource_accum \<Rightarrow> resource_accum \<times> bool" where
  "resource_boundary effective ra =
     (let m = mul_div_floor (ra_effective_usable ra) (rat_num effective) (rat_den effective);
          ceiling = (case m of None \<Rightarrow> 0 | Some v \<Rightarrow> v);
          contingent_ceiling = excess ceiling (ra_guarantees ra)
      in (ra\<lparr>ra_ceiling := ceiling, ra_contingent_ceiling := contingent_ceiling,
             ra_contingent_free := excess contingent_ceiling (ra_contingent_committed ra),
             ra_overage := excess (ra_committed ra) ceiling,
             ra_protected_headroom := excess (ra_effective_usable ra) (ra_guarantees ra)\<rparr>,
          m \<noteq> None))"

definition resource_row :: "constraint \<Rightarrow> resource_accum \<Rightarrow> resource_accounting" where
  "resource_row binding ra =
     \<lparr>rx_resource = rc_resource (ra_capacity ra), rx_pool = rc_pool (ra_capacity ra), rx_health = rc_health (ra_capacity ra),
      rx_physical = rc_physical (ra_capacity ra), rx_usable = rc_usable (ra_capacity ra),
      rx_effective_usable = ra_effective_usable ra, rx_guarantees = ra_guarantees ra,
      rx_contingent_committed = ra_contingent_committed ra, rx_contingent_pending = ra_contingent_pending ra,
      rx_ceiling = ra_ceiling ra, rx_contingent_ceiling = ra_contingent_ceiling ra,
      rx_contingent_free = ra_contingent_free ra, rx_overage = ra_overage ra,
      rx_protected_headroom = ra_protected_headroom ra,
      rx_binding = (if ra_overage ra > 0 then binding else Constraint_None)\<rparr>"

definition break_down ::
  "policy_limits \<Rightarrow> ratio \<Rightarrow> constraint \<Rightarrow> resource_accum list \<Rightarrow> evaluation_result \<Rightarrow> bool
   \<Rightarrow> evaluation_result \<times> resource_accum list \<times> bool" where
  "break_down limits effective binding resources r closed =
     (let bounded = map (resource_boundary effective) resources;
          ras = map fst bounded;
          closed' = (closed \<and> list_all snd bounded);
          limit = unat (lm_max_breakdown limits);
          r1 = r\<lparr>er_resources := er_resources r @ map (resource_row binding) (take limit ras)\<rparr>;
          r2 = (if length ras > limit
                then add_note limits ''resource breakdown truncated at the policy limit; domain totals are complete'' r1
                else r1)
      in (r2, ras, closed'))"

definition guarantee_violation :: "resource_accum list \<Rightarrow> u64 \<times> u64" where
  "guarantee_violation resources =
     fold (\<lambda>ra (amount, last_id).
       if ra_guarantees ra > ra_effective_usable ra
       then (add_sat amount (ra_guarantees ra - ra_effective_usable ra), id_value (rc_resource (ra_capacity ra)))
       else (amount, last_id)) resources (0, 0)"

definition note_degradation :: "policy_limits \<Rightarrow> evaluation_result \<Rightarrow> evaluation_result" where
  "note_degradation limits r =
     (let a = er_accounting r in
      if da_degraded a > 0 \<or> da_failed a > 0
      then add_note limits
             (''degradation present: '' @ to_string_u32 (da_degraded a) @ '' degraded, '' @ to_string_u32 (da_failed a)
              @ '' failed resources; effective ratio '' @ ratio_to_string (da_effective_ratio a)
              @ '' (configured '' @ ratio_to_string (da_configured_ratio a) @ '')'') r
      else r)"

section \<open>The outcome\<close>

text \<open>What the closing phases know besides the result under construction.\<close>

record findings =
  fi_unmapped :: u64
  fi_ineligible_amount :: u64
  fi_ineligible_class :: u64
  fi_violation :: u64
  fi_violation_id :: u64
  fi_contingent :: "(u64 \<times> u64) list"

definition intent_when ::
  "bool \<Rightarrow> policy_limits \<Rightarrow> corrective_intent \<Rightarrow> evaluation_result \<Rightarrow> evaluation_result" where
  "intent_when c limits i r = (if c then add_intent limits i r else r)"

definition finish_intents ::
  "policy_limits \<Rightarrow> domain_config \<Rightarrow> findings \<Rightarrow> outcome \<Rightarrow> reason_code \<Rightarrow> evaluation_result \<Rightarrow> evaluation_result" where
  "finish_intents limits d f out reason r0 =
     (let a = er_accounting r0;
          short = (da_guarantees a > da_effective_usable a);
          shortfall = (if short then da_guarantees a - da_effective_usable a else fi_violation f);
          uncovered = (fi_violation f > 0 \<or> short)
      in (intent_when (out = Outcome_PolicyRejected) limits
            (base_intent d Corrective_FenceOversubscribedAdmission Target_Domain reason
               ''policy does not authorize the current oversubscription state'')
        \<circ> intent_when (out = Outcome_ConflictingInput) limits
            (base_intent d Corrective_RevalidateEvidence Target_Domain reason ''revalidate after the contradiction is resolved'')
        \<circ> intent_when (out = Outcome_ConflictingInput) limits
            (base_intent d Corrective_ResolveConflictingEvidence Target_Domain reason ''evidence is structurally contradictory'')
        \<circ> intent_when (out = Outcome_Stale \<or> out = Outcome_Unknown) limits
            (base_intent d Corrective_RevalidateEvidence Target_Domain reason
               ''authority cannot be established from the current evidence'')
        \<circ> intent_when (out = Outcome_EmergencyReduction) limits
            ((base_intent d Corrective_FenceOversubscribedAdmission Target_Domain reason
               ''fence new oversubscribed admission in this domain'')\<lparr>ci_amount := da_contingent_committed a\<rparr>)
        \<circ> intent_when (dm_burst_enabled d \<and> da_burst_committed a > dm_burst_cap_units d) limits
            ((base_intent d Corrective_ReduceBurstPool Target_Domain Reason_BurstPoolExceeded ''burst pool exceeds its cap'')
               \<lparr>ci_amount := da_burst_committed a - dm_burst_cap_units d\<rparr>)
        \<circ> intent_when uncovered limits
            ((base_intent d Corrective_RequestBorrowedCapacityRecall Target_Domain Reason_GuaranteeSumExceedsUsable
               (''request recall of capacity lent to other domains; the governor does not know where it ''
                @ ''was lent, so this intent is a bounded request to the owning capacity system''))\<lparr>ci_amount := shortfall\<rparr>)
        \<circ> intent_when uncovered limits
            ((base_intent d Corrective_IncreaseProtectedHeadroom Target_Domain Reason_GuaranteeSumExceedsUsable
               ''restore capacity so that protected guarantees are covered again'')\<lparr>ci_amount := shortfall\<rparr>)
        \<circ> intent_when (fi_ineligible_amount f > 0) limits
            ((base_intent d Corrective_FenceOversubscribedAdmission Target_ServiceClass Reason_PolicyServiceClassIneligibleDemand
               ''service class is not eligible for deliberate oversubscription'')
               \<lparr>ci_class := StrongId (fi_ineligible_class f), ci_amount := fi_ineligible_amount f\<rparr>)
        \<circ> intent_when (fi_unmapped f > 0) limits
            (base_intent d Corrective_RevalidateEvidence Target_Domain Reason_AdmissionKindConflict
               ''guaranteed-class admissions exceed their reservations'')
        \<circ> intent_when (da_overage a > 0) limits
            ((base_intent d Corrective_ReduceContingentAdmissionBudget Target_Domain Reason_AdmissionExceedsContingentCeiling
               ''reduce the contingent admission budget by the overage'')\<lparr>ci_amount := da_overage a\<rparr>)) r0)"

definition finish ::
  "policy \<Rightarrow> domain_config \<Rightarrow> findings \<Rightarrow> evaluation_result \<Rightarrow> outcome \<Rightarrow> reason_code \<Rightarrow> string \<Rightarrow> evaluation_result" where
  "finish p d f r out reason detail =
     finalize_result (finish_intents (pl_limits p) d f out reason
       (r\<lparr>er_outcome := out, er_reason := reason, er_detail := detail, er_fence_required := fence_outcome out\<rparr>))"

text \<open>The contradictions and emergencies, up to the overage (lines 752 to 808).\<close>

definition decide_protection ::
  "policy \<Rightarrow> domain_config \<Rightarrow> findings \<Rightarrow> evaluation_result \<Rightarrow> evaluation_result + unit" where
  "decide_protection p d f r =
     (let a = er_accounting r; stop = (\<lambda>out reason detail. Inl (finish p d f r out reason detail)) in
      if fi_unmapped f > 0
      then stop Outcome_ConflictingInput Reason_AdmissionKindConflict
             (''guaranteed-class admissions exceed their reservations by '' @ to_string_u64 (fi_unmapped f) @ '' units'')
      else if fi_ineligible_amount f > 0
      then stop Outcome_PolicyRejected Reason_PolicyServiceClassIneligibleDemand
             (''an ineligible service class holds '' @ to_string_u64 (fi_ineligible_amount f)
              @ '' units of oversubscribed demand'')
      else if fi_violation f > 0
      then stop Outcome_EmergencyReduction Reason_GuaranteeSumExceedsUsable
             (''guarantees on resource '' @ to_string_u64 (fi_violation_id f)
              @ '' exceed that resource's effective usable capacity'')
      else if da_guarantees a > da_effective_usable a
      then stop Outcome_EmergencyReduction Reason_GuaranteeSumExceedsUsable
             ''guaranteed obligations exceed effective usable capacity''
      else if da_protected_required a > da_effective_usable a
      then stop Outcome_EmergencyReduction Reason_GuaranteeSumExceedsUsable
             ''protected obligations (guarantees plus emergency reserve) exceed effective usable capacity''
      else if da_floor_required a > da_effective_usable a
      then stop Outcome_PolicyRejected Reason_GuaranteeFloorExceedsCeiling
             ''the policy minimum protected headroom cannot be satisfied by usable capacity''
      else if da_floor_required a > da_ceiling a
      then stop Outcome_PolicyRejected Reason_GuaranteeFloorExceedsCeiling
             ''the legal commitment ceiling is below the protected guarantee floor''
      else if da_effective_usable a = 0
      then (if da_committed a > 0
            then stop Outcome_EmergencyReduction Reason_AdmissionNoContingentCeiling
                   ''no usable capacity remains but commitments are outstanding''
            else stop Outcome_AtLimit Reason_ResourceFailed ''no usable capacity in this domain'')
      else Inr ())"

definition overage_ppm :: "domain_accounting \<Rightarrow> u64" where
  "overage_ppm a =
     (if da_ceiling a = 0 then kPpmScale
      else case mul_div_ceil (da_overage a) kPpmScale (da_ceiling a) of None \<Rightarrow> kPpmScale | Some v \<Rightarrow> v)"

definition decide_overage ::
  "policy \<Rightarrow> domain_config \<Rightarrow> findings \<Rightarrow> evaluation_result \<Rightarrow> evaluation_result + unit" where
  "decide_overage p d f r =
     (let a = er_accounting r; stop = (\<lambda>out reason detail. Inl (finish p d f r out reason detail)) in
      if da_overage a > 0
      then (let ppm = overage_ppm a in
            if ppm \<ge> th_emergency_overage_ppm (pl_thresholds p)
            then stop Outcome_EmergencyReduction Reason_AdmissionExceedsContingentCeiling
                   (''oversubscription exceeds the legal ceiling by '' @ to_string_u64 ppm @ '' ppm of the ceiling'')
            else stop Outcome_ReductionRequired Reason_AdmissionExceedsContingentCeiling
                   (''oversubscription exceeds the legal ceiling by '' @ to_string_u64 (da_overage a) @ '' units''))
      else if dm_burst_enabled d \<and> da_burst_committed a > dm_burst_cap_units d
      then stop Outcome_ReductionRequired Reason_BurstPoolExceeded
             ''burst pool commitment exceeds the configured burst pool cap''
      else Inr ())"

definition check_share ::
  "policy \<Rightarrow> policy_index \<Rightarrow> domain_config \<Rightarrow> findings \<Rightarrow> evaluation_result \<Rightarrow> unit \<Rightarrow> u64 \<times> u64
   \<Rightarrow> evaluation_result + unit" where
  "check_share p ix d f r u slot =
     (let (class, amount) = slot; a = er_accounting r in
      case index_service_class ix (StrongId class) of
        None \<Rightarrow> Inr ()
      | Some cls \<Rightarrow>
          if \<not> sc_has_share_cap cls then Inr ()
          else (case mul_div_floor (da_contingent_ceiling a) (sc_share_cap_ppm cls) kPpmScale of
            None \<Rightarrow> Inl (finish p d f r Outcome_Unknown Reason_ArithmeticOverflow ''service class share overflowed'')
          | Some allowed \<Rightarrow>
              if amount > allowed
              then let r' = add_intent (pl_limits p)
                     ((base_intent d Corrective_ReduceContingentAdmissionBudget Target_ServiceClass
                         Reason_ServiceClassShareExceeded ''service class exceeds its contingent share'')
                        \<lparr>ci_class := StrongId class, ci_amount := amount - allowed\<rparr>) r
                   in Inl (finish p d f r' Outcome_ReductionRequired Reason_ServiceClassShareExceeded
                             ''a service class exceeds its contingent share of the ceiling'')
              else Inr ()))"

definition decide_within :: "policy \<Rightarrow> domain_config \<Rightarrow> findings \<Rightarrow> evaluation_result \<Rightarrow> evaluation_result" where
  "decide_within p d f r =
     (let a = er_accounting r in
      if da_contingent_free a = 0
      then finish p d f r Outcome_AtLimit Reason_None ''the domain is exactly at its legal ceiling''
      else let r' = (if da_approaching a
                     then add_note (pl_limits p)
                            (''used '' @ to_string_u64 (da_used_ppm a) @ '' ppm of the contingent ceiling'') r
                     else r)
           in finish p d f r' Outcome_WithinPolicy Reason_None ''the domain is within its oversubscription policy'')"

definition decide ::
  "((u64 \<times> u64) list \<Rightarrow> (u64 \<times> u64) list) \<Rightarrow> policy \<Rightarrow> policy_index \<Rightarrow> domain_config \<Rightarrow> findings
   \<Rightarrow> evaluation_result \<Rightarrow> evaluation_result" where
  "decide iter p ix d f r = returned (
     and_then (decide_protection p d f r) (\<lambda>_.
     and_then (decide_overage p d f r) (\<lambda>_.
     and_then (for_each (check_share p ix d f r) () (iter (fi_contingent f))) (\<lambda>_.
     Inr (decide_within p d f r)))))"

section \<open>The evaluation\<close>

text \<open>From the summed evidence to the domain's boundary and accounting (lines 508 to 669).\<close>

definition close_boundary ::
  "policy \<Rightarrow> domain_config \<Rightarrow> totals \<Rightarrow> evaluation_result + (evaluation_result \<times> resource_accum list)" where
  "close_boundary p d t =
     (let limits = pl_limits p;
          b = draw_boundary p d (er_accounting (tt_result t)) (tt_closed t);
          (a, closed1) = derive_accounting p b;
          (r1, ras, closed2) = break_down limits (bd_effective b) (da_binding a) (tt_resources t)
                                 ((tt_result t)\<lparr>er_accounting := a\<rparr>) closed1;
          r2 = note_degradation limits r1
      in if \<not> closed2
         then Inl (reject p d (upd_acc (\<lambda>a. a\<lparr>da_closed := False\<rparr>) r2) Outcome_Unknown Reason_ArithmeticOverflow
                     ''checked arithmetic could not close the domain boundary'')
         else Inr (r2, ras))"

definition evaluate_domain ::
  "((u64 \<times> u64) list \<Rightarrow> (u64 \<times> u64) list) \<Rightarrow> policy \<Rightarrow> policy_index \<Rightarrow> domain_config \<Rightarrow> authority_expectation
   \<Rightarrow> domain_evidence \<Rightarrow> u64 \<Rightarrow> evaluation_result" where
  "evaluate_domain iter p ix d ex ev tick = returned (
     let r0 = initial_result p d ex in
     and_then (check_binding p d ex ev r0) (\<lambda>(cap, res, adm).
     let r1 = bind_authority p d ex tick cap res adm r0 in
     and_then (check_freshness p d tick cap res adm r1) (\<lambda>_.
     and_then (check_bounds p d cap res adm r1) (\<lambda>_.
     and_then (collect_members p d cap r1) (\<lambda>m.
     let index = ml_index m; r2 = ml_result m;
         r3 = r2\<lparr>er_authority := (er_authority r2)\<lparr>av_resource_set_fold := resource_set_fold (ml_resources m)\<rparr>\<rparr> in
     and_then (sum_guarantees p ix d index res (ml_resources m) r3) (\<lambda>g.
     and_then (sum_demands p ix d index adm (gl_resources g) (gl_result g)) (\<lambda>s.
     let unmapped = unmapped_guaranteed (gl_by_class g) (dl_admitted s) in
     and_then (sum_totals p d (dl_resources s) (dl_result s)) (\<lambda>t.
     and_then (close_boundary p d t) (\<lambda>(r, ras).
     let (violation, violation_id) = guarantee_violation ras;
         f = \<lparr>fi_unmapped = unmapped, fi_ineligible_amount = dl_ineligible_amount s,
              fi_ineligible_class = dl_ineligible_class s, fi_violation = violation, fi_violation_id = violation_id,
              fi_contingent = dl_contingent s\<rparr>
     in Inr (decide iter p ix d f r))))))))))"

end
