(* ===== verification/Evaluate_Facts.thy ===== *)
theory Evaluate_Facts
  imports Evaluate
begin

text \<open>
  Facts about \<^verbatim>\<open>evaluate_domain\<close>: what each phase leaves alone, which outcomes a rejection can have,
  the inversion of a run that was not rejected, the sums the loops form, and the arithmetic of the
  boundary.
\<close>

section \<open>What the helpers leave alone\<close>

lemma add_intent_frame [simp]:
  "er_accounting (add_intent l i r) = er_accounting r" "er_authority (add_intent l i r) = er_authority r"
  "er_outcome (add_intent l i r) = er_outcome r" "er_reason (add_intent l i r) = er_reason r"
  "er_detail (add_intent l i r) = er_detail r" "er_resources (add_intent l i r) = er_resources r"
  "er_notes (add_intent l i r) = er_notes r" "er_fence_required (add_intent l i r) = er_fence_required r"
  by (simp_all add: add_intent_def)

lemma intent_when_frame [simp]:
  "er_accounting (intent_when c l i r) = er_accounting r" "er_authority (intent_when c l i r) = er_authority r"
  "er_outcome (intent_when c l i r) = er_outcome r" "er_reason (intent_when c l i r) = er_reason r"
  "er_detail (intent_when c l i r) = er_detail r" "er_resources (intent_when c l i r) = er_resources r"
  "er_notes (intent_when c l i r) = er_notes r" "er_fence_required (intent_when c l i r) = er_fence_required r"
  by (simp_all add: intent_when_def)

lemma add_note_frame [simp]:
  "er_accounting (add_note l t r) = er_accounting r" "er_authority (add_note l t r) = er_authority r"
  "er_outcome (add_note l t r) = er_outcome r" "er_reason (add_note l t r) = er_reason r"
  "er_detail (add_note l t r) = er_detail r" "er_resources (add_note l t r) = er_resources r"
  "er_intents (add_note l t r) = er_intents r" "er_fence_required (add_note l t r) = er_fence_required r"
  by (simp_all add: add_note_def)

lemma upd_acc_frame [simp]:
  "er_accounting (upd_acc f r) = f (er_accounting r)" "er_authority (upd_acc f r) = er_authority r"
  "er_intents (upd_acc f r) = er_intents r" "er_notes (upd_acc f r) = er_notes r"
  "er_resources (upd_acc f r) = er_resources r" "er_outcome (upd_acc f r) = er_outcome r"
  by (simp_all add: upd_acc_def)

lemma finalize_frame [simp]:
  "er_accounting (finalize_result r) = er_accounting r" "er_authority (finalize_result r) = er_authority r"
  "er_outcome (finalize_result r) = er_outcome r" "er_reason (finalize_result r) = er_reason r"
  "er_detail (finalize_result r) = er_detail r" "er_resources (finalize_result r) = er_resources r"
  "er_intents (finalize_result r) = er_intents r" "er_notes (finalize_result r) = er_notes r"
  "er_fence_required (finalize_result r) = er_fence_required r"
  "er_authority_valid (finalize_result r) = outcome_is_authoritative (er_outcome r)"
  "er_authorized (finalize_result r) = outcome_allows_new_authority (er_outcome r)"
  "er_increment (finalize_result r) =
     (if outcome_allows_new_authority (er_outcome r) then da_contingent_free (er_accounting r) else 0)"
  by (simp_all add: finalize_result_def Let_def)

lemma finish_intents_frame [simp]:
  "er_accounting (finish_intents l d f out reason r) = er_accounting r"
  "er_authority (finish_intents l d f out reason r) = er_authority r"
  "er_outcome (finish_intents l d f out reason r) = er_outcome r"
  "er_reason (finish_intents l d f out reason r) = er_reason r"
  "er_detail (finish_intents l d f out reason r) = er_detail r"
  "er_resources (finish_intents l d f out reason r) = er_resources r"
  "er_notes (finish_intents l d f out reason r) = er_notes r"
  "er_fence_required (finish_intents l d f out reason r) = er_fence_required r"
  by (simp_all add: finish_intents_def Let_def)

lemma finish_frame [simp]:
  "er_accounting (finish p d f r out reason detail) = er_accounting r"
  "er_authority (finish p d f r out reason detail) = er_authority r"
  "er_outcome (finish p d f r out reason detail) = out" "er_reason (finish p d f r out reason detail) = reason"
  "er_detail (finish p d f r out reason detail) = detail"
  "er_resources (finish p d f r out reason detail) = er_resources r"
  "er_notes (finish p d f r out reason detail) = er_notes r"
  "er_fence_required (finish p d f r out reason detail) = fence_outcome out"
  by (simp_all add: finish_def)

lemma reject_intents_frame [simp]:
  "er_accounting (reject_intents l d out reason r) = er_accounting r"
  "er_authority (reject_intents l d out reason r) = er_authority r"
  "er_outcome (reject_intents l d out reason r) = er_outcome r"
  "er_reason (reject_intents l d out reason r) = er_reason r"
  "er_notes (reject_intents l d out reason r) = er_notes r"
  by (simp_all add: reject_intents_def)

lemma reject_frame [simp]:
  "er_accounting (reject p d r out reason detail) = er_accounting r"
  "er_authority (reject p d r out reason detail) = er_authority r"
  "er_outcome (reject p d r out reason detail) = out" "er_reason (reject p d r out reason detail) = reason"
  "er_fence_required (reject p d r out reason detail) = fence_outcome out"
  "er_notes (reject p d r out reason detail) = er_notes r"
  by (simp_all add: reject_def Let_def)

section \<open>The grant is a function of the outcome\<close>

definition grant_consistent :: "evaluation_result \<Rightarrow> bool" where
  "grant_consistent r \<longleftrightarrow>
     er_authority_valid r = outcome_is_authoritative (er_outcome r)
     \<and> er_authorized r = (er_outcome r = Outcome_WithinPolicy)
     \<and> er_increment r = (if er_outcome r = Outcome_WithinPolicy then da_contingent_free (er_accounting r) else 0)
     \<and> er_fence_required r = fence_outcome (er_outcome r)"

lemma grant_consistent_finalize:
  "er_fence_required r = fence_outcome (er_outcome r) \<Longrightarrow> grant_consistent (finalize_result r)"
  by (simp add: grant_consistent_def outcome_allows_new_authority_def)

lemma grant_consistent_reject [simp]: "grant_consistent (reject p d r out reason detail)"
  by (simp add: reject_def Let_def grant_consistent_finalize)

lemma grant_consistent_finish [simp]: "grant_consistent (finish p d f r out reason detail)"
  by (simp add: finish_def grant_consistent_finalize)

section \<open>Rejections\<close>

text \<open>A rejection keeps the limits on intents and notes and never carries authority.\<close>

definition refused :: "evaluation_result \<Rightarrow> bool" where
  "refused r \<longleftrightarrow> er_outcome r \<in> {Outcome_Unknown, Outcome_Stale, Outcome_ConflictingInput} \<and> grant_consistent r"

lemma refused_reject [simp]:
  "refused (reject p d r out reason detail) \<longleftrightarrow> out \<in> {Outcome_Unknown, Outcome_Stale, Outcome_ConflictingInput}"
  by (simp add: refused_def)

lemma or_reject_Inl: "or_reject m r = Inl r' \<longleftrightarrow> m = None \<and> r' = r"
  by (auto simp: or_reject_def split: option.splits)

lemma or_reject_Inr: "or_reject m r = Inr v \<longleftrightarrow> m = Some v"
  by (auto simp: or_reject_def split: option.splits)

lemma check_binding_refuses: "check_binding p d ex ev r = Inl r' \<Longrightarrow> refused r'"
  by (auto simp: check_binding_def split: option.splits if_splits)

lemma check_freshness_refuses: "check_freshness p d tick cap res adm r = Inl r' \<Longrightarrow> refused r'"
  by (auto simp: check_freshness_def stale_or_future_def Let_def split: option.splits if_splits)

lemma check_bounds_refuses: "check_bounds p d cap res adm r = Inl r' \<Longrightarrow> refused r'"
  by (auto simp: check_bounds_def split: if_splits)

lemma index_capacity_refuses: "index_capacity p d r m rc = Inl r' \<Longrightarrow> refused r'"
  by (auto simp: index_capacity_def split: option.splits)

lemma collect_member_refuses: "collect_member p d c s m = Inl r' \<Longrightarrow> refused r'"
  by (auto simp: collect_member_def split: option.splits if_splits resource_health.splits)

lemma collect_members_refuses: "collect_members p d cap r = Inl r' \<Longrightarrow> refused r'"
  unfolding collect_members_def and_then_Inl_iff
  by (auto elim!: for_each_early [where I = "\<lambda>_. True"] simp: index_capacity_refuses collect_member_refuses)

lemma sum_guarantee_refuses: "sum_guarantee p ix d index s g = Inl r' \<Longrightarrow> refused r'"
  by (auto simp: sum_guarantee_def Let_def and_then_Inl_iff or_reject_Inl or_reject_Inr split: option.splits if_splits)

lemma sum_guarantees_refuses: "sum_guarantees p ix d index res ras r = Inl r' \<Longrightarrow> refused r'"
  unfolding sum_guarantees_def and_then_Inl_iff
  by (auto elim!: for_each_early [where I = "\<lambda>_. True"]
      simp: sum_guarantee_refuses total_guarantees_def or_reject_Inl)

lemma admit_refuses:
  "admit_guaranteed p d s rec = Inl r' \<Longrightarrow> refused r'"
  "admit_contingent p d cls i s rec = Inl r' \<Longrightarrow> refused r'"
  by (auto simp: admit_guaranteed_def admit_contingent_def demand_overflow_def Let_def and_then_Inl_iff
      or_reject_Inl or_reject_Inr split: if_splits)

lemma sum_demand_refuses: "sum_demand p ix d index s rec = Inl r' \<Longrightarrow> refused r'"
  by (auto simp: sum_demand_def Let_def admit_refuses split: option.splits if_splits demand_kind.splits)

lemma sum_demands_refuses: "sum_demands p ix d index adm ras r = Inl r' \<Longrightarrow> refused r'"
  unfolding sum_demands_def
  by (auto elim!: for_each_early [where I = "\<lambda>_. True"] simp: sum_demand_refuses)

lemma sum_totals_refuses: "sum_totals p d ras r = Inl r' \<Longrightarrow> refused r'"
  by (auto simp: sum_totals_def Let_def split: if_splits)

lemma close_boundary_refuses: "close_boundary p d t = Inl r' \<Longrightarrow> refused r'"
  by (auto simp: close_boundary_def Let_def split: prod.splits if_splits)

lemmas phase_refuses =
  check_binding_refuses check_freshness_refuses check_bounds_refuses collect_members_refuses
  sum_guarantees_refuses sum_demands_refuses sum_totals_refuses close_boundary_refuses

section \<open>A run that is not refused\<close>

lemma evaluate_cases [case_names refused decided]:
  fixes iter :: "(u64 \<times> u64) list \<Rightarrow> (u64 \<times> u64) list"
  obtains "refused (evaluate_domain iter p ix d ex ev tick)"
  | cap res adm m g s t r ras violation violation_id r1 r3 where
      "check_binding p d ex ev (initial_result p d ex) = Inr (cap, res, adm)"
      "r1 = bind_authority p d ex tick cap res adm (initial_result p d ex)"
      "check_freshness p d tick cap res adm r1 = Inr ()"
      "check_bounds p d cap res adm r1 = Inr ()"
      "collect_members p d cap r1 = Inr m"
      "r3 = (ml_result m)\<lparr>er_authority := (er_authority (ml_result m))\<lparr>av_resource_set_fold := resource_set_fold (ml_resources m)\<rparr>\<rparr>"
      "sum_guarantees p ix d (ml_index m) res (ml_resources m) r3 = Inr g"
      "sum_demands p ix d (ml_index m) adm (gl_resources g) (gl_result g) = Inr s"
      "sum_totals p d (dl_resources s) (dl_result s) = Inr t"
      "close_boundary p d t = Inr (r, ras)"
      "guarantee_violation ras = (violation, violation_id)"
      "evaluate_domain iter p ix d ex ev tick = decide iter p ix d
         \<lparr>fi_unmapped = unmapped_guaranteed (gl_by_class g) (dl_admitted s), fi_ineligible_amount = dl_ineligible_amount s,
          fi_ineligible_class = dl_ineligible_class s, fi_violation = violation, fi_violation_id = violation_id,
          fi_contingent = dl_contingent s\<rparr> r"
proof -
  note eval = evaluate_domain_def [of iter p ix d ex ev tick, unfolded Let_def]
  show thesis
  proof (cases "check_binding p d ex ev (initial_result p d ex)")
    case (Inl x)
    then show ?thesis by (intro that(1)) (simp add: eval check_binding_refuses)
  next
    case (Inr b)
    obtain cap res adm where b: "b = (cap, res, adm)" by (cases b)
    note binding = Inr [unfolded b]
    define r1 where "r1 = bind_authority p d ex tick cap res adm (initial_result p d ex)"
    note eval1 = eval [unfolded binding, simplified, folded r1_def]
    show ?thesis
    proof (cases "check_freshness p d tick cap res adm r1")
      case (Inl x)
      then show ?thesis by (intro that(1)) (simp add: eval1 check_freshness_refuses)
    next
      case fresh: (Inr u)
      show ?thesis
      proof (cases "check_bounds p d cap res adm r1")
        case (Inl x)
        then show ?thesis by (intro that(1)) (simp add: eval1 fresh check_bounds_refuses)
      next
        case bounds: (Inr u')
        show ?thesis
        proof (cases "collect_members p d cap r1")
          case (Inl x)
          then show ?thesis by (intro that(1)) (simp add: eval1 fresh bounds collect_members_refuses)
        next
          case members: (Inr m)
          define r3 where "r3 = (ml_result m)\<lparr>er_authority :=
            (er_authority (ml_result m))\<lparr>av_resource_set_fold := resource_set_fold (ml_resources m)\<rparr>\<rparr>"
          note eval2 = eval1 [unfolded fresh bounds members, simplified, folded r3_def]
          show ?thesis
          proof (cases "sum_guarantees p ix d (ml_index m) res (ml_resources m) r3")
            case (Inl x)
            then show ?thesis by (intro that(1)) (simp add: eval2 sum_guarantees_refuses)
          next
            case guarantees: (Inr g)
            show ?thesis
            proof (cases "sum_demands p ix d (ml_index m) adm (gl_resources g) (gl_result g)")
              case (Inl x)
              then show ?thesis by (intro that(1)) (simp add: eval2 guarantees sum_demands_refuses)
            next
              case demands: (Inr s)
              show ?thesis
              proof (cases "sum_totals p d (dl_resources s) (dl_result s)")
                case (Inl x)
                then show ?thesis by (intro that(1)) (simp add: eval2 guarantees demands sum_totals_refuses)
              next
                case totals: (Inr t)
                show ?thesis
                proof (cases "close_boundary p d t")
                  case (Inl x)
                  then show ?thesis
                    by (intro that(1)) (simp add: eval2 guarantees demands totals close_boundary_refuses)
                next
                  case (Inr c)
                  obtain r ras where c: "c = (r, ras)" by (cases c)
                  obtain v vi where v: "guarantee_violation ras = (v, vi)" by fastforce
                  note boundary = Inr [unfolded c]
                  show ?thesis
                    by (rule that(2) [OF binding r1_def _ _ members r3_def guarantees demands totals boundary v])
                       (use fresh bounds in \<open>simp_all add: eval2 guarantees demands totals boundary v\<close>)
                qed
              qed
            qed
          qed
        qed
      qed
    qed
  qed
qed

section \<open>The closing decision\<close>

lemma decide_protection_Inl:
  "decide_protection p d f r = Inl r' \<Longrightarrow>
     er_accounting r' = er_accounting r \<and> er_authority r' = er_authority r \<and> grant_consistent r'
     \<and> er_outcome r' \<noteq> Outcome_WithinPolicy \<and> er_outcome r' \<noteq> Outcome_ReductionRequired"
  by (auto simp: decide_protection_def Let_def split: if_splits)

lemma decide_overage_Inl:
  "decide_overage p d f r = Inl r' \<Longrightarrow>
     er_accounting r' = er_accounting r \<and> er_authority r' = er_authority r \<and> grant_consistent r'
     \<and> er_outcome r' \<in> {Outcome_EmergencyReduction, Outcome_ReductionRequired}"
  by (auto simp: decide_overage_def Let_def split: if_splits)

lemma check_share_Inl:
  "check_share p ix d f r u slot = Inl r' \<Longrightarrow>
     er_accounting r' = er_accounting r \<and> er_authority r' = er_authority r \<and> grant_consistent r'
     \<and> er_outcome r' \<in> {Outcome_Unknown, Outcome_ReductionRequired}"
  by (auto simp: check_share_def Let_def split: option.splits if_splits prod.splits)

lemma share_loop_Inl:
  assumes "for_each (check_share p ix d f r) () slots = Inl r'"
  shows "er_accounting r' = er_accounting r \<and> er_authority r' = er_authority r \<and> grant_consistent r'
     \<and> er_outcome r' \<in> {Outcome_Unknown, Outcome_ReductionRequired}"
  using for_each_check_fails [OF assms] check_share_Inl by blast

lemma decide_within_sel:
  "er_accounting (decide_within p d f r) = er_accounting r" "er_authority (decide_within p d f r) = er_authority r"
  "grant_consistent (decide_within p d f r)"
  "er_outcome (decide_within p d f r) = (if da_contingent_free (er_accounting r) = 0 then Outcome_AtLimit else Outcome_WithinPolicy)"
  by (simp_all add: decide_within_def Let_def)

text \<open>The four ways a decision can go.\<close>

lemma decide_cases [case_names protection overage share within]:
  obtains "decide_protection p d f r = Inl (decide iter p ix d f r)"
  | "decide_protection p d f r = Inr ()" "decide_overage p d f r = Inl (decide iter p ix d f r)"
  | "decide_protection p d f r = Inr ()" "decide_overage p d f r = Inr ()"
    "for_each (check_share p ix d f r) () (iter (fi_contingent f)) = Inl (decide iter p ix d f r)"
  | "decide_protection p d f r = Inr ()" "decide_overage p d f r = Inr ()"
    "for_each (check_share p ix d f r) () (iter (fi_contingent f)) = Inr ()"
    "decide iter p ix d f r = decide_within p d f r"
  by (cases "decide_protection p d f r"; cases "decide_overage p d f r";
      cases "for_each (check_share p ix d f r) () (iter (fi_contingent f))")
     (auto simp: decide_def)

lemma decide_frame:
  "er_accounting (decide iter p ix d f r) = er_accounting r \<and> er_authority (decide iter p ix d f r) = er_authority r
   \<and> grant_consistent (decide iter p ix d f r)"
  by (rule decide_cases [of p d f r iter ix])
     (auto dest: decide_protection_Inl decide_overage_Inl share_loop_Inl simp: decide_within_sel)

section \<open>The capacity of the members\<close>

lemma index_capacity_loop:
  assumes "for_each (index_capacity p d r) Map.empty rcs = Inr cm"
  shows "distinct (map rc_resource rcs) \<and> (\<forall>k. cm k = List.find (\<lambda>rc. id_value (rc_resource rc) = k) rcs)"
proof (rule for_each_prefix [where I = "\<lambda>ys m. distinct (map rc_resource ys)
      \<and> (\<forall>k. m k = List.find (\<lambda>rc. id_value (rc_resource rc) = k) ys)", OF assms])
  fix ys x m m'
  assume ih: "distinct (map rc_resource ys) \<and> (\<forall>k. m k = List.find (\<lambda>rc. id_value (rc_resource rc) = k) ys)"
    and step: "index_capacity p d r m x = Inr m'"
  from step have new: "m (id_value (rc_resource x)) = None" and m': "m' = m(id_value (rc_resource x) \<mapsto> x)"
    by (auto simp: index_capacity_def split: option.splits)
  from new ih have fresh: "\<forall>y \<in> set ys. id_value (rc_resource y) \<noteq> id_value (rc_resource x)"
    by (auto simp: find_None_iff)
  have app: "List.find P (ys @ [x]) = (case List.find P ys of None \<Rightarrow> (if P x then Some x else None) | Some y \<Rightarrow> Some y)" for P
    by (induction ys) simp_all
  show "distinct (map rc_resource (ys @ [x])) \<and> (\<forall>k. m' k = List.find (\<lambda>rc. id_value (rc_resource rc) = k) (ys @ [x]))"
  proof (intro conjI allI)
    show "distinct (map rc_resource (ys @ [x]))" using ih fresh by auto
    fix k
    show "m' k = List.find (\<lambda>rc. id_value (rc_resource rc) = k) (ys @ [x])"
      using ih new by (auto simp: m' app split: option.splits)
  qed
qed simp

text \<open>What a member contributes: nothing when it failed, its scaled capacity when degraded.\<close>

definition usable_of :: "resource_capacity \<Rightarrow> nat" where
  "usable_of rc =
     (case rc_health rc of
        Health_Healthy \<Rightarrow> unat (rc_usable rc)
      | Health_Degraded \<Rightarrow> unat (rc_usable rc) * unat (rc_degraded_ppm rc) div 1000000
      | _ \<Rightarrow> 0)"

definition capacity_of :: "capacity_snapshot \<Rightarrow> resource_id \<Rightarrow> resource_capacity option" where
  "capacity_of cap m = List.find (\<lambda>rc. rc_resource rc = m) (cs_resources cap)"

definition member_usable :: "capacity_snapshot \<Rightarrow> resource_id \<Rightarrow> nat" where
  "member_usable cap m = (case capacity_of cap m of None \<Rightarrow> 0 | Some rc \<Rightarrow> usable_of rc)"

text \<open>The fields the member loop may write.\<close>

definition same_sums :: "domain_accounting \<Rightarrow> domain_accounting \<Rightarrow> bool" where
  "same_sums a b \<longleftrightarrow> (\<exists>x y. b = a\<lparr>da_degraded := x, da_failed := y\<rparr>)"

definition member_inv ::
  "domain_config \<Rightarrow> capacity_snapshot \<Rightarrow> evaluation_result \<Rightarrow> resource_id list \<Rightarrow> member_loop \<Rightarrow> bool" where
  "member_inv d cap r ms s \<longleftrightarrow>
     map (\<lambda>ra. rc_resource (ra_capacity ra)) (ml_resources s) = ms
     \<and> (\<forall>ra \<in> set (ml_resources s). \<exists>u. ra = accum_of (ra_capacity ra) u \<and> unat u = usable_of (ra_capacity ra)
           \<and> capacity_of cap (rc_resource (ra_capacity ra)) = Some (ra_capacity ra) \<and> rc_pool (ra_capacity ra) = dm_pool d)
     \<and> (\<forall>k. case ml_index s k of None \<Rightarrow> k \<notin> id_value ` set ms | Some i \<Rightarrow> i < length ms \<and> id_value (ms ! i) = k)
     \<and> same_sums (er_accounting r) (er_accounting (ml_result s))
     \<and> er_authority (ml_result s) = er_authority r"

lemma same_sums_refl [simp]: "same_sums a a"
proof -
  have "a = a\<lparr>da_degraded := da_degraded a, da_failed := da_failed a\<rparr>" by simp
  then show ?thesis unfolding same_sums_def by blast
qed

lemma same_sums_update:
  "same_sums a b \<Longrightarrow> same_sums a (b\<lparr>da_degraded := x\<rparr>)" "same_sums a b \<Longrightarrow> same_sums a (b\<lparr>da_failed := y\<rparr>)"
proof -
  assume "same_sums a b"
  then obtain v w where b: "b = a\<lparr>da_degraded := v, da_failed := w\<rparr>" by (auto simp: same_sums_def)
  have "b\<lparr>da_degraded := x\<rparr> = a\<lparr>da_degraded := x, da_failed := w\<rparr>" "b\<lparr>da_failed := y\<rparr> = a\<lparr>da_degraded := v, da_failed := y\<rparr>"
    by (simp_all add: b)
  then show "same_sums a (b\<lparr>da_degraded := x\<rparr>)" "same_sums a (b\<lparr>da_failed := y\<rparr>)"
    unfolding same_sums_def by blast+
qed

lemma push_member_inv:
  assumes "member_inv d cap r ms s" and "capacity_of cap m = Some rc" and "rc_pool rc = dm_pool d"
    and "unat u = usable_of rc" and "same_sums (er_accounting r) (er_accounting r')" and "er_authority r' = er_authority r"
  shows "member_inv d cap r (ms @ [m]) (push_member m rc u (s\<lparr>ml_result := r'\<rparr>))"
proof -
  have rc: "rc_resource rc = m"
    using assms(2) by (auto simp: capacity_of_def find_Some_iff)
  have len: "length (ml_resources s) = length ms"
    using assms(1) unfolding member_inv_def by (metis length_map)
  let ?i = "emplace (ml_index s) (id_value m) (length ms)"
  have index: "case ?i k of None \<Rightarrow> k \<notin> id_value ` set (ms @ [m]) | Some i \<Rightarrow> i < length (ms @ [m]) \<and> id_value ((ms @ [m]) ! i) = k" for k
    using assms(1)[unfolded member_inv_def, THEN conjunct2, THEN conjunct2, THEN conjunct1, rule_format, of k]
    by (auto simp: emplace_def nth_append split: option.splits if_splits)
  show ?thesis
    unfolding member_inv_def push_member_def
    using assms rc len index by (auto simp: member_inv_def accum_of_def)
qed

lemma collect_members_spec:
  assumes "collect_members p d cap r = Inr s"
  shows "member_inv d cap r (sort (dm_members d)) s \<and> distinct (map rc_resource (cs_resources cap))"
proof -
  from assms obtain cm where cm: "for_each (index_capacity p d r) Map.empty (cs_resources cap) = Inr cm"
    and loop: "for_each (collect_member p d cm) \<lparr>ml_result = r, ml_resources = [], ml_index = Map.empty\<rparr> (sort (dm_members d)) = Inr s"
    by (auto simp: collect_members_def and_then_Inr_iff)
  have lookup: "cm (id_value m) = capacity_of cap m" for m
    using index_capacity_loop [OF cm] by (simp add: capacity_of_def id_value_eq_iff)
  have "member_inv d cap r (sort (dm_members d)) s"
  proof (rule for_each_prefix [where I = "member_inv d cap r", OF loop])
    show "member_inv d cap r [] \<lparr>ml_result = r, ml_resources = [], ml_index = Map.empty\<rparr>"
      by (simp add: member_inv_def same_sums_def)
  next
    fix ms m s s'
    assume ih: "member_inv d cap r ms s" and step: "collect_member p d cm s m = Inr s'"
    from ih have frame: "same_sums (er_accounting r) (er_accounting (ml_result s))" "er_authority (ml_result s) = er_authority r"
      by (simp_all add: member_inv_def)
    from step obtain rc where rc: "capacity_of cap m = Some rc" "rc_pool rc = dm_pool d"
      by (auto simp: collect_member_def lookup split: option.splits if_splits)
    note push = push_member_inv [OF ih rc]
    show "member_inv d cap r (ms @ [m]) s'"
      using step rc frame push [of _ "ml_result s"]
        push [of _ "upd_acc (\<lambda>a. a\<lparr>da_degraded := da_degraded a + 1\<rparr>) (ml_result s)"]
        push [of _ "upd_acc (\<lambda>a. a\<lparr>da_failed := da_failed a + 1\<rparr>) (ml_result s)"]
      by (auto simp: collect_member_def lookup usable_of_def ppm_of_def mul_div_floor_nat same_sums_update
          split: resource_health.splits option.splits if_splits)
  qed
  then show ?thesis using index_capacity_loop [OF cm] by simp
qed

section \<open>The sum of the guarantees\<close>

lemma sum_list_update_nat:
  "i < length xs \<Longrightarrow> sum_list (map f (xs[i := y])) + f (xs ! i) = sum_list (map f xs) + (f y :: nat)"
  by (induction xs arbitrary: i) (auto simp: nth_Cons split: nat.splits)

definition known :: "(u64 \<rightharpoonup> nat) \<Rightarrow> resource_id \<Rightarrow> bool" where
  "known index r \<longleftrightarrow> index (id_value r) \<noteq> None"

definition sum_for :: "('a \<Rightarrow> bool) \<Rightarrow> ('a \<Rightarrow> u64) \<Rightarrow> 'a list \<Rightarrow> nat" where
  "sum_for P f xs = sum_list (map (\<lambda>x. unat (f x)) (filter P xs))"

lemma sum_for_simps [simp]:
  "sum_for P f [] = 0" "sum_for P f (xs @ ys) = sum_for P f xs + sum_for P f ys"
  "sum_for P f [x] = (if P x then unat (f x) else 0)"
  by (simp_all add: sum_for_def)

definition guarantee_key :: "guarantee \<Rightarrow> u64 \<times> u64" where
  "guarantee_key g = (id_value (gt_resource g), id_value (gt_class g))"

definition strip_guarantees :: "resource_accum \<Rightarrow> resource_accum" where
  "strip_guarantees ra = ra\<lparr>ra_guarantees := 0\<rparr>"

definition guarantee_inv ::
  "policy_index \<Rightarrow> domain_config \<Rightarrow> (u64 \<rightharpoonup> nat) \<Rightarrow> resource_accum list \<Rightarrow> evaluation_result \<Rightarrow> guarantee list
   \<Rightarrow> guarantee_loop \<Rightarrow> bool" where
  "guarantee_inv ix d index ras0 r gs s \<longleftrightarrow>
     map strip_guarantees (gl_resources s) = map strip_guarantees ras0
     \<and> sum_list (map (\<lambda>ra. unat (ra_guarantees ra)) (gl_resources s))
        = sum_list (map (\<lambda>ra. unat (ra_guarantees ra)) ras0) + sum_for (\<lambda>g. known index (gt_resource g)) gt_capacity gs
     \<and> (\<forall>k. unat (pair_get (gl_by_class s) k) = sum_for (\<lambda>g. known index (gt_resource g) \<and> guarantee_key g = k) gt_capacity gs)
     \<and> (\<forall>g \<in> set gs. known index (gt_resource g) \<longrightarrow>
           gt_protected g \<and> \<not> gt_preemptible g \<and> gt_pool g = dm_pool d \<and> index_service_class ix (gt_class g) \<noteq> None)
     \<and> gl_seen s = (\<lambda>g. id_value (gt_reservation g)) ` set gs \<and> distinct (map gt_reservation gs)
     \<and> (\<exists>x. er_accounting (gl_result s) = (er_accounting r)\<lparr>da_oos_guarantees := x\<rparr>)
     \<and> er_authority (gl_result s) = er_authority r"

lemma sum_guarantee_inv:
  assumes inv: "guarantee_inv ix d index ras0 r gs s" and step: "sum_guarantee p ix d index s g = Inr s'"
    and range: "\<forall>k i. index k = Some i \<longrightarrow> i < length ras0"
  shows "guarantee_inv ix d index ras0 r (gs @ [g]) s'"
proof -
  have fresh: "id_value (gt_reservation g) \<notin> gl_seen s"
    using step by (auto simp: sum_guarantee_def Let_def split: if_splits)
  then have new: "gt_reservation g \<notin> gt_reservation ` set gs"
    using inv by (auto simp: guarantee_inv_def)
  have len: "length (gl_resources s) = length ras0"
    using inv unfolding guarantee_inv_def by (metis length_map)
  show ?thesis
  proof (cases "index (id_value (gt_resource g))")
    case None
    then have s': "s' = s\<lparr>gl_seen := insert (id_value (gt_reservation g)) (gl_seen s),
        gl_result := upd_acc (\<lambda>a. a\<lparr>da_oos_guarantees := add_sat (da_oos_guarantees a) (gt_capacity g)\<rparr>) (gl_result s)\<rparr>"
      using step fresh by (simp add: sum_guarantee_def Let_def)
    from inv obtain x where x: "er_accounting (gl_result s) = (er_accounting r)\<lparr>da_oos_guarantees := x\<rparr>"
      by (auto simp: guarantee_inv_def)
    show ?thesis using inv None new x unfolding guarantee_inv_def s'
      by (auto simp: known_def)
  next
    case (Some i)
    let ?ra = "gl_resources s ! i" and ?key = "guarantee_key g"
    have i: "i < length (gl_resources s)" using range [rule_format, OF Some] len by simp
    from step fresh Some obtain v w
      where v: "add_checked (ra_guarantees ?ra) (gt_capacity g) = Some v"
        and w: "add_checked (pair_get (gl_by_class s) ?key) (gt_capacity g) = Some w"
        and checks: "gt_protected g" "\<not> gt_preemptible g" "gt_pool g = dm_pool d" "index_service_class ix (gt_class g) \<noteq> None"
        and s': "s' = s\<lparr>gl_seen := insert (id_value (gt_reservation g)) (gl_seen s),
          gl_resources := (gl_resources s)[i := ?ra\<lparr>ra_guarantees := v\<rparr>], gl_by_class := (gl_by_class s)(?key \<mapsto> w)\<rparr>"
      by (auto simp: sum_guarantee_def Let_def and_then_Inr_iff or_reject_Inr guarantee_key_def split: if_splits)
    have g: "known index (gt_resource g)" using Some by (simp add: known_def)
    have strip: "map strip_guarantees ((gl_resources s)[i := ?ra\<lparr>ra_guarantees := v\<rparr>]) = map strip_guarantees (gl_resources s)"
      using i by (simp add: map_update strip_guarantees_def list_update_same_conv)
    have total: "sum_list (map (\<lambda>ra. unat (ra_guarantees ra)) ((gl_resources s)[i := ?ra\<lparr>ra_guarantees := v\<rparr>]))
        = sum_list (map (\<lambda>ra. unat (ra_guarantees ra)) (gl_resources s)) + unat (gt_capacity g)"
      using sum_list_update_nat [OF i, of "\<lambda>ra. unat (ra_guarantees ra)" "?ra\<lparr>ra_guarantees := v\<rparr>"] v
      by (simp add: add_checked_Some)
    have slots: "unat (pair_get ((gl_by_class s)(?key \<mapsto> w)) k)
        = unat (pair_get (gl_by_class s) k) + (if ?key = k then unat (gt_capacity g) else 0)" for k
      using w by (auto simp: add_checked_Some pair_get_def)
    show ?thesis using inv new checks g strip total slots unfolding guarantee_inv_def s'
      by auto
  qed
qed

lemma total_guarantees_loop:
  assumes "for_each (total_guarantees p d r) acc ras = Inr v"
  shows "unat v = unat acc + sum_list (map (\<lambda>ra. unat (ra_guarantees ra)) ras)"
  using assms
  by (induction ras arbitrary: acc)
     (auto simp: total_guarantees_def and_then_Inr_iff or_reject_Inr add_checked_Some)

lemma sum_guarantees_spec:
  assumes run: "sum_guarantees p ix d index res ras0 r = Inr g"
    and range: "\<forall>k i. index k = Some i \<longrightarrow> i < length ras0" and zero: "\<forall>ra \<in> set ras0. ra_guarantees ra = 0"
  shows "\<exists>x v. er_accounting (gl_result g) = (er_accounting r)\<lparr>da_oos_guarantees := x, da_guarantees := v\<rparr>
      \<and> unat v = sum_for (\<lambda>g. known index (gt_resource g)) gt_capacity (rs_guarantees res)
      \<and> unat v = sum_list (map (\<lambda>ra. unat (ra_guarantees ra)) (gl_resources g))"
    and "map strip_guarantees (gl_resources g) = map strip_guarantees ras0"
    and "er_authority (gl_result g) = er_authority r"
    and "unat (pair_get (gl_by_class g) k)
      = sum_for (\<lambda>g. known index (gt_resource g) \<and> guarantee_key g = k) gt_capacity (rs_guarantees res)"
    and "distinct (map gt_reservation (rs_guarantees res))"
proof -
  from run obtain s v where loop: "for_each (sum_guarantee p ix d index)
         \<lparr>gl_result = r, gl_resources = ras0, gl_seen = {}, gl_by_class = Map.empty\<rparr> (rs_guarantees res) = Inr s"
    and total: "for_each (total_guarantees p d (gl_result s)) 0 (gl_resources s) = Inr v"
    and g: "g = s\<lparr>gl_result := upd_acc (\<lambda>a. a\<lparr>da_guarantees := v\<rparr>) (gl_result s)\<rparr>"
    by (auto simp: sum_guarantees_def and_then_Inr_iff)
  have id: "\<exists>x. er_accounting r = (er_accounting r)\<lparr>da_oos_guarantees := x\<rparr>"
    by (rule exI [of _ "da_oos_guarantees (er_accounting r)"]) simp
  have inv: "guarantee_inv ix d index ras0 r (rs_guarantees res) s"
  proof (rule for_each_prefix [where I = "guarantee_inv ix d index ras0 r", OF loop])
    show "guarantee_inv ix d index ras0 r [] \<lparr>gl_result = r, gl_resources = ras0, gl_seen = {}, gl_by_class = Map.empty\<rparr>"
      using id by (simp add: guarantee_inv_def pair_get_def)
  qed (rule sum_guarantee_inv [OF _ _ range])
  have zsum: "sum_list (map (\<lambda>ra. unat (ra_guarantees ra)) ras0) = 0"
    using zero by (induction ras0) auto
  note totals = total_guarantees_loop [OF total]
  from inv obtain x where x: "er_accounting (gl_result s) = (er_accounting r)\<lparr>da_oos_guarantees := x\<rparr>"
    by (auto simp: guarantee_inv_def)
  from inv zsum totals x
  show "\<exists>x v. er_accounting (gl_result g) = (er_accounting r)\<lparr>da_oos_guarantees := x, da_guarantees := v\<rparr>
      \<and> unat v = sum_for (\<lambda>g. known index (gt_resource g)) gt_capacity (rs_guarantees res)
      \<and> unat v = sum_list (map (\<lambda>ra. unat (ra_guarantees ra)) (gl_resources g))"
    unfolding guarantee_inv_def g by (intro exI [of _ x] exI [of _ v]) simp
  from inv have by_class: "\<forall>k. unat (pair_get (gl_by_class s) k)
      = sum_for (\<lambda>g. known index (gt_resource g) \<and> guarantee_key g = k) gt_capacity (rs_guarantees res)"
    unfolding guarantee_inv_def by (elim conjE)
  then show "unat (pair_get (gl_by_class g) k)
      = sum_for (\<lambda>g. known index (gt_resource g) \<and> guarantee_key g = k) gt_capacity (rs_guarantees res)"
    by (simp add: g del: split_paired_All)
  from inv show "map strip_guarantees (gl_resources g) = map strip_guarantees ras0"
    and "er_authority (gl_result g) = er_authority r"
    and "distinct (map gt_reservation (rs_guarantees res))"
    unfolding guarantee_inv_def g by simp_all
qed

section \<open>The sums of the demand\<close>

definition eligible :: "policy_index \<Rightarrow> service_class_id \<Rightarrow> bool" where
  "eligible ix c \<longleftrightarrow> (\<exists>cls. index_service_class ix c = Some cls \<and> sc_eligible cls)"

definition oversubscribed :: "(u64 \<rightharpoonup> nat) \<Rightarrow> demand_record \<Rightarrow> bool" where
  "oversubscribed index rec \<longleftrightarrow> known index (dr_resource rec) \<and> (dr_kind rec = Demand_Contingent \<or> dr_kind rec = Demand_Burst)"

definition counted :: "policy_index \<Rightarrow> (u64 \<rightharpoonup> nat) \<Rightarrow> demand_record \<Rightarrow> bool" where
  "counted ix index rec \<longleftrightarrow> oversubscribed index rec \<and> eligible ix (dr_class rec)"

definition guaranteed :: "(u64 \<rightharpoonup> nat) \<Rightarrow> demand_record \<Rightarrow> bool" where
  "guaranteed index rec \<longleftrightarrow> known index (dr_resource rec) \<and> dr_kind rec = Demand_Guaranteed"

definition demand_key :: "demand_record \<Rightarrow> u64 \<times> u64" where
  "demand_key rec = (id_value (dr_resource rec), id_value (dr_class rec))"

definition strip_demand :: "resource_accum \<Rightarrow> resource_accum" where
  "strip_demand ra = ra\<lparr>ra_contingent_committed := 0, ra_contingent_pending := 0\<rparr>"

definition clear_demand :: "domain_accounting \<Rightarrow> domain_accounting" where
  "clear_demand a = a\<lparr>da_oos_demand := 0, da_guaranteed_admitted := 0, da_contingent_committed := 0,
     da_contingent_pending := 0, da_burst_committed := 0\<rparr>"

definition committed_by :: "resource_accum list \<Rightarrow> nat" where
  "committed_by ras = sum_list (map (\<lambda>ra. unat (ra_contingent_committed ra)) ras)"

definition demand_inv ::
  "policy_index \<Rightarrow> (u64 \<rightharpoonup> nat) \<Rightarrow> resource_accum list \<Rightarrow> evaluation_result \<Rightarrow> demand_record list \<Rightarrow> demand_loop \<Rightarrow> bool" where
  "demand_inv ix index ras0 r recs s \<longleftrightarrow>
     map strip_demand (dl_resources s) = map strip_demand ras0
     \<and> committed_by (dl_resources s) = committed_by ras0 + sum_for (counted ix index) dr_committed recs
     \<and> clear_demand (er_accounting (dl_result s)) = clear_demand (er_accounting r)
     \<and> unat (da_contingent_committed (er_accounting (dl_result s)))
        = unat (da_contingent_committed (er_accounting r)) + sum_for (counted ix index) dr_committed recs
     \<and> unat (da_contingent_pending (er_accounting (dl_result s)))
        = unat (da_contingent_pending (er_accounting r)) + sum_for (counted ix index) dr_pending recs
     \<and> unat (da_burst_committed (er_accounting (dl_result s)))
        = unat (da_burst_committed (er_accounting r))
          + sum_for (\<lambda>rec. counted ix index rec \<and> dr_kind rec = Demand_Burst) dr_committed recs
     \<and> unat (da_guaranteed_admitted (er_accounting (dl_result s)))
        = unat (da_guaranteed_admitted (er_accounting r)) + sum_for (guaranteed index) dr_committed recs
     \<and> (\<forall>k. unat (slot_get (dl_admitted s) k) = sum_for (\<lambda>rec. guaranteed index rec \<and> demand_key rec = k) dr_committed recs)
     \<and> (\<forall>c. unat (slot_get (dl_contingent s) c)
          = sum_for (\<lambda>rec. counted ix index rec \<and> id_value (dr_class rec) = c) dr_committed recs)
     \<and> (dl_ineligible_amount s = 0 \<longleftrightarrow>
         (\<forall>rec \<in> set recs. oversubscribed index rec \<and> \<not> eligible ix (dr_class rec) \<longrightarrow> dr_committed rec = 0 \<and> dr_pending rec = 0))
     \<and> distinct (map fst (dl_contingent s)) \<and> distinct (map fst (dl_admitted s))
     \<and> dl_seen s = (\<lambda>rec. id_value (dr_admission rec)) ` set recs \<and> distinct (map dr_admission recs)
     \<and> er_authority (dl_result s) = er_authority r"

lemma slot_get_put: "slot_get (slot_put m k v) k' = (if k' = k then v else slot_get m k')"
  by (simp add: slot_get_def)

lemma add_sat_0: "add_sat a b = 0 \<longleftrightarrow> a = 0 \<and> b = 0"
proof -
  have "unat (add_sat a b) = 0 \<longleftrightarrow> unat a = 0 \<and> unat b = 0" by (auto simp: add_sat_exact min_def)
  then show ?thesis by (simp add: word_eq_by_unat)
qed

lemma clear_demand_update [simp]:
  "clear_demand (a\<lparr>da_oos_demand := x\<rparr>) = clear_demand a" "clear_demand (a\<lparr>da_guaranteed_admitted := x\<rparr>) = clear_demand a"
  "clear_demand (a\<lparr>da_contingent_committed := x\<rparr>) = clear_demand a"
  "clear_demand (a\<lparr>da_contingent_pending := x\<rparr>) = clear_demand a"
  "clear_demand (a\<lparr>da_burst_committed := x\<rparr>) = clear_demand a"
  by (simp_all add: clear_demand_def)

text \<open>The steps of the loop, one branch each, as updates of the state.\<close>

lemma admit_guaranteed_Inr:
  "admit_guaranteed p d s rec = Inr s' \<longleftrightarrow>
     (\<exists>v w. add_checked (da_guaranteed_admitted (er_accounting (dl_result s))) (dr_committed rec) = Some v
        \<and> add_checked (slot_get (dl_admitted s) (demand_key rec)) (dr_committed rec) = Some w
        \<and> s' = s\<lparr>dl_result := upd_acc (\<lambda>a. a\<lparr>da_guaranteed_admitted := v\<rparr>) (dl_result s),
                 dl_admitted := slot_put (dl_admitted s) (demand_key rec) w\<rparr>)"
  by (auto simp: admit_guaranteed_def Let_def and_then_Inr_iff or_reject_Inr demand_key_def)

lemma admit_contingent_Inr:
  assumes "sc_eligible cls" and "admit_contingent p d cls i s rec = Inr s'"
  shows "\<exists>rc rp c pe b w. add_checked (ra_contingent_committed (dl_resources s ! i)) (dr_committed rec) = Some rc
      \<and> add_checked (da_contingent_committed (er_accounting (dl_result s))) (dr_committed rec) = Some c
      \<and> add_checked (da_contingent_pending (er_accounting (dl_result s))) (dr_pending rec) = Some pe
      \<and> unat b = unat (da_burst_committed (er_accounting (dl_result s)))
           + (if dr_kind rec = Demand_Burst then unat (dr_committed rec) else 0)
      \<and> add_checked (slot_get (dl_contingent s) (id_value (dr_class rec))) (dr_committed rec) = Some w
      \<and> s' = s\<lparr>dl_result := upd_acc (\<lambda>a. a\<lparr>da_contingent_committed := c, da_contingent_pending := pe, da_burst_committed := b\<rparr>) (dl_result s),
               dl_resources := (dl_resources s)[i := (dl_resources s ! i)\<lparr>ra_contingent_committed := rc, ra_contingent_pending := rp\<rparr>],
               dl_contingent := slot_put (dl_contingent s) (id_value (dr_class rec)) w\<rparr>"
proof -
  let ?a = "er_accounting (dl_result s)" and ?ra = "dl_resources s ! i"
  from assms obtain rc c rp pe r3 w where
    rc: "add_checked (ra_contingent_committed ?ra) (dr_committed rec) = Some rc"
    and c: "add_checked (da_contingent_committed ?a) (dr_committed rec) = Some c"
    and rp: "add_checked (ra_contingent_pending ?ra) (dr_pending rec) = Some rp"
    and pe: "add_checked (da_contingent_pending ?a) (dr_pending rec) = Some pe"
    and burst: "(if dr_kind rec = Demand_Burst
        then \<exists>b. add_checked (da_burst_committed ?a) (dr_committed rec) = Some b
          \<and> r3 = upd_acc (\<lambda>a. a\<lparr>da_burst_committed := b\<rparr>)
                 (upd_acc (\<lambda>a. a\<lparr>da_contingent_pending := pe\<rparr>) (upd_acc (\<lambda>a. a\<lparr>da_contingent_committed := c\<rparr>) (dl_result s)))
        else r3 = upd_acc (\<lambda>a. a\<lparr>da_contingent_pending := pe\<rparr>) (upd_acc (\<lambda>a. a\<lparr>da_contingent_committed := c\<rparr>) (dl_result s)))"
    and w: "add_checked (slot_get (dl_contingent s) (id_value (dr_class rec))) (dr_committed rec) = Some w"
    and s': "s' = s\<lparr>dl_result := r3,
        dl_resources := (dl_resources s)[i := ?ra\<lparr>ra_contingent_committed := rc, ra_contingent_pending := rp\<rparr>],
        dl_contingent := slot_put (dl_contingent s) (id_value (dr_class rec)) w\<rparr>"
    by (cases "dr_kind rec = Demand_Burst")
       (simp_all add: admit_contingent_def Let_def and_then_Inr_iff or_reject_Inr, blast+)
  have "\<exists>b. unat b = unat (da_burst_committed ?a) + (if dr_kind rec = Demand_Burst then unat (dr_committed rec) else 0)
      \<and> r3 = upd_acc (\<lambda>a. a\<lparr>da_contingent_committed := c, da_contingent_pending := pe, da_burst_committed := b\<rparr>) (dl_result s)"
  proof (cases "dr_kind rec = Demand_Burst")
    case True
    with burst show ?thesis by (auto simp: add_checked_Some upd_acc_def)
  next
    case False
    with burst show ?thesis by (intro exI [of _ "da_burst_committed ?a"]) (simp add: upd_acc_def)
  qed
  with rc c pe w s' show ?thesis by blast
qed

text \<open>A step that only notes the admission and its class.\<close>

lemma demand_inv_skip:
  assumes "demand_inv ix index ras0 r recs s" and "dr_admission rec \<notin> dr_admission ` set recs"
    and "\<not> counted ix index rec" and "\<not> guaranteed index rec"
    and "oversubscribed index rec \<and> \<not> eligible ix (dr_class rec) \<longrightarrow>
      s' = s\<lparr>dl_seen := insert (id_value (dr_admission rec)) (dl_seen s),
             dl_ineligible_amount := add_sat (dl_ineligible_amount s) (add_sat (dr_committed rec) (dr_pending rec)),
             dl_ineligible_class := cl\<rparr>"
    and "\<not> oversubscribed index rec \<longrightarrow>
      s' = s\<lparr>dl_seen := insert (id_value (dr_admission rec)) (dl_seen s), dl_result := upd_acc f (dl_result s)\<rparr>"
    and "\<And>a. clear_demand (f a) = clear_demand a"
    and "\<And>a. da_contingent_committed (f a) = da_contingent_committed a" "\<And>a. da_contingent_pending (f a) = da_contingent_pending a"
    and "\<And>a. da_burst_committed (f a) = da_burst_committed a" "\<And>a. da_guaranteed_admitted (f a) = da_guaranteed_admitted a"
  shows "demand_inv ix index ras0 r (recs @ [rec]) s'"
proof (cases "oversubscribed index rec")
  case True
  then have "\<not> eligible ix (dr_class rec)" using assms(3) by (simp add: counted_def)
  with True assms show ?thesis by (auto simp: demand_inv_def add_sat_0)
next
  case False
  with assms show ?thesis by (auto simp: demand_inv_def)
qed

lemma demand_inv_guaranteed:
  assumes "demand_inv ix index ras0 r recs s" and "dr_admission rec \<notin> dr_admission ` set recs"
    and "guaranteed index rec"
    and "admit_guaranteed p d (s\<lparr>dl_seen := insert (id_value (dr_admission rec)) (dl_seen s)\<rparr>) rec = Inr s'"
  shows "demand_inv ix index ras0 r (recs @ [rec]) s'"
proof -
  have kinds: "\<not> counted ix index rec" "\<not> oversubscribed index rec"
    using assms(3) by (auto simp: guaranteed_def counted_def oversubscribed_def)
  from assms(4) obtain v w where "unat v = unat (da_guaranteed_admitted (er_accounting (dl_result s))) + unat (dr_committed rec)"
    and "unat w = unat (slot_get (dl_admitted s) (demand_key rec)) + unat (dr_committed rec)"
    and "s' = s\<lparr>dl_seen := insert (id_value (dr_admission rec)) (dl_seen s),
      dl_result := upd_acc (\<lambda>a. a\<lparr>da_guaranteed_admitted := v\<rparr>) (dl_result s),
      dl_admitted := slot_put (dl_admitted s) (demand_key rec) w\<rparr>"
    by (auto simp: admit_guaranteed_Inr add_checked_Some)
  with assms kinds show ?thesis
    by (auto simp: demand_inv_def slot_get_put distinct_slot_put)
qed

lemma demand_inv_contingent:
  assumes inv: "demand_inv ix index ras0 r recs s" and new: "dr_admission rec \<notin> dr_admission ` set recs"
    and counted: "counted ix index rec" and eligible: "sc_eligible cls" and i: "i < length ras0"
    and step: "admit_contingent p d cls i (s\<lparr>dl_seen := insert (id_value (dr_admission rec)) (dl_seen s)\<rparr>) rec = Inr s'"
  shows "demand_inv ix index ras0 r (recs @ [rec]) s'"
proof -
  let ?ra = "dl_resources s ! i" and ?a = "er_accounting (dl_result s)"
  have kinds: "\<not> guaranteed index rec" and known: "counted ix index rec \<and> eligible ix (dr_class rec)"
    using counted by (auto simp: guaranteed_def counted_def oversubscribed_def)
  have len: "i < length (dl_resources s)"
    using inv i unfolding demand_inv_def by (metis length_map)
  from admit_contingent_Inr [OF eligible step] obtain rc rp c pe b w where
    rc: "unat rc = unat (ra_contingent_committed ?ra) + unat (dr_committed rec)"
    and c: "unat c = unat (da_contingent_committed ?a) + unat (dr_committed rec)"
    and pe: "unat pe = unat (da_contingent_pending ?a) + unat (dr_pending rec)"
    and b: "unat b = unat (da_burst_committed ?a) + (if dr_kind rec = Demand_Burst then unat (dr_committed rec) else 0)"
    and w: "unat w = unat (slot_get (dl_contingent s) (id_value (dr_class rec))) + unat (dr_committed rec)"
    and s': "s' = s\<lparr>dl_seen := insert (id_value (dr_admission rec)) (dl_seen s),
        dl_result := upd_acc (\<lambda>a. a\<lparr>da_contingent_committed := c, da_contingent_pending := pe, da_burst_committed := b\<rparr>) (dl_result s),
        dl_resources := (dl_resources s)[i := ?ra\<lparr>ra_contingent_committed := rc, ra_contingent_pending := rp\<rparr>],
        dl_contingent := slot_put (dl_contingent s) (id_value (dr_class rec)) w\<rparr>"
    by (auto simp: add_checked_Some)
  have strip: "map strip_demand ((dl_resources s)[i := ?ra\<lparr>ra_contingent_committed := rc, ra_contingent_pending := rp\<rparr>])
      = map strip_demand (dl_resources s)"
    using len by (simp add: map_update strip_demand_def list_update_same_conv)
  have sum: "committed_by ((dl_resources s)[i := ?ra\<lparr>ra_contingent_committed := rc, ra_contingent_pending := rp\<rparr>])
      = committed_by (dl_resources s) + unat (dr_committed rec)"
    using sum_list_update_nat [OF len, of "\<lambda>ra. unat (ra_contingent_committed ra)"
        "?ra\<lparr>ra_contingent_committed := rc, ra_contingent_pending := rp\<rparr>"] rc
    by (simp add: committed_by_def)
  have clear: "clear_demand (?a\<lparr>da_contingent_committed := c, da_contingent_pending := pe, da_burst_committed := b\<rparr>) = clear_demand ?a"
    by (simp add: clear_demand_def)
  show ?thesis
    using inv new kinds known strip sum clear c pe b w
    by (auto simp: demand_inv_def s' slot_get_put distinct_slot_put)
qed

lemma sum_demand_inv:
  assumes inv: "demand_inv ix index ras0 r recs s" and step: "sum_demand p ix d index s rec = Inr s'"
    and range: "\<forall>k i. index k = Some i \<longrightarrow> i < length ras0"
  shows "demand_inv ix index ras0 r (recs @ [rec]) s'"
proof -
  have fresh: "id_value (dr_admission rec) \<notin> dl_seen s"
    using step by (auto simp: sum_demand_def Let_def split: if_splits)
  then have new: "dr_admission rec \<notin> dr_admission ` set recs"
    using inv by (auto simp: demand_inv_def)
  let ?s = "s\<lparr>dl_seen := insert (id_value (dr_admission rec)) (dl_seen s)\<rparr>"
  show ?thesis
  proof (cases "index (id_value (dr_resource rec))")
    case None
    then have out: "\<not> known index (dr_resource rec)" by (simp add: known_def)
    let ?f = "\<lambda>a. a\<lparr>da_oos_demand := add_sat (da_oos_demand a) (dr_committed rec)\<rparr>"
    have "s' = ?s\<lparr>dl_result := upd_acc ?f (dl_result s)\<rparr>"
      using step fresh None by (simp add: sum_demand_def Let_def)
    with inv new out show ?thesis
      by (intro demand_inv_skip [of ix index ras0 r recs s rec s' undefined ?f])
         (auto simp: counted_def guaranteed_def oversubscribed_def)
  next
    case (Some i)
    then have known: "known index (dr_resource rec)" by (simp add: known_def)
    from step fresh Some obtain cls where cls: "index_service_class ix (dr_class rec) = Some cls"
      by (auto simp: sum_demand_def Let_def split: if_splits option.splits)
    have kind: "(case dr_kind rec of
        Demand_Guaranteed \<Rightarrow> admit_guaranteed p d ?s rec = Inr s'
      | Demand_Contingent \<Rightarrow> admit_contingent p d cls i ?s rec = Inr s'
      | Demand_Burst \<Rightarrow> admit_contingent p d cls i ?s rec = Inr s'
      | Demand_Unknown \<Rightarrow> False
      | Demand_cast n \<Rightarrow> s' = ?s)"
      using step fresh Some cls by (auto simp: sum_demand_def Let_def split: if_splits demand_kind.splits)
    consider (G) "dr_kind rec = Demand_Guaranteed" | (O) "dr_kind rec = Demand_Contingent \<or> dr_kind rec = Demand_Burst"
      | (X) n where "dr_kind rec = Demand_cast n"
      using kind by (cases "dr_kind rec") auto
    then show ?thesis
    proof cases
      case G
      with kind known show ?thesis
        by (intro demand_inv_guaranteed [OF inv new]) (simp_all add: guaranteed_def)
    next
      case O
      then have over: "oversubscribed index rec" and run: "admit_contingent p d cls i ?s rec = Inr s'"
        using kind known by (auto simp: oversubscribed_def)
      show ?thesis
      proof (cases "sc_eligible cls")
        case True
        with over cls have "counted ix index rec" by (simp add: counted_def eligible_def)
        from demand_inv_contingent [OF inv new this True range [rule_format, OF Some] run] show ?thesis .
      next
        case False
        then have "\<not> eligible ix (dr_class rec)" using cls by (simp add: eligible_def)
        with over False run inv new show ?thesis
          by (intro demand_inv_skip [of ix index ras0 r recs s rec s' "id_value (dr_class rec)" id])
             (auto simp: counted_def guaranteed_def oversubscribed_def admit_contingent_def)
      qed
    next
      case X
      with kind inv new show ?thesis
        by (intro demand_inv_skip [of ix index ras0 r recs s rec s' undefined id])
           (auto simp: counted_def guaranteed_def oversubscribed_def upd_acc_def)
    qed
  qed
qed

lemma sum_demands_spec:
  assumes run: "sum_demands p ix d index adm ras0 r = Inr s"
    and range: "\<forall>k i. index k = Some i \<longrightarrow> i < length ras0"
  shows "demand_inv ix index ras0 r (as_records adm) s"
proof (rule for_each_prefix [where I = "demand_inv ix index ras0 r", OF run [unfolded sum_demands_def]])
  have "unat (da_contingent_committed (er_accounting r)) + 0 = unat (da_contingent_committed (er_accounting r))" by simp
  show "demand_inv ix index ras0 r [] \<lparr>dl_result = r, dl_resources = ras0, dl_seen = {}, dl_contingent = [], dl_admitted = [],
        dl_ineligible_amount = 0, dl_ineligible_class = 0\<rparr>"
    by (simp add: demand_inv_def slot_get_def)
qed (rule sum_demand_inv [OF _ _ range])

end
