(* ===== verification/Boundary_Facts.thy ===== *)
theory Boundary_Facts
  imports Evaluate_Facts
begin

text \<open>
  The arithmetic of \<^verbatim>\<open>evaluate_domain\<close> behind the sums: the totals, the ceiling as the least of the
  legal ones, the derived accounting, the degradation of the ratio, and with them the evaluation as a
  function of the evidence (\<open>evaluation_of\<close>).
\<close>

section \<open>Totals\<close>

definition usable_sum :: "resource_accum list \<Rightarrow> nat" where
  "usable_sum ras = sum_list (map (\<lambda>ra. unat (ra_effective_usable ra)) ras)"

definition clear_totals :: "domain_accounting \<Rightarrow> domain_accounting" where
  "clear_totals a = a\<lparr>da_physical := 0, da_usable := 0, da_effective_usable := 0\<rparr>"

definition totals_inv :: "totals \<Rightarrow> resource_accum list \<Rightarrow> totals \<Rightarrow> bool" where
  "totals_inv t0 ras t \<longleftrightarrow>
     clear_totals (er_accounting (tt_result t)) = clear_totals (er_accounting (tt_result t0))
     \<and> er_authority (tt_result t) = er_authority (tt_result t0)
     \<and> (tt_closed t \<longrightarrow> tt_closed t0
         \<and> unat (da_effective_usable (er_accounting (tt_result t)))
            = unat (da_effective_usable (er_accounting (tt_result t0))) + usable_sum ras
         \<and> (\<exists>rows. tt_resources t = tt_resources t0 @ rows
             \<and> list_all2 (\<lambda>ra row. row = ra\<lparr>ra_committed := ra_committed row\<rparr>
                  \<and> unat (ra_committed row) = unat (ra_guarantees ra) + unat (ra_contingent_committed ra)) ras rows))"

lemma total_resource_fold: "totals_inv t ras (fold total_resource ras t)"
proof (induction ras arbitrary: t)
  case Nil
  then show ?case by (simp add: totals_inv_def usable_sum_def)
next
  case (Cons ra ras)
  let ?t = "total_resource ra t" and ?a = "er_accounting (tt_result t)"
  have clear: "clear_totals (er_accounting (tt_result ?t)) = clear_totals ?a" "er_authority (tt_result ?t) = er_authority (tt_result t)"
    by (simp_all add: total_resource_def Let_def clear_totals_def)
  show ?case
  proof (cases "tt_closed ?t")
    case False
    have "\<not> tt_closed (fold total_resource ras ?t)"
      using False Cons.IH [of ?t] by (auto simp: totals_inv_def)
    then show ?thesis using Cons.IH [of ?t] clear by (simp add: totals_inv_def)
  next
    case True
    then obtain v w where v: "add_checked (da_effective_usable ?a) (ra_effective_usable ra) = Some v"
      and w: "add_checked (ra_guarantees ra) (ra_contingent_committed ra) = Some w" and closed: "tt_closed t"
      by (auto simp: total_resource_def Let_def)
    have "unat v = unat (da_effective_usable ?a) + unat (ra_effective_usable ra)" using v by (simp add: add_checked_Some)
    then have step: "tt_resources ?t = tt_resources t @ [ra\<lparr>ra_committed := w\<rparr>]"
      "unat (da_effective_usable (er_accounting (tt_result ?t))) = unat (da_effective_usable ?a) + unat (ra_effective_usable ra)"
      using v w by (simp_all add: total_resource_def Let_def)
    have row: "unat w = unat (ra_guarantees ra) + unat (ra_contingent_committed ra)" using w by (simp add: add_checked_Some)
    show ?thesis
    proof (cases "tt_closed (fold total_resource ras ?t)")
      case False
      then show ?thesis using Cons.IH [of ?t] clear by (simp add: totals_inv_def)
    next
      case True
      with Cons.IH [of ?t] obtain rows where "tt_resources (fold total_resource ras ?t) = tt_resources ?t @ rows"
        and "list_all2 (\<lambda>ra row. row = ra\<lparr>ra_committed := ra_committed row\<rparr>
                  \<and> unat (ra_committed row) = unat (ra_guarantees ra) + unat (ra_contingent_committed ra)) ras rows"
        by (auto simp: totals_inv_def)
      then have "\<exists>rows. tt_resources (fold total_resource (ra # ras) t) = tt_resources t @ rows
          \<and> list_all2 (\<lambda>ra row. row = ra\<lparr>ra_committed := ra_committed row\<rparr>
                  \<and> unat (ra_committed row) = unat (ra_guarantees ra) + unat (ra_contingent_committed ra)) (ra # ras) rows"
        using step row by (intro exI [of _ "ra\<lparr>ra_committed := w\<rparr> # rows"]) simp
      with True Cons.IH [of ?t] clear step closed show ?thesis by (simp add: totals_inv_def usable_sum_def)
    qed
  qed
qed

section \<open>The ceiling is the least legal one\<close>

definition legal_ceiling :: "policy \<Rightarrow> ratio \<Rightarrow> nat \<Rightarrow> nat" where
  "legal_ceiling p e usable = Min (
     {usable * unat (rat_num e) div unat (rat_den e)}
     \<union> (if rb_has_absolute (pl_risk_budget p) then {usable + unat (rb_max_units (pl_risk_budget p))} else {})
     \<union> (if rb_has_ppm (pl_risk_budget p) then {usable * (1000000 + unat (rb_max_ppm (pl_risk_budget p))) div 1000000} else {}))"

lemma choose_ceiling_min: "unat (fst (choose_ceiling cs c b)) = Min (insert (unat c) ((\<lambda>x. unat (snd x)) ` set cs))"
proof (induction cs arbitrary: c b)
  case Nil
  then show ?case by (simp add: choose_ceiling_def)
next
  case (Cons x cs)
  obtain k v where x: "x = (k, v)" by (cases x)
  let ?c = "if v < c then v else c"
  have "choose_ceiling (x # cs) c b = choose_ceiling cs ?c (if v < c then k else b)"
    by (simp add: choose_ceiling_def x)
  then have "unat (fst (choose_ceiling (x # cs) c b)) = Min (insert (unat ?c) ((\<lambda>x. unat (snd x)) ` set cs))"
    using Cons.IH by simp
  also have "\<dots> = Min (insert (unat c) (insert (unat v) ((\<lambda>x. unat (snd x)) ` set cs)))"
  proof (cases "set cs = {}")
    case True
    then show ?thesis by (auto simp: word_less_nat_alt min_def)
  next
    case False
    then show ?thesis by (simp add: word_less_nat_alt) (auto simp: min_def)
  qed
  finally show ?case by (simp add: x)
qed

lemma draw_boundary_ceiling:
  assumes closed: "bd_closed (draw_boundary p d a c)" and ppm: "rb_has_ppm (pl_risk_budget p) \<longrightarrow> rb_max_ppm (pl_risk_budget p) \<le> kHardMaxExposurePpm"
  shows "c \<and> unat (da_ceiling (bd_accounting (draw_boundary p d a c)))
     = legal_ceiling p (bd_effective (draw_boundary p d a c)) (unat (da_effective_usable a))"
proof -
  let ?b = "pl_risk_budget p" and ?u = "da_effective_usable a"
  obtain e k red where e: "effective_ratio p d (da_degraded a > 0 \<or> da_failed a > 0) = (e, k, red)"
    by (cases "effective_ratio p d (da_degraded a > 0 \<or> da_failed a > 0)") auto
  let ?c = "risk_ceilings ?b ?u (ratio_ceiling ?u e k c)"
  have eff: "bd_effective (draw_boundary p d a c) = e" and cl: "bd_closed (draw_boundary p d a c) = ce_closed ?c"
    by (auto simp: draw_boundary_def e Let_def split: prod.splits)
  obtain v where v: "mul_div_floor ?u (rat_num e) (rat_den e) = Some v" and c
    using closed unfolding cl
    by (cases "mul_div_floor ?u (rat_num e) (rat_den e)")
       (auto simp: risk_ceilings_def ratio_ceiling_def add_risk_def Let_def split: option.splits if_splits)
  have v_nat: "unat v = unat ?u * unat (rat_num e) div unat (rat_den e)"
    using v by (auto simp: mul_div_floor_nat split: if_splits)
  define wa where "wa = the (add_checked ?u (rb_max_units ?b))"
  define wp where "wp = the (mul_div_floor ?u (kPpmScale + rb_max_ppm ?b) kPpmScale)"
  have abs: "add_checked ?u (rb_max_units ?b) = Some wa" if "rb_has_absolute ?b"
    using closed that unfolding cl
    by (auto simp: risk_ceilings_def ratio_ceiling_def add_risk_def Let_def v wa_def split: option.splits if_splits)
  have ppm_ok: "mul_div_floor ?u (kPpmScale + rb_max_ppm ?b) kPpmScale = Some wp" if "rb_has_ppm ?b"
    using closed that unfolding cl
    by (auto simp: risk_ceilings_def ratio_ceiling_def add_risk_def Let_def v wp_def split: option.splits if_splits)
  have scale: "unat (kPpmScale + rb_max_ppm ?b) = 1000000 + unat (rb_max_ppm ?b)" if "rb_has_ppm ?b"
    using ppm that by (subst unat_add_u64) (simp_all add: word_le_nat_alt kHardMaxExposurePpm_def)
  have wa: "unat wa = unat ?u + unat (rb_max_units ?b)" if "rb_has_absolute ?b"
    using abs [OF that] by (simp add: add_checked_Some)
  have wp: "unat wp = unat ?u * (1000000 + unat (rb_max_ppm ?b)) div 1000000" if "rb_has_ppm ?b"
    using ppm_ok [OF that] scale [OF that] by (auto simp: mul_div_floor_nat split: if_splits)
  have list: "ce_candidates ?c = (k, v) # (if rb_has_absolute ?b then [(Constraint_RiskBudgetExposureAbsolute, wa)] else [])
      @ (if rb_has_ppm ?b then [(Constraint_RiskBudgetExposurePpm, wp)] else [])"
    and ratio: "ce_ratio_ceiling ?c = v"
    using abs ppm_ok by (simp_all add: risk_ceilings_def ratio_ceiling_def add_risk_def Let_def v)
  have cand: "(\<lambda>x. unat (snd x)) ` set (ce_candidates ?c) =
     {unat ?u * unat (rat_num e) div unat (rat_den e)}
     \<union> (if rb_has_absolute ?b then {unat ?u + unat (rb_max_units ?b)} else {})
     \<union> (if rb_has_ppm ?b then {unat ?u * (1000000 + unat (rb_max_ppm ?b)) div 1000000} else {})"
    unfolding list using wa wp v_nat by simp
  have chosen: "unat (fst (choose_ceiling (ce_candidates ?c) (ce_ratio_ceiling ?c) k)) = legal_ceiling p e (unat ?u)"
    unfolding choose_ceiling_min cand ratio v_nat legal_ceiling_def by simp
  have "legal_ceiling p e 0 = 0"
    unfolding legal_ceiling_def by (auto simp: min_def)
  moreover have "da_ceiling (bd_accounting (draw_boundary p d a c))
      = (if ?u = 0 then 0 else fst (choose_ceiling (ce_candidates ?c) (ce_ratio_ceiling ?c) k))"
    by (auto simp: draw_boundary_def e Let_def split: prod.splits)
  ultimately show ?thesis using \<open>c\<close> chosen eff by auto
qed

section \<open>The derived accounting\<close>

lemma unat_excess [simp]: "unat (excess x y) = unat x - unat y"
  by (auto simp: excess_def word_less_nat_alt unat_diff_u64 word_le_nat_alt)

definition accounting_exact :: "policy \<Rightarrow> domain_config \<Rightarrow> nat \<Rightarrow> nat \<Rightarrow> nat \<Rightarrow> domain_accounting \<Rightarrow> bool" where
  "accounting_exact p d U G C a \<longleftrightarrow>
     (let L = legal_ceiling p (da_effective_ratio a) U; R = unat (dm_reserve_units d); H = unat (dm_headroom_units d) in
     unat (da_effective_usable a) = U \<and> unat (da_guarantees a) = G \<and> unat (da_contingent_committed a) = C
     \<and> unat (da_ceiling a) = L \<and> unat (da_committed a) = G + C \<and> unat (da_overage a) = G + C - L
     \<and> unat (da_protected_required a) = G + R \<and> unat (da_floor_required a) = G + R + H
     \<and> unat (da_contingent_ceiling a) = L - (G + R) \<and> unat (da_contingent_free a) = L - (G + R) - C
     \<and> unat (da_exposure a) = G + C - U \<and> unat (da_protected_headroom a) = U - (G + R))"

lemma derive_accounting_exact:
  assumes "derive_accounting p b = (a, True)"
    and "unat (da_ceiling (bd_accounting b)) = legal_ceiling p (bd_effective b) (unat (da_effective_usable (bd_accounting b)))"
    and "da_effective_ratio (bd_accounting b) = bd_effective b"
    and "da_reserve (bd_accounting b) = dm_reserve_units d" and "da_min_headroom (bd_accounting b) = dm_headroom_units d"
  shows "accounting_exact p d (unat (da_effective_usable (bd_accounting b))) (unat (da_guarantees (bd_accounting b)))
    (unat (da_contingent_committed (bd_accounting b))) a"
proof -
  let ?a = "bd_accounting b"
  from assms(1) obtain pr fl ct where pr: "add_checked (da_guarantees ?a) (da_reserve ?a) = Some pr"
    and fl: "add_checked pr (da_min_headroom ?a) = Some fl"
    and ct: "add_checked (da_guarantees ?a) (da_contingent_committed ?a) = Some ct"
    by (auto simp: derive_accounting_def Let_def)
  have n: "unat pr = unat (da_guarantees ?a) + unat (da_reserve ?a)" "unat fl = unat pr + unat (da_min_headroom ?a)"
    "unat ct = unat (da_guarantees ?a) + unat (da_contingent_committed ?a)"
    using pr fl ct by (simp_all add: add_checked_Some)
  have cc: "(if da_ceiling ?a \<ge> pr then da_ceiling ?a - pr else 0) = excess (da_ceiling ?a) pr"
    by (auto simp: excess_def)
  have eq_fst: "x = fst q" if "q = (x, y)" for q :: "domain_accounting \<times> bool" and x y
    using that by simp
  have a: "da_effective_usable a = da_effective_usable ?a" "da_guarantees a = da_guarantees ?a"
    "da_contingent_committed a = da_contingent_committed ?a" "da_ceiling a = da_ceiling ?a" "da_committed a = ct"
    "da_overage a = excess ct (da_ceiling ?a)" "da_protected_required a = pr" "da_floor_required a = fl"
    "da_contingent_ceiling a = excess (da_ceiling ?a) pr"
    "da_contingent_free a = excess (excess (da_ceiling ?a) pr) (da_contingent_committed ?a)"
    "da_exposure a = excess ct (da_effective_usable ?a)" "da_effective_ratio a = da_effective_ratio ?a"
    "da_protected_headroom a = excess (da_effective_usable ?a) pr"
    unfolding eq_fst [OF assms(1)] by (simp_all add: derive_accounting_def Let_def pr fl ct flip: cc)
  show ?thesis
    unfolding accounting_exact_def Let_def a using n assms(2-5) by simp
qed

lemma derive_accounting_frame:
  "da_effective_ratio (fst (derive_accounting p b)) = da_effective_ratio (bd_accounting b)"
  "da_ratio_reduced (fst (derive_accounting p b)) = da_ratio_reduced (bd_accounting b)"
  "da_degraded (fst (derive_accounting p b)) = da_degraded (bd_accounting b)"
  "da_failed (fst (derive_accounting p b)) = da_failed (bd_accounting b)"
  "da_burst_committed (fst (derive_accounting p b)) = da_burst_committed (bd_accounting b)"
  "da_configured_ratio (fst (derive_accounting p b)) = da_configured_ratio (bd_accounting b)"
  by (simp_all add: derive_accounting_def Let_def)

lemma draw_boundary_frame:
  fixes p :: policy and d :: domain_config and a :: domain_accounting and c :: bool
  defines "b \<equiv> draw_boundary p d a c"
  shows "da_effective_usable (bd_accounting b) = da_effective_usable a" "da_guarantees (bd_accounting b) = da_guarantees a"
    "da_contingent_committed (bd_accounting b) = da_contingent_committed a" "da_reserve (bd_accounting b) = da_reserve a"
    "da_min_headroom (bd_accounting b) = da_min_headroom a" "da_degraded (bd_accounting b) = da_degraded a"
    "da_failed (bd_accounting b) = da_failed a" "da_burst_committed (bd_accounting b) = da_burst_committed a"
    "da_configured_ratio (bd_accounting b) = da_configured_ratio a"
    "da_effective_ratio (bd_accounting b) = bd_effective b"
    "bd_effective b = fst (effective_ratio p d (da_degraded a > 0 \<or> da_failed a > 0))"
    "da_ratio_reduced (bd_accounting b) = snd (snd (effective_ratio p d (da_degraded a > 0 \<or> da_failed a > 0)))"
  by (auto simp: b_def draw_boundary_def Let_def split: prod.splits)

lemma break_down_sel:
  assumes "break_down limits e k ras r c = (r', ras', c')"
  shows "er_accounting r' = er_accounting r" "er_authority r' = er_authority r" "ras' = map (\<lambda>ra. fst (resource_boundary e ra)) ras"
    "c' \<Longrightarrow> c" "er_intents r' = er_intents r"
  using assms by (auto simp: break_down_def Let_def split: if_splits)

lemma close_boundary_Inr:
  assumes "close_boundary p d t = Inr (r, ras)"
    and "rb_has_ppm (pl_risk_budget p) \<longrightarrow> rb_max_ppm (pl_risk_budget p) \<le> kHardMaxExposurePpm"
    and "da_reserve (er_accounting (tt_result t)) = dm_reserve_units d"
    and "da_min_headroom (er_accounting (tt_result t)) = dm_headroom_units d"
  defines "a0 \<equiv> er_accounting (tt_result t)"
  shows "tt_closed t"
    and "accounting_exact p d (unat (da_effective_usable a0)) (unat (da_guarantees a0)) (unat (da_contingent_committed a0)) (er_accounting r)"
    and "da_effective_ratio (er_accounting r) = fst (effective_ratio p d (da_degraded a0 > 0 \<or> da_failed a0 > 0))"
    and "da_burst_committed (er_accounting r) = da_burst_committed a0"
    and "er_authority r = er_authority (tt_result t)"
    and "ras = map (\<lambda>ra. fst (resource_boundary (da_effective_ratio (er_accounting r)) ra)) (tt_resources t)"
    and "da_ratio_reduced (er_accounting r) = snd (snd (effective_ratio p d (da_degraded a0 > 0 \<or> da_failed a0 > 0)))"
proof -
  define b where "b = draw_boundary p d a0 (tt_closed t)"
  obtain a c1 where derive: "derive_accounting p b = (a, c1)" by fastforce
  obtain r1 ras1 c2 where broken: "break_down (pl_limits p) (bd_effective b) (da_binding a) (tt_resources t)
      ((tt_result t)\<lparr>er_accounting := a\<rparr>) c1 = (r1, ras1, c2)" by (metis prod_cases3)
  from assms(1) have c2: c2 and r: "r = note_degradation (pl_limits p) r1" "ras = ras1"
    by (auto simp: close_boundary_def Let_def derive broken a0_def [symmetric] b_def [symmetric] split: if_splits)
  note sel = break_down_sel [OF broken]
  have c1 using sel(4) c2 by simp
  then have bc: "bd_closed b" using derive by (auto simp: derive_accounting_def Let_def)
  have acc: "er_accounting r = a" "er_authority r = er_authority (tt_result t)"
    using sel(1,2) by (simp_all add: r note_degradation_def Let_def)
  note ceiling = draw_boundary_ceiling [of p d a0 "tt_closed t", folded b_def, OF bc assms(2)]
  note frame = draw_boundary_frame [where p = p and d = d and a = a0 and c = "tt_closed t", folded b_def]
  from ceiling show "tt_closed t" by simp
  from derive_accounting_exact [of p b a d] derive \<open>c1\<close> ceiling frame assms(3,4)
  show "accounting_exact p d (unat (da_effective_usable a0)) (unat (da_guarantees a0)) (unat (da_contingent_committed a0)) (er_accounting r)"
    by (simp add: acc a0_def)
  note derived = derive_accounting_frame [of p b, unfolded derive fst_conv]
  show "da_effective_ratio (er_accounting r) = fst (effective_ratio p d (da_degraded a0 > 0 \<or> da_failed a0 > 0))"
    and "da_burst_committed (er_accounting r) = da_burst_committed a0"
    and "er_authority r = er_authority (tt_result t)"
    and "ras = map (\<lambda>ra. fst (resource_boundary (da_effective_ratio (er_accounting r)) ra)) (tt_resources t)"
    and "da_ratio_reduced (er_accounting r) = snd (snd (effective_ratio p d (da_degraded a0 > 0 \<or> da_failed a0 > 0)))"
    using sel(3) by (simp_all add: acc derived frame r(2))
qed

section \<open>Degradation\<close>

definition health_of :: "capacity_snapshot \<Rightarrow> resource_id \<Rightarrow> resource_health option" where
  "health_of cap m = map_option rc_health (capacity_of cap m)"

definition degraded_domain :: "domain_config \<Rightarrow> capacity_snapshot \<Rightarrow> bool" where
  "degraded_domain d cap \<longleftrightarrow> (\<exists>m \<in> set (dm_members d). health_of cap m \<in> {Some Health_Degraded, Some Health_Failed})"

lemma collect_members_degraded:
  assumes run: "collect_members p d cap r = Inr s" and "length (dm_members d) < 4294967296"
    and "da_degraded (er_accounting r) = 0" "da_failed (er_accounting r) = 0"
  shows "(da_degraded (er_accounting (ml_result s)) > 0 \<or> da_failed (er_accounting (ml_result s)) > 0) \<longleftrightarrow> degraded_domain d cap"
proof -
  let ?n = "\<lambda>h ms. length (filter (\<lambda>m. health_of cap m = Some h) ms)"
  from run obtain cm where cm: "for_each (index_capacity p d r) Map.empty (cs_resources cap) = Inr cm"
    and loop: "for_each (collect_member p d cm) \<lparr>ml_result = r, ml_resources = [], ml_index = Map.empty\<rparr> (sort (dm_members d)) = Inr s"
    by (auto simp: collect_members_def and_then_Inr_iff)
  have lookup: "cm (id_value m) = capacity_of cap m" for m
    using index_capacity_loop [OF cm] by (simp add: capacity_of_def id_value_eq_iff)
  have count: "da_degraded (er_accounting (ml_result s)) = word_of_nat (?n Health_Degraded (sort (dm_members d)))
      \<and> da_failed (er_accounting (ml_result s)) = word_of_nat (?n Health_Failed (sort (dm_members d)))"
    by (rule for_each_prefix [where I = "\<lambda>ms s. da_degraded (er_accounting (ml_result s)) = word_of_nat (?n Health_Degraded ms)
          \<and> da_failed (er_accounting (ml_result s)) = word_of_nat (?n Health_Failed ms)", OF loop])
       (use assms(3,4) in \<open>auto simp: collect_member_def lookup health_of_def push_member_def
          split: option.splits if_splits resource_health.splits\<close>)
  have pos: "0 < (word_of_nat (?n h (sort (dm_members d))) :: u32) \<longleftrightarrow> (\<exists>m \<in> set (dm_members d). health_of cap m = Some h)" for h
  proof -
    have "?n h (sort (dm_members d)) \<le> length (dm_members d)"
      by (rule order_trans [OF length_filter_le]) simp
    then have "?n h (sort (dm_members d)) < 4294967296" using assms(2) by simp
    then have "0 < (word_of_nat (?n h (sort (dm_members d))) :: u32) \<longleftrightarrow> 0 < ?n h (sort (dm_members d))"
      by (simp add: word_less_nat_alt)
    also have "\<dots> \<longleftrightarrow> (\<exists>m \<in> set (dm_members d). health_of cap m = Some h)"
      by (simp add: filter_empty_conv)
    finally show ?thesis .
  qed
  show ?thesis using count pos unfolding degraded_domain_def by auto
qed

section \<open>The evaluation as a function of the evidence\<close>

definition members_usable :: "domain_config \<Rightarrow> capacity_snapshot \<Rightarrow> nat" where
  "members_usable d cap = sum_list (map (member_usable cap) (dm_members d))"

definition in_scope :: "domain_config \<Rightarrow> resource_id \<Rightarrow> bool" where
  "in_scope d r \<longleftrightarrow> r \<in> set (dm_members d)"

definition scope_guarantees :: "domain_config \<Rightarrow> reservation_snapshot \<Rightarrow> nat" where
  "scope_guarantees d res = sum_for (\<lambda>g. in_scope d (gt_resource g)) gt_capacity (rs_guarantees res)"

definition class_eligible :: "policy \<Rightarrow> service_class_id \<Rightarrow> bool" where
  "class_eligible p c \<longleftrightarrow> (\<exists>cls. find_service_class p c = Some cls \<and> sc_eligible cls)"

definition scope_demand :: "policy \<Rightarrow> domain_config \<Rightarrow> demand_record \<Rightarrow> bool" where
  "scope_demand p d rec \<longleftrightarrow>
     in_scope d (dr_resource rec) \<and> (dr_kind rec = Demand_Contingent \<or> dr_kind rec = Demand_Burst)
     \<and> class_eligible p (dr_class rec)"

definition scope_contingent :: "policy \<Rightarrow> domain_config \<Rightarrow> admission_snapshot \<Rightarrow> nat" where
  "scope_contingent p d adm = sum_for (scope_demand p d) dr_committed (as_records adm)"

lemma member_index_known: "member_inv d cap r (sort (dm_members d)) m \<Longrightarrow> known (ml_index m) x \<longleftrightarrow> in_scope d x"
proof -
  assume inv: "member_inv d cap r (sort (dm_members d)) m"
  have at: "case ml_index m (id_value x) of None \<Rightarrow> id_value x \<notin> id_value ` set (sort (dm_members d))
    | Some i \<Rightarrow> i < length (sort (dm_members d)) \<and> id_value (sort (dm_members d) ! i) = id_value x"
    using inv by (auto simp: member_inv_def)
  show ?thesis
  proof (cases "ml_index m (id_value x)")
    case None
    then show ?thesis using at by (auto simp: known_def in_scope_def)
  next
    case (Some i)
    then have "sort (dm_members d) ! i = x" "i < length (sort (dm_members d))" using at by (simp_all add: id_value_eq_iff)
    then have "x \<in> set (dm_members d)" by (metis nth_mem set_sort)
    then show ?thesis using Some by (simp add: known_def in_scope_def)
  qed
qed

lemma member_usable_sum:
  assumes "member_inv d cap r (sort (dm_members d)) m"
  shows "usable_sum (ml_resources m) = members_usable d cap"
proof -
  have each: "unat (ra_effective_usable ra) = member_usable cap (rc_resource (ra_capacity ra))" if "ra \<in> set (ml_resources m)" for ra
  proof -
    from assms that obtain u where "ra = accum_of (ra_capacity ra) u" "unat u = usable_of (ra_capacity ra)"
      and "capacity_of cap (rc_resource (ra_capacity ra)) = Some (ra_capacity ra)"
      unfolding member_inv_def by blast
    moreover from this(1) have "ra_effective_usable ra = u"
      by (metis accum_of_def resource_accum.select_convs(2))
    ultimately show ?thesis by (simp add: member_usable_def)
  qed
  have "usable_sum (ml_resources m) = sum_list (map (\<lambda>ra. member_usable cap (rc_resource (ra_capacity ra))) (ml_resources m))"
    unfolding usable_sum_def by (rule arg_cong [where f = sum_list]) (simp add: each)
  also have "\<dots> = sum_list (map (member_usable cap) (sort (dm_members d)))"
    using assms by (metis (no_types, lifting) map_map comp_apply map_cong member_inv_def)
  also have "\<dots> = members_usable d cap"
    unfolding members_usable_def by (metis mset_map mset_sort sum_mset_sum_list)
  finally show ?thesis .
qed

end
