(* ===== verification/Evaluation_Spec.thy ===== *)
theory Evaluation_Spec
  imports Boundary_Facts
begin

text \<open>
  The evaluation as a function of the evidence: \<open>bound_evidence\<close> is what the binding and freshness
  phases let through, \<open>evaluation_of\<close> states every number and every finding of the decided run over
  the snapshots themselves, and \<open>evaluation_decided\<close> shows that a run which is not refused computes
  exactly these.
\<close>

section \<open>The rows of the members\<close>

definition row_view :: "resource_accum \<Rightarrow> resource_capacity \<times> u64 \<times> u64" where
  "row_view ra = (ra_capacity ra, ra_effective_usable ra, ra_guarantees ra)"

lemma guarantee_rows:
  assumes run: "sum_guarantees p ix d index res ras0 r = Inr g"
  shows "length (gl_resources g) = length ras0 \<and> (\<forall>i < length ras0.
      unat (ra_guarantees (gl_resources g ! i)) = unat (ra_guarantees (ras0 ! i))
        + sum_for (\<lambda>g. index (id_value (gt_resource g)) = Some i) gt_capacity (rs_guarantees res))"
proof -
  let ?I = "\<lambda>gs s. length (gl_resources s) = length ras0 \<and> (\<forall>i < length ras0.
      unat (ra_guarantees (gl_resources s ! i)) = unat (ra_guarantees (ras0 ! i))
        + sum_for (\<lambda>g. index (id_value (gt_resource g)) = Some i) gt_capacity gs)"
  from run obtain s v where loop: "for_each (sum_guarantee p ix d index)
         \<lparr>gl_result = r, gl_resources = ras0, gl_seen = {}, gl_by_class = Map.empty\<rparr> (rs_guarantees res) = Inr s"
    and g: "g = s\<lparr>gl_result := upd_acc (\<lambda>a. a\<lparr>da_guarantees := v\<rparr>) (gl_result s)\<rparr>"
    by (auto simp: sum_guarantees_def and_then_Inr_iff)
  have "?I (rs_guarantees res) s"
    by (rule for_each_prefix [where I = ?I, OF loop])
       (auto simp: sum_guarantee_def Let_def and_then_Inr_iff or_reject_Inr add_checked_Some nth_list_update
        split: if_splits option.splits)
  then show ?thesis by (simp add: g)
qed

lemma guarantee_violation_0: "fst (guarantee_violation ras) = 0 \<longleftrightarrow> (\<forall>ra \<in> set ras. ra_guarantees ra \<le> ra_effective_usable ra)"
proof -
  let ?f = "\<lambda>ra (amount, last_id).
       if ra_guarantees ra > ra_effective_usable ra
       then (add_sat amount (ra_guarantees ra - ra_effective_usable ra), id_value (rc_resource (ra_capacity ra)))
       else (amount, last_id)"
  have "fst (fold ?f ras (x, y)) = 0 \<longleftrightarrow> x = 0 \<and> (\<forall>ra \<in> set ras. ra_guarantees ra \<le> ra_effective_usable ra)" for x y
  proof (induction ras arbitrary: x y)
    case (Cons ra ras)
    then show ?case by (auto simp: add_sat_0 not_le not_less)
  qed simp
  then show ?thesis by (simp add: guarantee_violation_def)
qed

lemma unmapped_guaranteed_0:
  "unmapped_guaranteed bc adm = 0 \<longleftrightarrow> (\<forall>(k, amount) \<in> set adm. amount \<le> pair_get bc k)"
proof -
  let ?f = "\<lambda>(key, amount) sum. let backed = pair_get bc key in if amount > backed then add_sat sum (amount - backed) else sum"
  have "fold ?f adm x = 0 \<longleftrightarrow> x = 0 \<and> (\<forall>(k, amount) \<in> set adm. amount \<le> pair_get bc k)" for x
  proof (induction adm arbitrary: x)
    case (Cons ka adm)
    then show ?case by (cases ka) (auto simp: Let_def add_sat_0 not_le not_less)
  qed simp
  then show ?thesis by (simp add: unmapped_guaranteed_def)
qed

text \<open>Over distinct keys, the entries and the looked up values are bounded alike.\<close>

lemma slots_bounded:
  assumes "distinct (map fst m)"
  shows "(\<forall>(k, v) \<in> set m. v \<le> (b k :: u64)) \<longleftrightarrow> (\<forall>k. slot_get m k \<le> b k)"
proof
  assume l: "\<forall>(k, v) \<in> set m. v \<le> b k"
  show "\<forall>k. slot_get m k \<le> b k"
  proof
    fix k
    show "slot_get m k \<le> b k"
      using l by (auto simp: slot_get_def split: option.splits dest: map_of_SomeD)
  qed
next
  assume r: "\<forall>k. slot_get m k \<le> b k"
  show "\<forall>(k, v) \<in> set m. v \<le> b k"
  proof clarify
    fix k v assume "(k, v) \<in> set m"
    then have "slot_get m k = v" using assms by (simp add: slot_get_def)
    then show "v \<le> b k" using r by metis
  qed
qed

lemma total_rows_view:
  "tt_closed (fold total_resource ras \<lparr>tt_result = r, tt_resources = [], tt_closed = True\<rparr>) \<Longrightarrow>
   map row_view (tt_resources (fold total_resource ras \<lparr>tt_result = r, tt_resources = [], tt_closed = True\<rparr>)) = map row_view ras"
proof -
  assume "tt_closed (fold total_resource ras \<lparr>tt_result = r, tt_resources = [], tt_closed = True\<rparr>)"
  with total_resource_fold [of "\<lparr>tt_result = r, tt_resources = [], tt_closed = True\<rparr>" ras] obtain rows where
    rows: "tt_resources (fold total_resource ras \<lparr>tt_result = r, tt_resources = [], tt_closed = True\<rparr>) = rows"
    and rel: "list_all2 (\<lambda>ra row. row = ra\<lparr>ra_committed := ra_committed row\<rparr>
                  \<and> unat (ra_committed row) = unat (ra_guarantees ra) + unat (ra_contingent_committed ra)) ras rows"
    by (auto simp: totals_inv_def)
  have "row_view row = row_view ra" if "row = ra\<lparr>ra_committed := ra_committed row\<rparr>" for ra row
  proof -
    have "row_view (ra\<lparr>ra_committed := c\<rparr>) = row_view ra" for c by (simp add: row_view_def)
    then show ?thesis using that by metis
  qed
  with rel have "list_all2 (\<lambda>ra row. row_view row = row_view ra) ras rows"
    by (auto elim!: list_all2_mono)
  then show ?thesis unfolding rows by (induction) auto
qed

lemma boundary_rows_view: "map row_view (map (\<lambda>ra. fst (resource_boundary e ra)) ras) = map row_view ras"
  by (simp add: row_view_def resource_boundary_def Let_def)

lemma stripped_rows_view:
  "map strip_demand xs = map strip_demand ys \<Longrightarrow> map row_view xs = map row_view ys"
proof -
  have "row_view ra = row_view (strip_demand ra)" for ra by (simp add: row_view_def strip_demand_def)
  then have "map row_view zs = map row_view (map strip_demand zs)" for zs by simp
  then show "map strip_demand xs = map strip_demand ys \<Longrightarrow> map row_view xs = map row_view ys" by metis
qed

definition capacity_view :: "resource_accum \<Rightarrow> resource_capacity \<times> u64" where
  "capacity_view ra = (ra_capacity ra, ra_effective_usable ra)"

lemma stripped_capacity_view:
  "map strip_guarantees xs = map strip_guarantees ys \<Longrightarrow> map capacity_view xs = map capacity_view ys"
proof -
  have "capacity_view ra = capacity_view (strip_guarantees ra)" for ra by (simp add: capacity_view_def strip_guarantees_def)
  then have "map capacity_view zs = map capacity_view (map strip_guarantees zs)" for zs by simp
  then show "map strip_guarantees xs = map strip_guarantees ys \<Longrightarrow> map capacity_view xs = map capacity_view ys" by metis
qed

lemma clear_demandD:
  assumes "clear_demand a = clear_demand b"
  shows "da_guarantees a = da_guarantees b" "da_reserve a = da_reserve b" "da_min_headroom a = da_min_headroom b"
    "da_degraded a = da_degraded b" "da_failed a = da_failed b" "da_effective_usable a = da_effective_usable b"
  using assms [THEN arg_cong, of da_guarantees] assms [THEN arg_cong, of da_reserve]
    assms [THEN arg_cong, of da_min_headroom] assms [THEN arg_cong, of da_degraded]
    assms [THEN arg_cong, of da_failed] assms [THEN arg_cong, of da_effective_usable]
  by (simp_all add: clear_demand_def)

lemma clear_totalsD:
  assumes "clear_totals a = clear_totals b"
  shows "da_guarantees a = da_guarantees b" "da_reserve a = da_reserve b" "da_min_headroom a = da_min_headroom b"
    "da_degraded a = da_degraded b" "da_failed a = da_failed b" "da_contingent_committed a = da_contingent_committed b"
    "da_burst_committed a = da_burst_committed b"
  using assms [THEN arg_cong, of da_guarantees] assms [THEN arg_cong, of da_reserve]
    assms [THEN arg_cong, of da_min_headroom] assms [THEN arg_cong, of da_degraded]
    assms [THEN arg_cong, of da_failed] assms [THEN arg_cong, of da_contingent_committed]
    assms [THEN arg_cong, of da_burst_committed]
  by (simp_all add: clear_totals_def)

lemma same_sumsD:
  assumes "same_sums a b"
  shows "da_reserve b = da_reserve a" "da_min_headroom b = da_min_headroom a" "da_effective_usable b = da_effective_usable a"
    "da_contingent_committed b = da_contingent_committed a" "da_burst_committed b = da_burst_committed a"
    "da_guarantees b = da_guarantees a"
  using assms by (auto simp: same_sums_def)

definition member_guarantees :: "reservation_snapshot \<Rightarrow> resource_id \<Rightarrow> nat" where
  "member_guarantees res m = sum_for (\<lambda>g. gt_resource g = m) gt_capacity (rs_guarantees res)"

lemma accum_of_sel [simp]:
  "ra_guarantees (accum_of rc u) = 0" "ra_contingent_committed (accum_of rc u) = 0"
  "ra_effective_usable (accum_of rc u) = u" "ra_capacity (accum_of rc u) = rc"
  by (simp_all add: accum_of_def)

lemma member_inv_zero:
  assumes "member_inv d cap r ms m" and "ra \<in> set (ml_resources m)"
  shows "ra_guarantees ra = 0" "ra_contingent_committed ra = 0"
proof -
  from assms obtain u where u: "ra = accum_of (ra_capacity ra) u" unfolding member_inv_def by blast
  show "ra_guarantees ra = 0" "ra_contingent_committed ra = 0" by (subst u, simp)+
qed

lemma member_inv_length: "member_inv d cap r ms m \<Longrightarrow> length (ml_resources m) = length ms"
  unfolding member_inv_def by (metis length_map)

lemma member_inv_index:
  assumes "member_inv d cap r ms m" and "ml_index m k = Some i"
  shows "i < length ms" "id_value (ms ! i) = k"
proof -
  from assms(1) have "case ml_index m k of None \<Rightarrow> k \<notin> id_value ` set ms | Some i \<Rightarrow> i < length ms \<and> id_value (ms ! i) = k"
    unfolding member_inv_def by blast
  with assms(2) show "i < length ms" "id_value (ms ! i) = k" by simp_all
qed

lemma member_rows:
  assumes inv: "member_inv d cap r (sort (dm_members d)) m" and dist: "distinct (dm_members d)"
    and run: "sum_guarantees p ix d (ml_index m) res (ml_resources m) r3 = Inr g"
    and ras: "map row_view ras = map row_view (gl_resources g)"
  shows "(\<forall>ra \<in> set ras. ra_guarantees ra \<le> ra_effective_usable ra)
    \<longleftrightarrow> (\<forall>x \<in> set (dm_members d). member_guarantees res x \<le> member_usable cap x)"
proof -
  let ?ms = "sort (dm_members d)"
  have len0: "length (ml_resources m) = length ?ms"
    by (rule member_inv_length [OF inv])
  have range: "\<forall>k i. ml_index m k = Some i \<longrightarrow> i < length (ml_resources m)"
    using member_inv_index(1) [OF inv] len0 by simp
  have zero: "\<forall>ra \<in> set (ml_resources m). ra_guarantees ra = 0"
    using member_inv_zero [OF inv] by blast
  have index: "ml_index m (id_value x) = Some i \<longleftrightarrow> x = ?ms ! i" if "i < length ?ms" for x i
  proof
    assume "ml_index m (id_value x) = Some i"
    then have "id_value (?ms ! i) = id_value x" by (rule member_inv_index(2) [OF inv])
    then show "x = ?ms ! i" by (simp add: id_value_eq_iff)
  next
    assume x: "x = ?ms ! i"
    then have "known (ml_index m) x" using member_index_known [OF inv] that
      by (metis in_scope_def nth_mem set_sort)
    then obtain j where j: "ml_index m (id_value x) = Some j" by (auto simp: known_def)
    then have "j < length ?ms" "id_value (?ms ! j) = id_value x" by (rule member_inv_index [OF inv])+
    then have "j = i" using that x dist by (metis distinct_sort id_value_eq_iff nth_eq_iff_index_eq)
    with j show "ml_index m (id_value x) = Some i" by simp
  qed
  have rows: "length (gl_resources g) = length ?ms"
    "\<And>i. i < length ?ms \<Longrightarrow> unat (ra_guarantees (gl_resources g ! i)) = member_guarantees res (?ms ! i)"
    using guarantee_rows [OF run] len0 zero index by (auto simp: member_guarantees_def)
  have views: "map capacity_view (gl_resources g) = map capacity_view (ml_resources m)"
    by (rule stripped_capacity_view [OF sum_guarantees_spec(2) [OF run range zero]])
  have usable: "unat (ra_effective_usable (gl_resources g ! i)) = member_usable cap (?ms ! i)" if i: "i < length ?ms" for i
  proof -
    let ?ra = "ml_resources m ! i"
    have "?ra \<in> set (ml_resources m)" using i len0 by simp
    then obtain u where "?ra = accum_of (ra_capacity ?ra) u" "unat u = usable_of (ra_capacity ?ra)"
      "capacity_of cap (rc_resource (ra_capacity ?ra)) = Some (ra_capacity ?ra)"
      using inv unfolding member_inv_def by blast
    moreover from this(1) have "ra_effective_usable ?ra = u" by (metis accum_of_sel(3))
    moreover have "rc_resource (ra_capacity ?ra) = ?ms ! i"
      using inv i len0 unfolding member_inv_def by (metis (no_types, lifting) nth_map)
    moreover have "capacity_view (gl_resources g ! i) = capacity_view ?ra"
      using views i len0 rows(1) by (metis nth_map)
    ultimately show ?thesis by (simp add: capacity_view_def member_usable_def)
  qed
  have "(\<forall>ra \<in> set ras. ra_guarantees ra \<le> ra_effective_usable ra)
    \<longleftrightarrow> (\<forall>v \<in> set (map row_view ras). snd (snd v) \<le> fst (snd v))"
    by (simp add: row_view_def)
  also have "\<dots> \<longleftrightarrow> (\<forall>ra \<in> set (gl_resources g). ra_guarantees ra \<le> ra_effective_usable ra)"
    unfolding ras by (simp add: row_view_def)
  also have "\<dots> \<longleftrightarrow> (\<forall>i < length ?ms. member_guarantees res (?ms ! i) \<le> member_usable cap (?ms ! i))"
    unfolding all_set_conv_all_nth using rows usable by (simp add: word_le_nat_alt)
  also have "\<dots> \<longleftrightarrow> (\<forall>x \<in> set ?ms. member_guarantees res x \<le> member_usable cap x)"
    by (simp only: all_set_conv_all_nth)
  finally show ?thesis by simp
qed

section \<open>The evaluation, in terms of the evidence\<close>

text \<open>What the binding and the freshness phases let through.\<close>

definition bound_evidence ::
  "policy \<Rightarrow> domain_config \<Rightarrow> authority_expectation \<Rightarrow> domain_evidence \<Rightarrow> u64
   \<Rightarrow> capacity_snapshot \<Rightarrow> reservation_snapshot \<Rightarrow> admission_snapshot \<Rightarrow> bool" where
  "bound_evidence p d ex ev tick cap res adm \<longleftrightarrow>
     ev_capacity ev = Some cap \<and> ev_reservations ev = Some res \<and> ev_admissions ev = Some adm
     \<and> epoch_valid (ex_epoch ex) \<and> gen_valid (ex_domain_generation ex) \<and> gen_valid (ex_policy_generation ex)
     \<and> gen_valid (ex_capacity_generation ex) \<and> gen_valid (ex_reservation_generation ex)
     \<and> gen_valid (ex_admission_generation ex) \<and> gen_valid (ex_risk_budget_generation ex)
     \<and> cs_domain cap = dm_id d \<and> rs_domain res = dm_id d \<and> as_domain adm = dm_id d
     \<and> cs_epoch cap = ex_epoch ex \<and> rs_epoch res = ex_epoch ex \<and> as_epoch adm = ex_epoch ex
     \<and> dm_generation d = ex_domain_generation ex \<and> pl_generation p = ex_policy_generation ex
     \<and> rb_generation (pl_risk_budget p) = ex_risk_budget_generation ex
     \<and> cs_generation cap = ex_capacity_generation ex \<and> rs_generation res = ex_reservation_generation ex
     \<and> as_generation adm = ex_admission_generation ex
     \<and> cs_tick cap \<le> tick \<and> tick - cs_tick cap \<le> pl_capacity_age p
     \<and> rs_tick res \<le> tick \<and> tick - rs_tick res \<le> pl_reservation_age p
     \<and> as_tick adm \<le> tick \<and> tick - as_tick adm \<le> pl_admission_age p"

lemma check_binding_Inr:
  "check_binding p d ex ev r = Inr (cap, res, adm) \<Longrightarrow>
     check_freshness p d tick cap res adm r' = Inr () \<Longrightarrow> bound_evidence p d ex ev tick cap res adm"
  by (auto simp: check_binding_def check_freshness_def stale_or_future_def bound_evidence_def Let_def
      split: option.splits if_splits prod.splits)

definition ineligible_demand :: "policy \<Rightarrow> domain_config \<Rightarrow> demand_record \<Rightarrow> bool" where
  "ineligible_demand p d rec \<longleftrightarrow>
     in_scope d (dr_resource rec) \<and> (dr_kind rec = Demand_Contingent \<or> dr_kind rec = Demand_Burst)
     \<and> \<not> class_eligible p (dr_class rec) \<and> (dr_committed rec \<noteq> 0 \<or> dr_pending rec \<noteq> 0)"

definition guaranteed_admissions :: "domain_config \<Rightarrow> admission_snapshot \<Rightarrow> resource_id \<Rightarrow> service_class_id \<Rightarrow> nat" where
  "guaranteed_admissions d adm x c =
     sum_for (\<lambda>rec. in_scope d (dr_resource rec) \<and> dr_kind rec = Demand_Guaranteed \<and> dr_resource rec = x \<and> dr_class rec = c)
       dr_committed (as_records adm)"

definition backing_guarantees :: "domain_config \<Rightarrow> reservation_snapshot \<Rightarrow> resource_id \<Rightarrow> service_class_id \<Rightarrow> nat" where
  "backing_guarantees d res x c =
     sum_for (\<lambda>g. in_scope d (gt_resource g) \<and> gt_resource g = x \<and> gt_class g = c) gt_capacity (rs_guarantees res)"

definition scope_burst :: "policy \<Rightarrow> domain_config \<Rightarrow> admission_snapshot \<Rightarrow> nat" where
  "scope_burst p d adm = sum_for (\<lambda>rec. scope_demand p d rec \<and> dr_kind rec = Demand_Burst) dr_committed (as_records adm)"

definition class_contingent :: "policy \<Rightarrow> domain_config \<Rightarrow> admission_snapshot \<Rightarrow> service_class_id \<Rightarrow> nat" where
  "class_contingent p d adm c = sum_for (\<lambda>rec. scope_demand p d rec \<and> dr_class rec = c) dr_committed (as_records adm)"

definition evaluation_of ::
  "policy \<Rightarrow> domain_config \<Rightarrow> capacity_snapshot \<Rightarrow> reservation_snapshot \<Rightarrow> admission_snapshot
   \<Rightarrow> findings \<Rightarrow> evaluation_result \<Rightarrow> bool" where
  "evaluation_of p d cap res adm f r \<longleftrightarrow>
     accounting_exact p d (members_usable d cap) (scope_guarantees d res) (scope_contingent p d adm) (er_accounting r)
     \<and> da_effective_ratio (er_accounting r) = fst (effective_ratio p d (degraded_domain d cap))
     \<and> da_ratio_reduced (er_accounting r) = snd (snd (effective_ratio p d (degraded_domain d cap)))
     \<and> unat (da_burst_committed (er_accounting r)) = scope_burst p d adm
     \<and> (fi_unmapped f = 0 \<longleftrightarrow> (\<forall>x c. guaranteed_admissions d adm x c \<le> backing_guarantees d res x c))
     \<and> (fi_ineligible_amount f = 0 \<longleftrightarrow> (\<forall>rec \<in> set (as_records adm). \<not> ineligible_demand p d rec))
     \<and> (fi_violation f = 0 \<longleftrightarrow> (\<forall>x \<in> set (dm_members d). member_guarantees res x \<le> member_usable cap x))
     \<and> distinct (map fst (fi_contingent f))
     \<and> (\<forall>c. unat (slot_get (fi_contingent f) (id_value c)) = class_contingent p d adm c)
     \<and> distinct (map rc_resource (cs_resources cap)) \<and> distinct (map gt_reservation (rs_guarantees res))
     \<and> distinct (map dr_admission (as_records adm))"

lemma sum_for_cong: "(\<And>x. x \<in> set xs \<Longrightarrow> P x = Q x) \<Longrightarrow> sum_for P f xs = sum_for Q f xs"
  unfolding sum_for_def by (metis (mono_tags, lifting) filter_cong)

lemma usable_of_views:
  assumes "map row_view xs = map row_view ys" and "map capacity_view ys = map capacity_view zs"
  shows "usable_sum xs = usable_sum zs"
proof -
  have sum_view: "usable_sum zs = sum_list (map (\<lambda>v. unat (snd v)) (map capacity_view zs))" for zs
    by (simp add: usable_sum_def capacity_view_def comp_def)
  have from_rows: "map capacity_view zs = map (\<lambda>v. (fst v, fst (snd v))) (map row_view zs)" for zs
    by (simp add: row_view_def capacity_view_def)
  show ?thesis by (simp only: sum_view from_rows assms(1) assms(2) [unfolded from_rows])
qed

lemma all_pairs: "(\<forall>k. P k) \<longleftrightarrow> (\<forall>x c. P (id_value (x :: resource_id), id_value (c :: service_class_id)))"
proof
  assume all: "\<forall>x c. P (id_value (x :: resource_id), id_value (c :: service_class_id))"
  show "\<forall>k. P k"
  proof
    fix k :: "u64 \<times> u64"
    show "P k" using all [rule_format, of "StrongId (fst k)" "StrongId (snd k)"] by simp
  qed
qed simp

lemma unmapped_0_iff:
  assumes "distinct (map fst admitted)" and "\<And>x c. unat (slot_get admitted (id_value x, id_value c)) = a x c"
    and "\<And>x c. unat (pair_get backing (id_value x, id_value c)) = b x c"
  shows "unmapped_guaranteed backing admitted = 0 \<longleftrightarrow> (\<forall>(x :: resource_id) (c :: service_class_id). a x c \<le> b x c)"
proof -
  have "unmapped_guaranteed backing admitted = 0 \<longleftrightarrow> (\<forall>k. slot_get admitted k \<le> pair_get backing k)"
    unfolding unmapped_guaranteed_0 by (rule slots_bounded) (rule assms(1))
  also have "\<dots> \<longleftrightarrow> (\<forall>x c. a x c \<le> b x c)"
    unfolding all_pairs word_le_nat_alt assms(2,3) by (rule refl)
  finally show ?thesis .
qed

lemma evaluation_decided:
  assumes "\<not> refused (evaluate_domain iter p (index_rebuild p) d ex ev tick)"
    and inst: "policy_installable p" and d: "d \<in> set (pl_domains p)"
  shows "\<exists>cap res adm f r. bound_evidence p d ex ev tick cap res adm \<and> evaluation_of p d cap res adm f r
    \<and> evaluate_domain iter p (index_rebuild p) d ex ev tick = decide iter p (index_rebuild p) d f r
    \<and> er_authority r = (er_authority (bind_authority p d ex tick cap res adm (initial_result p d ex)))
         \<lparr>av_resource_set_fold := av_resource_set_fold (er_authority r)\<rparr>"
proof (cases rule: evaluate_cases [of iter p "index_rebuild p" d ex ev tick])
  case refused
  then show ?thesis using assms(1) by simp
next
  case (decided cap res adm m g s t r ras violation violation_id r1 r3)
  let ?ix = "index_rebuild p"
  define f where "f = \<lparr>fi_unmapped = unmapped_guaranteed (gl_by_class g) (dl_admitted s), fi_ineligible_amount = dl_ineligible_amount s,
          fi_ineligible_class = dl_ineligible_class s, fi_violation = violation, fi_violation_id = violation_id,
          fi_contingent = dl_contingent s\<rparr>"
  have dist: "distinct (dm_members d)" "length (dm_members d) < 4294967296" "distinct (map sc_id (pl_classes p))"
    using inst d by (auto simp: policy_installable_def domain_installable_def)
  have classes: "index_service_class ?ix c = find_service_class p c" for c by (rule index_finds(2) [OF dist(3)])
  have ppm: "rb_has_ppm (pl_risk_budget p) \<longrightarrow> rb_max_ppm (pl_risk_budget p) \<le> kHardMaxExposurePpm"
    using inst by (auto simp: policy_installable_def check_risk_budget_def Let_def split: if_splits)
  have a1: "er_accounting r1 = er_accounting (initial_result p d ex)" by (simp add: decided(2) bind_authority_def)
  have init: "da_reserve (er_accounting r1) = dm_reserve_units d" "da_min_headroom (er_accounting r1) = dm_headroom_units d"
    "da_effective_usable (er_accounting r1) = 0" "da_contingent_committed (er_accounting r1) = 0"
    "da_burst_committed (er_accounting r1) = 0" "da_degraded (er_accounting r1) = 0" "da_failed (er_accounting r1) = 0"
    unfolding a1 by (simp_all add: initial_result_def accounting_zero_def)
  \<comment> \<open>the members\<close>
  note members = collect_members_spec [OF decided(5)]
  have inv: "member_inv d cap r1 (sort (dm_members d)) m" using members by simp
  have am: "same_sums (er_accounting r1) (er_accounting (ml_result m))" "er_authority (ml_result m) = er_authority r1"
    using inv by (simp_all add: member_inv_def)
  have range: "\<forall>k i. ml_index m k = Some i \<longrightarrow> i < length (ml_resources m)"
    using member_inv_index(1) [OF inv] member_inv_length [OF inv] by simp
  have zero: "\<forall>ra \<in> set (ml_resources m). ra_guarantees ra = 0" using member_inv_zero [OF inv] by blast
  have known: "known (ml_index m) x \<longleftrightarrow> in_scope d x" for x by (rule member_index_known [OF inv])
  have a3: "er_accounting r3 = er_accounting (ml_result m)" by (simp add: decided(6))
  \<comment> \<open>the guarantees\<close>
  note guarantees = sum_guarantees_spec [OF decided(7) range zero]
  from guarantees(1) obtain x v where ag: "er_accounting (gl_result g) = (er_accounting r3)\<lparr>da_oos_guarantees := x, da_guarantees := v\<rparr>"
    and v: "unat v = scope_guarantees d res"
    by (auto simp: scope_guarantees_def known)
  \<comment> \<open>the demand\<close>
  have range_g: "\<forall>k i. ml_index m k = Some i \<longrightarrow> i < length (gl_resources g)"
    using range guarantee_rows [OF decided(7)] by simp
  note demand = sum_demands_spec [OF decided(8) range_g]
  have counted: "counted ?ix (ml_index m) rec \<longleftrightarrow> scope_demand p d rec" for rec
    by (auto simp: counted_def oversubscribed_def scope_demand_def known eligible_def class_eligible_def classes)
  have counted_eq: "counted ?ix (ml_index m) = scope_demand p d" by (rule ext) (rule counted)
  have adem: "clear_demand (er_accounting (dl_result s)) = clear_demand (er_accounting (gl_result g))"
    using demand by (simp add: demand_inv_def)
  \<comment> \<open>the totals\<close>
  define t0 where "t0 = \<lparr>tt_result = dl_result s, tt_resources = [], tt_closed = True\<rparr>"
  have t: "t = fold total_resource (dl_resources s) t0"
    using decided(9) by (auto simp: sum_totals_def t0_def Let_def split: if_splits)
  note totals = total_resource_fold [of t0 "dl_resources s", folded t]
  have atot: "clear_totals (er_accounting (tt_result t)) = clear_totals (er_accounting (dl_result s))"
    using totals by (simp add: totals_inv_def t0_def)
  have res_t: "da_reserve (er_accounting (tt_result t)) = dm_reserve_units d"
    "da_min_headroom (er_accounting (tt_result t)) = dm_headroom_units d"
    using clear_totalsD [OF atot] clear_demandD [OF adem] same_sumsD [OF am(1)] init by (simp_all add: ag a3)
  note closed = close_boundary_Inr [OF decided(10) ppm res_t]
  \<comment> \<open>the numbers\<close>
  have views: "map row_view ras = map row_view (gl_resources g)"
  proof -
    have "map row_view ras = map row_view (tt_resources t)"
      unfolding closed(6) by (rule boundary_rows_view)
    also have "\<dots> = map row_view (dl_resources s)"
      using total_rows_view [of "dl_resources s" "dl_result s"] closed(1) by (simp add: t t0_def)
    also have "\<dots> = map row_view (gl_resources g)"
      by (rule stripped_rows_view) (use demand in \<open>simp add: demand_inv_def\<close>)
    finally show ?thesis .
  qed
  have usable: "unat (da_effective_usable (er_accounting (tt_result t))) = members_usable d cap"
  proof -
    have cap_view: "map capacity_view (gl_resources g) = map capacity_view (ml_resources m)"
      by (rule stripped_capacity_view [OF guarantees(2)])
    have "map row_view (dl_resources s) = map row_view (gl_resources g)"
      by (rule stripped_rows_view) (use demand in \<open>simp add: demand_inv_def\<close>)
    then have "usable_sum (dl_resources s) = usable_sum (ml_resources m)" using cap_view by (rule usable_of_views)
    then show ?thesis
      using totals closed(1) clear_demandD(6) [OF adem] same_sumsD(3) [OF am(1)] init member_usable_sum [OF inv]
      by (simp add: totals_inv_def t0_def ag a3)
  qed
  have guar: "unat (da_guarantees (er_accounting (tt_result t))) = scope_guarantees d res"
    using clear_totalsD(1) [OF atot] clear_demandD(1) [OF adem] v by (simp add: ag)
  have cont: "unat (da_contingent_committed (er_accounting (tt_result t))) = scope_contingent p d adm"
    and burst: "unat (da_burst_committed (er_accounting (tt_result t))) = scope_burst p d adm"
    using clear_totalsD(6,7) [OF atot] demand same_sumsD(4,5) [OF am(1)] init
    by (simp_all add: demand_inv_def ag a3 scope_contingent_def scope_burst_def counted_eq counted)
  have degraded: "(da_degraded (er_accounting (tt_result t)) > 0 \<or> da_failed (er_accounting (tt_result t)) > 0) \<longleftrightarrow> degraded_domain d cap"
    using collect_members_degraded [OF decided(5) dist(2)] init clear_totalsD(4,5) [OF atot] clear_demandD(4,5) [OF adem]
    by (simp add: ag a3)
  \<comment> \<open>the findings\<close>
  have unmapped: "fi_unmapped f = 0 \<longleftrightarrow> (\<forall>x c. guaranteed_admissions d adm x c \<le> backing_guarantees d res x c)"
  proof -
    have admitted: "unat (slot_get (dl_admitted s) (id_value x, id_value c)) = guaranteed_admissions d adm x c" for x c
      using demand unfolding demand_inv_def guaranteed_admissions_def
      by (auto intro!: sum_for_cong simp: guaranteed_def known demand_key_def id_value_eq_iff)
    have backed: "unat (pair_get (gl_by_class g) (id_value x, id_value c)) = backing_guarantees d res x c" for x c
      unfolding guarantees(4) backing_guarantees_def
      by (auto intro!: sum_for_cong simp: known guarantee_key_def id_value_eq_iff)
    have "distinct (map fst (dl_admitted s))" using demand by (simp add: demand_inv_def)
    from unmapped_0_iff [OF this admitted backed] show ?thesis by (simp add: f_def)
  qed
  have ineligible: "fi_ineligible_amount f = 0 \<longleftrightarrow> (\<forall>rec \<in> set (as_records adm). \<not> ineligible_demand p d rec)"
    using demand unfolding demand_inv_def f_def ineligible_demand_def
    by (auto simp: oversubscribed_def known eligible_def class_eligible_def classes)
  have violation: "fi_violation f = 0 \<longleftrightarrow> (\<forall>x \<in> set (dm_members d). member_guarantees res x \<le> member_usable cap x)"
    using guarantee_violation_0 [of ras] member_rows [OF inv dist(1) decided(7) views] by (simp add: f_def decided(11))
  have slots: "unat (slot_get (fi_contingent f) (id_value c)) = class_contingent p d adm c" for c
    using demand unfolding demand_inv_def class_contingent_def f_def
    by (auto intro!: sum_for_cong simp: counted id_value_eq_iff)
  have "evaluation_of p d cap res adm f r"
    unfolding evaluation_of_def
    using closed(2-4,7) usable guar cont burst degraded unmapped ineligible violation slots guarantees(5) members demand
    by (simp add: demand_inv_def f_def)
  moreover have "er_authority r = (er_authority (bind_authority p d ex tick cap res adm (initial_result p d ex)))
         \<lparr>av_resource_set_fold := av_resource_set_fold (er_authority r)\<rparr>"
    using closed(5) totals demand guarantees(3) am(2) by (simp add: totals_inv_def t0_def demand_inv_def decided(2,6))
  ultimately show ?thesis
    using check_binding_Inr [OF decided(1,3)] decided(12) unfolding f_def [symmetric] by blast
qed

end
