(* ===== verification/Samples.thy ===== *)
theory Samples
  imports Evaluation_Spec
begin

text \<open>
  One small policy with one domain and evidence for it, on which the witnesses instantiate the
  properties. The digests stay symbolic: an evaluation only hashes, it never inspects a digest.
\<close>

definition sample_limits :: policy_limits where
  "sample_limits =
     \<lparr>lm_max_domains = 4, lm_max_resources_per_domain = 4, lm_max_service_classes = 4, lm_max_guarantees = 8,
      lm_max_demand_records = 8, lm_max_intents = 4, lm_max_lines = 8, lm_max_bytes = 512, lm_max_breakdown = 4,
      lm_max_capacity_units = 1000\<rparr>"

definition sample_domain :: domain_config where
  "sample_domain =
     \<lparr>dm_id = StrongId 7, dm_generation = Gen 1, dm_name = ''d'', dm_pool = StrongId 3, dm_members = [StrongId 1],
      dm_configured_ratio = Ratio 3 2, dm_has_degraded_cap = False, dm_degraded_cap = Ratio 1 1,
      dm_reserve_units = 5, dm_headroom_units = 10, dm_burst_enabled = False, dm_burst_cap_units = 0\<rparr>"

definition sample_class :: service_class_ref where
  "sample_class =
     \<lparr>sc_id = StrongId 2, sc_name = ''c'', sc_priority = PriorityRef 0, sc_eligible = True, sc_risk_weight_ppm = 0,
      sc_has_share_cap = False, sc_share_cap_ppm = 0\<rparr>"

definition sample_policy :: policy where
  "sample_policy =
     \<lparr>pl_id = StrongId 1, pl_generation = Gen 4, pl_name = ''p'', pl_ratio_cap = Ratio 2 1, pl_domains = [sample_domain],
      pl_classes = [sample_class],
      pl_risk_budget = \<lparr>rb_id = StrongId 1, rb_generation = Gen 1, rb_has_absolute = True, rb_max_units = 60,
                        rb_has_ppm = False, rb_max_ppm = 0\<rparr>,
      pl_thresholds = \<lparr>th_warn_used_ppm = 900000, th_reduce_overage_ppm = 1, th_emergency_overage_ppm = 100000\<rparr>,
      pl_hysteresis = \<lparr>hy_escalation_confirmations = 1, hy_deescalation_confirmations = 1, hy_cooldown_ticks = 0,
                       hy_margin_ppm = 0\<rparr>,
      pl_limits = sample_limits, pl_capacity_age = 10, pl_reservation_age = 10, pl_admission_age = 10,
      pl_digest = digest_zero\<rparr>"

definition sample_provenance :: provenance where
  "sample_provenance =
     \<lparr>pv_publisher = StrongId 1, pv_incarnation = StrongId 1, pv_epoch = FabricEpoch 1, pv_sequence = 1,
      pv_observed_tick = 20, pv_observed_wall_millis = 0, pv_evidence_id = StrongId 1, pv_payload_digest = digest_zero\<rparr>"

definition sample_resource :: resource_capacity where
  "sample_resource =
     \<lparr>rc_resource = StrongId 1, rc_pool = StrongId 3, rc_physical = 120, rc_usable = 100, rc_health = Health_Healthy,
      rc_degraded_ppm = 0, rc_generation = Gen 1\<rparr>"

definition sample_capacity :: capacity_snapshot where
  "sample_capacity =
     \<lparr>cs_domain = StrongId 7, cs_generation = Gen 2, cs_epoch = FabricEpoch 1, cs_tick = 20,
      cs_resources = [sample_resource], cs_provenance = sample_provenance\<rparr>"

definition sample_reservations :: reservation_snapshot where
  "sample_reservations =
     \<lparr>rs_domain = StrongId 7, rs_generation = Gen 2, rs_epoch = FabricEpoch 1, rs_tick = 20,
      rs_guarantees = [\<lparr>gt_reservation = StrongId 1, gt_resource = StrongId 1, gt_pool = StrongId 3, gt_class = StrongId 2,
        gt_capacity = 30, gt_priority = PriorityRef 0, gt_protected = True, gt_preemptible = False, gt_generation = Gen 1\<rparr>],
      rs_provenance = sample_provenance\<rparr>"

definition sample_demand :: demand_record where
  "sample_demand =
     \<lparr>dr_admission = StrongId 1, dr_resource = StrongId 1, dr_pool = StrongId 3, dr_class = StrongId 2,
      dr_kind = Demand_Contingent, dr_committed = 50, dr_pending = 5, dr_generation = Gen 1\<rparr>"

definition sample_admissions :: "demand_record list \<Rightarrow> admission_snapshot" where
  "sample_admissions recs =
     \<lparr>as_domain = StrongId 7, as_generation = Gen 2, as_epoch = FabricEpoch 1, as_tick = 20,
      as_records = recs, as_provenance = sample_provenance\<rparr>"

definition sample_evidence :: "demand_record list \<Rightarrow> domain_evidence" where
  "sample_evidence recs =
     \<lparr>ev_capacity = Some sample_capacity, ev_reservations = Some sample_reservations,
      ev_admissions = Some (sample_admissions recs)\<rparr>"

definition sample_expectation :: authority_expectation where
  "sample_expectation =
     \<lparr>ex_epoch = FabricEpoch 1, ex_policy_generation = Gen 4, ex_domain_generation = Gen 1, ex_capacity_generation = Gen 2,
      ex_reservation_generation = Gen 2, ex_admission_generation = Gen 2, ex_risk_budget_generation = Gen 1\<rparr>"

lemmas sample_defs =
  sample_limits_def sample_domain_def sample_class_def sample_policy_def sample_provenance_def sample_resource_def
  sample_capacity_def sample_reservations_def sample_demand_def sample_admissions_def sample_evidence_def
  sample_expectation_def

lemma digest_is_zero_zero [simp]: "digest_is_zero digest_zero"
  by (simp add: digest_is_zero_def digest_zero_def list_all_iff)

lemma sample_installable: "policy_installable sample_policy"
  by (simp add: policy_installable_def sample_defs limits_installable_def domain_installable_def class_installable_def
      ratio_installable_def ratio_bounded_def ratio_ge_def ratio_le_def id_valid_def gen_valid_def Let_def
      kHardMaxDomains_def kHardMaxResourcesPerDomain_def kHardMaxServiceClasses_def kHardMaxGuaranteesPerSnapshot_def
      kHardMaxDemandRecordsPerSnapshot_def kHardMaxCorrectiveIntents_def kHardMaxExplanationLines_def
      kHardMaxExplanationBytes_def kHardMaxCapacityUnits_def kMaxRatioTerm_def kPpmScale_def
      check_risk_budget_def check_thresholds_def check_hysteresis_def kHardMaxConfirmations_def kHardMaxCooldownTicks_def
      kHardMaxFreshnessTicks_def)

text \<open>The sorted tables of the sample policy.\<close>

lemma sample_classes [simp]:
  "index_service_class (index_rebuild sample_policy) (StrongId 2) = Some sample_class"
  by (subst index_finds(2)) (simp_all add: find_service_class_def sample_defs)

lemma sample_binding:
  "check_binding sample_policy sample_domain sample_expectation (sample_evidence recs) r
     = Inr (sample_capacity, sample_reservations, sample_admissions recs)"
  by (simp add: check_binding_def sample_defs id_valid_def gen_valid_def epoch_valid_def)

lemma sample_fresh:
  "check_freshness sample_policy sample_domain 21 sample_capacity sample_reservations (sample_admissions recs) r = Inr ()"
  by (simp add: check_freshness_def stale_or_future_def sample_defs)

lemma sample_bounds:
  "length recs \<le> 8 \<Longrightarrow>
     check_bounds sample_policy sample_domain sample_capacity sample_reservations (sample_admissions recs) r = Inr ()"
  by (simp add: check_bounds_def sample_defs)

lemma sample_members:
  "collect_members sample_policy sample_domain sample_capacity r
     = Inr \<lparr>ml_result = r, ml_resources = [accum_of sample_resource 100], ml_index = [1 \<mapsto> 0]\<rparr>"
  by (simp add: collect_members_def index_capacity_def collect_member_def push_member_def emplace_def sample_defs)

definition sample_row :: "u64 \<Rightarrow> resource_accum" where
  "sample_row c = (accum_of sample_resource 100)\<lparr>ra_guarantees := 30, ra_contingent_committed := c\<rparr>"

lemma sample_guarantees:
  "sum_guarantees sample_policy (index_rebuild sample_policy) sample_domain [1 \<mapsto> 0] sample_reservations
       [accum_of sample_resource 100] r
     = Inr \<lparr>gl_result = upd_acc (\<lambda>a. a\<lparr>da_guarantees := 30\<rparr>) r, gl_resources = [sample_row 0],
            gl_seen = {1}, gl_by_class = [(1, 2) \<mapsto> 30]\<rparr>"
proof -
  have g: "for_each (sum_guarantee sample_policy (index_rebuild sample_policy) sample_domain [1 \<mapsto> 0])
      \<lparr>gl_result = r, gl_resources = [accum_of sample_resource 100], gl_seen = {}, gl_by_class = Map.empty\<rparr>
      (rs_guarantees sample_reservations)
    = Inr \<lparr>gl_result = r, gl_resources = [sample_row 0], gl_seen = {1}, gl_by_class = [(1, 2) \<mapsto> 30]\<rparr>"
    by (simp add: sum_guarantee_def sample_reservations_def sample_domain_def or_reject_def add_checked_def pair_get_def
        sample_row_def accum_of_def)
  show ?thesis
    unfolding sum_guarantees_def g by (simp add: total_guarantees_def or_reject_def add_checked_def sample_row_def accum_of_def upd_acc_def)
qed

lemma sample_demands:
  assumes "er_accounting r = a" and "da_contingent_committed a = 0" and "da_contingent_pending a = 0"
  shows "sum_demands sample_policy (index_rebuild sample_policy) sample_domain [1 \<mapsto> 0] (sample_admissions [sample_demand])
       [sample_row 0] r
     = Inr \<lparr>dl_result = r\<lparr>er_accounting := a\<lparr>da_contingent_committed := 50, da_contingent_pending := 5\<rparr>\<rparr>,
            dl_resources = [(sample_row 50)\<lparr>ra_contingent_pending := 5\<rparr>], dl_seen = {1}, dl_contingent = [(2, 50)],
            dl_admitted = [], dl_ineligible_amount = 0, dl_ineligible_class = 0\<rparr>"
  using assms
  by (simp add: sum_demands_def sum_demand_def sample_admissions_def sample_demand_def admit_contingent_def or_reject_def
      add_checked_def sample_class_def sample_row_def accum_of_def upd_acc_def slot_get_def sample_domain_def)

definition sample_accounting :: domain_accounting where
  "sample_accounting = accounting_zero\<lparr>
     da_domain := StrongId 7, da_pool := StrongId 3, da_configured_ratio := Ratio 3 2, da_effective_ratio := Ratio 3 2,
     da_configured_ratio_ppm := ratio_ppm (Ratio 3 2), da_effective_ratio_ppm := ratio_ppm (Ratio 3 2),
     da_reserve := 5, da_min_headroom := 10, da_guarantees := 30, da_contingent_committed := 50, da_contingent_pending := 5\<rparr>"

definition sample_totals :: domain_accounting where
  "sample_totals = sample_accounting\<lparr>da_physical := 120, da_usable := 100, da_effective_usable := 100\<rparr>"

lemma sample_sums:
  assumes "er_accounting r = sample_accounting"
  shows "sum_totals sample_policy sample_domain [(sample_row 50)\<lparr>ra_contingent_pending := 5\<rparr>] r
    = Inr \<lparr>tt_result = r\<lparr>er_accounting := sample_totals\<rparr>,
           tt_resources = [(sample_row 50)\<lparr>ra_contingent_pending := 5, ra_committed := 80\<rparr>], tt_closed = True\<rparr>"
  using assms
  by (simp add: sum_totals_def total_resource_def add_sat_def add_checked_def sample_row_def accum_of_def sample_resource_def
      sample_accounting_def sample_totals_def accounting_zero_def sample_policy_def sample_limits_def Let_def)

definition sample_final :: domain_accounting where
  "sample_final = fst (derive_accounting sample_policy (draw_boundary sample_policy sample_domain sample_totals True))"

lemma sample_effective: "effective_ratio sample_policy sample_domain False = (Ratio 3 2, Constraint_ConfiguredRatio, False)"
  by (simp add: effective_ratio_def ratio_gt_def ratio_ge_def sample_policy_def sample_domain_def)

lemma sample_policy_sel:
  "pl_risk_budget sample_policy = \<lparr>rb_id = StrongId 1, rb_generation = Gen 1, rb_has_absolute = True, rb_max_units = 60,
     rb_has_ppm = False, rb_max_ppm = 0\<rparr>"
  "pl_limits sample_policy = sample_limits"
  by (simp_all add: sample_policy_def)

lemma sample_boundary:
  "draw_boundary sample_policy sample_domain sample_totals True
    = \<lparr>bd_accounting = sample_totals\<lparr>da_ratio_reduced := False, da_effective_ratio := Ratio 3 2,
         da_effective_ratio_ppm := ratio_ppm (Ratio 3 2), da_ceiling := 150, da_risk_ceiling := 160,
         da_binding := Constraint_ConfiguredRatio\<rparr>,
       bd_effective = Ratio 3 2, bd_risk_ceiling = 160, bd_closed = True\<rparr>"
proof -
  have "mul_div_floor 100 3 2 = Some 150" by (simp add: mul_div_floor_nat)
  moreover have "da_degraded sample_totals = 0" "da_failed sample_totals = 0" "da_effective_usable sample_totals = 100"
    by (simp_all add: sample_totals_def sample_accounting_def accounting_zero_def)
  ultimately show ?thesis
    by (simp add: draw_boundary_def sample_effective ratio_ceiling_def risk_ceilings_def add_risk_def add_checked_def
        choose_ceiling_def sample_policy_sel)
qed

lemma sample_totals_sel:
  "da_guarantees sample_totals = 30" "da_reserve sample_totals = 5" "da_min_headroom sample_totals = 10"
  "da_contingent_committed sample_totals = 50" "da_effective_usable sample_totals = 100"
  "da_burst_committed sample_totals = 0" "da_degraded sample_totals = 0" "da_failed sample_totals = 0"
  by (simp_all add: sample_totals_def sample_accounting_def accounting_zero_def)

lemma sample_derived:
  "derive_accounting sample_policy (draw_boundary sample_policy sample_domain sample_totals True) = (sample_final, True)"
  "da_contingent_free sample_final = 65" "da_overage sample_final = 0" "da_effective_usable sample_final = 100"
  "da_guarantees sample_final = 30" "da_protected_required sample_final = 35" "da_floor_required sample_final = 45"
  "da_ceiling sample_final = 150" "da_committed sample_final = 80" "da_burst_committed sample_final = 0"
  "da_degraded sample_final = 0" "da_failed sample_final = 0" "da_contingent_committed sample_final = 50"
  "da_contingent_ceiling sample_final = 115" "da_effective_ratio sample_final = Ratio 3 2"
proof -
  have sums: "add_checked 30 5 = Some (35 :: u64)" "add_checked 35 10 = Some (45 :: u64)" "add_checked 30 50 = Some (80 :: u64)"
    by (simp_all add: add_checked_def)
  show "derive_accounting sample_policy (draw_boundary sample_policy sample_domain sample_totals True) = (sample_final, True)"
    by (simp add: sample_final_def sample_boundary derive_accounting_def sums sample_totals_sel Let_def)
  show "da_contingent_free sample_final = 65" "da_overage sample_final = 0" "da_effective_usable sample_final = 100"
    "da_guarantees sample_final = 30" "da_protected_required sample_final = 35" "da_floor_required sample_final = 45"
    "da_ceiling sample_final = 150" "da_committed sample_final = 80" "da_burst_committed sample_final = 0"
    "da_degraded sample_final = 0" "da_failed sample_final = 0" "da_contingent_committed sample_final = 50"
    "da_contingent_ceiling sample_final = 115" "da_effective_ratio sample_final = Ratio 3 2"
    unfolding sample_final_def sample_boundary derive_accounting_def
    by (simp_all add: sums sample_totals_sel excess_def Let_def)
qed

lemma sample_close:
  assumes "er_accounting r = sample_totals"
  shows "\<exists>r' ras. close_boundary sample_policy sample_domain
      \<lparr>tt_result = r, tt_resources = [(sample_row 50)\<lparr>ra_contingent_pending := 5, ra_committed := 80\<rparr>], tt_closed = True\<rparr>
    = Inr (r', ras) \<and> er_accounting r' = sample_final \<and> guarantee_violation ras = (0, 0)"
proof -
  have "mul_div_floor 100 3 2 = Some 150" by (simp add: mul_div_floor_nat)
  then have row: "resource_boundary (Ratio 3 2) ((sample_row 50)\<lparr>ra_contingent_pending := 5, ra_committed := 80\<rparr>)
      = ((sample_row 50)\<lparr>ra_contingent_pending := 5, ra_committed := 80, ra_ceiling := 150, ra_contingent_ceiling := 120,
           ra_contingent_free := 70, ra_overage := 0, ra_protected_headroom := 70\<rparr>, True)"
    by (simp add: resource_boundary_def sample_row_def accum_of_def excess_def)
  have drawn: "bd_effective (draw_boundary sample_policy sample_domain sample_totals True) = Ratio 3 2"
    by (simp add: sample_boundary)
  have broken: "break_down sample_limits (Ratio 3 2) c [(sample_row 50)\<lparr>ra_contingent_pending := 5, ra_committed := 80\<rparr>] r' True
      = (r'\<lparr>er_resources := er_resources r' @ [resource_row c fin]\<rparr>, [fin], True)"
    if "fin = (sample_row 50)\<lparr>ra_contingent_pending := 5, ra_committed := 80, ra_ceiling := 150, ra_contingent_ceiling := 120,
           ra_contingent_free := 70, ra_overage := 0, ra_protected_headroom := 70\<rparr>" for c r' fin
    unfolding break_down_def list.map row that by (simp add: sample_limits_def)
  show ?thesis
    using assms
    by (simp add: close_boundary_def sample_derived drawn sample_policy_sel broken note_degradation_def Let_def
        guarantee_violation_def)
      (simp add: sample_row_def accum_of_def)
qed

lemma sample_decision:
  assumes "er_accounting r = sample_final" and "iter cs = [(2, 50)]"
  shows "er_outcome (decide iter sample_policy (index_rebuild sample_policy) sample_domain
      \<lparr>fi_unmapped = 0, fi_ineligible_amount = 0, fi_ineligible_class = 0, fi_violation = 0, fi_violation_id = 0,
       fi_contingent = cs\<rparr> r) = Outcome_WithinPolicy"
proof -
  have "check_share sample_policy (index_rebuild sample_policy) sample_domain f r () (2, 50) = Inr ()" for f
    by (simp add: check_share_def) (simp add: sample_class_def)
  then show ?thesis
    using assms
    by (simp add: decide_def decide_protection_def decide_overage_def sample_derived sample_domain_def decide_within_def Let_def)
qed


lemma sample_within:
  "er_outcome (evaluate_domain id sample_policy (index_rebuild sample_policy) sample_domain sample_expectation
     (sample_evidence [sample_demand]) 21) = Outcome_WithinPolicy"
proof -
  let ?r1 = "bind_authority sample_policy sample_domain sample_expectation 21 sample_capacity sample_reservations
    (sample_admissions [sample_demand]) (initial_result sample_policy sample_domain sample_expectation)"
  define r3 where "r3 = ?r1\<lparr>er_authority := (er_authority ?r1)\<lparr>av_resource_set_fold := resource_set_fold [accum_of sample_resource 100]\<rparr>\<rparr>"
  have a3: "er_accounting (upd_acc (\<lambda>a. a\<lparr>da_guarantees := 30\<rparr>) r3)
      = sample_accounting\<lparr>da_contingent_committed := 0, da_contingent_pending := 0\<rparr>"
    by (simp add: r3_def bind_authority_def initial_result_def sample_accounting_def accounting_zero_def sample_domain_def)
  define r4 where "r4 = (upd_acc (\<lambda>a. a\<lparr>da_guarantees := 30\<rparr>) r3)\<lparr>er_accounting := sample_accounting\<rparr>"
  have demands: "sum_demands sample_policy (index_rebuild sample_policy) sample_domain [1 \<mapsto> 0] (sample_admissions [sample_demand])
       [sample_row 0] (upd_acc (\<lambda>a. a\<lparr>da_guarantees := 30\<rparr>) r3)
     = Inr \<lparr>dl_result = r4, dl_resources = [(sample_row 50)\<lparr>ra_contingent_pending := 5\<rparr>], dl_seen = {1}, dl_contingent = [(2, 50)],
            dl_admitted = [], dl_ineligible_amount = 0, dl_ineligible_class = 0\<rparr>"
    by (subst sample_demands [OF a3]) (simp_all add: r4_def sample_accounting_def)
  have a4: "er_accounting r4 = sample_accounting" by (simp add: r4_def)
  have "er_accounting (r4\<lparr>er_accounting := sample_totals\<rparr>) = sample_totals" by simp
  from sample_close [OF this] obtain r' ras where close: "close_boundary sample_policy sample_domain
      \<lparr>tt_result = r4\<lparr>er_accounting := sample_totals\<rparr>,
       tt_resources = [(sample_row 50)\<lparr>ra_contingent_pending := 5, ra_committed := 80\<rparr>], tt_closed = True\<rparr>
    = Inr (r', ras)" and r': "er_accounting r' = sample_final" and v: "guarantee_violation ras = (0, 0)"
    by blast
  show ?thesis
    unfolding evaluate_domain_def Let_def
    by (simp add: sample_binding sample_fresh sample_bounds sample_members sample_guarantees demands sample_sums [OF a4]
        close v unmapped_guaranteed_def sample_decision [OF r'] flip: r3_def)
qed

end
