(* ===== verification/Verdict.thy ===== *)
theory Verdict
  imports Samples
begin

text \<open>
  What an evaluation decides, as a function of the bound evidence over the natural numbers: \<open>verdict\<close>
  is the classification an operator reads in the policy, and the properties of this theory show that
  \<^verbatim>\<open>evaluate_domain\<close> implements it and what each of its answers guarantees.
\<close>

section \<open>The verdict\<close>

definition domain_ratio :: "policy \<Rightarrow> domain_config \<Rightarrow> capacity_snapshot \<Rightarrow> ratio" where
  "domain_ratio p d cap = fst (effective_ratio p d (degraded_domain d cap))"

definition domain_ceiling :: "policy \<Rightarrow> domain_config \<Rightarrow> capacity_snapshot \<Rightarrow> nat" where
  "domain_ceiling p d cap = legal_ceiling p (domain_ratio p d cap) (members_usable d cap)"

definition protected_floor :: "domain_config \<Rightarrow> reservation_snapshot \<Rightarrow> nat" where
  "protected_floor d res = scope_guarantees d res + unat (dm_reserve_units d)"

definition headroom_floor :: "domain_config \<Rightarrow> reservation_snapshot \<Rightarrow> nat" where
  "headroom_floor d res = protected_floor d res + unat (dm_headroom_units d)"

definition emergency_overage :: "policy \<Rightarrow> nat \<Rightarrow> nat \<Rightarrow> bool" where
  "emergency_overage p committed ceiling \<longleftrightarrow>
     ceiling = 0 \<or> unat (th_emergency_overage_ppm (pl_thresholds p)) \<le> ((committed - ceiling) * 1000000 + ceiling - 1) div ceiling"

definition share_exceeded :: "policy \<Rightarrow> domain_config \<Rightarrow> nat \<Rightarrow> admission_snapshot \<Rightarrow> service_class_ref \<Rightarrow> bool" where
  "share_exceeded p d room adm c \<longleftrightarrow>
     sc_has_share_cap c \<and> class_contingent p d adm (sc_id c) > room * unat (sc_share_cap_ppm c) div 1000000"

text \<open>Contradicted obligations and emergencies come first, then the overage, then the shares.\<close>

definition protection_verdict ::
  "policy \<Rightarrow> domain_config \<Rightarrow> capacity_snapshot \<Rightarrow> reservation_snapshot \<Rightarrow> admission_snapshot \<Rightarrow> outcome option" where
  "protection_verdict p d cap res adm =
     (let U = members_usable d cap; L = domain_ceiling p d cap; P = protected_floor d res; F = headroom_floor d res in
      if \<exists>rec \<in> set (as_records adm). ineligible_demand p d rec then Some Outcome_PolicyRejected
      else if \<exists>x \<in> set (dm_members d). member_guarantees res x > member_usable cap x then Some Outcome_EmergencyReduction
      else if P > U then Some Outcome_EmergencyReduction
      else if F > U \<or> F > L then Some Outcome_PolicyRejected
      else if U = 0
      then (if scope_guarantees d res + scope_contingent p d adm > 0 then Some Outcome_EmergencyReduction
            else Some Outcome_AtLimit)
      else None)"

definition overage_verdict ::
  "policy \<Rightarrow> domain_config \<Rightarrow> capacity_snapshot \<Rightarrow> reservation_snapshot \<Rightarrow> admission_snapshot \<Rightarrow> outcome option" where
  "overage_verdict p d cap res adm =
     (let L = domain_ceiling p d cap; committed = scope_guarantees d res + scope_contingent p d adm in
      if committed > L
      then Some (if emergency_overage p committed L then Outcome_EmergencyReduction else Outcome_ReductionRequired)
      else if dm_burst_enabled d \<and> scope_burst p d adm > unat (dm_burst_cap_units d) then Some Outcome_ReductionRequired
      else None)"

definition verdict ::
  "policy \<Rightarrow> domain_config \<Rightarrow> capacity_snapshot \<Rightarrow> reservation_snapshot \<Rightarrow> admission_snapshot \<Rightarrow> outcome" where
  "verdict p d cap res adm =
     (case protection_verdict p d cap res adm of Some out \<Rightarrow> out
      | None \<Rightarrow>
     (case overage_verdict p d cap res adm of Some out \<Rightarrow> out
      | None \<Rightarrow>
     (let room = domain_ceiling p d cap - protected_floor d res in
      if \<exists>c \<in> set (pl_classes p). share_exceeded p d room adm c then Outcome_ReductionRequired
      else if scope_contingent p d adm < room then Outcome_WithinPolicy else Outcome_AtLimit)))"

section \<open>The decision computes the verdict\<close>

lemma overage_ppm_emergency:
  assumes "th_emergency_overage_ppm (pl_thresholds p) \<le> 1000000"
    and a: "unat (da_ceiling a) = L" "unat (da_overage a) = T - L"
  shows "th_emergency_overage_ppm (pl_thresholds p) \<le> overage_ppm a \<longleftrightarrow> emergency_overage p T L"
proof (cases "L = 0")
  case True
  then have "da_ceiling a = 0" using a(1) by (simp add: unat_eq_0)
  then show ?thesis using True assms(1) by (simp add: overage_ppm_def emergency_overage_def kPpmScale_def)
next
  case False
  then have c: "da_ceiling a \<noteq> 0" using a(1) by (auto simp: unat_eq_0)
  let ?q = "((T - L) * 1000000 + L - 1) div L" and ?t = "th_emergency_overage_ppm (pl_thresholds p)"
  have t: "unat ?t \<le> 1000000" using assms(1) by (simp add: word_le_nat_alt)
  show ?thesis
  proof (cases "2 ^ 64 \<le> ?q")
    case True
    then have "overage_ppm a = 1000000"
      using c a by (simp add: overage_ppm_def mul_div_ceil_nat kPpmScale_def)
    moreover have "unat ?t \<le> ?q" using True t by simp
    ultimately show ?thesis using assms(1) False by (simp add: emergency_overage_def)
  next
    case fits: False
    then have "overage_ppm a = word_of_nat ?q"
      using c a by (simp add: overage_ppm_def mul_div_ceil_nat kPpmScale_def)
    then have "unat (overage_ppm a) = ?q" using fits by simp
    then show ?thesis using False by (simp add: word_le_nat_alt emergency_overage_def)
  qed
qed

lemma share_scaled:
  assumes "(ppm :: u64) \<le> 1000000" and "unat c = room"
  shows "mul_div_floor c ppm kPpmScale = Some (word_of_nat (room * unat ppm div 1000000))
      \<and> unat (word_of_nat (room * unat ppm div 1000000) :: u64) = room * unat ppm div 1000000"
proof -
  have "room * unat ppm div 1000000 \<le> room * 1000000 div 1000000"
    by (intro div_le_mono mult_le_mono2) (use assms(1) in \<open>simp add: word_le_nat_alt\<close>)
  moreover have "room < 18446744073709551616" using assms(2) unat_u64_less by metis
  ultimately have "room * unat ppm div 1000000 < 18446744073709551616" by simp
  then show ?thesis using assms(2) by (simp add: mul_div_floor_nat kPpmScale_def flip: not_le)
qed

lemma check_share_reduces:
  assumes "check_share p (index_rebuild p) d f r () kv = Inl r'"
    and classes: "distinct (map sc_id (pl_classes p))" "\<forall>c \<in> set (pl_classes p). sc_has_share_cap c \<longrightarrow> sc_share_cap_ppm c \<le> 1000000"
  shows "er_outcome r' = Outcome_ReductionRequired"
proof -
  obtain k amount where kv: "kv = (k, amount)" by (cases kv)
  show ?thesis
  proof (cases "find_service_class p (StrongId k)")
    case None
    then show ?thesis using assms(1) by (simp add: kv check_share_def index_finds(2) [OF classes(1)])
  next
    case (Some cls)
    then have "cls \<in> set (pl_classes p)" by (auto simp: find_service_class_def find_Some_iff)
    then show ?thesis
    proof (cases "sc_has_share_cap cls")
      case True
      then have "sc_share_cap_ppm cls \<le> 1000000" using classes(2) \<open>cls \<in> set (pl_classes p)\<close> by blast
      note sc = share_scaled [OF this refl, THEN conjunct1]
      from assms(1) have "\<exists>r1. r' = finish p d f r1 Outcome_ReductionRequired Reason_ServiceClassShareExceeded
          ''a service class exceeds its contingent share of the ceiling''"
        unfolding kv check_share_def index_finds(2) [OF classes(1)] Let_def prod.case Some option.case sc
        using True by (simp only: if_False not_True_eq_False split: if_split_asm) blast+
      then show ?thesis by (elim exE) simp
    qed (use assms(1) Some in \<open>simp add: kv check_share_def index_finds(2) [OF classes(1)]\<close>)
  qed
qed

lemma share_loop_Inr:
  assumes a: "unat (da_contingent_ceiling (er_accounting r)) = room"
    and slots: "distinct (map fst (fi_contingent f))"
      "\<And>c. unat (slot_get (fi_contingent f) (id_value c)) = class_contingent p d adm c"
    and classes: "distinct (map sc_id (pl_classes p))" "\<forall>c \<in> set (pl_classes p). sc_has_share_cap c \<longrightarrow> sc_share_cap_ppm c \<le> 1000000"
    and xs: "set xs = set (fi_contingent f)"
  shows "for_each (check_share p (index_rebuild p) d f r) () xs = Inr ()
    \<longleftrightarrow> \<not> (\<exists>c \<in> set (pl_classes p). share_exceeded p d room adm c)"
proof -
  note scaled = share_scaled [OF _ a]
  have one: "check_share p (index_rebuild p) d f r () (k, amount) = Inr ()
      \<longleftrightarrow> (\<forall>c \<in> set (pl_classes p). id_value (sc_id c) = k \<longrightarrow> sc_has_share_cap c \<longrightarrow> unat amount \<le> room * unat (sc_share_cap_ppm c) div 1000000)"
    for k amount
  proof (cases "find_service_class p (StrongId k)")
    case None
    then have "\<forall>c \<in> set (pl_classes p). sc_id c \<noteq> StrongId k"
      by (simp add: find_service_class_def find_None_iff)
    then have "\<forall>c \<in> set (pl_classes p). id_value (sc_id c) \<noteq> k"
      by (metis strong_id.exhaust_sel)
    with None show ?thesis by (simp add: check_share_def index_finds(2) [OF classes(1)])
  next
    case (Some cls)
    then have cls: "cls \<in> set (pl_classes p)" "sc_id cls = StrongId k"
      by (auto simp: find_service_class_def find_Some_iff)
    have only: "c = cls" if "c \<in> set (pl_classes p)" "id_value (sc_id c) = k" for c
      using that cls classes(1) by (metis distinct_map inj_onD strong_id.exhaust_sel)
    have "check_share p (index_rebuild p) d f r () (k, amount) = Inr ()
        \<longleftrightarrow> (sc_has_share_cap cls \<longrightarrow> unat amount \<le> room * unat (sc_share_cap_ppm cls) div 1000000)"
    proof (cases "sc_has_share_cap cls")
      case True
      then have "sc_share_cap_ppm cls \<le> 1000000" using classes(2) cls(1) by blast
      note sc = scaled [OF this]
      show ?thesis
        unfolding check_share_def index_finds(2) [OF classes(1)] Let_def prod.case Some option.case sc [THEN conjunct1]
        using True by (simp add: word_less_nat_alt sc not_less)
    qed (use Some in \<open>simp add: check_share_def index_finds(2) [OF classes(1)]\<close>)
    moreover have "cls \<in> set (pl_classes p)" "id_value (sc_id cls) = k" using cls by simp_all
    ultimately show ?thesis using only by metis
  qed
  have "for_each (check_share p (index_rebuild p) d f r) () xs = Inr ()
      \<longleftrightarrow> (\<forall>(k, amount) \<in> set (fi_contingent f). \<forall>c \<in> set (pl_classes p). id_value (sc_id c) = k \<longrightarrow> sc_has_share_cap c
            \<longrightarrow> unat amount \<le> room * unat (sc_share_cap_ppm c) div 1000000)"
    unfolding for_each_check xs using one by auto
  also have "\<dots> \<longleftrightarrow> (\<forall>c \<in> set (pl_classes p). sc_has_share_cap c
            \<longrightarrow> unat (slot_get (fi_contingent f) (id_value (sc_id c))) \<le> room * unat (sc_share_cap_ppm c) div 1000000)"
  proof -
    have get: "slot_get (fi_contingent f) k = v" if "(k, v) \<in> set (fi_contingent f)" for k v
      using that slots(1) by (simp add: slot_get_def)
    have absent: "slot_get (fi_contingent f) k = 0" if "\<And>v. (k, v) \<notin> set (fi_contingent f)" for k
      using that by (auto simp: slot_get_def split: option.splits dest: map_of_SomeD)
    show ?thesis
    proof (intro iffI ballI impI)
      fix c assume l: "\<forall>(k, amount) \<in> set (fi_contingent f). \<forall>c \<in> set (pl_classes p). id_value (sc_id c) = k \<longrightarrow> sc_has_share_cap c
            \<longrightarrow> unat amount \<le> room * unat (sc_share_cap_ppm c) div 1000000"
        and c: "c \<in> set (pl_classes p)" "sc_has_share_cap c"
      show "unat (slot_get (fi_contingent f) (id_value (sc_id c))) \<le> room * unat (sc_share_cap_ppm c) div 1000000"
      proof (cases "\<exists>v. (id_value (sc_id c), v) \<in> set (fi_contingent f)")
        case True
        then obtain v where v: "(id_value (sc_id c), v) \<in> set (fi_contingent f)" by blast
        with l c show ?thesis by (auto simp: get [OF v])
      next
        case False
        then have "slot_get (fi_contingent f) (id_value (sc_id c)) = 0" by (intro absent) blast
        then show ?thesis by simp
      qed
    next
      fix kv assume r: "\<forall>c \<in> set (pl_classes p). sc_has_share_cap c
            \<longrightarrow> unat (slot_get (fi_contingent f) (id_value (sc_id c))) \<le> room * unat (sc_share_cap_ppm c) div 1000000"
        and kv: "kv \<in> set (fi_contingent f)"
      obtain k v where [simp]: "kv = (k, v)" by (cases kv)
      have "slot_get (fi_contingent f) k = v" using kv by (intro get) simp
      with r show "case kv of (k, amount) \<Rightarrow> \<forall>c \<in> set (pl_classes p). id_value (sc_id c) = k \<longrightarrow> sc_has_share_cap c
            \<longrightarrow> unat amount \<le> room * unat (sc_share_cap_ppm c) div 1000000" by auto
    qed
  qed
  finally show ?thesis by (auto simp: share_exceeded_def slots(2) not_less)
qed


lemma decide_verdict:
  assumes ev: "evaluation_of p d cap res adm f r" and unmapped: "fi_unmapped f = 0"
    and inst: "policy_installable p" and iter: "set (iter (fi_contingent f)) = set (fi_contingent f)"
  shows "er_outcome (decide iter p (index_rebuild p) d f r) = verdict p d cap res adm"
proof -
  define a where "a = er_accounting r"
  let ?U = "members_usable d cap" and ?L = "domain_ceiling p d cap" and ?C = "scope_contingent p d adm"
  have num: "unat (da_effective_usable a) = ?U" "unat (da_guarantees a) = scope_guarantees d res"
    "unat (da_contingent_committed a) = ?C" "unat (da_ceiling a) = ?L"
    "unat (da_committed a) = scope_guarantees d res + ?C" "unat (da_overage a) = scope_guarantees d res + ?C - ?L"
    "unat (da_protected_required a) = protected_floor d res" "unat (da_floor_required a) = headroom_floor d res"
    "unat (da_contingent_ceiling a) = ?L - protected_floor d res"
    "unat (da_contingent_free a) = ?L - protected_floor d res - ?C" "unat (da_burst_committed a) = scope_burst p d adm"
    using ev by (simp_all add: evaluation_of_def accounting_exact_def Let_def a_def domain_ceiling_def domain_ratio_def
        protected_floor_def headroom_floor_def)
  have ineligible: "0 < fi_ineligible_amount f \<longleftrightarrow> (\<exists>rec \<in> set (as_records adm). ineligible_demand p d rec)"
    and violation: "0 < fi_violation f \<longleftrightarrow> (\<exists>x \<in> set (dm_members d). member_guarantees res x > member_usable cap x)"
    using ev by (auto simp: evaluation_of_def word_gt_0 not_le)
  have thr: "th_emergency_overage_ppm (pl_thresholds p) \<le> 1000000"
    using inst by (auto simp: policy_installable_def check_thresholds_def kPpmScale_def Let_def split: if_splits)
  note emergency = overage_ppm_emergency [OF thr num(4,6)]
  have classes: "distinct (map sc_id (pl_classes p))" "\<forall>c \<in> set (pl_classes p). sc_has_share_cap c \<longrightarrow> sc_share_cap_ppm c \<le> 1000000"
    using inst by (auto simp: policy_installable_def class_installable_def kPpmScale_def)
  have slots: "distinct (map fst (fi_contingent f))"
    "\<And>c. unat (slot_get (fi_contingent f) (id_value c)) = class_contingent p d adm c"
    using ev by (simp_all add: evaluation_of_def)
  note share = share_loop_Inr [OF num(9) [unfolded a_def] slots classes iter]
  have order: "x < y \<longleftrightarrow> unat x < unat y" for x y :: u64 by (rule word_less_nat_alt)
  have zero: "x = 0 \<longleftrightarrow> unat x = 0" for x :: u64 by (simp add: unat_eq_0)
  have prot: "(case decide_protection p d f r of Inl r' \<Rightarrow> Some (er_outcome r') | Inr _ \<Rightarrow> None) = protection_verdict p d cap res adm"
    unfolding decide_protection_def protection_verdict_def Let_def ineligible violation unmapped a_def [symmetric]
    unfolding order zero num by (simp add: protected_floor_def)
  have over: "(case decide_overage p d f r of Inl r' \<Rightarrow> Some (er_outcome r') | Inr _ \<Rightarrow> None) = overage_verdict p d cap res adm"
    unfolding decide_overage_def overage_verdict_def Let_def a_def [symmetric] emergency
    unfolding order num by simp
  show ?thesis
  proof (cases "decide_protection p d f r")
    case (Inl r')
    then have "protection_verdict p d cap res adm = Some (er_outcome r')" using prot by simp
    then show ?thesis by (simp add: Inl decide_def verdict_def)
  next
    case p: (Inr u)
    show ?thesis
    proof (cases "decide_overage p d f r")
      case (Inl r')
      then have "protection_verdict p d cap res adm = None" "overage_verdict p d cap res adm = Some (er_outcome r')"
        using p prot over by simp_all
      then show ?thesis by (simp add: p Inl decide_def verdict_def)
    next
      case o: (Inr u)
      have none: "protection_verdict p d cap res adm = None" "overage_verdict p d cap res adm = None"
        using p o prot over by simp_all
      show ?thesis
      proof (cases "for_each (check_share p (index_rebuild p) d f r) () (iter (fi_contingent f))")
        case (Inl r')
        from for_each_check_fails [OF this] obtain kv where "check_share p (index_rebuild p) d f r () kv = Inl r'" by blast
        then have "er_outcome r' = Outcome_ReductionRequired" by (rule check_share_reduces [OF _ classes])
        moreover have "\<exists>c \<in> set (pl_classes p). share_exceeded p d (?L - protected_floor d res) adm c" using Inl share by auto
        ultimately show ?thesis using p o Inl by (simp add: decide_def verdict_def none)
      next
        case (Inr u')
        then have "\<not> (\<exists>c \<in> set (pl_classes p). share_exceeded p d (?L - protected_floor d res) adm c)" using share by auto
        then show ?thesis
          using p o Inr unfolding verdict_def none option.case Let_def
          by (simp add: decide_def decide_within_sel zero num(10) flip: a_def) arith
      qed
    qed
  qed
qed


lemma decide_refuses_unmapped: "fi_unmapped f \<noteq> 0 \<Longrightarrow> refused (decide iter p ix d f r)"
  by (simp add: decide_def decide_protection_def Let_def refused_def word_gt_0)

text \<open>Every evaluation, refused or decided, grants what its outcome says.\<close>

lemma evaluation_grant: "grant_consistent (evaluate_domain iter p ix d ex ev tick)"
proof (cases rule: evaluate_cases [of iter p ix d ex ev tick])
  case refused
  then show ?thesis by (simp add: refused_def)
next
  case (decided cap res adm m g s t r ras violation violation_id r1 r3)
  then show ?thesis using decide_frame by simp
qed

text \<open>The decided run in one step: its evidence, its verdict, its accounting and its authority.\<close>

lemma evaluation_facts:
  assumes "\<not> refused (evaluate_domain iter p (index_rebuild p) d ex ev tick)"
    and inst: "policy_installable p" and d: "d \<in> set (pl_domains p)" and iter: "\<And>xs. set (iter xs) = set xs"
  obtains cap res adm where "bound_evidence p d ex ev tick cap res adm"
    "er_outcome (evaluate_domain iter p (index_rebuild p) d ex ev tick) = verdict p d cap res adm"
    "accounting_exact p d (members_usable d cap) (scope_guarantees d res) (scope_contingent p d adm)
       (er_accounting (evaluate_domain iter p (index_rebuild p) d ex ev tick))"
    "da_effective_ratio (er_accounting (evaluate_domain iter p (index_rebuild p) d ex ev tick)) = domain_ratio p d cap"
    "grant_consistent (evaluate_domain iter p (index_rebuild p) d ex ev tick)"
    "\<And>x c. guaranteed_admissions d adm x c \<le> backing_guarantees d res x c"
    "authority_complete (er_authority (evaluate_domain iter p (index_rebuild p) d ex ev tick))
       \<longleftrightarrow> id_valid (dm_id d) \<and> id_valid (pl_id p) \<and> id_valid (rb_id (pl_risk_budget p))"
proof -
  let ?r = "evaluate_domain iter p (index_rebuild p) d ex ev tick"
  from evaluation_decided [OF assms(1) inst d] obtain cap res adm f r where
    b: "bound_evidence p d ex ev tick cap res adm" and ev: "evaluation_of p d cap res adm f r"
    and run: "?r = decide iter p (index_rebuild p) d f r"
    and auth: "\<exists>v. er_authority r = (er_authority (bind_authority p d ex tick cap res adm (initial_result p d ex)))
         \<lparr>av_resource_set_fold := v\<rparr>"
    by blast
  have f: "fi_unmapped f = 0" using assms(1) decide_refuses_unmapped [of f] unfolding run by blast
  note frame = decide_frame [of iter p "index_rebuild p" d f r]
  have "authority_complete (er_authority ?r) \<longleftrightarrow> id_valid (dm_id d) \<and> id_valid (pl_id p) \<and> id_valid (rb_id (pl_risk_budget p))"
    unfolding run frame [THEN conjunct2, THEN conjunct1]
    using b auth by (auto simp: bound_evidence_def authority_complete_def bind_authority_def initial_result_def)
  moreover have "er_outcome ?r = verdict p d cap res adm" unfolding run by (rule decide_verdict [where iter = iter, OF ev f inst iter])
  moreover have "er_accounting ?r = er_accounting r" "grant_consistent ?r" using frame unfolding run by simp_all
  moreover have "accounting_exact p d (members_usable d cap) (scope_guarantees d res) (scope_contingent p d adm) (er_accounting r)"
    "da_effective_ratio (er_accounting r) = domain_ratio p d cap"
    using ev by (simp_all add: evaluation_of_def domain_ratio_def)
  moreover have "guaranteed_admissions d adm x c \<le> backing_guarantees d res x c" for x c
    using ev f by (simp add: evaluation_of_def)
  ultimately show thesis using that [OF b] by (simp only:)
qed

section \<open>The properties\<close>

text \<open>
  C1. Refinement: an evaluation that is not refused answers the verdict of the evidence it bound. The
  64-bit phases, hash maps and early returns of \<^verbatim>\<open>evaluate_domain\<close> compute the classification that
  is stated over unbounded sums of the snapshots.
\<close>

theorem evaluation_refines_verdict:
  assumes "policy_installable p" and "d \<in> set (pl_domains p)" and "\<And>xs. set (iter xs) = set xs"
    and "\<not> refused (evaluate_domain iter p (index_rebuild p) d ex ev tick)"
  shows "\<exists>cap res adm. bound_evidence p d ex ev tick cap res adm
    \<and> er_outcome (evaluate_domain iter p (index_rebuild p) d ex ev tick) = verdict p d cap res adm"
  by (rule evaluation_facts [OF assms(4,1,2,3)]) blast

lemma sample_domains: "sample_domain \<in> set (pl_domains sample_policy)"
  by (simp add: sample_policy_def)

lemma sample_not_refused:
  "\<not> refused (evaluate_domain id sample_policy (index_rebuild sample_policy) sample_domain sample_expectation
     (sample_evidence [sample_demand]) 21)"
  by (simp add: refused_def sample_within)

theorem evaluation_refines_verdict_witness:
  "\<exists>cap res adm. bound_evidence sample_policy sample_domain sample_expectation (sample_evidence [sample_demand]) 21 cap res adm
    \<and> er_outcome (evaluate_domain id sample_policy (index_rebuild sample_policy) sample_domain sample_expectation
         (sample_evidence [sample_demand]) 21) = verdict sample_policy sample_domain cap res adm"
  by (rule evaluation_refines_verdict [OF sample_installable sample_domains _ sample_not_refused]) simp

lemma verdict_within:
  assumes "verdict p d cap res adm = Outcome_WithinPolicy"
  shows "protected_floor d res + scope_contingent p d adm < domain_ceiling p d cap"
    "headroom_floor d res \<le> members_usable d cap" "headroom_floor d res \<le> domain_ceiling p d cap"
  using assms by (auto simp: verdict_def protection_verdict_def overage_verdict_def Let_def split: option.splits if_splits)

text \<open>
  C3. Safety of a grant: when an evaluation authorises new oversubscription, guarantees, reserve,
  contingent commitments and the granted increment add up to the legal ceiling exactly, the increment
  is not zero, and guarantees, reserve and protected headroom fit both the usable capacity and the
  ceiling. Granting the whole increment can therefore never take the domain over its ceiling.
\<close>

theorem authorised_increment_exact:
  assumes "policy_installable p" and "d \<in> set (pl_domains p)" and "\<And>xs. set (iter xs) = set xs"
    and "r = evaluate_domain iter p (index_rebuild p) d ex ev tick" and "er_authorized r"
  shows "\<exists>cap res adm. bound_evidence p d ex ev tick cap res adm
    \<and> protected_floor d res + scope_contingent p d adm + unat (er_increment r) = domain_ceiling p d cap
    \<and> 0 < unat (er_increment r)
    \<and> headroom_floor d res \<le> members_usable d cap \<and> headroom_floor d res \<le> domain_ceiling p d cap"
proof -
  have out: "er_outcome r = Outcome_WithinPolicy" and inc: "er_increment r = da_contingent_free (er_accounting r)"
    using assms(5) evaluation_grant [of iter p "index_rebuild p" d ex ev tick]
    unfolding assms(4) by (simp_all add: grant_consistent_def)
  then have "\<not> refused r" by (simp add: refused_def)
  from evaluation_facts [OF this [unfolded assms(4)] assms(1-3)] obtain cap res adm where
    b: "bound_evidence p d ex ev tick cap res adm" and v: "er_outcome r = verdict p d cap res adm"
    and a: "accounting_exact p d (members_usable d cap) (scope_guarantees d res) (scope_contingent p d adm) (er_accounting r)"
      "da_effective_ratio (er_accounting r) = domain_ratio p d cap"
    unfolding assms(4) by metis
  note within = verdict_within [OF v [symmetric, unfolded out]]
  have "unat (er_increment r) = domain_ceiling p d cap - protected_floor d res - scope_contingent p d adm"
    using a by (simp add: inc accounting_exact_def Let_def domain_ceiling_def protected_floor_def)
  then show ?thesis using b within by (intro exI [of _ cap] exI [of _ res] exI [of _ adm]) simp
qed


theorem authorised_increment_exact_witness:
  "\<exists>cap res adm. bound_evidence sample_policy sample_domain sample_expectation (sample_evidence [sample_demand]) 21 cap res adm
    \<and> protected_floor sample_domain res + scope_contingent sample_policy sample_domain adm
        + unat (er_increment (evaluate_domain id sample_policy (index_rebuild sample_policy) sample_domain sample_expectation
             (sample_evidence [sample_demand]) 21)) = domain_ceiling sample_policy sample_domain cap
    \<and> 0 < unat (er_increment (evaluate_domain id sample_policy (index_rebuild sample_policy) sample_domain sample_expectation
             (sample_evidence [sample_demand]) 21))
    \<and> headroom_floor sample_domain res \<le> members_usable sample_domain cap
    \<and> headroom_floor sample_domain res \<le> domain_ceiling sample_policy sample_domain cap"
proof (rule authorised_increment_exact [OF sample_installable sample_domains _ refl])
  show "er_authorized (evaluate_domain id sample_policy (index_rebuild sample_policy) sample_domain sample_expectation
      (sample_evidence [sample_demand]) 21)"
    using evaluation_grant sample_within by (metis grant_consistent_def)
qed simp

lemma verdict_protects:
  assumes "verdict p d cap res adm \<in> {Outcome_WithinPolicy, Outcome_AtLimit, Outcome_ReductionRequired}"
  shows "\<forall>x \<in> set (dm_members d). member_guarantees res x \<le> member_usable cap x"
    "\<forall>rec \<in> set (as_records adm). \<not> ineligible_demand p d rec"
    "protected_floor d res \<le> members_usable d cap"
  using assms
  by (auto simp: verdict_def protection_verdict_def Let_def not_less split: option.splits if_splits)

text \<open>
  C6. Safety of the positive outcomes: when the answer is that the domain is within its policy, at its
  limit, or must only reduce, then every member resource covers its own guarantees, every
  guaranteed-class admission is backed by a reservation of its resource and class, no ineligible
  service class holds oversubscribed demand, and guarantees plus reserve fit the usable capacity.
\<close>

theorem positive_outcomes_protect:
  assumes "policy_installable p" and "d \<in> set (pl_domains p)" and "\<And>xs. set (iter xs) = set xs"
    and "er_outcome (evaluate_domain iter p (index_rebuild p) d ex ev tick)
           \<in> {Outcome_WithinPolicy, Outcome_AtLimit, Outcome_ReductionRequired}"
  shows "\<exists>cap res adm. bound_evidence p d ex ev tick cap res adm
    \<and> (\<forall>x \<in> set (dm_members d). member_guarantees res x \<le> member_usable cap x)
    \<and> (\<forall>x c. guaranteed_admissions d adm x c \<le> backing_guarantees d res x c)
    \<and> (\<forall>rec \<in> set (as_records adm). \<not> ineligible_demand p d rec)
    \<and> protected_floor d res \<le> members_usable d cap"
proof -
  have "\<not> refused (evaluate_domain iter p (index_rebuild p) d ex ev tick)" using assms(4) by (auto simp: refused_def)
  from evaluation_facts [OF this assms(1-3)] obtain cap res adm where
    "bound_evidence p d ex ev tick cap res adm"
    "er_outcome (evaluate_domain iter p (index_rebuild p) d ex ev tick) = verdict p d cap res adm"
    "\<And>x c. guaranteed_admissions d adm x c \<le> backing_guarantees d res x c"
    by metis
  then show ?thesis using assms(4) verdict_protects by (metis (no_types, lifting))
qed

theorem positive_outcomes_protect_witness:
  "\<exists>cap res adm. bound_evidence sample_policy sample_domain sample_expectation (sample_evidence [sample_demand]) 21 cap res adm
    \<and> (\<forall>x \<in> set (dm_members sample_domain). member_guarantees res x \<le> member_usable cap x)
    \<and> (\<forall>x c. guaranteed_admissions sample_domain adm x c \<le> backing_guarantees sample_domain res x c)
    \<and> (\<forall>rec \<in> set (as_records adm). \<not> ineligible_demand sample_policy sample_domain rec)
    \<and> protected_floor sample_domain res \<le> members_usable sample_domain cap"
  by (rule positive_outcomes_protect [OF sample_installable sample_domains, of id]) (simp_all add: sample_within)

lemma verdict_limits:
  assumes "verdict p d cap res adm = Outcome_WithinPolicy \<or> verdict p d cap res adm = Outcome_AtLimit"
  shows "scope_guarantees d res + scope_contingent p d adm \<le> domain_ceiling p d cap"
    "members_usable d cap \<noteq> 0 \<Longrightarrow> dm_burst_enabled d \<Longrightarrow> scope_burst p d adm \<le> unat (dm_burst_cap_units d)"
    "members_usable d cap \<noteq> 0 \<Longrightarrow> c \<in> set (pl_classes p) \<Longrightarrow>
       \<not> share_exceeded p d (domain_ceiling p d cap - protected_floor d res) adm c"
  using assms
  by (auto simp: verdict_def protection_verdict_def overage_verdict_def Let_def not_less protected_floor_def
      split: option.splits if_splits)

text \<open>
  C7. No silent overage: an evaluation that answers within policy or at the limit has the domain's
  commitments (guarantees plus contingent) under the legal ceiling, its burst commitments under the
  burst cap and every capped service class within its share.
\<close>

theorem no_silent_overage:
  assumes "policy_installable p" and "d \<in> set (pl_domains p)" and "\<And>xs. set (iter xs) = set xs"
    and "er_outcome (evaluate_domain iter p (index_rebuild p) d ex ev tick) \<in> {Outcome_WithinPolicy, Outcome_AtLimit}"
  shows "\<exists>cap res adm. bound_evidence p d ex ev tick cap res adm
    \<and> scope_guarantees d res + scope_contingent p d adm \<le> domain_ceiling p d cap
    \<and> (members_usable d cap = 0
       \<or> (if dm_burst_enabled d then scope_burst p d adm \<le> unat (dm_burst_cap_units d) else True)
         \<and> list_all (\<lambda>c. share_exceeded p d (domain_ceiling p d cap - protected_floor d res) adm c = False) (pl_classes p))"
proof -
  have "\<not> refused (evaluate_domain iter p (index_rebuild p) d ex ev tick)" using assms(4) by (auto simp: refused_def)
  from evaluation_facts [OF this assms(1-3)] obtain cap res adm where
    b: "bound_evidence p d ex ev tick cap res adm"
    and v: "er_outcome (evaluate_domain iter p (index_rebuild p) d ex ev tick) = verdict p d cap res adm"
    by metis
  have "verdict p d cap res adm = Outcome_WithinPolicy \<or> verdict p d cap res adm = Outcome_AtLimit"
    using assms(4) v by simp
  from verdict_limits [OF this] b show ?thesis by (auto simp: list_all_iff)
qed

theorem no_silent_overage_witness:
  "\<exists>cap res adm. bound_evidence sample_policy sample_domain sample_expectation (sample_evidence [sample_demand]) 21 cap res adm
    \<and> scope_guarantees sample_domain res + scope_contingent sample_policy sample_domain adm \<le> domain_ceiling sample_policy sample_domain cap
    \<and> (members_usable sample_domain cap = 0
       \<or> (if dm_burst_enabled sample_domain then scope_burst sample_policy sample_domain adm \<le> unat (dm_burst_cap_units sample_domain) else True)
         \<and> list_all (\<lambda>c. share_exceeded sample_policy sample_domain
               (domain_ceiling sample_policy sample_domain cap - protected_floor sample_domain res) adm c = False) (pl_classes sample_policy))"
  by (rule no_silent_overage [OF sample_installable sample_domains, of id]) (simp_all add: sample_within)

end
