(* ===== verification/Evaluation_Contract.thy ===== *)
theory Evaluation_Contract
  imports Evaluate_Facts
begin

text \<open>
  What every phase of an evaluation keeps, stated once: a predicate that the bookkeeping of the phases
  preserves holds of whatever \<^verbatim>\<open>evaluate_domain\<close> returns, on every early return.
\<close>

section \<open>The phases before the decision\<close>

definition evaluation_phases ::
  "policy \<Rightarrow> policy_index \<Rightarrow> domain_config \<Rightarrow> authority_expectation \<Rightarrow> domain_evidence \<Rightarrow> u64
   \<Rightarrow> evaluation_result + (findings \<times> evaluation_result)" where
  "evaluation_phases p ix d ex ev tick =
     (let r0 = initial_result p d ex in
      and_then (check_binding p d ex ev r0) (\<lambda>(cap, res, adm).
      let r1 = bind_authority p d ex tick cap res adm r0 in
      and_then (check_freshness p d tick cap res adm r1) (\<lambda>_.
      and_then (check_bounds p d cap res adm r1) (\<lambda>_.
      and_then (collect_members p d cap r1) (\<lambda>m.
      let r2 = ml_result m;
          r3 = r2\<lparr>er_authority := (er_authority r2)\<lparr>av_resource_set_fold := resource_set_fold (ml_resources m)\<rparr>\<rparr> in
      and_then (sum_guarantees p ix d (ml_index m) res (ml_resources m) r3) (\<lambda>g.
      and_then (sum_demands p ix d (ml_index m) adm (gl_resources g) (gl_result g)) (\<lambda>s.
      and_then (sum_totals p d (dl_resources s) (dl_result s)) (\<lambda>t.
      and_then (close_boundary p d t) (\<lambda>(r, ras).
      let (violation, violation_id) = guarantee_violation ras in
      Inr (\<lparr>fi_unmapped = unmapped_guaranteed (gl_by_class g) (dl_admitted s), fi_ineligible_amount = dl_ineligible_amount s,
            fi_ineligible_class = dl_ineligible_class s, fi_violation = violation, fi_violation_id = violation_id,
            fi_contingent = dl_contingent s\<rparr>, r))))))))))"

lemma and_then_assoc: "and_then (and_then m f) g = and_then m (\<lambda>x. and_then (f x) g)"
  by (cases m) (simp_all add: and_then_def)

lemma evaluate_by_phases:
  "evaluate_domain iter p ix d ex ev tick
     = returned (and_then (evaluation_phases p ix d ex ev tick) (\<lambda>(f, r). Inr (decide iter p ix d f r)))"
  by (simp add: evaluate_domain_def evaluation_phases_def Let_def split_def and_then_assoc)

section \<open>The contract\<close>

lemma wf_outcomes [simp]:
  "wf_outcome Outcome_Unknown" "wf_outcome Outcome_Stale" "wf_outcome Outcome_ConflictingInput" "wf_outcome Outcome_WithinPolicy"
  "wf_outcome Outcome_AtLimit" "wf_outcome Outcome_ReductionRequired" "wf_outcome Outcome_EmergencyReduction"
  "wf_outcome Outcome_PolicyRejected"
  by (simp_all add: wf_outcome_def)

lemma boundary_binding_wf: "wf_constraint (da_binding (fst (derive_accounting p (draw_boundary p d a closed))))"
proof -
  have choice: "wf_constraint (snd (choose_ceiling cs x b))" if "wf_constraint b" "\<forall>(c, v) \<in> set cs. wf_constraint c" for cs x b
    using that unfolding choose_ceiling_def by (induction cs arbitrary: x b) (auto split: if_splits)
  have named: "wf_constraint Constraint_PolicyRatioCap" "wf_constraint Constraint_ConfiguredRatio"
      "wf_constraint Constraint_DegradedRatioCap" "wf_constraint Constraint_RiskBudgetExposureAbsolute"
      "wf_constraint Constraint_RiskBudgetExposurePpm" "wf_constraint Constraint_NoCapacity"
    by (simp_all add: wf_constraint_def)
  have ratio: "wf_constraint (fst (snd (effective_ratio p d degraded)))" for degraded
    by (simp add: effective_ratio_def Let_def named)
  have candidates: "\<forall>(c, v) \<in> set (ce_candidates (risk_ceilings b usable (ratio_ceiling usable e c0 closed))). wf_constraint c"
    if "wf_constraint c0" for b usable e c0
    using that named by (auto simp: risk_ceilings_def add_risk_def ratio_ceiling_def Let_def split: option.splits)
  have "wf_constraint (snd (choose_ceiling (ce_candidates (risk_ceilings b usable (ratio_ceiling usable e c closed))) x c))"
    if "wf_constraint c" for b usable e c x
    using choice [OF that candidates [OF that]] .
  then show ?thesis by (simp add: draw_boundary_def derive_accounting_def Let_def split_def ratio named)
qed

text \<open>
  \<open>F\<close> holds of a result under construction up to the boundary, \<open>B\<close> from there on and of rejections.
\<close>

locale evaluation_contract =
  fixes p :: policy
    and F B :: "evaluation_result \<Rightarrow> bool"
  assumes fresh_upd: "(\<And>a. da_binding (f a) = da_binding a) \<Longrightarrow> F (upd_acc f r) = F r"
    and fresh_fold: "F r \<Longrightarrow> F (r\<lparr>er_authority := (er_authority r)\<lparr>av_resource_set_fold := v\<rparr>\<rparr>)"
    and weaken: "F r \<Longrightarrow> B r"
    and rows: "F r \<Longrightarrow> wf_constraint (da_binding a) \<Longrightarrow>
      B (fst (break_down (pl_limits p) e b ras (r\<lparr>er_accounting := a\<rparr>) c))"
    and share_intent: "B r \<Longrightarrow> B (add_intent (pl_limits p) ((base_intent d Corrective_ReduceContingentAdmissionBudget Target_ServiceClass
      Reason_ServiceClassShareExceeded ''service class exceeds its contingent share'')\<lparr>ci_class := sc, ci_amount := units\<rparr>) r)"
    and annotated: "B r \<Longrightarrow> B (add_note (pl_limits p) t r)"
    and open_boundary: "B r \<Longrightarrow> B (upd_acc (\<lambda>a. a\<lparr>da_closed := False\<rparr>) r)"
    and rejected: "B r \<Longrightarrow> wf_outcome out \<Longrightarrow> B (reject p d r out reason detail)"
    and finished: "B r \<Longrightarrow> wf_outcome out \<Longrightarrow> B (finish p d fi r out reason detail)"
begin

lemmas fresh_reject = rejected [OF weaken]

text \<open>The phases before the boundary leave the lists empty, and stop with a bounded rejection.\<close>

lemma checks:
  assumes "F r"
  shows "check_binding p d ex ev r = Inl r' \<Longrightarrow> B r'"
    "check_freshness p d tick cap res adm r = Inl r' \<Longrightarrow> B r'"
    "check_bounds p d cap res adm r = Inl r' \<Longrightarrow> B r'"
  using assms
  by (auto simp: check_binding_def check_freshness_def stale_or_future_def check_bounds_def Let_def fresh_reject
      split: option.splits if_splits)

lemma collect_members:
  assumes fresh: "F r"
  shows "collect_members p d cap r = Inl r' \<Longrightarrow> B r'"
    "collect_members p d cap r = Inr m \<Longrightarrow> F (ml_result m)"
proof -
  have step: "F (ml_result s')" if "F (ml_result s)" "collect_member p d c s x = Inr s'" for c s s' x
    using that by (auto simp: collect_member_def push_member_def fresh_upd split: option.splits if_splits resource_health.splits)
  have stop: "B r'" if "F (ml_result s)" "collect_member p d c s x = Inl r'" for c s r' x
    using that by (auto simp: collect_member_def fresh_reject split: option.splits if_splits resource_health.splits)
  have index: "B r'" if "index_capacity p d r m x = Inl r'" for m x r'
    using that fresh by (auto simp: index_capacity_def fresh_reject split: option.splits)
  show "collect_members p d cap r = Inl r' \<Longrightarrow> B r'"
    unfolding collect_members_def and_then_Inl_iff
    by (auto elim!: for_each_early [where I = "\<lambda>_. True"] for_each_early [where I = "\<lambda>s. F (ml_result s)"]
        simp: index stop step fresh)
  show "collect_members p d cap r = Inr m \<Longrightarrow> F (ml_result m)"
    unfolding collect_members_def and_then_Inr_iff
    by (auto elim!: for_each_invariant [where I = "\<lambda>s. F (ml_result s)"] simp: step fresh)
qed

lemma sum_guarantees:
  assumes fresh: "F r"
  shows "sum_guarantees p ix d index res ras r = Inl r' \<Longrightarrow> B r'"
    "sum_guarantees p ix d index res ras r = Inr g \<Longrightarrow> F (gl_result g)"
proof -
  have step: "F (gl_result s')" if "F (gl_result s)" "sum_guarantee p ix d index s x = Inr s'" for s s' x
    using that by (auto simp: sum_guarantee_def Let_def and_then_Inr_iff fresh_upd split: option.splits if_splits)
  have stop: "B r'" if "F (gl_result s)" "sum_guarantee p ix d index s x = Inl r'" for s r' x
    using that by (auto simp: sum_guarantee_def Let_def and_then_Inl_iff or_reject_Inl or_reject_Inr fresh_reject fresh_upd
        split: option.splits if_splits)
  let ?s0 = "\<lparr>gl_result = r, gl_resources = ras, gl_seen = {}, gl_by_class = Map.empty\<rparr>"
  have loop: "F (gl_result s)" if "for_each (sum_guarantee p ix d index) ?s0 (rs_guarantees res) = Inr s" for s
    by (rule for_each_invariant [where I = "\<lambda>s. F (gl_result s)", OF that]) (simp_all add: fresh step)
  have early: "B r'" if "for_each (sum_guarantee p ix d index) ?s0 (rs_guarantees res) = Inl r'" for r'
    by (rule for_each_early [where I = "\<lambda>s. F (gl_result s)", OF that]) (simp_all add: fresh step stop)
  have total: "B r'" if "for_each (total_guarantees p d x) c ys = Inl r'" "F x" for x c ys r'
    using that unfolding total_guarantees_def
    by (auto elim!: for_each_early [where I = "\<lambda>_. True"] simp: or_reject_Inl fresh_reject)
  show "sum_guarantees p ix d index res ras r = Inl r' \<Longrightarrow> B r'"
    unfolding sum_guarantees_def and_then_Inl_iff using early total loop by auto
  show "sum_guarantees p ix d index res ras r = Inr g \<Longrightarrow> F (gl_result g)"
    by (auto simp: sum_guarantees_def and_then_Inr_iff loop fresh_upd)
qed

lemma sum_demands:
  assumes fresh: "F r"
  shows "sum_demands p ix d index adm ras r = Inl r' \<Longrightarrow> B r'"
    "sum_demands p ix d index adm ras r = Inr s \<Longrightarrow> F (dl_result s)"
proof -
  have step: "F (dl_result s')" if "F (dl_result s)" "sum_demand p ix d index s x = Inr s'" for s s' x
    using that by (auto simp: sum_demand_def admit_guaranteed_def admit_contingent_def Let_def and_then_Inr_iff fresh_upd
        split: option.splits if_splits demand_kind.splits)
  have stop: "B r'" if "F (dl_result s)" "sum_demand p ix d index s x = Inl r'" for s r' x
    using that by (auto simp: sum_demand_def admit_guaranteed_def admit_contingent_def demand_overflow_def Let_def
        and_then_Inl_iff and_then_Inr_iff or_reject_Inl or_reject_Inr fresh_reject fresh_upd split: option.splits if_splits demand_kind.splits)
  show "sum_demands p ix d index adm ras r = Inl r' \<Longrightarrow> B r'"
    unfolding sum_demands_def
    by (rule for_each_early [where I = "\<lambda>s. F (dl_result s)"]) (assumption, simp_all add: fresh step stop)
  show "sum_demands p ix d index adm ras r = Inr s \<Longrightarrow> F (dl_result s)"
    unfolding sum_demands_def
    by (rule for_each_invariant [where I = "\<lambda>s. F (dl_result s)"]) (assumption, simp_all add: fresh step)
qed

lemma sum_totals:
  assumes "F r"
  shows "sum_totals p d ras r = Inl r' \<Longrightarrow> B r'"
    "sum_totals p d ras r = Inr t \<Longrightarrow> F (tt_result t)"
proof -
  have "F (tt_result (total_resource ra t)) = F (tt_result t)" for ra t
    unfolding total_resource_def Let_def totals.simps by (rule fresh_upd [unfolded upd_acc_def]) simp
  then have "F (tt_result (fold total_resource ras t))" if "F (tt_result t)" for t
    using that by (induction ras arbitrary: t) simp_all
  from this [of "\<lparr>tt_result = r, tt_resources = [], tt_closed = True\<rparr>"] assms
  have "F (tt_result (fold total_resource ras \<lparr>tt_result = r, tt_resources = [], tt_closed = True\<rparr>))" by simp
  then show "sum_totals p d ras r = Inl r' \<Longrightarrow> B r'"
    "sum_totals p d ras r = Inr t \<Longrightarrow> F (tt_result t)"
    by (auto simp: sum_totals_def Let_def fresh_reject split: if_splits)
qed

lemma close_boundary:
  assumes "F (tt_result t)"
  shows "close_boundary p d t = Inl r' \<Longrightarrow> B r'"
    "close_boundary p d t = Inr (r, ras) \<Longrightarrow> B r"
proof -
  define a where "a = fst (derive_accounting p (draw_boundary p d (er_accounting (tt_result t)) (tt_closed t)))"
  define s where "s = fst (break_down (pl_limits p) (bd_effective (draw_boundary p d (er_accounting (tt_result t)) (tt_closed t)))
      (da_binding a) (tt_resources t) ((tt_result t)\<lparr>er_accounting := a\<rparr>)
      (snd (derive_accounting p (draw_boundary p d (er_accounting (tt_result t)) (tt_closed t)))))"
  have "B s" unfolding s_def by (rule rows [OF assms]) (simp add: a_def boundary_binding_wf)
  then have noted: "B (note_degradation (pl_limits p) s)" by (simp add: note_degradation_def Let_def annotated)
  show "close_boundary p d t = Inl r' \<Longrightarrow> B r'" "close_boundary p d t = Inr (r, ras) \<Longrightarrow> B r"
    using noted unfolding close_boundary_def Let_def split_def a_def [symmetric] s_def [symmetric]
    by (auto simp: rejected open_boundary split: if_splits)
qed

lemma decided:
  assumes "B r"
  shows "B (decide iter p ix d f r)"
proof -
  have "B r'" if "decide_protection p d f r = Inl r'" for r'
    using that assms by (auto simp: decide_protection_def Let_def finished split: if_splits)
  moreover have "B r'" if "decide_overage p d f r = Inl r'" for r'
    using that assms by (auto simp: decide_overage_def Let_def finished split: if_splits)
  moreover have "B r'" if "check_share p ix d f r () kv = Inl r'" for r' kv
    using that assms by (auto simp: check_share_def Let_def finished share_intent
        split: option.splits if_splits prod.splits)
  moreover have "B (decide_within p d f r)"
    using assms by (simp add: decide_within_def Let_def finished annotated)
  ultimately show ?thesis
    by (cases rule: decide_cases [of p d f r iter ix]) (metis for_each_check_fails)+
qed

lemma evaluation:
  assumes "F (initial_result p d ex)" and "\<And>cap res adm. F (bind_authority p d ex tick cap res adm (initial_result p d ex))"
  shows "B (evaluate_domain iter p ix d ex ev tick)"
proof -
  have "B r'" if "evaluation_phases p ix d ex ev tick = Inl r'" for r'
    using that unfolding evaluation_phases_def Let_def
    by (auto simp: and_then_Inl_iff assms fresh_fold split: prod.splits
        dest!: checks [rotated] collect_members [rotated] sum_guarantees [rotated]
          sum_demands [rotated] sum_totals [rotated] close_boundary [rotated])
  moreover have "B r" if "evaluation_phases p ix d ex ev tick = Inr (f, r)" for f r
  proof -
    from that obtain cap res adm m g s t ras where
      "collect_members p d cap (bind_authority p d ex tick cap res adm (initial_result p d ex)) = Inr m"
      "sum_guarantees p ix d (ml_index m) res (ml_resources m) ((ml_result m)\<lparr>er_authority := (er_authority (ml_result m))
         \<lparr>av_resource_set_fold := resource_set_fold (ml_resources m)\<rparr>\<rparr>) = Inr g"
      "sum_demands p ix d (ml_index m) adm (gl_resources g) (gl_result g) = Inr s"
      "sum_totals p d (dl_resources s) (dl_result s) = Inr t" "close_boundary p d t = Inr (r, ras)"
      unfolding evaluation_phases_def Let_def split_def by (auto simp: and_then_Inr_iff prod_eq_iff)
    then show ?thesis
      by (metis assms(2) fresh_fold collect_members(2) sum_guarantees(2) sum_demands(2) sum_totals(2) close_boundary(2))
  qed
  ultimately show ?thesis
    unfolding evaluate_by_phases by (cases "evaluation_phases p ix d ex ev tick") (auto simp: decided)
qed

end

end
