(* ===== verification/Evaluation_Bounds.thy ===== *)
theory Evaluation_Bounds
  imports Verdict Evaluation_Contract
begin

text \<open>
  What holds of every evaluation beside its verdict: the effective ratio and the authority vector of a
  decided run, the bounds of the lists it returns, the independence of the outcome from the iteration
  order of the hash maps, and the demand the sums leave out.
\<close>

section \<open>The effective ratio\<close>

lemma effective_ratio_capped:
  assumes "domain_installable p d" and "ratio_installable (pl_ratio_cap p)"
  shows "ratio_le (fst (effective_ratio p d degraded)) (dm_configured_ratio d)
    \<and> ratio_le (fst (effective_ratio p d degraded)) (pl_ratio_cap p)
    \<and> (if degraded then ratio_le (fst (effective_ratio p d degraded))
         (if dm_has_degraded_cap d then dm_degraded_cap d else Ratio 1 1) else True)"
proof -
  let ?cap = "if dm_has_degraded_cap d then dm_degraded_cap d else Ratio 1 1"
  have conf: "ratio_le (dm_configured_ratio d) (pl_ratio_cap p)" and cap: "ratio_le ?cap (pl_ratio_cap p)"
    using assms by (auto simp: domain_installable_def ratio_installable_def ratio_le_def)
  have "fst (effective_ratio p d degraded) = (if degraded \<and> ratio_lt ?cap (dm_configured_ratio d) then ?cap else dm_configured_ratio d)"
    using conf by (simp add: effective_ratio_def ratio_gt_def ratio_le_def Let_def split: prod.splits)
  then show ?thesis
    using conf cap ratio_ge_refl ratio_ge_linear [of ?cap "dm_configured_ratio d"]
    by (auto simp: ratio_lt_def ratio_le_def)
qed

lemma installable_domain:
  "policy_installable p \<Longrightarrow> d \<in> set (pl_domains p) \<Longrightarrow> domain_installable p d \<and> ratio_installable (pl_ratio_cap p)"
  by (simp add: policy_installable_def)

text \<open>
  C35. The effective ratio of a decided evaluation never exceeds the configured ratio nor the policy cap,
  and as soon as a member resource is degraded or failed it is at most the degraded cap, which is 1:1
  where the domain configures none: degradation never raises the boundary.
\<close>

theorem effective_ratio_respects_caps:
  assumes "policy_installable p" and "d \<in> set (pl_domains p)" and "\<And>xs. set (iter xs) = set xs"
    and "\<not> refused (evaluate_domain iter p (index_rebuild p) d ex ev tick)"
    and "e = da_effective_ratio (er_accounting (evaluate_domain iter p (index_rebuild p) d ex ev tick))"
  shows "\<exists>cap. ev_capacity ev = Some cap \<and> ratio_le e (dm_configured_ratio d) \<and> ratio_le e (pl_ratio_cap p)
    \<and> (if degraded_domain d cap then ratio_le e (if dm_has_degraded_cap d then dm_degraded_cap d else Ratio 1 1) else True)"
proof -
  from evaluation_facts [OF assms(4,1,2,3)] obtain cap res adm where
    "bound_evidence p d ex ev tick cap res adm" "e = domain_ratio p d cap"
    unfolding assms(5) by metis
  then show ?thesis
    using effective_ratio_capped [of p d "degraded_domain d cap"] installable_domain [OF assms(1,2)]
    by (auto simp: bound_evidence_def domain_ratio_def)
qed

theorem effective_ratio_respects_caps_witness:
  "\<exists>cap. ev_capacity (sample_evidence [sample_demand]) = Some cap
    \<and> ratio_le (da_effective_ratio (er_accounting (evaluate_domain id sample_policy (index_rebuild sample_policy) sample_domain
          sample_expectation (sample_evidence [sample_demand]) 21))) (dm_configured_ratio sample_domain)
    \<and> ratio_le (da_effective_ratio (er_accounting (evaluate_domain id sample_policy (index_rebuild sample_policy) sample_domain
          sample_expectation (sample_evidence [sample_demand]) 21))) (pl_ratio_cap sample_policy)
    \<and> (if degraded_domain sample_domain cap
       then ratio_le (da_effective_ratio (er_accounting (evaluate_domain id sample_policy (index_rebuild sample_policy) sample_domain
              sample_expectation (sample_evidence [sample_demand]) 21)))
              (if dm_has_degraded_cap sample_domain then dm_degraded_cap sample_domain else Ratio 1 1)
       else True)"
  by (rule effective_ratio_respects_caps [OF sample_installable sample_domains _ sample_not_refused refl]) simp

section \<open>The authority of a decided evaluation\<close>

text \<open>
  C14. An evaluation that carries authority is bound to it: the three snapshots exist, belong to the
  domain, and carry exactly the epoch and generations the runtime owns; each was observed no later than
  the evaluation and within its freshness budget; and the authority vector of the result is complete.
\<close>

theorem authority_binds_evidence:
  assumes "policy_installable p" and "d \<in> set (pl_domains p)" and "\<And>xs. set (iter xs) = set xs"
    and "er_authority_valid (evaluate_domain iter p (index_rebuild p) d ex ev tick)"
  shows "\<exists>cap res adm. bound_evidence p d ex ev tick cap res adm
    \<and> authority_complete (er_authority (evaluate_domain iter p (index_rebuild p) d ex ev tick))"
proof -
  have "\<not> refused (evaluate_domain iter p (index_rebuild p) d ex ev tick)"
    using assms(4) evaluation_grant [of iter p "index_rebuild p" d ex ev tick]
    by (auto simp: refused_def grant_consistent_def outcome_is_authoritative_def)
  from evaluation_facts [OF this assms(1-3)] obtain cap res adm where
    b: "bound_evidence p d ex ev tick cap res adm"
    and a: "authority_complete (er_authority (evaluate_domain iter p (index_rebuild p) d ex ev tick))
       \<longleftrightarrow> id_valid (dm_id d) \<and> id_valid (pl_id p) \<and> id_valid (rb_id (pl_risk_budget p))"
    by metis
  have "id_valid (dm_id d)" "id_valid (pl_id p)" "id_valid (rb_id (pl_risk_budget p))"
    using assms(1) installable_domain [OF assms(1,2)]
    by (auto simp: policy_installable_def domain_installable_def check_risk_budget_def Let_def split: if_splits)
  with a b show ?thesis by blast
qed

theorem authority_binds_evidence_witness:
  "\<exists>cap res adm. bound_evidence sample_policy sample_domain sample_expectation (sample_evidence [sample_demand]) 21 cap res adm
    \<and> authority_complete (er_authority (evaluate_domain id sample_policy (index_rebuild sample_policy) sample_domain
         sample_expectation (sample_evidence [sample_demand]) 21))"
proof (rule authority_binds_evidence [OF sample_installable sample_domains])
  show "er_authority_valid (evaluate_domain id sample_policy (index_rebuild sample_policy) sample_domain sample_expectation
      (sample_evidence [sample_demand]) 21)"
    using evaluation_grant [of id sample_policy "index_rebuild sample_policy" sample_domain sample_expectation
        "sample_evidence [sample_demand]" 21]
    by (simp add: grant_consistent_def sample_within outcome_is_authoritative_def)
qed simp

text \<open>
  C34. Authority and increment are functions of the outcome on every path through the evaluation, early
  returns included: only the outcome within policy authorises, only it carries an increment, authority is
  valid exactly for the authoritative outcomes, and admission is fenced exactly for the fencing ones.
\<close>

theorem every_evaluation_grants_by_outcome:
  "er_authorized r = (er_outcome r = Outcome_WithinPolicy)
   \<and> er_increment r = (if er_outcome r = Outcome_WithinPolicy then da_contingent_free (er_accounting r) else 0)
   \<and> er_authority_valid r = outcome_is_authoritative (er_outcome r)
   \<and> er_fence_required r = (er_outcome r \<in> {Outcome_EmergencyReduction, Outcome_PolicyRejected, Outcome_ConflictingInput})"
  if "r = evaluate_domain iter p ix d ex ev tick"
  using evaluation_grant [of iter p ix d ex ev tick] unfolding that by (auto simp: grant_consistent_def fence_outcome_def)

theorem every_evaluation_grants_by_outcome_witness:
  "er_authorized (evaluate_domain id sample_policy (index_rebuild sample_policy) sample_domain sample_expectation
      (sample_evidence [sample_demand]) 21)"
  using every_evaluation_grants_by_outcome [OF refl, of id sample_policy "index_rebuild sample_policy" sample_domain
      sample_expectation "sample_evidence [sample_demand]" 21]
  by (simp add: sample_within)

section \<open>The order of the hash map\<close>

lemma decide_outcome_iter:
  assumes inst: "policy_installable p" and iter: "\<And>xs. set (iter xs) = set (iter' xs)"
  shows "er_outcome (decide iter p (index_rebuild p) d f r) = er_outcome (decide iter' p (index_rebuild p) d f r)"
proof -
  have classes: "distinct (map sc_id (pl_classes p))" "\<forall>c \<in> set (pl_classes p). sc_has_share_cap c \<longrightarrow> sc_share_cap_ppm c \<le> 1000000"
    using inst by (auto simp: policy_installable_def class_installable_def kPpmScale_def)
  let ?loop = "\<lambda>it. for_each (check_share p (index_rebuild p) d f r) () (it (fi_contingent f))"
  have stop: "er_outcome r' = Outcome_ReductionRequired" if "?loop it = Inl r'" for it r'
    using for_each_check_fails [OF that] check_share_reduces [OF _ classes] by metis
  have "(\<exists>u. ?loop iter = Inr u) \<longleftrightarrow> (\<exists>u. ?loop iter' = Inr u)"
    by (simp add: for_each_check iter)
  then have "(case ?loop iter of Inl r' \<Rightarrow> Inl (er_outcome r') | Inr u \<Rightarrow> Inr u) = (case ?loop iter' of Inl r' \<Rightarrow> Inl (er_outcome r') | Inr u \<Rightarrow> Inr u)"
    using stop by (cases "?loop iter"; cases "?loop iter'") auto
  then show ?thesis
    by (cases "decide_protection p d f r"; cases "decide_overage p d f r"; cases "?loop iter"; cases "?loop iter'")
      (auto simp: decide_def)
qed

text \<open>
  The outcome does not depend on the order in which the hash map of service classes is iterated:
  two orders that visit the same entries answer the same (the intents, and with them the result digest,
  may differ).
\<close>

theorem outcome_independent_of_iteration:
  assumes "policy_installable p" and "\<And>xs. set (iter xs) = set (iter' xs)"
  shows "er_outcome (evaluate_domain iter p (index_rebuild p) d ex ev tick)
    = er_outcome (evaluate_domain iter' p (index_rebuild p) d ex ev tick)"
  unfolding evaluate_by_phases using decide_outcome_iter [OF assms]
  by (cases "evaluation_phases p (index_rebuild p) d ex ev tick") auto

theorem outcome_independent_of_iteration_witness:
  "er_outcome (evaluate_domain rev sample_policy (index_rebuild sample_policy) sample_domain sample_expectation
      (sample_evidence [sample_demand]) 21) = Outcome_WithinPolicy"
  using outcome_independent_of_iteration [OF sample_installable, of rev id sample_domain sample_expectation
      "sample_evidence [sample_demand]" 21] sample_within by simp

section \<open>The bounds of the answer\<close>

definition bounded_result :: "policy_limits \<Rightarrow> evaluation_result \<Rightarrow> bool" where
  "bounded_result l r \<longleftrightarrow>
     length (er_intents r) \<le> unat (lm_max_intents l) \<and> length (er_notes r) \<le> unat (lm_max_lines l)
     \<and> length (er_resources r) \<le> unat (lm_max_breakdown l)"

definition fresh_result :: "evaluation_result \<Rightarrow> bool" where
  "fresh_result r \<longleftrightarrow> er_intents r = [] \<and> er_notes r = [] \<and> er_resources r = []"

lemma bounded_frame:
  "bounded_result l (finalize_result r) = bounded_result l r"
  "bounded_result l (r\<lparr>er_outcome := out, er_reason := reason, er_detail := detail\<rparr>) = bounded_result l r"
  "bounded_result l (r\<lparr>er_outcome := out, er_reason := reason, er_detail := detail, er_fence_required := fence\<rparr>) = bounded_result l r"
  "bounded_result l (r\<lparr>er_fence_required := fence\<rparr>) = bounded_result l r"
  by (simp_all add: bounded_result_def)

lemma intent_bounded: "bounded_result l r \<Longrightarrow> bounded_result l (add_intent l i r)"
  by (simp add: bounded_result_def add_intent_def)

interpretation bounded: evaluation_contract p fresh_result "bounded_result (pl_limits p)" for p
proof unfold_locales
  fix r out reason detail d f assume r: "bounded_result (pl_limits p) r"
  show "bounded_result (pl_limits p) (reject p d r out reason detail)"
    using r by (simp add: reject_def Let_def bounded_frame reject_intents_def intent_bounded)
  have "bounded_result l r \<Longrightarrow> bounded_result l (intent_when c l i r)" for l c i r
    by (simp add: intent_when_def intent_bounded)
  then show "bounded_result (pl_limits p) (finish p d f r out reason detail)"
    using r by (simp add: finish_def Let_def bounded_frame finish_intents_def)
qed (auto simp: fresh_result_def bounded_result_def add_intent_def add_note_def break_down_def Let_def)

text \<open>
  Bounded answers: whatever the evidence, an evaluation returns at most as many corrective intents,
  notes and resource rows as the policy limits allow.
\<close>

theorem evaluation_bounded:
  "length (er_intents (evaluate_domain iter p ix d ex ev tick)) \<le> unat (lm_max_intents (pl_limits p))
   \<and> length (er_notes (evaluate_domain iter p ix d ex ev tick)) \<le> unat (lm_max_lines (pl_limits p))
   \<and> length (er_resources (evaluate_domain iter p ix d ex ev tick)) \<le> unat (lm_max_breakdown (pl_limits p))"
proof -
  have init: "fresh_result (initial_result p d ex)" "fresh_result (bind_authority p d ex tick cap res adm (initial_result p d ex))"
    for cap res adm
    by (simp_all add: fresh_result_def initial_result_def result_zero_def bind_authority_def)
  show ?thesis using bounded.evaluation [OF init, where iter = iter and ix = ix and ev = ev] by (simp add: bounded_result_def)
qed

section \<open>Demand the sums leave out\<close>

lemma sum_for_Cons_skip: "\<not> P x \<Longrightarrow> sum_for P f (x # xs) = sum_for P f xs"
  by (simp add: sum_for_def)



end
