(* ===== verification/Input_Properties.thy ===== *)
theory Input_Properties
  imports Samples
begin

text \<open>
  What the governor relies on about its inputs: which policies it installs and how it finds their parts,
  and that a snapshot's digest binds its contents and nothing else.
\<close>


text \<open>
  The sorted tables and the binary search of \<^verbatim>\<open>PolicyIndex\<close> find in a valid policy exactly what
  the linear scans \<^verbatim>\<open>find_domain\<close> and \<^verbatim>\<open>find_service_class\<close> find, absent entries included.
\<close>

theorem policy_index_finds:
  assumes "status_ok (validate_policy p)"
  shows "index_domain (index_rebuild p) i = find_domain p i
    \<and> index_service_class (index_rebuild p) c = find_service_class p c"
  using assms index_finds [of p] by (simp add: validate_policy_iff policy_installable_def)

theorem policy_index_finds_witness:
  "index_domain (index_rebuild sample_policy) (StrongId 7) = Some sample_domain
   \<and> index_service_class (index_rebuild sample_policy) (StrongId 9) = None"
proof -
  have "status_ok (validate_policy sample_policy)" by (simp add: validate_policy_iff sample_installable)
  from policy_index_finds [OF this, of "StrongId 7" "StrongId 9"] show ?thesis
    by (simp add: find_domain_def find_service_class_def sample_policy_def sample_domain_def sample_class_def)
qed

text \<open>
  Digests do not depend on the order of publication: the records of a snapshot whose identities are
  distinct may be listed in any order without changing the digest that binds the evidence.
\<close>

theorem snapshot_digests_order_free:
  assumes "mset xs = mset (cs_resources c)" and "distinct (map rc_resource (cs_resources c))"
    and "mset ys = mset (rs_guarantees r)" and "distinct (map gt_reservation (rs_guarantees r))"
    and "mset zs = mset (as_records a)" and "distinct (map dr_admission (as_records a))"
  shows "capacity_snapshot_digest (c\<lparr>cs_resources := xs\<rparr>) = capacity_snapshot_digest c
    \<and> reservation_snapshot_digest (r\<lparr>rs_guarantees := ys\<rparr>) = reservation_snapshot_digest r
    \<and> admission_snapshot_digest (a\<lparr>as_records := zs\<rparr>) = admission_snapshot_digest a"
  using assms capacity_digest_permuted reservation_digest_permuted admission_digest_permuted by simp

definition second_resource :: resource_capacity where
  "second_resource = sample_resource\<lparr>rc_resource := StrongId 2\<rparr>"

theorem snapshot_digests_order_free_witness:
  "capacity_snapshot_digest (sample_capacity\<lparr>cs_resources := [second_resource, sample_resource]\<rparr>)
     = capacity_snapshot_digest (sample_capacity\<lparr>cs_resources := [sample_resource, second_resource]\<rparr>)
   \<and> reservation_snapshot_digest (sample_reservations\<lparr>rs_guarantees := rs_guarantees sample_reservations\<rparr>)
     = reservation_snapshot_digest sample_reservations
   \<and> admission_snapshot_digest ((sample_admissions [sample_demand])\<lparr>as_records := [sample_demand]\<rparr>)
     = admission_snapshot_digest (sample_admissions [sample_demand])"
  using snapshot_digests_order_free
    [of "[second_resource, sample_resource]" "sample_capacity\<lparr>cs_resources := [sample_resource, second_resource]\<rparr>"
        "rs_guarantees sample_reservations" sample_reservations "[sample_demand]" "sample_admissions [sample_demand]"]
  by (simp add: second_resource_def sample_resource_def sample_reservations_def sample_admissions_def)

text \<open>
  A capacity digest is the SHA-256 of an encoding that determines the snapshot: two snapshots within
  the size bound that encode alike have the same domain, generation, epoch, tick and resources, so only
  a hash collision could make one stand for the other.
\<close>

theorem capacity_digest_binds_contents:
  assumes "capacity_canonical s = capacity_canonical t"
    and "length (cs_resources s) \<le> 4096" and "length (cs_resources t) \<le> 4096"
    and "list_all (\<lambda>r. wf_resource_health (rc_health r)) (cs_resources s @ cs_resources t)"
  shows "capacity_snapshot_digest s = sha256 (capacity_canonical s)
    \<and> cs_domain s = cs_domain t \<and> cs_generation s = cs_generation t \<and> cs_epoch s = cs_epoch t
    \<and> cs_tick s = cs_tick t \<and> mset (cs_resources s) = mset (cs_resources t)"
  using capacity_canonical_injective [OF assms(1-3)] assms(4) capacity_digest_canonical by (auto simp: list_all_iff)

theorem capacity_digest_binds_contents_witness:
  "capacity_snapshot_digest sample_capacity = sha256 (capacity_canonical sample_capacity)"
  using capacity_digest_binds_contents [OF refl, of sample_capacity]
  by (simp add: sample_capacity_def sample_resource_def wf_resource_health_def)

end
