(* ===== verification/State.thy ===== *)
theory State
  imports Bytes Policy
begin

text \<open>
  \<^verbatim>\<open>include/oversub/state.hpp\<close>, \<^verbatim>\<open>src/state.cpp\<close>: the durable state, its file format, and the replay
  of the audit journal. A serializer is the list of bytes it writes; a deserializer answers the status of
  the first field it cannot read, in the order of the code, or the state. The lemmas show that every
  storable state reads back, that what reads back is storable, and what a replay leaves behind.
\<close>

section \<open>Data\<close>

definition kStateSchemaVersion :: u32 where "kStateSchemaVersion = 1"
definition kJournalFormatVersion :: u32 where "kJournalFormatVersion = 1"
definition kMaxPublishers :: u32 where "kMaxPublishers = 4096"
definition kMaxDomainsState :: u32 where "kMaxDomainsState = 4096"
definition kMaxEvidenceSlots :: u64 where "kMaxEvidenceSlots = 16384"
definition kMaxAuditRecords :: u32 where "kMaxAuditRecords = 65536"
definition kMaxAuditSummary :: u32 where "kMaxAuditSummary = 256"

record publisher_registration =
  pr_publisher :: publisher_id
  pr_incarnation :: incarnation_id
  pr_epoch :: fabric_epoch
  pr_last_sequence :: u64
  pr_fenced :: bool
  pr_fence_reason :: reason_code
  pr_registered_tick :: u64

record domain_runtime =
  rt_domain :: domain_id
  rt_generation :: domain_generation
  rt_sticky :: outcome
  rt_confirmations :: u32
  rt_last_escalation_tick :: u64
  rt_fenced :: bool
  rt_fence_reason :: reason_code
  rt_fence_epoch :: fabric_epoch
  rt_last_decision :: decision_id
  rt_last_digest :: digest
  rt_last_raw :: outcome

record evidence_slot =
  sl_domain :: domain_id
  sl_kind :: evidence_kind
  sl_generation :: u64
  sl_evidence_id :: evidence_id
  sl_publisher :: publisher_id
  sl_incarnation :: incarnation_id
  sl_sequence :: u64
  sl_observed_tick :: u64
  sl_payload_digest :: digest
  sl_revalidation :: bool

record audit_record =
  au_id :: audit_record_id
  au_tick :: u64
  au_wall_millis :: u64
  au_incarnation :: incarnation_id
  au_epoch :: fabric_epoch
  au_domain :: domain_id
  au_domain_generation :: domain_generation
  au_policy_generation :: policy_generation
  au_raw :: outcome
  au_effective :: outcome
  au_reason :: reason_code
  au_binding :: constraint
  au_decision :: decision_id
  au_decision_digest :: digest
  au_input_digest :: digest
  au_authorized :: bool
  au_increment :: u64
  au_fenced :: bool
  au_confirmations :: u32
  au_last_escalation_tick :: u64
  au_ceiling :: u64
  au_committed :: u64
  au_overage :: u64
  au_summary :: string

record durable_state =
  ds_schema :: u32
  ds_revision :: u64
  ds_incarnation :: incarnation_id
  ds_epoch :: fabric_epoch
  ds_policy_generation :: policy_generation
  ds_policy_digest :: digest
  ds_policy :: policy
  ds_publishers :: "publisher_registration list"
  ds_domains :: "domain_runtime list"
  ds_evidence :: "evidence_slot list"
  ds_audit :: "audit_record list"
  ds_decisions :: u64
  ds_tick :: u64
  ds_journal_records :: u64

record replay_report =
  rp_seen :: u64
  rp_applied :: u64
  rp_skipped :: u64
  rp_last_reason :: reason_code
  rp_detail :: string

text \<open>The default member initializers.\<close>

definition fresh_runtime :: domain_runtime where
  "fresh_runtime =
     \<lparr>rt_domain = StrongId 0, rt_generation = Gen 0, rt_sticky = Outcome_WithinPolicy, rt_confirmations = 0,
      rt_last_escalation_tick = 0, rt_fenced = False, rt_fence_reason = Reason_None, rt_fence_epoch = FabricEpoch 0,
      rt_last_decision = StrongId 0, rt_last_digest = digest_zero, rt_last_raw = Outcome_WithinPolicy\<rparr>"

definition fresh_report :: replay_report where
  "fresh_report = \<lparr>rp_seen = 0, rp_applied = 0, rp_skipped = 0, rp_last_reason = Reason_None, rp_detail = ''''\<rparr>"

section \<open>Writing\<close>

text \<open>\<^verbatim>\<open>ByteWriter::string\<close> with its result dropped: a string over its bound writes nothing.\<close>

definition w_string_dropped :: "string \<Rightarrow> u32 \<Rightarrow> u8 list" where
  "w_string_dropped s m = (case w_string s m of None \<Rightarrow> [] | Some bs \<Rightarrow> bs)"

definition w_size :: "'a list \<Rightarrow> u8 list" where
  "w_size xs = w_u64 (word_of_nat (length xs))"

definition w_list :: "('a \<Rightarrow> u8 list) \<Rightarrow> 'a list \<Rightarrow> u8 list" where
  "w_list w xs = w_size xs @ concat (map w xs)"

definition write_ratio :: "ratio \<Rightarrow> u8 list" where
  "write_ratio r = w_u64 (rat_num r) @ w_u64 (rat_den r)"

definition write_domain :: "domain_config \<Rightarrow> u8 list" where
  "write_domain d =
     w_u64 (id_value (dm_id d)) @ w_u64 (gen_value (dm_generation d)) @ w_string_dropped (dm_name d) kHardMaxNameLength
     @ w_u64 (id_value (dm_pool d)) @ w_list (\<lambda>m. w_u64 (id_value m)) (dm_members d)
     @ write_ratio (dm_configured_ratio d) @ w_bool (dm_has_degraded_cap d) @ write_ratio (dm_degraded_cap d)
     @ w_u64 (dm_reserve_units d) @ w_u64 (dm_headroom_units d) @ w_bool (dm_burst_enabled d)
     @ w_u64 (dm_burst_cap_units d)"

definition write_class :: "service_class_ref \<Rightarrow> u8 list" where
  "write_class c =
     w_u64 (id_value (sc_id c)) @ w_string_dropped (sc_name c) kHardMaxNameLength @ w_u32 (priority_value (sc_priority c))
     @ w_bool (sc_eligible c) @ w_u32 (sc_risk_weight_ppm c) @ w_bool (sc_has_share_cap c) @ w_u64 (sc_share_cap_ppm c)"

definition write_risk_budget :: "risk_budget_policy \<Rightarrow> u8 list" where
  "write_risk_budget b =
     w_u64 (id_value (rb_id b)) @ w_u64 (gen_value (rb_generation b)) @ w_bool (rb_has_absolute b)
     @ w_u64 (rb_max_units b) @ w_bool (rb_has_ppm b) @ w_u64 (rb_max_ppm b)"

definition write_thresholds :: "thresholds \<Rightarrow> u8 list" where
  "write_thresholds t =
     w_u64 (th_warn_used_ppm t) @ w_u64 (th_reduce_overage_ppm t) @ w_u64 (th_emergency_overage_ppm t)"

definition write_hysteresis :: "hysteresis_policy \<Rightarrow> u8 list" where
  "write_hysteresis h =
     w_u64 (hy_escalation_confirmations h) @ w_u64 (hy_deescalation_confirmations h) @ w_u64 (hy_cooldown_ticks h)
     @ w_u64 (hy_margin_ppm h)"

definition write_limits :: "policy_limits \<Rightarrow> u8 list" where
  "write_limits l =
     w_u32 (lm_max_domains l) @ w_u32 (lm_max_resources_per_domain l) @ w_u32 (lm_max_service_classes l)
     @ w_u64 (lm_max_guarantees l) @ w_u64 (lm_max_demand_records l) @ w_u32 (lm_max_intents l)
     @ w_u32 (lm_max_lines l) @ w_u32 (lm_max_bytes l) @ w_u32 (lm_max_breakdown l) @ w_u64 (lm_max_capacity_units l)"

definition write_policy :: "policy \<Rightarrow> u8 list" where
  "write_policy p =
     w_u64 (id_value (pl_id p)) @ w_u64 (gen_value (pl_generation p)) @ w_string_dropped (pl_name p) kHardMaxNameLength
     @ write_ratio (pl_ratio_cap p) @ w_list write_domain (pl_domains p) @ w_list write_class (pl_classes p)
     @ write_risk_budget (pl_risk_budget p) @ write_thresholds (pl_thresholds p) @ write_hysteresis (pl_hysteresis p)
     @ write_limits (pl_limits p) @ w_u64 (pl_capacity_age p) @ w_u64 (pl_reservation_age p) @ w_u64 (pl_admission_age p)
     @ w_digest (pl_digest p)"

definition write_publisher :: "publisher_registration \<Rightarrow> u8 list" where
  "write_publisher p =
     w_u64 (id_value (pr_publisher p)) @ w_u64 (id_value (pr_incarnation p)) @ w_u64 (epoch_value (pr_epoch p))
     @ w_u64 (pr_last_sequence p) @ w_bool (pr_fenced p) @ w_u32 (reason_value (pr_fence_reason p))
     @ w_u64 (pr_registered_tick p)"

definition write_runtime :: "domain_runtime \<Rightarrow> u8 list" where
  "write_runtime d =
     w_u64 (id_value (rt_domain d)) @ w_u64 (gen_value (rt_generation d)) @ w_u32 (outcome_to_u32 (rt_sticky d))
     @ w_u32 (rt_confirmations d) @ w_u64 (rt_last_escalation_tick d) @ w_bool (rt_fenced d)
     @ w_u32 (reason_value (rt_fence_reason d)) @ w_u64 (epoch_value (rt_fence_epoch d))
     @ w_u64 (id_value (rt_last_decision d)) @ w_digest (rt_last_digest d) @ w_u32 (outcome_to_u32 (rt_last_raw d))"

definition write_slot :: "evidence_slot \<Rightarrow> u8 list" where
  "write_slot e =
     w_u64 (id_value (sl_domain e)) @ w_u32 (evidence_kind_to_u32 (sl_kind e)) @ w_u64 (sl_generation e)
     @ w_u64 (id_value (sl_evidence_id e)) @ w_u64 (id_value (sl_publisher e)) @ w_u64 (id_value (sl_incarnation e))
     @ w_u64 (sl_sequence e) @ w_u64 (sl_observed_tick e) @ w_digest (sl_payload_digest e) @ w_bool (sl_revalidation e)"

definition audit_header_bytes :: "audit_record \<Rightarrow> u8 list" where
  "audit_header_bytes a =
     w_u64 (id_value (au_id a)) @ w_u64 (au_tick a) @ w_u64 (au_wall_millis a) @ w_u64 (id_value (au_incarnation a))
     @ w_u64 (epoch_value (au_epoch a)) @ w_u64 (id_value (au_domain a)) @ w_u64 (gen_value (au_domain_generation a))
     @ w_u64 (gen_value (au_policy_generation a)) @ w_u32 (outcome_to_u32 (au_raw a)) @ w_u32 (outcome_to_u32 (au_effective a))
     @ w_u32 (reason_value (au_reason a)) @ w_u32 (constraint_to_u32 (au_binding a)) @ w_u64 (id_value (au_decision a))
     @ w_digest (au_decision_digest a) @ w_digest (au_input_digest a) @ w_bool (au_authorized a) @ w_u64 (au_increment a)
     @ w_bool (au_fenced a) @ w_u32 (au_confirmations a) @ w_u64 (au_last_escalation_tick a) @ w_u64 (au_ceiling a)
     @ w_u64 (au_committed a) @ w_u64 (au_overage a)"

definition serialize_audit_record :: "audit_record \<Rightarrow> status + u8 list" where
  "serialize_audit_record a =
     (case w_string (au_summary a) kMaxAuditSummary of
        None \<Rightarrow> Inl (status_failure Status_OutOfRange Reason_LimitExceeded ''audit summary too long'')
      | Some summary \<Rightarrow> Inr (audit_header_bytes a @ summary))"

definition write_audit_entry :: "u8 list \<Rightarrow> audit_record \<Rightarrow> status + u8 list" where
  "write_audit_entry w a =
     and_then (serialize_audit_record a) (\<lambda>record. Inr (w @ w_size record @ w_raw record))"

definition serialize_state :: "durable_state \<Rightarrow> status + u8 list" where
  "serialize_state s =
     and_then (for_each write_audit_entry
       (w_u32 (ds_schema s) @ w_u64 (ds_revision s) @ w_u64 (id_value (ds_incarnation s)) @ w_u64 (epoch_value (ds_epoch s))
        @ w_u64 (gen_value (ds_policy_generation s)) @ w_digest (ds_policy_digest s) @ write_policy (ds_policy s)
        @ w_list write_publisher (ds_publishers s) @ w_list write_runtime (ds_domains s) @ w_list write_slot (ds_evidence s)
        @ w_size (ds_audit s))
       (ds_audit s))
     (\<lambda>w. Inr (w @ w_u64 (ds_decisions s) @ w_u64 (ds_tick s) @ w_u64 (ds_journal_records s)))"

section \<open>Reading\<close>

definition corrupt :: "reason_code \<Rightarrow> string \<Rightarrow> status" where
  "corrupt reason detail = status_failure Status_CorruptData reason detail"

text \<open>A counted list whose count is refused over a bound, as a reader.\<close>

definition r_list :: "nat \<Rightarrow> 'a reader \<Rightarrow> ('a list) reader" where
  "r_list bound r bs = do {
     (n, bs) \<leftarrow> r_u64 bs;
     if unat n > bound then None else r_times (unat n) r bs
   }"

definition read_ratio :: "ratio reader" where
  "read_ratio bs = do { (n, bs) \<leftarrow> r_u64 bs; (d, bs) \<leftarrow> r_u64 bs; Some (Ratio n d, bs) }"

definition read_member :: "resource_id reader" where
  "read_member bs = do { (v, bs) \<leftarrow> r_u64 bs; Some (StrongId v, bs) }"

definition read_domain :: "domain_config reader" where
  "read_domain bs = do {
     (i, bs) \<leftarrow> r_u64 bs; (g, bs) \<leftarrow> r_u64 bs; (name, bs) \<leftarrow> r_string kHardMaxNameLength bs; (pool, bs) \<leftarrow> r_u64 bs;
     (members, bs) \<leftarrow> r_list (unat kHardMaxResourcesPerDomain) read_member bs;
     (configured, bs) \<leftarrow> read_ratio bs; (has_cap, bs) \<leftarrow> r_bool bs; (cap, bs) \<leftarrow> read_ratio bs;
     (reserve, bs) \<leftarrow> r_u64 bs; (headroom, bs) \<leftarrow> r_u64 bs; (burst, bs) \<leftarrow> r_bool bs; (burst_cap, bs) \<leftarrow> r_u64 bs;
     Some (\<lparr>dm_id = StrongId i, dm_generation = Gen g, dm_name = name, dm_pool = StrongId pool, dm_members = members,
            dm_configured_ratio = configured, dm_has_degraded_cap = has_cap, dm_degraded_cap = cap,
            dm_reserve_units = reserve, dm_headroom_units = headroom, dm_burst_enabled = burst,
            dm_burst_cap_units = burst_cap\<rparr>, bs)
   }"

definition read_class :: "service_class_ref reader" where
  "read_class bs = do {
     (i, bs) \<leftarrow> r_u64 bs; (name, bs) \<leftarrow> r_string kHardMaxNameLength bs; (prio, bs) \<leftarrow> r_u32 bs; (eligible, bs) \<leftarrow> r_bool bs;
     (weight, bs) \<leftarrow> r_u32 bs; (capped, bs) \<leftarrow> r_bool bs; (cap, bs) \<leftarrow> r_u64 bs;
     Some (\<lparr>sc_id = StrongId i, sc_name = name, sc_priority = PriorityRef prio, sc_eligible = eligible,
            sc_risk_weight_ppm = weight, sc_has_share_cap = capped, sc_share_cap_ppm = cap\<rparr>, bs)
   }"

definition read_risk_budget :: "risk_budget_policy reader" where
  "read_risk_budget bs = do {
     (i, bs) \<leftarrow> r_u64 bs; (g, bs) \<leftarrow> r_u64 bs; (has_abs, bs) \<leftarrow> r_bool bs; (units, bs) \<leftarrow> r_u64 bs;
     (has_ppm, bs) \<leftarrow> r_bool bs; (ppm, bs) \<leftarrow> r_u64 bs;
     Some (\<lparr>rb_id = StrongId i, rb_generation = Gen g, rb_has_absolute = has_abs, rb_max_units = units,
            rb_has_ppm = has_ppm, rb_max_ppm = ppm\<rparr>, bs)
   }"

definition read_thresholds :: "thresholds reader" where
  "read_thresholds bs = do {
     (warn, bs) \<leftarrow> r_u64 bs; (reduce, bs) \<leftarrow> r_u64 bs; (emergency, bs) \<leftarrow> r_u64 bs;
     Some (\<lparr>th_warn_used_ppm = warn, th_reduce_overage_ppm = reduce, th_emergency_overage_ppm = emergency\<rparr>, bs)
   }"

definition read_hysteresis :: "hysteresis_policy reader" where
  "read_hysteresis bs = do {
     (esc, bs) \<leftarrow> r_u64 bs; (dees, bs) \<leftarrow> r_u64 bs; (cooldown, bs) \<leftarrow> r_u64 bs; (margin, bs) \<leftarrow> r_u64 bs;
     Some (\<lparr>hy_escalation_confirmations = esc, hy_deescalation_confirmations = dees, hy_cooldown_ticks = cooldown,
            hy_margin_ppm = margin\<rparr>, bs)
   }"

definition read_limits :: "policy_limits reader" where
  "read_limits bs = do {
     (ds, bs) \<leftarrow> r_u32 bs; (rs, bs) \<leftarrow> r_u32 bs; (cs, bs) \<leftarrow> r_u32 bs; (gs, bs) \<leftarrow> r_u64 bs; (ads, bs) \<leftarrow> r_u64 bs;
     (intents, bs) \<leftarrow> r_u32 bs; (lines, bs) \<leftarrow> r_u32 bs; (bytes, bs) \<leftarrow> r_u32 bs; (breakdown, bs) \<leftarrow> r_u32 bs;
     (units, bs) \<leftarrow> r_u64 bs;
     Some (\<lparr>lm_max_domains = ds, lm_max_resources_per_domain = rs, lm_max_service_classes = cs, lm_max_guarantees = gs,
            lm_max_demand_records = ads, lm_max_intents = intents, lm_max_lines = lines, lm_max_bytes = bytes,
            lm_max_breakdown = breakdown, lm_max_capacity_units = units\<rparr>, bs)
   }"

definition read_policy :: "policy reader" where
  "read_policy bs = do {
     (i, bs) \<leftarrow> r_u64 bs; (g, bs) \<leftarrow> r_u64 bs; (name, bs) \<leftarrow> r_string kHardMaxNameLength bs; (cap, bs) \<leftarrow> read_ratio bs;
     (domains, bs) \<leftarrow> r_list (unat kHardMaxDomains) read_domain bs;
     (classes, bs) \<leftarrow> r_list (unat kHardMaxServiceClasses) read_class bs;
     (risk, bs) \<leftarrow> read_risk_budget bs; (thr, bs) \<leftarrow> read_thresholds bs; (hyst, bs) \<leftarrow> read_hysteresis bs;
     (limits, bs) \<leftarrow> read_limits bs;
     (capacity, bs) \<leftarrow> r_u64 bs; (reservation, bs) \<leftarrow> r_u64 bs; (admission, bs) \<leftarrow> r_u64 bs; (digest, bs) \<leftarrow> r_digest bs;
     Some (\<lparr>pl_id = StrongId i, pl_generation = Gen g, pl_name = name, pl_ratio_cap = cap, pl_domains = domains,
            pl_classes = classes, pl_risk_budget = risk, pl_thresholds = thr, pl_hysteresis = hyst, pl_limits = limits,
            pl_capacity_age = capacity, pl_reservation_age = reservation, pl_admission_age = admission,
            pl_digest = digest\<rparr>, bs)
   }"

definition read_publisher :: "publisher_registration reader" where
  "read_publisher bs = do {
     (i, bs) \<leftarrow> r_u64 bs; (inc, bs) \<leftarrow> r_u64 bs; (epoch, bs) \<leftarrow> r_u64 bs; (seq, bs) \<leftarrow> r_u64 bs; (fenced, bs) \<leftarrow> r_bool bs;
     (reason, bs) \<leftarrow> r_u32 bs; (tick, bs) \<leftarrow> r_u64 bs;
     Some (\<lparr>pr_publisher = StrongId i, pr_incarnation = StrongId inc, pr_epoch = FabricEpoch epoch, pr_last_sequence = seq,
            pr_fenced = fenced, pr_fence_reason = ReasonCode reason, pr_registered_tick = tick\<rparr>, bs)
   }"

definition read_runtime :: "domain_runtime reader" where
  "read_runtime bs = do {
     (i, bs) \<leftarrow> r_u64 bs; (g, bs) \<leftarrow> r_u64 bs; (sticky, bs) \<leftarrow> r_u32 bs; (conf, bs) \<leftarrow> r_u32 bs; (esc, bs) \<leftarrow> r_u64 bs;
     (fenced, bs) \<leftarrow> r_bool bs; (reason, bs) \<leftarrow> r_u32 bs; (epoch, bs) \<leftarrow> r_u64 bs; (decision, bs) \<leftarrow> r_u64 bs;
     (digest, bs) \<leftarrow> r_digest bs; (raw, bs) \<leftarrow> r_u32 bs;
     Some (\<lparr>rt_domain = StrongId i, rt_generation = Gen g, rt_sticky = outcome_of_u32 sticky, rt_confirmations = conf,
            rt_last_escalation_tick = esc, rt_fenced = fenced, rt_fence_reason = ReasonCode reason,
            rt_fence_epoch = FabricEpoch epoch, rt_last_decision = StrongId decision, rt_last_digest = digest,
            rt_last_raw = outcome_of_u32 raw\<rparr>, bs)
   }"

definition read_slot :: "evidence_slot reader" where
  "read_slot bs = do {
     (i, bs) \<leftarrow> r_u64 bs; (kind, bs) \<leftarrow> r_u32 bs; (g, bs) \<leftarrow> r_u64 bs; (eid, bs) \<leftarrow> r_u64 bs; (pub, bs) \<leftarrow> r_u64 bs;
     (inc, bs) \<leftarrow> r_u64 bs; (seq, bs) \<leftarrow> r_u64 bs; (tick, bs) \<leftarrow> r_u64 bs; (digest, bs) \<leftarrow> r_digest bs; (reval, bs) \<leftarrow> r_bool bs;
     Some (\<lparr>sl_domain = StrongId i, sl_kind = evidence_kind_of_u32 kind, sl_generation = g, sl_evidence_id = StrongId eid,
            sl_publisher = StrongId pub, sl_incarnation = StrongId inc, sl_sequence = seq, sl_observed_tick = tick,
            sl_payload_digest = digest, sl_revalidation = reval\<rparr>, bs)
   }"

definition read_audit :: "audit_record reader" where
  "read_audit bs = do {
     (i, bs) \<leftarrow> r_u64 bs; (tick, bs) \<leftarrow> r_u64 bs; (wall, bs) \<leftarrow> r_u64 bs; (inc, bs) \<leftarrow> r_u64 bs; (epoch, bs) \<leftarrow> r_u64 bs;
     (dom, bs) \<leftarrow> r_u64 bs; (dg, bs) \<leftarrow> r_u64 bs; (pg, bs) \<leftarrow> r_u64 bs; (raw, bs) \<leftarrow> r_u32 bs; (eff, bs) \<leftarrow> r_u32 bs;
     (reason, bs) \<leftarrow> r_u32 bs; (binding, bs) \<leftarrow> r_u32 bs; (decision, bs) \<leftarrow> r_u64 bs; (dd, bs) \<leftarrow> r_digest bs;
     (idg, bs) \<leftarrow> r_digest bs; (auth, bs) \<leftarrow> r_bool bs; (inc_units, bs) \<leftarrow> r_u64 bs; (fenced, bs) \<leftarrow> r_bool bs;
     (conf, bs) \<leftarrow> r_u32 bs; (esc, bs) \<leftarrow> r_u64 bs; (ceil, bs) \<leftarrow> r_u64 bs; (com, bs) \<leftarrow> r_u64 bs; (over, bs) \<leftarrow> r_u64 bs;
     (summary, bs) \<leftarrow> r_string kMaxAuditSummary bs;
     Some (\<lparr>au_id = StrongId i, au_tick = tick, au_wall_millis = wall, au_incarnation = StrongId inc,
            au_epoch = FabricEpoch epoch, au_domain = StrongId dom, au_domain_generation = Gen dg,
            au_policy_generation = Gen pg, au_raw = outcome_of_u32 raw, au_effective = outcome_of_u32 eff,
            au_reason = ReasonCode reason, au_binding = constraint_of_u32 binding, au_decision = StrongId decision,
            au_decision_digest = dd, au_input_digest = idg, au_authorized = auth, au_increment = inc_units,
            au_fenced = fenced, au_confirmations = conf, au_last_escalation_tick = esc, au_ceiling = ceil,
            au_committed = com, au_overage = over, au_summary = summary\<rparr>, bs)
   }"

definition deserialize_audit_record :: "u8 list \<Rightarrow> status + audit_record" where
  "deserialize_audit_record buffer =
     (case read_audit buffer of
        None \<Rightarrow> Inl (corrupt Reason_PersistenceCorrupt ''audit record malformed'')
      | Some (a, rest) \<Rightarrow>
          if rest \<noteq> [] then Inl (corrupt Reason_PersistenceCorrupt ''trailing bytes after the audit record'') else Inr a)"

text \<open>
  A field of the state file: where the reader fails, the load stops with the given status.
\<close>

definition need :: "'a reader \<Rightarrow> string \<Rightarrow> u8 list \<Rightarrow> status + ('a \<times> u8 list)" where
  "need r detail bs = (case r bs of None \<Rightarrow> Inl (corrupt Reason_PersistenceCorrupt detail) | Some x \<Rightarrow> Inr x)"

fun read_each :: "(u8 list \<Rightarrow> status + ('a \<times> u8 list)) \<Rightarrow> nat \<Rightarrow> u8 list \<Rightarrow> status + ('a list \<times> u8 list)" where
  "read_each r 0 bs = Inr ([], bs)"
| "read_each r (Suc n) bs =
     and_then (r bs) (\<lambda>(x, bs). and_then (read_each r n bs) (\<lambda>(xs, bs). Inr (x # xs, bs)))"

definition read_table ::
  "string \<Rightarrow> u64 \<Rightarrow> string \<Rightarrow> (u8 list \<Rightarrow> status + ('a \<times> u8 list)) \<Rightarrow> u8 list \<Rightarrow> status + ('a list \<times> u8 list)" where
  "read_table truncated bound too_large r bs =
     and_then (need r_u64 truncated bs) (\<lambda>(n, bs).
       if n > bound then Inl (corrupt Reason_PersistenceTooLarge too_large) else read_each r (unat n) bs)"

definition read_audit_entry :: "u8 list \<Rightarrow> status + (audit_record \<times> u8 list)" where
  "read_audit_entry bs =
     and_then (need r_u64 ''audit record size truncated'' bs) (\<lambda>(size, bs).
       if unat size > length bs then Inl (corrupt Reason_PersistenceCorrupt ''audit record overruns the payload'')
       else and_then (need (r_raw (unat size)) ''audit record truncated'' bs) (\<lambda>(record, bs).
         and_then (deserialize_audit_record record) (\<lambda>a. Inr (a, bs))))"

definition deserialize_state :: "u8 list \<Rightarrow> status + durable_state" where
  "deserialize_state buffer =
     and_then (need r_u32 ''state header truncated'' buffer) (\<lambda>(schema, bs).
     if schema \<noteq> kStateSchemaVersion
     then Inl (status_failure Status_Unsupported Reason_PersistenceVersionUnsupported
                 (''unsupported state schema version '' @ to_string_u32 schema))
     else
     and_then (need r_u64 ''state header truncated'' bs) (\<lambda>(revision, bs).
     and_then (need r_u64 ''state header truncated'' bs) (\<lambda>(inc, bs).
     and_then (need r_u64 ''state header truncated'' bs) (\<lambda>(epoch, bs).
     and_then (need r_u64 ''state header truncated'' bs) (\<lambda>(pg, bs).
     and_then (need r_digest ''policy digest truncated'' bs) (\<lambda>(pd, bs).
     and_then (need read_policy ''policy payload malformed'' bs) (\<lambda>(policy, bs).
     and_then (read_table ''publisher count truncated'' (ucast kMaxPublishers) ''publisher table too large''
                 (need read_publisher ''publisher record truncated'') bs) (\<lambda>(publishers, bs).
     and_then (read_table ''domain count truncated'' (ucast kMaxDomainsState) ''domain table too large''
                 (need read_runtime ''domain runtime record truncated'') bs) (\<lambda>(domains, bs).
     and_then (read_table ''evidence slot count truncated'' kMaxEvidenceSlots ''evidence table too large''
                 (need read_slot ''evidence slot truncated'') bs) (\<lambda>(slots, bs).
     and_then (read_table ''audit count truncated'' (ucast kMaxAuditRecords) ''audit table too large''
                 read_audit_entry bs) (\<lambda>(audit, bs).
     and_then (need r_u64 ''state trailer truncated'' bs) (\<lambda>(decisions, bs).
     and_then (need r_u64 ''state trailer truncated'' bs) (\<lambda>(tick, bs).
     and_then (need r_u64 ''state trailer truncated'' bs) (\<lambda>(journal, bs).
     if bs \<noteq> [] then Inl (corrupt Reason_PersistenceCorrupt ''trailing bytes after the state payload'')
     else Inr \<lparr>ds_schema = schema, ds_revision = revision, ds_incarnation = StrongId inc, ds_epoch = FabricEpoch epoch,
               ds_policy_generation = Gen pg, ds_policy_digest = pd, ds_policy = policy, ds_publishers = publishers,
               ds_domains = domains, ds_evidence = slots, ds_audit = audit, ds_decisions = decisions, ds_tick = tick,
               ds_journal_records = journal\<rparr>))))))))))))))"

section \<open>Replaying the audit journal\<close>

record replay =
  ry_state :: durable_state
  ry_index :: "u64 \<rightharpoonup> nat"
  ry_previous :: u64
  ry_report :: replay_report

definition replay_domain :: "audit_record \<Rightarrow> domain_runtime \<Rightarrow> domain_runtime" where
  "replay_domain a d =
     d\<lparr>rt_generation := au_domain_generation a, rt_sticky := au_effective a, rt_last_raw := au_raw a,
       rt_confirmations := au_confirmations a, rt_last_escalation_tick := au_last_escalation_tick a,
       rt_fenced := au_fenced a, rt_fence_reason := (if au_fenced a then au_reason a else Reason_None),
       rt_fence_epoch := au_epoch a, rt_last_decision := au_decision a, rt_last_digest := au_decision_digest a\<rparr>"

definition replay_apply :: "nat \<Rightarrow> audit_record \<Rightarrow> replay \<Rightarrow> replay" where
  "replay_apply i a y =
     (let s = ry_state y; rp = ry_report y in
      y\<lparr>ry_state := s\<lparr>ds_domains := (ds_domains s)[i := replay_domain a (ds_domains s ! i)],
                       ds_decisions := max (ds_decisions s) (id_value (au_id a)),
                       ds_tick := max (ds_tick s) (au_tick a),
                       ds_epoch := (if epoch_value (ds_epoch s) \<ge> epoch_value (au_epoch a) then ds_epoch s else au_epoch a)\<rparr>,
        ry_report := rp\<lparr>rp_applied := rp_applied rp + 1\<rparr>\<rparr>)"

definition replay_record :: "audit_record \<Rightarrow> replay \<Rightarrow> replay" where
  "replay_record a y0 =
     (let y = y0\<lparr>ry_report := (ry_report y0)\<lparr>rp_seen := rp_seen (ry_report y0) + 1\<rparr>\<rparr>; rp = ry_report y; s = ry_state y in
      if id_value (au_id a) \<le> ry_previous y
      then y\<lparr>ry_report := rp\<lparr>rp_skipped := rp_skipped rp + 1, rp_last_reason := Reason_EvidenceSequenceRegression,
                              rp_detail := ''audit records are not strictly ordered by id''\<rparr>\<rparr>
      else let y = y\<lparr>ry_previous := id_value (au_id a)\<rparr> in
        (case ry_index y (id_value (au_domain a)) of
           Some i \<Rightarrow> replay_apply i a y
         | None \<Rightarrow>
             if length (ds_domains s) \<ge> unat kMaxDomainsState
             then y\<lparr>ry_report := rp\<lparr>rp_skipped := rp_skipped rp + 1, rp_last_reason := Reason_PersistenceTooLarge\<rparr>\<rparr>
             else let n = length (ds_domains s);
                      fresh = fresh_runtime\<lparr>rt_domain := au_domain a, rt_generation := au_domain_generation a\<rparr>
                  in replay_apply n a
                       (y\<lparr>ry_state := s\<lparr>ds_domains := ds_domains s @ [fresh]\<rparr>,
                          ry_index := (ry_index y)(id_value (au_domain a) \<mapsto> n)\<rparr>)))"

definition replay_start :: "durable_state \<Rightarrow> replay_report \<Rightarrow> replay" where
  "replay_start s rp =
     \<lparr>ry_state = s,
      ry_index = fold (\<lambda>i m. emplace m (id_value (rt_domain (ds_domains s ! i))) i) [0..<length (ds_domains s)] Map.empty,
      ry_previous = 0, ry_report = rp\<rparr>"

definition rebuild_from_audit :: "durable_state \<Rightarrow> audit_record list \<Rightarrow> replay_report \<Rightarrow> durable_state \<times> replay_report" where
  "rebuild_from_audit s records rp =
     (let y = fold replay_record records (replay_start s rp) in (ry_state y, ry_report y))"

end
