(* ===== verification/Persistence.thy ===== *)
theory Persistence
  imports State
begin

text \<open>
  \<^verbatim>\<open>include/oversub/persistence.hpp\<close>, \<^verbatim>\<open>src/persistence.cpp\<close>: the state file and the journal. The file
  system is an explicit \<open>world\<close>: the contents of the two files and the list of the outcomes of the next
  file operations, so that every failure of the code is a branch. An empty list means that every further
  operation succeeds. A failed append may leave a prefix of its bytes in the file, which is what
  \<^verbatim>\<open>fwrite\<close>, \<^verbatim>\<open>fflush\<close> and \<^verbatim>\<open>fsync\<close> allow.
\<close>

section \<open>The file system\<close>

datatype io_outcome =
  Io_ok
| Io_not_regular
| Io_cannot_size
| Io_cannot_open
| Io_short
| Io_write_fails
| Io_replace_fails
| Io_partial nat
| Io_no_directory
| Io_not_directory

record world =
  wd_state :: "u8 list option"
  wd_journal :: "u8 list option"
  wd_outcomes :: "io_outcome list"

definition io_next :: "world \<Rightarrow> io_outcome \<times> world" where
  "io_next w = (case wd_outcomes w of [] \<Rightarrow> (Io_ok, w) | out # outs \<Rightarrow> (out, w\<lparr>wd_outcomes := outs\<rparr>))"

section \<open>Options and reports\<close>

record store_options =
  so_directory :: string
  so_max_state_bytes :: u64
  so_max_journal_bytes :: u64
  so_max_journal_records :: u64
  so_max_audit_records :: u32
  so_sync_writes :: bool

datatype load_outcome = Load_Fresh | Load_Loaded | Load_Recovered

primrec load_outcome_name :: "load_outcome \<Rightarrow> string" where
  "load_outcome_name Load_Fresh = ''FRESH''"
| "load_outcome_name Load_Loaded = ''LOADED''"
| "load_outcome_name Load_Recovered = ''RECOVERED''"

record load_report =
  lr_outcome :: load_outcome
  lr_journal_records :: u64
  lr_bytes_recovered :: u64
  lr_discarded :: u64
  lr_reason :: reason_code
  lr_detail :: string

definition fresh_load_report :: load_report where
  "fresh_load_report =
     \<lparr>lr_outcome = Load_Fresh, lr_journal_records = 0, lr_bytes_recovered = 0, lr_discarded = 0,
      lr_reason = Reason_None, lr_detail = ''''\<rparr>"

record store =
  sr_options :: store_options
  sr_open :: bool
  sr_journal_bytes :: u64
  sr_journal_records :: u64

definition default_options :: store_options where
  "default_options =
     \<lparr>so_directory = '''', so_max_state_bytes = 32 * 1024 * 1024, so_max_journal_bytes = 64 * 1024 * 1024,
      so_max_journal_records = 200000, so_max_audit_records = kMaxAuditRecords, so_sync_writes = True\<rparr>"

definition closed_store :: store where
  "closed_store = \<lparr>sr_options = default_options, sr_open = False, sr_journal_bytes = 0, sr_journal_records = 0\<rparr>"

section \<open>Framing\<close>

definition kStateMagic :: "u8 list" where "kStateMagic = string_bytes ''OSGVSTA1''"
definition kStateFormatVersion :: u32 where "kStateFormatVersion = 1"
definition kJournalMagic :: "u8 list" where "kJournalMagic = string_bytes ''OSJ1''"
definition kStateHeaderBytes :: nat where "kStateHeaderBytes = 8 + 4 + 4 + 8"
definition kJournalHeaderBytes :: nat where "kJournalHeaderBytes = 4 + 4 + 4 + 8"

definition io_error :: "reason_code \<Rightarrow> string \<Rightarrow> status" where
  "io_error reason detail = status_failure Status_IoError reason detail"

definition append_u32 :: "u8 list \<Rightarrow> u32 \<Rightarrow> u8 list" where
  "append_u32 out v = out @ map (\<lambda>i. ucast (drop_bit (i * 8) v AND 255)) [0..<4]"

definition append_u64 :: "u8 list \<Rightarrow> u64 \<Rightarrow> u8 list" where
  "append_u64 out v = out @ map (\<lambda>i. ucast (drop_bit (i * 8) v AND 255)) [0..<8]"

definition read_u32 :: "u8 list \<Rightarrow> nat \<Rightarrow> (u32 \<times> nat) option" where
  "read_u32 bs offset =
     (if offset + 4 > length bs then None
      else Some (fold (\<lambda>i v. v OR push_bit (i * 8) (ucast (bs ! (offset + i)))) [0..<4] 0, offset + 4))"

definition read_u64 :: "u8 list \<Rightarrow> nat \<Rightarrow> (u64 \<times> nat) option" where
  "read_u64 bs offset =
     (if offset + 8 > length bs then None
      else Some (fold (\<lambda>i v. v OR push_bit (i * 8) (ucast (bs ! (offset + i)))) [0..<8] 0, offset + 8))"

definition make_frame :: "u8 list \<Rightarrow> u32 \<Rightarrow> u8 list \<Rightarrow> u8 list" where
  "make_frame magic version payload =
     append_u64 (append_u32 (append_u32 magic version) 0) (word_of_nat (length payload)) @ payload @ sha256 payload"

definition make_state_file :: "u8 list \<Rightarrow> u8 list" where
  "make_state_file payload = make_frame kStateMagic kStateFormatVersion payload"

definition make_journal_frame :: "u8 list \<Rightarrow> u8 list" where
  "make_journal_frame payload = make_frame kJournalMagic kJournalFormatVersion payload"

section \<open>File operations\<close>

definition path_join :: "string \<Rightarrow> string \<Rightarrow> string" where
  "path_join dir name =
     (if dir = '''' then name else if last dir = CHR ''/'' then dir @ name else dir @ ''/'' @ name)"

definition state_path :: "store \<Rightarrow> string" where
  "state_path st = path_join (so_directory (sr_options st)) ''state.bin''"

definition journal_path :: "store \<Rightarrow> string" where
  "journal_path st = path_join (so_directory (sr_options st)) ''journal.bin''"

definition read_file_bounded :: "string \<Rightarrow> u8 list option \<Rightarrow> u64 \<Rightarrow> world \<Rightarrow> (status + u8 list) \<times> world" where
  "read_file_bounded path content max_bytes w =
     (let (out, w) = io_next w in
      (case content of
         None \<Rightarrow> Inl (status_failure Status_NotFound Reason_None (''file not found: '' @ path))
       | Some bytes \<Rightarrow>
           if out = Io_not_regular then Inl (io_error Reason_PersistenceCorrupt (''not a regular file: '' @ path))
           else if out = Io_cannot_size then Inl (io_error Reason_None (''cannot size file: '' @ path))
           else if length bytes > unat max_bytes
           then Inl (status_failure Status_OutOfRange Reason_PersistenceTooLarge
                       (''file exceeds the configured bound: '' @ path))
           else if out = Io_cannot_open then Inl (io_error Reason_None (''cannot open file: '' @ path))
           else if out = Io_short then Inl (io_error Reason_PersistenceTruncated (''short read: '' @ path))
           else Inr bytes, w))"

text \<open>
  The replacement of a file through a temporary one: \<^const>\<open>None\<close> keeps the old contents.
\<close>

definition write_file_atomic :: "string \<Rightarrow> u8 list \<Rightarrow> world \<Rightarrow> status \<times> u8 list option \<times> world" where
  "write_file_atomic path bytes w =
     (let (out, w) = io_next w in
      if out = Io_cannot_open
      then (io_error Reason_None (''cannot create temporary file: '' @ path @ ''.tmp''), None, w)
      else if out = Io_write_fails
      then (io_error Reason_None (''failed to write temporary file: '' @ path @ ''.tmp''), None, w)
      else if out = Io_replace_fails then (io_error Reason_None (''atomic replace failed: '' @ path), None, w)
      else (status_success, Some bytes, w))"

definition append_file :: "string \<Rightarrow> u8 list option \<Rightarrow> u8 list \<Rightarrow> world \<Rightarrow> status \<times> u8 list option \<times> world" where
  "append_file path content bytes w =
     (let (out, w) = io_next w; old = (case content of None \<Rightarrow> [] | Some old \<Rightarrow> old) in
      (case out of
         Io_cannot_open \<Rightarrow> (io_error Reason_None (''cannot append to file: '' @ path), content, w)
       | Io_partial n \<Rightarrow> (io_error Reason_None (''append failed: '' @ path), Some (old @ take n bytes), w)
       | _ \<Rightarrow> (status_success, Some (old @ bytes), w)))"

section \<open>Opening and saving\<close>

definition store_not_open :: status where
  "store_not_open = status_failure Status_InvalidArgument Reason_PersistenceNotInitialized ''store is not open''"

definition ensure_directory :: "store_options \<Rightarrow> world \<Rightarrow> status \<times> world" where
  "ensure_directory options w =
     (let (out, w) = io_next w in
      if out = Io_no_directory
      then (io_error Reason_None (''cannot create store directory: '' @ so_directory options), w)
      else if out = Io_not_directory
      then (io_error Reason_None (''store path is not a directory: '' @ so_directory options), w)
      else (status_success, w))"

definition store_open :: "store_options \<Rightarrow> store \<Rightarrow> world \<Rightarrow> status \<times> store \<times> world" where
  "store_open options st w =
     (if so_directory options = ''''
      then (status_failure Status_InvalidArgument Reason_PersistenceNotInitialized ''store directory is empty'', st, w)
      else if so_max_state_bytes options = 0 \<or> so_max_journal_bytes options = 0 \<or> so_max_journal_records options = 0
      then (status_failure Status_InvalidArgument Reason_LimitExceeded ''store bounds must be non-zero'', st, w)
      else if so_max_audit_records options = 0 \<or> so_max_audit_records options > kMaxAuditRecords
      then (status_failure Status_InvalidArgument Reason_LimitExceeded ''max_audit_records out of bound'', st, w)
      else let st = st\<lparr>sr_options := options\<rparr>; (status, w) = ensure_directory options w in
        if \<not> status_ok status then (status, st, w)
        else let (out, w) = io_next w;
                 size = (case wd_journal w of None \<Rightarrow> 0 | Some bytes \<Rightarrow> if out = Io_cannot_size then 0 else word_of_nat (length bytes))
             in (status_success, st\<lparr>sr_open := True, sr_journal_bytes := size, sr_journal_records := 0\<rparr>, w))"

definition store_close :: "store \<Rightarrow> store" where
  "store_close st = st\<lparr>sr_open := False, sr_journal_bytes := 0, sr_journal_records := 0\<rparr>"

definition store_save :: "durable_state \<Rightarrow> store \<Rightarrow> world \<Rightarrow> status \<times> world" where
  "store_save s st w =
     (if \<not> sr_open st then (store_not_open, w)
      else (case serialize_state s of
        Inl status \<Rightarrow> (status, w)
      | Inr payload \<Rightarrow>
          if length payload > unat (so_max_state_bytes (sr_options st))
          then (status_failure Status_OutOfRange Reason_PersistenceTooLarge ''serialized state exceeds max_state_bytes'', w)
          else let (status, content, w) = write_file_atomic (state_path st) (make_state_file payload) w in
            (status, (case content of None \<Rightarrow> w | Some bytes \<Rightarrow> w\<lparr>wd_state := Some bytes\<rparr>))))"

section \<open>The journal\<close>

definition append_audit :: "audit_record \<Rightarrow> store \<Rightarrow> world \<Rightarrow> status \<times> store \<times> world" where
  "append_audit a st w =
     (if \<not> sr_open st then (store_not_open, st, w)
      else (case serialize_audit_record a of
        Inl status \<Rightarrow> (status, st, w)
      | Inr payload \<Rightarrow>
          let frame = make_journal_frame payload; size = word_of_nat (length frame) in
          if sr_journal_bytes st + size > so_max_journal_bytes (sr_options st)
             \<or> sr_journal_records st + 1 > so_max_journal_records (sr_options st)
          then (status_failure Status_Overflow Reason_PersistenceTooLarge ''journal bound reached; compaction required'', st, w)
          else let (status, content, w) = append_file (journal_path st) (wd_journal w) frame w;
                   w = w\<lparr>wd_journal := content\<rparr> in
            if \<not> status_ok status then (status, st, w)
            else (status_success,
                  st\<lparr>sr_journal_bytes := sr_journal_bytes st + size, sr_journal_records := sr_journal_records st + 1\<rparr>, w)))"

record scan =
  sc_records :: "audit_record list"
  sc_offset :: nat
  sc_damaged_from :: nat
  sc_damaged :: bool

text \<open>
  One frame at an offset: the record with the offset behind it, or the offset at which the scan stops.
\<close>

definition scan_frame :: "store_options \<Rightarrow> u8 list \<Rightarrow> nat \<Rightarrow> nat + (audit_record \<times> nat)" where
  "scan_frame options bytes offset =
     (if length bytes - offset < kJournalHeaderBytes + 32 then Inl offset
      else if take 4 (drop offset bytes) \<noteq> kJournalMagic then Inl offset
      else let offset = offset + 4 in
        (case read_u32 bytes offset of None \<Rightarrow> Inl offset
         | Some (version, offset) \<Rightarrow>
        (case read_u32 bytes offset of None \<Rightarrow> Inl offset
         | Some (reserved, offset) \<Rightarrow>
        (case read_u64 bytes offset of None \<Rightarrow> Inl offset
         | Some (payload_length, offset) \<Rightarrow>
             if version \<noteq> kJournalFormatVersion \<or> payload_length > so_max_state_bytes options then Inl offset
             else if length bytes - offset < unat (payload_length + 32) then Inl offset
             else let payload = take (unat payload_length) (drop offset bytes);
                      stored = take 32 (drop (offset + unat payload_length) bytes) in
               if sha256 payload \<noteq> stored then Inl offset
               else (case deserialize_audit_record payload of
                 Inl _ \<Rightarrow> Inl offset
               | Inr a \<Rightarrow> Inr (a, offset + unat payload_length + 32))))))"

lemma scan_frame_advances: "scan_frame options bytes offset = Inr (a, offset') \<Longrightarrow> offset < offset' \<and> offset < length bytes"
  by (auto simp: scan_frame_def Let_def read_u32_def read_u64_def kJournalHeaderBytes_def
      split: if_splits option.splits sum.splits)

function scan_journal :: "store_options \<Rightarrow> u8 list \<Rightarrow> nat \<Rightarrow> audit_record list \<Rightarrow> nat \<Rightarrow> scan" where
  "scan_journal options bytes offset records damaged_from =
     (if offset \<ge> length bytes
      then \<lparr>sc_records = records, sc_offset = offset, sc_damaged_from = damaged_from, sc_damaged = False\<rparr>
      else (case scan_frame options bytes offset of
        Inl stop \<Rightarrow> \<lparr>sc_records = records, sc_offset = stop, sc_damaged_from = offset, sc_damaged = True\<rparr>
      | Inr (a, next) \<Rightarrow>
          let records' = records @ [a] in
          if length records' > unat (so_max_journal_records options)
          then \<lparr>sc_records = records', sc_offset = next, sc_damaged_from = offset, sc_damaged = True\<rparr>
          else scan_journal options bytes next records' offset))"
  by pat_completeness auto
termination
  by (relation "measure (\<lambda>(options, bytes, offset, records, damaged_from). length bytes - offset)")
     (auto dest!: scan_frame_advances intro: diff_less_mono2)

declare scan_journal.simps [simp del]

definition frames_of :: "u8 list \<Rightarrow> audit_record \<Rightarrow> status + u8 list" where
  "frames_of rebuilt a = and_then (serialize_audit_record a) (\<lambda>payload. Inr (rebuilt @ make_journal_frame payload))"

definition load_journal :: "store \<Rightarrow> world \<Rightarrow> (status + (audit_record list \<times> load_report)) \<times> store \<times> world" where
  "load_journal st w =
     (if \<not> sr_open st then (Inl store_not_open, st, w)
      else let st = st\<lparr>sr_journal_bytes := 0, sr_journal_records := 0\<rparr>;
               (file, w) = read_file_bounded (journal_path st) (wd_journal w)
                             (so_max_journal_bytes (sr_options st) + push_bit 20 1) w in
        (case file of
           Inl status \<Rightarrow>
             if st_code status = Status_NotFound then (Inr ([], fresh_load_report), st, w) else (Inl status, st, w)
         | Inr bytes \<Rightarrow>
             let s = scan_journal (sr_options st) bytes 0 [] (length bytes); records = sc_records s;
                 n = word_of_nat (length records);
                 report = fresh_load_report\<lparr>lr_journal_records := n, lr_bytes_recovered := word_of_nat (sc_offset s)\<rparr> in
             if sc_damaged s
             then (case for_each frames_of [] records of
                 Inl status \<Rightarrow> (Inl status, st, w)
               | Inr rebuilt \<Rightarrow>
                   let (status, content, w) = write_file_atomic (journal_path st) rebuilt w in
                   if \<not> status_ok status then (Inl status, st, w)
                   else (Inr (records, report\<lparr>lr_outcome := Load_Recovered, lr_reason := Reason_PersistenceJournalPartial,
                                lr_discarded := word_of_nat (length bytes - sc_damaged_from s),
                                lr_detail := ''journal tail was incomplete or corrupt; the valid prefix was retained''\<rparr>),
                         st\<lparr>sr_journal_bytes := word_of_nat (length rebuilt), sr_journal_records := n\<rparr>,
                         w\<lparr>wd_journal := Some rebuilt\<rparr>))
             else (Inr (records, report\<lparr>lr_outcome := (if records = [] then Load_Fresh else Load_Loaded)\<rparr>),
                   st\<lparr>sr_journal_bytes := word_of_nat (sc_offset s), sr_journal_records := n\<rparr>, w)))"

text \<open>
  The newest records, oldest first, until the byte bound is met; the records behind that point are lost.
\<close>

fun compact_frames :: "u64 \<Rightarrow> u8 list \<Rightarrow> u64 \<Rightarrow> audit_record list \<Rightarrow> status + (u8 list \<times> u64)" where
  "compact_frames bound rebuilt kept [] = Inr (rebuilt, kept)"
| "compact_frames bound rebuilt kept (a # as) =
     and_then (serialize_audit_record a) (\<lambda>payload.
       let frame = make_journal_frame payload in
       if length rebuilt + length frame > unat bound then Inr (rebuilt, kept)
       else compact_frames bound (rebuilt @ frame) (kept + 1) as)"

definition compact_journal :: "audit_record list \<Rightarrow> u64 \<Rightarrow> store \<Rightarrow> world \<Rightarrow> status \<times> store \<times> world" where
  "compact_journal records keep st w =
     (if \<not> sr_open st then (store_not_open, st, w)
      else let keep = min keep (so_max_journal_records (sr_options st));
               begin_at = (if length records > unat keep then length records - unat keep else 0) in
        (case compact_frames (so_max_journal_bytes (sr_options st)) [] 0 (drop begin_at records) of
           Inl status \<Rightarrow> (status, st, w)
         | Inr (rebuilt, kept) \<Rightarrow>
             let (status, content, w) = write_file_atomic (journal_path st) rebuilt w in
             if \<not> status_ok status then (status, st, w)
             else (status_success, st\<lparr>sr_journal_bytes := word_of_nat (length rebuilt), sr_journal_records := kept\<rparr>,
                   w\<lparr>wd_journal := Some rebuilt\<rparr>)))"

section \<open>Loading\<close>

definition decode_state_file :: "store_options \<Rightarrow> u8 list \<Rightarrow> status + durable_state" where
  "decode_state_file options bytes =
     (if length bytes < kStateHeaderBytes + 32
      then Inl (corrupt Reason_PersistenceTruncated ''state file is shorter than its header'')
      else if take 8 bytes \<noteq> kStateMagic then Inl (corrupt Reason_PersistenceCorrupt ''state file magic mismatch'')
      else
        (case do { (format, offset) \<leftarrow> read_u32 bytes 8; (reserved, offset) \<leftarrow> read_u32 bytes offset;
                   (payload_length, offset) \<leftarrow> read_u64 bytes offset; Some (format, payload_length) } of
           None \<Rightarrow> Inl (corrupt Reason_PersistenceCorrupt ''state file header truncated'')
         | Some (format, payload_length) \<Rightarrow>
             if format \<noteq> kStateFormatVersion
             then Inl (status_failure Status_Unsupported Reason_PersistenceVersionUnsupported
                         (''unsupported state file format version '' @ to_string_u32 format))
             else if payload_length > so_max_state_bytes options
             then Inl (status_failure Status_OutOfRange Reason_PersistenceTooLarge ''state payload exceeds max_state_bytes'')
             else if length bytes \<noteq> unat (word_of_nat kStateHeaderBytes + payload_length + 32)
             then Inl (corrupt Reason_PersistenceTruncated ''state file length does not match its header'')
             else let payload = take (unat payload_length) (drop kStateHeaderBytes bytes);
                      stored = drop (length bytes - 32) bytes in
               if sha256 payload \<noteq> stored
               then Inl (status_failure Status_IntegrityFailure Reason_PersistenceIntegrityFailure
                           ''state payload digest mismatch'')
               else and_then (deserialize_state payload) (\<lambda>s.
                 let status = validate_policy (ds_policy s) in
                 if \<not> status_ok status
                 then Inl (corrupt Reason_PersistenceCorrupt (''durable policy is invalid: '' @ status_to_string status))
                 else if ds_policy_digest s \<noteq> pl_digest (ds_policy s)
                 then Inl (status_failure Status_IntegrityFailure Reason_PolicyDigestMismatch
                             ''durable policy digest does not match the serialized policy'')
                 else Inr s)))"

definition merge_audit :: "u32 \<Rightarrow> audit_record list \<Rightarrow> audit_record list \<Rightarrow> audit_record list" where
  "merge_audit bound tail records =
     (let oldest = id_value (au_id (hd records));
          merged = filter (\<lambda>a. \<not> id_value (au_id a) \<ge> oldest) tail @ records
      in drop (length merged - unat bound) merged)"

definition merge_journal ::
  "store_options \<Rightarrow> durable_state \<Rightarrow> audit_record list \<Rightarrow> load_report \<Rightarrow> durable_state \<times> load_report" where
  "merge_journal options s records report =
     (if records = [] then (s, report)
      else let s = s\<lparr>ds_audit := merge_audit (so_max_audit_records options) (ds_audit s) records\<rparr>;
               (s, replay) = rebuild_from_audit s records fresh_report
           in (s, if rp_skipped replay > 0
                  then report\<lparr>lr_detail := lr_detail report @ '' some audit records were skipped during replay'',
                              lr_reason := rp_last_reason replay\<rparr>
                  else report))"

text \<open>\<^const>\<open>None\<close> is the answer \<^verbatim>\<open>Fresh\<close>, which leaves the caller's state as it was.\<close>

definition store_load :: "store \<Rightarrow> world \<Rightarrow> (status + (durable_state option \<times> load_report)) \<times> store \<times> world" where
  "store_load st w =
     (if \<not> sr_open st then (Inl store_not_open, st, w)
      else let (file, w) = read_file_bounded (state_path st) (wd_state w)
                 (so_max_state_bytes (sr_options st) + word_of_nat kStateHeaderBytes + 32) w in
        (case file of
           Inl status \<Rightarrow>
             if st_code status = Status_NotFound
             then (Inr (None, fresh_load_report\<lparr>lr_reason := Reason_PersistenceNotInitialized,
                                                lr_detail := ''no durable state present''\<rparr>), st, w)
             else (Inl status, st, w)
         | Inr bytes \<Rightarrow>
             (case decode_state_file (sr_options st) bytes of
                Inl status \<Rightarrow> (Inl status, st, w)
              | Inr s \<Rightarrow>
                  let (journal, st, w) = load_journal st w in
                  (case journal of
                     Inl status \<Rightarrow> (Inl status, st, w)
                   | Inr (records, report) \<Rightarrow>
                       let n = word_of_nat (length records);
                           report = report\<lparr>lr_journal_records := n,
                             lr_outcome := (if lr_outcome report = Load_Fresh then Load_Loaded else lr_outcome report)\<rparr>;
                           (s, report) = merge_journal (sr_options st) s records report;
                           s = s\<lparr>ds_evidence := map (\<lambda>e. e\<lparr>sl_revalidation := True\<rparr>) (ds_evidence s),
                                 ds_journal_records := n\<rparr>
                       in (Inr (Some s, report), st, w)))))"

end
