(* ===== verification/Governor.thy ===== *)
theory Governor
  imports Evaluate Persistence
begin

text \<open>
  \<^verbatim>\<open>include/oversub/governor.hpp\<close>, \<^verbatim>\<open>src/governor.cpp\<close>: the governance runtime. The record
  \<open>governor\<close> has the members that the state mutex protects, with the \<open>world\<close> of the store beside
  them; an operation maps the governor to its answer and the governor it leaves, early returns included, so
  that what a failed operation has already changed is in the model. Mutual exclusion makes every operation
  one step.

  Two inputs of an evaluation are parameters: \<open>iter\<close>, the iteration order of the hash map of service
  classes, and \<open>wall\<close>, the wall clock, which is recorded only.
\<close>

section \<open>Data\<close>

record governor_options =
  go_directory :: string
  go_worker_threads :: u32
  go_max_pending_jobs :: u32
  go_compaction_records :: u64
  go_save_every :: u64
  go_auto_assign :: bool
  go_max_state_bytes :: u64
  go_max_journal_bytes :: u64
  go_max_journal_records :: u64
  go_max_audit_records :: u32
  go_sync_writes :: bool

definition default_governor_options :: governor_options where
  "default_governor_options =
     \<lparr>go_directory = '''', go_worker_threads = 0, go_max_pending_jobs = 64, go_compaction_records = 4096, go_save_every = 256,
      go_auto_assign = True, go_max_state_bytes = 32 * 1024 * 1024, go_max_journal_bytes = 64 * 1024 * 1024,
      go_max_journal_records = 200000, go_max_audit_records = kMaxAuditRecords, go_sync_writes = True\<rparr>"

record decision =
  de_id :: decision_id
  de_evaluation :: evaluation_result
  de_raw :: outcome
  de_effective :: outcome
  de_authorized :: bool
  de_increment :: u64
  de_fenced :: bool
  de_confirmations :: u32
  de_issued_tick :: u64
  de_incarnation :: incarnation_id
  de_epoch :: fabric_epoch
  de_digest :: digest

definition no_decision :: decision where
  "no_decision =
     \<lparr>de_id = StrongId 0, de_evaluation = result_zero, de_raw = Outcome_Unknown, de_effective = Outcome_Unknown,
      de_authorized = False, de_increment = 0, de_fenced = False, de_confirmations = 0, de_issued_tick = 0,
      de_incarnation = StrongId 0, de_epoch = FabricEpoch 0, de_digest = digest_zero\<rparr>"

record revalidation_report =
  vr_valid :: bool
  vr_reason :: reason_code
  vr_detail :: string

record governor_stats =
  gt_evaluations :: u64
  gt_decisions :: u64
  gt_evidence_accepted :: u64
  gt_evidence_duplicates :: u64
  gt_evidence_rejected :: u64
  gt_journal_appends :: u64
  gt_journal_compactions :: u64
  gt_state_saves :: u64
  gt_cancellations :: u64
  gt_epoch_advances :: u64
  gt_policy_installs :: u64
  gt_revalidations :: u64
  gt_revalidations_failed :: u64

definition no_stats :: governor_stats where
  "no_stats =
     \<lparr>gt_evaluations = 0, gt_decisions = 0, gt_evidence_accepted = 0, gt_evidence_duplicates = 0, gt_evidence_rejected = 0,
      gt_journal_appends = 0, gt_journal_compactions = 0, gt_state_saves = 0, gt_cancellations = 0,
      gt_epoch_advances = 0, gt_policy_installs = 0, gt_revalidations = 0, gt_revalidations_failed = 0\<rparr>"

record ingest_outcome =
  in_status :: status
  in_generation :: u64
  in_duplicate :: bool

record evaluation_request =
  rq_domain :: domain_id
  rq_tick :: u64

record content_slot =
  gs_state :: evidence_slot
  gs_capacity :: "capacity_snapshot option"
  gs_reservations :: "reservation_snapshot option"
  gs_admissions :: "admission_snapshot option"
  gs_has_content :: bool

record ingest_rollback =
  ir_slot :: "evidence_slot option"
  ir_sequence :: "(publisher_id \<times> u64) option"

record governor =
  gv_options :: governor_options
  gv_open :: bool
  gv_accepting :: bool
  gv_state :: durable_state
  gv_store :: store
  gv_index :: policy_index
  gv_slots :: "content_slot list"
  gv_slot_index :: "(u64 \<times> u32) \<rightharpoonup> nat"
  gv_clock :: logical_clock
  gv_stats :: governor_stats
  gv_since_save :: u64
  gv_dirty :: bool
  gv_world :: world

section \<open>Helpers\<close>

definition slot_key :: "domain_id \<Rightarrow> evidence_kind \<Rightarrow> u64 \<times> u32" where
  "slot_key d kind = (id_value d, evidence_kind_to_u32 kind)"

definition policy_content_digest :: "policy \<Rightarrow> digest" where
  "policy_content_digest p =
     pl_digest (compute_policy_digest
       (p\<lparr>pl_generation := Gen 1, pl_domains := map (\<lambda>d. d\<lparr>dm_generation := Gen 1\<rparr>) (pl_domains p)\<rparr>))"

definition decision_digest :: "decision \<Rightarrow> digest" where
  "decision_digest x = canonical_digest
     [add_string ''oversub.decision.v1'', add_u64 (id_value (de_id x)), add_digest (er_digest (de_evaluation x)),
      add_u32 (outcome_to_u32 (de_raw x)), add_u32 (outcome_to_u32 (de_effective x)), add_bool (de_authorized x),
      add_u64 (de_increment x), add_bool (de_fenced x), add_u64 (de_issued_tick x),
      add_u64 (id_value (de_incarnation x)), add_u64 (epoch_value (de_epoch x))]"

definition fence_worthy :: "outcome \<Rightarrow> bool" where
  "fence_worthy out = (out = Outcome_EmergencyReduction \<or> out = Outcome_PolicyRejected \<or> out = Outcome_ConflictingInput)"

definition not_open :: status where
  "not_open = status_failure Status_InvalidArgument Reason_PersistenceNotInitialized ''not open''"

definition shutting_down :: status where
  "shutting_down = status_failure Status_ShuttingDown Reason_ShuttingDown ''runtime is shutting down''"

definition upd_stats :: "(governor_stats \<Rightarrow> governor_stats) \<Rightarrow> governor \<Rightarrow> governor" where
  "upd_stats f g = g\<lparr>gv_stats := f (gv_stats g)\<rparr>"

definition upd_state :: "(durable_state \<Rightarrow> durable_state) \<Rightarrow> governor \<Rightarrow> governor" where
  "upd_state f g = g\<lparr>gv_state := f (gv_state g)\<rparr>"

text \<open>A loop over a vector that changes the first element it accepts.\<close>

fun update_first :: "('a \<Rightarrow> bool) \<Rightarrow> ('a \<Rightarrow> 'a) \<Rightarrow> 'a list \<Rightarrow> 'a list" where
  "update_first ok f [] = []"
| "update_first ok f (x # xs) = (if ok x then f x # xs else x # update_first ok f xs)"

definition observe_tick :: "u64 \<Rightarrow> governor \<Rightarrow> governor" where
  "observe_tick t g = (if t \<noteq> 0 then g\<lparr>gv_clock := snd (clock_observe t (gv_clock g))\<rparr> else g)"

section \<open>The durable state\<close>

definition sync_evidence_state :: "governor \<Rightarrow> governor" where
  "sync_evidence_state g = upd_state (\<lambda>s. s\<lparr>ds_evidence := map gs_state (gv_slots g)\<rparr>) g"

definition save_state :: "governor \<Rightarrow> status \<times> governor" where
  "save_state g =
     (let g = sync_evidence_state g;
          g = upd_state (\<lambda>s. s\<lparr>ds_tick := gv_clock g, ds_revision := ds_revision s + 1\<rparr>) g;
          (status, w) = store_save (gv_state g) (gv_store g) (gv_world g);
          g = g\<lparr>gv_world := w\<rparr> in
      if \<not> status_ok status then (status, g)
      else (status, upd_stats (\<lambda>t. t\<lparr>gt_state_saves := gt_state_saves t + 1\<rparr>) (g\<lparr>gv_since_save := 0, gv_dirty := False\<rparr>)))"

definition persist_state :: "bool \<Rightarrow> governor \<Rightarrow> status \<times> governor" where
  "persist_state force g =
     (if \<not> gv_open g then if sr_open (gv_store g) then save_state g else (not_open, g)
      else if \<not> force \<and> \<not> gv_dirty g then (status_success, g)
      else if \<not> force \<and> gv_since_save g < go_save_every (gv_options g) then (status_success, g)
      else save_state g)"

definition drop_content :: "content_slot \<Rightarrow> content_slot" where
  "drop_content sl =
     sl\<lparr>gs_has_content := False, gs_capacity := None, gs_reservations := None, gs_admissions := None,
        gs_state := (gs_state sl)\<lparr>sl_revalidation := True\<rparr>\<rparr>"

definition drop_evidence_content :: "governor \<Rightarrow> governor" where
  "drop_evidence_content g = g\<lparr>gv_slots := map drop_content (gv_slots g)\<rparr>"

section \<open>Opening, closing and configuration\<close>

definition assign_domain_generation :: "domain_config \<Rightarrow> domain_config" where
  "assign_domain_generation d = (if gen_valid (dm_generation d) then d else d\<lparr>dm_generation := Gen 1\<rparr>)"

definition default_limits :: policy_limits where
  "default_limits =
     \<lparr>lm_max_domains = 256, lm_max_resources_per_domain = 256, lm_max_service_classes = 256, lm_max_guarantees = 16384,
      lm_max_demand_records = 32768, lm_max_intents = 8, lm_max_lines = 64, lm_max_bytes = 8192, lm_max_breakdown = 32,
      lm_max_capacity_units = kHardMaxCapacityUnits\<rparr>"

definition default_policy :: policy where
  "default_policy =
     \<lparr>pl_id = StrongId 0, pl_generation = Gen 0, pl_name = '''', pl_ratio_cap = Ratio 1 1, pl_domains = [], pl_classes = [],
      pl_risk_budget = \<lparr>rb_id = StrongId 0, rb_generation = Gen 0, rb_has_absolute = False, rb_max_units = 0,
        rb_has_ppm = False, rb_max_ppm = 0\<rparr>,
      pl_thresholds = \<lparr>th_warn_used_ppm = 900000, th_reduce_overage_ppm = 1, th_emergency_overage_ppm = 100000\<rparr>,
      pl_hysteresis = \<lparr>hy_escalation_confirmations = 1, hy_deescalation_confirmations = 1, hy_cooldown_ticks = 0,
        hy_margin_ppm = 0\<rparr>,
      pl_limits = default_limits, pl_capacity_age = 1, pl_reservation_age = 1, pl_admission_age = 1,
      pl_digest = digest_zero\<rparr>"

definition fresh_state :: durable_state where
  "fresh_state =
     \<lparr>ds_schema = kStateSchemaVersion, ds_revision = 0, ds_incarnation = StrongId 0, ds_epoch = FabricEpoch 0,
      ds_policy_generation = Gen 0, ds_policy_digest = digest_zero, ds_policy = default_policy, ds_publishers = [],
      ds_domains = [], ds_evidence = [], ds_audit = [], ds_decisions = 0, ds_tick = 0, ds_journal_records = 0\<rparr>"

definition initialize_policy :: "policy \<Rightarrow> policy" where
  "initialize_policy p =
     compute_policy_digest
       (p\<lparr>pl_id := (if id_valid (pl_id p) then pl_id p else StrongId 1), pl_generation := Gen 1,
          pl_domains := map assign_domain_generation (pl_domains p)\<rparr>)"

definition initialize :: "policy \<Rightarrow> governor \<Rightarrow> status \<times> governor" where
  "initialize initial g =
     (let p = initialize_policy initial; status = validate_policy p in
      if \<not> status_ok status then (status, g)
      else let s = fresh_state\<lparr>ds_revision := 1, ds_incarnation := StrongId 1, ds_epoch := FabricEpoch 1, ds_policy := p,
                     ds_policy_generation := pl_generation p, ds_policy_digest := pl_digest p\<rparr> in
        persist_state True
          (upd_stats (\<lambda>t. t\<lparr>gt_policy_installs := gt_policy_installs t + 1\<rparr>)
             (g\<lparr>gv_state := s, gv_index := index_rebuild p, gv_slots := [], gv_slot_index := Map.empty, gv_dirty := True\<rparr>)))"

definition restored_slot :: "evidence_slot \<Rightarrow> content_slot" where
  "restored_slot e =
     \<lparr>gs_state = e\<lparr>sl_revalidation := True\<rparr>, gs_capacity = None, gs_reservations = None, gs_admissions = None,
      gs_has_content = False\<rparr>"

definition index_slots :: "content_slot list \<Rightarrow> (u64 \<times> u32) \<rightharpoonup> nat" where
  "index_slots slots =
     fold (\<lambda>i m. emplace m (slot_key (sl_domain (gs_state (slots ! i))) (sl_kind (gs_state (slots ! i)))) i)
       [0..<length slots] Map.empty"

text \<open>Adopting a loaded state: \<^const>\<open>Inl\<close> is the answer that stops the opening.\<close>

definition restore :: "durable_state \<Rightarrow> governor \<Rightarrow> status \<times> governor" where
  "restore loaded g =
     (let g = g\<lparr>gv_state := loaded\<rparr> in
      if id_value (ds_incarnation loaded) = - 1
      then (status_failure Status_Overflow Reason_ArithmeticOverflow ''incarnation overflow'', g)
      else let g = upd_state (\<lambda>s. s\<lparr>ds_incarnation := StrongId (id_value (ds_incarnation s) + 1),
                     ds_epoch := (if epoch_valid (ds_epoch s) then ds_epoch s else FabricEpoch 1),
                     ds_evidence := map (\<lambda>e. e\<lparr>sl_revalidation := True\<rparr>) (ds_evidence s)\<rparr>) g;
               slots = map restored_slot (ds_evidence loaded) in
        persist_state True
          (g\<lparr>gv_clock := snd (clock_restore (ds_tick (gv_state g)) (gv_clock g)), gv_slots := slots,
             gv_slot_index := index_slots slots, gv_index := index_rebuild (ds_policy (gv_state g)), gv_dirty := True\<rparr>))"

definition close_store :: "governor \<Rightarrow> governor" where
  "close_store g = g\<lparr>gv_store := store_close (gv_store g)\<rparr>"

definition store_options_of :: "governor_options \<Rightarrow> store_options" where
  "store_options_of opts =
     \<lparr>so_directory = go_directory opts, so_max_state_bytes = go_max_state_bytes opts,
      so_max_journal_bytes = go_max_journal_bytes opts, so_max_journal_records = go_max_journal_records opts,
      so_max_audit_records = go_max_audit_records opts, so_sync_writes = go_sync_writes opts\<rparr>"

definition governor_open :: "governor_options \<Rightarrow> policy \<Rightarrow> governor \<Rightarrow> status \<times> governor" where
  "governor_open opts initial g =
     (if gv_open g then (status_failure Status_AlreadyExists Reason_None ''governor is already open'', g)
      else if go_directory opts = ''''
      then (status_failure Status_InvalidArgument Reason_PersistenceNotInitialized ''state_directory is required'', g)
      else if go_worker_threads opts > 64
      then (status_failure Status_OutOfRange Reason_LimitExceeded ''worker_threads out of bound'', g)
      else if go_max_pending_jobs opts = 0
      then (status_failure Status_OutOfRange Reason_LimitExceeded ''max_pending_jobs must be non-zero'', g)
      else
        let g = g\<lparr>gv_options := opts\<rparr>;
            (status, st, w) = store_open (store_options_of opts) (gv_store g) (gv_world g);
            g = g\<lparr>gv_store := st, gv_world := w\<rparr> in
        if \<not> status_ok status then (status, g)
        else let (answer, st, w) = store_load (gv_store g) (gv_world g); g = g\<lparr>gv_store := st, gv_world := w\<rparr> in
          (case answer of
             Inl status \<Rightarrow> (status, close_store g)
           | Inr (loaded, report) \<Rightarrow>
               let (status, g) = (case loaded of None \<Rightarrow> initialize initial g | Some s \<Rightarrow> restore s g) in
               if \<not> status_ok status then (status, close_store g)
               else (status_success, g\<lparr>gv_open := True, gv_accepting := True\<rparr>)))"


text \<open>
  The part of \<^verbatim>\<open>shutdown\<close> under the state mutex: \<open>cancelled\<close> is the number of queued jobs that the
  part under the queue mutex cancelled.
\<close>

definition governor_shutdown :: "u64 \<Rightarrow> governor \<Rightarrow> status \<times> governor" where
  "governor_shutdown cancelled g =
     (let g = upd_stats (\<lambda>t. t\<lparr>gt_cancellations := gt_cancellations t + cancelled\<rparr>) (g\<lparr>gv_accepting := False\<rparr>) in
      if \<not> gv_open g then (status_success, g) else persist_state True g)"

definition governor_close :: "u64 \<Rightarrow> governor \<Rightarrow> status \<times> governor" where
  "governor_close cancelled g =
     (let (status, g) = governor_shutdown cancelled g in
      (status, if gv_open g then (close_store g)\<lparr>gv_open := False\<rparr> else g))"

text \<open>The generation a domain of the next policy gets from the domain it replaces.\<close>

definition next_domain :: "policy \<Rightarrow> domain_config \<Rightarrow> domain_config" where
  "next_domain current d =
     (case find_domain current (dm_id d) of
        None \<Rightarrow> assign_domain_generation d
      | Some previous \<Rightarrow>
          assign_domain_generation
            (if domain_config_digest previous = domain_config_digest d then d\<lparr>dm_generation := dm_generation previous\<rparr>
             else if gen_value (dm_generation previous) + 1 > gen_value (dm_generation d)
             then d\<lparr>dm_generation := Gen (gen_value (dm_generation previous) + 1)\<rparr>
             else d))"

definition next_policy :: "policy \<Rightarrow> policy \<Rightarrow> policy" where
  "next_policy current p =
     compute_policy_digest
       (p\<lparr>pl_id := (if id_valid (pl_id p) then pl_id p
                     else if id_valid (pl_id current) then pl_id current else StrongId 1),
          pl_generation := Gen (if gen_valid (pl_generation current) then gen_value (pl_generation current) + 1 else 1),
          pl_domains := map (next_domain current) (pl_domains p)\<rparr>)"

definition install_policy :: "policy \<Rightarrow> u64 \<Rightarrow> governor \<Rightarrow> status \<times> governor" where
  "install_policy p t g =
     (if \<not> gv_open g then (not_open, g)
      else if \<not> gv_accepting g then (shutting_down, g)
      else let g = observe_tick t g; current = ds_policy (gv_state g);
               generation = (if gen_valid (pl_generation current) then gen_value (pl_generation current) + 1 else 1) in
        if generation = 0 then (status_failure Status_Overflow Reason_ArithmeticOverflow ''policy generation overflow'', g)
        else let q = next_policy current p in
          if gen_valid (pl_generation current) \<and> policy_content_digest current = policy_content_digest q
          then (status_success, g)
          else let status = validate_policy q in
            if \<not> status_ok status then (status, g)
            else let g = drop_evidence_content g;
                     g = upd_state (\<lambda>s. s\<lparr>ds_policy := q, ds_policy_generation := pl_generation q,
                           ds_policy_digest := pl_digest q\<rparr>) g in
              persist_state True
                (upd_stats (\<lambda>t. t\<lparr>gt_policy_installs := gt_policy_installs t + 1\<rparr>)
                   (g\<lparr>gv_index := index_rebuild q, gv_dirty := True\<rparr>)))"

definition advance_epoch :: "fabric_epoch \<Rightarrow> governor \<Rightarrow> status \<times> governor" where
  "advance_epoch next g =
     (if \<not> gv_open g then (not_open, g)
      else if \<not> epoch_valid next \<or> epoch_value next \<le> epoch_value (ds_epoch (gv_state g))
      then (status_failure Status_InvalidArgument Reason_EpochNotAdvanced ''the fabric epoch must strictly advance'', g)
      else let g = upd_stats (\<lambda>t. t\<lparr>gt_epoch_advances := gt_epoch_advances t + 1\<rparr>) (upd_state (\<lambda>s. s\<lparr>ds_epoch := next\<rparr>) g);
               g = drop_evidence_content g;
               g = upd_state (\<lambda>s. s\<lparr>ds_publishers := map (\<lambda>r. r\<lparr>pr_fenced := True, pr_fence_reason := Reason_EpochNotAdvanced\<rparr>)
                       (ds_publishers s),
                     ds_domains := map (\<lambda>d. d\<lparr>rt_fenced := True, rt_fence_reason := Reason_EpochMismatch, rt_fence_epoch := next,
                       rt_sticky := Outcome_Stale\<rparr>) (ds_domains s)\<rparr>) g
           in persist_state True (g\<lparr>gv_dirty := True\<rparr>))"

definition advance_tick :: "u64 \<Rightarrow> governor \<Rightarrow> status \<times> governor" where
  "advance_tick delta g =
     (if \<not> gv_open g then (not_open, g)
      else let (ok, t) = clock_advance delta (gv_clock g) in
        if \<not> ok then (status_failure Status_Overflow Reason_ArithmeticOverflow ''tick overflow'', g\<lparr>gv_clock := t\<rparr>)
        else (status_success, upd_state (\<lambda>s. s\<lparr>ds_tick := t\<rparr>) (g\<lparr>gv_clock := t, gv_dirty := True\<rparr>)))"

definition governor_save :: "governor \<Rightarrow> status \<times> governor" where
  "governor_save g = (if \<not> gv_open g then (not_open, g) else persist_state True g)"

section \<open>Publishers\<close>

definition renew_registration :: "incarnation_id \<Rightarrow> fabric_epoch \<Rightarrow> u64 \<Rightarrow> publisher_registration \<Rightarrow> publisher_registration" where
  "renew_registration inc epoch t r =
     r\<lparr>pr_incarnation := inc, pr_fenced := False, pr_fence_reason := Reason_None, pr_epoch := epoch, pr_last_sequence := 0,
       pr_registered_tick := t\<rparr>"

definition find_registration :: "publisher_id \<Rightarrow> governor \<Rightarrow> publisher_registration option" where
  "find_registration p g = List.find (\<lambda>r. pr_publisher r = p) (ds_publishers (gv_state g))"

definition update_registration ::
  "publisher_id \<Rightarrow> (publisher_registration \<Rightarrow> publisher_registration) \<Rightarrow> governor \<Rightarrow> governor" where
  "update_registration p f g =
     upd_state (\<lambda>s. s\<lparr>ds_publishers := update_first (\<lambda>r. pr_publisher r = p) f (ds_publishers s)\<rparr>) g"

definition register_publisher ::
  "publisher_id \<Rightarrow> incarnation_id \<Rightarrow> fabric_epoch \<Rightarrow> u64 \<Rightarrow> governor \<Rightarrow> status \<times> governor" where
  "register_publisher p inc epoch t g =
     (if \<not> gv_open g then (not_open, g)
      else if \<not> gv_accepting g then (shutting_down, g)
      else if \<not> id_valid p \<or> \<not> id_valid inc
      then (status_failure Status_InvalidArgument Reason_InvalidIdentity ''publisher identity unset'', g)
      else if \<not> epoch_valid epoch \<or> epoch_value epoch \<noteq> epoch_value (ds_epoch (gv_state g))
      then (status_failure Status_Stale Reason_EpochMismatch ''publisher epoch does not match the fabric epoch'', g)
      else let g = observe_tick t g in
        (case find_registration p g of
           Some r \<Rightarrow>
             if pr_incarnation r = inc
             then if pr_fenced r
                  then persist_state True ((update_registration p (renew_registration inc epoch (gv_clock g)) g)\<lparr>gv_dirty := True\<rparr>)
                  else (status_success, g)
             else (status_failure Status_Fenced Reason_PublisherIncarnationStale
                     ''a different incarnation is registered; adopt_incarnation is required to fence it'', g)
         | None \<Rightarrow>
             if length (ds_publishers (gv_state g)) \<ge> unat kMaxPublishers
             then (status_failure Status_OutOfRange Reason_LimitExceeded ''publisher table is full'', g)
             else let r = \<lparr>pr_publisher = p, pr_incarnation = inc, pr_epoch = epoch, pr_last_sequence = 0, pr_fenced = False,
                           pr_fence_reason = Reason_None, pr_registered_tick = gv_clock g\<rparr>
                  in persist_state True ((upd_state (\<lambda>s. s\<lparr>ds_publishers := ds_publishers s @ [r]\<rparr>) g)\<lparr>gv_dirty := True\<rparr>)))"

definition require_revalidation :: "publisher_id \<Rightarrow> governor \<Rightarrow> governor" where
  "require_revalidation p g =
     g\<lparr>gv_slots := map (\<lambda>sl. if sl_publisher (gs_state sl) = p
                              then sl\<lparr>gs_state := (gs_state sl)\<lparr>sl_revalidation := True\<rparr>\<rparr> else sl) (gv_slots g)\<rparr>"

definition adopt_incarnation ::
  "publisher_id \<Rightarrow> incarnation_id \<Rightarrow> fabric_epoch \<Rightarrow> u64 \<Rightarrow> governor \<Rightarrow> status \<times> governor" where
  "adopt_incarnation p inc epoch t g =
     (if \<not> gv_open g then (not_open, g)
      else if \<not> gv_accepting g then (shutting_down, g)
      else if \<not> id_valid p \<or> \<not> id_valid inc \<or> \<not> epoch_valid epoch
      then (status_failure Status_InvalidArgument Reason_InvalidIdentity ''publisher identity unset'', g)
      else if epoch_value epoch \<noteq> epoch_value (ds_epoch (gv_state g))
      then (status_failure Status_Stale Reason_EpochMismatch ''publisher epoch does not match the fabric epoch'', g)
      else let g = observe_tick t g in
        (case find_registration p g of
           None \<Rightarrow> (status_failure Status_NotFound Reason_PublisherNotRegistered ''publisher is not registered'', g)
         | Some r \<Rightarrow>
             if pr_incarnation r = inc \<and> \<not> pr_fenced r \<and> epoch_value (pr_epoch r) = epoch_value epoch
             then (status_success, g)
             else persist_state True
                    ((require_revalidation p (update_registration p (renew_registration inc epoch (gv_clock g)) g))\<lparr>gv_dirty := True\<rparr>)))"

definition fence_publisher :: "publisher_id \<Rightarrow> reason_code \<Rightarrow> governor \<Rightarrow> status \<times> governor" where
  "fence_publisher p reason g =
     (if \<not> gv_open g then (not_open, g)
      else (case find_registration p g of
        None \<Rightarrow> (status_failure Status_NotFound Reason_PublisherNotRegistered ''publisher is not registered'', g)
      | Some r \<Rightarrow>
          persist_state True
            ((update_registration p (\<lambda>r. r\<lparr>pr_fenced := True, pr_fence_reason := reason\<rparr>) g)\<lparr>gv_dirty := True\<rparr>)))"


section \<open>Evidence\<close>

definition find_slot :: "domain_id \<Rightarrow> evidence_kind \<Rightarrow> governor \<Rightarrow> content_slot option" where
  "find_slot d kind g = map_option (\<lambda>i. gv_slots g ! i) (gv_slot_index g (slot_key d kind))"

definition empty_slot :: "domain_id \<Rightarrow> evidence_kind \<Rightarrow> content_slot" where
  "empty_slot d kind =
     \<lparr>gs_state = \<lparr>sl_domain = d, sl_kind = kind, sl_generation = 0, sl_evidence_id = StrongId 0, sl_publisher = StrongId 0,
        sl_incarnation = StrongId 0, sl_sequence = 0, sl_observed_tick = 0, sl_payload_digest = digest_zero,
        sl_revalidation = False\<rparr>,
      gs_capacity = None, gs_reservations = None, gs_admissions = None, gs_has_content = False\<rparr>"

text \<open>The reference \<^verbatim>\<open>ensure_slot\<close> returns is the position of the slot.\<close>

definition ensure_slot :: "domain_id \<Rightarrow> evidence_kind \<Rightarrow> governor \<Rightarrow> nat \<times> governor" where
  "ensure_slot d kind g =
     (case gv_slot_index g (slot_key d kind) of
        Some i \<Rightarrow> (i, g)
      | None \<Rightarrow> (length (gv_slots g),
          g\<lparr>gv_slot_index := (gv_slot_index g)(slot_key d kind \<mapsto> length (gv_slots g)),
             gv_slots := gv_slots g @ [empty_slot d kind]\<rparr>))"

definition upd_slot :: "nat \<Rightarrow> (content_slot \<Rightarrow> content_slot) \<Rightarrow> governor \<Rightarrow> governor" where
  "upd_slot i f g = g\<lparr>gv_slots := (gv_slots g)[i := f (gv_slots g ! i)]\<rparr>"

definition clear_content :: "content_slot \<Rightarrow> content_slot" where
  "clear_content sl = sl\<lparr>gs_has_content := False, gs_capacity := None, gs_reservations := None, gs_admissions := None\<rparr>"

definition capture_rollback :: "domain_id \<Rightarrow> evidence_kind \<Rightarrow> publisher_id \<Rightarrow> governor \<Rightarrow> ingest_rollback" where
  "capture_rollback d kind p g =
     \<lparr>ir_slot = map_option gs_state (find_slot d kind g),
      ir_sequence = map_option (\<lambda>r. (p, pr_last_sequence r)) (find_registration p g)\<rparr>"

definition restore_rollback :: "ingest_rollback \<Rightarrow> domain_id \<Rightarrow> evidence_kind \<Rightarrow> governor \<Rightarrow> governor" where
  "restore_rollback rb d kind g =
     (let g = (case ir_slot rb of
            None \<Rightarrow> g
          | Some e \<Rightarrow> let (i, g) = ensure_slot d kind g in upd_slot i (\<lambda>sl. sl\<lparr>gs_state := e\<rparr>) g) in
      (case ir_sequence rb of
         None \<Rightarrow> g
       | Some (p, sequence) \<Rightarrow> update_registration p (\<lambda>r. r\<lparr>pr_last_sequence := sequence\<rparr>) g))"

text \<open>
  What \<^verbatim>\<open>ingest_locked\<close> answers: the status, the generation and whether the evidence was a duplicate.
\<close>

definition accept_evidence ::
  "nat \<Rightarrow> u64 \<Rightarrow> u64 \<Rightarrow> provenance \<Rightarrow> digest \<Rightarrow> governor \<Rightarrow> governor" where
  "accept_evidence i expected observed pv payload_digest g =
     (let g = update_registration (pv_publisher pv) (\<lambda>r. r\<lparr>pr_last_sequence := pv_sequence pv\<rparr>) g;
          g = upd_slot i (\<lambda>sl. clear_content (sl\<lparr>gs_state := (gs_state sl)\<lparr>sl_generation := expected,
                  sl_evidence_id := pv_evidence_id pv, sl_publisher := pv_publisher pv, sl_incarnation := pv_incarnation pv,
                  sl_sequence := pv_sequence pv, sl_observed_tick := observed, sl_payload_digest := payload_digest,
                  sl_revalidation := False\<rparr>\<rparr>)) g
      in upd_stats (\<lambda>t. t\<lparr>gt_evidence_accepted := gt_evidence_accepted t + 1\<rparr>) (g\<lparr>gv_dirty := True\<rparr>))"

definition ingest_slot ::
  "domain_id \<Rightarrow> evidence_kind \<Rightarrow> u64 \<Rightarrow> u64 \<Rightarrow> provenance \<Rightarrow> digest \<Rightarrow> publisher_registration \<Rightarrow> governor
   \<Rightarrow> status \<times> u64 \<times> bool \<times> governor" where
  "ingest_slot d kind claimed observed pv payload_digest r g =
     (let (i, g) = ensure_slot d kind g; e = gs_state (gv_slots g ! i); expected = sl_generation e + 1 in
      if id_valid (sl_evidence_id e) \<and> sl_evidence_id e = pv_evidence_id pv
      then if sl_payload_digest e = payload_digest then (status_success, sl_generation e, True, g)
           else (status_failure Status_Conflict Reason_EvidenceContradictory
                   ''evidence id was already published with different content'', 0, False, g)
      else if pv_sequence pv \<le> pr_last_sequence r
      then (status_failure Status_Stale Reason_PublisherSequenceReplayed
              ''evidence sequence is not ahead of the last accepted sequence'', 0, False, g)
      else if expected = 0 then (status_failure Status_Overflow Reason_ArithmeticOverflow ''generation overflow'', 0, False, g)
      else if claimed = sl_generation e \<and> sl_generation e \<noteq> 0
      then if sl_payload_digest e = payload_digest then (status_success, sl_generation e, True, g)
           else (status_failure Status_Stale Reason_SnapshotOutOfOrder
                   ''generation was already consumed by different content'', 0, False, g)
      else if claimed = 0 \<and> \<not> go_auto_assign (gv_options g)
      then (status_failure Status_InvalidArgument Reason_GenerationUnset ''evidence generation unset'', 0, False, g)
      else if claimed \<noteq> 0 \<and> claimed \<noteq> expected
      then (status_failure Status_Stale Reason_SnapshotOutOfOrder ''evidence generation is not the next generation'', 0, False, g)
      else (status_success, expected, False, accept_evidence i expected observed pv payload_digest g))"

definition ingest ::
  "evidence_kind \<Rightarrow> domain_id \<Rightarrow> u64 \<Rightarrow> fabric_epoch \<Rightarrow> u64 \<Rightarrow> provenance \<Rightarrow> digest \<Rightarrow> governor
   \<Rightarrow> status \<times> u64 \<times> bool \<times> governor" where
  "ingest kind d claimed epoch observed pv payload_digest g =
     (if \<not> gv_open g then (not_open, 0, False, g)
      else if \<not> gv_accepting g then (shutting_down, 0, False, g)
      else if index_domain (gv_index g) d = None
      then (status_failure Status_NotFound Reason_DomainNotInPolicy
              ''evidence was published for a domain the policy does not cover'', 0, False, g)
      else if epoch_value epoch \<noteq> epoch_value (ds_epoch (gv_state g))
      then (status_failure Status_Stale Reason_EpochMismatch ''evidence epoch does not match the fabric epoch'', 0, False, g)
      else (case find_registration (pv_publisher pv) g of
        None \<Rightarrow> (status_failure Status_Denied Reason_PublisherNotRegistered ''publisher is not registered'', 0, False, g)
      | Some r \<Rightarrow>
          if pr_fenced r then (status_failure Status_Fenced Reason_PublisherFenced ''publisher is fenced'', 0, False, g)
          else if epoch_value (pr_epoch r) \<noteq> epoch_value (ds_epoch (gv_state g))
          then (status_failure Status_Stale Reason_WorkerEpochStale
                  ''publisher registration belongs to an older epoch'', 0, False, g)
          else if pr_incarnation r \<noteq> pv_incarnation pv
          then (status_failure Status_Fenced Reason_PublisherIncarnationStale
                  ''evidence comes from an incarnation that is not the registered one'', 0, False, g)
          else if pv_sequence pv = 0
          then (status_failure Status_InvalidArgument Reason_InvalidField ''evidence sequence must be non-zero'', 0, False, g)
          else ingest_slot d kind claimed observed pv payload_digest r g))"

text \<open>
  The body the three \<^verbatim>\<open>ingest_*\<close> operations share: \<open>valid\<close> is the validator's answer, \<open>fill\<close>
  puts the content with its generation into the slot, \<open>unfill\<close> takes it out again.
\<close>

definition rejected :: "status \<Rightarrow> governor \<Rightarrow> ingest_outcome \<times> governor" where
  "rejected status g =
     (\<lparr>in_status = status, in_generation = 0, in_duplicate = False\<rparr>,
      upd_stats (\<lambda>t. t\<lparr>gt_evidence_rejected := gt_evidence_rejected t + 1\<rparr>) g)"

definition publish ::
  "evidence_kind \<Rightarrow> domain_id \<Rightarrow> u64 \<Rightarrow> fabric_epoch \<Rightarrow> u64 \<Rightarrow> provenance \<Rightarrow> status
   \<Rightarrow> (u64 \<Rightarrow> content_slot \<Rightarrow> content_slot) \<Rightarrow> (content_slot \<Rightarrow> content_slot) \<Rightarrow> governor \<Rightarrow> ingest_outcome \<times> governor" where
  "publish kind d claimed epoch observed pv valid fill unfill g =
     (if \<not> status_ok valid then rejected valid g
      else let rollback = capture_rollback d kind (pv_publisher pv) g;
               (status, generation, duplicate, g) = ingest kind d claimed epoch observed pv (pv_payload_digest pv) g in
        if \<not> status_ok status then rejected status g
        else if duplicate
        then (\<lparr>in_status = status_success, in_generation = generation, in_duplicate = True\<rparr>,
              upd_stats (\<lambda>t. t\<lparr>gt_evidence_duplicates := gt_evidence_duplicates t + 1\<rparr>) g)
        else let (i, g) = ensure_slot d kind g;
                 g = upd_slot i (\<lambda>sl. (fill generation sl)\<lparr>gs_has_content := True\<rparr>) g;
                 (saved, g) = persist_state True (sync_evidence_state g) in
          if \<not> status_ok saved
          then let g = upd_slot i (\<lambda>sl. unfill (sl\<lparr>gs_has_content := False\<rparr>)) g; g = restore_rollback rollback d kind g
               in rejected saved (upd_stats (\<lambda>t. t\<lparr>gt_evidence_accepted := gt_evidence_accepted t - 1\<rparr>) g)
          else (\<lparr>in_status = status_success, in_generation = generation, in_duplicate = False\<rparr>, g))"

definition with_digest :: "digest \<Rightarrow> provenance \<Rightarrow> provenance" where
  "with_digest computed pv = (if digest_is_zero (pv_payload_digest pv) then pv\<lparr>pv_payload_digest := computed\<rparr> else pv)"

definition numbered_capacity :: "capacity_snapshot \<Rightarrow> u64 \<Rightarrow> capacity_snapshot" where
  "numbered_capacity c generation =
     (let c = c\<lparr>cs_generation := Gen generation\<rparr>
      in c\<lparr>cs_provenance := (cs_provenance c)\<lparr>pv_payload_digest := capacity_snapshot_digest c\<rparr>\<rparr>)"

definition numbered_reservations :: "reservation_snapshot \<Rightarrow> u64 \<Rightarrow> reservation_snapshot" where
  "numbered_reservations c generation =
     (let c = c\<lparr>rs_generation := Gen generation\<rparr>
      in c\<lparr>rs_provenance := (rs_provenance c)\<lparr>pv_payload_digest := reservation_snapshot_digest c\<rparr>\<rparr>)"

definition numbered_admissions :: "admission_snapshot \<Rightarrow> u64 \<Rightarrow> admission_snapshot" where
  "numbered_admissions c generation =
     (let c = c\<lparr>as_generation := Gen generation\<rparr>
      in c\<lparr>as_provenance := (as_provenance c)\<lparr>pv_payload_digest := admission_snapshot_digest c\<rparr>\<rparr>)"

definition ingest_capacity :: "capacity_snapshot \<Rightarrow> governor \<Rightarrow> ingest_outcome \<times> governor" where
  "ingest_capacity snapshot g =
     (let copy = snapshot\<lparr>cs_provenance := with_digest (capacity_snapshot_digest snapshot) (cs_provenance snapshot)\<rparr> in
      publish Evidence_Capacity (cs_domain copy) (gen_value (cs_generation copy)) (cs_epoch copy) (cs_tick copy)
        (cs_provenance copy) (validate_capacity_snapshot copy)
        (\<lambda>generation sl. sl\<lparr>gs_capacity := Some (numbered_capacity copy generation)\<rparr>) (\<lambda>sl. sl\<lparr>gs_capacity := None\<rparr>) g)"

definition ingest_reservations :: "reservation_snapshot \<Rightarrow> governor \<Rightarrow> ingest_outcome \<times> governor" where
  "ingest_reservations snapshot g =
     (let copy = snapshot\<lparr>rs_provenance := with_digest (reservation_snapshot_digest snapshot) (rs_provenance snapshot)\<rparr> in
      publish Evidence_Reservation (rs_domain copy) (gen_value (rs_generation copy)) (rs_epoch copy) (rs_tick copy)
        (rs_provenance copy) (validate_reservation_snapshot copy)
        (\<lambda>generation sl. sl\<lparr>gs_reservations := Some (numbered_reservations copy generation)\<rparr>) (\<lambda>sl. sl\<lparr>gs_reservations := None\<rparr>) g)"

definition ingest_admissions :: "admission_snapshot \<Rightarrow> governor \<Rightarrow> ingest_outcome \<times> governor" where
  "ingest_admissions snapshot g =
     (let copy = snapshot\<lparr>as_provenance := with_digest (admission_snapshot_digest snapshot) (as_provenance snapshot)\<rparr> in
      publish Evidence_Admission (as_domain copy) (gen_value (as_generation copy)) (as_epoch copy) (as_tick copy)
        (as_provenance copy) (validate_admission_snapshot copy)
        (\<lambda>generation sl. sl\<lparr>gs_admissions := Some (numbered_admissions copy generation)\<rparr>) (\<lambda>sl. sl\<lparr>gs_admissions := None\<rparr>) g)"


section \<open>Decisions\<close>

definition compact_journal_locked :: "governor \<Rightarrow> status \<times> governor" where
  "compact_journal_locked g =
     (let keep = min (go_compaction_records (gv_options g)) (go_max_journal_records (gv_options g));
          (status, st, w) = compact_journal (ds_audit (gv_state g)) keep (gv_store g) (gv_world g);
          g = g\<lparr>gv_store := st, gv_world := w\<rparr> in
      if \<not> status_ok status then (status, g)
      else let g = upd_state (\<lambda>s. s\<lparr>ds_audit := drop (length (ds_audit s) - unat keep) (ds_audit s)\<rparr>) g
           in (status_success, upd_stats (\<lambda>t. t\<lparr>gt_journal_compactions := gt_journal_compactions t + 1\<rparr>) (g\<lparr>gv_dirty := True\<rparr>)))"

definition append_once :: "audit_record \<Rightarrow> governor \<Rightarrow> status \<times> governor" where
  "append_once a g =
     (let (status, st, w) = append_audit a (gv_store g) (gv_world g) in (status, g\<lparr>gv_store := st, gv_world := w\<rparr>))"

definition append_journal :: "audit_record \<Rightarrow> governor \<Rightarrow> status \<times> governor" where
  "append_journal a g =
     (let (status, g) = append_once a g;
          (status, g) =
            (if st_code status = Status_Overflow
             then let (status, g) = compact_journal_locked g in if \<not> status_ok status then (status, g) else append_once a g
             else (status, g)) in
      if \<not> status_ok status then (status, g)
      else let g = upd_state (\<lambda>s. s\<lparr>ds_audit :=
                     drop (length (ds_audit s @ [a]) - unat (go_max_audit_records (gv_options g))) (ds_audit s @ [a])\<rparr>) g
           in (status_success, upd_stats (\<lambda>t. t\<lparr>gt_journal_appends := gt_journal_appends t + 1\<rparr>) g))"

definition slot_generation :: "domain_id \<Rightarrow> evidence_kind \<Rightarrow> governor \<Rightarrow> u64" where
  "slot_generation d kind g = (case find_slot d kind g of None \<Rightarrow> 0 | Some sl \<Rightarrow> sl_generation (gs_state sl))"

definition current_expectation :: "domain_id \<Rightarrow> governor \<Rightarrow> authority_expectation" where
  "current_expectation i g =
     (let p = ds_policy (gv_state g) in
      \<lparr>ex_epoch = ds_epoch (gv_state g), ex_policy_generation = pl_generation p,
       ex_domain_generation = (case index_domain (gv_index g) i of None \<Rightarrow> Gen 0 | Some d \<Rightarrow> dm_generation d),
       ex_capacity_generation = Gen (slot_generation i Evidence_Capacity g),
       ex_reservation_generation = Gen (slot_generation i Evidence_Reservation g),
       ex_admission_generation = Gen (slot_generation i Evidence_Admission g),
       ex_risk_budget_generation = rb_generation (pl_risk_budget p)\<rparr>)"

definition slot_content :: "domain_id \<Rightarrow> evidence_kind \<Rightarrow> (content_slot \<Rightarrow> 'a option) \<Rightarrow> governor \<Rightarrow> 'a option" where
  "slot_content i kind content g =
     (case find_slot i kind g of None \<Rightarrow> None | Some sl \<Rightarrow> if gs_has_content sl then content sl else None)"

definition current_evidence :: "domain_id \<Rightarrow> governor \<Rightarrow> domain_evidence" where
  "current_evidence i g =
     \<lparr>ev_capacity = slot_content i Evidence_Capacity gs_capacity g,
      ev_reservations = slot_content i Evidence_Reservation gs_reservations g,
      ev_admissions = slot_content i Evidence_Admission gs_admissions g\<rparr>"

definition uncovered_result :: "domain_id \<Rightarrow> authority_expectation \<Rightarrow> durable_state \<Rightarrow> evaluation_result" where
  "uncovered_result i ex s =
     result_zero\<lparr>er_outcome := Outcome_Unknown, er_reason := Reason_DomainNotInPolicy,
       er_detail := ''the policy does not cover this domain'', er_accounting := accounting_zero\<lparr>da_domain := i\<rparr>,
       er_authority := authority_unset\<lparr>av_domain := i, av_policy := pl_id (ds_policy s),
         av_policy_generation := pl_generation (ds_policy s), av_epoch := ds_epoch s,
         av_risk_budget := rb_id (pl_risk_budget (ds_policy s)),
         av_risk_budget_generation := rb_generation (pl_risk_budget (ds_policy s)),
         av_capacity_generation := ex_capacity_generation ex, av_reservation_generation := ex_reservation_generation ex,
         av_admission_generation := ex_admission_generation ex\<rparr>,
       er_intents := [\<lparr>ci_kind = Corrective_RevalidateEvidence, ci_target = Target_Domain, ci_domain = i,
         ci_resource = StrongId 0, ci_pool = StrongId 0, ci_class = StrongId 0, ci_amount = 0,
         ci_reason = Reason_DomainNotInPolicy,
         ci_rationale = ''the domain is not covered by policy; no authority exists''\<rparr>]\<rparr>"

definition find_runtime :: "domain_id \<Rightarrow> governor \<Rightarrow> domain_runtime option" where
  "find_runtime i g = List.find (\<lambda>d. rt_domain d = i) (ds_domains (gv_state g))"

definition working_runtime :: "domain_runtime option \<Rightarrow> domain_id \<Rightarrow> domain_generation \<Rightarrow> outcome \<Rightarrow> domain_runtime" where
  "working_runtime previous i generation out =
     (case previous of
        Some d \<Rightarrow> d
      | None \<Rightarrow> fresh_runtime\<lparr>rt_domain := i, rt_generation := generation, rt_sticky := out, rt_last_raw := out\<rparr>)"

text \<open>
  Hysteresis: from the raw outcome, the tick and the share of the ceiling in use to the new sticky outcome
  with its counters and the effective outcome.
\<close>

definition relax :: "hysteresis_policy \<Rightarrow> u64 \<Rightarrow> outcome \<Rightarrow> u64 \<Rightarrow> domain_runtime \<Rightarrow> domain_runtime \<times> outcome" where
  "relax h t raw used_ppm d =
     (let used = min used_ppm kPpmScale;
          margin_ok = used + hy_margin_ppm h \<le> kPpmScale;
          cooldown_ok = t \<ge> rt_last_escalation_tick d \<and> t - rt_last_escalation_tick d \<ge> hy_cooldown_ticks h in
      if \<not> margin_ok \<or> \<not> cooldown_ok then (d\<lparr>rt_confirmations := 0\<rparr>, rt_sticky d)
      else let d = d\<lparr>rt_confirmations := rt_confirmations d + 1\<rparr> in
        if ucast (rt_confirmations d) \<ge> hy_deescalation_confirmations h
        then (d\<lparr>rt_sticky := raw, rt_confirmations := 0\<rparr>, raw)
        else (d, rt_sticky d))"

definition hysteresis :: "hysteresis_policy \<Rightarrow> u64 \<Rightarrow> outcome \<Rightarrow> u64 \<Rightarrow> domain_runtime \<Rightarrow> domain_runtime \<times> outcome" where
  "hysteresis h t raw used_ppm d =
     (if outcome_severity raw \<ge> 2
      then (d\<lparr>rt_last_escalation_tick := (if outcome_severity raw > outcome_severity (rt_sticky d) then t
                                           else rt_last_escalation_tick d),
              rt_sticky := raw, rt_confirmations := 0\<rparr>, raw)
      else if outcome_severity raw = 1
      then if outcome_severity (rt_sticky d) \<ge> 2 then (d\<lparr>rt_confirmations := 0\<rparr>, rt_sticky d)
           else let d = (if rt_sticky d \<noteq> Outcome_AtLimit then d\<lparr>rt_sticky := Outcome_AtLimit, rt_confirmations := 0\<rparr> else d);
                    d = d\<lparr>rt_confirmations := rt_confirmations d + 1\<rparr>
                in (d, if ucast (rt_confirmations d) \<ge> hy_escalation_confirmations h then Outcome_AtLimit else Outcome_WithinPolicy)
      else if outcome_severity (rt_sticky d) = 0 then (d\<lparr>rt_sticky := raw, rt_confirmations := 0\<rparr>, raw)
      else relax h t raw used_ppm d)"


definition make_decision :: "governor \<Rightarrow> evaluation_result \<Rightarrow> outcome \<Rightarrow> domain_runtime \<Rightarrow> u64 \<Rightarrow> decision" where
  "make_decision g r effective working t =
     (let authorized = (effective = Outcome_WithinPolicy \<and> er_authorized r);
          x = \<lparr>de_id = StrongId (ds_decisions (gv_state g) + 1), de_evaluation = r, de_raw = er_outcome r,
               de_effective = effective, de_authorized = authorized,
               de_increment = (if authorized then er_increment r else 0),
               de_fenced = (fence_worthy effective \<or> rt_fenced working \<and> \<not> outcome_is_authoritative effective),
               de_confirmations = rt_confirmations working, de_issued_tick = t,
               de_incarnation = ds_incarnation (gv_state g), de_epoch = ds_epoch (gv_state g), de_digest = digest_zero\<rparr>
      in x\<lparr>de_digest := decision_digest x\<rparr>)"

definition decision_summary :: "evaluation_result \<Rightarrow> string" where
  "decision_summary r =
     (let text = outcome_name (er_outcome r)
            @ (if er_reason r \<noteq> Reason_None then '':'' @ reason_code_name (er_reason r) else '''')
      in take (unat kMaxAuditSummary) text)"

definition make_audit :: "governor \<Rightarrow> u64 \<Rightarrow> domain_id \<Rightarrow> domain_generation \<Rightarrow> decision \<Rightarrow> domain_runtime \<Rightarrow> audit_record" where
  "make_audit g wall i generation x working =
     (let r = de_evaluation x; s = gv_state g in
      \<lparr>au_id = StrongId (id_value (de_id x)), au_tick = de_issued_tick x, au_wall_millis = wall, au_incarnation = ds_incarnation s,
       au_epoch = ds_epoch s, au_domain = i, au_domain_generation = generation,
       au_policy_generation = pl_generation (ds_policy s), au_raw = er_outcome r, au_effective = de_effective x,
       au_reason = er_reason r, au_binding = da_binding (er_accounting r), au_decision = de_id x,
       au_decision_digest = de_digest x, au_input_digest = av_input_digest (er_authority r), au_authorized = de_authorized x,
       au_increment = de_increment x, au_fenced = de_fenced x, au_confirmations = rt_confirmations working,
       au_last_escalation_tick = rt_last_escalation_tick working, au_ceiling = da_ceiling (er_accounting r),
       au_committed = da_committed (er_accounting r), au_overage = da_overage (er_accounting r),
       au_summary = decision_summary r\<rparr>)"

definition evaluation_tick :: "evaluation_request \<Rightarrow> governor \<Rightarrow> u64" where
  "evaluation_tick rq g = (if rq_tick rq < gv_clock g then gv_clock g else rq_tick rq)"

definition current_result ::
  "((u64 \<times> u64) list \<Rightarrow> (u64 \<times> u64) list) \<Rightarrow> domain_id \<Rightarrow> u64 \<Rightarrow> governor \<Rightarrow> evaluation_result" where
  "current_result iter i t g =
     (let ex = current_expectation i g in
      (case index_domain (gv_index g) i of
         None \<Rightarrow> uncovered_result i ex (gv_state g)
       | Some d \<Rightarrow> evaluate_domain iter (ds_policy (gv_state g)) (gv_index g) d ex (current_evidence i g) t))"

text \<open>The runtime state, the decision and the audit record of an evaluation, before anything is written.\<close>

definition prepare_decision ::
  "((u64 \<times> u64) list \<Rightarrow> (u64 \<times> u64) list) \<Rightarrow> u64 \<Rightarrow> domain_id \<Rightarrow> u64 \<Rightarrow> governor
   \<Rightarrow> domain_runtime \<times> decision \<times> audit_record" where
  "prepare_decision iter wall i t g =
     (let generation = ex_domain_generation (current_expectation i g);
          r = current_result iter i t g;
          d = working_runtime (find_runtime i g) i generation (er_outcome r);
          (d, effective) = hysteresis (pl_hysteresis (ds_policy (gv_state g))) t (er_outcome r) (da_used_ppm (er_accounting r)) d;
          d = d\<lparr>rt_last_raw := er_outcome r, rt_generation := generation\<rparr>;
          x = make_decision g r effective d t
      in (d, x, make_audit g wall i generation x d))"

definition decided_runtime :: "fabric_epoch \<Rightarrow> decision \<Rightarrow> domain_runtime \<Rightarrow> domain_runtime" where
  "decided_runtime epoch x d =
     d\<lparr>rt_fenced := de_fenced x, rt_fence_reason := (if de_fenced x then er_reason (de_evaluation x) else Reason_None),
       rt_fence_epoch := (if de_fenced x then epoch else FabricEpoch 0), rt_last_decision := de_id x,
       rt_last_digest := de_digest x\<rparr>"

definition put_runtime :: "domain_id \<Rightarrow> domain_runtime \<Rightarrow> domain_runtime list \<Rightarrow> domain_runtime list" where
  "put_runtime i d ds = (if \<exists>e \<in> set ds. rt_domain e = i then update_first (\<lambda>e. rt_domain e = i) (\<lambda>_. d) ds else ds @ [d])"

definition commit_decision :: "domain_id \<Rightarrow> u64 \<Rightarrow> decision \<Rightarrow> domain_runtime \<Rightarrow> governor \<Rightarrow> governor" where
  "commit_decision i t x d g =
     upd_stats (\<lambda>c. c\<lparr>gt_evaluations := gt_evaluations c + 1, gt_decisions := gt_decisions c + 1\<rparr>)
       ((upd_state (\<lambda>s. s\<lparr>ds_domains := put_runtime i (decided_runtime (ds_epoch s) x d) (ds_domains s),
            ds_decisions := id_value (de_id x), ds_tick := t\<rparr>) g)
        \<lparr>gv_since_save := gv_since_save g + 1, gv_dirty := True\<rparr>)"

definition evaluate_locked ::
  "((u64 \<times> u64) list \<Rightarrow> (u64 \<times> u64) list) \<Rightarrow> u64 \<Rightarrow> evaluation_request \<Rightarrow> bool \<Rightarrow> governor
   \<Rightarrow> (status + decision) \<times> governor" where
  "evaluate_locked iter wall rq cancel g =
     (if \<not> gv_open g then (Inl not_open, g)
      else if \<not> id_valid (rq_domain rq)
      then (Inl (status_failure Status_InvalidArgument Reason_InvalidIdentity ''evaluation domain unset''), g)
      else let i = rq_domain rq; t = evaluation_tick rq g; g = g\<lparr>gv_clock := snd (clock_observe t (gv_clock g))\<rparr>;
               (d, x, a) = prepare_decision iter wall i t g in
        if cancel
        then (Inl (status_failure Status_Cancelled Reason_DecisionCancelled
                     ''evaluation was cancelled before its authoritative completion boundary''),
              upd_stats (\<lambda>c. c\<lparr>gt_cancellations := gt_cancellations c + 1\<rparr>) g)
        else if find_runtime i g = None \<and> length (ds_domains (gv_state g)) \<ge> unat kMaxDomainsState
        then (Inl (status_failure Status_OutOfRange Reason_LimitExceeded ''domain runtime table is full''), g)
        else let (status, g) = append_journal a g in
          if \<not> status_ok status then (Inl status, g)
          else let (status, g) = persist_state False (commit_decision i t x d g) in
            if \<not> status_ok status then (Inl status, g) else (Inr x, g))"

definition evaluate ::
  "((u64 \<times> u64) list \<Rightarrow> (u64 \<times> u64) list) \<Rightarrow> u64 \<Rightarrow> evaluation_request \<Rightarrow> governor \<Rightarrow> (status + decision) \<times> governor" where
  "evaluate iter wall rq g =
     (if \<not> gv_accepting g then (Inl shutting_down, g) else evaluate_locked iter wall rq False g)"

section \<open>Revalidation and queries\<close>

definition check_slot :: "domain_id \<Rightarrow> governor \<Rightarrow> unit \<Rightarrow> evidence_kind \<times> u64 \<times> string \<Rightarrow> (reason_code \<times> string) + unit" where
  "check_slot i g u c =
     (case c of (kind, generation, what) \<Rightarrow>
        (case find_slot i kind g of
           Some sl \<Rightarrow>
             if gs_has_content sl \<and> \<not> sl_revalidation (gs_state sl) \<and> sl_generation (gs_state sl) = generation then Inr ()
             else Inl (Reason_DecisionStale, ''the '' @ what @ '' evidence that justified the decision is no longer authoritative'')
         | None \<Rightarrow> Inl (Reason_DecisionStale, ''the '' @ what @ '' evidence that justified the decision is no longer authoritative'')))"

definition check_runtime :: "decision \<Rightarrow> domain_runtime option \<Rightarrow> (reason_code \<times> string) + unit" where
  "check_runtime x rt =
     (case rt of
        None \<Rightarrow> Inr ()
      | Some d \<Rightarrow>
          if rt_fenced d then Inl (Reason_DecisionAlreadyFenced, ''the domain is fenced'')
          else if id_valid (rt_last_decision d) \<and> rt_last_decision d \<noteq> de_id x
          then Inl (Reason_DecisionSuperseded, ''a newer decision supersedes this one'')
          else Inr ())"

definition check_decision :: "decision \<Rightarrow> governor \<Rightarrow> (reason_code \<times> string) + unit" where
  "check_decision x g =
     (let v = er_authority (de_evaluation x); s = gv_state g; p = ds_policy s in
      if \<not> authority_complete v \<or> \<not> er_authority_valid (de_evaluation x)
      then Inl (Reason_DecisionNotAuthoritative, ''the decision never carried authority'')
      else if de_incarnation x \<noteq> ds_incarnation s
      then Inl (Reason_DecisionStale, ''the runtime was restarted; live authority is not restored'')
      else if epoch_value (de_epoch x) \<noteq> epoch_value (ds_epoch s)
      then Inl (Reason_DecisionEpochMismatch, ''the fabric epoch advanced'')
      else if gen_value (av_policy_generation v) \<noteq> gen_value (pl_generation p)
      then Inl (Reason_DecisionGenerationMismatch, ''the policy generation changed'')
      else if gen_value (av_risk_budget_generation v) \<noteq> gen_value (rb_generation (pl_risk_budget p))
      then Inl (Reason_DecisionGenerationMismatch, ''the risk budget generation changed'')
      else (case index_domain (gv_index g) (av_domain v) of
        None \<Rightarrow> Inl (Reason_DecisionGenerationMismatch, ''the domain is no longer covered by the policy'')
      | Some d \<Rightarrow>
          if gen_value (av_domain_generation v) \<noteq> gen_value (dm_generation d)
          then Inl (Reason_DecisionGenerationMismatch, ''the domain configuration generation changed'')
          else
            and_then (check_runtime x (find_runtime (av_domain v) g))
              (\<lambda>_. for_each (check_slot (av_domain v) g) ()
                 [(Evidence_Capacity, gen_value (av_capacity_generation v), ''capacity''),
                  (Evidence_Reservation, gen_value (av_reservation_generation v), ''reservation''),
                  (Evidence_Admission, gen_value (av_admission_generation v), ''admission'')])))"

definition revalidate :: "decision \<Rightarrow> governor \<Rightarrow> (status + revalidation_report) \<times> governor" where
  "revalidate x g =
     (if \<not> gv_open g then (Inl not_open, g)
      else let g = upd_stats (\<lambda>c. c\<lparr>gt_revalidations := gt_revalidations c + 1\<rparr>) g in
        (case check_decision x g of
           Inl (reason, detail) \<Rightarrow>
             (Inr \<lparr>vr_valid = False, vr_reason = reason, vr_detail = detail\<rparr>,
              upd_stats (\<lambda>c. c\<lparr>gt_revalidations_failed := gt_revalidations_failed c + 1\<rparr>) g)
         | Inr _ \<Rightarrow>
             (Inr \<lparr>vr_valid = True, vr_reason = Reason_None, vr_detail = ''decision is still bound to the current authority''\<rparr>, g)))"

definition history :: "nat \<Rightarrow> governor \<Rightarrow> status + audit_record list" where
  "history limit g =
     (if \<not> gv_open g then Inl not_open
      else let audit = ds_audit (gv_state g) in Inr (drop (length audit - min limit (length audit)) audit))"

definition evidence_generations :: "domain_id \<Rightarrow> governor \<Rightarrow> status + (u64 \<times> u64 \<times> u64)" where
  "evidence_generations i g =
     (if \<not> gv_open g then Inl not_open
      else Inr (slot_generation i Evidence_Capacity g, slot_generation i Evidence_Reservation g, slot_generation i Evidence_Admission g))"

definition publisher_sequence :: "publisher_id \<Rightarrow> governor \<Rightarrow> status + u64" where
  "publisher_sequence p g =
     (case find_registration p g of
        None \<Rightarrow> Inl (status_failure Status_NotFound Reason_PublisherNotRegistered ''publisher is not registered'')
      | Some r \<Rightarrow> Inr (pr_last_sequence r))"

definition domain_state :: "domain_id \<Rightarrow> governor \<Rightarrow> status + domain_runtime" where
  "domain_state i g =
     (if \<not> gv_open g then Inl not_open
      else (case find_runtime i g of
        None \<Rightarrow> Inl (status_failure Status_NotFound Reason_DomainNotInPolicy ''no runtime state for the domain'')
      | Some d \<Rightarrow> Inr d))"

end
