(* ===== verification/Jobs.thy ===== *)
theory Jobs
  imports Governor
begin

text \<open>
  The job queue of \<^verbatim>\<open>src/governor.cpp\<close>: \<^verbatim>\<open>EvaluationJob\<close>, \<^verbatim>\<open>submit\<close>, \<^verbatim>\<open>worker_loop\<close> and
  \<^verbatim>\<open>shutdown\<close>. A job is named by its position in \<open>ru_jobs\<close>. The worker threads are the jobs they
  hold: \<open>ru_taken\<close> between the removal from the queue and the evaluation, \<open>ru_done\<close> between the
  evaluation and \<^verbatim>\<open>finish\<close>. Every critical section is one step of \<open>runs\<close>, so that cancellation,
  workers, clients and shutdown interleave as the two mutexes allow.
\<close>

section \<open>Jobs\<close>

record job =
  jb_finished :: bool
  jb_cancel_requested :: bool
  jb_cancel_flag :: bool
  jb_status :: status
  jb_decision :: decision

definition fresh_job :: job where
  "fresh_job =
     \<lparr>jb_finished = False, jb_cancel_requested = False, jb_cancel_flag = False, jb_status = status_success,
      jb_decision = no_decision\<rparr>"

definition job_ready :: "job \<Rightarrow> bool" where
  "job_ready j = jb_finished j"

definition job_cancelled :: "job \<Rightarrow> bool" where
  "job_cancelled j = jb_cancel_flag j"

definition job_cancel :: "job \<Rightarrow> bool \<times> job" where
  "job_cancel j =
     (if jb_finished j then (False, j) else (True, j\<lparr>jb_cancel_requested := True, jb_cancel_flag := True\<rparr>))"

text \<open>\<^const>\<open>None\<close> while the caller waits.\<close>

definition job_get :: "job \<Rightarrow> (status + decision) option" where
  "job_get j =
     (if \<not> jb_finished j then None
      else if status_ok (jb_status j) then Some (Inr (jb_decision j)) else Some (Inl (jb_status j)))"

definition job_finish :: "status \<Rightarrow> decision \<Rightarrow> job \<Rightarrow> job" where
  "job_finish status x j = j\<lparr>jb_status := status, jb_decision := x, jb_finished := True\<rparr>"

section \<open>The runtime with its queue and workers\<close>

record runtime =
  ru_governor :: governor
  ru_jobs :: "job list"
  ru_queue :: "(nat \<times> evaluation_request) list"
  ru_taken :: "(nat \<times> evaluation_request) list"
  ru_done :: "(nat \<times> (status + decision)) list"
  ru_shutting_down :: bool

definition upd_job :: "nat \<Rightarrow> (job \<Rightarrow> job) \<Rightarrow> runtime \<Rightarrow> runtime" where
  "upd_job i f r = r\<lparr>ru_jobs := (ru_jobs r)[i := f (ru_jobs r ! i)]\<rparr>"

definition finish_answer :: "status + decision \<Rightarrow> job \<Rightarrow> job" where
  "finish_answer answer j = (case answer of Inl status \<Rightarrow> job_finish status no_decision j | Inr x \<Rightarrow> job_finish status_success x j)"

text \<open>\<^verbatim>\<open>submit\<close>: the answer is the status and the job, and a synchronous evaluation is done at once.\<close>

definition submit ::
  "((u64 \<times> u64) list \<Rightarrow> (u64 \<times> u64) list) \<Rightarrow> u64 \<Rightarrow> evaluation_request \<Rightarrow> runtime \<Rightarrow> (status + nat) \<times> runtime" where
  "submit iter wall rq r =
     (let g = ru_governor r; i = length (ru_jobs r) in
      if \<not> gv_open g then (Inl not_open, r)
      else if \<not> gv_accepting g then (Inl shutting_down, r)
      else if go_worker_threads (gv_options g) = 0
      then let (answer, g) = evaluate iter wall rq g
           in (Inr i, r\<lparr>ru_governor := g, ru_jobs := ru_jobs r @ [finish_answer answer fresh_job]\<rparr>)
      else if ru_shutting_down r then (Inl shutting_down, r)
      else if length (ru_queue r) \<ge> unat (go_max_pending_jobs (gv_options g))
      then (Inl (status_failure Status_QueueFull Reason_QueueLimitExceeded ''pending job queue is full''), r)
      else (Inr i, r\<lparr>ru_jobs := ru_jobs r @ [fresh_job], ru_queue := ru_queue r @ [(i, rq)]\<rparr>))"

definition cancelled_answer :: "string \<Rightarrow> status" where
  "cancelled_answer detail = status_failure Status_Cancelled Reason_DecisionCancelled detail"

definition worker_take :: "runtime \<Rightarrow> runtime option" where
  "worker_take r =
     (case ru_queue r of
        [] \<Rightarrow> None
      | (i, rq) # queue \<Rightarrow>
          let r = r\<lparr>ru_queue := queue\<rparr> in
          if job_cancelled (ru_jobs r ! i)
          then Some (upd_job i (job_finish (cancelled_answer ''job was cancelled before it started'') no_decision) r)
          else Some (r\<lparr>ru_taken := ru_taken r @ [(i, rq)]\<rparr>))"

definition worker_evaluate ::
  "((u64 \<times> u64) list \<Rightarrow> (u64 \<times> u64) list) \<Rightarrow> u64 \<Rightarrow> nat \<times> evaluation_request \<Rightarrow> runtime \<Rightarrow> runtime" where
  "worker_evaluate iter wall p r =
     (case p of (i, rq) \<Rightarrow>
        let (answer, g) = evaluate_locked iter wall rq (job_cancelled (ru_jobs r ! i)) (ru_governor r)
        in r\<lparr>ru_governor := g, ru_taken := remove1 p (ru_taken r), ru_done := ru_done r @ [(i, answer)]\<rparr>)"

definition worker_finish :: "nat \<times> (status + decision) \<Rightarrow> runtime \<Rightarrow> runtime" where
  "worker_finish p r =
     (case p of (i, answer) \<Rightarrow> upd_job i (finish_answer answer) (r\<lparr>ru_done := remove1 p (ru_done r)\<rparr>))"

text \<open>The part of \<^verbatim>\<open>shutdown\<close> before the workers are joined, and the part after it.\<close>

definition abandon_job :: "nat \<times> evaluation_request \<Rightarrow> runtime \<Rightarrow> runtime" where
  "abandon_job p r =
     upd_job (fst p) (\<lambda>j. job_finish (cancelled_answer ''job was cancelled by runtime shutdown'') no_decision (snd (job_cancel j))) r"

definition abandon :: "runtime \<Rightarrow> u64 \<times> runtime" where
  "abandon r =
     (let cancelled = length (filter (\<lambda>(i, rq). \<not> jb_finished (ru_jobs r ! i)) (ru_queue r));
          r' = fold abandon_job (ru_queue r) (r\<lparr>ru_shutting_down := True, ru_queue := []\<rparr>)
      in (word_of_nat cancelled, r'\<lparr>ru_governor := (ru_governor r')\<lparr>gv_accepting := False\<rparr>\<rparr>))"

definition fresh_runtime_of :: "governor \<Rightarrow> runtime" where
  "fresh_runtime_of g =
     \<lparr>ru_governor = g, ru_jobs = [], ru_queue = [], ru_taken = [], ru_done = [], ru_shutting_down = False\<rparr>"

text \<open>
  The steps. \<open>keeps_workers\<close> admits any other operation of the governor: none of them touches the queue.
\<close>

inductive runs :: "((u64 \<times> u64) list \<Rightarrow> (u64 \<times> u64) list) \<Rightarrow> runtime \<Rightarrow> runtime \<Rightarrow> bool" for iter where
  submits: "submit iter wall rq r = (answer, r') \<Longrightarrow> runs iter r r'"
| cancels: "i < length (ru_jobs r) \<Longrightarrow> runs iter r (upd_job i (\<lambda>j. snd (job_cancel j)) r)"
| takes: "worker_take r = Some r' \<Longrightarrow> runs iter r r'"
| evaluates: "p \<in> set (ru_taken r) \<Longrightarrow> runs iter r (worker_evaluate iter wall p r)"
| finishes: "p \<in> set (ru_done r) \<Longrightarrow> runs iter r (worker_finish p r)"
| operates: "gv_options g = gv_options (ru_governor r) \<Longrightarrow> runs iter r (r\<lparr>ru_governor := g\<rparr>)"
| abandons: "runs iter r (snd (abandon r))"

inductive_cases runsE: "runs iter r r'"

abbreviation reaches :: "((u64 \<times> u64) list \<Rightarrow> (u64 \<times> u64) list) \<Rightarrow> runtime \<Rightarrow> runtime \<Rightarrow> bool" where
  "reaches iter \<equiv> (runs iter)\<^sup>*\<^sup>*"

end
