(* ===== verification/State_Facts.thy ===== *)
theory State_Facts
  imports State
begin

text \<open>
  Facts about the state file and the replay: the contract \<open>codec\<close> of every record of the file, the
  round trip of the whole state, the bounds of whatever reads back, and the state a replay computes.
\<close>

section \<open>The codecs of the state file\<close>

definition wf_evidence_kind :: "evidence_kind \<Rightarrow> bool" where
  "wf_evidence_kind k = (case k of Evidence_cast n \<Rightarrow> 3 \<le> n | _ \<Rightarrow> True)"

lemma evidence_kind_of_to_u32 [codec_simps]:
  "wf_evidence_kind k \<Longrightarrow> evidence_kind_of_u32 (evidence_kind_to_u32 k) = k"
  by (cases k) (auto simp: wf_evidence_kind_def evidence_kind_of_u32_def word_le_nat_alt)

lemma wf_evidence_kind_of_u32 [simp]: "wf_evidence_kind (evidence_kind_of_u32 n)"
  by (simp add: evidence_kind_of_u32_def wf_evidence_kind_def word_le_nat_alt word_eq_by_unat; arith)

context codec begin

lemma list_round:
  assumes "list_all ok xs" and "length xs \<le> bound" and "bound < 18446744073709551616"
  shows "r_list bound dec (w_list enc xs @ rest) = Some (xs, rest)"
proof -
  have "length xs < 18446744073709551616" using assms(2,3) by simp
  then show ?thesis
    using times_round [OF assms(1)] assms(2) by (simp add: r_list_def w_list_def w_size_def codec_simps)
qed

lemma need_round: "ok x \<Longrightarrow> need dec detail (enc x @ rest) = Inr (x, rest)"
  by (simp add: need_def dec_enc)

lemma each_round:
  "list_all ok xs \<Longrightarrow> read_each (need dec detail) (length xs) (concat (map enc xs) @ rest) = Inr (xs, rest)"
  by (induction xs) (simp_all add: need_round)

lemma table_round:
  assumes "list_all ok xs" and "length xs \<le> unat bound"
  shows "read_table truncated bound too_large (need dec detail) (w_list enc xs @ rest) = Inr (xs, rest)"
proof -
  have n: "length xs < 18446744073709551616" using assms(2) unat_u64_less [of bound] by linarith
  then have "\<not> bound < word_of_nat (length xs)" using assms(2) by (simp add: word_less_nat_alt)
  with n show ?thesis
    using each_round [OF assms(1)] by (simp add: read_table_def w_list_def w_size_def need_def codec_simps)
qed

end

lemma dropped_string_fits: "string_fits m s \<Longrightarrow> w_string_dropped s m = w_string_body s"
  by (simp add: w_string_dropped_def w_string_fits)

definition name_fits :: "string \<Rightarrow> bool" where
  "name_fits s \<longleftrightarrow> length s \<le> 128"

lemma name_fits_string [simp]: "string_fits kHardMaxNameLength s = name_fits s"
  by (simp add: string_fits_def name_fits_def)

definition domain_storable :: "domain_config \<Rightarrow> bool" where
  "domain_storable d \<longleftrightarrow> name_fits (dm_name d) \<and> length (dm_members d) \<le> 4096"

definition class_storable :: "service_class_ref \<Rightarrow> bool" where
  "class_storable c \<longleftrightarrow> name_fits (sc_name c)"

definition policy_storable :: "policy \<Rightarrow> bool" where
  "policy_storable p \<longleftrightarrow>
     name_fits (pl_name p) \<and> length (pl_domains p) \<le> 4096 \<and> list_all domain_storable (pl_domains p)
     \<and> length (pl_classes p) \<le> 4096 \<and> list_all class_storable (pl_classes p) \<and> digest_ok (pl_digest p)"

definition runtime_storable :: "domain_runtime \<Rightarrow> bool" where
  "runtime_storable d \<longleftrightarrow> wf_outcome (rt_sticky d) \<and> wf_outcome (rt_last_raw d) \<and> digest_ok (rt_last_digest d)"

definition slot_storable :: "evidence_slot \<Rightarrow> bool" where
  "slot_storable e \<longleftrightarrow> wf_evidence_kind (sl_kind e) \<and> digest_ok (sl_payload_digest e)"

definition audit_storable :: "audit_record \<Rightarrow> bool" where
  "audit_storable a \<longleftrightarrow>
     wf_outcome (au_raw a) \<and> wf_outcome (au_effective a) \<and> wf_constraint (au_binding a)
     \<and> digest_ok (au_decision_digest a) \<and> digest_ok (au_input_digest a) \<and> length (au_summary a) \<le> 256"

definition state_storable :: "durable_state \<Rightarrow> bool" where
  "state_storable s \<longleftrightarrow>
     ds_schema s = kStateSchemaVersion \<and> digest_ok (ds_policy_digest s) \<and> policy_storable (ds_policy s)
     \<and> length (ds_publishers s) \<le> 4096
     \<and> length (ds_domains s) \<le> 4096 \<and> list_all runtime_storable (ds_domains s)
     \<and> length (ds_evidence s) \<le> 16384 \<and> list_all slot_storable (ds_evidence s)
     \<and> length (ds_audit s) \<le> 65536 \<and> list_all audit_storable (ds_audit s)"

lemma state_bounds [simp]:
  "unat (ucast kMaxPublishers :: u64) = 4096" "unat (ucast kMaxDomainsState :: u64) = 4096"
  "unat kMaxDomainsState = 4096" "unat kMaxEvidenceSlots = 16384" "unat (ucast kMaxAuditRecords :: u64) = 65536"
  "unat kMaxAuditSummary = 256"
  by (simp_all add: kMaxPublishers_def kMaxDomainsState_def kMaxEvidenceSlots_def kMaxAuditRecords_def kMaxAuditSummary_def)

interpretation ratio_codec: codec write_ratio read_ratio "\<lambda>_. True"
  by unfold_locales (simp add: write_ratio_def read_ratio_def codec_simps)

interpretation member_codec: codec "\<lambda>m. w_u64 (id_value m)" read_member "\<lambda>_. True"
  by unfold_locales (simp add: read_member_def codec_simps)

lemmas [codec_simps] = ratio_codec.dec_enc [OF TrueI]

interpretation domain_codec: codec write_domain read_domain domain_storable
proof unfold_locales
  fix d rest assume "domain_storable d"
  then show "read_domain (write_domain d @ rest) = Some (d, rest)"
    using member_codec.list_round [of "dm_members d" 4096]
    by (simp add: domain_storable_def write_domain_def read_domain_def codec_simps dropped_string_fits list_all_iff)
qed

interpretation class_codec: codec write_class read_class class_storable
  by unfold_locales (simp add: class_storable_def write_class_def read_class_def codec_simps dropped_string_fits)

interpretation risk_codec: codec write_risk_budget read_risk_budget "\<lambda>_. True"
  by unfold_locales (simp add: write_risk_budget_def read_risk_budget_def codec_simps)

interpretation thresholds_codec: codec write_thresholds read_thresholds "\<lambda>_. True"
  by unfold_locales (simp add: write_thresholds_def read_thresholds_def codec_simps)

interpretation hysteresis_codec: codec write_hysteresis read_hysteresis "\<lambda>_. True"
  by unfold_locales (simp add: write_hysteresis_def read_hysteresis_def codec_simps)

interpretation limits_codec: codec write_limits read_limits "\<lambda>_. True"
  by unfold_locales (simp add: write_limits_def read_limits_def codec_simps)

lemmas [codec_simps] =
  risk_codec.dec_enc [OF TrueI] thresholds_codec.dec_enc [OF TrueI] hysteresis_codec.dec_enc [OF TrueI]
  limits_codec.dec_enc [OF TrueI]

interpretation policy_codec: codec write_policy read_policy policy_storable
proof unfold_locales
  fix p rest assume "policy_storable p"
  then show "read_policy (write_policy p @ rest) = Some (p, rest)"
    using domain_codec.list_round [of "pl_domains p" 4096] class_codec.list_round [of "pl_classes p" 4096]
    by (simp add: policy_storable_def write_policy_def read_policy_def codec_simps dropped_string_fits)
qed

interpretation publisher_codec: codec write_publisher read_publisher "\<lambda>_. True"
  by unfold_locales (simp add: write_publisher_def read_publisher_def codec_simps)

interpretation runtime_codec: codec write_runtime read_runtime runtime_storable
  by unfold_locales (simp add: runtime_storable_def write_runtime_def read_runtime_def codec_simps)

interpretation slot_codec: codec write_slot read_slot slot_storable
  by unfold_locales (simp add: slot_storable_def write_slot_def read_slot_def codec_simps)

definition audit_bytes :: "audit_record \<Rightarrow> u8 list" where
  "audit_bytes a = audit_header_bytes a @ w_string_body (au_summary a)"

interpretation audit_codec: codec audit_bytes read_audit audit_storable
  by unfold_locales
     (simp add: audit_storable_def audit_bytes_def audit_header_bytes_def read_audit_def codec_simps string_fits_def)

section \<open>Audit records\<close>

lemma serialize_audit_bytes:
  "serialize_audit_record a = (if length (au_summary a) \<le> 256 then Inr (audit_bytes a)
     else Inl (status_failure Status_OutOfRange Reason_LimitExceeded ''audit summary too long''))"
  by (simp add: serialize_audit_record_def w_string_eq string_fits_def audit_bytes_def)

lemma audit_record_round: "audit_storable a \<Longrightarrow> deserialize_audit_record (audit_bytes a) = Inr a"
  by (simp add: deserialize_audit_record_def audit_codec.dec_enc_exact)

lemma audit_bytes_length: "audit_storable a \<Longrightarrow> length (audit_bytes a) \<le> 600"
  by (simp add: audit_storable_def digest_ok_def audit_bytes_def audit_header_bytes_def w_digest_def w_raw_def
      w_string_body_def string_bytes_def)

definition audit_entry :: "audit_record \<Rightarrow> u8 list" where
  "audit_entry a = w_size (audit_bytes a) @ audit_bytes a"

lemma audit_entry_round:
  assumes "audit_storable a"
  shows "read_audit_entry (audit_entry a @ rest) = Inr (a, rest)"
proof -
  have "length (audit_bytes a) < 18446744073709551616" using audit_bytes_length [OF assms] by simp
  then show ?thesis
    using assms by (simp add: read_audit_entry_def audit_entry_def w_size_def need_def codec_simps r_raw_append audit_record_round)
qed

lemma audit_entries_round:
  "list_all audit_storable as \<Longrightarrow>
     read_each read_audit_entry (length as) (concat (map audit_entry as) @ rest) = Inr (as, rest)"
  by (induction as) (simp_all add: audit_entry_round)

lemma audit_entries_written:
  "for_each write_audit_entry w as =
     (if list_all (\<lambda>a. length (au_summary a) \<le> 256) as then Inr (w @ concat (map audit_entry as))
      else Inl (status_failure Status_OutOfRange Reason_LimitExceeded ''audit summary too long''))"
  by (induction as arbitrary: w)
     (auto simp: write_audit_entry_def serialize_audit_bytes audit_entry_def w_raw_def)

section \<open>The state file\<close>

definition state_bytes :: "durable_state \<Rightarrow> u8 list" where
  "state_bytes s =
     w_u32 (ds_schema s) @ w_u64 (ds_revision s) @ w_u64 (id_value (ds_incarnation s)) @ w_u64 (epoch_value (ds_epoch s))
     @ w_u64 (gen_value (ds_policy_generation s)) @ w_digest (ds_policy_digest s) @ write_policy (ds_policy s)
     @ w_list write_publisher (ds_publishers s) @ w_list write_runtime (ds_domains s) @ w_list write_slot (ds_evidence s)
     @ w_list audit_entry (ds_audit s) @ w_u64 (ds_decisions s) @ w_u64 (ds_tick s) @ w_u64 (ds_journal_records s)"

lemma serialize_state_bytes:
  "serialize_state s =
     (if list_all (\<lambda>a. length (au_summary a) \<le> 256) (ds_audit s) then Inr (state_bytes s)
      else Inl (status_failure Status_OutOfRange Reason_LimitExceeded ''audit summary too long''))"
  by (simp add: serialize_state_def audit_entries_written state_bytes_def w_list_def)

lemma audit_table_round:
  assumes "list_all audit_storable as" and "length as \<le> 65536"
  shows "read_table t (ucast kMaxAuditRecords) l read_audit_entry (w_list audit_entry as @ rest) = Inr (as, rest)"
proof -
  have "\<not> ucast kMaxAuditRecords < (word_of_nat (length as) :: u64)"
    using assms(2) by (simp add: word_less_nat_alt)
  then show ?thesis
    using audit_entries_round [OF assms(1)] assms(2)
    by (simp add: read_table_def w_list_def w_size_def need_def codec_simps)
qed

lemma need_scalar:
  "need r_u32 t (w_u32 x @ rest) = Inr (x, rest)" "need r_u64 t (w_u64 y @ rest) = Inr (y, rest)"
  "digest_ok d \<Longrightarrow> need r_digest t (w_digest d @ rest) = Inr (d, rest)" "need r_u64 t (w_u64 y) = Inr (y, [])"
  using u64_codec.dec_enc_exact by (simp_all add: need_def codec_simps)

lemma deserialize_state_bytes: "state_storable s \<Longrightarrow> deserialize_state (state_bytes s) = Inr s"
  by (simp add: state_storable_def deserialize_state_def state_bytes_def need_scalar policy_codec.need_round
      publisher_codec.table_round runtime_codec.table_round slot_codec.table_round audit_table_round list_all_iff)

section \<open>What reads back\<close>

text \<open>Every value a reader can return satisfies the predicate.\<close>

definition yields :: "'a reader \<Rightarrow> ('a \<Rightarrow> bool) \<Rightarrow> bool" where
  "yields r P \<longleftrightarrow> (\<forall>bs x rest. r bs = Some (x, rest) \<longrightarrow> P x)"

lemma yieldsD: "yields r P \<Longrightarrow> r bs = Some (x, rest) \<Longrightarrow> P x"
  by (auto simp: yields_def)

lemma yields_digest: "yields r_digest digest_ok"
  by (auto simp: yields_def r_digest_def r_raw_def digest_ok_def split: if_splits)

lemma yields_string: "yields (r_string m) (\<lambda>s. length s \<le> unat m)"
  by (auto simp: yields_def r_string_def r_raw_def bytes_string_def bind_eq_Some_conv word_le_nat_alt not_less split: if_splits)

lemma yields_times: "yields r P \<Longrightarrow> r_times n r bs = Some (xs, rest) \<Longrightarrow> list_all P xs \<and> length xs = n"
  by (induction n arbitrary: bs xs) (auto simp: bind_eq_Some_conv dest: yieldsD)

lemma yields_list: "yields r P \<Longrightarrow> yields (r_list bound r) (\<lambda>xs. length xs \<le> bound \<and> list_all P xs)"
  unfolding yields_def [of "r_list bound r"] r_list_def
  by (auto simp: bind_eq_Some_conv dest!: yields_times split: if_splits)

lemma yields_member: "yields read_member (\<lambda>_. True)"
  by (simp add: yields_def)

lemma yields_domain: "yields read_domain domain_storable"
  using yieldsD [OF yields_string] yieldsD [OF yields_list [OF yields_member]]
  unfolding yields_def [of read_domain] read_domain_def
  by (fastforce simp: bind_eq_Some_conv domain_storable_def name_fits_def)

lemma yields_class: "yields read_class class_storable"
  using yieldsD [OF yields_string]
  unfolding yields_def [of read_class] read_class_def
  by (fastforce simp: bind_eq_Some_conv class_storable_def name_fits_def)

lemma yields_policy: "yields read_policy policy_storable"
  unfolding yields_def [of read_policy] read_policy_def
  by (auto simp: bind_eq_Some_conv policy_storable_def name_fits_def
      dest!: yieldsD [OF yields_string] yieldsD [OF yields_list [OF yields_domain]] yieldsD [OF yields_list [OF yields_class]]
        yieldsD [OF yields_digest])

lemma yields_runtime: "yields read_runtime runtime_storable"
  unfolding yields_def [of read_runtime] read_runtime_def
  by (auto simp: bind_eq_Some_conv runtime_storable_def dest!: yieldsD [OF yields_digest])

lemma yields_slot: "yields read_slot slot_storable"
  unfolding yields_def [of read_slot] read_slot_def
  by (auto simp: bind_eq_Some_conv slot_storable_def dest!: yieldsD [OF yields_digest])

lemma yields_audit: "yields read_audit audit_storable"
  unfolding yields_def [of read_audit] read_audit_def
  by (auto simp: bind_eq_Some_conv audit_storable_def dest!: yieldsD [OF yields_digest] yieldsD [OF yields_string])

lemma need_Inr: "need r t bs = Inr x \<longleftrightarrow> r bs = Some x"
  by (simp add: need_def split: option.splits)

lemma read_each_all:
  assumes "read_each r n bs = Inr (xs, rest)" and "\<And>bs x rest. r bs = Inr (x, rest) \<Longrightarrow> P x"
  shows "list_all P xs \<and> length xs = n"
  using assms(1) by (induction n arbitrary: bs xs) (auto simp: and_then_Inr_iff dest: assms(2))

lemma read_table_all:
  assumes "read_table t bound l r bs = Inr (xs, rest)" and "\<And>bs x rest. r bs = Inr (x, rest) \<Longrightarrow> P x"
  shows "length xs \<le> unat bound \<and> list_all P xs"
  using assms(1) unfolding read_table_def
  by (auto simp: and_then_Inr_iff not_less word_le_nat_alt split: if_splits dest!: read_each_all [where P = P, OF _ assms(2)])

lemma read_audit_entry_storable: "read_audit_entry bs = Inr (a, rest) \<Longrightarrow> audit_storable a"
  by (auto simp: read_audit_entry_def deserialize_audit_record_def and_then_Inr_iff need_Inr
      split: option.splits if_splits dest!: yieldsD [OF yields_audit])

lemma deserialize_state_storable:
  assumes "deserialize_state bs = Inr s"
  shows "state_storable s"
proof -
  have pub: "\<And>bs x rest. need read_publisher t bs = Inr (x, rest) \<Longrightarrow> True" for t by simp
  have rt: "\<And>bs x rest. need read_runtime t bs = Inr (x, rest) \<Longrightarrow> runtime_storable x" for t
    by (simp add: need_Inr yieldsD [OF yields_runtime])
  have sl: "\<And>bs x rest. need read_slot t bs = Inr (x, rest) \<Longrightarrow> slot_storable x" for t
    by (simp add: need_Inr yieldsD [OF yields_slot])
  from assms obtain schema pd policy pubs doms slots as b1 b2 b3 b4 b5 b6 b7 b8 b9 b10 b11 b12 where
    schema: "schema = kStateSchemaVersion" "ds_schema s = schema"
    and pd: "r_digest b1 = Some (pd, b2)" and policy: "read_policy b3 = Some (policy, b4)"
    and pubs: "read_table ''publisher count truncated'' (ucast kMaxPublishers) ''publisher table too large''
       (need read_publisher ''publisher record truncated'') b5 = Inr (pubs, b6)"
    and doms: "read_table ''domain count truncated'' (ucast kMaxDomainsState) ''domain table too large''
       (need read_runtime ''domain runtime record truncated'') b7 = Inr (doms, b8)"
    and slots: "read_table ''evidence slot count truncated'' kMaxEvidenceSlots ''evidence table too large''
       (need read_slot ''evidence slot truncated'') b9 = Inr (slots, b10)"
    and audit: "read_table ''audit count truncated'' (ucast kMaxAuditRecords) ''audit table too large'' read_audit_entry b11 = Inr (as, b12)"
    and sel: "ds_policy_digest s = pd" "ds_policy s = policy" "ds_publishers s = pubs" "ds_domains s = doms"
    "ds_evidence s = slots" "ds_audit s = as"
    unfolding deserialize_state_def by (auto simp: and_then_Inr_iff need_Inr split: if_splits)
  have "digest_ok pd" by (rule yieldsD [OF yields_digest pd])
  moreover have "policy_storable policy" by (rule yieldsD [OF yields_policy policy])
  moreover have "length pubs \<le> 4096" using read_table_all [OF pubs, of "\<lambda>_. True"] by simp
  moreover have "length doms \<le> 4096" "list_all runtime_storable doms"
    using read_table_all [where P = runtime_storable, OF doms rt] by simp_all
  moreover have "length slots \<le> 16384" "list_all slot_storable slots"
    using read_table_all [where P = slot_storable, OF slots sl] by simp_all
  moreover have "length as \<le> 65536" "list_all audit_storable as"
    using read_table_all [where P = audit_storable, OF audit read_audit_entry_storable] by simp_all
  ultimately show ?thesis by (simp add: state_storable_def schema sel)
qed

section \<open>Replaying the journal\<close>

definition runtime_map :: "domain_runtime list \<Rightarrow> domain_id \<rightharpoonup> domain_runtime" where
  "runtime_map ds = map_of (map (\<lambda>d. (rt_domain d, d)) ds)"

lemma runtime_map_update:
  assumes "distinct (map rt_domain ds)" and "i < length ds" and "rt_domain d = rt_domain (ds ! i)"
  shows "runtime_map (ds[i := d]) = (runtime_map ds)(rt_domain d \<mapsto> d)"
  using assms
proof (induction ds arbitrary: i)
  case (Cons x xs)
  show ?case
  proof (cases i)
    case 0
    with Cons.prems show ?thesis by (auto simp: runtime_map_def fun_eq_iff)
  next
    case (Suc j)
    with Cons.prems have "rt_domain x \<noteq> rt_domain d" by (metis distinct.simps(2) image_eqI length_Cons list.set_map list.simps(9) nth_Cons_Suc nth_mem Suc_less_eq)
    with Suc Cons show ?thesis by (auto simp: runtime_map_def fun_eq_iff)
  qed
qed simp

lemma runtime_map_append:
  "k \<notin> rt_domain ` set ds \<Longrightarrow> rt_domain d = k \<Longrightarrow> runtime_map (ds @ [d]) = (runtime_map ds)(k \<mapsto> d)"
  by (induction ds) (auto simp: runtime_map_def fun_eq_iff)

lemma replayed_names [simp]: "rt_domain (replay_domain a d) = rt_domain d"
  by (simp add: replay_domain_def)

text \<open>The runtime state a record stands for: every field but the identity is the record's.\<close>

definition runtime_of_audit :: "audit_record \<Rightarrow> domain_runtime" where
  "runtime_of_audit a = replay_domain a (fresh_runtime\<lparr>rt_domain := au_domain a\<rparr>)"

lemma replay_domain_overwrites: "rt_domain d = au_domain a \<Longrightarrow> replay_domain a d = runtime_of_audit a"
  by (cases d) (simp add: replay_domain_def runtime_of_audit_def fresh_runtime_def)

text \<open>What a replay should compute: record after record, the domain of the record takes its state.\<close>

definition replay_spec :: "(domain_id \<rightharpoonup> domain_runtime) \<Rightarrow> audit_record list \<Rightarrow> (domain_id \<rightharpoonup> domain_runtime)" where
  "replay_spec m records = fold (\<lambda>a m. m(au_domain a \<mapsto> runtime_of_audit a)) records m"

definition replay_inv :: "durable_state \<Rightarrow> audit_record list \<Rightarrow> replay \<Rightarrow> bool" where
  "replay_inv s0 records y \<longleftrightarrow>
     distinct (map rt_domain (ds_domains (ry_state y)))
     \<and> (\<forall>k. ry_index y (id_value k) = None \<longleftrightarrow> k \<notin> rt_domain ` set (ds_domains (ry_state y)))
     \<and> (\<forall>k i. ry_index y (id_value k) = Some i \<longrightarrow> i < length (ds_domains (ry_state y)) \<and> rt_domain (ds_domains (ry_state y) ! i) = k)
     \<and> runtime_map (ds_domains (ry_state y)) = replay_spec (runtime_map (ds_domains s0)) records
     \<and> length (ds_domains (ry_state y)) \<le> length (ds_domains s0) + length records
     \<and> ry_previous y = (if records = [] then 0 else id_value (au_id (last records)))
     \<and> ds_policy (ry_state y) = ds_policy s0 \<and> ds_publishers (ry_state y) = ds_publishers s0
     \<and> ds_evidence (ry_state y) = ds_evidence s0"

lemma index_fold:
  "case fold (\<lambda>i m. emplace m (id_value (rt_domain (ds ! i))) i) [0..<n] Map.empty (id_value k) of
     None \<Rightarrow> (\<forall>i < n. rt_domain (ds ! i) \<noteq> k) | Some i \<Rightarrow> i < n \<and> rt_domain (ds ! i) = k"
proof (induction n)
  case (Suc n)
  then show ?case
    by (auto simp: emplace_def id_value_eq_iff less_Suc_eq split: option.splits)
qed simp

lemma replay_start_inv:
  assumes "distinct (map rt_domain (ds_domains s))"
  shows "replay_inv s [] (replay_start s rp)"
proof -
  have "ry_index (replay_start s rp) (id_value k) = None \<longleftrightarrow> k \<notin> rt_domain ` set (ds_domains s)"
    "ry_index (replay_start s rp) (id_value k) = Some i \<Longrightarrow> i < length (ds_domains s) \<and> rt_domain (ds_domains s ! i) = k" for k i
  proof -
    have mem: "k \<in> rt_domain ` set (ds_domains s) \<longleftrightarrow> (\<exists>i < length (ds_domains s). rt_domain (ds_domains s ! i) = k)"
      by (auto simp: set_conv_nth)
    define m where "m = ry_index (replay_start s rp)"
    have "case m (id_value k) of None \<Rightarrow> (\<forall>i < length (ds_domains s). rt_domain (ds_domains s ! i) \<noteq> k)
        | Some i \<Rightarrow> i < length (ds_domains s) \<and> rt_domain (ds_domains s ! i) = k"
      unfolding m_def replay_start_def replay.select_convs by (rule index_fold)
    then show "ry_index (replay_start s rp) (id_value k) = None \<longleftrightarrow> k \<notin> rt_domain ` set (ds_domains s)"
      "ry_index (replay_start s rp) (id_value k) = Some i \<Longrightarrow> i < length (ds_domains s) \<and> rt_domain (ds_domains s ! i) = k"
      unfolding mem m_def [symmetric] by (cases "m (id_value k)"; auto)+
  qed
  moreover have "ry_state (replay_start s rp) = s" "ry_previous (replay_start s rp) = 0" by (simp_all add: replay_start_def)
  ultimately show ?thesis using assms by (simp add: replay_inv_def replay_spec_def)
qed

lemma replay_step_inv:
  assumes inv: "replay_inv s0 records y" and next_id: "(if records = [] then 0 else id_value (au_id (last records))) < id_value (au_id a)"
    and room: "length (ds_domains s0) + length records < 4096"
  shows "replay_inv s0 (records @ [a]) (replay_record a y)"
proof -
  let ?ds = "ds_domains (ry_state y)" and ?k = "au_domain a"
  have dist: "distinct (map rt_domain ?ds)"
    and absent: "\<And>k. ry_index y (id_value k) = None \<longleftrightarrow> k \<notin> rt_domain ` set ?ds"
    and at: "\<And>k i. ry_index y (id_value k) = Some i \<Longrightarrow> i < length ?ds \<and> rt_domain (?ds ! i) = k"
    and map: "runtime_map ?ds = replay_spec (runtime_map (ds_domains s0)) records"
    and len: "length ?ds \<le> length (ds_domains s0) + length records"
    and prev: "ry_previous y < id_value (au_id a)"
    and rest: "ds_policy (ry_state y) = ds_policy s0" "ds_publishers (ry_state y) = ds_publishers s0" "ds_evidence (ry_state y) = ds_evidence s0"
    using inv next_id unfolding replay_inv_def by auto
  have prev: "\<not> id_value (au_id a) \<le> ry_previous y" using prev by simp
  have spec: "replay_spec (runtime_map (ds_domains s0)) (records @ [a]) = (runtime_map ?ds)(?k \<mapsto> runtime_of_audit a)"
    unfolding map replay_spec_def by simp
  show ?thesis
  proof (cases "ry_index y (id_value ?k)")
    case (Some i)
    from at [OF Some] have i: "i < length ?ds" "rt_domain (?ds ! i) = ?k" by simp_all
    have ds: "ds_domains (ry_state (replay_record a y)) = ?ds[i := runtime_of_audit a]"
      using Some prev i by (simp add: replay_record_def Let_def replay_apply_def replay_domain_overwrites)
    have names: "map rt_domain (?ds[i := runtime_of_audit a]) = map rt_domain ?ds"
      using i by (simp add: map_update runtime_of_audit_def list_update_same_conv)
    then have set_names: "rt_domain ` set (?ds[i := runtime_of_audit a]) = rt_domain ` set ?ds" by (metis set_map)
    have nth: "rt_domain (?ds[i := runtime_of_audit a] ! j) = rt_domain (?ds ! j)" if "j < length ?ds" for j
      using names that by (metis length_list_update nth_map)
    have upd: "runtime_map (?ds[i := runtime_of_audit a]) = (runtime_map ?ds)(?k \<mapsto> runtime_of_audit a)"
      using runtime_map_update [OF dist i(1), of "runtime_of_audit a"] i(2) by (simp add: runtime_of_audit_def)
    have other: "ry_index (replay_record a y) = ry_index y" "ry_previous (replay_record a y) = id_value (au_id a)"
      "ds_policy (ry_state (replay_record a y)) = ds_policy s0" "ds_publishers (ry_state (replay_record a y)) = ds_publishers s0"
      "ds_evidence (ry_state (replay_record a y)) = ds_evidence s0"
      using Some prev rest by (simp_all add: replay_record_def Let_def replay_apply_def)
    show ?thesis
      unfolding replay_inv_def ds other using dist absent at spec upd names set_names nth len by auto
  next
    case None
    let ?new = "runtime_of_audit a"
    have room': "length ?ds < 4096" using len room by simp
    have k: "?k \<notin> rt_domain ` set ?ds" using None absent by simp
    have ds: "ds_domains (ry_state (replay_record a y)) = ?ds @ [?new]"
      using None prev room' by (simp add: replay_record_def Let_def replay_apply_def replay_domain_overwrites)
    have other: "ry_index (replay_record a y) = (ry_index y)(id_value ?k \<mapsto> length ?ds)"
      "ry_previous (replay_record a y) = id_value (au_id a)"
      "ds_policy (ry_state (replay_record a y)) = ds_policy s0" "ds_publishers (ry_state (replay_record a y)) = ds_publishers s0"
      "ds_evidence (ry_state (replay_record a y)) = ds_evidence s0"
      using None prev rest room' by (simp_all add: replay_record_def Let_def replay_apply_def)
    have new: "rt_domain ?new = ?k" by (simp add: runtime_of_audit_def)
    have upd: "runtime_map (?ds @ [?new]) = (runtime_map ?ds)(?k \<mapsto> ?new)"
      by (rule runtime_map_append [OF k new])
    show ?thesis
      unfolding replay_inv_def ds other spec upd
      using dist absent at k new len by (auto simp: nth_append id_value_eq_iff less_Suc_eq dest: at)
  qed
qed

lemma replay_all_inv:
  assumes "distinct (map rt_domain (ds_domains s))" and "sorted_wrt (<) (0 # map (\<lambda>a. id_value (au_id a)) records)"
    and "length (ds_domains s) + length records \<le> 4096"
  shows "replay_inv s records (fold replay_record records (replay_start s rp))"
  using assms(2,3)
proof (induction records rule: rev_induct)
  case Nil
  then show ?case using replay_start_inv [OF assms(1)] by simp
next
  case (snoc a records)
  then have "replay_inv s records (fold replay_record records (replay_start s rp))"
    by (simp add: sorted_wrt_append)
  moreover have "(if records = [] then 0 else id_value (au_id (last records))) < id_value (au_id a)"
    using snoc.prems(1) by (auto simp: sorted_wrt_append)
  ultimately show ?case
    using replay_step_inv [of s records _ a] snoc.prems(2) by simp
qed

end
