(* ===== verification/Persistence_Facts.thy ===== *)
theory Persistence_Facts
  imports State_Facts Persistence
begin

text \<open>
  Facts about the frames of the state file and of the journal: what is written is scanned back, a damaged
  tail is cut off where it begins, and what a repair writes reads back undamaged.
\<close>

section \<open>Header words\<close>

lemma append_words:
  "append_u32 out x = out @ w_u32 x" "append_u64 out y = out @ w_u64 y"
  by (simp_all add: append_u32_def append_u64_def w_u32_def w_u64_def)

lemma read_words:
  "read_u32 bs n = map_option (\<lambda>(x, _). (x, n + 4)) (r_u32 (drop n bs))"
  "read_u64 bs n = map_option (\<lambda>(x, _). (x, n + 8)) (r_u64 (drop n bs))"
  by (auto simp: read_u32_def read_u64_def r_u32_def r_u64_def intro!: fold_cong)

lemma make_frame_bytes:
  "make_frame magic version payload =
     magic @ w_u32 version @ w_u32 0 @ w_u64 (word_of_nat (length payload)) @ payload @ sha256 payload"
  by (simp add: make_frame_def append_words)

lemma magic_lengths [simp]: "length kJournalMagic = 4" "length kStateMagic = 8"
  by (simp_all add: kJournalMagic_def kStateMagic_def)

lemma frame_lengths [simp]:
  "length (make_journal_frame payload) = 52 + length payload" "length (make_state_file payload) = 56 + length payload"
  by (simp_all add: make_journal_frame_def make_state_file_def make_frame_bytes)

lemma drop_past: "length pre = n \<Longrightarrow> drop (n + k) (pre @ xs) = drop k xs"
  by auto

section \<open>One journal frame\<close>

definition frame_of :: "audit_record \<Rightarrow> u8 list" where
  "frame_of a = make_journal_frame (audit_bytes a)"

lemma frame_of_length: "length (frame_of a) = 52 + length (audit_bytes a)"
  by (simp add: frame_of_def)

definition frame_fits :: "store_options \<Rightarrow> audit_record \<Rightarrow> bool" where
  "frame_fits opts a \<longleftrightarrow> audit_storable a \<and> length (audit_bytes a) \<le> unat (so_max_state_bytes opts)"

lemma scan_frame_of:
  assumes "frame_fits opts a"
  shows "scan_frame opts (pre @ frame_of a @ post) (length pre) = Inr (a, length pre + length (frame_of a))"
proof -
  let ?p = "audit_bytes a" and ?bs = "pre @ frame_of a @ post"
  have len: "length ?p \<le> 600" using assms audit_bytes_length by (simp add: frame_fits_def)
  have n: "unat (word_of_nat (length ?p) :: u64) = length ?p" "unat (word_of_nat (length ?p) + 32 :: u64) = length ?p + 32"
    using len by (simp_all add: unat_word_ariths)
  have bytes: "?bs = pre @ kJournalMagic @ w_u32 kJournalFormatVersion @ w_u32 0
      @ w_u64 (word_of_nat (length ?p)) @ ?p @ sha256 ?p @ post"
    by (simp add: frame_of_def make_journal_frame_def make_frame_bytes)
  have words: "read_u32 ?bs (length pre + 4) = Some (kJournalFormatVersion, length pre + 8)"
    "read_u32 ?bs (length pre + 8) = Some (0, length pre + 12)"
    "read_u64 ?bs (length pre + 12) = Some (word_of_nat (length ?p), length pre + 20)"
    unfolding bytes by (simp_all add: read_words drop_past r_u32_w_u32 r_u64_w_u64)
  have magic: "take 4 (drop (length pre) ?bs) = kJournalMagic"
    unfolding bytes by simp
  have payload: "take (length ?p) (drop (length pre + 20) ?bs) = ?p"
    "take 32 (drop (length pre + 20 + length ?p) ?bs) = sha256 ?p"
    unfolding bytes by (simp_all add: drop_past add.assoc)
  have size: "\<not> length ?bs - length pre < kJournalHeaderBytes + 32" "\<not> length ?bs - (length pre + 20) < length ?p + 32"
    by (simp_all add: frame_of_length kJournalHeaderBytes_def)
  have bound: "\<not> (word_of_nat (length ?p) > so_max_state_bytes opts)"
    using assms n by (simp add: frame_fits_def word_less_nat_alt)
  have fits: "deserialize_audit_record ?p = Inr a"
    using assms by (simp add: frame_fits_def audit_record_round)
  have later: "length pre + 4 + 4 = length pre + 8" "length pre + 20 + length ?p + 32 = length pre + length (frame_of a)"
    by (simp_all add: frame_of_length)
  show ?thesis
    unfolding scan_frame_def Let_def
    by (simp only: magic words payload size bound n fits later if_False if_True simp_thms option.case prod.case sum.case)
qed

section \<open>The scan\<close>

lemma scan_journal_done:
  "length bytes \<le> offset \<Longrightarrow> scan_journal opts bytes offset records at0 =
     \<lparr>sc_records = records, sc_offset = offset, sc_damaged_from = at0, sc_damaged = False\<rparr>"
  by (simp add: scan_journal.simps)

lemma scan_journal_stop:
  "offset < length bytes \<Longrightarrow> scan_frame opts bytes offset = Inl stop \<Longrightarrow> scan_journal opts bytes offset records at0 =
     \<lparr>sc_records = records, sc_offset = stop, sc_damaged_from = offset, sc_damaged = True\<rparr>"
  by (simp add: scan_journal.simps)

definition journal_bytes_of :: "audit_record list \<Rightarrow> u8 list" where
  "journal_bytes_of as = concat (map frame_of as)"

lemma journal_bytes_of_simps [simp]:
  "journal_bytes_of [] = []" "journal_bytes_of (a # as) = frame_of a @ journal_bytes_of as"
  "journal_bytes_of (as @ bs) = journal_bytes_of as @ journal_bytes_of bs"
  by (simp_all add: journal_bytes_of_def)

lemma scan_frames:
  assumes "list_all (frame_fits opts) as" and "length records + length as \<le> unat (so_max_journal_records opts)"
  shows "\<exists>at'. scan_journal opts (pre @ journal_bytes_of as @ post) (length pre) records at0 =
     scan_journal opts (pre @ journal_bytes_of as @ post) (length (pre @ journal_bytes_of as)) (records @ as) at'"
  using assms
proof (induction as arbitrary: pre records at0)
  case Nil
  then show ?case by auto
next
  case (Cons a as)
  have a: "scan_frame opts (pre @ journal_bytes_of (a # as) @ post) (length pre) = Inr (a, length pre + length (frame_of a))"
    using scan_frame_of [of opts a pre "journal_bytes_of as @ post"] Cons.prems by simp
  have "scan_journal opts (pre @ journal_bytes_of (a # as) @ post) (length pre) records at0 =
      scan_journal opts (pre @ journal_bytes_of (a # as) @ post) (length pre + length (frame_of a)) (records @ [a]) (length pre)"
    using Cons.prems(2) unfolding scan_journal.simps [of opts _ "length pre"] a by (simp add: frame_of_length Let_def)
  with Cons.IH [of "records @ [a]" "pre @ frame_of a" "length pre"] Cons.prems show ?case by simp
qed

lemma scan_whole:
  assumes "list_all (frame_fits opts) as" and "length as \<le> unat (so_max_journal_records opts)"
  shows "sc_records (scan_journal opts (journal_bytes_of as) 0 [] at0) = as"
    "sc_offset (scan_journal opts (journal_bytes_of as) 0 [] at0) = length (journal_bytes_of as)"
    "\<not> sc_damaged (scan_journal opts (journal_bytes_of as) 0 [] at0)"
  using scan_frames [OF assms(1), of "[]" "[]" "[]" at0] assms(2) by (auto simp: scan_journal_done)

end
