(* ===== verification/Journal.thy ===== *)
theory Journal
  imports Persistence_Facts
begin

text \<open>
  The journal as a sequence of records: the invariant that appends, recovery and load keep, the size of a
  record's encoding, and what a load makes of the state file and the journal together.
\<close>

section \<open>A decoded record takes the bytes it was decoded from\<close>

lemma readers_consume:
  "r_u64 bs = Some (x, rest) \<Longrightarrow> length bs = 8 + length rest"
  "r_u32 bs = Some (y, rest) \<Longrightarrow> length bs = 4 + length rest"
  "r_bool bs = Some (b, rest) \<Longrightarrow> length bs = 1 + length rest"
  "r_digest bs = Some (d, rest) \<Longrightarrow> length bs = 32 + length rest"
  by (auto simp: r_u64_def r_u32_def r_bool_def r_u8_def r_digest_def r_raw_def bind_eq_Some_conv split: if_splits list.splits)

lemma string_consumes:
  "r_string m bs = Some (s, rest) \<Longrightarrow> length bs = 4 + length s + length rest"
  by (auto simp: r_string_def r_raw_def bytes_string_def bind_eq_Some_conv split: if_splits dest: readers_consume)

lemma audit_header_length: "audit_storable a \<Longrightarrow> length (audit_bytes a) = 202 + length (au_summary a)"
  by (simp add: audit_storable_def digest_ok_def audit_bytes_def audit_header_bytes_def w_digest_def w_raw_def
      w_string_body_def string_bytes_def)

lemma read_audit_consumes:
  assumes "read_audit bs = Some (a, rest)"
  shows "length bs = length (audit_bytes a) + length rest"
proof -
  have "length bs = 202 + length (au_summary a) + length rest"
    using assms unfolding read_audit_def by (auto simp: bind_eq_Some_conv dest!: readers_consume string_consumes)
  with yieldsD [OF yields_audit assms] show ?thesis by (simp add: audit_header_length)
qed

lemma audit_payload_length:
  "deserialize_audit_record payload = Inr a \<Longrightarrow> audit_storable a \<and> length payload = length (audit_bytes a)"
  by (auto simp: deserialize_audit_record_def split: option.splits if_splits
      dest: yieldsD [OF yields_audit] read_audit_consumes)

section \<open>What a scan finds\<close>

text \<open>Bounds under which the additions of the code cannot wrap.\<close>

definition options_sane :: "store_options \<Rightarrow> bool" where
  "options_sane opts \<longleftrightarrow> unat (so_max_state_bytes opts) \<le> 2 ^ 62 \<and> unat (so_max_journal_bytes opts) \<le> 2 ^ 62
     \<and> 600 \<le> unat (so_max_state_bytes opts)"

lemma scan_frame_finds:
  assumes "options_sane opts" and "scan_frame opts bytes offset = Inr (a, offset')"
  shows "frame_fits opts a \<and> offset' = offset + length (frame_of a) \<and> offset' \<le> length bytes"
proof -
  obtain n where n: "n \<le> so_max_state_bytes opts" "\<not> length bytes - (offset + 20) < unat (n + 32)" "offset \<le> length bytes"
      and payload: "deserialize_audit_record (take (unat n) (drop (offset + 20) bytes)) = Inr a"
      and next_at: "offset' = offset + 20 + unat n + 32" "52 \<le> length bytes - offset"
    using assms(2) unfolding scan_frame_def
    by (auto simp: Let_def read_words kJournalHeaderBytes_def not_less ac_simps split: if_splits option.splits sum.splits)
  have "unat n \<le> 2 ^ 62" using n(1) assms(1) by (simp add: options_sane_def word_le_nat_alt)
  then have size: "unat (n + 32) = unat n + 32" by (simp add: unat_word_ariths)
  from n(2) size have "length (take (unat n) (drop (offset + 20) bytes)) = unat n" by auto
  with audit_payload_length [OF payload] n(1) show ?thesis
    using n(2,3) size next_at by (auto simp: frame_fits_def frame_of_length word_le_nat_alt)
qed

lemma scan_finds:
  assumes "options_sane opts" and "list_all (frame_fits opts) records" and "length (journal_bytes_of records) = offset"
    and "offset \<le> length bytes"
  shows "list_all (frame_fits opts) (sc_records (scan_journal opts bytes offset records at0))
    \<and> length (journal_bytes_of (sc_records (scan_journal opts bytes offset records at0))) \<le> length bytes
    \<and> (\<exists>found. sc_records (scan_journal opts bytes offset records at0) = records @ found)"
  using assms(2-4)
proof (induction "length bytes - offset" arbitrary: offset records at0 rule: less_induct)
  case less
  show ?case
  proof (cases "scan_frame opts bytes offset")
    case (Inl stop)
    then show ?thesis using less.prems by (cases "offset < length bytes") (auto simp: scan_journal_stop scan_journal_done)
  next
    case (Inr found)
    then obtain a offset' where found: "scan_frame opts bytes offset = Inr (a, offset')" by (cases found) auto
    note fits = scan_frame_finds [OF assms(1) found] scan_frame_advances [OF found]
    let ?s = "scan_journal opts bytes offset' (records @ [a]) offset"
    have step: "scan_journal opts bytes offset records at0 =
        (if length (records @ [a]) > unat (so_max_journal_records opts)
         then \<lparr>sc_records = records @ [a], sc_offset = offset', sc_damaged_from = offset, sc_damaged = True\<rparr> else ?s)"
      using fits found by (subst scan_journal.simps) (simp add: Let_def)
    have IH: "list_all (frame_fits opts) (sc_records ?s) \<and> length (journal_bytes_of (sc_records ?s)) \<le> length bytes
        \<and> (\<exists>found. sc_records ?s = (records @ [a]) @ found)"
    proof (rule less.hyps)
      show "length bytes - offset' < length bytes - offset"
        using scan_frame_advances [OF found] by (intro diff_less_mono2) simp_all
    qed (use fits less.prems in auto)
    then show ?thesis using fits less.prems unfolding step by auto
  qed
qed


section \<open>The journal invariant\<close>

definition journal_file :: "world \<Rightarrow> audit_record list \<Rightarrow> bool" where
  "journal_file w as \<longleftrightarrow> (case wd_journal w of None \<Rightarrow> as = [] | Some bytes \<Rightarrow> bytes = journal_bytes_of as)"

definition journal_holds :: "store \<Rightarrow> world \<Rightarrow> audit_record list \<Rightarrow> bool" where
  "journal_holds st w as \<longleftrightarrow>
     sr_open st \<and> list_all (frame_fits (sr_options st)) as \<and> journal_file w as
     \<and> length (journal_bytes_of as) \<le> unat (so_max_journal_bytes (sr_options st))
     \<and> length as \<le> unat (so_max_journal_records (sr_options st))
     \<and> sr_journal_bytes st = word_of_nat (length (journal_bytes_of as))
     \<and> sr_journal_records st = word_of_nat (length as)"

lemma length_le_journal: "length as \<le> length (journal_bytes_of as)"
  by (induction as) (auto simp: frame_of_length)

lemma append_file_cases:
  assumes "append_file path content bytes w = (status, content', w')" and "\<forall>n. Io_partial n \<notin> set (wd_outcomes w)"
  shows "set (wd_outcomes w') \<subseteq> set (wd_outcomes w) \<and> wd_state w' = wd_state w
    \<and> (status_ok status \<longrightarrow> content' = Some ((case content of None \<Rightarrow> [] | Some old \<Rightarrow> old) @ bytes))
    \<and> (\<not> status_ok status \<longrightarrow> content' = content)"
  using assms by (auto simp: append_file_def io_next_def Let_def io_error_def split: list.splits io_outcome.splits option.splits)

lemma append_audit_holds:
  assumes "options_sane (sr_options st)" and "journal_holds st w as" and "audit_storable a"
    and "append_audit a st w = (status, st', w')" and "\<forall>n. Io_partial n \<notin> set (wd_outcomes w)"
  shows "journal_holds st' w' (if status_ok status then as @ [a] else as) \<and> sr_options st' = sr_options st
    \<and> wd_state w' = wd_state w \<and> set (wd_outcomes w') \<subseteq> set (wd_outcomes w)"
proof -
  let ?f = "frame_of a" and ?o = "sr_options st"
  note inv = assms(2) [unfolded journal_holds_def journal_file_def]
  have payload: "serialize_audit_record a = Inr (audit_bytes a)"
    using assms(3) by (simp add: serialize_audit_bytes audit_storable_def)
  have fits: "frame_fits ?o a"
    using assms(1,3) audit_bytes_length [OF assms(3)] by (simp add: frame_fits_def options_sane_def)
  have small: "length ?f \<le> 652" using audit_bytes_length [OF assms(3)] by (simp add: frame_of_length)
  have bytes: "length (journal_bytes_of as) \<le> 2 ^ 62" using inv assms(1) by (auto simp: options_sane_def)
  then have counts: "length as \<le> 2 ^ 62" using length_le_journal [of as] by linarith
  let ?full = "sr_journal_bytes st + word_of_nat (length ?f) > so_max_journal_bytes ?o
      \<or> sr_journal_records st + 1 > so_max_journal_records ?o"
  have sum: "sr_journal_bytes st + word_of_nat (length ?f) = word_of_nat (length (journal_bytes_of (as @ [a])))"
    "sr_journal_records st + 1 = word_of_nat (length (as @ [a]))"
    using inv by simp_all
  have enc: "unat (word_of_nat (length (journal_bytes_of (as @ [a]))) :: u64) = length (journal_bytes_of (as @ [a]))"
    "unat (word_of_nat (length (as @ [a])) :: u64) = length (as @ [a])"
    by (rule unat_word_of_nat_u64, use small bytes counts in simp)+
  have room: "\<not> ?full \<Longrightarrow> length (journal_bytes_of (as @ [a])) \<le> unat (so_max_journal_bytes ?o)
      \<and> length (as @ [a]) \<le> unat (so_max_journal_records ?o)"
    unfolding sum word_less_nat_alt not_less de_Morgan_disj enc by simp
  show ?thesis
  proof (cases ?full)
    case True
    then have "(status, st', w') = (status_failure Status_Overflow Reason_PersistenceTooLarge ''journal bound reached; compaction required'', st, w)"
      using assms(4) inv unfolding append_audit_def payload frame_of_def [symmetric] by (simp add: Let_def frame_of_def [symmetric])
    then show ?thesis using assms(2) by simp
  next
    case False
    obtain status1 content w1 where app: "append_file (journal_path st) (wd_journal w) ?f w = (status1, content, w1)"
      by (cases "append_file (journal_path st) (wd_journal w) ?f w") auto
    note io = append_file_cases [OF app assms(5)]
    have "(status, st', w') =
        (if \<not> status_ok status1 then (status1, st, w1\<lparr>wd_journal := content\<rparr>)
         else (status_success, st\<lparr>sr_journal_bytes := sr_journal_bytes st + word_of_nat (length ?f),
                 sr_journal_records := sr_journal_records st + 1\<rparr>, w1\<lparr>wd_journal := content\<rparr>))"
      using assms(4) inv False app unfolding append_audit_def payload
      by (simp add: Let_def frame_of_def [symmetric])
    moreover have "content = Some (journal_bytes_of (as @ [a]))" if "status_ok status1"
      using io that inv by (auto split: option.splits)
    ultimately show ?thesis
      using io room [OF False] inv fits sum by (auto simp: journal_holds_def journal_file_def split: if_splits)
  qed
qed

text \<open>Appending one record after the other, keeping those that were acknowledged.\<close>

fun append_each :: "audit_record list \<Rightarrow> store \<Rightarrow> world \<Rightarrow> audit_record list \<times> store \<times> world" where
  "append_each [] st w = ([], st, w)"
| "append_each (a # as) st w =
     (let (status, st, w) = append_audit a st w; (acked, st, w) = append_each as st w
      in (if status_ok status then a # acked else acked, st, w))"

lemma append_each_holds:
  assumes "options_sane (sr_options st)" and "journal_holds st w as" and "list_all audit_storable rs"
    and "\<forall>n. Io_partial n \<notin> set (wd_outcomes w)" and "append_each rs st w = (acked, st', w')"
  shows "journal_holds st' w' (as @ acked) \<and> sr_options st' = sr_options st"
  using assms
proof (induction rs arbitrary: st w as acked st' w')
  case Nil
  then show ?case by simp
next
  case (Cons a rs)
  obtain status st1 w1 where one: "append_audit a st w = (status, st1, w1)" by (cases "append_audit a st w") auto
  obtain more st2 w2 where rest: "append_each rs st1 w1 = (more, st2, w2)" by (cases "append_each rs st1 w1") auto
  have h: "journal_holds st1 w1 (if status_ok status then as @ [a] else as)" "sr_options st1 = sr_options st"
      "set (wd_outcomes w1) \<subseteq> set (wd_outcomes w)"
    using append_audit_holds [OF Cons.prems(1,2) _ one Cons.prems(4)] Cons.prems(3) by auto
  with Cons.IH [OF _ h(1) _ _ rest] Cons.prems one rest show ?case by (auto split: if_splits)
qed

section \<open>Loading the journal\<close>

lemma journal_read_bound:
  "options_sane opts \<Longrightarrow> unat (so_max_journal_bytes opts + push_bit 20 1) = unat (so_max_journal_bytes opts) + 1048576"
  by (simp add: options_sane_def unat_word_ariths push_bit_eq_mult)

definition journal_report :: "audit_record list \<Rightarrow> load_report" where
  "journal_report as =
     fresh_load_report\<lparr>lr_outcome := (if as = [] then Load_Fresh else Load_Loaded),
       lr_journal_records := word_of_nat (length as), lr_bytes_recovered := word_of_nat (length (journal_bytes_of as))\<rparr>"

lemma load_journal_undamaged:
  assumes "sr_open st" and "wd_outcomes w = []" and "wd_journal w = Some bytes"
    and "length bytes \<le> unat (so_max_journal_bytes (sr_options st) + push_bit 20 1)"
    and "\<not> sc_damaged (scan_journal (sr_options st) bytes 0 [] (length bytes))"
  shows "\<exists>st' rep. load_journal st w = (Inr (sc_records (scan_journal (sr_options st) bytes 0 [] (length bytes)), rep), st', w)
    \<and> lr_outcome rep \<noteq> Load_Recovered \<and> lr_discarded rep = 0"
  using assms unfolding load_journal_def
  by (simp add: read_file_bounded_def io_next_def not_less fresh_load_report_def journal_path_def Let_def)

lemma load_journal_holds:
  assumes "options_sane (sr_options st)" and "wd_outcomes w = []" and "journal_file w as" and "sr_open st"
    and "list_all (frame_fits (sr_options st)) as"
    and "length (journal_bytes_of as) \<le> unat (so_max_journal_bytes (sr_options st))"
    and "length as \<le> unat (so_max_journal_records (sr_options st))"
  shows "load_journal st w =
    (Inr (as, journal_report as),
     st\<lparr>sr_journal_bytes := word_of_nat (length (journal_bytes_of as)), sr_journal_records := word_of_nat (length as)\<rparr>, w)"
proof (cases "wd_journal w")
  case None
  then show ?thesis
    using assms(2,3,4) unfolding load_journal_def
    by (simp add: read_file_bounded_def io_next_def journal_file_def journal_report_def fresh_load_report_def status_failure_def)
next
  case (Some bytes)
  with assms(3) have bytes: "bytes = journal_bytes_of as" by (simp add: journal_file_def)
  have fits: "\<not> length bytes > unat (so_max_journal_bytes (sr_options st) + push_bit 20 1)"
    using assms(6) bytes journal_read_bound [OF assms(1)] by simp
  note scan = scan_whole [OF assms(5,7), of "length bytes"]
  show ?thesis
    using assms(2,4) Some fits scan unfolding load_journal_def bytes
    by (simp add: read_file_bounded_def io_next_def journal_report_def fresh_load_report_def journal_path_def bytes Let_def)
qed

lemma frames_written: "list_all audit_storable as \<Longrightarrow> for_each frames_of out as = Inr (out @ journal_bytes_of as)"
  by (induction as arbitrary: out)
     (auto simp: frames_of_def serialize_audit_bytes audit_storable_def frame_of_def)

lemma load_journal_recovers:
  assumes "options_sane (sr_options st)" and "load_journal st w = (Inr (as, rep), st', w')"
  shows "sr_open st \<and> sr_open st' \<and> sr_options st' = sr_options st \<and> wd_state w' = wd_state w
    \<and> list_all (frame_fits (sr_options st)) as
    \<and> (wd_journal w' = wd_journal w \<and>
         (case wd_journal w of None \<Rightarrow> as = []
          | Some bytes \<Rightarrow> sc_records (scan_journal (sr_options st) bytes 0 [] (length bytes)) = as
              \<and> \<not> sc_damaged (scan_journal (sr_options st) bytes 0 [] (length bytes))
              \<and> length bytes \<le> unat (so_max_journal_bytes (sr_options st) + push_bit 20 1))
       \<or> wd_journal w' = Some (journal_bytes_of as)
         \<and> length (journal_bytes_of as) \<le> unat (so_max_journal_bytes (sr_options st) + push_bit 20 1))"
proof -
  let ?o = "sr_options st"
  have fits: "list_all audit_storable xs" if "list_all (frame_fits ?o) xs" for xs
    using that by (auto simp: list_all_iff frame_fits_def)
  have found: "list_all (frame_fits ?o) (sc_records (scan_journal ?o bytes 0 [] n))
      \<and> length (journal_bytes_of (sc_records (scan_journal ?o bytes 0 [] n))) \<le> length bytes" for bytes n
    using scan_finds [OF assms(1), of "[]" 0 bytes n] by simp
  show ?thesis
  proof (cases "wd_journal w")
    case None
    then show ?thesis
      using assms(2) unfolding load_journal_def
      by (auto simp: read_file_bounded_def io_next_def Let_def status_failure_def split: if_splits list.splits)
  next
    case (Some bytes)
    let ?s = "scan_journal ?o bytes 0 [] (length bytes)"
    have written: "for_each frames_of [] (sc_records ?s) = Inr (journal_bytes_of (sc_records ?s))"
      using frames_written [OF fits [OF conjunct1 [OF found]]] by simp
    show ?thesis
      using assms(2) Some found [of bytes "length bytes"] unfolding load_journal_def
      by (auto simp: read_file_bounded_def write_file_atomic_def io_next_def io_error_def Let_def status_failure_def written not_less
          split: if_splits list.splits)
  qed
qed

lemma load_journal_again:
  assumes "options_sane (sr_options st)" and "load_journal st w = (Inr (as, rep), st', w')"
    and "length as \<le> unat (so_max_journal_records (sr_options st))"
  shows "\<exists>rep2 st2. load_journal st' (w'\<lparr>wd_outcomes := []\<rparr>) = (Inr (as, rep2), st2, w'\<lparr>wd_outcomes := []\<rparr>)
    \<and> lr_outcome rep2 \<noteq> Load_Recovered \<and> lr_discarded rep2 = 0"
proof -
  note facts = load_journal_recovers [OF assms(1,2)]
  show ?thesis
  proof (cases "wd_journal w'")
    case None
    then have "as = []" using facts by (auto split: option.splits)
    then show ?thesis
      using facts None load_journal_holds [of st' "w'\<lparr>wd_outcomes := []\<rparr>" "[]"] assms(1)
      by (simp add: journal_file_def journal_report_def fresh_load_report_def)
  next
    case (Some bytes)
    let ?s = "scan_journal (sr_options st) bytes 0 [] (length bytes)"
    have size: "length bytes \<le> unat (so_max_journal_bytes (sr_options st) + push_bit 20 1)"
      using facts Some by (cases "wd_journal w") auto
    have "\<not> sc_damaged ?s \<and> sc_records ?s = as"
    proof (cases "bytes = journal_bytes_of as")
      case True
      then show ?thesis using scan_whole [of "sr_options st" as "length bytes"] facts assms(3) by simp
    next
      case False
      then show ?thesis using facts Some by (cases "wd_journal w") auto
    qed
    then show ?thesis
      using load_journal_undamaged [of st' "w'\<lparr>wd_outcomes := []\<rparr>" bytes] facts Some size by auto
  qed
qed

end
