(* ===== verification/Governor_Facts.thy ===== *)
theory Governor_Facts
  imports Governor Journal
begin

text \<open>
  What the operations of the governor leave alone, and the shape of the answers of the store underneath.
\<close>

lemma upd_sel [simp]:
  "gv_options (upd_stats f g) = gv_options g" "gv_open (upd_stats f g) = gv_open g"
  "gv_accepting (upd_stats f g) = gv_accepting g" "gv_state (upd_stats f g) = gv_state g"
  "gv_store (upd_stats f g) = gv_store g" "gv_index (upd_stats f g) = gv_index g" "gv_slots (upd_stats f g) = gv_slots g"
  "gv_slot_index (upd_stats f g) = gv_slot_index g" "gv_clock (upd_stats f g) = gv_clock g"
  "gv_since_save (upd_stats f g) = gv_since_save g" "gv_dirty (upd_stats f g) = gv_dirty g"
  "gv_world (upd_stats f g) = gv_world g"
  "gv_options (upd_state h g) = gv_options g" "gv_open (upd_state h g) = gv_open g"
  "gv_accepting (upd_state h g) = gv_accepting g" "gv_state (upd_state h g) = h (gv_state g)"
  "gv_store (upd_state h g) = gv_store g" "gv_index (upd_state h g) = gv_index g" "gv_slots (upd_state h g) = gv_slots g"
  "gv_slot_index (upd_state h g) = gv_slot_index g" "gv_clock (upd_state h g) = gv_clock g"
  "gv_since_save (upd_state h g) = gv_since_save g" "gv_dirty (upd_state h g) = gv_dirty g"
  "gv_world (upd_state h g) = gv_world g"
  by (simp_all add: upd_stats_def upd_state_def)

text \<open>
  The part of a governor no save and no journal append touches: what governs the next decision.
\<close>

definition core_of :: "governor \<Rightarrow> governor_options \<times> bool \<times> bool \<times> policy_index \<times> content_slot list
    \<times> ((u64 \<times> u32) \<rightharpoonup> nat) \<times> logical_clock" where
  "core_of g = (gv_options g, gv_open g, gv_accepting g, gv_index g, gv_slots g, gv_slot_index g, gv_clock g)"

definition identity_of :: "durable_state \<Rightarrow> u32 \<times> incarnation_id \<times> fabric_epoch \<times> policy_generation \<times> digest \<times> policy
    \<times> publisher_registration list \<times> domain_runtime list \<times> u64 \<times> u64" where
  "identity_of s = (ds_schema s, ds_incarnation s, ds_epoch s, ds_policy_generation s, ds_policy_digest s, ds_policy s,
     ds_publishers s, ds_domains s, ds_decisions s, ds_journal_records s)"

lemma core_ofD:
  assumes "core_of g' = core_of g"
  shows "gv_options g' = gv_options g" "gv_open g' = gv_open g" "gv_accepting g' = gv_accepting g" "gv_index g' = gv_index g"
    "gv_slots g' = gv_slots g" "gv_slot_index g' = gv_slot_index g" "gv_clock g' = gv_clock g"
  using assms by (simp_all add: core_of_def)

lemma identity_ofD:
  assumes "identity_of s' = identity_of s"
  shows "ds_schema s' = ds_schema s" "ds_incarnation s' = ds_incarnation s" "ds_epoch s' = ds_epoch s"
    "ds_policy_generation s' = ds_policy_generation s" "ds_policy_digest s' = ds_policy_digest s" "ds_policy s' = ds_policy s"
    "ds_publishers s' = ds_publishers s" "ds_domains s' = ds_domains s" "ds_decisions s' = ds_decisions s"
    "ds_journal_records s' = ds_journal_records s"
  using assms by (simp_all add: identity_of_def)

lemma store_save_status: "store_save s st w = (status, w') \<Longrightarrow> status_ok status \<Longrightarrow> status = status_success"
  by (auto simp: store_save_def store_not_open_def write_file_atomic_def io_next_def io_error_def serialize_state_bytes Let_def
      split: if_splits list.splits)

lemma save_state_frame:
  assumes "save_state g = (status, g')"
  shows "core_of g' = core_of g" "identity_of (gv_state g') = identity_of (gv_state g)" "gv_store g' = gv_store g"
    "ds_audit (gv_state g') = ds_audit (gv_state g)" "ds_evidence (gv_state g') = map gs_state (gv_slots g)"
    "ds_tick (gv_state g') = gv_clock g" "wd_journal (gv_world g') = wd_journal (gv_world g)"
  using assms
  by (auto simp: save_state_def sync_evidence_state_def core_of_def identity_of_def store_save_def write_file_atomic_def io_next_def Let_def
      split: prod.splits if_splits sum.splits list.splits option.splits)

lemma persist_state_frame:
  assumes "persist_state force g = (status, g')"
  shows "core_of g' = core_of g" "identity_of (gv_state g') = identity_of (gv_state g)" "gv_store g' = gv_store g"
    "ds_audit (gv_state g') = ds_audit (gv_state g)" "wd_journal (gv_world g') = wd_journal (gv_world g)"
  using assms save_state_frame [of g status g'] by (auto simp: persist_state_def split: if_splits)

lemma append_audit_frame:
  assumes "append_audit a st w = (status, st', w')"
  shows "sr_options st' = sr_options st" "sr_open st' = sr_open st"
  using assms unfolding append_audit_def by (auto simp: Let_def split: prod.splits if_splits sum.splits)

lemma compact_journal_frame:
  assumes "compact_journal as keep st w = (status, st', w')"
  shows "sr_options st' = sr_options st" "sr_open st' = sr_open st"
  using assms unfolding compact_journal_def by (auto simp: Let_def split: prod.splits if_splits sum.splits)

lemma append_once_frame:
  assumes "append_once a g = (status, g')"
  shows "core_of g' = core_of g" "gv_state g' = gv_state g" "sr_options (gv_store g') = sr_options (gv_store g)"
    "sr_open (gv_store g') = sr_open (gv_store g)"
  using assms append_audit_frame unfolding append_once_def
  by (auto simp: core_of_def split: prod.splits)

lemma compact_frame:
  assumes "compact_journal_locked g = (status, g')"
  shows "core_of g' = core_of g" "identity_of (gv_state g') = identity_of (gv_state g)"
    "sr_options (gv_store g') = sr_options (gv_store g)" "sr_open (gv_store g') = sr_open (gv_store g)"
    "\<exists>n. ds_audit (gv_state g') = drop n (ds_audit (gv_state g))"
proof -
  let ?keep = "min (go_compaction_records (gv_options g)) (go_max_journal_records (gv_options g))"
  obtain s st w where c: "compact_journal (ds_audit (gv_state g)) ?keep (gv_store g) (gv_world g) = (s, st, w)"
    by (cases "compact_journal (ds_audit (gv_state g)) ?keep (gv_store g) (gv_world g)") auto
  note frame = compact_journal_frame [OF c]
  have g': "g' = (if \<not> status_ok s then g\<lparr>gv_store := st, gv_world := w\<rparr> else
      upd_stats (\<lambda>t. t\<lparr>gt_journal_compactions := gt_journal_compactions t + 1\<rparr>)
        ((upd_state (\<lambda>s. s\<lparr>ds_audit := drop (length (ds_audit s) - unat ?keep) (ds_audit s)\<rparr>) (g\<lparr>gv_store := st, gv_world := w\<rparr>))\<lparr>gv_dirty := True\<rparr>))"
    using assms unfolding compact_journal_locked_def Let_def c by (simp split: if_splits)
  show "core_of g' = core_of g" "identity_of (gv_state g') = identity_of (gv_state g)"
    "sr_options (gv_store g') = sr_options (gv_store g)" "sr_open (gv_store g') = sr_open (gv_store g)"
    unfolding g' using frame by (simp_all add: core_of_def identity_of_def)
  show "\<exists>n. ds_audit (gv_state g') = drop n (ds_audit (gv_state g))"
    unfolding g' by (cases "status_ok s") (auto intro: exI [of _ 0])
qed

text \<open>The append with its one retry behind a compaction.\<close>

definition append_retry :: "audit_record \<Rightarrow> governor \<Rightarrow> status \<times> governor" where
  "append_retry a g =
     (let (status, g) = append_once a g in
      if st_code status = Status_Overflow
      then let (status, g) = compact_journal_locked g in if \<not> status_ok status then (status, g) else append_once a g
      else (status, g))"

lemma append_journal_retry:
  "append_journal a g =
     (let (status, g) = append_retry a g in
      if \<not> status_ok status then (status, g)
      else (status_success, upd_stats (\<lambda>t. t\<lparr>gt_journal_appends := gt_journal_appends t + 1\<rparr>)
        (upd_state (\<lambda>s. s\<lparr>ds_audit :=
           drop (length (ds_audit s @ [a]) - unat (go_max_audit_records (gv_options g))) (ds_audit s @ [a])\<rparr>) g)))"
  unfolding append_journal_def append_retry_def by (simp add: Let_def split: prod.splits)

lemma append_retry_frame:
  assumes "append_retry a g = (status, g')"
  shows "core_of g' = core_of g" "identity_of (gv_state g') = identity_of (gv_state g)"
    "sr_options (gv_store g') = sr_options (gv_store g)" "sr_open (gv_store g') = sr_open (gv_store g)"
    "\<exists>n. ds_audit (gv_state g') = drop n (ds_audit (gv_state g))"
proof -
  obtain s1 g1 where one: "append_once a g = (s1, g1)" by (cases "append_once a g") auto
  obtain s2 g2 where two: "compact_journal_locked g1 = (s2, g2)" by (cases "compact_journal_locked g1") auto
  obtain s3 g3 where three: "append_once a g2 = (s3, g3)" by (cases "append_once a g2") auto
  have g': "g' = g1 \<or> g' = g2 \<or> g' = g3"
    using assms one two three by (auto simp: append_retry_def split: if_splits)
  note frames = append_once_frame [OF one] compact_frame(1-4) [OF two] append_once_frame [OF three]
  show "core_of g' = core_of g" "identity_of (gv_state g') = identity_of (gv_state g)"
    "sr_options (gv_store g') = sr_options (gv_store g)" "sr_open (gv_store g') = sr_open (gv_store g)"
    using g' frames by auto
  show "\<exists>n. ds_audit (gv_state g') = drop n (ds_audit (gv_state g))"
    using g' frames compact_frame(5) [OF two] by (auto intro: exI [of _ 0])
qed

lemma trimmed: "\<exists>m. drop (length (drop n xs @ [a]) - k) (drop n xs @ [a]) = drop m (xs @ [a])"
proof -
  have "drop n xs @ [a] = drop (min n (length xs)) (xs @ [a])" by (simp add: min_def)
  then show ?thesis by (metis drop_drop)
qed

lemma append_journal_frame:
  assumes "append_journal a g = (status, g')"
  shows "core_of g' = core_of g" "identity_of (gv_state g') = identity_of (gv_state g)"
    "sr_options (gv_store g') = sr_options (gv_store g)" "sr_open (gv_store g') = sr_open (gv_store g)"
    "\<exists>n. ds_audit (gv_state g') = drop n (ds_audit (gv_state g)) \<or>
       ds_audit (gv_state g') = drop n (ds_audit (gv_state g) @ [a]) \<and> length (ds_audit (gv_state g')) \<le> unat (go_max_audit_records (gv_options g))"
proof -
  obtain s1 g1 where retry: "append_retry a g = (s1, g1)" by (cases "append_retry a g") auto
  note frames = append_retry_frame [OF retry]
  let ?g2 = "upd_stats (\<lambda>t. t\<lparr>gt_journal_appends := gt_journal_appends t + 1\<rparr>)
        (upd_state (\<lambda>s. s\<lparr>ds_audit :=
           drop (length (ds_audit s @ [a]) - unat (go_max_audit_records (gv_options g1))) (ds_audit s @ [a])\<rparr>) g1)"
  have g': "g' = (if status_ok s1 then ?g2 else g1)"
    using assms unfolding append_journal_retry retry by (simp split: if_splits)
  show "core_of g' = core_of g" "identity_of (gv_state g') = identity_of (gv_state g)"
    "sr_options (gv_store g') = sr_options (gv_store g)" "sr_open (gv_store g') = sr_open (gv_store g)"
    unfolding g' using frames(1-4) by (simp_all add: core_of_def identity_of_def)
  obtain n where n: "ds_audit (gv_state g1) = drop n (ds_audit (gv_state g))" using frames(5) by blast
  have opts: "gv_options g1 = gv_options g" using core_ofD [OF frames(1)] by simp
  show "\<exists>n. ds_audit (gv_state g') = drop n (ds_audit (gv_state g)) \<or>
       ds_audit (gv_state g') = drop n (ds_audit (gv_state g) @ [a]) \<and> length (ds_audit (gv_state g')) \<le> unat (go_max_audit_records (gv_options g))"
  proof (cases "status_ok s1")
    case False
    then show ?thesis using n unfolding g' by auto
  next
    case True
    have "ds_audit (gv_state g') = drop (length (drop n (ds_audit (gv_state g)) @ [a]) - unat (go_max_audit_records (gv_options g)))
        (drop n (ds_audit (gv_state g)) @ [a])"
      using True unfolding g' n [symmetric] opts [symmetric] by simp
    then have "\<exists>m. ds_audit (gv_state g') = drop m (ds_audit (gv_state g) @ [a])" by (simp only: trimmed)
    moreover have "length (ds_audit (gv_state g')) \<le> unat (go_max_audit_records (gv_options g))"
      using True unfolding g' by (simp add: n opts)
    ultimately show ?thesis by blast
  qed
qed

text \<open>An evaluation is refused before anything is written, or stops at the journal, or is committed.\<close>

definition ticked :: "evaluation_request \<Rightarrow> governor \<Rightarrow> governor" where
  "ticked rq g = g\<lparr>gv_clock := snd (clock_observe (evaluation_tick rq g) (gv_clock g))\<rparr>"

lemma ticked_sel [simp]:
  "gv_options (ticked rq g) = gv_options g" "gv_open (ticked rq g) = gv_open g" "gv_accepting (ticked rq g) = gv_accepting g"
  "gv_state (ticked rq g) = gv_state g" "gv_store (ticked rq g) = gv_store g" "gv_index (ticked rq g) = gv_index g"
  "gv_slots (ticked rq g) = gv_slots g" "gv_slot_index (ticked rq g) = gv_slot_index g"
  "gv_since_save (ticked rq g) = gv_since_save g" "gv_dirty (ticked rq g) = gv_dirty g" "gv_world (ticked rq g) = gv_world g"
  by (simp_all add: ticked_def)

lemma commit_sel [simp]:
  "gv_options (commit_decision i t x d g) = gv_options g" "gv_open (commit_decision i t x d g) = gv_open g"
  "gv_accepting (commit_decision i t x d g) = gv_accepting g" "gv_store (commit_decision i t x d g) = gv_store g"
  "gv_index (commit_decision i t x d g) = gv_index g" "gv_slots (commit_decision i t x d g) = gv_slots g"
  "gv_slot_index (commit_decision i t x d g) = gv_slot_index g" "gv_clock (commit_decision i t x d g) = gv_clock g"
  "gv_world (commit_decision i t x d g) = gv_world g"
  "gv_state (commit_decision i t x d g) = (gv_state g)
     \<lparr>ds_domains := put_runtime i (decided_runtime (ds_epoch (gv_state g)) x d) (ds_domains (gv_state g)),
      ds_decisions := id_value (de_id x), ds_tick := t\<rparr>"
  by (simp_all add: commit_decision_def)

lemma evaluate_locked_cases:
  assumes "evaluate_locked iter wall rq cancel g = (answer, g')"
  obtains
    (refused) status f where "answer = Inl status" "g' = g \<or> g' = upd_stats f (ticked rq g)"
  | (not_durable) d x a status where
      "prepare_decision iter wall (rq_domain rq) (evaluation_tick rq g) (ticked rq g) = (d, x, a)"
      "append_journal a (ticked rq g) = (status, g')" "\<not> status_ok status" "answer = Inl status" "\<not> cancel"
  | (committed) d x a g2 status where
      "prepare_decision iter wall (rq_domain rq) (evaluation_tick rq g) (ticked rq g) = (d, x, a)"
      "append_journal a (ticked rq g) = (status_success, g2)" "\<not> cancel"
      "persist_state False (commit_decision (rq_domain rq) (evaluation_tick rq g) x d g2) = (status, g')"
      "answer = (if status_ok status then Inr x else Inl status)" "gv_open g" "id_valid (rq_domain rq)"
      "find_runtime (rq_domain rq) g \<noteq> None \<or> length (ds_domains (gv_state g)) < unat kMaxDomainsState"
proof -
  obtain d x a where prep: "prepare_decision iter wall (rq_domain rq) (evaluation_tick rq g) (ticked rq g) = (d, x, a)"
    by (cases "prepare_decision iter wall (rq_domain rq) (evaluation_tick rq g) (ticked rq g)") auto
  obtain s2 g2 where app: "append_journal a (ticked rq g) = (s2, g2)" by (cases "append_journal a (ticked rq g)") auto
  obtain s3 g3 where per: "persist_state False (commit_decision (rq_domain rq) (evaluation_tick rq g) x d g2) = (s3, g3)"
    by (cases "persist_state False (commit_decision (rq_domain rq) (evaluation_tick rq g) x d g2)") auto
  have s2: "status_ok s2 \<Longrightarrow> s2 = status_success"
    using app unfolding append_journal_retry by (auto split: prod.splits if_splits)
  have find: "find_runtime i (ticked rq g) = find_runtime i g" for i by (simp add: find_runtime_def)
  have id: "upd_stats (\<lambda>t. t) g = g" for g by (simp add: upd_stats_def)
  have eq: "(answer, g') =
     (if \<not> gv_open g then (Inl not_open, g)
      else if \<not> id_valid (rq_domain rq)
      then (Inl (status_failure Status_InvalidArgument Reason_InvalidIdentity ''evaluation domain unset''), g)
      else if cancel
      then (Inl (status_failure Status_Cancelled Reason_DecisionCancelled
                   ''evaluation was cancelled before its authoritative completion boundary''),
            upd_stats (\<lambda>c. c\<lparr>gt_cancellations := gt_cancellations c + 1\<rparr>) (ticked rq g))
      else if find_runtime (rq_domain rq) g = None \<and> length (ds_domains (gv_state g)) \<ge> unat kMaxDomainsState
      then (Inl (status_failure Status_OutOfRange Reason_LimitExceeded ''domain runtime table is full''), ticked rq g)
      else if \<not> status_ok s2 then (Inl s2, g2)
      else if \<not> status_ok s3 then (Inl s3, g3) else (Inr x, g3))"
    unfolding assms [symmetric] evaluate_locked_def Let_def ticked_def [symmetric] prep app find per prod.case ticked_sel ..
  show ?thesis
  proof (cases "gv_open g \<and> id_valid (rq_domain rq) \<and> \<not> cancel
      \<and> \<not> (find_runtime (rq_domain rq) g = None \<and> length (ds_domains (gv_state g)) \<ge> unat kMaxDomainsState)")
    case False
    let ?f = "\<lambda>c. c\<lparr>gt_cancellations := gt_cancellations c + 1\<rparr>"
    from False eq have "(\<exists>s. answer = Inl s) \<and> (g' = g \<or> g' = ticked rq g \<or> g' = upd_stats ?f (ticked rq g))"
      by (simp split: if_splits)
    then obtain s where "answer = Inl s" "g' = g \<or> g' = upd_stats (\<lambda>t. t) (ticked rq g) \<or> g' = upd_stats ?f (ticked rq g)"
      unfolding id by blast
    then show ?thesis using refused [of s "\<lambda>t. t"] refused [of s ?f] by blast
  next
    case True
    then show ?thesis using eq prep app per not_durable committed s2 by (auto split: if_splits simp: not_le)
  qed
qed

lemma evaluate_locked_frame:
  assumes "evaluate_locked iter wall rq cancel g = (answer, g')"
  shows "gv_options g' = gv_options g \<and> gv_open g' = gv_open g \<and> gv_accepting g' = gv_accepting g \<and> gv_slots g' = gv_slots g
    \<and> gv_index g' = gv_index g \<and> gv_slot_index g' = gv_slot_index g
    \<and> ds_policy (gv_state g') = ds_policy (gv_state g) \<and> ds_epoch (gv_state g') = ds_epoch (gv_state g)
    \<and> ds_incarnation (gv_state g') = ds_incarnation (gv_state g) \<and> ds_publishers (gv_state g') = ds_publishers (gv_state g)"
  using assms
proof (cases rule: evaluate_locked_cases)
  case (refused status f)
  then show ?thesis by auto
next
  case (not_durable d x a status)
  note f = append_journal_frame [OF not_durable(2)]
  show ?thesis using core_ofD [OF f(1)] identity_ofD [OF f(2)] by simp
next
  case (committed d x a g2 status)
  note f = append_journal_frame [OF committed(2)] and h = persist_state_frame [OF committed(4)]
  show ?thesis using core_ofD [OF f(1)] identity_ofD [OF f(2)] core_ofD [OF h(1)] identity_ofD [OF h(2)] by simp
qed

end
