(* ===== verification/State_Properties.thy ===== *)
theory State_Properties
  imports State_Facts Samples
begin

text \<open>
  The promises of the state file and of the replay, with a sample state.
\<close>

definition sample_runtime :: domain_runtime where
  "sample_runtime = fresh_runtime\<lparr>rt_domain := StrongId 7, rt_generation := Gen 1\<rparr>"

definition sample_audit :: audit_record where
  "sample_audit =
     \<lparr>au_id = StrongId 1, au_tick = 21, au_wall_millis = 0, au_incarnation = StrongId 1, au_epoch = FabricEpoch 1,
      au_domain = StrongId 7, au_domain_generation = Gen 1, au_policy_generation = Gen 4,
      au_raw = Outcome_EmergencyReduction, au_effective = Outcome_EmergencyReduction,
      au_reason = Reason_GuaranteeSumExceedsUsable, au_binding = Constraint_None, au_decision = StrongId 1,
      au_decision_digest = digest_zero, au_input_digest = digest_zero, au_authorized = False, au_increment = 0,
      au_fenced = True, au_confirmations = 0, au_last_escalation_tick = 21, au_ceiling = 150, au_committed = 80,
      au_overage = 0, au_summary = ''emergency''\<rparr>"

definition sample_state :: durable_state where
  "sample_state =
     \<lparr>ds_schema = 1, ds_revision = 3, ds_incarnation = StrongId 1, ds_epoch = FabricEpoch 1, ds_policy_generation = Gen 4,
      ds_policy_digest = digest_zero, ds_policy = sample_policy,
      ds_publishers = [\<lparr>pr_publisher = StrongId 1, pr_incarnation = StrongId 1, pr_epoch = FabricEpoch 1, pr_last_sequence = 1,
        pr_fenced = False, pr_fence_reason = Reason_None, pr_registered_tick = 0\<rparr>],
      ds_domains = [sample_runtime],
      ds_evidence = [\<lparr>sl_domain = StrongId 7, sl_kind = Evidence_Capacity, sl_generation = 2, sl_evidence_id = StrongId 1,
        sl_publisher = StrongId 1, sl_incarnation = StrongId 1, sl_sequence = 1, sl_observed_tick = 20,
        sl_payload_digest = digest_zero, sl_revalidation = False\<rparr>],
      ds_audit = [sample_audit], ds_decisions = 1, ds_tick = 21, ds_journal_records = 1\<rparr>"

lemma digest_ok_zero [simp]: "digest_ok digest_zero"
  by (simp add: digest_ok_def digest_zero_def)

lemma sample_state_storable: "state_storable sample_state"
  by (simp add: state_storable_def sample_state_def sample_defs sample_runtime_def sample_audit_def fresh_runtime_def
      policy_storable_def domain_storable_def class_storable_def name_fits_def runtime_storable_def slot_storable_def
      audit_storable_def kStateSchemaVersion_def wf_outcome_def wf_evidence_kind_def wf_constraint_def)

text \<open>
  The state file loses nothing: a storable state serializes, and what is written reads back as the
  same state, with its policy, publishers, domains, evidence slots and audit tail.
\<close>

theorem durable_state_round_trip:
  assumes "state_storable s"
  shows "\<exists>bs. serialize_state s = Inr bs \<and> deserialize_state bs = Inr s"
  using assms deserialize_state_bytes [OF assms]
  by (auto simp: serialize_state_bytes state_storable_def audit_storable_def list_all_iff)

theorem durable_state_round_trip_witness:
  "\<exists>bs. serialize_state sample_state = Inr bs \<and> deserialize_state bs = Inr sample_state"
  by (rule durable_state_round_trip [OF sample_state_storable])

text \<open>
  Whatever bytes are on disk, a load either answers an error or a state inside the hard bounds of the
  tables, with enumerations, digests and names well formed; saving that state and loading it again gives
  the same state.
\<close>

theorem loaded_state_is_storable:
  assumes "deserialize_state bs = Inr s"
  shows "state_storable s \<and> (\<exists>bs'. serialize_state s = Inr bs' \<and> deserialize_state bs' = Inr s)"
  using deserialize_state_storable [OF assms] deserialize_state_bytes
  by (auto simp: serialize_state_bytes state_storable_def audit_storable_def list_all_iff)

theorem loaded_state_is_storable_witness:
  "state_storable sample_state \<and> (\<exists>bs'. serialize_state sample_state = Inr bs' \<and> deserialize_state bs' = Inr sample_state)"
  by (rule loaded_state_is_storable [OF deserialize_state_bytes [OF sample_state_storable]])

text \<open>
  Recovery from the journal: replaying records with strictly increasing identities gives every domain
  the state of its last record and leaves the other domains, the policy, the publishers and the evidence
  bookkeeping as the state file had them.
\<close>

theorem replay_last_record_wins:
  assumes "distinct (map rt_domain (ds_domains s))" and "sorted_wrt (<) (0 # map (\<lambda>a. id_value (au_id a)) records)"
    and "length (ds_domains s) + length records \<le> 4096"
  shows "runtime_map (ds_domains (fst (rebuild_from_audit s records rp)))
      = fold (\<lambda>a m. m(au_domain a \<mapsto> runtime_of_audit a)) records (runtime_map (ds_domains s))
    \<and> ds_policy (fst (rebuild_from_audit s records rp)) = ds_policy s
    \<and> ds_publishers (fst (rebuild_from_audit s records rp)) = ds_publishers s
    \<and> ds_evidence (fst (rebuild_from_audit s records rp)) = ds_evidence s"
  using replay_all_inv [OF assms, of rp]
  by (simp add: rebuild_from_audit_def Let_def replay_inv_def replay_spec_def)

theorem replay_last_record_wins_witness:
  "runtime_map (ds_domains (fst (rebuild_from_audit sample_state [sample_audit] fresh_report))) (StrongId 7)
     = Some (runtime_of_audit sample_audit)"
  using replay_last_record_wins [of sample_state "[sample_audit]" fresh_report]
  by (simp add: sample_state_def sample_audit_def)

end
