(* ===== verification/Persistence_Properties.thy ===== *)
theory Persistence_Properties
  imports Journal State_Properties
begin

text \<open>
  The promises of the store: saves are atomic, what was saved or acknowledged is loaded again, a load trusts
  nothing that was not verified, and recovery is idempotent. Two theorems show where the code falls short:
  a torn append that is followed by a successful one, and a compaction under the byte bound.
\<close>

section \<open>The state file\<close>

lemma decode_saved:
  assumes "options_sane opts" and "state_storable s" and "length (state_bytes s) \<le> unat (so_max_state_bytes opts)"
    and "status_ok (validate_policy (ds_policy s))" and "ds_policy_digest s = pl_digest (ds_policy s)"
  shows "decode_state_file opts (make_state_file (state_bytes s)) = Inr s"
proof -
  let ?p = "state_bytes s" and ?bs = "make_state_file (state_bytes s)"
  have "length ?p \<le> 2 ^ 62" using assms(1,3) by (simp add: options_sane_def)
  then have n: "unat (word_of_nat (length ?p) :: u64) = length ?p"
      "unat (word_of_nat kStateHeaderBytes + word_of_nat (length ?p) + 32 :: u64) = length ?bs"
    by (simp_all add: unat_word_ariths kStateHeaderBytes_def)
  have bytes: "?bs = kStateMagic @ w_u32 kStateFormatVersion @ w_u32 0 @ w_u64 (word_of_nat (length ?p)) @ ?p @ sha256 ?p"
    by (simp add: make_state_file_def make_frame_bytes)
  have header: "do { (format, offset) \<leftarrow> read_u32 ?bs 8; (reserved, offset) \<leftarrow> read_u32 ?bs offset;
      (payload_length, offset) \<leftarrow> read_u64 ?bs offset; Some (format, payload_length) } = Some (kStateFormatVersion, word_of_nat (length ?p))"
    unfolding bytes by (simp add: read_words r_u32_w_u32 r_u64_w_u64)
  have parts: "take 8 ?bs = kStateMagic" "take (length ?p) (drop kStateHeaderBytes ?bs) = ?p" "drop (length ?bs - 32) ?bs = sha256 ?p"
    unfolding bytes by (simp_all add: kStateHeaderBytes_def)
  have size: "\<not> length ?bs < kStateHeaderBytes + 32" "\<not> word_of_nat (length ?p) > so_max_state_bytes opts"
    using assms(3) n by (simp_all add: kStateHeaderBytes_def word_less_nat_alt)
  have read: "deserialize_state ?p = Inr s" by (rule deserialize_state_bytes [OF assms(2)])
  show ?thesis
    unfolding decode_state_file_def header option.case prod.case Let_def n parts
    using size assms(4,5) by (simp add: read)
qed

lemma replay_keeps:
  "ds_policy (ry_state (fold replay_record records y)) = ds_policy (ry_state y)
   \<and> ds_policy_digest (ry_state (fold replay_record records y)) = ds_policy_digest (ry_state y)
   \<and> ds_evidence (ry_state (fold replay_record records y)) = ds_evidence (ry_state y)
   \<and> ds_audit (ry_state (fold replay_record records y)) = ds_audit (ry_state y)
   \<and> ds_publishers (ry_state (fold replay_record records y)) = ds_publishers (ry_state y)"
  by (induction records arbitrary: y) (simp_all add: replay_record_def replay_apply_def Let_def split: option.splits)

lemma merge_journal_keeps:
  "ds_policy (fst (merge_journal opts s records rep)) = ds_policy s
   \<and> ds_policy_digest (fst (merge_journal opts s records rep)) = ds_policy_digest s
   \<and> ds_evidence (fst (merge_journal opts s records rep)) = ds_evidence s
   \<and> ds_publishers (fst (merge_journal opts s records rep)) = ds_publishers s"
  by (simp add: merge_journal_def rebuild_from_audit_def replay_start_def replay_keeps Let_def split: prod.splits)

lemma store_save_cases:
  assumes "store_save s st w = (status, w')"
  shows "wd_journal w' = wd_journal w \<and> (\<not> status_ok status \<longrightarrow> wd_state w' = wd_state w)
    \<and> (status_ok status \<longrightarrow> sr_open st \<and> (\<exists>bs. serialize_state s = Inr bs \<and> wd_state w' = Some (make_state_file bs)
         \<and> length bs \<le> unat (so_max_state_bytes (sr_options st))))"
  using assms
  by (auto simp: store_save_def store_not_open_def write_file_atomic_def io_next_def io_error_def Let_def
      serialize_state_bytes split: if_splits list.splits)


section \<open>Samples\<close>

definition sample_options :: store_options where
  "sample_options = default_options\<lparr>so_directory := ''d''\<rparr>"

definition sample_store :: store where
  "sample_store = \<lparr>sr_options = sample_options, sr_open = True, sr_journal_bytes = 0, sr_journal_records = 0\<rparr>"

definition sample_world :: world where
  "sample_world = \<lparr>wd_state = Some (make_state_file (state_bytes sample_state)), wd_journal = None, wd_outcomes = []\<rparr>"

lemma sample_options_bounds [simp]:
  "so_max_state_bytes sample_options = 33554432" "so_max_journal_bytes sample_options = 67108864"
  "so_max_journal_records sample_options = 200000" "so_max_audit_records sample_options = 65536"
  "sr_options sample_store = sample_options" "sr_open sample_store" "options_sane sample_options"
  by (simp_all add: sample_options_def sample_store_def default_options_def kMaxAuditRecords_def options_sane_def)

lemma sample_state_sel [simp]:
  "ds_policy sample_state = sample_policy" "ds_domains sample_state = [sample_runtime]" "ds_audit sample_state = [sample_audit]"
  by (simp_all add: sample_state_def)

lemma sample_audit_storable: "audit_storable sample_audit"
  using sample_state_storable by (simp add: state_storable_def)

lemmas state_bytes_defs =
  state_bytes_def w_list_def w_size_def w_digest_def w_raw_def write_policy_def write_domain_def write_class_def
  write_risk_budget_def write_thresholds_def write_hysteresis_def write_limits_def write_ratio_def write_publisher_def
  write_runtime_def write_slot_def audit_entry_def audit_bytes_def audit_header_bytes_def w_string_dropped_def w_string_def
  w_string_body_def digest_zero_def kHardMaxNameLength_def

lemma sample_state_length: "length (state_bytes sample_state) \<le> 33554432"
  by (simp add: sample_state_def sample_defs sample_runtime_def sample_audit_def fresh_runtime_def state_bytes_defs)

lemma sample_valid:
  "status_ok (validate_policy (ds_policy sample_state))" "ds_policy_digest sample_state = pl_digest (ds_policy sample_state)"
  by (simp add: validate_policy_iff sample_installable) (simp add: sample_state_def sample_defs)

lemma sample_saved: "store_save sample_state sample_store sample_world = (status_success, sample_world)"
  using sample_state_length sample_state_storable
  by (simp add: store_save_def serialize_state_bytes state_storable_def audit_storable_def write_file_atomic_def io_next_def
      sample_world_def)

lemma sample_journal_holds: "journal_holds sample_store sample_world []"
  by (simp add: journal_holds_def journal_file_def sample_store_def sample_world_def)


section \<open>Properties\<close>

lemma store_load_saved:
  assumes "options_sane (sr_options st)" and "sr_open st" and "wd_outcomes w = []"
    and "state_storable s" and "length (state_bytes s) \<le> unat (so_max_state_bytes (sr_options st))"
    and "status_ok (validate_policy (ds_policy s))" and "ds_policy_digest s = pl_digest (ds_policy s)"
    and "wd_state w = Some (make_state_file (state_bytes s))"
    and "journal_file w as" and "list_all (frame_fits (sr_options st)) as"
    and "length (journal_bytes_of as) \<le> unat (so_max_journal_bytes (sr_options st))"
    and "length as \<le> unat (so_max_journal_records (sr_options st))"
  shows "\<exists>rep0 rep st'. store_load st w =
    (Inr (Some ((fst (merge_journal (sr_options st) s as rep0))
        \<lparr>ds_evidence := map (\<lambda>e. e\<lparr>sl_revalidation := True\<rparr>) (ds_evidence s), ds_journal_records := word_of_nat (length as)\<rparr>), rep),
     st', w)"
proof -
  let ?o = "sr_options st" and ?bs = "make_state_file (state_bytes s)"
  have "unat (so_max_state_bytes ?o) \<le> 2 ^ 62" using assms(1) by (simp add: options_sane_def)
  then have "unat (so_max_state_bytes ?o + word_of_nat kStateHeaderBytes + 32) = unat (so_max_state_bytes ?o) + 56"
    by (simp add: unat_word_ariths kStateHeaderBytes_def)
  then have read: "read_file_bounded (state_path st) (wd_state w) (so_max_state_bytes ?o + word_of_nat kStateHeaderBytes + 32) w
      = (Inr ?bs, w)"
    using assms(3,5,8) by (simp add: read_file_bounded_def io_next_def)
  note journal = load_journal_holds [OF assms(1,3,9,2,10,11,12)]
  show ?thesis
    using assms(2) merge_journal_keeps [of ?o s as] unfolding store_load_def read
    by (simp add: decode_saved [OF assms(1,4-7)] journal Let_def split: prod.splits) (metis fst_conv)
qed

lemma store_load_runtime:
  assumes "options_sane (sr_options st)" and "sr_open st" and "wd_outcomes w = []"
    and "state_storable s" and "length (state_bytes s) \<le> unat (so_max_state_bytes (sr_options st))"
    and "status_ok (validate_policy (ds_policy s))" and "ds_policy_digest s = pl_digest (ds_policy s)"
    and "wd_state w = Some (make_state_file (state_bytes s))"
    and "journal_file w as" and "list_all (frame_fits (sr_options st)) as"
    and "length (journal_bytes_of as) \<le> unat (so_max_journal_bytes (sr_options st))"
    and "length as \<le> unat (so_max_journal_records (sr_options st))"
    and "distinct (map rt_domain (ds_domains s))" and "sorted_wrt (<) (0 # map (\<lambda>a. id_value (au_id a)) as)"
    and "length (ds_domains s) + length as \<le> 4096"
  shows "\<exists>s' rep st'. store_load st w = (Inr (Some s', rep), st', w)
    \<and> ds_policy s' = ds_policy s \<and> ds_publishers s' = ds_publishers s
    \<and> ds_evidence s' = map (\<lambda>e. e\<lparr>sl_revalidation := True\<rparr>) (ds_evidence s)
    \<and> runtime_map (ds_domains s') = fold (\<lambda>a m. m(au_domain a \<mapsto> runtime_of_audit a)) as (runtime_map (ds_domains s))"
proof -
  let ?o = "sr_options st"
  obtain rep0 rep st' where load: "store_load st w =
    (Inr (Some ((fst (merge_journal ?o s as rep0))
        \<lparr>ds_evidence := map (\<lambda>e. e\<lparr>sl_revalidation := True\<rparr>) (ds_evidence s), ds_journal_records := word_of_nat (length as)\<rparr>), rep),
     st', w)"
    using store_load_saved [OF assms(1-12)] by blast
  have runtime: "runtime_map (ds_domains (fst (merge_journal ?o s as rep0)))
      = fold (\<lambda>a m. m(au_domain a \<mapsto> runtime_of_audit a)) as (runtime_map (ds_domains s))"
    using replay_all_inv [of "s\<lparr>ds_audit := merge_audit (so_max_audit_records ?o) (ds_audit s) as\<rparr>" as fresh_report] assms(13-15)
    by (simp add: merge_journal_def rebuild_from_audit_def replay_inv_def replay_spec_def Let_def split: prod.splits)
  show ?thesis by (intro exI conjI, rule load) (simp_all add: merge_journal_keeps runtime)
qed

lemma store_save_writes:
  assumes "store_save s st w = (status, w')" and "status_ok status"
  shows "wd_state w' = Some (make_state_file (state_bytes s))" "length (state_bytes s) \<le> unat (so_max_state_bytes (sr_options st))"
    "wd_journal w' = wd_journal w"
  using store_save_cases [OF assms(1)] assms(2) by (auto simp: serialize_state_bytes split: if_splits)

lemma load_after_save:
  assumes "options_sane (sr_options st)" and "state_storable s" and "status_ok (validate_policy (ds_policy s))"
    and "ds_policy_digest s = pl_digest (ds_policy s)" and "store_save s st w = (status, w')" and "status_ok status"
    and "journal_holds st w as" and "wd_outcomes w' = []"
    and "distinct (map rt_domain (ds_domains s))" and "sorted_wrt (<) (0 # map (\<lambda>a. id_value (au_id a)) as)"
    and "length (ds_domains s) + length as \<le> 4096"
  shows "\<exists>s' rep st'. store_load st w' = (Inr (Some s', rep), st', w')
    \<and> ds_policy s' = ds_policy s \<and> ds_publishers s' = ds_publishers s
    \<and> ds_evidence s' = map (\<lambda>e. e\<lparr>sl_revalidation := True\<rparr>) (ds_evidence s)
    \<and> runtime_map (ds_domains s') = fold (\<lambda>a m. m(au_domain a \<mapsto> runtime_of_audit a)) as (runtime_map (ds_domains s))"
proof -
  note saved = store_save_writes [OF assms(5,6)]
  have "journal_file w' as" "sr_open st" "list_all (frame_fits (sr_options st)) as"
      "length (journal_bytes_of as) \<le> unat (so_max_journal_bytes (sr_options st))" "length as \<le> unat (so_max_journal_records (sr_options st))"
    using assms(7) saved(3) by (simp_all add: journal_holds_def journal_file_def)
  with store_load_runtime [OF assms(1) _ assms(8,2) saved(2) assms(3,4) saved(1) _ _ _ _ assms(9-11)] show ?thesis by blast
qed





text \<open>
  C18. No acknowledged decision is lost: starting from a journal that holds \<open>as\<close>, after any sequence of
  appends among which some fail (no byte written) the journal of a store opened on the same file holds
  \<open>as\<close> and exactly the acknowledged records, in order, and the load reports no damage.
\<close>

theorem acknowledged_records_durable:
  assumes "options_sane (sr_options st)" and "journal_holds st w as" and "list_all audit_storable rs"
    and "\<forall>n. Io_partial n \<notin> set (wd_outcomes w)" and "append_each rs st w = (acked, st', w')"
    and "sr_open other" and "sr_options other = sr_options st"
  shows "\<exists>rep st2. load_journal other (w'\<lparr>wd_outcomes := []\<rparr>) = (Inr (as @ acked, rep), st2, w'\<lparr>wd_outcomes := []\<rparr>)
    \<and> lr_outcome rep \<noteq> Load_Recovered \<and> lr_discarded rep = 0"
proof -
  have "journal_holds st' w' (as @ acked)" "sr_options st' = sr_options st"
    using append_each_holds [OF assms(1-5)] by simp_all
  then show ?thesis
    using load_journal_holds [of other "w'\<lparr>wd_outcomes := []\<rparr>" "as @ acked"] assms(1,6,7)
    by (simp add: journal_holds_def journal_file_def journal_report_def fresh_load_report_def)
qed

theorem acknowledged_records_durable_witness:
  "\<exists>rep st2. load_journal sample_store ((snd (snd (append_each [sample_audit] sample_store sample_world)))\<lparr>wd_outcomes := []\<rparr>) =
     (Inr (fst (append_each [sample_audit] sample_store sample_world), rep), st2,
      (snd (snd (append_each [sample_audit] sample_store sample_world)))\<lparr>wd_outcomes := []\<rparr>)"
  using acknowledged_records_durable [of sample_store sample_world "[]" "[sample_audit]" _ _ _ sample_store]
    sample_journal_holds sample_audit_storable
  by (cases "append_each [sample_audit] sample_store sample_world") (force simp: sample_world_def)

lemma decode_verified:
  assumes "decode_state_file opts bytes = Inr s"
  shows "\<exists>n. sha256 (take n (drop 24 bytes)) = drop (length bytes - 32) bytes
    \<and> deserialize_state (take n (drop 24 bytes)) = Inr s
    \<and> status_ok (validate_policy (ds_policy s)) \<and> ds_policy_digest s = pl_digest (ds_policy s)"
  using assms unfolding decode_state_file_def
  by (auto simp: kStateHeaderBytes_def Let_def and_then_Inr_iff split: if_splits option.splits)

lemma read_file_frame:
  assumes "read_file_bounded path content bound w = (r, w')"
  shows "wd_state w' = wd_state w" "wd_journal w' = wd_journal w" "r = Inr bytes \<Longrightarrow> content = Some bytes"
  using assms by (auto simp: read_file_bounded_def io_next_def Let_def split: if_splits option.splits list.splits)

lemma write_file_frame:
  assumes "write_file_atomic path bytes w = (status, content, w')"
  shows "wd_state w' = wd_state w" "wd_journal w' = wd_journal w"
  using assms by (auto simp: write_file_atomic_def io_next_def Let_def split: if_splits list.splits)

lemma load_journal_state:
  assumes "load_journal st w = (r, st', w')"
  shows "wd_state w' = wd_state w" "sr_options st' = sr_options st"
  using assms unfolding load_journal_def
  by (auto simp: Let_def split: if_splits sum.splits prod.splits dest!: read_file_frame(1) write_file_frame(1))

lemma store_load_cases:
  assumes "store_load st w = (Inr (Some s, rep), st', w')"
  shows "\<exists>bytes s0 records rep0 n. wd_state w = Some bytes \<and> decode_state_file (sr_options st) bytes = Inr s0
    \<and> s = (fst (merge_journal (sr_options st) s0 records rep0))
        \<lparr>ds_evidence := map (\<lambda>e. e\<lparr>sl_revalidation := True\<rparr>) (ds_evidence s0), ds_journal_records := n\<rparr>
    \<and> wd_state w' = wd_state w"
proof -
  let ?bound = "so_max_state_bytes (sr_options st) + word_of_nat kStateHeaderBytes + 32"
  obtain found w1 where found: "read_file_bounded (state_path st) (wd_state w) ?bound w = (found, w1)" by fastforce
  obtain bytes where bytes: "found = Inr bytes"
    using assms unfolding store_load_def found by (auto split: if_splits sum.splits)
  obtain s0 where s0: "decode_state_file (sr_options st) bytes = Inr s0"
    using assms unfolding store_load_def found bytes by (auto split: if_splits sum.splits)
  obtain journal st1 w2 where journal: "load_journal st w1 = (journal, st1, w2)" by (cases "load_journal st w1") auto
  obtain records rep1 where records: "journal = Inr (records, rep1)"
    using assms unfolding store_load_def found bytes by (auto simp: s0 journal split: if_splits sum.splits)
  obtain rep2 where result: "s = (fst (merge_journal (sr_options st1) s0 records rep2))
      \<lparr>ds_evidence := map (\<lambda>e. e\<lparr>sl_revalidation := True\<rparr>) (ds_evidence (fst (merge_journal (sr_options st1) s0 records rep2))),
       ds_journal_records := word_of_nat (length records)\<rparr>" "w' = w2"
    using assms unfolding store_load_def found bytes
    by (auto simp: s0 journal records Let_def split: if_splits prod.splits) (metis fst_conv)+
  show ?thesis
    using read_file_frame(1) [OF found] read_file_frame(3) [OF found bytes] s0 result load_journal_state [OF journal] merge_journal_keeps
    by metis
qed

text \<open>
  A load trusts nothing that was not verified: a state it returns comes from a file whose payload has
  the stored SHA-256, whose policy validates and has the recorded digest; every evidence slot of it needs
  revalidation, and the load never writes the state file.
\<close>

theorem load_returns_verified_state:
  assumes "store_load st w = (Inr (Some s, rep), st', w')"
  shows "\<exists>bytes n. wd_state w = Some bytes \<and> sha256 (take n (drop 24 bytes)) = drop (length bytes - 32) bytes
      \<and> (\<exists>s0. deserialize_state (take n (drop 24 bytes)) = Inr s0 \<and> ds_policy s = ds_policy s0)
    \<and> status_ok (validate_policy (ds_policy s)) \<and> ds_policy_digest s = pl_digest (ds_policy s)
    \<and> list_all sl_revalidation (ds_evidence s) \<and> wd_state w' = wd_state w"
proof -
  obtain bytes s0 records rep0 n where load: "wd_state w = Some bytes" "decode_state_file (sr_options st) bytes = Inr s0"
      "s = (fst (merge_journal (sr_options st) s0 records rep0))
        \<lparr>ds_evidence := map (\<lambda>e. e\<lparr>sl_revalidation := True\<rparr>) (ds_evidence s0), ds_journal_records := n\<rparr>"
      "wd_state w' = wd_state w"
    using store_load_cases [OF assms] by blast
  show ?thesis
    using decode_verified [OF load(2)] load(1,4) merge_journal_keeps [of "sr_options st" s0 records rep0]
    unfolding load(3) by (auto simp: list_all_iff)
qed

theorem load_returns_verified_state_witness:
  "\<exists>s rep st'. store_load sample_store sample_world = (Inr (Some s, rep), st', sample_world)
    \<and> status_ok (validate_policy (ds_policy s)) \<and> list_all sl_revalidation (ds_evidence s)"
proof -
  obtain s rep st' where load: "store_load sample_store sample_world = (Inr (Some s, rep), st', sample_world)"
    using store_load_saved [of sample_store sample_world sample_state "[]"] sample_state_storable sample_state_length sample_valid
    by (auto simp: sample_world_def journal_file_def)
  then show ?thesis using load_returns_verified_state [OF load] by blast
qed

text \<open>
  Recovery is idempotent: when a load of the journal succeeds, whatever bytes it found, the next load
  returns the same records and finds no damage.
\<close>

theorem recovery_idempotent:
  assumes "options_sane (sr_options st)" and "load_journal st w = (Inr (as, rep), st', w')"
    and "length as \<le> unat (so_max_journal_records (sr_options st))"
  shows "\<exists>rep2 st2. load_journal st' (w'\<lparr>wd_outcomes := []\<rparr>) = (Inr (as, rep2), st2, w'\<lparr>wd_outcomes := []\<rparr>)
    \<and> lr_outcome rep2 \<noteq> Load_Recovered \<and> lr_discarded rep2 = 0"
  by (rule load_journal_again [OF assms])

lemma damaged_sample:
  "load_journal sample_store (sample_world\<lparr>wd_journal := Some [1, 2, 3]\<rparr>) =
     (Inr ([], fresh_load_report\<lparr>lr_outcome := Load_Recovered, lr_reason := Reason_PersistenceJournalPartial, lr_discarded := 3,
        lr_detail := ''journal tail was incomplete or corrupt; the valid prefix was retained''\<rparr>),
      sample_store, sample_world\<lparr>wd_journal := Some []\<rparr>)"
  by (simp add: load_journal_def read_file_bounded_def io_next_def write_file_atomic_def sample_world_def fresh_load_report_def
      scan_journal_stop scan_frame_def kJournalHeaderBytes_def sample_store_def)

theorem recovery_idempotent_witness:
  "\<exists>rep2 st2. load_journal sample_store (sample_world\<lparr>wd_journal := Some []\<rparr>)
     = (Inr ([], rep2), st2, sample_world\<lparr>wd_journal := Some []\<rparr>) \<and> lr_outcome rep2 \<noteq> Load_Recovered"
  using recovery_idempotent [OF _ damaged_sample] by (auto simp: sample_world_def)


section \<open>Where the code falls short\<close>

lemma append_audit_room:
  assumes "sr_open st" and "audit_storable a"
    and "unat (sr_journal_bytes st) + 652 \<le> unat (so_max_journal_bytes (sr_options st))"
    and "unat (sr_journal_records st) + 1 \<le> unat (so_max_journal_records (sr_options st))"
    and "options_sane (sr_options st)"
    and "append_file (journal_path st) (wd_journal w) (frame_of a) w = (status, content, w')"
  shows "append_audit a st w =
    (if \<not> status_ok status then (status, st, w'\<lparr>wd_journal := content\<rparr>)
     else (status_success, st\<lparr>sr_journal_bytes := sr_journal_bytes st + word_of_nat (length (frame_of a)),
             sr_journal_records := sr_journal_records st + 1\<rparr>, w'\<lparr>wd_journal := content\<rparr>))"
proof -
  let ?n = "word_of_nat (length (frame_of a)) :: u64"
  have "length (frame_of a) \<le> 652" using audit_bytes_length [OF assms(2)] by (simp add: frame_of_length)
  then have "unat ?n \<le> 652" by (subst unat_word_of_nat_u64) simp_all
  moreover have "unat (so_max_journal_bytes (sr_options st)) \<le> 2 ^ 62" using assms(5) by (simp add: options_sane_def)
  ultimately have bytes: "\<not> sr_journal_bytes st + ?n > so_max_journal_bytes (sr_options st)"
    using assms(3) by (simp add: word_less_nat_alt unat_add_u64)
  have "unat (sr_journal_records st) + 1 < 18446744073709551616"
    using assms(4) unat_u64_less [of "so_max_journal_records (sr_options st)"] by linarith
  then have records: "\<not> sr_journal_records st + 1 > so_max_journal_records (sr_options st)"
    using assms(4) by (simp add: word_less_nat_alt unat_add_u64)
  have "serialize_audit_record a = Inr (audit_bytes a)"
    using assms(2) by (simp add: serialize_audit_bytes audit_storable_def)
  then show ?thesis
    using assms(1,6) bytes records unfolding append_audit_def
    by (simp add: Let_def frame_of_def [symmetric])
qed

lemma magic_bytes: "kJournalMagic = [79, 83, 74, 49]"
  by code_simp

lemma frame_starts: "take 4 (frame_of a) = [79, 83, 74, 49]" "frame_of a = [79, 83, 74, 49] @ drop 4 (frame_of a)"
  by (simp_all add: frame_of_def make_journal_frame_def make_frame_bytes magic_bytes)

lemma torn_scan:
  assumes "list_all (frame_fits opts) as" and "length as \<le> unat (so_max_journal_records opts)"
  shows "sc_records (scan_journal opts (journal_bytes_of as @ take 1 (frame_of a) @ frame_of b) 0 [] at0) = as
    \<and> sc_damaged (scan_journal opts (journal_bytes_of as @ take 1 (frame_of a) @ frame_of b) 0 [] at0)"
proof -
  let ?post = "take 1 (frame_of a) @ frame_of b" and ?n = "length (journal_bytes_of as)"
  have "take 4 ?post \<noteq> kJournalMagic"
    by (subst frame_starts(2) [of a], subst frame_starts(2) [of b]) (simp add: magic_bytes)
  then have stop: "scan_frame opts (journal_bytes_of as @ ?post) ?n = Inl ?n"
    by (simp add: scan_frame_def)
  show ?thesis
    using scan_frames [OF assms(1), of "[]" "[]" ?post at0] assms(2) stop
    by (auto simp: scan_journal_stop frame_of_length)
qed

lemma load_journal_damaged:
  assumes "sr_open st" and "wd_outcomes w = []" and "wd_journal w = Some bytes"
    and "\<not> length bytes > unat (so_max_journal_bytes (sr_options st) + push_bit 20 1)"
    and "sc_records (scan_journal (sr_options st) bytes 0 [] (length bytes)) = as"
    and "sc_damaged (scan_journal (sr_options st) bytes 0 [] (length bytes))" and "list_all audit_storable as"
  shows "\<exists>rep st' w'. load_journal st w = (Inr (as, rep), st', w') \<and> lr_outcome rep = Load_Recovered"
  using assms frames_written [OF assms(7), of "[]"] unfolding load_journal_def
  by (simp add: read_file_bounded_def io_next_def write_file_atomic_def Let_def)

text \<open>
  C30. A torn append loses a later acknowledged decision: when one append fails after the first byte of its
  frame reached the file, the next append succeeds and is acknowledged, but the load that follows finds the
  journal damaged at the torn byte and returns neither record.
\<close>

theorem torn_append_loses_acknowledged:
  assumes "options_sane (sr_options st)" and "journal_holds st w as" and "audit_storable a" and "audit_storable b"
    and "wd_outcomes w = [Io_partial 1]"
    and "length (journal_bytes_of as) + 1304 \<le> unat (so_max_journal_bytes (sr_options st))"
    and "length as + 2 \<le> unat (so_max_journal_records (sr_options st))"
  shows "\<exists>s1 w1 s2 st2 w2 rep st3 w3. append_audit a st w = (s1, st, w1) \<and> \<not> status_ok s1
    \<and> append_audit b st w1 = (s2, st2, w2) \<and> status_ok s2
    \<and> load_journal st2 w2 = (Inr (as, rep), st3, w3) \<and> lr_outcome rep = Load_Recovered"
proof -
  let ?o = "sr_options st" and ?old = "journal_bytes_of as" and ?torn = "take 1 (frame_of a)"
  note inv = assms(2) [unfolded journal_holds_def]
  have small: "length (frame_of a) \<le> 652" "length (frame_of b) \<le> 652" "length ?torn = 1"
    using audit_bytes_length [OF assms(3)] audit_bytes_length [OF assms(4)] by (simp_all add: frame_of_length)
  have old: "(case wd_journal w of None \<Rightarrow> [] | Some bytes \<Rightarrow> bytes) = ?old"
    using inv by (auto simp: journal_file_def split: option.splits)
  have room: "unat (so_max_journal_bytes ?o) \<le> 2 ^ 62" using assms(1) by (simp add: options_sane_def)
  have counters: "unat (sr_journal_bytes st) = length ?old" "unat (sr_journal_records st) = length as"
    using inv room length_le_journal [of as] by simp_all
  let ?w1 = "w\<lparr>wd_outcomes := [], wd_journal := Some (?old @ ?torn)\<rparr>"
  have first: "append_audit a st w = (io_error Reason_None (''append failed: '' @ journal_path st), st, ?w1)"
    using append_audit_room [of st a w "io_error Reason_None (''append failed: '' @ journal_path st)" "Some (?old @ ?torn)" "w\<lparr>wd_outcomes := []\<rparr>"]
      assms(1,3,5-7) inv counters old
    by (simp add: append_file_def io_next_def io_error_def del: take_Suc)
  let ?st2 = "st\<lparr>sr_journal_bytes := sr_journal_bytes st + word_of_nat (length (frame_of b)), sr_journal_records := sr_journal_records st + 1\<rparr>"
  let ?bytes = "?old @ ?torn @ frame_of b" and ?w2 = "w\<lparr>wd_outcomes := [], wd_journal := Some (?old @ ?torn @ frame_of b)\<rparr>"
  have second: "append_audit b st ?w1 = (status_success, ?st2, ?w2)"
    using append_audit_room [of st b ?w1 status_success "Some ?bytes" ?w1] assms(1,4,6,7) inv counters
    by (simp add: append_file_def io_next_def)
  note scan = torn_scan [of ?o as a b "length ?bytes"]
  have sc: "sc_records (scan_journal ?o ?bytes 0 [] (length ?bytes)) = as" "sc_damaged (scan_journal ?o ?bytes 0 [] (length ?bytes))"
    using scan inv by auto
  have fits: "\<not> length ?bytes > unat (so_max_journal_bytes ?o + push_bit 20 1)"
    using assms(6) small journal_read_bound [OF assms(1)] by simp
  have "list_all audit_storable as" using inv by (auto simp: list_all_iff frame_fits_def)
  then obtain rep st3 w3 where load: "load_journal ?st2 ?w2 = (Inr (as, rep), st3, w3)" and rep: "lr_outcome rep = Load_Recovered"
    using load_journal_damaged [of ?st2 ?w2 ?bytes as] inv fits sc by auto
  show ?thesis
    by (intro exI conjI, rule first, simp add: io_error_def, rule second, simp, rule load, rule rep)
qed

theorem torn_append_loses_acknowledged_witness:
  "\<exists>s1 w1 s2 st2 w2 rep st3 w3. append_audit sample_audit sample_store (sample_world\<lparr>wd_outcomes := [Io_partial 1]\<rparr>) = (s1, sample_store, w1)
    \<and> \<not> status_ok s1 \<and> append_audit sample_audit sample_store w1 = (s2, st2, w2) \<and> status_ok s2
    \<and> load_journal st2 w2 = (Inr ([], rep), st3, w3)"
  using torn_append_loses_acknowledged [of sample_store "sample_world\<lparr>wd_outcomes := [Io_partial 1]\<rparr>" "[]" sample_audit sample_audit]
    sample_journal_holds sample_audit_storable
  by (simp add: journal_holds_def journal_file_def) metis

lemma compact_frames_cut:
  assumes "list_all audit_storable as" and "length out + length (journal_bytes_of as) > unat (so_max_journal_bytes opts)"
    and "length out \<le> unat (so_max_journal_bytes opts)"
  shows "\<exists>n k'. compact_frames (so_max_journal_bytes opts) out k as = Inr (out @ journal_bytes_of (take n as), k') \<and> n < length as"
  using assms
proof (induction as arbitrary: out k)
  case Nil
  then show ?case by simp
next
  case (Cons a as)
  have payload: "serialize_audit_record a = Inr (audit_bytes a)"
    using Cons.prems(1) by (simp add: serialize_audit_bytes audit_storable_def)
  show ?case
  proof (cases "length out + length (frame_of a) > unat (so_max_journal_bytes opts)")
    case True
    then show ?thesis by (intro exI [of _ 0] exI [of _ k]) (simp add: payload frame_of_def Let_def)
  next
    case False
    with Cons.IH [of "out @ frame_of a" "k + 1"] Cons.prems obtain n k' where
      "compact_frames (so_max_journal_bytes opts) (out @ frame_of a) (k + 1) as = Inr ((out @ frame_of a) @ journal_bytes_of (take n as), k')"
      "n < length as" by auto
    with False show ?thesis
      by (intro exI [of _ "Suc n"] exI [of _ k']) (simp add: payload frame_of_def Let_def)
  qed
qed

text \<open>
  Compaction under the byte bound loses the newest decisions: when the records to keep do not all fit,
  the journal is rewritten with a proper prefix of them, so the newest record is not in it.
\<close>

theorem compaction_loses_newest:
  assumes "sr_open st" and "wd_outcomes w = []" and "list_all audit_storable records"
    and "kept = drop (length records - unat (min keep (so_max_journal_records (sr_options st)))) records"
    and "length (journal_bytes_of kept) > unat (so_max_journal_bytes (sr_options st))"
  shows "\<exists>n st' w'. n < length kept \<and> compact_journal records keep st w = (status_success, st', w')
    \<and> wd_journal w' = Some (journal_bytes_of (take n kept))"
proof -
  let ?o = "sr_options st" and ?bound = "unat (so_max_journal_bytes (sr_options st))"
  have "list_all audit_storable kept" using assms(3,4) by (auto simp: list_all_iff dest: in_set_dropD)
  then obtain n k where n: "compact_frames (so_max_journal_bytes ?o) [] 0 kept = Inr (journal_bytes_of (take n kept), k)"
      "n < length kept"
    using compact_frames_cut [where as = kept and out = "[]" and opts = ?o and k = 0] assms(5) by auto
  have "(if length records > unat (min keep (so_max_journal_records ?o)) then length records - unat (min keep (so_max_journal_records ?o)) else 0)
      = length records - unat (min keep (so_max_journal_records ?o))" by simp
  then show ?thesis
    using n assms(1,2) unfolding compact_journal_def assms(4)
    by (auto simp: write_file_atomic_def io_next_def Let_def)
qed

definition small_store :: store where
  "small_store = sample_store\<lparr>sr_options := sample_options\<lparr>so_max_journal_bytes := 300\<rparr>\<rparr>"

theorem compaction_loses_newest_witness:
  "\<exists>n<Suc (Suc 0). \<exists>st' w'. compact_journal [sample_audit, sample_audit] 2 small_store sample_world = (status_success, st', w')
    \<and> wd_journal w' = Some (journal_bytes_of (take n [sample_audit, sample_audit]))"
  using compaction_loses_newest [of small_store sample_world "[sample_audit, sample_audit]" "[sample_audit, sample_audit]" 2]
    sample_audit_storable audit_header_length [OF sample_audit_storable]
  by (simp add: small_store_def sample_world_def min_def frame_of_length)

end
