(* ===== verification/Governor_Invariant.thy ===== *)
theory Governor_Invariant
  imports Governor_Facts Persistence_Properties
begin

text \<open>
  The invariant of an open governor and the step relation of its operations: whatever a sequence of
  operations does, the installed policy is valid and indexed, the tables are within their bounds, and every
  piece of evidence content belongs to its slot, to the slot's generation and to the current epoch.
\<close>

section \<open>The invariant\<close>

definition content_ok :: "fabric_epoch \<Rightarrow> content_slot \<Rightarrow> bool" where
  "content_ok e sl \<longleftrightarrow> wf_evidence_kind (sl_kind (gs_state sl)) \<and>
     (gs_has_content sl \<longrightarrow>
       (case sl_kind (gs_state sl) of
          Evidence_Capacity \<Rightarrow> (\<exists>c. gs_capacity sl = Some c \<and> cs_domain c = sl_domain (gs_state sl)
            \<and> cs_generation c = Gen (sl_generation (gs_state sl)) \<and> cs_epoch c = e)
        | Evidence_Reservation \<Rightarrow> (\<exists>c. gs_reservations sl = Some c \<and> rs_domain c = sl_domain (gs_state sl)
            \<and> rs_generation c = Gen (sl_generation (gs_state sl)) \<and> rs_epoch c = e)
        | Evidence_Admission \<Rightarrow> (\<exists>c. gs_admissions sl = Some c \<and> as_domain c = sl_domain (gs_state sl)
            \<and> as_generation c = Gen (sl_generation (gs_state sl)) \<and> as_epoch c = e)
        | Evidence_cast _ \<Rightarrow> False))"

definition key_of :: "content_slot \<Rightarrow> u64 \<times> u32" where
  "key_of sl = slot_key (sl_domain (gs_state sl)) (sl_kind (gs_state sl))"

definition slots_ok :: "fabric_epoch \<Rightarrow> content_slot list \<Rightarrow> ((u64 \<times> u32) \<rightharpoonup> nat) \<Rightarrow> bool" where
  "slots_ok e slots ix \<longleftrightarrow>
     (\<forall>sl \<in> set slots. content_ok e sl) \<and> (\<forall>k i. ix k = Some i \<longrightarrow> i < length slots \<and> key_of (slots ! i) = k)"

definition state_ok :: "durable_state \<Rightarrow> bool" where
  "state_ok s \<longleftrightarrow>
     status_ok (validate_policy (ds_policy s)) \<and> ds_policy_digest s = pl_digest (ds_policy s)
     \<and> epoch_valid (ds_epoch s) \<and> id_valid (ds_incarnation s)
     \<and> length (ds_publishers s) \<le> 4096 \<and> length (ds_domains s) \<le> 4096"

definition governor_ok :: "governor \<Rightarrow> bool" where
  "governor_ok g \<longleftrightarrow>
     state_ok (gv_state g) \<and> length (ds_audit (gv_state g)) \<le> 65536
     \<and> unat (go_max_audit_records (gv_options g)) \<le> 65536
     \<and> gv_index g = index_rebuild (ds_policy (gv_state g))
     \<and> slots_ok (ds_epoch (gv_state g)) (gv_slots g) (gv_slot_index g)
     \<and> sr_open (gv_store g) \<and> sr_options (gv_store g) = store_options_of (gv_options g)"

lemma state_ok_cong: "identity_of s' = identity_of s \<Longrightarrow> state_ok s' = state_ok s"
  by (simp add: state_ok_def identity_of_def)

lemma governor_ok_cong:
  assumes "core_of g' = core_of g" and "identity_of (gv_state g') = identity_of (gv_state g)"
    and "length (ds_audit (gv_state g')) \<le> 65536" and "sr_open (gv_store g') = sr_open (gv_store g)"
    and "sr_options (gv_store g') = sr_options (gv_store g)" and "governor_ok g"
  shows "governor_ok g'"
  using assms(3-6) core_ofD [OF assms(1)] identity_ofD [OF assms(2)] state_ok_cong [OF assms(2)]
  by (simp add: governor_ok_def)

lemma governor_ok_upd [simp]:
  "governor_ok (upd_stats f g) = governor_ok g" "governor_ok (g\<lparr>gv_dirty := b\<rparr>) = governor_ok g"
  "governor_ok (g\<lparr>gv_since_save := n\<rparr>) = governor_ok g" "governor_ok (g\<lparr>gv_clock := t\<rparr>) = governor_ok g"
  "governor_ok (observe_tick u g) = governor_ok g" "governor_ok (ticked rq g) = governor_ok g"
  "governor_ok (upd_state (\<lambda>s. s\<lparr>ds_tick := v s\<rparr>) g) = governor_ok g"
  "governor_ok (upd_state (\<lambda>s. s\<lparr>ds_evidence := w s\<rparr>) g) = governor_ok g"
  by (simp_all add: governor_ok_def observe_tick_def state_ok_def)

lemma governor_ok_sync [simp]: "governor_ok (sync_evidence_state g) = governor_ok g"
  by (simp add: sync_evidence_state_def)

lemma governor_ok_persist:
  assumes "persist_state force g = (status, g')" and "governor_ok g"
  shows "governor_ok g'"
  by (rule governor_ok_cong [OF persist_state_frame(1,2) [OF assms(1)]])
     (use persist_state_frame(3,4) [OF assms(1)] assms(2) in \<open>simp_all add: governor_ok_def\<close>)

lemma governor_ok_append:
  assumes "append_journal a g = (status, g')" and "governor_ok g"
  shows "governor_ok g'"
proof (rule governor_ok_cong [OF append_journal_frame(1,2) [OF assms(1)] _ append_journal_frame(4,3) [OF assms(1)] assms(2)])
  show "length (ds_audit (gv_state g')) \<le> 65536"
    using append_journal_frame(5) [OF assms(1)] assms(2) by (auto simp: governor_ok_def)
qed

section \<open>Slots\<close>

lemma slots_ok_update:
  assumes "slots_ok e slots ix" and "i < length slots" and "content_ok e sl" and "key_of sl = key_of (slots ! i)"
  shows "slots_ok e (slots[i := sl]) ix"
  using assms by (auto simp: slots_ok_def nth_list_update dest: set_update_subset_insert [THEN subsetD])

lemma slots_ok_map:
  assumes "slots_ok e slots ix" and "\<And>sl. content_ok e sl \<Longrightarrow> content_ok e' (f sl)" and "\<And>sl. key_of (f sl) = key_of sl"
  shows "slots_ok e' (map f slots) ix"
  using assms by (auto simp: slots_ok_def)

lemma content_ok_empty: "wf_evidence_kind kind \<Longrightarrow> content_ok e (empty_slot d kind)"
  by (simp add: content_ok_def empty_slot_def)

lemma content_ok_drop: "content_ok e sl \<Longrightarrow> content_ok e' (drop_content sl)"
  by (simp add: content_ok_def drop_content_def)

lemma key_of_keeps [simp]:
  "key_of (drop_content sl) = key_of sl" "key_of (empty_slot d kind) = slot_key d kind"
  by (simp_all add: key_of_def drop_content_def empty_slot_def)

lemma ensure_slot_facts:
  assumes "ensure_slot d kind g = (i, g')" and "slots_ok e (gv_slots g) (gv_slot_index g)" and "wf_evidence_kind kind"
  shows "slots_ok e (gv_slots g') (gv_slot_index g') \<and> i < length (gv_slots g') \<and> key_of (gv_slots g' ! i) = slot_key d kind
    \<and> gv_slot_index g' (slot_key d kind) = Some i \<and> g' = g\<lparr>gv_slots := gv_slots g', gv_slot_index := gv_slot_index g'\<rparr>"
proof (cases "gv_slot_index g (slot_key d kind)")
  case None
  then have "i = length (gv_slots g)" "g' = g\<lparr>gv_slot_index := (gv_slot_index g)(slot_key d kind \<mapsto> length (gv_slots g)),
      gv_slots := gv_slots g @ [empty_slot d kind]\<rparr>"
    using assms(1) by (auto simp: ensure_slot_def)
  with assms(2,3) show ?thesis
    by (auto simp: slots_ok_def content_ok_empty nth_append intro: less_SucI)
next
  case (Some j)
  then have "i = j" "g' = g" using assms(1) by (simp_all add: ensure_slot_def)
  with assms(2) Some show ?thesis
    by (auto simp: slots_ok_def simp del: split_paired_All)
qed

lemma evidence_kind_inject:
  "wf_evidence_kind k \<Longrightarrow> wf_evidence_kind l \<Longrightarrow> evidence_kind_to_u32 k = evidence_kind_to_u32 l \<Longrightarrow> k = l"
  by (metis evidence_kind_of_to_u32)

lemma key_of_slot:
  assumes "key_of sl = slot_key d kind" and "content_ok e sl" and "wf_evidence_kind kind"
  shows "sl_domain (gs_state sl) = d" "sl_kind (gs_state sl) = kind"
proof -
  have "id_value (sl_domain (gs_state sl)) = id_value d" "evidence_kind_to_u32 (sl_kind (gs_state sl)) = evidence_kind_to_u32 kind"
    using assms(1) by (simp_all add: key_of_def slot_key_def)
  then show "sl_domain (gs_state sl) = d" "sl_kind (gs_state sl) = kind"
    using assms(2,3) evidence_kind_inject by (simp_all add: strong_id.expand content_ok_def)
qed


section \<open>Every operation keeps the invariant\<close>

lemma update_first_length [simp]: "length (update_first p f xs) = length xs"
  by (induction xs) auto

lemma governor_ok_registration:
  "governor_ok (update_registration p f g) = governor_ok g"
  by (simp add: update_registration_def governor_ok_def state_ok_def)

lemma content_ok_flag [simp]: "content_ok e (sl\<lparr>gs_state := (gs_state sl)\<lparr>sl_revalidation := b\<rparr>\<rparr>) = content_ok e sl"
  by (cases "sl_kind (gs_state sl)") (simp_all add: content_ok_def)

lemma governor_ok_revalidation: "governor_ok g \<Longrightarrow> governor_ok (require_revalidation p g)"
  unfolding governor_ok_def require_revalidation_def
  by (auto intro!: slots_ok_map simp: key_of_def)

lemma governor_ok_register:
  assumes "register_publisher p inc epoch t g = (status, g')" and "governor_ok g"
  shows "governor_ok g'"
proof -
  have new: "governor_ok ((upd_state (\<lambda>s. s\<lparr>ds_publishers := ds_publishers s @ [r]\<rparr>) (observe_tick t g))\<lparr>gv_dirty := True\<rparr>)"
    if "\<not> length (ds_publishers (gv_state (observe_tick t g))) \<ge> unat kMaxPublishers" for r
    using assms(2) that by (simp add: governor_ok_def state_ok_def observe_tick_def kMaxPublishers_def)
  have observed: "governor_ok (observe_tick t g)" using assms(2) by simp
  show ?thesis
    using assms observed new
    by (auto simp: register_publisher_def Let_def governor_ok_registration dest: governor_ok_persist split: if_splits option.splits)
qed

lemma governor_ok_adopt:
  assumes "adopt_incarnation p inc epoch t g = (status, g')" and "governor_ok g"
  shows "governor_ok g'"
proof -
  have observed: "governor_ok (observe_tick t g)" using assms(2) by simp
  show ?thesis
    using assms observed
    by (auto simp: adopt_incarnation_def Let_def governor_ok_registration governor_ok_revalidation dest!: governor_ok_persist
        split: if_splits option.splits)
qed

lemma governor_ok_fence:
  assumes "fence_publisher p reason g = (status, g')" and "governor_ok g"
  shows "governor_ok g'"
  using assms by (auto simp: fence_publisher_def governor_ok_registration dest: governor_ok_persist split: if_splits option.splits)

lemma governor_ok_tick:
  assumes "advance_tick delta g = (status, g')" and "governor_ok g"
  shows "governor_ok g'"
  using assms by (auto simp: advance_tick_def governor_ok_def state_ok_def Let_def split: if_splits prod.splits)

lemma governor_ok_save:
  assumes "governor_save g = (status, g')" and "governor_ok g"
  shows "governor_ok g'"
  using assms by (auto simp: governor_save_def dest: governor_ok_persist split: if_splits)

lemma governor_ok_drop: "slots_ok e slots ix \<Longrightarrow> slots_ok e' (map drop_content slots) ix"
  by (rule slots_ok_map) (auto intro: content_ok_drop)

lemma governor_ok_epoch:
  assumes "advance_epoch next g = (status, g')" and "governor_ok g"
  shows "governor_ok g'"
proof (cases "status_ok (fst (advance_epoch next g)) \<or> gv_open g \<and> epoch_valid next \<and> \<not> epoch_value next \<le> epoch_value (ds_epoch (gv_state g))")
  case True
  then show ?thesis
    using assms governor_ok_drop
    by (auto simp: advance_epoch_def drop_evidence_content_def not_open_def Let_def governor_ok_def state_ok_def
        dest!: governor_ok_persist split: if_splits)
next
  case False
  then show ?thesis using assms by (auto simp: advance_epoch_def Let_def split: if_splits)
qed

lemma governor_ok_install:
  assumes "install_policy p t g = (status, g')" and "governor_ok g"
  shows "governor_ok g'"
proof -
  let ?g = "observe_tick t g" and ?q = "next_policy (ds_policy (gv_state (observe_tick t g))) p"
  let ?h = "upd_stats (\<lambda>t. t\<lparr>gt_policy_installs := gt_policy_installs t + 1\<rparr>)
      ((upd_state (\<lambda>s. s\<lparr>ds_policy := ?q, ds_policy_generation := pl_generation ?q, ds_policy_digest := pl_digest ?q\<rparr>)
         (drop_evidence_content ?g))\<lparr>gv_index := index_rebuild ?q, gv_dirty := True\<rparr>)"
  have ok: "governor_ok ?g" using assms(2) by simp
  have "governor_ok ?h" if "status_ok (validate_policy ?q)"
    using ok that by (auto simp: governor_ok_def state_ok_def drop_evidence_content_def intro: governor_ok_drop)
  then show ?thesis
    using assms ok by (auto simp: install_policy_def Let_def dest: governor_ok_persist split: if_splits)
qed

lemma put_runtime_length: "length (put_runtime i d ds) \<le> Suc (length ds)"
  by (simp add: put_runtime_def)

lemma find_runtime_some: "find_runtime i g \<noteq> None \<longleftrightarrow> (\<exists>e \<in> set (ds_domains (gv_state g)). rt_domain e = i)"
  by (auto simp: find_runtime_def find_None_iff)

lemma governor_ok_evaluate_locked:
  assumes "evaluate_locked iter wall rq cancel g = (answer, g')" and "governor_ok g"
  shows "governor_ok g'"
  using assms(1)
proof (cases rule: evaluate_locked_cases)
  case (refused status f)
  with assms(2) show ?thesis by auto
next
  case (not_durable d x a status)
  show ?thesis by (rule governor_ok_append [OF not_durable(2)]) (simp add: assms(2))
next
  case (committed d x a g2 status)
  let ?i = "rq_domain rq" and ?t = "evaluation_tick rq g"
  have g2: "governor_ok g2" by (rule governor_ok_append [OF committed(2)]) (simp add: assms(2))
  have same: "ds_domains (gv_state g2) = ds_domains (gv_state g)"
    using identity_ofD(8) [OF append_journal_frame(2) [OF committed(2)]] by simp
  have "length (put_runtime ?i e (ds_domains (gv_state g))) \<le> 4096" for e
    using committed(8) assms(2) unfolding find_runtime_some
    by (auto simp: put_runtime_def governor_ok_def state_ok_def kMaxDomainsState_def)
  then have "governor_ok (commit_decision ?i ?t x d g2)"
    using g2 same by (simp add: governor_ok_def state_ok_def)
  then show ?thesis by (rule governor_ok_persist [OF committed(4)])
qed

lemma governor_ok_evaluate:
  assumes "evaluate iter wall rq g = (answer, g')" and "governor_ok g"
  shows "governor_ok g'"
  using assms governor_ok_evaluate_locked by (auto simp: evaluate_def split: if_splits)

lemma governor_ok_revalidate:
  assumes "revalidate x g = (answer, g')" and "governor_ok g"
  shows "governor_ok g'"
  using assms by (auto simp: revalidate_def Let_def split: if_splits sum.splits)


section \<open>Ingestion\<close>

text \<open>What an accepted publication has established when the content goes into the slot.\<close>

lemma upd_slot_sel [simp]:
  "gv_options (upd_slot i f g) = gv_options g" "gv_open (upd_slot i f g) = gv_open g" "gv_accepting (upd_slot i f g) = gv_accepting g"
  "gv_state (upd_slot i f g) = gv_state g" "gv_store (upd_slot i f g) = gv_store g" "gv_index (upd_slot i f g) = gv_index g"
  "gv_slot_index (upd_slot i f g) = gv_slot_index g" "gv_clock (upd_slot i f g) = gv_clock g" "gv_world (upd_slot i f g) = gv_world g"
  "gv_slots (upd_slot i f g) = (gv_slots g)[i := f (gv_slots g ! i)]"
  by (simp_all add: upd_slot_def)

lemma update_registration_sel [simp]:
  "gv_options (update_registration p f g) = gv_options g" "gv_open (update_registration p f g) = gv_open g"
  "gv_accepting (update_registration p f g) = gv_accepting g" "gv_store (update_registration p f g) = gv_store g"
  "gv_index (update_registration p f g) = gv_index g" "gv_slots (update_registration p f g) = gv_slots g"
  "gv_slot_index (update_registration p f g) = gv_slot_index g" "gv_clock (update_registration p f g) = gv_clock g"
  "gv_world (update_registration p f g) = gv_world g"
  "ds_epoch (gv_state (update_registration p f g)) = ds_epoch (gv_state g)"
  "ds_policy (gv_state (update_registration p f g)) = ds_policy (gv_state g)"
  by (simp_all add: update_registration_def)

lemma governor_ok_ensure:
  assumes "ensure_slot d kind g = (i, g')" and "governor_ok g" and "wf_evidence_kind kind"
  shows "governor_ok g'" "i < length (gv_slots g')" "key_of (gv_slots g' ! i) = slot_key d kind"
    "gv_slot_index g' (slot_key d kind) = Some i" "gv_state g' = gv_state g" "gv_options g' = gv_options g"
    "content_ok (ds_epoch (gv_state g)) (gv_slots g' ! i)"
proof -
  have s: "slots_ok (ds_epoch (gv_state g)) (gv_slots g) (gv_slot_index g)" using assms(2) by (simp add: governor_ok_def)
  note f = ensure_slot_facts [OF assms(1) s assms(3)]
  then have g': "g' = g\<lparr>gv_slots := gv_slots g', gv_slot_index := gv_slot_index g'\<rparr>" by blast
  have same: "gv_state g' = gv_state g" "gv_options g' = gv_options g" "gv_index g' = gv_index g" "gv_store g' = gv_store g"
    by (subst g'; simp)+
  then show "gv_state g' = gv_state g" "gv_options g' = gv_options g" by simp_all
  show "i < length (gv_slots g')" "key_of (gv_slots g' ! i) = slot_key d kind" "gv_slot_index g' (slot_key d kind) = Some i"
    "content_ok (ds_epoch (gv_state g)) (gv_slots g' ! i)"
    using f by (auto simp: slots_ok_def)
  show "governor_ok g'" using assms(2) f by (simp add: governor_ok_def same)
qed

lemma governor_ok_upd_slot:
  assumes "governor_ok g" and "i < length (gv_slots g)" and "content_ok (ds_epoch (gv_state g)) (f (gv_slots g ! i))"
    and "key_of (f (gv_slots g ! i)) = key_of (gv_slots g ! i)"
  shows "governor_ok (upd_slot i f g)"
  using assms slots_ok_update by (simp add: governor_ok_def)

lemma content_ok_clear [simp]: "content_ok e (clear_content sl) \<longleftrightarrow> wf_evidence_kind (sl_kind (gs_state sl))"
  by (simp add: content_ok_def clear_content_def)

lemma clear_content_sel [simp]: "gs_state (clear_content sl) = gs_state sl" "key_of (clear_content sl) = key_of sl"
  by (simp_all add: clear_content_def key_of_def)

lemma ingest_slot_facts:
  assumes "ingest_slot d kind claimed observed pv payload r g = (status, generation, duplicate, g')"
    and "governor_ok g" and "wf_evidence_kind kind"
  shows "governor_ok g' \<and> ds_epoch (gv_state g') = ds_epoch (gv_state g) \<and>
    (status_ok status \<and> \<not> duplicate \<longrightarrow>
       (\<exists>i. gv_slot_index g' (slot_key d kind) = Some i \<and> i < length (gv_slots g') \<and> key_of (gv_slots g' ! i) = slot_key d kind
          \<and> sl_generation (gs_state (gv_slots g' ! i)) = generation))"
proof -
  obtain i g1 where e: "ensure_slot d kind g = (i, g1)" by (cases "ensure_slot d kind g") auto
  note f = governor_ok_ensure [OF e assms(2,3)]
  let ?e = "gs_state (gv_slots g1 ! i)" and ?g2 = "accept_evidence i (sl_generation (gs_state (gv_slots g1 ! i)) + 1) observed pv payload g1"
  have kept: "wf_evidence_kind (sl_kind ?e)" using f(7) by (simp add: content_ok_def)
  have "governor_ok ?g2"
    unfolding accept_evidence_def Let_def
    using f kept by (simp add: governor_ok_upd_slot governor_ok_registration key_of_def)
  moreover have "gv_slot_index ?g2 (slot_key d kind) = Some i \<and> i < length (gv_slots ?g2)
      \<and> key_of (gv_slots ?g2 ! i) = slot_key d kind \<and> sl_generation (gs_state (gv_slots ?g2 ! i)) = sl_generation ?e + 1
      \<and> ds_epoch (gv_state ?g2) = ds_epoch (gv_state g)"
    using f by (simp add: accept_evidence_def Let_def key_of_def)
  ultimately show ?thesis
    using assms(1) f(1,5) unfolding ingest_slot_def e by (auto simp: Let_def split: if_splits)
qed

lemma ingest_facts:
  assumes "ingest kind d claimed epoch observed pv payload g = (status, generation, duplicate, g')"
    and "governor_ok g" and "wf_evidence_kind kind"
  shows "governor_ok g' \<and>
    (status_ok status \<and> \<not> duplicate \<longrightarrow> epoch = ds_epoch (gv_state g') \<and>
       (\<exists>i. gv_slot_index g' (slot_key d kind) = Some i \<and> i < length (gv_slots g') \<and> key_of (gv_slots g' ! i) = slot_key d kind
          \<and> sl_generation (gs_state (gv_slots g' ! i)) = generation))"
proof -
  have "epoch_value epoch = epoch_value (ds_epoch (gv_state g)) \<Longrightarrow> epoch = ds_epoch (gv_state g)"
    by (cases epoch; cases "ds_epoch (gv_state g)") simp
  then show ?thesis
    using assms ingest_slot_facts [of d kind claimed observed pv payload _ g status generation duplicate g']
    unfolding ingest_def by (auto simp: not_open_def shutting_down_def split: if_splits option.splits)
qed

lemma governor_ok_restore:
  assumes "governor_ok g" and "wf_evidence_kind kind" and "\<And>e. ir_slot rb = Some e \<Longrightarrow> sl_domain e = d \<and> sl_kind e = kind"
    and "\<And>i. gv_slot_index g (slot_key d kind) = Some i \<Longrightarrow> \<not> gs_has_content (gv_slots g ! i)"
  shows "governor_ok (restore_rollback rb d kind g)"
proof (cases "ir_slot rb")
  case None
  with assms(1) show ?thesis by (auto simp: restore_rollback_def governor_ok_registration Let_def split: option.splits)
next
  case (Some e)
  obtain i g1 where en: "ensure_slot d kind g = (i, g1)" by (cases "ensure_slot d kind g") auto
  note f = governor_ok_ensure [OF en assms(1,2)]
  have "\<not> gs_has_content (gv_slots g1 ! i)"
    using en assms(4) by (auto simp: ensure_slot_def empty_slot_def split: option.splits)
  then have "governor_ok (upd_slot i (\<lambda>sl. sl\<lparr>gs_state := e\<rparr>) g1)"
    using f assms(2) assms(3) [OF Some] by (intro governor_ok_upd_slot) (simp_all add: content_ok_def key_of_def)
  then show ?thesis
    by (auto simp: restore_rollback_def Some en governor_ok_registration Let_def split: option.splits)
qed

lemma capture_rollback_slot:
  assumes "governor_ok g" and "wf_evidence_kind kind" and "ir_slot (capture_rollback d kind p g) = Some e"
  shows "sl_domain e = d \<and> sl_kind e = kind"
proof -
  obtain i where i: "gv_slot_index g (slot_key d kind) = Some i" "e = gs_state (gv_slots g ! i)"
    using assms(3) by (auto simp: capture_rollback_def find_slot_def)
  have "content_ok (ds_epoch (gv_state g)) (gv_slots g ! i)" "key_of (gv_slots g ! i) = slot_key d kind"
    using assms(1) i by (auto simp: governor_ok_def slots_ok_def simp del: split_paired_All)
  then show ?thesis using key_of_slot assms(2) i(2) by auto
qed

text \<open>\<open>fill\<close> puts coherent content into a slot of its kind, and touches nothing else.\<close>

definition fills ::
  "evidence_kind \<Rightarrow> domain_id \<Rightarrow> fabric_epoch \<Rightarrow> (u64 \<Rightarrow> content_slot \<Rightarrow> content_slot) \<Rightarrow> (content_slot \<Rightarrow> content_slot) \<Rightarrow> bool" where
  "fills kind d e fill unfill \<longleftrightarrow>
     (\<forall>generation sl. sl_domain (gs_state sl) = d \<and> sl_kind (gs_state sl) = kind \<and> sl_generation (gs_state sl) = generation \<longrightarrow>
        content_ok e ((fill generation sl)\<lparr>gs_has_content := True\<rparr>))
     \<and> (\<forall>generation sl. gs_state (fill generation sl) = gs_state sl)
     \<and> (\<forall>sl. gs_state (unfill sl) = gs_state sl \<and> gs_has_content (unfill sl) = gs_has_content sl)"

lemma governor_ok_publish:
  assumes "publish kind d claimed epoch observed pv valid fill unfill g = (answer, g')" and "governor_ok g"
    and "wf_evidence_kind kind" and "fills kind d epoch fill unfill"
  shows "governor_ok g'"
proof (cases "status_ok valid")
  case False
  then show ?thesis using assms(1,2) by (auto simp: publish_def rejected_def)
next
  case True
  obtain status generation duplicate g1 where ing: "ingest kind d claimed epoch observed pv (pv_payload_digest pv) g = (status, generation, duplicate, g1)"
    by (metis prod_cases4)
  note f = ingest_facts [OF ing assms(2,3)]
  show ?thesis
  proof (cases "status_ok status \<and> \<not> duplicate")
    case False
    then show ?thesis using True assms(1) f ing by (auto simp: publish_def rejected_def split: if_splits)
  next
    case accepted: True
    then obtain i where i: "epoch = ds_epoch (gv_state g1)" "gv_slot_index g1 (slot_key d kind) = Some i" "i < length (gv_slots g1)"
        "key_of (gv_slots g1 ! i) = slot_key d kind" "sl_generation (gs_state (gv_slots g1 ! i)) = generation"
      using f by blast
    then have en: "ensure_slot d kind g1 = (i, g1)" by (simp add: ensure_slot_def)
    let ?put = "\<lambda>sl. (fill generation sl)\<lparr>gs_has_content := True\<rparr>"
    have ok1: "governor_ok g1" and c1: "content_ok (ds_epoch (gv_state g1)) (gv_slots g1 ! i)"
      using f i by (auto simp: governor_ok_def slots_ok_def simp del: split_paired_All)
    have where_at: "sl_domain (gs_state (gv_slots g1 ! i)) = d" "sl_kind (gs_state (gv_slots g1 ! i)) = kind"
      using key_of_slot [OF i(4) c1 assms(3)] by auto
    have "content_ok (ds_epoch (gv_state g1)) (?put (gv_slots g1 ! i))" "gs_state (?put (gv_slots g1 ! i)) = gs_state (gv_slots g1 ! i)"
      using assms(4) where_at i(1,5) unfolding fills_def by simp_all blast
    then have ok2: "governor_ok (upd_slot i ?put g1)"
      using i(3) ok1 by (intro governor_ok_upd_slot) (simp_all add: key_of_def)
    obtain saved g3 where per: "persist_state True (sync_evidence_state (upd_slot i ?put g1)) = (saved, g3)"
      by (cases "persist_state True (sync_evidence_state (upd_slot i ?put g1))") auto
    have ok3: "governor_ok g3" by (rule governor_ok_persist [OF per]) (simp add: ok2)
    note c = core_ofD [OF persist_state_frame(1) [OF per]]
    have slots3: "gv_slots g3 = (gv_slots g1)[i := ?put (gv_slots g1 ! i)]" "gv_slot_index g3 = gv_slot_index g1"
      using c by (simp_all add: sync_evidence_state_def)
    let ?undo = "\<lambda>sl. unfill (sl\<lparr>gs_has_content := False\<rparr>)"
    have "governor_ok (upd_slot i ?undo g3)"
      using ok3 i(3) slots3 assms(3,4) where_at
      by (intro governor_ok_upd_slot) (auto simp: content_ok_def fills_def key_of_def)
    then have "governor_ok (restore_rollback (capture_rollback d kind (pv_publisher pv) g) d kind (upd_slot i ?undo g3))"
      using i(2,3) slots3 assms(4) capture_rollback_slot [OF assms(2,3)]
      by (intro governor_ok_restore assms(3)) (auto simp: fills_def)
    then show ?thesis
      using assms(1) True accepted ok3 unfolding publish_def Let_def ing prod.case en per rejected_def
      by (auto split: if_splits)
  qed
qed

lemma fills_instances:
  "fills Evidence_Capacity (cs_domain c) (cs_epoch c) (\<lambda>generation sl. sl\<lparr>gs_capacity := Some (numbered_capacity c generation)\<rparr>)
     (\<lambda>sl. sl\<lparr>gs_capacity := None\<rparr>)"
  "fills Evidence_Reservation (rs_domain r) (rs_epoch r) (\<lambda>generation sl. sl\<lparr>gs_reservations := Some (numbered_reservations r generation)\<rparr>)
     (\<lambda>sl. sl\<lparr>gs_reservations := None\<rparr>)"
  "fills Evidence_Admission (as_domain a) (as_epoch a) (\<lambda>generation sl. sl\<lparr>gs_admissions := Some (numbered_admissions a generation)\<rparr>)
     (\<lambda>sl. sl\<lparr>gs_admissions := None\<rparr>)"
  by (auto simp: fills_def content_ok_def numbered_capacity_def numbered_reservations_def numbered_admissions_def Let_def wf_evidence_kind_def)

lemma wf_named_kinds [simp]:
  "wf_evidence_kind Evidence_Capacity" "wf_evidence_kind Evidence_Reservation" "wf_evidence_kind Evidence_Admission"
  by (simp_all add: wf_evidence_kind_def)

lemma governor_ok_ingest:
  "ingest_capacity c g = (answer, g') \<Longrightarrow> governor_ok g \<Longrightarrow> governor_ok g'"
  "ingest_reservations r g = (answer, g') \<Longrightarrow> governor_ok g \<Longrightarrow> governor_ok g'"
  "ingest_admissions a g = (answer, g') \<Longrightarrow> governor_ok g \<Longrightarrow> governor_ok g'"
  unfolding ingest_capacity_def ingest_reservations_def ingest_admissions_def Let_def
  by (erule governor_ok_publish, assumption, simp, use fills_instances in fastforce)+

end
