(* ===== verification/Decision_Facts.thy ===== *)
theory Decision_Facts
  imports Governor_Invariant
begin

text \<open>
  What an evaluation decides, commits and answers, and a small open governor on which the properties of the
  governor are applied.
\<close>

section \<open>The prepared decision\<close>

lemma hysteresis_effective_within:
  assumes "hysteresis h t raw used d = (d', effective)" and "outcome_severity raw \<ge> 2"
  shows "effective = raw"
  using assms by (simp add: hysteresis_def)

lemma prepare_decision_facts:
  assumes "prepare_decision iter wall i t g = (d, x, a)"
  obtains r w effective where
    "r = current_result iter i t g"
    "hysteresis (pl_hysteresis (ds_policy (gv_state g))) t (er_outcome r) (da_used_ppm (er_accounting r))
       (working_runtime (find_runtime i g) i (ex_domain_generation (current_expectation i g)) (er_outcome r)) = (w, effective)"
    "d = w\<lparr>rt_last_raw := er_outcome r, rt_generation := ex_domain_generation (current_expectation i g)\<rparr>"
    "x = make_decision g r effective d t"
    "a = make_audit g wall i (ex_domain_generation (current_expectation i g)) x d"
  using assms unfolding prepare_decision_def Let_def by (auto split: prod.splits)

lemma make_decision_sel [simp]:
  "de_id (make_decision g r e d t) = StrongId (ds_decisions (gv_state g) + 1)"
  "de_evaluation (make_decision g r e d t) = r" "de_raw (make_decision g r e d t) = er_outcome r"
  "de_effective (make_decision g r e d t) = e"
  "de_authorized (make_decision g r e d t) \<longleftrightarrow> e = Outcome_WithinPolicy \<and> er_authorized r"
  "de_increment (make_decision g r e d t) = (if e = Outcome_WithinPolicy \<and> er_authorized r then er_increment r else 0)"
  "de_fenced (make_decision g r e d t) \<longleftrightarrow> fence_worthy e \<or> rt_fenced d \<and> \<not> outcome_is_authoritative e"
  "de_confirmations (make_decision g r e d t) = rt_confirmations d" "de_issued_tick (make_decision g r e d t) = t"
  "de_incarnation (make_decision g r e d t) = ds_incarnation (gv_state g)"
  "de_epoch (make_decision g r e d t) = ds_epoch (gv_state g)"
  by (simp_all add: make_decision_def Let_def)

lemma make_audit_sel [simp]:
  "au_id (make_audit g wall i n x d) = StrongId (id_value (de_id x))" "au_decision (make_audit g wall i n x d) = de_id x"
  "au_decision_digest (make_audit g wall i n x d) = de_digest x" "au_domain (make_audit g wall i n x d) = i"
  "au_raw (make_audit g wall i n x d) = er_outcome (de_evaluation x)" "au_effective (make_audit g wall i n x d) = de_effective x"
  "au_authorized (make_audit g wall i n x d) = de_authorized x" "au_increment (make_audit g wall i n x d) = de_increment x"
  "au_fenced (make_audit g wall i n x d) = de_fenced x" "au_tick (make_audit g wall i n x d) = de_issued_tick x"
  "au_binding (make_audit g wall i n x d) = da_binding (er_accounting (de_evaluation x))"
  "au_input_digest (make_audit g wall i n x d) = av_input_digest (er_authority (de_evaluation x))"
  "au_summary (make_audit g wall i n x d) = decision_summary (de_evaluation x)"
  "au_domain_generation (make_audit g wall i n x d) = n"
  by (simp_all add: make_audit_def Let_def)

lemma ticked_views [simp]:
  "current_expectation i (ticked rq g) = current_expectation i g" "current_evidence i (ticked rq g) = current_evidence i g"
  "find_runtime i (ticked rq g) = find_runtime i g" "find_slot i k (ticked rq g) = find_slot i k g"
  by (simp_all add: current_expectation_def current_evidence_def find_runtime_def find_slot_def slot_generation_def slot_content_def)

lemma current_result_ticked [simp]: "current_result iter i t (ticked rq g) = current_result iter i t g"
  unfolding current_result_def ticked_views ticked_sel ..

lemma make_decision_ticked [simp]: "make_decision (ticked rq g) r e d t = make_decision g r e d t"
  by (simp add: make_decision_def)

lemma make_audit_ticked [simp]: "make_audit (ticked rq g) wall i n x d = make_audit g wall i n x d"
  by (simp add: make_audit_def)

lemma prepare_ticked [simp]: "prepare_decision iter wall i t (ticked rq g) = prepare_decision iter wall i t g"
  by (simp add: prepare_decision_def)

text \<open>An answered decision is the prepared one.\<close>

lemma evaluate_answers:
  assumes "evaluate_locked iter wall rq cancel g = (Inr x, g')"
  obtains d a g2 where
    "prepare_decision iter wall (rq_domain rq) (evaluation_tick rq g) g = (d, x, a)"
    "append_journal a (ticked rq g) = (status_success, g2)"
    "persist_state False (commit_decision (rq_domain rq) (evaluation_tick rq g) x d g2) = (status_success, g')"
    "gv_open g" "id_valid (rq_domain rq)"
  using assms
proof (cases rule: evaluate_locked_cases)
  case (committed d x' a g2 status)
  from committed(5) have ok: "status_ok status" "x = x'" by (simp_all split: if_splits)
  have "status = status_success"
  proof -
    have "status_ok s \<Longrightarrow> s = status_success" if "save_state h = (s, h')" for s h h'
      using that store_save_status by (auto simp: save_state_def Let_def split: prod.splits if_splits)
    then show ?thesis using committed(4) ok(1) by (auto simp: persist_state_def not_open_def split: if_splits)
  qed
  then show ?thesis using that committed ok by simp
qed auto

section \<open>The evidence behind a decision\<close>

lemma governor_ok_installable: "governor_ok g \<Longrightarrow> policy_installable (ds_policy (gv_state g))"
  by (simp add: governor_ok_def state_ok_def validate_policy_iff)

lemma governor_ok_index:
  assumes "governor_ok g"
  shows "gv_index g = index_rebuild (ds_policy (gv_state g))" "index_domain (gv_index g) i = find_domain (ds_policy (gv_state g)) i"
  using assms index_finds(1) [of "ds_policy (gv_state g)" i] governor_ok_installable [OF assms]
  by (simp_all add: governor_ok_def policy_installable_def)

lemma find_domain_some: "find_domain p i = Some d \<Longrightarrow> d \<in> set (pl_domains p) \<and> dm_id d = i"
  by (auto simp: find_domain_def find_Some_iff)

lemma slot_found:
  assumes "governor_ok g" and "find_slot i kind g = Some sl" and "wf_evidence_kind kind"
  shows "content_ok (ds_epoch (gv_state g)) sl" "sl_domain (gs_state sl) = i" "sl_kind (gs_state sl) = kind"
proof -
  obtain j where j: "gv_slot_index g (slot_key i kind) = Some j" "sl = gv_slots g ! j"
    using assms(2) by (auto simp: find_slot_def)
  then have "j < length (gv_slots g)" "key_of sl = slot_key i kind" and c: "content_ok (ds_epoch (gv_state g)) sl"
    using assms(1) by (auto simp: governor_ok_def slots_ok_def simp del: split_paired_All)
  then show "content_ok (ds_epoch (gv_state g)) sl" "sl_domain (gs_state sl) = i" "sl_kind (gs_state sl) = kind"
    using key_of_slot [OF _ c assms(3)] by auto
qed

section \<open>A sample governor\<close>

definition sample_slot :: "evidence_kind \<Rightarrow> content_slot" where
  "sample_slot kind =
     \<lparr>gs_state = \<lparr>sl_domain = StrongId 7, sl_kind = kind, sl_generation = 2, sl_evidence_id = StrongId 1, sl_publisher = StrongId 1,
        sl_incarnation = StrongId 1, sl_sequence = 1, sl_observed_tick = 20, sl_payload_digest = digest_zero, sl_revalidation = False\<rparr>,
      gs_capacity = (if kind = Evidence_Capacity then Some sample_capacity else None),
      gs_reservations = (if kind = Evidence_Reservation then Some sample_reservations else None),
      gs_admissions = (if kind = Evidence_Admission then Some (sample_admissions [sample_demand]) else None),
      gs_has_content = True\<rparr>"

definition sample_governor :: governor where
  "sample_governor =
     \<lparr>gv_options = default_governor_options\<lparr>go_directory := ''d''\<rparr>, gv_open = True, gv_accepting = True, gv_state = sample_state,
      gv_store = sample_store, gv_index = index_rebuild sample_policy,
      gv_slots = [sample_slot Evidence_Capacity, sample_slot Evidence_Reservation, sample_slot Evidence_Admission],
      gv_slot_index = [slot_key (StrongId 7) Evidence_Capacity \<mapsto> 0, slot_key (StrongId 7) Evidence_Reservation \<mapsto> 1,
        slot_key (StrongId 7) Evidence_Admission \<mapsto> 2],
      gv_clock = 21, gv_stats = no_stats, gv_since_save = 0, gv_dirty = False, gv_world = sample_world\<rparr>"

lemma sample_governor_sel [simp]:
  "gv_open sample_governor" "gv_accepting sample_governor" "gv_state sample_governor = sample_state"
  "gv_store sample_governor = sample_store" "gv_index sample_governor = index_rebuild sample_policy" "gv_clock sample_governor = 21"
  "gv_world sample_governor = sample_world" "\<not> gv_dirty sample_governor" "gv_since_save sample_governor = 0"
  "gv_options sample_governor = default_governor_options\<lparr>go_directory := ''d''\<rparr>"
  "gv_slots sample_governor = [sample_slot Evidence_Capacity, sample_slot Evidence_Reservation, sample_slot Evidence_Admission]"
  by (simp_all add: sample_governor_def)

lemma sample_options_of: "store_options_of (default_governor_options\<lparr>go_directory := ''d''\<rparr>) = sample_options"
  by (simp add: store_options_of_def default_governor_options_def sample_options_def default_options_def)

lemma sample_audit_bound [simp]: "go_max_audit_records (default_governor_options\<lparr>go_directory := ''d''\<rparr>) = 65536"
  by (simp add: default_governor_options_def kMaxAuditRecords_def)

lemma sample_slots:
  "find_slot (StrongId 7) Evidence_Capacity sample_governor = Some (sample_slot Evidence_Capacity)"
  "find_slot (StrongId 7) Evidence_Reservation sample_governor = Some (sample_slot Evidence_Reservation)"
  "find_slot (StrongId 7) Evidence_Admission sample_governor = Some (sample_slot Evidence_Admission)"
  by (simp_all add: find_slot_def sample_governor_def slot_key_def evidence_kind_to_u32_def)

lemma sample_slots_ok: "slots_ok (FabricEpoch 1) (gv_slots sample_governor) (gv_slot_index sample_governor)"
proof -
  have "content_ok (FabricEpoch 1) (sample_slot Evidence_Capacity)" "content_ok (FabricEpoch 1) (sample_slot Evidence_Reservation)"
    "content_ok (FabricEpoch 1) (sample_slot Evidence_Admission)"
    by (simp_all add: content_ok_def sample_slot_def sample_defs)
  moreover have "key_of (sample_slot kind) = slot_key (StrongId 7) kind" for kind
    by (simp add: key_of_def sample_slot_def)
  ultimately show ?thesis
    by (auto simp: slots_ok_def sample_governor_def split: if_splits)
qed

lemma sample_governor_ok: "governor_ok sample_governor"
proof -
  have "ds_epoch sample_state = FabricEpoch 1" "state_ok sample_state"
    using sample_valid by (simp_all add: state_ok_def sample_state_def epoch_valid_def id_valid_def)
  then show ?thesis
    using sample_slots_ok sample_audit_bound by (simp add: governor_ok_def sample_options_of del: governor_options.update_convs)
qed

definition sample_request :: evaluation_request where
  "sample_request = \<lparr>rq_domain = StrongId 7, rq_tick = 21\<rparr>"

lemma sample_request_sel [simp]:
  "rq_domain sample_request = StrongId 7" "evaluation_tick sample_request sample_governor = 21"
  by (simp_all add: sample_request_def evaluation_tick_def)

end
