(* ===== verification/Jobs_Properties.thy ===== *)
theory Jobs_Properties
  imports Jobs Decision_Facts
begin

text \<open>
  The promises of the job queue over every interleaving: no accepted job is lost, the queue is bounded, and
  the workers can always drain what was accepted. Two theorems show where the code does not do what its
  comments say.
\<close>

definition pending :: "runtime \<Rightarrow> nat list" where
  "pending r = map fst (ru_queue r) @ map fst (ru_taken r) @ map fst (ru_done r)"

definition jobs_ok :: "runtime \<Rightarrow> bool" where
  "jobs_ok r \<longleftrightarrow> distinct (pending r) \<and> (\<forall>i \<in> set (pending r). i < length (ru_jobs r))
     \<and> (\<forall>i < length (ru_jobs r). jb_finished (ru_jobs r ! i) \<longleftrightarrow> i \<notin> set (pending r))
     \<and> length (ru_queue r) \<le> unat (go_max_pending_jobs (gv_options (ru_governor r)))"

lemma finished_sel [simp]:
  "jb_finished (finish_answer a j)" "jb_finished (job_finish s x j)" "jb_finished (snd (job_cancel j)) = jb_finished j"
  "\<not> jb_finished fresh_job"
  by (auto simp: finish_answer_def job_finish_def job_cancel_def fresh_job_def split: sum.splits)

lemma upd_job_sel [simp]:
  "ru_queue (upd_job i f r) = ru_queue r" "ru_taken (upd_job i f r) = ru_taken r" "ru_done (upd_job i f r) = ru_done r"
  "ru_governor (upd_job i f r) = ru_governor r" "ru_shutting_down (upd_job i f r) = ru_shutting_down r"
  "pending (upd_job i f r) = pending r" "ru_jobs (upd_job i f r) = (ru_jobs r)[i := f (ru_jobs r ! i)]"
  by (simp_all add: upd_job_def pending_def)

lemma evaluate_options [simp]:
  "gv_options (snd (evaluate_locked iter wall rq cancel g)) = gv_options g" "gv_options (snd (evaluate iter wall rq g)) = gv_options g"
  using evaluate_locked_frame [of iter wall rq cancel g, OF surjective_pairing]
    evaluate_locked_frame [of iter wall rq False g, OF surjective_pairing]
  by (simp_all add: evaluate_def)

text \<open>Moving a job along, from the outside: which jobs are pending afterwards.\<close>

lemma pending_moves:
  assumes "distinct (pending r)"
  shows "p \<in> set (ru_taken r) \<Longrightarrow> mset (pending (worker_evaluate iter wall p r)) = mset (pending r)"
    and "q \<in> set (ru_done r) \<Longrightarrow> mset (pending r) = {#fst q#} + mset (pending (worker_finish q r))"
proof -
  have remove: "p \<in> set ps \<Longrightarrow> mset (map fst ps) = {#fst p#} + mset (map fst (remove1 p ps))" for p :: "nat \<times> 'x" and ps
    by (induction ps) auto
  show "mset (pending (worker_evaluate iter wall p r)) = mset (pending r)" if "p \<in> set (ru_taken r)"
    using remove [OF that] by (auto simp: worker_evaluate_def pending_def split: prod.splits)
  show "mset (pending r) = {#fst q#} + mset (pending (worker_finish q r))" if "q \<in> set (ru_done r)"
    using remove [OF that] by (auto simp: worker_finish_def pending_def split: prod.splits)
qed

lemma distinct_mset: "mset xs = mset ys \<Longrightarrow> distinct xs = distinct ys \<and> set xs = set ys"
  by (metis mset_eq_imp_distinct_iff mset_eq_setD)

lemma jobs_ok_submit:
  assumes "jobs_ok r" and "submit iter wall rq r = (answer, r')"
  shows "jobs_ok r'"
proof -
  have old: "\<forall>i \<in> set (pending r). i < length (ru_jobs r)" using assms(1) by (simp add: jobs_ok_def)
  then have new: "length (ru_jobs r) \<notin> set (pending r)" by blast
  consider "r' = r"
    | g a where "r' = r\<lparr>ru_governor := g, ru_jobs := ru_jobs r @ [finish_answer a fresh_job]\<rparr>" "gv_options g = gv_options (ru_governor r)"
    | "r' = r\<lparr>ru_jobs := ru_jobs r @ [fresh_job], ru_queue := ru_queue r @ [(length (ru_jobs r), rq)]\<rparr>"
      "length (ru_queue r) < unat (go_max_pending_jobs (gv_options (ru_governor r)))"
  proof -
    obtain a g where ev: "evaluate iter wall rq (ru_governor r) = (a, g)" by fastforce
    moreover have "gv_options g = gv_options (ru_governor r)"
      using evaluate_options(2) [of iter wall rq "ru_governor r"] ev by simp
    ultimately show thesis
      using assms(2) that unfolding submit_def Let_def by (simp split: if_splits) metis+
  qed
  then show ?thesis
  proof cases
    case 1
    with assms(1) show ?thesis by simp
  next
    case 2
    with assms(1) old new show ?thesis
      by (auto simp: jobs_ok_def pending_def nth_append less_Suc_eq)
  next
    case 3
    with assms(1) old new show ?thesis
      by (auto simp: jobs_ok_def pending_def nth_append less_Suc_eq)
  qed
qed

lemma jobs_ok_finish:
  assumes "jobs_ok r" and "mset (pending r) = {#i#} + mset (pending r')" and "jb_finished j"
    and "ru_jobs r' = (ru_jobs r)[i := j]" and "length (ru_queue r') \<le> length (ru_queue r)"
    and "gv_options (ru_governor r') = gv_options (ru_governor r)"
  shows "jobs_ok r'"
proof -
  have "distinct (i # pending r') \<and> set (pending r) = insert i (set (pending r'))"
    using assms(1,2) distinct_mset [of "pending r" "i # pending r'"] by (simp add: jobs_ok_def)
  with assms show ?thesis by (auto simp: jobs_ok_def nth_list_update)
qed

lemma abandon_fold:
  assumes "distinct (map fst ps)" and "\<forall>p \<in> set ps. fst p < length (ru_jobs r)"
  shows "length (ru_jobs (fold abandon_job ps r)) = length (ru_jobs r)
    \<and> ru_governor (fold abandon_job ps r) = ru_governor r \<and> ru_shutting_down (fold abandon_job ps r) = ru_shutting_down r
    \<and> ru_queue (fold abandon_job ps r) = ru_queue r \<and> ru_taken (fold abandon_job ps r) = ru_taken r
    \<and> ru_done (fold abandon_job ps r) = ru_done r
    \<and> (\<forall>i < length (ru_jobs r). jb_finished (ru_jobs (fold abandon_job ps r) ! i) \<longleftrightarrow>
        jb_finished (ru_jobs r ! i) \<or> i \<in> fst ` set ps)"
  using assms by (induction ps arbitrary: r) (auto simp: abandon_job_def nth_list_update)

lemma jobs_ok_abandon:
  assumes "jobs_ok r"
  shows "jobs_ok (snd (abandon r))"
proof -
  let ?r = "r\<lparr>ru_shutting_down := True, ru_queue := []\<rparr>"
  have "distinct (map fst (ru_queue r)) \<and> (\<forall>p \<in> set (ru_queue r). fst p < length (ru_jobs ?r))"
    using assms by (auto simp: jobs_ok_def pending_def)
  then have "length (ru_jobs (fold abandon_job (ru_queue r) ?r)) = length (ru_jobs r)
    \<and> ru_governor (fold abandon_job (ru_queue r) ?r) = ru_governor r
    \<and> ru_queue (fold abandon_job (ru_queue r) ?r) = [] \<and> ru_taken (fold abandon_job (ru_queue r) ?r) = ru_taken r
    \<and> ru_done (fold abandon_job (ru_queue r) ?r) = ru_done r
    \<and> (\<forall>i < length (ru_jobs r). jb_finished (ru_jobs (fold abandon_job (ru_queue r) ?r) ! i) \<longleftrightarrow>
        jb_finished (ru_jobs r ! i) \<or> i \<in> fst ` set (ru_queue r))"
    using abandon_fold [of "ru_queue r" ?r] by simp
  then show ?thesis
    using assms by (auto simp: jobs_ok_def pending_def abandon_def Let_def)
qed

lemma jobs_ok_step: "runs iter r r' \<Longrightarrow> jobs_ok r \<Longrightarrow> jobs_ok r'"
proof (cases rule: runsE)
  assume "runs iter r r'"
  then show "runs iter r r'" .
next
  fix wall rq answer
  assume "jobs_ok r" "submit iter wall rq r = (answer, r')"
  then show "jobs_ok r'" by (rule jobs_ok_submit)
next
  fix i
  assume ok: "jobs_ok r" and r': "r' = upd_job i (\<lambda>j. snd (job_cancel j)) r" and i: "i < length (ru_jobs r)"
  show "jobs_ok r'" using ok i unfolding r' by (auto simp: jobs_ok_def nth_list_update)
next
  assume ok: "jobs_ok r" and take: "worker_take r = Some r'"
  then obtain i rq queue where q: "ru_queue r = (i, rq) # queue" by (auto simp: worker_take_def split: list.splits)
  show "jobs_ok r'"
  proof (cases "job_cancelled (ru_jobs r ! i)")
    case True
    then show ?thesis
      using take q by (intro jobs_ok_finish [OF ok]) (auto simp: worker_take_def pending_def Let_def)
  next
    case False
    then have "mset (pending r') = mset (pending r) \<and> ru_jobs r' = ru_jobs r \<and> ru_governor r' = ru_governor r
        \<and> length (ru_queue r') \<le> length (ru_queue r)"
      using take q by (auto simp: worker_take_def pending_def Let_def)
    then show ?thesis using ok distinct_mset [of "pending r'" "pending r"] by (auto simp: jobs_ok_def)
  qed
next
  fix p wall
  assume ok: "jobs_ok r" and r': "r' = worker_evaluate iter wall p r" and p: "p \<in> set (ru_taken r)"
  have "mset (pending r') = mset (pending r)" unfolding r' using ok pending_moves(1) [OF _ p] by (auto simp: jobs_ok_def)
  moreover have "ru_jobs r' = ru_jobs r \<and> ru_queue r' = ru_queue r \<and> gv_options (ru_governor r') = gv_options (ru_governor r)"
    unfolding r' by (cases p) (auto simp: worker_evaluate_def dest: evaluate_locked_frame split: prod.splits)
  ultimately show "jobs_ok r'" using ok distinct_mset [of "pending r'" "pending r"] by (auto simp: jobs_ok_def)
next
  fix p
  assume ok: "jobs_ok r" and r': "r' = worker_finish p r" and p: "p \<in> set (ru_done r)"
  obtain i a where ia: "p = (i, a)" by (cases p)
  show "jobs_ok r'"
    using pending_moves(2) [OF _ p] ok unfolding r' ia
    by (intro jobs_ok_finish [OF ok, where i = i and j = "finish_answer a (ru_jobs r ! i)"])
       (auto simp: jobs_ok_def worker_finish_def)
next
  fix g
  assume "jobs_ok r" "r' = r\<lparr>ru_governor := g\<rparr>" "gv_options g = gv_options (ru_governor r)"
  then show "jobs_ok r'" by (simp add: jobs_ok_def pending_def)
next
  assume "jobs_ok r" "r' = snd (abandon r)"
  then show "jobs_ok r'" by (simp add: jobs_ok_abandon)
qed


lemma jobs_ok_reaches: "reaches iter r r' \<Longrightarrow> jobs_ok r \<Longrightarrow> jobs_ok r'"
  by (induction rule: rtranclp_induct) (auto intro: jobs_ok_step)

lemma jobs_ok_fresh: "jobs_ok (fresh_runtime_of g)"
  by (simp add: jobs_ok_def pending_def fresh_runtime_of_def)

section \<open>Draining\<close>

definition backlog :: "runtime \<Rightarrow> nat" where
  "backlog r = 3 * length (ru_queue r) + 2 * length (ru_taken r) + length (ru_done r)"

lemma worker_progress:
  assumes "pending r \<noteq> []"
  shows "\<exists>r'. runs iter r r' \<and> backlog r' < backlog r"
proof -
  consider p where "p \<in> set (ru_done r)" | p where "p \<in> set (ru_taken r)" | i rq queue where "ru_queue r = (i, rq) # queue"
    using assms by (cases "ru_done r"; cases "ru_taken r"; cases "ru_queue r") (auto simp: pending_def)
  then show ?thesis
  proof cases
    case (1 p)
    then have "backlog (worker_finish p r) < backlog r"
      by (auto simp: backlog_def worker_finish_def length_remove1 split: prod.splits) (metis length_pos_if_in_set Suc_pred lessI)
    then show ?thesis using runs.finishes [OF 1] by blast
  next
    case (2 p)
    then have "backlog (worker_evaluate iter 0 p r) < backlog r"
      using length_pos_if_in_set [OF 2]
      by (cases "length (ru_taken r)") (auto simp: backlog_def worker_evaluate_def length_remove1 split: prod.splits)
    then show ?thesis using runs.evaluates [OF 2] by blast
  next
    case (3 i rq queue)
    then have "worker_take r \<noteq> None" by (simp add: worker_take_def Let_def)
    then obtain r' where r': "worker_take r = Some r'" by blast
    then have "backlog r' < backlog r" using 3 by (auto simp: backlog_def worker_take_def Let_def split: if_splits)
    then show ?thesis using runs.takes [OF r'] by blast
  qed
qed

lemma workers_drain: "\<exists>r'. reaches iter r r' \<and> pending r' = []"
proof (induction "backlog r" arbitrary: r rule: less_induct)
  case less
  show ?case
  proof (cases "pending r = []")
    case False
    then obtain r1 where "runs iter r r1" "backlog r1 < backlog r" using worker_progress by blast
    with less obtain r' where "reaches iter r1 r'" "pending r' = []" by blast
    with \<open>runs iter r r1\<close> show ?thesis by (meson converse_rtranclp_into_rtranclp)
  qed blast
qed

section \<open>Properties\<close>



text \<open>
  A cancelled job can still deliver a decision: between the evaluation and \<^verbatim>\<open>finish\<close> the job is not
  done, so \<^verbatim>\<open>cancel\<close> answers true and the job reports itself cancelled, and then hands its waiter the
  committed decision.
\<close>

theorem cancelled_job_delivers_decision:
  assumes "i < length (ru_jobs r)" and "\<not> jb_finished (ru_jobs r ! i)" and "(i, Inr x) \<in> set (ru_done r)"
  shows "fst (job_cancel (ru_jobs r ! i))
    \<and> (\<exists>r'. reaches iter r r' \<and> job_cancelled (ru_jobs r' ! i) \<and> job_get (ru_jobs r' ! i) = Some (Inr x))"
proof -
  let ?r1 = "upd_job i (\<lambda>j. snd (job_cancel j)) r"
  let ?r2 = "worker_finish (i, Inr x) ?r1"
  have "runs iter r ?r1" using assms(1) by (rule runs.cancels)
  moreover have "runs iter ?r1 ?r2" using assms(3) by (intro runs.finishes) simp
  ultimately have "reaches iter r ?r2" by (rule converse_rtranclp_into_rtranclp [OF _ r_into_rtranclp])
  moreover have "job_cancelled (ru_jobs ?r2 ! i) \<and> job_get (ru_jobs ?r2 ! i) = Some (Inr x)"
    using assms by (simp add: worker_finish_def job_cancelled_def job_get_def finish_answer_def job_finish_def job_cancel_def)
  ultimately show ?thesis using assms(2) by (auto simp: job_cancel_def)
qed

theorem cancelled_job_delivers_decision_witness:
  "\<exists>r'. reaches (\<lambda>xs. xs) ((fresh_runtime_of sample_governor)\<lparr>ru_jobs := [fresh_job], ru_done := [(0, Inr no_decision)]\<rparr>) r'
    \<and> job_cancelled (ru_jobs r' ! 0) \<and> job_get (ru_jobs r' ! 0) = Some (Inr no_decision)"
  using cancelled_job_delivers_decision [of 0 "(fresh_runtime_of sample_governor)\<lparr>ru_jobs := [fresh_job], ru_done := [(0, Inr no_decision)]\<rparr>" no_decision]
  by (simp add: fresh_job_def)

lemma shutting_down_stays: "runs iter r r' \<Longrightarrow> ru_shutting_down r \<Longrightarrow> ru_shutting_down r'"
proof (cases rule: runsE)
  assume "runs iter r r'"
  then show "runs iter r r'" .
next
  fix wall rq answer
  assume "submit iter wall rq r = (answer, r')" "ru_shutting_down r"
  then show "ru_shutting_down r'" by (auto simp: submit_def Let_def split: if_splits prod.splits)
next
  assume "worker_take r = Some r'" "ru_shutting_down r"
  then show "ru_shutting_down r'" by (auto simp: worker_take_def Let_def split: list.splits if_splits)
next
  assume "r' = snd (abandon r)"
  moreover have "ru_shutting_down (fold abandon_job ps r) = ru_shutting_down r" for ps r
    by (induction ps arbitrary: r) (simp_all add: abandon_job_def)
  ultimately show "ru_shutting_down r'" by (simp add: abandon_def Let_def)
qed (auto simp: worker_evaluate_def worker_finish_def split: prod.splits)

text \<open>
  Shutdown is for ever: once the queue was shut down no submission to a runtime with worker threads is
  accepted again, whatever happens in between, a close and a second successful open included: nothing
  resets \<^verbatim>\<open>shutting_down_\<close>.
\<close>

theorem submission_refused_after_shutdown:
  assumes "reaches iter (snd (abandon r0)) r" and "go_worker_threads (gv_options (ru_governor r)) \<noteq> 0"
  shows "\<exists>status. submit iter wall rq r = (Inl status, r)"
proof -
  have "ru_shutting_down (fold abandon_job ps r) = ru_shutting_down r" for ps r
    by (induction ps arbitrary: r) (simp_all add: abandon_job_def)
  then have start: "ru_shutting_down (snd (abandon r0))" by (simp add: abandon_def Let_def)
  from assms(1) have "ru_shutting_down r" by (induction rule: rtranclp_induct) (auto intro: start shutting_down_stays)
  then show ?thesis using assms(2) by (auto simp: submit_def Let_def)
qed

theorem submission_refused_after_shutdown_witness:
  "\<exists>status. submit (\<lambda>xs. xs) 0 sample_request (snd (abandon (fresh_runtime_of (sample_governor\<lparr>gv_options := default_governor_options\<lparr>go_worker_threads := 2\<rparr>\<rparr>)))) =
    (Inl status, snd (abandon (fresh_runtime_of (sample_governor\<lparr>gv_options := default_governor_options\<lparr>go_worker_threads := 2\<rparr>\<rparr>))))"
  by (rule submission_refused_after_shutdown [OF rtranclp.rtrancl_refl]) (simp add: abandon_def fresh_runtime_of_def Let_def)

end
