(* ===== verification/Governor_Authority.thy ===== *)
theory Governor_Authority
  imports Decision_Facts Verdict
begin

text \<open>
  What an authorised decision of the governor stands on.
\<close>

section \<open>The evidence of a result\<close>

lemma decided_result:
  assumes "governor_ok g" and "\<And>xs. set (iter xs) = set xs" and "r = current_result iter i t g" and "\<not> refused r"
    and "er_outcome r \<noteq> Outcome_Unknown"
  obtains p d cap res adm where
    "p = ds_policy (gv_state g)" "find_domain p i = Some d" "current_evidence i g = \<lparr>ev_capacity = Some cap, ev_reservations = Some res, ev_admissions = Some adm\<rparr>"
    "bound_evidence p d (current_expectation i g) (current_evidence i g) t cap res adm"
    "er_outcome r = verdict p d cap res adm"
    "accounting_exact p d (members_usable d cap) (scope_guarantees d res) (scope_contingent p d adm) (er_accounting r)"
    "da_effective_ratio (er_accounting r) = domain_ratio p d cap" "grant_consistent r"
proof (cases "find_domain (ds_policy (gv_state g)) i")
  case None
  then have "er_outcome r = Outcome_Unknown"
    using assms(3) by (simp add: current_result_def Let_def governor_ok_index(2) [OF assms(1)] uncovered_result_def)
  with assms(5) show thesis by simp
next
  case (Some d)
  let ?p = "ds_policy (gv_state g)" and ?ex = "current_expectation i g" and ?ev = "current_evidence i g"
  have d: "d \<in> set (pl_domains ?p)" using find_domain_some [OF Some] by blast
  have r: "r = evaluate_domain iter ?p (index_rebuild ?p) d ?ex ?ev t"
    using governor_ok_index [OF assms(1)] Some unfolding assms(3) current_result_def Let_def by simp
  have ok: "\<not> refused (evaluate_domain iter ?p (index_rebuild ?p) d ?ex ?ev t)" using assms(4) unfolding r .
  show thesis
  proof (rule evaluation_facts [OF ok governor_ok_installable [OF assms(1)] d assms(2), folded r])
    fix cap res adm
    assume b: "bound_evidence ?p d ?ex ?ev t cap res adm" "er_outcome r = verdict ?p d cap res adm"
      "accounting_exact ?p d (members_usable d cap) (scope_guarantees d res) (scope_contingent ?p d adm) (er_accounting r)"
      "da_effective_ratio (er_accounting r) = domain_ratio ?p d cap" "grant_consistent r"
    have "?ev = \<lparr>ev_capacity = Some cap, ev_reservations = Some res, ev_admissions = Some adm\<rparr>"
      using b(1) unfolding bound_evidence_def by (intro domain_evidence.equality) simp_all
    from that [OF refl Some this b] show thesis .
  qed
qed

text \<open>An answered decision and the result it rests on.\<close>

lemma answered_decision:
  assumes "evaluate iter wall rq g = (Inr x, g')"
  obtains r where "r = current_result iter (rq_domain rq) (evaluation_tick rq g) g" "de_evaluation x = r"
    "de_raw x = er_outcome r" "de_authorized x \<longleftrightarrow> de_effective x = Outcome_WithinPolicy \<and> er_authorized r"
    "de_increment x = (if de_authorized x then er_increment r else 0)" "de_issued_tick x = evaluation_tick rq g"
    "de_epoch x = ds_epoch (gv_state g)" "de_incarnation x = ds_incarnation (gv_state g)"
    "de_fenced x \<Longrightarrow> de_effective x \<noteq> Outcome_WithinPolicy" "evaluate_locked iter wall rq False g = (Inr x, g')"
proof -
  from assms have ev: "evaluate_locked iter wall rq False g = (Inr x, g')" by (simp add: evaluate_def split: if_splits)
  from evaluate_answers [OF ev] obtain d a g2 where
    prep: "prepare_decision iter wall (rq_domain rq) (evaluation_tick rq g) g = (d, x, a)" by blast
  from prepare_decision_facts [OF prep] obtain r w effective where
    r: "r = current_result iter (rq_domain rq) (evaluation_tick rq g) g" "x = make_decision g r effective d (evaluation_tick rq g)"
    by metis
  have "fence_worthy Outcome_WithinPolicy = False" "outcome_is_authoritative Outcome_WithinPolicy"
    by (simp_all add: fence_worthy_def outcome_is_authoritative_def)
  then show thesis using ev by (intro that [OF r(1)]) (auto simp: r(2))
qed

text \<open>
  C2. The grant of the governor: when an evaluation is answered with an authorised decision, the domain is
  covered by the installed policy, the three kinds of evidence it used are the current content of the
  governor, of the current epoch and fresh at the decision's tick, raw and effective outcome are within
  policy, the decision is not fenced and is stamped with the current epoch and incarnation; and guarantees,
  reserve, contingent commitments and the granted increment add up to the legal ceiling of the domain.
\<close>

theorem authorised_decision_sound:
  assumes "governor_ok g" and "\<And>xs. set (iter xs) = set xs"
    and "evaluate iter wall rq g = (Inr x, g')" and "de_authorized x"
  shows "\<exists>p d cap res adm. p = ds_policy (gv_state g) \<and> find_domain p (rq_domain rq) = Some d
    \<and> current_evidence (rq_domain rq) g = \<lparr>ev_capacity = Some cap, ev_reservations = Some res, ev_admissions = Some adm\<rparr>
    \<and> cs_epoch cap = ds_epoch (gv_state g) \<and> rs_epoch res = ds_epoch (gv_state g) \<and> as_epoch adm = ds_epoch (gv_state g)
    \<and> de_issued_tick x - cs_tick cap \<le> pl_capacity_age p \<and> de_issued_tick x - rs_tick res \<le> pl_reservation_age p
    \<and> de_issued_tick x - as_tick adm \<le> pl_admission_age p
    \<and> de_raw x = Outcome_WithinPolicy \<and> de_effective x = Outcome_WithinPolicy \<and> \<not> de_fenced x
    \<and> de_epoch x = ds_epoch (gv_state g) \<and> de_incarnation x = ds_incarnation (gv_state g)
    \<and> protected_floor d res + scope_contingent p d adm + unat (de_increment x) = domain_ceiling p d cap
    \<and> 0 < unat (de_increment x) \<and> headroom_floor d res \<le> members_usable d cap"
proof -
  from answered_decision [OF assms(3)] obtain r where
    r: "r = current_result iter (rq_domain rq) (evaluation_tick rq g) g"
    and x: "de_raw x = er_outcome r" "de_authorized x \<longleftrightarrow> de_effective x = Outcome_WithinPolicy \<and> er_authorized r"
      "de_increment x = (if de_authorized x then er_increment r else 0)" "de_issued_tick x = evaluation_tick rq g"
      "de_epoch x = ds_epoch (gv_state g)" "de_incarnation x = ds_incarnation (gv_state g)"
      "de_fenced x \<Longrightarrow> de_effective x \<noteq> Outcome_WithinPolicy"
    by metis
  have grant: "grant_consistent r"
    unfolding r current_result_def Let_def using evaluation_grant
    by (auto simp: uncovered_result_def result_zero_def grant_consistent_def fence_outcome_def outcome_is_authoritative_def split: option.splits)
  then have within: "er_outcome r = Outcome_WithinPolicy" "er_increment r = da_contingent_free (er_accounting r)"
    using assms(4) x(2) by (simp_all add: grant_consistent_def)
  then have "\<not> refused r" "er_outcome r \<noteq> Outcome_Unknown" by (simp_all add: refused_def)
  from decided_result [OF assms(1,2) r this] obtain p d cap res adm where
    p: "p = ds_policy (gv_state g)" "find_domain p (rq_domain rq) = Some d"
    and ev: "current_evidence (rq_domain rq) g = \<lparr>ev_capacity = Some cap, ev_reservations = Some res, ev_admissions = Some adm\<rparr>"
    and b: "bound_evidence p d (current_expectation (rq_domain rq) g) (current_evidence (rq_domain rq) g) (evaluation_tick rq g) cap res adm"
    and v: "er_outcome r = verdict p d cap res adm"
    and a: "accounting_exact p d (members_usable d cap) (scope_guarantees d res) (scope_contingent p d adm) (er_accounting r)"
      "da_effective_ratio (er_accounting r) = domain_ratio p d cap"
    by metis
  note limits = verdict_within [OF v [symmetric, unfolded within(1)]]
  have "unat (er_increment r) = domain_ceiling p d cap - protected_floor d res - scope_contingent p d adm"
    using a by (simp add: within(2) accounting_exact_def Let_def domain_ceiling_def protected_floor_def)
  moreover have "ex_epoch (current_expectation (rq_domain rq) g) = ds_epoch (gv_state g)"
    by (simp add: current_expectation_def Let_def)
  moreover have "\<not> de_fenced x" using x(2,7) assms(4) by blast
  ultimately show ?thesis
    using p ev b limits x(1-6) assms(4) within(1) unfolding bound_evidence_def
    by (intro exI [of _ p] exI [of _ d] exI [of _ cap] exI [of _ res] exI [of _ adm]) simp
qed

end
