(* ===== verification/Governor_Open.thy ===== *)
theory Governor_Open
  imports Governor_Invariant
begin

text \<open>
  Opening a governor establishes the invariant, from a fresh store as from a loaded state, and every
  operation is a step of one relation that keeps it.
\<close>

section \<open>Opening establishes the invariant\<close>

lemma emplace_SomeD: "emplace m k v k' = Some x \<Longrightarrow> m k' = Some x \<or> k' = k \<and> x = v"
  by (cases "m k") (auto split: if_splits)

lemma index_slots_upto:
  "fold (\<lambda>i m. emplace m (key_of (slots ! i)) i) [0..<n] Map.empty k = Some i \<Longrightarrow> i < n \<and> key_of (slots ! i) = k"
proof (induction n)
  case (Suc n)
  from Suc.prems have "emplace (fold (\<lambda>i m. emplace m (key_of (slots ! i)) i) [0..<n] Map.empty) (key_of (slots ! n)) n k = Some i"
    by simp
  with Suc.IH show ?case by (auto dest!: emplace_SomeD)
qed simp

lemma index_slots_sound: "index_slots slots k = Some i \<Longrightarrow> i < length slots \<and> key_of (slots ! i) = k"
  using index_slots_upto [where slots = slots and n = "length slots" and k = k and i = i]
  unfolding index_slots_def key_of_def by blast

lemma slots_ok_restored:
  assumes "list_all (\<lambda>x. wf_evidence_kind (sl_kind x)) es"
  shows "slots_ok e (map restored_slot es) (index_slots (map restored_slot es))"
proof -
  have "i < length es \<and> key_of (restored_slot (es ! i)) = k" if "index_slots (map restored_slot es) k = Some i" for k i
    using index_slots_sound [OF that] by auto
  moreover have "content_ok e (restored_slot x)" if "x \<in> set es" for x
    using assms that by (simp add: content_ok_def restored_slot_def list_all_iff)
  ultimately show ?thesis by (auto simp: slots_ok_def simp del: split_paired_All)
qed

lemma replay_domains_bounded:
  "length (ds_domains (ry_state y)) \<le> 4096 \<Longrightarrow> length (ds_domains (ry_state (fold replay_record records y))) \<le> 4096"
proof (induction records arbitrary: y)
  case (Cons a records)
  have "length (ds_domains (ry_state (replay_record a y))) \<le> 4096"
    using Cons.prems by (auto simp: replay_record_def replay_apply_def Let_def split: option.splits)
  with Cons.IH show ?case by simp
qed simp

lemma merge_journal_bounded:
  assumes "length (ds_domains s) \<le> 4096" and "length (ds_audit s) \<le> 65536" and "unat (so_max_audit_records opts) \<le> 65536"
  shows "length (ds_domains (fst (merge_journal opts s records rep))) \<le> 4096"
    "length (ds_audit (fst (merge_journal opts s records rep))) \<le> 65536"
proof -
  let ?s = "s\<lparr>ds_audit := merge_audit (so_max_audit_records opts) (ds_audit s) records\<rparr>"
  have "length (merge_audit (so_max_audit_records opts) (ds_audit s) records) \<le> unat (so_max_audit_records opts)"
    by (simp add: merge_audit_def Let_def)
  then have "length (ds_audit ?s) \<le> 65536" using assms(3) by simp
  moreover have "length (ds_domains (ry_state (fold replay_record records (replay_start ?s fresh_report)))) \<le> 4096"
    using assms(1) by (intro replay_domains_bounded) (simp add: replay_start_def)
  ultimately show "length (ds_domains (fst (merge_journal opts s records rep))) \<le> 4096"
    "length (ds_audit (fst (merge_journal opts s records rep))) \<le> 65536"
    using assms replay_keeps [of records "replay_start ?s fresh_report"]
    by (auto simp: merge_journal_def rebuild_from_audit_def replay_start_def Let_def split: prod.splits)
qed

lemma load_journal_open:
  assumes "load_journal st w = (r, st', w')"
  shows "sr_open st' = sr_open st"
  using assms unfolding load_journal_def by (auto simp: Let_def split: if_splits sum.splits prod.splits)

lemma store_load_store:
  assumes "store_load st w = (answer, st', w')"
  shows "sr_open st' = sr_open st \<and> sr_options st' = sr_options st"
  using assms unfolding store_load_def
  by (auto simp: Let_def dest: load_journal_open load_journal_state(2) split: if_splits sum.splits prod.splits)

lemma loaded_ok:
  assumes "store_load st w = (Inr (Some s, rep), st', w')" and "unat (so_max_audit_records (sr_options st)) \<le> 65536"
  shows "status_ok (validate_policy (ds_policy s)) \<and> ds_policy_digest s = pl_digest (ds_policy s)
    \<and> length (ds_publishers s) \<le> 4096 \<and> length (ds_domains s) \<le> 4096 \<and> length (ds_audit s) \<le> 65536
    \<and> list_all (\<lambda>x. wf_evidence_kind (sl_kind x)) (ds_evidence s)"
proof -
  obtain bytes s0 records rep0 n where load: "decode_state_file (sr_options st) bytes = Inr s0"
      "s = (fst (merge_journal (sr_options st) s0 records rep0))
        \<lparr>ds_evidence := map (\<lambda>e. e\<lparr>sl_revalidation := True\<rparr>) (ds_evidence s0), ds_journal_records := n\<rparr>"
    using store_load_cases [OF assms(1)] by blast
  obtain k where v: "deserialize_state (take k (drop 24 bytes)) = Inr s0" "status_ok (validate_policy (ds_policy s0))"
      "ds_policy_digest s0 = pl_digest (ds_policy s0)"
    using decode_verified [OF load(1)] by blast
  have st: "state_storable s0" by (rule deserialize_state_storable [OF v(1)])
  show ?thesis
    using v(2,3) st merge_journal_keeps [of "sr_options st" s0 records rep0]
      merge_journal_bounded [of s0 "sr_options st" records rep0] assms(2)
    unfolding load(2) by (auto simp: state_storable_def list_all_iff slot_storable_def)
qed

lemma governor_ok_restored:
  assumes "restore s g = (status, g')" and "status_ok status" and "sr_open (gv_store g)"
    and "sr_options (gv_store g) = store_options_of (gv_options g)" and "unat (go_max_audit_records (gv_options g)) \<le> 65536"
    and "status_ok (validate_policy (ds_policy s))" "ds_policy_digest s = pl_digest (ds_policy s)"
      "length (ds_publishers s) \<le> 4096" "length (ds_domains s) \<le> 4096" "length (ds_audit s) \<le> 65536"
      "list_all (\<lambda>x. wf_evidence_kind (sl_kind x)) (ds_evidence s)"
  shows "governor_ok g'"
proof -
  let ?s = "s\<lparr>ds_incarnation := StrongId (id_value (ds_incarnation s) + 1),
      ds_epoch := (if epoch_valid (ds_epoch s) then ds_epoch s else FabricEpoch 1),
      ds_evidence := map (\<lambda>e. e\<lparr>sl_revalidation := True\<rparr>) (ds_evidence s)\<rparr>"
  let ?h = "g\<lparr>gv_state := ?s, gv_clock := snd (clock_restore (ds_tick s) (gv_clock g)), gv_slots := map restored_slot (ds_evidence s),
      gv_slot_index := index_slots (map restored_slot (ds_evidence s)), gv_index := index_rebuild (ds_policy s), gv_dirty := True\<rparr>"
  have inc: "id_value (ds_incarnation s) \<noteq> - 1" and per: "persist_state True ?h = (status, g')"
    using assms(1,2) by (auto simp: restore_def Let_def upd_state_def split: if_splits)
  have "id_value (ds_incarnation s) + 1 \<noteq> 0" using inc by (simp add: eq_neg_iff_add_eq_0)
  then have "governor_ok ?h"
    using assms(3-) slots_ok_restored [OF assms(11)]
    by (auto simp: governor_ok_def state_ok_def id_valid_def epoch_valid_def)
  then show ?thesis by (rule governor_ok_persist [OF per])
qed

lemma governor_ok_initialized:
  assumes "initialize initial g = (status, g')" and "status_ok status" and "sr_open (gv_store g)"
    and "sr_options (gv_store g) = store_options_of (gv_options g)" and "unat (go_max_audit_records (gv_options g)) \<le> 65536"
  shows "governor_ok g'"
proof -
  let ?p = "initialize_policy initial"
  let ?s = "fresh_state\<lparr>ds_revision := 1, ds_incarnation := StrongId 1, ds_epoch := FabricEpoch 1, ds_policy := ?p,
      ds_policy_generation := pl_generation ?p, ds_policy_digest := pl_digest ?p\<rparr>"
  let ?h = "upd_stats (\<lambda>t. t\<lparr>gt_policy_installs := gt_policy_installs t + 1\<rparr>)
      (g\<lparr>gv_state := ?s, gv_index := index_rebuild ?p, gv_slots := [], gv_slot_index := Map.empty, gv_dirty := True\<rparr>)"
  have valid: "status_ok (validate_policy ?p)" and per: "persist_state True ?h = (status, g')"
    using assms(1,2) by (auto simp: initialize_def Let_def split: if_splits)
  have "governor_ok ?h"
    using assms(3-5) valid by (simp add: governor_ok_def state_ok_def slots_ok_def fresh_state_def id_valid_def epoch_valid_def)
  then show ?thesis by (rule governor_ok_persist [OF per])
qed

lemma store_open_ok:
  assumes "store_open opts st w = (status, st', w')" and "status_ok status"
  shows "sr_open st' \<and> sr_options st' = opts \<and> unat (so_max_audit_records opts) \<le> 65536"
  using assms unfolding store_open_def
  by (auto simp: Let_def kMaxAuditRecords_def word_less_nat_alt not_less split: if_splits prod.splits)

text \<open>A failing load answers a failing status.\<close>

definition fails :: "status + 'a \<Rightarrow> bool" where
  "fails m \<longleftrightarrow> (\<forall>status. m = Inl status \<longrightarrow> \<not> status_ok status)"

lemma fails_simps [simp]:
  "fails (Inr x)" "fails (Inl status) \<longleftrightarrow> \<not> status_ok status" "\<not> status_ok (corrupt reason detail)"
  "\<not> status_ok (io_error reason detail)"
  by (simp_all add: fails_def corrupt_def io_error_def)

lemma fails_and_then [intro]: "fails m \<Longrightarrow> (\<And>x. fails (f x)) \<Longrightarrow> fails (and_then m f)"
  by (cases m) simp_all

lemma fails_need [intro]: "fails (need r t bs)"
  by (simp add: need_def split: option.splits)

lemma fails_each:
  assumes "\<And>bs. fails (r bs)"
  shows "fails (read_each r n bs)"
proof (induction n arbitrary: bs)
  case (Suc n)
  show ?case unfolding read_each.simps by (intro fails_and_then assms) (auto simp: split_beta intro!: fails_and_then Suc.IH)
qed simp

lemma fails_table: "(\<And>bs. fails (r bs)) \<Longrightarrow> fails (read_table t bound l r bs)"
  unfolding read_table_def by (intro fails_and_then fails_need) (simp add: fails_each split: prod.split)

lemma fails_audit: "fails (deserialize_audit_record bs)"
  by (simp add: deserialize_audit_record_def split: option.splits prod.splits)

lemma fails_entry: "fails (read_audit_entry bs)"
proof -
  have "fails (and_then (need r t bs) (\<lambda>(record, bs). and_then (deserialize_audit_record record) (\<lambda>a. Inr (a, bs))))"
    for r t and bs :: "u8 list"
    by (intro fails_and_then fails_need) (auto intro!: fails_and_then fails_audit split: prod.split)
  then show ?thesis
    unfolding read_audit_entry_def by (intro fails_and_then fails_need) (auto split: prod.split)
qed

lemma fails_state: "fails (deserialize_state bs)"
  unfolding deserialize_state_def split_beta
  by (intro fails_and_then fails_need fails_table fails_entry conjI impI | simp split: if_split)+

lemma fails_decode: "fails (decode_state_file opts bytes)"
  unfolding decode_state_file_def
  by (auto simp: Let_def split: option.splits intro!: fails_and_then fails_state)

lemma fails_read: "read_file_bounded path content bound w = (m, w') \<Longrightarrow> fails m"
  by (auto simp: read_file_bounded_def Let_def split: prod.splits option.splits if_splits)

lemma fails_frames: "fails (for_each frames_of out as)"
  by (induction as arbitrary: out) (auto simp: frames_of_def serialize_audit_bytes)

lemma fails_journal: "load_journal st w = (m, st', w') \<Longrightarrow> fails m"
  using fails_frames [of "[]"] unfolding load_journal_def fails_def
  by (auto simp: Let_def store_not_open_def split: if_splits sum.splits prod.splits dest: fails_read [unfolded fails_def])

lemma fails_load: "store_load st w = (m, st', w') \<Longrightarrow> fails m"
  unfolding store_load_def
  by (auto simp: Let_def store_not_open_def fails_def split: if_splits sum.splits prod.splits
      dest: fails_read [unfolded fails_def] fails_journal [unfolded fails_def] fails_decode [unfolded fails_def, rule_format])

lemma governor_open_ok:
  assumes "governor_open opts initial g = (status, g')" and "status_ok status"
  shows "governor_ok g' \<and> gv_open g' \<and> gv_accepting g'"
proof -
  let ?o = "store_options_of opts"
  obtain s1 st1 w1 where op: "store_open ?o (gv_store g) (gv_world g) = (s1, st1, w1)" by (metis prod_cases3)
  obtain answer st2 w2 where ld: "store_load st1 w1 = (answer, st2, w2)" by (metis prod_cases3)
  let ?g2 = "g\<lparr>gv_options := opts, gv_store := st1, gv_world := w1, gv_store := st2, gv_world := w2\<rparr>"
  have ok1: "status_ok s1" and not_fail: "\<And>s. answer \<noteq> Inl s"
    using assms fails_load [OF ld] unfolding governor_open_def Let_def
    by (auto simp: op ld close_store_def split: if_splits)
  note so = store_open_ok [OF op ok1] and sl = store_load_store [OF ld]
  have base: "sr_open (gv_store ?g2)" "sr_options (gv_store ?g2) = store_options_of (gv_options ?g2)"
      "unat (go_max_audit_records (gv_options ?g2)) \<le> 65536"
    using so sl by (simp_all add: store_options_of_def)
  obtain loaded rep where answer: "answer = Inr (loaded, rep)" using not_fail by (cases answer) auto
  obtain s3 g3 where g3: "(case loaded of None \<Rightarrow> initialize initial ?g2 | Some s \<Rightarrow> restore s ?g2) = (s3, g3)" by (metis prod.exhaust)
  have ok3: "status_ok s3" and g': "g' = g3\<lparr>gv_open := True, gv_accepting := True\<rparr>"
    using assms ok1 unfolding governor_open_def Let_def by (auto simp: op ld answer g3 split: if_splits)
  have "governor_ok g3"
  proof (cases loaded)
    case None
    then show ?thesis using g3 by (intro governor_ok_initialized [OF _ ok3 base]) simp
  next
    case (Some s)
    have "store_load st1 w1 = (Inr (Some s, rep), st2, w2)" using ld answer Some by simp
    note ok = loaded_ok [OF this] and opts = so
    have "restore s ?g2 = (s3, g3)" using g3 Some by simp
    from governor_ok_restored [OF this ok3 base] ok opts show ?thesis by simp
  qed
  then show ?thesis unfolding g' by (simp add: governor_ok_def)
qed

section \<open>Steps\<close>

inductive governor_step :: "((u64 \<times> u64) list \<Rightarrow> (u64 \<times> u64) list) \<Rightarrow> governor \<Rightarrow> governor \<Rightarrow> bool" for iter where
  step_install: "install_policy p t g = (status, g') \<Longrightarrow> governor_step iter g g'"
| step_epoch: "advance_epoch e g = (status, g') \<Longrightarrow> governor_step iter g g'"
| step_tick: "advance_tick delta g = (status, g') \<Longrightarrow> governor_step iter g g'"
| step_save: "governor_save g = (status, g') \<Longrightarrow> governor_step iter g g'"
| step_register: "register_publisher p inc epoch t g = (status, g') \<Longrightarrow> governor_step iter g g'"
| step_adopt: "adopt_incarnation p inc epoch t g = (status, g') \<Longrightarrow> governor_step iter g g'"
| step_fence: "fence_publisher p reason g = (status, g') \<Longrightarrow> governor_step iter g g'"
| step_capacity: "ingest_capacity c g = (answer, g') \<Longrightarrow> governor_step iter g g'"
| step_reservations: "ingest_reservations r g = (answer, g') \<Longrightarrow> governor_step iter g g'"
| step_admissions: "ingest_admissions a g = (answer, g') \<Longrightarrow> governor_step iter g g'"
| step_evaluate: "evaluate_locked iter wall rq cancel g = (decided, g') \<Longrightarrow> governor_step iter g g'"
| step_revalidate: "revalidate x g = (checked, g') \<Longrightarrow> governor_step iter g g'"


lemma governor_ok_step: "governor_step iter g g' \<Longrightarrow> governor_ok g \<Longrightarrow> governor_ok g'"
  by (erule governor_step.cases)
     (blast intro: governor_ok_install governor_ok_epoch governor_ok_tick governor_ok_save governor_ok_register governor_ok_adopt
        governor_ok_fence governor_ok_ingest governor_ok_evaluate_locked governor_ok_revalidate)+

lemma governor_ok_steps: "(governor_step iter)\<^sup>*\<^sup>* g g' \<Longrightarrow> governor_ok g \<Longrightarrow> governor_ok g'"
  by (induction rule: rtranclp_induct) (auto intro: governor_ok_step)

end
