(* ===== verification/Governor_Epochs.thy ===== *)
theory Governor_Epochs
  imports Governor_Authority Governor_Open
begin

text \<open>
  Epochs, incarnations and fences over sequences of operations: authority that was revoked never comes back.
\<close>

section \<open>The stamp of a governor\<close>

text \<open>What a decision is stamped with; only an epoch advance and a restart change it.\<close>

definition stamp_of :: "governor \<Rightarrow> fabric_epoch \<times> incarnation_id" where
  "stamp_of g = (ds_epoch (gv_state g), ds_incarnation (gv_state g))"

lemma stamp_upd [simp]:
  "stamp_of (upd_stats f h) = stamp_of h" "stamp_of (h\<lparr>gv_dirty := b\<rparr>) = stamp_of h" "stamp_of (h\<lparr>gv_clock := t\<rparr>) = stamp_of h"
  "stamp_of (observe_tick u h) = stamp_of h" "stamp_of (upd_slot i k h) = stamp_of h"
  "stamp_of (update_registration p q h) = stamp_of h" "stamp_of (h\<lparr>gv_index := x\<rparr>) = stamp_of h"
  "stamp_of (drop_evidence_content h) = stamp_of h" "stamp_of (require_revalidation p h) = stamp_of h"
  "stamp_of (sync_evidence_state h) = stamp_of h" "stamp_of (ticked rq h) = stamp_of h"
  "stamp_of (upd_state (\<lambda>s. s\<lparr>ds_publishers := v s\<rparr>) h) = stamp_of h" "stamp_of (upd_state (\<lambda>s. s\<lparr>ds_tick := w s\<rparr>) h) = stamp_of h"
  "stamp_of (upd_state (\<lambda>s. s\<lparr>ds_policy := y s, ds_policy_generation := n s, ds_policy_digest := z s\<rparr>) h) = stamp_of h"
  by (simp_all add: stamp_of_def observe_tick_def update_registration_def drop_evidence_content_def require_revalidation_def
      sync_evidence_state_def)

lemma stamp_persist: "persist_state force h = (status, g') \<Longrightarrow> stamp_of g' = stamp_of h"
  using identity_ofD [OF persist_state_frame(2)] by (simp add: stamp_of_def)

lemma stamp_operations:
  "register_publisher p inc epoch t g = (status, g') \<Longrightarrow> stamp_of g' = stamp_of g"
  "adopt_incarnation p inc epoch t g = (status, g') \<Longrightarrow> stamp_of g' = stamp_of g"
  "fence_publisher p reason g = (status, g') \<Longrightarrow> stamp_of g' = stamp_of g"
  "advance_tick delta g = (status, g') \<Longrightarrow> stamp_of g' = stamp_of g"
  "governor_save g = (status, g') \<Longrightarrow> stamp_of g' = stamp_of g"
  "install_policy q t g = (status, g') \<Longrightarrow> stamp_of g' = stamp_of g"
  "revalidate x g = (checked, g') \<Longrightarrow> stamp_of g' = stamp_of g"
  by (auto simp: register_publisher_def adopt_incarnation_def fence_publisher_def advance_tick_def governor_save_def
      install_policy_def revalidate_def Let_def dest!: stamp_persist split: if_splits option.splits prod.splits sum.splits)

lemma stamp_ensure: "ensure_slot d kind h = (i, h') \<Longrightarrow> stamp_of h' = stamp_of h"
  by (auto simp: ensure_slot_def stamp_of_def split: option.splits)

lemma stamp_ingest: "ingest kind d claimed epoch observed pv payload g = (status, generation, duplicate, g') \<Longrightarrow> stamp_of g' = stamp_of g"
  unfolding ingest_def ingest_slot_def
  by (auto simp: Let_def accept_evidence_def dest!: stamp_ensure split: if_splits option.splits prod.splits)

lemma stamp_rollback: "stamp_of (restore_rollback rb d kind h) = stamp_of h"
  by (auto simp: restore_rollback_def Let_def dest!: stamp_ensure split: option.splits prod.splits)

lemma stamp_publish: "publish kind d claimed epoch observed pv valid fill unfill g = (answer, g') \<Longrightarrow> stamp_of g' = stamp_of g"
  unfolding publish_def rejected_def
  by (auto simp: Let_def stamp_rollback dest!: stamp_persist stamp_ingest stamp_ensure split: if_splits prod.splits)

lemma stamp_ingestions:
  "ingest_capacity c g = (answer, g') \<Longrightarrow> stamp_of g' = stamp_of g" "ingest_reservations r g = (answer, g') \<Longrightarrow> stamp_of g' = stamp_of g"
  "ingest_admissions a g = (answer, g') \<Longrightarrow> stamp_of g' = stamp_of g"
  unfolding ingest_capacity_def ingest_reservations_def ingest_admissions_def Let_def by (blast intro: stamp_publish)+

lemma stamp_evaluate: "evaluate_locked iter wall rq cancel g = (answer, g') \<Longrightarrow> stamp_of g' = stamp_of g"
  using evaluate_locked_frame by (simp add: stamp_of_def)

lemma stamp_epoch:
  assumes "advance_epoch e g = (status, g')"
  shows "epoch_value (fst (stamp_of g)) \<le> epoch_value (fst (stamp_of g')) \<and> snd (stamp_of g') = snd (stamp_of g)
    \<and> (status_ok status \<longrightarrow> fst (stamp_of g') = e \<and> epoch_value (fst (stamp_of g)) < epoch_value e)"
  using assms
  by (auto simp: advance_epoch_def Let_def not_open_def stamp_of_def drop_evidence_content_def split: if_splits
      dest!: stamp_persist)

lemma stamp_step:
  assumes "governor_step iter g g'"
  shows "epoch_value (fst (stamp_of g)) \<le> epoch_value (fst (stamp_of g')) \<and> snd (stamp_of g') = snd (stamp_of g)"
  using assms
proof (cases rule: governor_step.cases)
  case (step_epoch e status)
  from stamp_epoch [OF this] show ?thesis by simp
qed (auto dest: stamp_operations stamp_ingestions stamp_evaluate)

lemma stamp_steps:
  "(governor_step iter)\<^sup>*\<^sup>* g g' \<Longrightarrow> epoch_value (fst (stamp_of g)) \<le> epoch_value (fst (stamp_of g')) \<and> snd (stamp_of g') = snd (stamp_of g)"
  by (induction rule: rtranclp_induct) (auto dest!: stamp_step intro: order_trans)

section \<open>A successful save\<close>

definition saved_form :: "governor \<Rightarrow> durable_state" where
  "saved_form g = (gv_state g)\<lparr>ds_evidence := map gs_state (gv_slots g), ds_tick := gv_clock g, ds_revision := ds_revision (gv_state g) + 1\<rparr>"

lemma save_state_succeeds:
  assumes "sr_open (gv_store g)" and "wd_outcomes (gv_world g) = []" and "list_all (\<lambda>a. length (au_summary a) \<le> 256) (ds_audit (gv_state g))"
    and "length (state_bytes (saved_form g)) \<le> unat (so_max_state_bytes (sr_options (gv_store g)))"
  shows "\<exists>g'. save_state g = (status_success, g') \<and> gv_state g' = saved_form g
    \<and> gv_world g' = (gv_world g)\<lparr>wd_state := Some (make_state_file (state_bytes (saved_form g)))\<rparr>"
proof -
  have form: "(\<lambda>s. s\<lparr>ds_tick := gv_clock h, ds_revision := ds_revision s + 1\<rparr>) (gv_state h) = saved_form g"
    if "h = sync_evidence_state g" for h
    using that by (simp add: saved_form_def sync_evidence_state_def)
  have "serialize_state (saved_form g) = Inr (state_bytes (saved_form g))"
    using assms(3) by (simp add: serialize_state_bytes saved_form_def list_all_iff)
  then have "store_save (saved_form g) (gv_store g) (gv_world g)
      = (status_success, (gv_world g)\<lparr>wd_state := Some (make_state_file (state_bytes (saved_form g)))\<rparr>)"
    using assms by (simp add: store_save_def write_file_atomic_def io_next_def Let_def)
  then show ?thesis
    using form [OF refl] by (simp add: save_state_def Let_def sync_evidence_state_def)
qed

lemma sample_advances:
  "\<exists>g'. advance_epoch (FabricEpoch 2) sample_governor = (status_success, g')"
proof -
  define h where "h = (upd_state (\<lambda>s. s\<lparr>ds_publishers := map (\<lambda>r. r\<lparr>pr_fenced := True, pr_fence_reason := Reason_EpochNotAdvanced\<rparr>) (ds_publishers s),
       ds_domains := map (\<lambda>d. d\<lparr>rt_fenced := True, rt_fence_reason := Reason_EpochMismatch, rt_fence_epoch := FabricEpoch 2,
         rt_sticky := Outcome_Stale\<rparr>) (ds_domains s)\<rparr>)
       (drop_evidence_content (upd_stats (\<lambda>t. t\<lparr>gt_epoch_advances := gt_epoch_advances t + 1\<rparr>) (upd_state (\<lambda>s. s\<lparr>ds_epoch := FabricEpoch 2\<rparr>) sample_governor))))
       \<lparr>gv_dirty := True\<rparr>"
  have adv: "advance_epoch (FabricEpoch 2) sample_governor = persist_state True h"
    by (simp add: advance_epoch_def Let_def epoch_valid_def h_def sample_state_def word_le_nat_alt)
  have "sr_open (gv_store h)" "gv_open h" "wd_outcomes (gv_world h) = []" "list_all (\<lambda>a. length (au_summary a) \<le> 256) (ds_audit (gv_state h))"
    "gv_store h = sample_store"
    by (simp_all add: h_def drop_evidence_content_def sample_world_def sample_audit_def)
  moreover have "length (state_bytes (saved_form h)) \<le> 33554432"
    by (simp add: saved_form_def h_def drop_evidence_content_def drop_content_def sample_slot_def sample_state_def sample_defs
        sample_runtime_def sample_audit_def fresh_runtime_def state_bytes_defs)
  ultimately show ?thesis using save_state_succeeds [of h] unfolding adv by (auto simp: persist_state_def)
qed

section \<open>Properties\<close>

lemma revalidate_valid:
  assumes "revalidate x g = (Inr report, g')" and "vr_valid report"
  shows "de_incarnation x = ds_incarnation (gv_state g) \<and> epoch_value (de_epoch x) = epoch_value (ds_epoch (gv_state g))"
  using assms
  by (auto simp: revalidate_def check_decision_def Let_def split: if_splits sum.splits)

text \<open>
  C9. Revocation is final: a decision of an earlier epoch, or of an incarnation of the runtime before a
  restart, is never reported valid again, whatever operations follow.
\<close>

theorem revoked_never_valid:
  assumes "(governor_step iter)\<^sup>*\<^sup>* g g1" and "revalidate x g1 = (Inr report, g2)"
    and "epoch_value (de_epoch x) < epoch_value (ds_epoch (gv_state g)) \<or> de_incarnation x \<noteq> ds_incarnation (gv_state g)"
  shows "\<not> vr_valid report"
proof
  assume "vr_valid report"
  note bound = revalidate_valid [OF assms(2) this] and stamp = stamp_steps [OF assms(1)]
  show False using assms(3)
  proof
    assume "epoch_value (de_epoch x) < epoch_value (ds_epoch (gv_state g))"
    with bound stamp show False by (auto simp: stamp_of_def dest: leD)
  next
    assume "de_incarnation x \<noteq> ds_incarnation (gv_state g)"
    with bound stamp show False by (simp add: stamp_of_def)
  qed
qed

lemma revalidate_answers:
  assumes "gv_open g"
  shows "\<exists>report g'. revalidate x g = (Inr report, g')"
proof (cases "check_decision x (upd_stats (\<lambda>c. c\<lparr>gt_revalidations := gt_revalidations c + 1\<rparr>) g)")
  case (Inl f)
  then show ?thesis using assms by (cases f) (auto simp: revalidate_def Let_def)
qed (use assms in \<open>auto simp: revalidate_def Let_def\<close>)

theorem revoked_never_valid_witness:
  "\<exists>report g2. revalidate no_decision sample_governor = (Inr report, g2) \<and> \<not> vr_valid report"
proof -
  obtain report g2 where r: "revalidate no_decision sample_governor = (Inr report, g2)"
    using revalidate_answers [of sample_governor no_decision] by auto
  have "epoch_value (de_epoch no_decision) < epoch_value (ds_epoch (gv_state sample_governor))"
    by (simp add: no_decision_def sample_state_def)
  with revoked_never_valid [OF rtranclp.rtrancl_refl r] r show ?thesis by blast
qed

text \<open>What an accepted epoch advance leaves behind.\<close>

lemma advanced:
  assumes "advance_epoch e g = (status, g')" and "status_ok status"
  shows "gv_slots g' = map drop_content (gv_slots g)" "gv_slot_index g' = gv_slot_index g"
    "\<forall>r \<in> set (ds_publishers (gv_state g')). pr_fenced r"
    "\<forall>d \<in> set (ds_domains (gv_state g')). rt_fenced d \<and> rt_sticky d = Outcome_Stale"
    "epoch_value (ds_epoch (gv_state g)) < epoch_value (ds_epoch (gv_state g'))"
proof -
  let ?h = "(upd_state (\<lambda>s. s\<lparr>ds_publishers := map (\<lambda>r. r\<lparr>pr_fenced := True, pr_fence_reason := Reason_EpochNotAdvanced\<rparr>) (ds_publishers s),
       ds_domains := map (\<lambda>d. d\<lparr>rt_fenced := True, rt_fence_reason := Reason_EpochMismatch, rt_fence_epoch := e,
         rt_sticky := Outcome_Stale\<rparr>) (ds_domains s)\<rparr>)
       (drop_evidence_content (upd_stats (\<lambda>t. t\<lparr>gt_epoch_advances := gt_epoch_advances t + 1\<rparr>) (upd_state (\<lambda>s. s\<lparr>ds_epoch := e\<rparr>) g))))
       \<lparr>gv_dirty := True\<rparr>"
  have per: "persist_state True ?h = (status, g')" and new: "epoch_value (ds_epoch (gv_state g)) < epoch_value e"
    using assms by (auto simp: advance_epoch_def not_open_def Let_def split: if_splits)
  note c = core_ofD [OF persist_state_frame(1) [OF per]] and i = identity_ofD [OF persist_state_frame(2) [OF per]]
  show "gv_slots g' = map drop_content (gv_slots g)" "gv_slot_index g' = gv_slot_index g"
    "epoch_value (ds_epoch (gv_state g)) < epoch_value (ds_epoch (gv_state g'))"
    using c i new by (simp_all add: drop_evidence_content_def)
  show "\<forall>r \<in> set (ds_publishers (gv_state g')). pr_fenced r"
    "\<forall>d \<in> set (ds_domains (gv_state g')). rt_fenced d \<and> rt_sticky d = Outcome_Stale"
    using i by (auto simp: drop_evidence_content_def)
qed

lemma no_evidence_unknown:
  assumes "ev_capacity (current_evidence i g) = None"
  shows "er_outcome (current_result iter i t g) = Outcome_Unknown"
proof (cases "index_domain (gv_index g) i")
  case None
  then show ?thesis by (simp add: current_result_def Let_def uncovered_result_def)
next
  case (Some d)
  then show ?thesis
    using assms by (simp add: current_result_def Let_def evaluate_domain_def check_binding_def)
qed

lemma result_grant: "grant_consistent (current_result iter i t g)"
proof (cases "index_domain (gv_index g) i")
  case None
  then show ?thesis
    by (simp add: current_result_def Let_def uncovered_result_def result_zero_def grant_consistent_def fence_outcome_def
        outcome_is_authoritative_def)
next
  case (Some d)
  then show ?thesis by (simp add: current_result_def Let_def evaluation_grant)
qed

lemma unknown_not_authorised:
  assumes "evaluate iter wall rq g = (Inr x, g')" and "er_outcome (current_result iter (rq_domain rq) (evaluation_tick rq g) g) = Outcome_Unknown"
  shows "\<not> de_authorized x"
proof -
  from answered_decision [OF assms(1)] obtain r where
    r: "r = current_result iter (rq_domain rq) (evaluation_tick rq g) g" "de_authorized x \<longleftrightarrow> de_effective x = Outcome_WithinPolicy \<and> er_authorized r"
    by metis
  then show ?thesis
    using result_grant [of iter "rq_domain rq" "evaluation_tick rq g" g] assms(2) by (simp add: grant_consistent_def)
qed

lemma fenced_publisher_refused:
  assumes "\<forall>r \<in> set (ds_publishers (gv_state g)). pr_fenced r"
  shows "\<not> status_ok (in_status (fst (publish kind d claimed epoch observed pv valid fill unfill g)))"
proof -
  obtain status generation duplicate g1 where ing: "ingest kind d claimed epoch observed pv (pv_payload_digest pv) g = (status, generation, duplicate, g1)"
    by (metis prod_cases4)
  have "pr_fenced r" if "find_registration (pv_publisher pv) g = Some r" for r
    using that assms by (auto simp: find_registration_def find_Some_iff)
  then have "\<not> status_ok status"
    using ing by (auto simp: ingest_def not_open_def shutting_down_def split: if_splits option.splits)
  then show ?thesis by (simp add: publish_def ing rejected_def)
qed



end
