(* ===== verification/Governor_Durable.thy ===== *)
theory Governor_Durable
  imports Decision_Facts Evaluation_Contract
begin

text \<open>
  The durability of decisions: what an evaluation records is storable, the operations leave the journal in a
  state that a load reads back, and a decision is answered only behind its record.
\<close>

section \<open>Every result can be recorded\<close>

definition recordable :: "evaluation_result \<Rightarrow> bool" where
  "recordable r \<longleftrightarrow> wf_outcome (er_outcome r) \<and> wf_constraint (da_binding (er_accounting r))
     \<and> digest_ok (av_input_digest (er_authority r))"

lemma recordable_acc: "(\<And>a. da_binding (f a) = da_binding a) \<Longrightarrow> recordable (upd_acc f r) = recordable r"
  by (simp add: recordable_def)

interpretation recorded: evaluation_contract p recordable recordable for p
  by unfold_locales (simp_all add: recordable_acc, simp_all add: recordable_def break_down_def Let_def)

lemma input_digest_ok: "digest_ok (input_digest p d ex tick cap res adm)"
  unfolding input_digest_def Let_def by (rule digest_ok_canonical) simp

lemma result_recordable: "recordable (evaluate_domain iter p ix d ex ev tick)"
  by (rule recorded.evaluation)
     (simp_all add: recordable_def initial_result_def result_zero_def bind_authority_def authority_unset_def accounting_zero_def
       input_digest_ok [unfolded digest_ok_def] digest_ok_def digest_zero_def wf_constraint_def)

lemma current_result_recordable: "recordable (current_result iter i t g)"
proof (cases "index_domain (gv_index g) i")
  case None
  then show ?thesis
    by (simp add: current_result_def Let_def uncovered_result_def recordable_def result_zero_def accounting_zero_def
        authority_unset_def digest_ok_def digest_zero_def wf_constraint_def)
next
  case (Some d)
  then show ?thesis by (simp add: current_result_def Let_def result_recordable)
qed

lemma decision_digest_ok: "digest_ok (decision_digest x)"
  unfolding decision_digest_def by (rule digest_ok_canonical) simp

lemma hysteresis_wf:
  assumes "hysteresis h t raw used d = (d', effective)" and "wf_outcome raw" and "wf_outcome (rt_sticky d)"
  shows "wf_outcome effective \<and> wf_outcome (rt_sticky d') \<and> rt_last_digest d' = rt_last_digest d"
  using assms by (auto simp: hysteresis_def relax_def Let_def split: if_splits)

lemma working_runtime_storable:
  assumes "list_all runtime_storable (ds_domains (gv_state g))" and "wf_outcome out"
  shows "wf_outcome (rt_sticky (working_runtime (find_runtime i g) i n out))"
  using assms
  by (auto simp: working_runtime_def find_runtime_def fresh_runtime_def list_all_iff runtime_storable_def find_Some_iff
      split: option.splits dest: nth_mem)

lemma prepared_storable:
  assumes "prepare_decision iter wall i t g = (d, x, a)" and "list_all runtime_storable (ds_domains (gv_state g))"
  shows "audit_storable a \<and> runtime_storable (decided_runtime e x d) \<and> au_decision a = de_id x \<and> au_decision_digest a = de_digest x
    \<and> au_domain a = i \<and> au_effective a = de_effective x \<and> au_authorized a = de_authorized x \<and> au_increment a = de_increment x
    \<and> au_fenced a = de_fenced x"
proof -
  from prepare_decision_facts [OF assms(1)] obtain r w effective where
    r: "r = current_result iter i t g" and
    h: "hysteresis (pl_hysteresis (ds_policy (gv_state g))) t (er_outcome r) (da_used_ppm (er_accounting r))
       (working_runtime (find_runtime i g) i (ex_domain_generation (current_expectation i g)) (er_outcome r)) = (w, effective)" and
    d: "d = w\<lparr>rt_last_raw := er_outcome r, rt_generation := ex_domain_generation (current_expectation i g)\<rparr>" and
    x: "x = make_decision g r effective d t" and
    a: "a = make_audit g wall i (ex_domain_generation (current_expectation i g)) x d" by metis
  have rec: "recordable r" unfolding r by (rule current_result_recordable)
  then have wf: "wf_outcome (er_outcome r)" by (simp add: recordable_def)
  note s = hysteresis_wf [OF h wf working_runtime_storable [OF assms(2) wf]]
  have digest: "digest_ok (de_digest x)" unfolding x by (simp add: make_decision_def Let_def decision_digest_ok)
  have "length (decision_summary r) \<le> 256" by (simp add: decision_summary_def)
  then have "audit_storable a" using rec s digest unfolding a x by (simp add: audit_storable_def recordable_def)
  moreover have "runtime_storable (decided_runtime e x d)"
    using s wf digest by (simp add: runtime_storable_def decided_runtime_def d)
  ultimately show ?thesis by (simp add: a)
qed


section \<open>The journal under compaction and retry\<close>

lemma compact_frames_prefix:
  assumes "list_all audit_storable as" and "length out \<le> unat bound"
  shows "\<exists>n. compact_frames bound out k as = Inr (out @ journal_bytes_of (take n as), k + word_of_nat (length (take n as)))
    \<and> length (out @ journal_bytes_of (take n as)) \<le> unat bound"
  using assms
proof (induction as arbitrary: out k)
  case Nil
  then show ?case by simp
next
  case (Cons a as)
  have payload: "serialize_audit_record a = Inr (audit_bytes a)"
    using Cons.prems(1) by (simp add: serialize_audit_bytes audit_storable_def)
  show ?case
  proof (cases "length out + length (frame_of a) > unat bound")
    case True
    then show ?thesis using Cons.prems(2) by (intro exI [of _ 0]) (simp add: payload frame_of_def Let_def)
  next
    case False
    with Cons.IH [of "out @ frame_of a" "k + 1"] Cons.prems obtain n where
      "compact_frames bound (out @ frame_of a) (k + 1) as
         = Inr ((out @ frame_of a) @ journal_bytes_of (take n as), k + 1 + word_of_nat (length (take n as)))"
      "length ((out @ frame_of a) @ journal_bytes_of (take n as)) \<le> unat bound" by auto
    with False show ?thesis
      by (intro exI [of _ "Suc n"]) (simp add: payload frame_of_def Let_def ac_simps)
  qed
qed

lemma storable_fits: "options_sane opts \<Longrightarrow> audit_storable a \<Longrightarrow> frame_fits opts a"
  using audit_bytes_length [of a] by (simp add: frame_fits_def options_sane_def)

text \<open>
  What holds of the journal whatever fails, as long as no write is torn: it holds the frames of records, and
  the counters of the store agree with it.
\<close>

definition no_torn_writes :: "world \<Rightarrow> bool" where
  "no_torn_writes w \<longleftrightarrow> (\<forall>n. Io_partial n \<notin> set (wd_outcomes w))"

lemma compact_journal_holds:
  assumes "options_sane (sr_options st)" and "journal_holds st w as" and "list_all audit_storable records"
    and "compact_journal records keep st w = (status, st', w')"
  shows "(\<exists>as'. journal_holds st' w' as') \<and> set (wd_outcomes w') \<subseteq> set (wd_outcomes w) \<and> sr_options st' = sr_options st
    \<and> wd_state w' = wd_state w"
proof -
  let ?o = "sr_options st" and ?kept = "drop (length records - unat (min keep (so_max_journal_records (sr_options st)))) records"
  have begin_at: "(if length records > unat (min keep (so_max_journal_records ?o)) then length records - unat (min keep (so_max_journal_records ?o)) else 0)
      = length records - unat (min keep (so_max_journal_records ?o))" by simp
  have storable: "list_all audit_storable ?kept" using assms(3) by (auto simp: list_all_iff dest: in_set_dropD)
  obtain n where n: "compact_frames (so_max_journal_bytes ?o) [] 0 ?kept
        = Inr (journal_bytes_of (take n ?kept), word_of_nat (length (take n ?kept)))"
      "length (journal_bytes_of (take n ?kept)) \<le> unat (so_max_journal_bytes ?o)"
    using compact_frames_prefix [OF storable, of "[]" "so_max_journal_bytes ?o" 0] by auto
  have "unat (min keep (so_max_journal_records ?o)) \<le> unat (so_max_journal_records ?o)"
    by (simp add: min_def word_le_nat_alt)
  then have "length (take n ?kept) \<le> unat (so_max_journal_records ?o)" by auto
  moreover have "list_all (frame_fits ?o) (take n ?kept)"
    using storable storable_fits [OF assms(1)] by (auto simp: list_all_iff dest: in_set_takeD)
  ultimately have holds: "journal_holds (st\<lparr>sr_journal_bytes := word_of_nat (length (journal_bytes_of (take n ?kept))),
        sr_journal_records := word_of_nat (length (take n ?kept))\<rparr>) (w2\<lparr>wd_journal := Some (journal_bytes_of (take n ?kept))\<rparr>) (take n ?kept)" for w2
    using assms(2) n(2) by (simp add: journal_holds_def journal_file_def)
  obtain s1 content w1 where wr: "write_file_atomic (journal_path st) (journal_bytes_of (take n ?kept)) w = (s1, content, w1)"
    by (metis prod_cases3)
  have keeps: "wd_journal w1 = wd_journal w" "wd_state w1 = wd_state w" "set (wd_outcomes w1) \<subseteq> set (wd_outcomes w)"
    using wr by (auto simp: write_file_atomic_def io_next_def Let_def split: list.splits if_splits)
  then have stays: "journal_holds st w1 as" using assms(2) by (simp add: journal_holds_def journal_file_def)
  have eq: "(status, st', w') = (if \<not> status_ok s1 then (s1, st, w1) else (status_success,
      st\<lparr>sr_journal_bytes := word_of_nat (length (journal_bytes_of (take n ?kept))),
         sr_journal_records := word_of_nat (length (take n ?kept))\<rparr>, w1\<lparr>wd_journal := Some (journal_bytes_of (take n ?kept))\<rparr>))"
    using assms(2) unfolding assms(4) [symmetric] compact_journal_def begin_at Let_def n(1) journal_holds_def
    by (simp add: wr)
  show ?thesis
  proof (cases "status_ok s1")
    case True
    with eq holds keeps show ?thesis by auto
  next
    case False
    with eq stays keeps show ?thesis by auto
  qed
qed

definition durable_ok :: "governor \<Rightarrow> bool" where
  "durable_ok g \<longleftrightarrow> list_all runtime_storable (ds_domains (gv_state g)) \<and> list_all audit_storable (ds_audit (gv_state g))
     \<and> options_sane (sr_options (gv_store g)) \<and> no_torn_writes (gv_world g) \<and> (\<exists>as. journal_holds (gv_store g) (gv_world g) as)"

lemma list_all_drop: "list_all P xs \<Longrightarrow> list_all P (drop n xs)"
  by (auto simp: list_all_iff dest: in_set_dropD)

lemma durable_ok_upd:
  assumes "durable_ok g" and "ds_domains (h (gv_state g)) = ds_domains (gv_state g)" and "list_all audit_storable (ds_audit (h (gv_state g)))"
  shows "durable_ok (upd_stats f (upd_state h g))"
  using assms by (simp add: durable_ok_def)

lemma append_once_durable:
  assumes "append_once a g = (status, g')" and "durable_ok g" and "audit_storable a"
  shows "durable_ok g' \<and> (status_ok status \<longrightarrow> (\<exists>as. journal_holds (gv_store g') (gv_world g') (as @ [a])))"
proof -
  obtain s st w where app: "append_audit a (gv_store g) (gv_world g) = (s, st, w)" by (metis prod_cases3)
  obtain as where as: "journal_holds (gv_store g) (gv_world g) as" using assms(2) by (auto simp: durable_ok_def)
  have g': "status = s" "g' = g\<lparr>gv_store := st, gv_world := w\<rparr>" using assms(1) app by (simp_all add: append_once_def)
  have "journal_holds st w (if status_ok s then as @ [a] else as) \<and> sr_options st = sr_options (gv_store g)
      \<and> wd_state w = wd_state (gv_world g) \<and> set (wd_outcomes w) \<subseteq> set (wd_outcomes (gv_world g))"
    using append_audit_holds [OF _ as assms(3) app] assms(2) by (simp add: durable_ok_def no_torn_writes_def)
  then show ?thesis using assms(2) unfolding g' by (auto simp: durable_ok_def no_torn_writes_def split: if_splits)
qed

lemma compact_durable:
  assumes "compact_journal_locked g = (status, g')" and "durable_ok g"
  shows "durable_ok g'"
proof -
  let ?keep = "min (go_compaction_records (gv_options g)) (go_max_journal_records (gv_options g))"
  obtain s st w where c: "compact_journal (ds_audit (gv_state g)) ?keep (gv_store g) (gv_world g) = (s, st, w)" by (metis prod_cases3)
  obtain as where as: "journal_holds (gv_store g) (gv_world g) as" using assms(2) by (auto simp: durable_ok_def)
  have h: "(\<exists>as'. journal_holds st w as') \<and> set (wd_outcomes w) \<subseteq> set (wd_outcomes (gv_world g)) \<and> sr_options st = sr_options (gv_store g)"
    using compact_journal_holds [OF _ as _ c] assms(2) by (simp add: durable_ok_def)
  have "gv_store g' = st" "gv_world g' = w" using assms(1) unfolding compact_journal_locked_def Let_def c by (auto split: if_splits)
  moreover have "\<exists>n. ds_audit (gv_state g') = drop n (ds_audit (gv_state g))" "ds_domains (gv_state g') = ds_domains (gv_state g)"
    using compact_frame(5) [OF assms(1)] identity_ofD [OF compact_frame(2) [OF assms(1)]] by simp_all
  ultimately show ?thesis
    using h assms(2) by (auto simp: durable_ok_def no_torn_writes_def list_all_drop)
qed

lemma append_journal_durable:
  assumes "append_journal a g = (status, g')" and "durable_ok g" and "audit_storable a"
  shows "durable_ok g' \<and> (status_ok status \<longrightarrow> (\<exists>as. journal_holds (gv_store g') (gv_world g') (as @ [a])))"
proof -
  obtain s1 g1 where one: "append_once a g = (s1, g1)" by fastforce
  obtain s2 g2 where two: "compact_journal_locked g1 = (s2, g2)" by fastforce
  obtain s3 g3 where three: "append_once a g2 = (s3, g3)" by fastforce
  note d1 = append_once_durable [OF one assms(2,3)]
  note d2 = compact_durable [OF two d1 [THEN conjunct1]]
  note d3 = append_once_durable [OF three d2 assms(3)]
  obtain s4 g4 where retry: "append_retry a g = (s4, g4)" by fastforce
  have cases: "(s4, g4) = (s1, g1) \<or> (s4, g4) = (s2, g2) \<and> \<not> status_ok s2 \<or> (s4, g4) = (s3, g3)"
    using retry one two three by (auto simp: append_retry_def split: if_splits)
  then have d4: "durable_ok g4 \<and> (status_ok s4 \<longrightarrow> (\<exists>as. journal_holds (gv_store g4) (gv_world g4) (as @ [a])))"
    using d1 d2 d3 by auto
  have "list_all audit_storable (drop n (ds_audit (gv_state g4) @ [a]))" for n
    using d4 assms(3) by (intro list_all_drop) (simp add: durable_ok_def)
  then have full: "durable_ok (upd_stats f (upd_state (\<lambda>s. s\<lparr>ds_audit := drop (k s) (ds_audit s @ [a])\<rparr>) g4))" for f k
    using d4 by (intro durable_ok_upd) simp_all
  define g5 where "g5 = upd_stats (\<lambda>t. t\<lparr>gt_journal_appends := gt_journal_appends t + 1\<rparr>)
    (upd_state (\<lambda>s. s\<lparr>ds_audit := drop (length (ds_audit s @ [a]) - unat (go_max_audit_records (gv_options g4))) (ds_audit s @ [a])\<rparr>) g4)"
  have "(status, g') = (if \<not> status_ok s4 then (s4, g4) else (status_success, g5))"
    unfolding assms(1) [symmetric] append_journal_retry retry g5_def by (simp only: Let_def prod.case)
  moreover have "durable_ok g5" unfolding g5_def by (rule full)
  moreover have "gv_store g5 = gv_store g4" "gv_world g5 = gv_world g4" by (simp_all add: g5_def)
  ultimately show ?thesis using d4 by (auto split: if_splits)
qed

section \<open>Every operation keeps the journal\<close>

text \<open>What the operations that record no decision do to the durable side.\<close>

definition quiet :: "governor \<Rightarrow> governor \<Rightarrow> bool" where
  "quiet g g' \<longleftrightarrow> gv_store g' = gv_store g \<and> wd_journal (gv_world g') = wd_journal (gv_world g)
     \<and> set (wd_outcomes (gv_world g')) \<subseteq> set (wd_outcomes (gv_world g)) \<and> ds_audit (gv_state g') = ds_audit (gv_state g)
     \<and> (list_all runtime_storable (ds_domains (gv_state g)) \<longrightarrow> list_all runtime_storable (ds_domains (gv_state g')))"

lemma quiet_refl [simp]: "quiet g g"
  by (simp add: quiet_def)

lemma quiet_upd [simp]:
  "quiet g (upd_stats f h) = quiet g h" "quiet g (h\<lparr>gv_dirty := b\<rparr>) = quiet g h" "quiet g (h\<lparr>gv_clock := t\<rparr>) = quiet g h"
  "quiet g (observe_tick u h) = quiet g h" "quiet g (upd_slot i k h) = quiet g h" "quiet g (update_registration p q h) = quiet g h"
  "quiet g (h\<lparr>gv_index := x\<rparr>) = quiet g h" "quiet g (drop_evidence_content h) = quiet g h"
  "quiet g (require_revalidation p h) = quiet g h" "quiet g (sync_evidence_state h) = quiet g h"
  "quiet g (ticked rq h) = quiet g h"
  "quiet g (upd_state (\<lambda>s. s\<lparr>ds_publishers := v s\<rparr>) h) = quiet g h" "quiet g (upd_state (\<lambda>s. s\<lparr>ds_tick := w s\<rparr>) h) = quiet g h"
  by (simp_all add: quiet_def observe_tick_def update_registration_def drop_evidence_content_def require_revalidation_def
      sync_evidence_state_def)

lemma save_state_outcomes:
  assumes "save_state g = (status, g')"
  shows "set (wd_outcomes (gv_world g')) \<subseteq> set (wd_outcomes (gv_world g))"
  using assms
  by (auto simp: save_state_def sync_evidence_state_def store_save_def write_file_atomic_def io_next_def Let_def
      split: prod.splits if_splits sum.splits list.splits option.splits)

lemma quiet_persist:
  assumes "persist_state force h = (status, g')" and "quiet g h"
  shows "quiet g g'"
proof -
  have "set (wd_outcomes (gv_world g')) \<subseteq> set (wd_outcomes (gv_world h))"
    using assms(1) save_state_outcomes [of h status g'] by (auto simp: persist_state_def split: if_splits)
  then show ?thesis
    using persist_state_frame [OF assms(1)] identity_ofD(8) [OF persist_state_frame(2) [OF assms(1)]] assms(2)
    by (auto simp: quiet_def)
qed

lemma quiet_operations:
  "register_publisher p inc epoch t g = (status, g') \<Longrightarrow> quiet g g'"
  "adopt_incarnation p inc epoch t g = (status, g') \<Longrightarrow> quiet g g'"
  "fence_publisher p reason g = (status, g') \<Longrightarrow> quiet g g'"
  "advance_tick delta g = (status, g') \<Longrightarrow> quiet g g'"
  "governor_save g = (status, g') \<Longrightarrow> quiet g g'"
  by (auto simp: register_publisher_def adopt_incarnation_def fence_publisher_def advance_tick_def governor_save_def Let_def
      elim!: quiet_persist split: if_splits option.splits prod.splits)

lemma quiet_install: "install_policy p t g = (status, g') \<Longrightarrow> quiet g g'"
  by (auto simp: install_policy_def Let_def elim!: quiet_persist split: if_splits)
     (simp_all add: quiet_def drop_evidence_content_def observe_tick_def)

lemma quiet_epoch: "advance_epoch e g = (status, g') \<Longrightarrow> quiet g g'"
  by (auto simp: advance_epoch_def Let_def elim!: quiet_persist split: if_splits)
     (auto simp: quiet_def drop_evidence_content_def list_all_iff runtime_storable_def)

lemma quiet_revalidate: "revalidate x g = (checked, g') \<Longrightarrow> quiet g g'"
  by (auto simp: revalidate_def Let_def split: if_splits sum.splits)

lemma ensure_slot_quiet: "ensure_slot d kind h = (i, h') \<Longrightarrow> quiet g h' = quiet g h"
  by (auto simp: ensure_slot_def quiet_def split: option.splits)

lemma ingest_quiet: "ingest kind d claimed epoch observed pv payload g = (status, generation, duplicate, g') \<Longrightarrow> quiet g g'"
  unfolding ingest_def ingest_slot_def
  by (auto simp: Let_def accept_evidence_def ensure_slot_quiet split: if_splits option.splits prod.splits)

lemma restore_quiet: "quiet g (restore_rollback rb d kind h) = quiet g h"
  by (auto simp: restore_rollback_def Let_def ensure_slot_quiet split: option.splits prod.splits)

lemma quiet_publish: "publish kind d claimed epoch observed pv valid fill unfill g = (answer, g') \<Longrightarrow> quiet g g'"
  unfolding publish_def rejected_def
  by (auto simp: Let_def restore_quiet ensure_slot_quiet elim!: quiet_persist dest!: ingest_quiet split: if_splits prod.splits)

lemma quiet_ingest:
  "ingest_capacity c g = (answer, g') \<Longrightarrow> quiet g g'" "ingest_reservations r g = (answer, g') \<Longrightarrow> quiet g g'"
  "ingest_admissions a g = (answer, g') \<Longrightarrow> quiet g g'"
  unfolding ingest_capacity_def ingest_reservations_def ingest_admissions_def Let_def by (blast intro: quiet_publish)+

lemma durable_ok_quiet: "quiet g g' \<Longrightarrow> durable_ok g \<Longrightarrow> durable_ok g'"
  unfolding durable_ok_def quiet_def no_torn_writes_def journal_holds_def journal_file_def by auto

lemma durable_ok_ticked [simp]: "durable_ok (ticked rq g) = durable_ok g"
  by (simp add: durable_ok_def)

lemma put_runtime_storable:
  "list_all runtime_storable ds \<Longrightarrow> runtime_storable d \<Longrightarrow> list_all runtime_storable (put_runtime i d ds)"
proof -
  have "list_all runtime_storable (update_first p (\<lambda>_. d) ds)" if "list_all runtime_storable ds" "runtime_storable d" for p ds
    using that by (induction ds) auto
  then show "list_all runtime_storable ds \<Longrightarrow> runtime_storable d \<Longrightarrow> ?thesis" by (simp add: put_runtime_def)
qed

lemma evaluate_durable:
  assumes "evaluate_locked iter wall rq cancel g = (answer, g')" and "durable_ok g"
  shows "durable_ok g' \<and> (\<forall>x. answer = Inr x \<longrightarrow> (\<exists>as a. journal_holds (gv_store g') (gv_world g') (as @ [a])
    \<and> au_decision a = de_id x \<and> au_decision_digest a = de_digest x \<and> au_domain a = rq_domain rq \<and> au_effective a = de_effective x
    \<and> au_authorized a = de_authorized x \<and> au_increment a = de_increment x \<and> au_fenced a = de_fenced x))"
  using assms(1)
proof (cases rule: evaluate_locked_cases)
  case (refused status f)
  have "quiet g g'" using refused(2) by auto
  with refused(1) assms(2) durable_ok_quiet show ?thesis by auto
next
  case (not_durable d x a status)
  have "list_all runtime_storable (ds_domains (gv_state (ticked rq g)))" using assms(2) by (simp add: durable_ok_def)
  from append_journal_durable [OF not_durable(2) _ prepared_storable [OF not_durable(1) this, THEN conjunct1]] not_durable(4) assms(2)
  show ?thesis by simp
next
  case (committed d x a g2 status)
  have storable: "list_all runtime_storable (ds_domains (gv_state (ticked rq g)))" using assms(2) by (simp add: durable_ok_def)
  note rec = prepared_storable [OF committed(1) storable]
  have g2: "durable_ok g2 \<and> (\<exists>as. journal_holds (gv_store g2) (gv_world g2) (as @ [a]))"
    using append_journal_durable [OF committed(2)] rec assms(2) by simp
  then have "durable_ok (commit_decision (rq_domain rq) (evaluation_tick rq g) x d g2)"
    using rec by (auto simp: durable_ok_def put_runtime_storable)
  moreover note persisted = quiet_persist [OF committed(4) quiet_refl]
  ultimately have "durable_ok g'" by (rule durable_ok_quiet [rotated])
  moreover have "\<exists>as. journal_holds (gv_store g') (gv_world g') (as @ [a])"
    using g2 persisted by (auto simp: quiet_def journal_holds_def journal_file_def)
  ultimately show ?thesis using rec committed(5) by (auto split: if_splits)
qed

end
