(* ===== verification/Governor_Properties.thy ===== *)
theory Governor_Properties
  imports Governor_Epochs Governor_Durable
begin

text \<open>
  What the governor promises its callers over every sequence of operations.
\<close>

section \<open>A sample evaluation\<close>

lemma sample_views:
  "current_expectation (StrongId 7) sample_governor = sample_expectation"
  "current_evidence (StrongId 7) sample_governor = sample_evidence [sample_demand]"
  "index_domain (index_rebuild sample_policy) (StrongId 7) = Some sample_domain"
proof -
  show ix: "index_domain (index_rebuild sample_policy) (StrongId 7) = Some sample_domain"
    by (subst index_finds(1)) (simp_all add: find_domain_def sample_defs)
  show "current_expectation (StrongId 7) sample_governor = sample_expectation"
    by (simp add: current_expectation_def Let_def ix slot_generation_def sample_slots sample_slot_def sample_expectation_def
        sample_state_def) (simp add: sample_defs)
  show "current_evidence (StrongId 7) sample_governor = sample_evidence [sample_demand]"
    by (simp add: current_evidence_def slot_content_def sample_slots sample_slot_def sample_evidence_def)
qed

lemma sample_result:
  "current_result id (StrongId 7) 21 sample_governor =
     evaluate_domain id sample_policy (index_rebuild sample_policy) sample_domain sample_expectation (sample_evidence [sample_demand]) 21"
  unfolding current_result_def Let_def sample_governor_sel sample_views by simp

lemma sample_durable: "durable_ok sample_governor"
  using sample_state_storable sample_journal_holds
  by (auto simp: durable_ok_def state_storable_def no_torn_writes_def sample_world_def)

text \<open>The sample governor with another runtime state of its domain; its evaluation at tick 21 is answered.\<close>

definition sample_with :: "domain_runtime \<Rightarrow> governor" where
  "sample_with d = upd_state (\<lambda>s. s\<lparr>ds_domains := [d]\<rparr>) sample_governor"

lemma sample_with_runtime: "sample_with sample_runtime = sample_governor"
proof -
  have "sample_state\<lparr>ds_domains := [sample_runtime]\<rparr> = sample_state" by (simp add: sample_state_def)
  then show ?thesis by (simp add: sample_with_def upd_state_def sample_governor_def)
qed

lemma sample_with_views [simp]:
  "current_expectation i (sample_with d) = current_expectation i sample_governor"
  "current_evidence i (sample_with d) = current_evidence i sample_governor"
  "ds_policy (gv_state (sample_with d)) = sample_policy" "ds_epoch (gv_state (sample_with d)) = ds_epoch sample_state"
  "current_result iter i t (sample_with d) = current_result iter i t sample_governor"
  "evaluation_tick sample_request (sample_with d) = 21"
  by (simp_all add: sample_with_def current_expectation_def current_evidence_def slot_generation_def slot_content_def find_slot_def
      current_result_def uncovered_result_def evaluation_tick_def sample_request_def cong: option.case_cong)

lemma sample_with_runtime_found: "rt_domain d = StrongId 7 \<Longrightarrow> find_runtime (StrongId 7) (sample_with d) = Some d"
  by (simp add: find_runtime_def sample_with_def)

lemma sample_with_ok: "governor_ok (sample_with d)"
  using sample_governor_ok sample_governor_sel by (simp add: governor_ok_def state_ok_def sample_with_def)

lemma sample_answers:
  assumes "runtime_storable d" and "rt_domain d = StrongId 7"
  shows "\<exists>x g'. evaluate id 0 sample_request (sample_with d) = (Inr x, g') \<and> id_valid (de_id x)
    \<and> de_raw x = Outcome_WithinPolicy \<and> er_authorized (de_evaluation x) \<and> de_issued_tick x = 21"
proof -
  let ?g = "ticked sample_request (sample_with d)"
  obtain w x a where prep: "prepare_decision id 0 (StrongId 7) 21 (sample_with d) = (w, x, a)" by (metis prod_cases3)
  have "list_all runtime_storable (ds_domains (gv_state (sample_with d)))" using assms(1) by (simp add: sample_with_def)
  from prepared_storable [OF prep this] have a: "audit_storable a" by blast
  have appending: "append_file (journal_path sample_store) (wd_journal sample_world) (frame_of a) sample_world
      = (status_success, Some (frame_of a), sample_world)"
    by (simp add: append_file_def io_next_def sample_world_def Let_def)
  have app: "\<exists>st w. append_audit a sample_store sample_world = (status_success, st, w)"
    using append_audit_room [OF sample_options_bounds(6) a _ _ _ appending] by (simp add: sample_store_def)
  have x: "\<exists>e. x = make_decision (sample_with d) (current_result id (StrongId 7) 21 sample_governor) e w 21"
    by (rule prepare_decision_facts [OF prep]) auto
  have ok: "st_code status_success \<noteq> Status_Overflow" by (simp add: status_success_def)
  then have "\<exists>g2. append_journal a ?g = (status_success, g2)"
    using app by (auto simp: append_journal_def append_once_def Let_def sample_with_def)
  then obtain g2 where g2: "append_journal a ?g = (status_success, g2)" by blast
  note frame = core_ofD [OF append_journal_frame(1) [OF g2]]
  have since: "gv_since_save g2 = 0"
    using g2 app ok by (auto simp: append_journal_def append_once_def Let_def sample_with_def)
  have committed: "persist_state False (commit_decision (StrongId 7) 21 x w g2) = (status_success, commit_decision (StrongId 7) 21 x w g2)"
    using frame since by (simp add: persist_state_def commit_decision_def default_governor_options_def sample_with_def)
  have "evaluate_locked id 0 sample_request False (sample_with d) = (Inr x, commit_decision (StrongId 7) 21 x w g2)"
    unfolding evaluate_locked_def Let_def ticked_def [symmetric]
    unfolding prepare_ticked sample_request_sel sample_with_views prep prod.case ticked_views
      sample_with_runtime_found [OF assms(2)] g2 committed
    by (simp add: id_valid_def sample_with_def)
  moreover have "er_outcome (current_result id (StrongId 7) 21 sample_governor) = Outcome_WithinPolicy"
    unfolding sample_result by (rule sample_within)
  moreover have "er_authorized (current_result id (StrongId 7) 21 sample_governor)"
    using calculation(2) evaluation_grant [of id sample_policy "index_rebuild sample_policy" sample_domain sample_expectation
        "sample_evidence [sample_demand]" 21]
    by (simp add: sample_result grant_consistent_def)
  moreover have "id_valid (de_id x)" using x by (auto simp: id_valid_def sample_with_def sample_state_def)
  ultimately show ?thesis using x by (auto simp: evaluate_def sample_with_def)
qed

lemma hysteresis_calm: "rt_sticky d = Outcome_WithinPolicy \<Longrightarrow> snd (hysteresis h t Outcome_WithinPolicy used d) = Outcome_WithinPolicy"
  by (simp add: hysteresis_def outcome_severity_def)

lemma sample_evaluates:
  "\<exists>x g'. evaluate id 0 sample_request sample_governor = (Inr x, g') \<and> de_authorized x \<and> id_valid (de_id x)"
proof -
  have d: "runtime_storable sample_runtime" "rt_domain sample_runtime = StrongId 7"
    using sample_durable by (simp_all add: durable_ok_def sample_runtime_def)
  from sample_answers [OF d] obtain x g' where x: "evaluate id 0 sample_request sample_governor = (Inr x, g')" "id_valid (de_id x)"
    "de_raw x = Outcome_WithinPolicy" "er_authorized (de_evaluation x)" unfolding sample_with_runtime by blast
  then have "evaluate_locked id 0 sample_request False sample_governor = (Inr x, g')" by (simp add: evaluate_def)
  from evaluate_answers [OF this] obtain w a where
    prep: "prepare_decision id 0 (StrongId 7) 21 sample_governor = (w, x, a)" unfolding sample_request_sel by blast
  have found: "find_runtime (StrongId 7) sample_governor = Some sample_runtime"
    using sample_with_runtime_found [OF d(2)] by (simp add: sample_with_runtime)
  from prepare_decision_facts [OF prep] obtain r v e where
    h: "hysteresis (pl_hysteresis (ds_policy (gv_state sample_governor))) 21 (er_outcome r) (da_used_ppm (er_accounting r))
       (working_runtime (find_runtime (StrongId 7) sample_governor) (StrongId 7)
          (ex_domain_generation (current_expectation (StrongId 7) sample_governor)) (er_outcome r)) = (v, e)"
    and made: "x = make_decision sample_governor r e w 21" by metis
  have "rt_sticky sample_runtime = Outcome_WithinPolicy" by (simp add: sample_runtime_def fresh_runtime_def)
  from hysteresis_calm [OF this] have "e = Outcome_WithinPolicy" using h x(3) found made by (simp add: working_runtime_def) (metis snd_conv)
  then have "de_authorized x" using x(4) by (simp add: made)
  with x show ?thesis by blast
qed

section \<open>Reachable states\<close>

lemma durable_ok_step: "governor_step iter g g' \<Longrightarrow> durable_ok g \<Longrightarrow> durable_ok g'"
  by (erule governor_step.cases)
     (blast intro: durable_ok_quiet quiet_operations quiet_install quiet_epoch quiet_ingest quiet_revalidate
        dest: evaluate_durable)+

lemma durable_ok_steps: "(governor_step iter)\<^sup>*\<^sup>* g g' \<Longrightarrow> durable_ok g \<Longrightarrow> durable_ok g'"
  by (induction rule: rtranclp_induct) (auto intro: durable_ok_step)

text \<open>
  C5. The governor stays coherent: after a successful open, whatever sequence of operations follows and
  whichever of their writes fail, the installed policy is valid and is the one the index answers from, the
  tables are within their bounds, and every piece of evidence content belongs to its slot, to the slot's
  generation and to the current epoch.
\<close>

theorem governor_stays_coherent:
  assumes "governor_open opts initial g0 = (status, g)" and "status_ok status" and "(governor_step iter)\<^sup>*\<^sup>* g g'"
  shows "status_ok (validate_policy (ds_policy (gv_state g'))) \<and> gv_index g' = index_rebuild (ds_policy (gv_state g'))
    \<and> length (ds_publishers (gv_state g')) \<le> 4096 \<and> length (ds_domains (gv_state g')) \<le> 4096
    \<and> length (ds_audit (gv_state g')) \<le> 65536
    \<and> list_all (content_ok (ds_epoch (gv_state g'))) (gv_slots g')"
  using governor_ok_steps [OF assms(3)] governor_open_ok [OF assms(1,2)]
  by (simp add: governor_ok_def state_ok_def slots_ok_def list_all_iff)

lemma sample_opens:
  "\<exists>g. governor_open (default_governor_options\<lparr>go_directory := ''d''\<rparr>) sample_policy
     (sample_governor\<lparr>gv_open := False, gv_store := store_close sample_store\<rparr>) = (status_success, g)"
proof -
  let ?st = "sample_store\<lparr>sr_open := True\<rparr>"
  have opened: "store_open sample_options (store_close sample_store) sample_world = (status_success, sample_store, sample_world)"
    by (simp add: store_open_def store_close_def sample_store_def sample_options_def default_options_def ensure_directory_def
        io_next_def sample_world_def kMaxAuditRecords_def Let_def)
  have saved: "wd_state sample_world = Some (make_state_file (state_bytes sample_state))" "wd_outcomes sample_world = []"
      "journal_file sample_world []"
    by (simp_all add: sample_world_def journal_file_def)
  let ?s = "sample_state\<lparr>ds_evidence := map (\<lambda>e. e\<lparr>sl_revalidation := True\<rparr>) (ds_evidence sample_state), ds_journal_records := 0\<rparr>"
  have "options_sane (sr_options sample_store)" "sr_open sample_store"
    "length (state_bytes sample_state) \<le> unat (so_max_state_bytes (sr_options sample_store))"
    using sample_state_length by simp_all
  from store_load_saved [OF this(1,2) saved(2) sample_state_storable this(3) sample_valid saved(1,3)]
  obtain rep st' where load: "store_load sample_store sample_world = (Inr (Some ?s, rep), st', sample_world)"
    by (auto simp: merge_journal_def)
  let ?g = "sample_governor\<lparr>gv_open := False, gv_store := st', gv_world := sample_world\<rparr>"
  note kept = store_load_store [OF load]
  define h where "h = (upd_state (\<lambda>s. s\<lparr>ds_incarnation := StrongId (id_value (ds_incarnation s) + 1),
      ds_epoch := (if epoch_valid (ds_epoch s) then ds_epoch s else FabricEpoch 1),
      ds_evidence := map (\<lambda>e. e\<lparr>sl_revalidation := True\<rparr>) (ds_evidence s)\<rparr>) (?g\<lparr>gv_state := ?s\<rparr>))
     \<lparr>gv_clock := 21, gv_slots := map restored_slot (ds_evidence sample_state), gv_slot_index := index_slots (map restored_slot (ds_evidence sample_state)),
      gv_index := index_rebuild sample_policy, gv_dirty := True\<rparr>"
  have restored: "restore ?s ?g = persist_state True h"
    by (simp add: restore_def Let_def upd_state_def h_def clock_restore_def sample_state_def restored_slot_def)
  have h: "sr_open (gv_store h)" "\<not> gv_open h" "wd_outcomes (gv_world h) = []" "list_all (\<lambda>a. length (au_summary a) \<le> 256) (ds_audit (gv_state h))"
    "sr_options (gv_store h) = sample_options"
    using kept by (simp_all add: h_def sample_world_def sample_audit_def)
  have "length (state_bytes (saved_form h)) \<le> 33554432"
    by (simp add: saved_form_def h_def restored_slot_def sample_state_def sample_defs sample_runtime_def sample_audit_def
        fresh_runtime_def state_bytes_defs)
  then obtain g3 where g3: "restore ?s ?g = (status_success, g3)"
    using save_state_succeeds [of h] h unfolding restored by (auto simp: persist_state_def)
  define c where "c = default_governor_options\<lparr>go_directory := ''d''\<rparr>"
  have c: "go_directory c = ''d''" "go_worker_threads c = 0" "go_max_pending_jobs c = 64" "store_options_of c = sample_options"
    by (simp_all add: c_def sample_options_of del: governor_options.update_convs) (simp_all add: default_governor_options_def)
  have g: "sample_governor\<lparr>gv_open := False, gv_options := c, gv_store := st', gv_world := sample_world\<rparr> = ?g"
    by (simp add: sample_governor_def c_def)
  show ?thesis
    using g3 unfolding c_def [symmetric] governor_open_def Let_def by (simp add: c opened load g)
qed


theorem governor_stays_coherent_witness:
  "\<exists>g. governor_open (default_governor_options\<lparr>go_directory := ''d''\<rparr>) sample_policy
       (sample_governor\<lparr>gv_open := False, gv_store := store_close sample_store\<rparr>) = (status_success, g)
    \<and> gv_index g = index_rebuild (ds_policy (gv_state g)) \<and> list_all (content_ok (ds_epoch (gv_state g))) (gv_slots g)"
proof -
  obtain g where g: "governor_open (default_governor_options\<lparr>go_directory := ''d''\<rparr>) sample_policy
       (sample_governor\<lparr>gv_open := False, gv_store := store_close sample_store\<rparr>) = (status_success, g)"
    using sample_opens by blast
  from governor_stays_coherent [OF g status_ok_success rtranclp.rtrancl_refl] g show ?thesis by blast
qed


theorem authorised_decision_sound_witness:
  "\<exists>x g' p d cap res adm. evaluate id 0 sample_request sample_governor = (Inr x, g') \<and> de_authorized x
    \<and> protected_floor d res + scope_contingent p d adm + unat (de_increment x) = domain_ceiling p d cap"
proof -
  obtain x g' where x: "evaluate id 0 sample_request sample_governor = (Inr x, g')" "de_authorized x" using sample_evaluates by blast
  have "set (id xs) = set xs" for xs :: "(u64 \<times> u64) list" by simp
  from authorised_decision_sound [OF sample_governor_ok this x] x show ?thesis by blast
qed

end
