(* ===== verification/Hysteresis_Properties.thy ===== *)
theory Hysteresis_Properties
  imports Governor_Properties
begin

text \<open>
  What the hysteresis of the governor does to the outcome of an evaluation: a restriction is never delayed, a
  relaxation waits for the policy's confirmations, and a fence outlives every evaluation that is not
  authoritative.
\<close>

section \<open>The runtime state behind an answer\<close>

lemma hysteresis_domain: "hysteresis h t raw used d = (d', effective) \<Longrightarrow> rt_domain d' = rt_domain d \<and> rt_fenced d' = rt_fenced d"
  by (auto simp: hysteresis_def relax_def Let_def split: if_splits)

lemma working_runtime_found:
  "find_runtime i g = Some d \<Longrightarrow> working_runtime (find_runtime i g) j n out = d \<and> rt_domain d = i"
  by (simp add: working_runtime_def) (auto simp: find_runtime_def find_Some_iff)

lemma find_updated_first:
  assumes "\<exists>e \<in> set ds. rt_domain e = i" and "rt_domain d = i"
  shows "List.find (\<lambda>e. rt_domain e = j) (update_first (\<lambda>e. rt_domain e = i) (\<lambda>_. d) ds)
    = (if j = i then Some d else List.find (\<lambda>e. rt_domain e = j) ds)"
  using assms(1)
proof (induction ds)
  case (Cons a ds)
  then show ?case using assms(2) by (cases "rt_domain a = i"; cases "j = i") simp_all
qed simp

lemma find_put_runtime:
  assumes "rt_domain d = i"
  shows "List.find (\<lambda>e. rt_domain e = j) (put_runtime i d ds) = (if j = i then Some d else List.find (\<lambda>e. rt_domain e = j) ds)"
proof (cases "\<exists>e \<in> set ds. rt_domain e = i")
  case True
  then show ?thesis using find_updated_first [OF True assms] by (simp add: put_runtime_def)
next
  case False
  have "List.find P (ds @ [d]) = (case List.find P ds of None \<Rightarrow> if P d then Some d else None | found \<Rightarrow> found)" for P
    by (induction ds) auto
  moreover have "List.find (\<lambda>e. rt_domain e = i) ds = None" using False by (auto simp: find_None_iff)
  ultimately show ?thesis using False assms by (auto simp: put_runtime_def split: option.splits)
qed

text \<open>The answer, the runtime state before it and the runtime state it leaves.\<close>

lemma answered_runtime:
  assumes "evaluate iter wall rq g = (Inr x, g')"
  obtains w where
    "hysteresis (pl_hysteresis (ds_policy (gv_state g))) (de_issued_tick x) (de_raw x) (da_used_ppm (er_accounting (de_evaluation x)))
       (working_runtime (find_runtime (rq_domain rq) g) (rq_domain rq)
          (ex_domain_generation (current_expectation (rq_domain rq) g)) (de_raw x)) = (w, de_effective x)"
    "de_confirmations x = rt_confirmations w"
    "de_fenced x \<longleftrightarrow> fence_worthy (de_effective x) \<or> rt_fenced w \<and> \<not> outcome_is_authoritative (de_effective x)"
    "find_runtime (rq_domain rq) g' = Some (decided_runtime (ds_epoch (gv_state g)) x
       (w\<lparr>rt_last_raw := de_raw x, rt_generation := ex_domain_generation (current_expectation (rq_domain rq) g)\<rparr>))"
    "\<And>j. j \<noteq> rq_domain rq \<Longrightarrow> find_runtime j g' = find_runtime j g"
    "ds_policy (gv_state g') = ds_policy (gv_state g)"
proof -
  from assms have ev: "evaluate_locked iter wall rq False g = (Inr x, g')" by (simp add: evaluate_def split: if_splits)
  from evaluate_answers [OF ev] obtain d a g2 where
    prep: "prepare_decision iter wall (rq_domain rq) (evaluation_tick rq g) g = (d, x, a)" and
    app: "append_journal a (ticked rq g) = (status_success, g2)" and
    per: "persist_state False (commit_decision (rq_domain rq) (evaluation_tick rq g) x d g2) = (status_success, g')" by metis
  from prepare_decision_facts [OF prep] obtain r w e where
    h: "hysteresis (pl_hysteresis (ds_policy (gv_state g))) (evaluation_tick rq g) (er_outcome r) (da_used_ppm (er_accounting r))
       (working_runtime (find_runtime (rq_domain rq) g) (rq_domain rq)
          (ex_domain_generation (current_expectation (rq_domain rq) g)) (er_outcome r)) = (w, e)" and
    d: "d = w\<lparr>rt_last_raw := er_outcome r, rt_generation := ex_domain_generation (current_expectation (rq_domain rq) g)\<rparr>" and
    x: "x = make_decision g r e d (evaluation_tick rq g)" by metis
  note f2 = identity_ofD [OF append_journal_frame(2) [OF app]] and f3 = identity_ofD [OF persist_state_frame(2) [OF per]]
  have "rt_domain (working_runtime (find_runtime (rq_domain rq) g) (rq_domain rq) n out) = rq_domain rq" for n out
    by (auto simp: working_runtime_def find_runtime_def find_Some_iff split: option.splits)
  with hysteresis_domain [OF h] have dom: "rt_domain (decided_runtime (ds_epoch (gv_state g)) x d) = rq_domain rq"
    by (simp add: decided_runtime_def d)
  have domains: "ds_domains (gv_state g') = put_runtime (rq_domain rq) (decided_runtime (ds_epoch (gv_state g)) x d) (ds_domains (gv_state g))"
    using f2 f3 by simp
  have "find_runtime j g' = (if j = rq_domain rq then Some (decided_runtime (ds_epoch (gv_state g)) x d) else find_runtime j g)" for j
    unfolding find_runtime_def domains find_put_runtime [OF dom] ..
  with h that [of w] f2 f3 show thesis by (simp add: x d)
qed

section \<open>Restriction\<close>

lemma severity_order: "\<not> 2 \<le> (1::u32)" "\<not> 2 \<le> (0::u32)"
  by (simp_all add: word_le_nat_alt)

text \<open>The three cases of the hysteresis step.\<close>

lemma hysteresis_restricts:
  "outcome_severity raw \<ge> 2 \<Longrightarrow> snd (hysteresis h t raw used d) = raw \<and> rt_sticky (fst (hysteresis h t raw used d)) = raw
     \<and> rt_confirmations (fst (hysteresis h t raw used d)) = 0"
  by (simp add: hysteresis_def)

lemma hysteresis_at_limit:
  "hysteresis h t Outcome_AtLimit used d =
     (if outcome_severity (rt_sticky d) \<ge> 2 then (d\<lparr>rt_confirmations := 0\<rparr>, rt_sticky d)
      else let d = (if rt_sticky d \<noteq> Outcome_AtLimit then d\<lparr>rt_sticky := Outcome_AtLimit, rt_confirmations := 0\<rparr> else d);
               d = d\<lparr>rt_confirmations := rt_confirmations d + 1\<rparr>
           in (d, if ucast (rt_confirmations d) \<ge> hy_escalation_confirmations h then Outcome_AtLimit else Outcome_WithinPolicy))"
  by (simp add: hysteresis_def severity_order)

lemma hysteresis_within:
  "hysteresis h t Outcome_WithinPolicy used d =
     (if rt_sticky d = Outcome_WithinPolicy then (d\<lparr>rt_sticky := Outcome_WithinPolicy, rt_confirmations := 0\<rparr>, Outcome_WithinPolicy)
      else relax h t Outcome_WithinPolicy used d)"
  by (simp add: hysteresis_def severity_order outcome_severity_0)

lemma relax_sticky: "relax h t Outcome_WithinPolicy used d = (w, e) \<Longrightarrow> e = rt_sticky d \<or> e = Outcome_WithinPolicy"
  by (auto simp: relax_def Let_def split: if_splits)

lemma hysteresis_severity:
  assumes "hysteresis h t raw used d = (w, effective)"
  shows "outcome_severity raw \<le> outcome_severity effective
    \<or> raw = Outcome_AtLimit \<and> effective = Outcome_WithinPolicy \<and> unat (rt_confirmations w) < unat (hy_escalation_confirmations h)"
proof -
  have "outcome_severity raw \<ge> 2 \<or> raw = Outcome_AtLimit \<or> raw = Outcome_WithinPolicy"
    by (cases raw) (simp_all add: word_le_nat_alt)
  then consider "outcome_severity raw \<ge> 2" | "raw = Outcome_AtLimit" | "raw = Outcome_WithinPolicy" by blast
  then show ?thesis
  proof cases
    case 1
    from hysteresis_restricts [OF this, of h t used d] show ?thesis by (simp add: assms)
  next
    case 2
    have "outcome_severity Outcome_AtLimit \<le> outcome_severity (rt_sticky d)" if "outcome_severity (rt_sticky d) \<ge> 2"
      using that by (simp add: word_le_nat_alt)
    then show ?thesis
      using assms unfolding 2 hysteresis_at_limit
      by (auto simp: Let_def word_le_nat_alt unat_widened split: if_splits)
  qed simp
qed



section \<open>Relaxation\<close>

text \<open>A run of evaluations in which each is answered.\<close>

primrec evaluations ::
  "((u64 \<times> u64) list \<Rightarrow> (u64 \<times> u64) list) \<Rightarrow> (u64 \<times> evaluation_request) list \<Rightarrow> governor \<Rightarrow> (decision list \<times> governor) option" where
  "evaluations iter [] g = Some ([], g)"
| "evaluations iter (e # es) g =
     (case evaluate iter (fst e) (snd e) g of
        (Inl _, _) \<Rightarrow> None
      | (Inr x, g') \<Rightarrow> (case evaluations iter es g' of None \<Rightarrow> None | Some (xs, h) \<Rightarrow> Some (x # xs, h)))"

lemma evaluations_Cons:
  assumes "evaluations iter (e # es) g = Some (xs, h)"
  obtains x g' ys where "evaluate iter (fst e) (snd e) g = (Inr x, g')" "evaluations iter es g' = Some (ys, h)" "xs = x # ys"
  using assms by (auto split: prod.splits sum.splits option.splits)

text \<open>
  Evidence that allows relaxing: within policy, with the margin kept below the ceiling, at a tick by which the
  cooldown after the last escalation has passed.
\<close>

definition calm :: "hysteresis_policy \<Rightarrow> u64 \<Rightarrow> decision \<Rightarrow> bool" where
  "calm h escalated x =
     (de_raw x = Outcome_WithinPolicy
      \<and> min (da_used_ppm (er_accounting (de_evaluation x))) kPpmScale + hy_margin_ppm h \<le> kPpmScale
      \<and> unat escalated + unat (hy_cooldown_ticks h) \<le> unat (de_issued_tick x))"

lemma calm_cooldown:
  assumes "unat e + unat c \<le> unat (t :: u64)"
  shows "e \<le> t \<and> c \<le> t - e"
proof -
  have "e \<le> t" using assms by (simp add: word_le_nat_alt)
  moreover from this have "unat (t - e) = unat t - unat e" by (rule unat_sub)
  ultimately show ?thesis using assms by (simp add: word_le_nat_alt)
qed

lemma calm_step:
  assumes "calm h (rt_last_escalation_tick d) x" and "rt_sticky d \<noteq> Outcome_WithinPolicy"
    and "unat (rt_confirmations d) < unat (hy_deescalation_confirmations h)" and "hy_deescalation_confirmations h \<le> kHardMaxConfirmations"
  shows "hysteresis h (de_issued_tick x) (de_raw x) (da_used_ppm (er_accounting (de_evaluation x))) d =
    (if unat (rt_confirmations d) + 1 < unat (hy_deescalation_confirmations h)
     then (d\<lparr>rt_confirmations := rt_confirmations d + 1\<rparr>, rt_sticky d)
     else (d\<lparr>rt_sticky := Outcome_WithinPolicy, rt_confirmations := 0\<rparr>, Outcome_WithinPolicy))"
    and "unat (rt_confirmations d + 1) = unat (rt_confirmations d) + 1"
proof -
  have "unat (hy_deescalation_confirmations h) \<le> 64" using assms(4) by (simp add: word_le_nat_alt kHardMaxConfirmations_def)
  with assms(3) have less: "unat (rt_confirmations d) + 1 \<le> 64" by simp
  show incr: "unat (rt_confirmations d + 1) = unat (rt_confirmations d) + 1"
  proof -
    have "unat (1 :: u32) = 1" by simp
    moreover have "unat (rt_confirmations d) + unat (1 :: u32) < 2 ^ LENGTH(32)" using less by simp
    ultimately show ?thesis using unat_add_lem [of "rt_confirmations d" 1] by simp
  qed
  have raw: "de_raw x = Outcome_WithinPolicy" using assms(1) by (simp add: calm_def)
  have "ucast (rt_confirmations d + 1) \<ge> hy_deescalation_confirmations h
      \<longleftrightarrow> \<not> unat (rt_confirmations d) + 1 < unat (hy_deescalation_confirmations h)"
    by (simp add: word_le_nat_alt unat_widened incr not_less)
  then show "hysteresis h (de_issued_tick x) (de_raw x) (da_used_ppm (er_accounting (de_evaluation x))) d =
    (if unat (rt_confirmations d) + 1 < unat (hy_deescalation_confirmations h)
     then (d\<lparr>rt_confirmations := rt_confirmations d + 1\<rparr>, rt_sticky d)
     else (d\<lparr>rt_sticky := Outcome_WithinPolicy, rt_confirmations := 0\<rparr>, Outcome_WithinPolicy))"
    using assms(1,2) calm_cooldown [of "rt_last_escalation_tick d" "hy_cooldown_ticks h" "de_issued_tick x"]
    unfolding raw hysteresis_within relax_def Let_def by (auto simp: calm_def)
qed


text \<open>The runtime state after an answered evaluation, in the fields hysteresis reads.\<close>

lemma evaluate_runtime:
  assumes "evaluate iter wall rq g = (Inr x, g')" and "find_runtime (rq_domain rq) g = Some d"
    and "hysteresis (pl_hysteresis (ds_policy (gv_state g))) (de_issued_tick x) (de_raw x)
      (da_used_ppm (er_accounting (de_evaluation x))) d = (w, effective)"
  shows "de_effective x = effective"
    "\<exists>d'. find_runtime (rq_domain rq) g' = Some d' \<and> rt_sticky d' = rt_sticky w \<and> rt_confirmations d' = rt_confirmations w
      \<and> rt_last_escalation_tick d' = rt_last_escalation_tick w"
    "ds_policy (gv_state g') = ds_policy (gv_state g)"
proof -
  from answered_runtime [OF assms(1)] obtain v where
    v: "hysteresis (pl_hysteresis (ds_policy (gv_state g))) (de_issued_tick x) (de_raw x) (da_used_ppm (er_accounting (de_evaluation x)))
       (working_runtime (find_runtime (rq_domain rq) g) (rq_domain rq)
          (ex_domain_generation (current_expectation (rq_domain rq) g)) (de_raw x)) = (v, de_effective x)"
    and after: "find_runtime (rq_domain rq) g' = Some (decided_runtime (ds_epoch (gv_state g)) x
       (v\<lparr>rt_last_raw := de_raw x, rt_generation := ex_domain_generation (current_expectation (rq_domain rq) g)\<rparr>))"
    and kept: "ds_policy (gv_state g') = ds_policy (gv_state g)" by blast
  have vw: "v = w" "de_effective x = effective"
    using v assms(3) working_runtime_found [OF assms(2)] by simp_all
  show "de_effective x = effective" by (rule vw)
  show "\<exists>d'. find_runtime (rq_domain rq) g' = Some d' \<and> rt_sticky d' = rt_sticky w \<and> rt_confirmations d' = rt_confirmations w
      \<and> rt_last_escalation_tick d' = rt_last_escalation_tick w"
    using after by (simp add: decided_runtime_def vw)
  show "ds_policy (gv_state g') = ds_policy (gv_state g)" by (rule kept)
qed

lemma relaxed_stays:
  assumes "evaluations iter es g = Some (xs, g')" and "\<forall>e \<in> set es. rq_domain (snd e) = i"
    and "find_runtime i g = Some d" and "rt_sticky d = Outcome_WithinPolicy" and "\<forall>x \<in> set xs. de_raw x = Outcome_WithinPolicy"
  shows "\<forall>x \<in> set xs. de_effective x = Outcome_WithinPolicy"
  using assms
proof (induction es arbitrary: g d xs)
  case (Cons e es)
  from evaluations_Cons [OF Cons.prems(1)] obtain x h ys where
    x: "evaluate iter (fst e) (snd e) g = (Inr x, h)" and rest: "evaluations iter es h = Some (ys, g')" and xs: "xs = x # ys" by metis
  have i: "rq_domain (snd e) = i" and raw: "de_raw x = Outcome_WithinPolicy" using Cons.prems xs by simp_all
  have "hysteresis hy t (de_raw x) used d = (d\<lparr>rt_sticky := Outcome_WithinPolicy, rt_confirmations := 0\<rparr>, Outcome_WithinPolicy)" for hy t used
    unfolding raw hysteresis_within by (simp add: Cons.prems(4))
  note step = evaluate_runtime [OF x Cons.prems(3) [folded i] this, unfolded i]
  from step(2) obtain d' where "find_runtime i h = Some d'" "rt_sticky d' = Outcome_WithinPolicy" by auto
  from Cons.IH [OF rest _ this] step(1) xs Cons.prems show ?case by simp
qed simp



section \<open>Fences\<close>

lemma evaluate_fence:
  assumes "evaluate iter wall rq g = (Inr x, g')" and "find_runtime i g = Some d" and "rt_fenced d"
    and "rq_domain rq = i \<longrightarrow> \<not> outcome_is_authoritative (de_effective x)"
  shows "(\<exists>d'. find_runtime i g' = Some d' \<and> rt_fenced d') \<and> (rq_domain rq = i \<longrightarrow> de_fenced x)"
proof (cases "rq_domain rq = i")
  case False
  with answered_runtime [OF assms(1)] have "find_runtime i g' = find_runtime i g" by metis
  with assms(2,3) False show ?thesis by simp
next
  case True
  from answered_runtime [OF assms(1), unfolded True] obtain w where
    w: "hysteresis (pl_hysteresis (ds_policy (gv_state g))) (de_issued_tick x) (de_raw x) (da_used_ppm (er_accounting (de_evaluation x)))
       (working_runtime (find_runtime i g) i (ex_domain_generation (current_expectation i g)) (de_raw x)) = (w, de_effective x)"
    and fenced: "de_fenced x \<longleftrightarrow> fence_worthy (de_effective x) \<or> rt_fenced w \<and> \<not> outcome_is_authoritative (de_effective x)"
    and after: "find_runtime i g' = Some (decided_runtime (ds_epoch (gv_state g)) x
       (w\<lparr>rt_last_raw := de_raw x, rt_generation := ex_domain_generation (current_expectation i g)\<rparr>))" by blast
  have "rt_fenced w" using hysteresis_domain [OF w] working_runtime_found [OF assms(2)] assms(3) by simp
  with fenced assms(4) True have "de_fenced x" by simp
  with after show ?thesis by (simp add: decided_runtime_def)
qed


section \<open>Witnesses\<close>


definition sample_restricted :: domain_runtime where
  "sample_restricted = sample_runtime\<lparr>rt_sticky := Outcome_ReductionRequired\<rparr>"

lemma sample_run:
  assumes "runtime_storable d" and "rt_domain d = StrongId 7"
  shows "\<exists>x g'. evaluations id [(0, sample_request)] (sample_with d) = Some ([x], g')
    \<and> evaluate id 0 sample_request (sample_with d) = (Inr x, g') \<and> de_raw x = Outcome_WithinPolicy \<and> de_issued_tick x = 21"
  using sample_answers [OF assms] by auto

lemma sample_runtime_storable: "runtime_storable sample_runtime"
  using sample_durable by (simp add: durable_ok_def)


definition sample_fenced :: domain_runtime where
  "sample_fenced = sample_runtime\<lparr>rt_sticky := Outcome_Stale, rt_fenced := True, rt_last_escalation_tick := 30\<rparr>"


end
