(* ===== verification/Ingestion_Properties.thy ===== *)
theory Ingestion_Properties
  imports Governor_Properties
begin

text \<open>
  What an accepted publication of evidence establishes and leaves behind, for the three kinds of evidence at
  once, and what a publication that cannot be saved leaves behind.
\<close>

section \<open>Registrations and slots\<close>

lemma find_updated_registration:
  assumes "\<And>r. pr_publisher (f r) = pr_publisher r"
  shows "find_registration q (update_registration p f g)
    = (if q = p then map_option f (find_registration q g) else find_registration q g)"
proof -
  have "List.find (\<lambda>r. pr_publisher r = q) (update_first (\<lambda>r. pr_publisher r = p) f rs)
    = (if q = p then map_option f (List.find (\<lambda>r. pr_publisher r = q) rs) else List.find (\<lambda>r. pr_publisher r = q) rs)" for rs
    by (induction rs) (auto simp: assms)
  then show ?thesis by (simp add: find_registration_def update_registration_def)
qed

lemma find_registration_cong: "ds_publishers (gv_state g') = ds_publishers (gv_state g) \<Longrightarrow> find_registration p g' = find_registration p g"
  by (simp add: find_registration_def)

lemma find_slot_cong:
  "gv_slots g' = gv_slots g \<Longrightarrow> gv_slot_index g' = gv_slot_index g \<Longrightarrow> find_slot d kind g' = find_slot d kind g"
  by (simp add: find_slot_def)

lemma find_slot_at: "gv_slot_index g (slot_key d kind) = Some i \<Longrightarrow> find_slot d kind g = Some (gv_slots g ! i)"
  by (simp add: find_slot_def)

lemma ensure_slot_content:
  assumes "ensure_slot d kind g = (i, h)"
  shows "gv_slots h ! i = (case find_slot d kind g of None \<Rightarrow> empty_slot d kind | Some sl \<Rightarrow> sl)"
    "sl_generation (gs_state (gv_slots h ! i)) = slot_generation d kind g"
proof -
  show "gv_slots h ! i = (case find_slot d kind g of None \<Rightarrow> empty_slot d kind | Some sl \<Rightarrow> sl)"
    using assms by (auto simp: ensure_slot_def find_slot_def split: option.splits)
  then show "sl_generation (gs_state (gv_slots h ! i)) = slot_generation d kind g"
    by (simp add: slot_generation_def empty_slot_def split: option.splits)
qed

text \<open>The slot of an accepted publication, before its content is put in.\<close>

definition received :: "u64 \<Rightarrow> u64 \<Rightarrow> provenance \<Rightarrow> digest \<Rightarrow> content_slot \<Rightarrow> content_slot" where
  "received expected observed pv payload sl =
     clear_content (sl\<lparr>gs_state := (gs_state sl)\<lparr>sl_generation := expected,
                  sl_evidence_id := pv_evidence_id pv, sl_publisher := pv_publisher pv, sl_incarnation := pv_incarnation pv,
                  sl_sequence := pv_sequence pv, sl_observed_tick := observed, sl_payload_digest := payload,
                  sl_revalidation := False\<rparr>\<rparr>)"

lemma received_sel [simp]:
  "sl_generation (gs_state (received n t pv payload sl)) = n" "sl_evidence_id (gs_state (received n t pv payload sl)) = pv_evidence_id pv"
  "sl_publisher (gs_state (received n t pv payload sl)) = pv_publisher pv" "sl_sequence (gs_state (received n t pv payload sl)) = pv_sequence pv"
  "sl_incarnation (gs_state (received n t pv payload sl)) = pv_incarnation pv"
  "\<not> sl_revalidation (gs_state (received n t pv payload sl))" "sl_payload_digest (gs_state (received n t pv payload sl)) = payload"
  "\<not> gs_has_content (received n t pv payload sl)"
  by (simp_all add: received_def clear_content_def)

lemma accept_evidence_sel:
  assumes "g' = accept_evidence i n observed pv payload h"
  shows "gv_slots g' = (gv_slots h)[i := received n observed pv payload (gv_slots h ! i)]" "gv_slot_index g' = gv_slot_index h"
    "find_registration p g' = (if p = pv_publisher pv then map_option (\<lambda>r. r\<lparr>pr_last_sequence := pv_sequence pv\<rparr>) (find_registration p h)
       else find_registration p h)"
    "gv_open g' = gv_open h" "gv_accepting g' = gv_accepting h" "gv_index g' = gv_index h" "gv_options g' = gv_options h"
    "ds_epoch (gv_state g') = ds_epoch (gv_state h)"
proof -
  have "find_registration p g' = find_registration p (update_registration (pv_publisher pv) (\<lambda>r. r\<lparr>pr_last_sequence := pv_sequence pv\<rparr>) h)"
    by (rule find_registration_cong) (simp add: assms accept_evidence_def Let_def)
  then show "find_registration p g' = (if p = pv_publisher pv
      then map_option (\<lambda>r. r\<lparr>pr_last_sequence := pv_sequence pv\<rparr>) (find_registration p h) else find_registration p h)"
    by (simp add: find_updated_registration)
qed (simp_all add: assms accept_evidence_def received_def Let_def)

text \<open>What the checks of an accepted publication have established.\<close>

lemma ingest_accepts:
  assumes "ingest kind d claimed epoch observed pv payload g = (status, generation, False, g1)" and "status_ok status"
  obtains r i h where
    "find_registration (pv_publisher pv) g = Some r" "\<not> pr_fenced r" "pr_incarnation r = pv_incarnation pv"
    "epoch_value (pr_epoch r) = epoch_value (ds_epoch (gv_state g))" "epoch_value epoch = epoch_value (ds_epoch (gv_state g))"
    "pr_last_sequence r < pv_sequence pv" "ensure_slot d kind g = (i, h)" "g1 = accept_evidence i generation observed pv payload h"
    "generation = slot_generation d kind g + 1" "generation \<noteq> 0" "claimed = 0 \<or> claimed = generation"
    "index_domain (gv_index g) d \<noteq> None" "gv_open g" "gv_accepting g" "pv_sequence pv \<noteq> 0"
proof -
  obtain i h where en: "ensure_slot d kind g = (i, h)" by (cases "ensure_slot d kind g") auto
  note s = ensure_slot_content(2) [OF en]
  from assms obtain r where r: "find_registration (pv_publisher pv) g = Some r" "\<not> pr_fenced r" "pr_incarnation r = pv_incarnation pv"
    "epoch_value (pr_epoch r) = epoch_value (ds_epoch (gv_state g))" "epoch_value epoch = epoch_value (ds_epoch (gv_state g))"
    "index_domain (gv_index g) d \<noteq> None" "gv_open g" "gv_accepting g" "pv_sequence pv \<noteq> 0" and
    slot: "ingest_slot d kind claimed observed pv payload r g = (status, generation, False, g1)"
    unfolding ingest_def by (auto simp: not_open_def shutting_down_def split: if_splits option.splits)
  have "pr_last_sequence r < pv_sequence pv \<and> g1 = accept_evidence i generation observed pv payload h
      \<and> generation = slot_generation d kind g + 1 \<and> generation \<noteq> 0 \<and> (claimed = 0 \<or> claimed = generation)"
    using slot assms(2) unfolding ingest_slot_def en by (auto simp: Let_def s not_le split: if_splits)
  with that r en show thesis by blast
qed

lemma index_after_ensure: "ensure_slot d kind g = (i, h) \<Longrightarrow> gv_slot_index h (slot_key d kind) = Some i"
  by (auto simp: ensure_slot_def split: option.splits)

section \<open>Accepted publications\<close>

text \<open>
  What an accepted publication stands on and leaves behind: its publisher was registered for the current epoch
  with this incarnation and not fenced, its sequence lies ahead of the last accepted one and becomes it, its
  generation is the successor of the slot's and was not claimed otherwise, and the slot carries its identity.
\<close>

definition publication_recorded ::
  "evidence_kind \<Rightarrow> domain_id \<Rightarrow> u64 \<Rightarrow> fabric_epoch \<Rightarrow> provenance \<Rightarrow> u64 \<Rightarrow> governor \<Rightarrow> governor \<Rightarrow> bool" where
  "publication_recorded kind d claimed epoch pv generation g g' \<longleftrightarrow>
     index_domain (gv_index g) d \<noteq> None \<and> epoch_value epoch = epoch_value (ds_epoch (gv_state g))
     \<and> (\<exists>r. find_registration (pv_publisher pv) g = Some r \<and> \<not> pr_fenced r \<and> pr_incarnation r = pv_incarnation pv
          \<and> epoch_value (pr_epoch r) = epoch_value (ds_epoch (gv_state g)) \<and> pr_last_sequence r < pv_sequence pv
          \<and> find_registration (pv_publisher pv) g' = Some (r\<lparr>pr_last_sequence := pv_sequence pv\<rparr>))
     \<and> (claimed = 0 \<or> claimed = generation) \<and> unat generation = unat (slot_generation d kind g) + 1
     \<and> (\<exists>sl. find_slot d kind g' = Some sl \<and> sl_generation (gs_state sl) = generation
          \<and> sl_evidence_id (gs_state sl) = pv_evidence_id pv \<and> sl_publisher (gs_state sl) = pv_publisher pv
          \<and> sl_incarnation (gs_state sl) = pv_incarnation pv \<and> sl_sequence (gs_state sl) = pv_sequence pv
          \<and> \<not> sl_revalidation (gs_state sl))"

lemma unat_successor: "m = (n :: u64) + 1 \<Longrightarrow> m \<noteq> 0 \<Longrightarrow> unat m = unat n + 1"
  using unatSuc [of n] by (simp add: add.commute)

lemma ensure_slot_keeps: "ensure_slot d kind g = (i, h) \<Longrightarrow> gv_state h = gv_state g"
  by (auto simp: ensure_slot_def split: option.splits)

lemma publish_recorded:
  assumes "publish kind d claimed epoch observed pv valid fill unfill g = (ans, g')" and "governor_ok g" and "wf_evidence_kind kind"
    and "\<And>n sl. gs_state (fill n sl) = gs_state sl" and "status_ok (in_status ans)" and "\<not> in_duplicate ans"
  shows "publication_recorded kind d claimed epoch pv (in_generation ans) g g'"
    and "\<exists>sl. find_slot d kind g' = Some ((fill (in_generation ans) sl)\<lparr>gs_has_content := True\<rparr>)"
proof -
  obtain status generation duplicate g1 where
    ing: "ingest kind d claimed epoch observed pv (pv_payload_digest pv) g = (status, generation, duplicate, g1)" by (metis prod_cases4)
  have acc: "status_ok valid" "status_ok status" "duplicate = False"
    using assms(1,5,6) by (auto simp: publish_def ing rejected_def split: if_splits)
  from ingest_accepts [OF ing [unfolded acc(3)] acc(2)] obtain r i h where
    r: "find_registration (pv_publisher pv) g = Some r" "\<not> pr_fenced r" "pr_incarnation r = pv_incarnation pv"
      "epoch_value (pr_epoch r) = epoch_value (ds_epoch (gv_state g))" "epoch_value epoch = epoch_value (ds_epoch (gv_state g))"
      "pr_last_sequence r < pv_sequence pv" and en: "ensure_slot d kind g = (i, h)" and
    g1: "g1 = accept_evidence i generation observed pv (pv_payload_digest pv) h" and
    gen: "generation = slot_generation d kind g + 1" "generation \<noteq> 0" "claimed = 0 \<or> claimed = generation" and
    ix: "index_domain (gv_index g) d \<noteq> None" by metis
  note a = accept_evidence_sel [OF g1] and i = governor_ok_ensure(2) [OF en assms(2,3)]
  have at: "gv_slot_index g1 (slot_key d kind) = Some i" using index_after_ensure [OF en] a(2) by simp
  then have en1: "ensure_slot d kind g1 = (i, g1)" by (simp add: ensure_slot_def)
  let ?put = "\<lambda>sl. (fill generation sl)\<lparr>gs_has_content := True\<rparr>"
  obtain saved g3 where per: "persist_state True (sync_evidence_state (upd_slot i ?put g1)) = (saved, g3)"
    by (cases "persist_state True (sync_evidence_state (upd_slot i ?put g1))") auto
  have fin: "g' = g3" "in_generation ans = generation"
    using assms(1,5) acc unfolding publish_def Let_def ing prod.case en1 per by (auto simp: rejected_def split: if_splits)
  note c = core_ofD [OF persist_state_frame(1) [OF per]] and s = identity_ofD [OF persist_state_frame(2) [OF per]]
  let ?sl = "received generation observed pv (pv_payload_digest pv) (gv_slots h ! i)"
  have "gv_slots g3 = (gv_slots g1)[i := ?put (gv_slots g1 ! i)]" "gv_slot_index g3 (slot_key d kind) = Some i"
    using c at by (simp_all add: sync_evidence_state_def)
  then have slot: "find_slot d kind g3 = Some (?put ?sl)" using i a(1) by (simp add: find_slot_at)
  have "find_registration (pv_publisher pv) g3 = find_registration (pv_publisher pv) g1"
    using s by (intro find_registration_cong) (simp add: sync_evidence_state_def)
  also have "\<dots> = Some (r\<lparr>pr_last_sequence := pv_sequence pv\<rparr>)"
    using a(3) r(1) find_registration_cong [of h g] ensure_slot_keeps [OF en] by simp
  finally show "publication_recorded kind d claimed epoch pv (in_generation ans) g g'"
    using r gen ix slot unat_successor [OF gen(1,2)] by (simp add: publication_recorded_def fin assms(4))
  show "\<exists>sl. find_slot d kind g' = Some ((fill (in_generation ans) sl)\<lparr>gs_has_content := True\<rparr>)"
    using slot by (auto simp: fin)
qed




section \<open>Publications that cannot be saved\<close>

lemma publish_unsaved:
  assumes "publish kind d claimed epoch observed pv valid fill unfill g = (ans, g')" and "governor_ok g" and "wf_evidence_kind kind"
    and "\<And>n sl. gs_state (fill n sl) = gs_state sl" and "\<And>sl. gs_state (unfill sl) = gs_state sl \<and> gs_has_content (unfill sl) = gs_has_content sl"
    and "ingest kind d claimed epoch observed pv (pv_payload_digest pv) g = (status, generation, False, g1)"
    and "status_ok status" and "status_ok valid" and "\<not> status_ok (in_status ans)"
  shows "find_registration p g' = find_registration p g"
    and "\<exists>sl. find_slot d kind g' = Some sl \<and> \<not> gs_has_content sl \<and> gs_state sl = (case find_slot d kind g of
       Some old \<Rightarrow> gs_state old | None \<Rightarrow> gs_state (received generation observed pv (pv_payload_digest pv) (empty_slot d kind)))"
    and "gv_open g' = gv_open g" "gv_accepting g' = gv_accepting g" "gv_index g' = gv_index g" "gv_options g' = gv_options g"
      "ds_epoch (gv_state g') = ds_epoch (gv_state g)"
proof -
  from ingest_accepts [OF assms(6,7)] obtain r i h where
    r: "find_registration (pv_publisher pv) g = Some r" and en: "ensure_slot d kind g = (i, h)" and
    g1: "g1 = accept_evidence i generation observed pv (pv_payload_digest pv) h" by metis
  note a = accept_evidence_sel [OF g1] and e = governor_ok_ensure [OF en assms(2,3)]
  have h: "gv_open h = gv_open g" "gv_accepting h = gv_accepting g" "gv_index h = gv_index g" "find_registration q h = find_registration q g" for q
    using en by (auto simp: ensure_slot_def find_registration_def split: option.splits)
  have at: "gv_slot_index g1 (slot_key d kind) = Some i" using index_after_ensure [OF en] a(2) by simp
  then have en1: "ensure_slot d kind g1 = (i, g1)" by (simp add: ensure_slot_def)
  let ?put = "\<lambda>sl. (fill generation sl)\<lparr>gs_has_content := True\<rparr>" and ?undo = "\<lambda>sl. unfill (sl\<lparr>gs_has_content := False\<rparr>)"
  let ?rb = "capture_rollback d kind (pv_publisher pv) g"
  obtain saved g3 where per: "persist_state True (sync_evidence_state (upd_slot i ?put g1)) = (saved, g3)"
    by (cases "persist_state True (sync_evidence_state (upd_slot i ?put g1))") auto
  have g': "g' = snd (rejected saved (upd_stats (\<lambda>t. t\<lparr>gt_evidence_accepted := gt_evidence_accepted t - 1\<rparr>)
      (restore_rollback ?rb d kind (upd_slot i ?undo g3))))"
    using assms(1,7,8,9) unfolding publish_def Let_def assms(6) prod.case en1 per by (auto split: if_splits)
  note c = core_ofD [OF persist_state_frame(1) [OF per]] and s = identity_ofD [OF persist_state_frame(2) [OF per]]
  have reg3: "find_registration q g3 = find_registration q g1" for q
    using s by (intro find_registration_cong) (simp add: sync_evidence_state_def)
  have at3: "gv_slot_index g3 (slot_key d kind) = Some i" "i < length (gv_slots g3)" using c at e(2) a(1) by (simp_all add: sync_evidence_state_def)
  then have en3: "ensure_slot d kind (upd_slot i ?undo g3) = (i, upd_slot i ?undo g3)" by (simp add: ensure_slot_def)
  let ?old = "upd_slot i (\<lambda>sl. case find_slot d kind g of None \<Rightarrow> sl | Some old \<Rightarrow> sl\<lparr>gs_state := gs_state old\<rparr>) (upd_slot i ?undo g3)"
  have rest: "restore_rollback ?rb d kind (upd_slot i ?undo g3)
      = update_registration (pv_publisher pv) (\<lambda>x. x\<lparr>pr_last_sequence := pr_last_sequence r\<rparr>) ?old"
    using r en3 at3(2) by (auto simp: restore_rollback_def capture_rollback_def upd_slot_def split: option.splits)
  show "find_registration p g' = find_registration p g"
    using a(3) r unfolding g' rest rejected_def
    by (auto simp: find_registration_def [of _ "upd_stats _ _"] find_registration_def [symmetric] find_updated_registration reg3 h
        find_registration_cong [of "?old" g3])
  show "\<exists>sl. find_slot d kind g' = Some sl \<and> \<not> gs_has_content sl \<and> gs_state sl = (case find_slot d kind g of
       Some old \<Rightarrow> gs_state old | None \<Rightarrow> gs_state (received generation observed pv (pv_payload_digest pv) (empty_slot d kind)))"
    using at3 c(5) e(2) a(1) assms(4,5) ensure_slot_content(1) [OF en] unfolding g' rest rejected_def
    by (auto simp: find_slot_at sync_evidence_state_def split: option.splits)
  show "gv_open g' = gv_open g" "gv_accepting g' = gv_accepting g" "gv_index g' = gv_index g" "gv_options g' = gv_options g"
    "ds_epoch (gv_state g') = ds_epoch (gv_state g)"
    using c s h a(4-8) e(5,6) unfolding g' rest rejected_def by (simp_all add: sync_evidence_state_def)
qed


lemma republished_is_duplicate:
  assumes "find_slot d kind g = Some sl" and "gv_open g" and "gv_accepting g" and "index_domain (gv_index g) d \<noteq> None"
    and "epoch_value epoch = epoch_value (ds_epoch (gv_state g))" and "find_registration (pv_publisher pv) g = Some r"
    and "\<not> pr_fenced r" and "pr_incarnation r = pv_incarnation pv" and "epoch_value (pr_epoch r) = epoch_value (ds_epoch (gv_state g))"
    and "pv_sequence pv \<noteq> 0" and "id_valid (pv_evidence_id pv)" and "sl_evidence_id (gs_state sl) = pv_evidence_id pv"
    and "sl_payload_digest (gs_state sl) = payload"
  shows "ingest kind d claimed epoch observed pv payload g = (status_success, sl_generation (gs_state sl), True, g)"
proof -
  have "\<exists>i. ensure_slot d kind g = (i, g) \<and> gv_slots g ! i = sl" using assms(1) by (auto simp: ensure_slot_def find_slot_def)
  then show ?thesis using assms(2-) by (auto simp: ingest_def ingest_slot_def)
qed

text \<open>
  C29. A publication the state file could not take leaves a trace only when it was the first of its slot: an
  existing slot keeps its generation, but a slot the publication created keeps the generation and the identity
  of the evidence that was refused, so that the same publication, tried again, is answered as an accepted
  duplicate while evaluations still find no evidence.
\<close>

theorem unsaved_first_publication_answers_duplicate:
  assumes "governor_ok g" and "ingest_capacity c g = (ans, g')" and "\<not> status_ok (in_status ans)"
    and "pv = with_digest (capacity_snapshot_digest c) (cs_provenance c)"
    and "status_ok (validate_capacity_snapshot (c\<lparr>cs_provenance := pv\<rparr>))"
    and "ingest Evidence_Capacity (cs_domain c) (gen_value (cs_generation c)) (cs_epoch c) (cs_tick c) pv (pv_payload_digest pv) g
      = (status, generation, False, g1)" and "status_ok status"
  shows "case find_slot (cs_domain c) Evidence_Capacity g of
      Some old \<Rightarrow> slot_generation (cs_domain c) Evidence_Capacity g' = sl_generation (gs_state old)
    | None \<Rightarrow> \<exists>g2. ingest_capacity c g' = (\<lparr>in_status = status_success, in_generation = 1, in_duplicate = True\<rparr>, g2)
        \<and> ev_capacity (current_evidence (cs_domain c) g2) = None"
proof -
  let ?fill = "\<lambda>n sl. sl\<lparr>gs_capacity := Some (numbered_capacity (c\<lparr>cs_provenance := pv\<rparr>) n)\<rparr>" and ?unfill = "\<lambda>sl. sl\<lparr>gs_capacity := None\<rparr>"
  have pub: "ingest_capacity c h = publish Evidence_Capacity (cs_domain c) (gen_value (cs_generation c)) (cs_epoch c) (cs_tick c) pv
      (validate_capacity_snapshot (c\<lparr>cs_provenance := pv\<rparr>)) ?fill ?unfill h" for h
    by (simp add: ingest_capacity_def assms(4) Let_def)
  note left = publish_unsaved [OF assms(2) [unfolded pub] assms(1) _ _ _ assms(6,7,5,3)]
  obtain sl where sl: "find_slot (cs_domain c) Evidence_Capacity g' = Some sl" "\<not> gs_has_content sl"
    "gs_state sl = (case find_slot (cs_domain c) Evidence_Capacity g of
       Some old \<Rightarrow> gs_state old | None \<Rightarrow> gs_state (received generation (cs_tick c) pv (pv_payload_digest pv) (empty_slot (cs_domain c) Evidence_Capacity)))"
    using left(2) by auto
  show ?thesis
  proof (cases "find_slot (cs_domain c) Evidence_Capacity g")
    case (Some old)
    with sl show ?thesis by (simp add: slot_generation_def)
  next
    case None
    from ingest_accepts [OF assms(6,7)] obtain r where r: "find_registration (pv_publisher pv) g = Some r" "\<not> pr_fenced r"
      "pr_incarnation r = pv_incarnation pv" "epoch_value (pr_epoch r) = epoch_value (ds_epoch (gv_state g))"
      "epoch_value (cs_epoch c) = epoch_value (ds_epoch (gv_state g))" "index_domain (gv_index g) (cs_domain c) \<noteq> None"
      "gv_open g" "gv_accepting g" "pv_sequence pv \<noteq> 0" "generation = slot_generation (cs_domain c) Evidence_Capacity g + 1" by metis
    have "id_valid (pv_evidence_id pv)"
      using assms(5) by (simp add: validate_capacity_iff capacity_accepted_def provenance_accepted_def provenance_complete_def)
    then have again: "ingest Evidence_Capacity (cs_domain c) (gen_value (cs_generation c)) (cs_epoch c) (cs_tick c) pv (pv_payload_digest pv) g'
        = (status_success, 1, True, g')"
      using republished_is_duplicate [OF sl(1)] sl(3) None r left by (simp add: slot_generation_def)
    let ?g2 = "upd_stats (\<lambda>t. t\<lparr>gt_evidence_duplicates := gt_evidence_duplicates t + 1\<rparr>) g'"
    have "ingest_capacity c g' = (\<lparr>in_status = status_success, in_generation = 1, in_duplicate = True\<rparr>, ?g2)"
      by (simp add: pub publish_def again assms(5))
    moreover have "find_slot (cs_domain c) Evidence_Capacity ?g2 = Some sl" using sl(1) by (simp add: find_slot_def)
    then have "ev_capacity (current_evidence (cs_domain c) ?g2) = None" using sl(2) by (simp add: current_evidence_def slot_content_def)
    ultimately show ?thesis by (simp add: None)
  qed
qed


section \<open>Witnesses\<close>

definition sample_update :: capacity_snapshot where
  "sample_update = sample_capacity\<lparr>cs_generation := Gen 0,
     cs_provenance := sample_provenance\<lparr>pv_sequence := 2, pv_evidence_id := StrongId 2\<rparr>\<rparr>"

definition sample_update_provenance :: provenance where
  "sample_update_provenance = with_digest (capacity_snapshot_digest sample_update) (cs_provenance sample_update)"

lemma sample_update_provenance_sel [simp]:
  "pv_publisher sample_update_provenance = StrongId 1" "pv_incarnation sample_update_provenance = StrongId 1"
  "pv_sequence sample_update_provenance = 2" "pv_evidence_id sample_update_provenance = StrongId 2"
  "pv_epoch sample_update_provenance = FabricEpoch 1"
  "pv_payload_digest sample_update_provenance = capacity_snapshot_digest sample_update"
  by (simp_all add: sample_update_provenance_def with_digest_def sample_update_def sample_provenance_def)

lemma sample_update_sel [simp]:
  "cs_domain sample_update = StrongId 7" "gen_value (cs_generation sample_update) = 0" "cs_epoch sample_update = FabricEpoch 1"
  "cs_tick sample_update = 20"
  by (simp_all add: sample_update_def sample_capacity_def)

lemma sample_update_digest: "length (capacity_snapshot_digest sample_update) = 32"
proof -
  have "digest_ok (capacity_snapshot_digest sample_update)"
    unfolding capacity_snapshot_digest_def Let_def
    by (rule digest_ok_canonical) (simp add: list_all_concat_map hash_resource_def)
  then show ?thesis by (simp add: digest_ok_def)
qed

lemma sample_update_valid: "status_ok (validate_capacity_snapshot (sample_update\<lparr>cs_provenance := sample_update_provenance\<rparr>))"
proof -
  have "capacity_snapshot_digest (sample_update\<lparr>cs_provenance := sample_update_provenance\<rparr>) = capacity_snapshot_digest sample_update"
    by (simp add: capacity_snapshot_digest_def)
  then show ?thesis
    by (simp add: validate_capacity_iff capacity_accepted_def provenance_accepted_def provenance_complete_def id_valid_def
        epoch_valid_def kHardMaxTicks_def word_le_nat_alt)
       (simp add: sample_update_def sample_capacity_def sample_resource_def resource_accepted_def id_valid_def gen_valid_def
        kHardMaxCapacityUnits_def kPpmScale_def)
qed

lemma sample_covered: "index_domain (gv_index sample_governor) (StrongId 7) \<noteq> None"
  by (simp add: sample_views)

lemma sample_registered: "find_registration (StrongId 1) sample_governor = Some \<lparr>pr_publisher = StrongId 1, pr_incarnation = StrongId 1,
    pr_epoch = FabricEpoch 1, pr_last_sequence = 1, pr_fenced = False, pr_fence_reason = Reason_None, pr_registered_tick = 0\<rparr>"
  by (simp add: find_registration_def sample_state_def)


definition sample_filled :: "u64 \<Rightarrow> content_slot \<Rightarrow> content_slot" where
  "sample_filled n sl = sl\<lparr>gs_capacity := Some (numbered_capacity (sample_update\<lparr>cs_provenance := sample_update_provenance\<rparr>) n)\<rparr>"

lemma sample_publication:
  "ingest_capacity sample_update g = publish Evidence_Capacity (StrongId 7) 0 (FabricEpoch 1) 20 sample_update_provenance
     (validate_capacity_snapshot (sample_update\<lparr>cs_provenance := sample_update_provenance\<rparr>)) sample_filled (\<lambda>sl. sl\<lparr>gs_capacity := None\<rparr>) g"
  by (simp add: ingest_capacity_def Let_def sample_filled_def [abs_def] sample_update_provenance_def sample_update_def sample_capacity_def)

lemma sample_ingests:
  assumes "ensure_slot (StrongId 7) Evidence_Capacity g = (i, h)" and "sl_evidence_id (gs_state (gv_slots h ! i)) \<noteq> StrongId 2"
    and "sl_generation (gs_state (gv_slots h ! i)) = n" and "n + 1 \<noteq> 0" and "gv_state g = sample_state" and "gv_open g" and "gv_accepting g"
    and "gv_index g = index_rebuild sample_policy" and "gv_options h = gv_options sample_governor"
  shows "ingest Evidence_Capacity (StrongId 7) 0 (FabricEpoch 1) 20 sample_update_provenance (capacity_snapshot_digest sample_update) g
    = (status_success, n + 1, False, accept_evidence i (n + 1) 20 sample_update_provenance (capacity_snapshot_digest sample_update) h)"
proof -
  have "find_registration (StrongId 1) g = find_registration (StrongId 1) sample_governor"
    by (rule find_registration_cong) (simp add: assms(5))
  moreover have "go_auto_assign (gv_options h)" by (simp add: assms(9) default_governor_options_def)
  moreover have "ds_epoch sample_state = FabricEpoch 1" by (simp add: sample_state_def)
  ultimately show ?thesis
    using assms(2-8) sample_covered by (simp add: ingest_def sample_registered ingest_slot_def assms(1) Let_def word_le_nat_alt)
qed



text \<open>The sample governor before any evidence was published, on a disk that refuses the next write.\<close>

definition sample_bare :: governor where
  "sample_bare = sample_governor\<lparr>gv_slots := [], gv_slot_index := Map.empty, gv_world := sample_world\<lparr>wd_outcomes := [Io_cannot_open]\<rparr>\<rparr>"

lemma sample_bare_ok: "governor_ok sample_bare"
  using sample_governor_ok sample_governor_sel by (simp add: governor_ok_def sample_bare_def slots_ok_def)

theorem unsaved_first_publication_answers_duplicate_witness:
  "\<exists>ans g' g2. ingest_capacity sample_update sample_bare = (ans, g') \<and> \<not> status_ok (in_status ans)
    \<and> ingest_capacity sample_update g' = (\<lparr>in_status = status_success, in_generation = 1, in_duplicate = True\<rparr>, g2)
    \<and> ev_capacity (current_evidence (StrongId 7) g2) = None"
proof -
  let ?D = "capacity_snapshot_digest sample_update"
  obtain h where en: "ensure_slot (StrongId 7) Evidence_Capacity sample_bare = (0, h)" "gv_slots h ! 0 = empty_slot (StrongId 7) Evidence_Capacity"
    "gv_options h = gv_options sample_governor" "gv_state h = sample_state" "gv_open h" "gv_store h = sample_store"
    "gv_world h = sample_world\<lparr>wd_outcomes := [Io_cannot_open]\<rparr>"
    by (simp add: ensure_slot_def sample_bare_def)
  define g1 where "g1 = accept_evidence 0 1 20 sample_update_provenance ?D h"
  have ing: "ingest Evidence_Capacity (StrongId 7) 0 (FabricEpoch 1) 20 sample_update_provenance ?D sample_bare = (status_success, 1, False, g1)"
    using sample_ingests [OF en(1), of 0] en(2,3) by (simp add: sample_bare_def empty_slot_def g1_def)
  note a = accept_evidence_sel [OF g1_def]
  have en1: "ensure_slot (StrongId 7) Evidence_Capacity g1 = (0, g1)" using index_after_ensure [OF en(1)] a(2) by (simp add: ensure_slot_def)
  define k where "k = sync_evidence_state (upd_slot 0 (\<lambda>sl. (sample_filled 1 sl)\<lparr>gs_has_content := True\<rparr>) g1)"
  have "sr_open (gv_store k)" "gv_open k" "wd_outcomes (gv_world k) = [Io_cannot_open]"
    using en by (simp_all add: k_def g1_def accept_evidence_def Let_def sync_evidence_state_def)
  then obtain saved g3 where per: "persist_state True k = (saved, g3)" "\<not> status_ok saved"
    by (cases "persist_state True k")
      (auto simp: persist_state_def save_state_def sync_evidence_state_def store_save_def write_file_atomic_def io_next_def io_error_def serialize_state_bytes
        Let_def split: prod.splits if_splits sum.splits)
  obtain ans g' where x: "ingest_capacity sample_update sample_bare = (ans, g')" by (cases "ingest_capacity sample_update sample_bare") auto
  then have bad: "\<not> status_ok (in_status ans)"
    using per(2) unfolding sample_publication publish_def Let_def sample_update_provenance_sel ing prod.case en1 k_def [symmetric] per(1)
    by (auto simp: sample_update_valid rejected_def)
  have none: "find_slot (StrongId 7) Evidence_Capacity sample_bare = None" by (simp add: find_slot_def sample_bare_def)
  from unsaved_first_publication_answers_duplicate [OF sample_bare_ok x bad sample_update_provenance_def sample_update_valid,
      unfolded sample_update_sel sample_update_provenance_sel, OF ing status_ok_success, unfolded none option.case]
  show ?thesis using x bad by auto
qed

end
