(* ===== verification/Restart_Properties.thy ===== *)
theory Restart_Properties
  imports Governor_Properties
begin

text \<open>
  What a restart does to the fences an epoch advance raised: the state file keeps them, the journal replayed
  over it does not.
\<close>

section \<open>The state a successful advance has saved\<close>

lemma save_state_saved:
  assumes "save_state g = (status, g')" and "status_ok status"
  shows "store_save (gv_state g') (gv_store g) (gv_world g) = (status, gv_world g')"
  using assms by (auto simp: save_state_def sync_evidence_state_def Let_def split: prod.splits if_splits)

lemma persist_state_saved:
  assumes "persist_state True g = (status, g')" and "status_ok status"
  shows "store_save (gv_state g') (gv_store g) (gv_world g) = (status, gv_world g')"
  using assms save_state_saved [of g status g'] by (auto simp: persist_state_def not_open_def split: if_splits)

lemma advance_epoch_saved:
  assumes "advance_epoch e g = (status, g')" and "status_ok status"
  shows "store_save (gv_state g') (gv_store g') (gv_world g) = (status, gv_world g')"
proof -
  let ?h = "(upd_state (\<lambda>s. s\<lparr>ds_publishers := map (\<lambda>r. r\<lparr>pr_fenced := True, pr_fence_reason := Reason_EpochNotAdvanced\<rparr>) (ds_publishers s),
       ds_domains := map (\<lambda>d. d\<lparr>rt_fenced := True, rt_fence_reason := Reason_EpochMismatch, rt_fence_epoch := e,
         rt_sticky := Outcome_Stale\<rparr>) (ds_domains s)\<rparr>)
       (drop_evidence_content (upd_stats (\<lambda>t. t\<lparr>gt_epoch_advances := gt_epoch_advances t + 1\<rparr>) (upd_state (\<lambda>s. s\<lparr>ds_epoch := e\<rparr>) g))))
       \<lparr>gv_dirty := True\<rparr>"
  have per: "persist_state True ?h = (status, g')"
    using assms by (auto simp: advance_epoch_def not_open_def Let_def split: if_splits)
  show ?thesis using persist_state_saved [OF per assms(2)] persist_state_frame(3) [OF per] by (simp add: drop_evidence_content_def)
qed

section \<open>The runtime state after a restart\<close>

lemma find_runtime_map: "List.find (\<lambda>d. rt_domain d = i) ds = runtime_map ds i"
  by (induction ds) (auto simp: runtime_map_def)

lemma replayed_last: "fold (\<lambda>a m. m(au_domain a \<mapsto> runtime_of_audit a)) (as @ [a]) m (au_domain a) = Some (runtime_of_audit a)"
  by simp

text \<open>An open that finds a saved state and a journal governs the domains as the replay left them.\<close>

lemma open_replays:
  assumes "governor_open opts initial g0 = (status, g2)" and "status_ok status" and "wd_outcomes (gv_world g0) = []"
    and "options_sane (store_options_of opts)"
    and "state_storable s" and "length (state_bytes s) \<le> unat (so_max_state_bytes (store_options_of opts))"
    and "status_ok (validate_policy (ds_policy s))" and "ds_policy_digest s = pl_digest (ds_policy s)"
    and "wd_state (gv_world g0) = Some (make_state_file (state_bytes s))"
    and "journal_file (gv_world g0) as" and "list_all (frame_fits (store_options_of opts)) as"
    and "length (journal_bytes_of as) \<le> unat (so_max_journal_bytes (store_options_of opts))"
    and "length as \<le> unat (so_max_journal_records (store_options_of opts))"
    and "distinct (map rt_domain (ds_domains s))" and "sorted_wrt (<) (0 # map (\<lambda>a. id_value (au_id a)) as)"
    and "length (ds_domains s) + length as \<le> 4096"
  shows "find_runtime i g2 = fold (\<lambda>a m. m(au_domain a \<mapsto> runtime_of_audit a)) as (runtime_map (ds_domains s)) i"
proof -
  obtain so st w where so: "store_open (store_options_of opts) (gv_store g0) (gv_world g0) = (so, st, w)" by (metis prod_cases3)
  have opened: "status_ok so" using assms(1,2) unfolding governor_open_def Let_def by (auto simp: so split: if_splits)
  then have st: "sr_open st" "sr_options st = store_options_of opts" "w = gv_world g0"
    using so assms(3) by (auto simp: store_open_def ensure_directory_def io_next_def Let_def split: if_splits)
  obtain s' rep st' where load: "store_load st w = (Inr (Some s', rep), st', w)"
    and domains: "runtime_map (ds_domains s') = fold (\<lambda>a m. m(au_domain a \<mapsto> runtime_of_audit a)) as (runtime_map (ds_domains s))"
    using store_load_runtime [of st w s as] assms(3-16) st by auto
  let ?g = "g0\<lparr>gv_options := opts, gv_store := st', gv_world := w\<rparr>"
  obtain sr gr where restored: "restore s' ?g = (sr, gr)" by (cases "restore s' ?g") auto
  have "status_ok sr" "g2 = gr\<lparr>gv_open := True, gv_accepting := True\<rparr>"
    using assms(1,2) opened unfolding governor_open_def Let_def by (auto simp: so load restored split: if_splits)
  moreover from this have "ds_domains (gv_state gr) = ds_domains s'"
    using restored unfolding restore_def Let_def by (auto split: if_splits dest!: persist_state_frame(2) dest: identity_ofD)
  ultimately show ?thesis by (simp add: find_runtime_def find_runtime_map domains)
qed

section \<open>The lost fence\<close>

text \<open>
  C28. A fence raised by an epoch advance does not survive a restart: the advance fences every domain and its
  state file says so, yet when the newest decision in the journal had not fenced its domain, the runtime that
  opens the same store again governs that domain unfenced and with the outcome of that older decision.
\<close>

theorem epoch_fence_lost_by_restart:
  assumes "governor_ok g" and "advance_epoch e g = (status, g1)" and "status_ok status" and "find_runtime (au_domain a) g1 = Some d"
    and "journal_holds (gv_store g1) (gv_world g1) (as @ [a])" and "\<not> au_fenced a"
    and "options_sane (sr_options (gv_store g1))" and "state_storable (gv_state g1)" and "wd_outcomes (gv_world g1) = []"
    and "distinct (map rt_domain (ds_domains (gv_state g1)))" and "sorted_wrt (<) (0 # map (\<lambda>a. id_value (au_id a)) (as @ [a]))"
    and "length (ds_domains (gv_state g1)) + length (as @ [a]) \<le> 4096"
    and "governor_open opts initial g0 = (status2, g2)" and "status_ok status2"
    and "gv_world g0 = gv_world g1" and "store_options_of opts = sr_options (gv_store g1)"
  shows "rt_fenced d \<and> (\<exists>d'. find_runtime (au_domain a) g2 = Some d' \<and> \<not> rt_fenced d' \<and> rt_sticky d' = au_effective a)"
proof -
  note saved = store_save_writes [OF advance_epoch_saved [OF assms(2,3)] assms(3)]
  have ok: "status_ok (validate_policy (ds_policy (gv_state g1)))" "ds_policy_digest (gv_state g1) = pl_digest (ds_policy (gv_state g1))"
    using governor_ok_epoch [OF assms(2,1)] by (simp_all add: governor_ok_def state_ok_def)
  have journal: "journal_file (gv_world g1) (as @ [a])" "list_all (frame_fits (sr_options (gv_store g1))) (as @ [a])"
    "length (journal_bytes_of (as @ [a])) \<le> unat (so_max_journal_bytes (sr_options (gv_store g1)))"
    "length (as @ [a]) \<le> unat (so_max_journal_records (sr_options (gv_store g1)))"
    using assms(5) by (simp_all add: journal_holds_def)
  have "find_runtime (au_domain a) g2 = fold (\<lambda>a m. m(au_domain a \<mapsto> runtime_of_audit a)) (as @ [a]) (runtime_map (ds_domains (gv_state g1))) (au_domain a)"
    using open_replays [OF assms(13,14) _ _ assms(8) _ ok] saved(1,2) journal assms(7,9-12,15,16) by simp
  then have "find_runtime (au_domain a) g2 = Some (runtime_of_audit a)" unfolding replayed_last .
  moreover have "rt_fenced d" using advanced(4) [OF assms(2,3)] assms(4) by (auto simp: find_runtime_def find_Some_iff)
  ultimately show ?thesis using assms(6) by (simp add: runtime_of_audit_def replay_domain_def)
qed


section \<open>Witness\<close>

text \<open>The sample governor with one decision in its journal that fenced nothing.\<close>

definition sample_record :: audit_record where
  "sample_record = sample_audit\<lparr>au_fenced := False\<rparr>"

definition sample_journaled :: governor where
  "sample_journaled = sample_governor\<lparr>gv_world := sample_world\<lparr>wd_journal := Some (journal_bytes_of [sample_record])\<rparr>,
     gv_store := sample_store\<lparr>sr_journal_bytes := word_of_nat (length (journal_bytes_of [sample_record])), sr_journal_records := 1\<rparr>\<rparr>"

lemma sample_record_storable: "audit_storable sample_record"
  using sample_audit_storable by (simp add: sample_record_def audit_storable_def)

lemma sample_record_fits: "frame_fits sample_options sample_record" "length (journal_bytes_of [sample_record]) \<le> 652"
  using audit_bytes_length [OF sample_record_storable] sample_record_storable by (simp_all add: frame_fits_def frame_of_length)

lemma sample_journaled_ok: "governor_ok sample_journaled"
  using sample_governor_ok sample_governor_sel by (simp add: governor_ok_def sample_journaled_def)

text \<open>The state its advance to epoch 2 saves.\<close>

definition sample_revoked :: durable_state where
  "sample_revoked = sample_state\<lparr>ds_epoch := FabricEpoch 2, ds_revision := 4,
     ds_publishers := map (\<lambda>r. r\<lparr>pr_fenced := True, pr_fence_reason := Reason_EpochNotAdvanced\<rparr>) (ds_publishers sample_state),
     ds_domains := [sample_runtime\<lparr>rt_fenced := True, rt_fence_reason := Reason_EpochMismatch, rt_fence_epoch := FabricEpoch 2,
       rt_sticky := Outcome_Stale\<rparr>],
     ds_evidence := map gs_state (map drop_content (gv_slots sample_governor))\<rparr>"

lemma sample_revoked_length: "length (state_bytes sample_revoked) \<le> 33554432"
  by (simp add: sample_revoked_def drop_content_def sample_slot_def sample_state_def sample_defs sample_runtime_def sample_audit_def
      fresh_runtime_def state_bytes_defs)

lemma sample_revoked_storable: "state_storable sample_revoked"
  using sample_state_storable
  by (simp add: state_storable_def sample_revoked_def runtime_storable_def wf_outcome_def drop_content_def sample_slot_def slot_storable_def
      wf_evidence_kind_def)

lemma sample_journaled_advances:
  "\<exists>g1. advance_epoch (FabricEpoch 2) sample_journaled = (status_success, g1) \<and> gv_state g1 = sample_revoked
    \<and> gv_store g1 = gv_store sample_journaled
    \<and> gv_world g1 = (gv_world sample_journaled)\<lparr>wd_state := Some (make_state_file (state_bytes sample_revoked))\<rparr>"
proof -
  define h where "h = (upd_state (\<lambda>s. s\<lparr>ds_publishers := map (\<lambda>r. r\<lparr>pr_fenced := True, pr_fence_reason := Reason_EpochNotAdvanced\<rparr>) (ds_publishers s),
       ds_domains := map (\<lambda>d. d\<lparr>rt_fenced := True, rt_fence_reason := Reason_EpochMismatch, rt_fence_epoch := FabricEpoch 2,
         rt_sticky := Outcome_Stale\<rparr>) (ds_domains s)\<rparr>)
       (drop_evidence_content (upd_stats (\<lambda>t. t\<lparr>gt_epoch_advances := gt_epoch_advances t + 1\<rparr>) (upd_state (\<lambda>s. s\<lparr>ds_epoch := FabricEpoch 2\<rparr>) sample_journaled))))
       \<lparr>gv_dirty := True\<rparr>"
  have adv: "advance_epoch (FabricEpoch 2) sample_journaled = persist_state True h"
    by (simp add: advance_epoch_def Let_def epoch_valid_def h_def sample_state_def word_le_nat_alt sample_journaled_def)
  have form: "saved_form h = sample_revoked"
    by (simp add: saved_form_def h_def sample_revoked_def drop_evidence_content_def sample_journaled_def sample_state_def)
  have h: "sr_open (gv_store h)" "gv_open h" "wd_outcomes (gv_world h) = []" "list_all (\<lambda>a. length (au_summary a) \<le> 256) (ds_audit (gv_state h))"
    "gv_store h = gv_store sample_journaled" "gv_world h = gv_world sample_journaled"
    by (simp_all add: h_def drop_evidence_content_def sample_world_def sample_audit_def sample_journaled_def)
  then obtain g1 where g1: "save_state h = (status_success, g1)" "gv_state g1 = sample_revoked"
    "gv_world g1 = (gv_world h)\<lparr>wd_state := Some (make_state_file (state_bytes sample_revoked))\<rparr>"
    using save_state_succeeds [of h] sample_revoked_length by (auto simp: form sample_journaled_def)
  from save_state_frame(3) [OF g1(1)] g1 h show ?thesis unfolding adv by (simp add: persist_state_def)
qed


definition sample_restart_options :: governor_options where
  "sample_restart_options = default_governor_options\<lparr>go_directory := ''d''\<rparr>"

lemma sample_restart_options_sel:
  "go_directory sample_restart_options = ''d''" "go_worker_threads sample_restart_options = 0"
  "go_max_pending_jobs sample_restart_options = 64" "store_options_of sample_restart_options = sample_options"
  by (simp_all add: sample_restart_options_def sample_options_of del: governor_options.update_convs)
     (simp_all add: default_governor_options_def)

text \<open>The state the restart loads, and what it saves with its new incarnation.\<close>

definition sample_replayed :: durable_state where
  "sample_replayed = sample_revoked\<lparr>ds_domains := [runtime_of_audit sample_record], ds_audit := [sample_record],
     ds_evidence := map (\<lambda>e. e\<lparr>sl_revalidation := True\<rparr>) (ds_evidence sample_revoked), ds_journal_records := 1\<rparr>"

lemma sample_merge:
  "(fst (merge_journal sample_options sample_revoked [sample_record] rep))
     \<lparr>ds_evidence := map (\<lambda>e. e\<lparr>sl_revalidation := True\<rparr>) (ds_evidence sample_revoked), ds_journal_records := 1\<rparr> = sample_replayed"
proof -
  have "merge_audit 65536 (ds_audit sample_revoked) [sample_record] = [sample_record]"
    by (simp add: merge_audit_def sample_revoked_def sample_record_def sample_audit_def)
  moreover have "ds_domains (fst (rebuild_from_audit (sample_revoked\<lparr>ds_audit := [sample_record]\<rparr>) [sample_record] fresh_report))
      = [runtime_of_audit sample_record]"
    by (simp add: rebuild_from_audit_def replay_start_def replay_record_def replay_apply_def Let_def emplace_def sample_revoked_def
        sample_record_def sample_audit_def sample_runtime_def fresh_runtime_def runtime_of_audit_def replay_domain_def fresh_report_def)
  ultimately show ?thesis
    by (simp add: merge_journal_def Let_def sample_replayed_def rebuild_from_audit_def replay_start_def replay_record_def replay_apply_def
        emplace_def sample_revoked_def sample_record_def sample_audit_def sample_runtime_def fresh_report_def sample_state_def
        split: prod.splits)
qed


lemma sample_reopens:
  assumes "gv_world g1 = (gv_world sample_journaled)\<lparr>wd_state := Some (make_state_file (state_bytes sample_revoked))\<rparr>"
  shows "\<exists>g2. governor_open sample_restart_options sample_policy (sample_governor\<lparr>gv_open := False, gv_store := store_close sample_store,
    gv_world := gv_world g1\<rparr>) = (status_success, g2)"
proof -
  let ?w = "gv_world g1" and ?st = "\<lparr>sr_options = sample_options, sr_open = True, sr_journal_bytes = word_of_nat (length (frame_of sample_record)), sr_journal_records = 0\<rparr>"
  have w: "wd_outcomes ?w = []" "wd_state ?w = Some (make_state_file (state_bytes sample_revoked))" "journal_file ?w [sample_record]"
    "wd_journal ?w = Some (journal_bytes_of [sample_record])"
    by (simp_all add: assms sample_journaled_def sample_world_def journal_file_def)
  have opened: "store_open sample_options (store_close sample_store) ?w = (status_success, ?st, ?w)"
    using w by (simp add: store_open_def store_close_def sample_store_def sample_options_def default_options_def ensure_directory_def
        io_next_def kMaxAuditRecords_def Let_def)
  have valid: "status_ok (validate_policy (ds_policy sample_revoked))" "ds_policy_digest sample_revoked = pl_digest (ds_policy sample_revoked)"
    using sample_valid by (simp_all add: sample_revoked_def)
  obtain rep st' where load: "store_load ?st ?w = (Inr (Some sample_replayed, rep), st', ?w)"
    using store_load_saved [of ?st ?w sample_revoked "[sample_record]"] w sample_revoked_storable sample_revoked_length valid sample_record_fits
    by (auto simp: sample_merge)
  note kept = store_load_store [OF load]
  let ?g = "sample_governor\<lparr>gv_open := False, gv_options := sample_restart_options, gv_store := st', gv_world := ?w\<rparr>"
  let ?slots = "map restored_slot (ds_evidence sample_replayed)"
  define h where "h = (upd_state (\<lambda>s. s\<lparr>ds_incarnation := StrongId (id_value (ds_incarnation s) + 1),
      ds_epoch := (if epoch_valid (ds_epoch s) then ds_epoch s else FabricEpoch 1),
      ds_evidence := map (\<lambda>e. e\<lparr>sl_revalidation := True\<rparr>) (ds_evidence s)\<rparr>) (?g\<lparr>gv_state := sample_replayed\<rparr>))
     \<lparr>gv_clock := snd (clock_restore (ds_tick sample_replayed) 21), gv_slots := ?slots, gv_slot_index := index_slots ?slots,
      gv_index := index_rebuild (ds_policy sample_replayed), gv_dirty := True\<rparr>"
  have "id_value (ds_incarnation sample_replayed) \<noteq> - 1" by (simp add: sample_replayed_def sample_revoked_def sample_state_def)
  then have restored: "restore sample_replayed ?g = persist_state True h"
    unfolding restore_def Let_def h_def by (simp add: upd_state_def)
  have h: "sr_open (gv_store h)" "\<not> gv_open h" "wd_outcomes (gv_world h) = []" "list_all (\<lambda>a. length (au_summary a) \<le> 256) (ds_audit (gv_state h))"
    "sr_options (gv_store h) = sample_options"
    using kept w by (simp_all add: h_def sample_replayed_def sample_record_def sample_audit_def)
  have "length (state_bytes (saved_form h)) \<le> 33554432"
    by (simp add: saved_form_def h_def sample_replayed_def restored_slot_def runtime_of_audit_def replay_domain_def sample_record_def
        sample_revoked_def drop_content_def sample_slot_def sample_state_def sample_defs sample_runtime_def sample_audit_def
        fresh_runtime_def state_bytes_defs)
  then obtain g3 where g3: "restore sample_replayed ?g = (status_success, g3)"
    using save_state_succeeds [of h] h unfolding restored by (auto simp: persist_state_def)
  have g: "sample_governor\<lparr>gv_open := False, gv_store := st', gv_world := ?w, gv_options := sample_restart_options\<rparr> = ?g" by simp
  show ?thesis
    using g3 unfolding governor_open_def Let_def by (simp add: sample_restart_options_sel opened load g)
qed

theorem epoch_fence_lost_by_restart_witness:
  "\<exists>g1 d g2 d'. advance_epoch (FabricEpoch 2) sample_journaled = (status_success, g1) \<and> find_runtime (StrongId 7) g1 = Some d \<and> rt_fenced d
    \<and> governor_open sample_restart_options sample_policy (sample_governor\<lparr>gv_open := False, gv_store := store_close sample_store,
        gv_world := gv_world g1\<rparr>) = (status_success, g2)
    \<and> find_runtime (StrongId 7) g2 = Some d' \<and> \<not> rt_fenced d'"
proof -
  obtain g1 where g1: "advance_epoch (FabricEpoch 2) sample_journaled = (status_success, g1)" "gv_state g1 = sample_revoked"
    "gv_store g1 = gv_store sample_journaled" "gv_world g1 = (gv_world sample_journaled)\<lparr>wd_state := Some (make_state_file (state_bytes sample_revoked))\<rparr>"
    using sample_journaled_advances by blast
  from sample_reopens [OF g1(4)] obtain g2 where
    g2: "governor_open sample_restart_options sample_policy (sample_governor\<lparr>gv_open := False, gv_store := store_close sample_store,
        gv_world := gv_world g1\<rparr>) = (status_success, g2)" by blast
  have found: "\<exists>d. find_runtime (au_domain sample_record) g1 = Some d"
    by (simp add: find_runtime_def g1(2) sample_revoked_def sample_record_def sample_audit_def sample_runtime_def)
  then obtain d where d: "find_runtime (au_domain sample_record) g1 = Some d" by blast
  have hyps: "journal_holds (gv_store g1) (gv_world g1) ([] @ [sample_record])" "\<not> au_fenced sample_record"
    "options_sane (sr_options (gv_store g1))" "state_storable (gv_state g1)" "wd_outcomes (gv_world g1) = []"
    "distinct (map rt_domain (ds_domains (gv_state g1)))" "sorted_wrt (<) (0 # map (\<lambda>a. id_value (au_id a)) ([] @ [sample_record]))"
    "length (ds_domains (gv_state g1)) + length ([] @ [sample_record]) \<le> 4096"
    using sample_record_fits sample_revoked_storable
    by (simp_all add: g1(2-4) sample_journaled_def journal_holds_def journal_file_def sample_world_def)
       (simp_all add: sample_record_def sample_audit_def sample_revoked_def)
  have "store_options_of sample_restart_options = sr_options (gv_store g1)"
    by (simp add: g1(3) sample_journaled_def sample_restart_options_sel)
  then have "rt_fenced d \<and> (\<exists>d'. find_runtime (au_domain sample_record) g2 = Some d' \<and> \<not> rt_fenced d'
      \<and> rt_sticky d' = au_effective sample_record)"
    by (intro epoch_fence_lost_by_restart [OF sample_journaled_ok g1(1) status_ok_success d hyps g2 status_ok_success]) simp_all
  moreover have "au_domain sample_record = StrongId 7" by (simp add: sample_record_def sample_audit_def)
  ultimately show ?thesis using g1(1) g2 d by auto
qed

end
