(* ===== verification/Explain.thy ===== *)
theory Explain
  imports Governor
begin

text \<open>
  The human-readable explanation of an evaluation (\<^verbatim>\<open>explain_evaluation\<close>): its lines in the order
  the code pushes them, the budget of lines and bytes they are pushed under, and that the budget is kept.
\<close>

section \<open>The lines\<close>

record explain_options =
  xo_max_lines :: u32
  xo_max_bytes :: u32
  xo_resources :: bool
  xo_notes :: bool
  xo_intents :: bool

definition default_explain_options :: explain_options where
  "default_explain_options =
     \<lparr>xo_max_lines = 64, xo_max_bytes = 8192, xo_resources = True, xo_notes = True, xo_intents = True\<rparr>"

abbreviation u64_text :: "u64 \<Rightarrow> string" where
  "u64_text \<equiv> to_string_u64"

definition outcome_lines :: "evaluation_result \<Rightarrow> string list" where
  "outcome_lines r =
     [''outcome: '' @ outcome_name (er_outcome r)
        @ (if er_reason r = Reason_None then '''' else '' ('' @ reason_code_name (er_reason r) @ '')'')]
     @ (if er_detail r \<noteq> '''' then [''detail: '' @ er_detail r] else [])"

definition accounting_lines :: "domain_accounting \<Rightarrow> string list" where
  "accounting_lines a =
     [''domain: '' @ id_to_string (da_domain a) @ '' pool: '' @ id_to_string (da_pool a),
      ''capacity: physical='' @ u64_text (da_physical a) @ '' usable='' @ u64_text (da_usable a)
        @ '' effective_usable='' @ u64_text (da_effective_usable a),
      ''guarantees: total='' @ u64_text (da_guarantees a) @ '' emergency_reserve='' @ u64_text (da_reserve a)
        @ '' min_headroom='' @ u64_text (da_min_headroom a) @ '' protected_required='' @ u64_text (da_protected_required a),
      ''contingent: committed='' @ u64_text (da_contingent_committed a) @ '' pending='' @ u64_text (da_contingent_pending a)
        @ '' burst='' @ u64_text (da_burst_committed a) @ '' ceiling='' @ u64_text (da_contingent_ceiling a)
        @ '' free='' @ u64_text (da_contingent_free a),
      ''ratio: configured='' @ ratio_to_string (da_configured_ratio a) @ '' effective='' @ ratio_to_string (da_effective_ratio a)
        @ '' ('' @ u64_text (da_effective_ratio_ppm a) @ '' ppm)''
        @ (if da_ratio_reduced a then '' reduced_by_degradation=true'' else ''''),
      ''commitment: ceiling_total='' @ u64_text (da_ceiling a) @ '' committed_total='' @ u64_text (da_committed a)
        @ '' overage='' @ u64_text (da_overage a) @ '' headroom_protected='' @ u64_text (da_protected_headroom a),
      ''risk_budget: ceiling='' @ u64_text (da_risk_ceiling a) @ '' remaining='' @ u64_text (da_risk_remaining a)
        @ '' exposure='' @ u64_text (da_exposure a) @ (if da_risk_exceeded a then '' exceeded=true'' else '' exceeded=false''),
      ''binding_constraint: '' @ constraint_name (da_binding a),
      ''health: degraded='' @ to_string_u32 (da_degraded a) @ '' failed='' @ to_string_u32 (da_failed a)]"

definition authority_lines :: "evaluation_result \<Rightarrow> string list" where
  "authority_lines r =
     [''authority: valid='' @ bool_name (er_authority_valid r) @ '' new_oversubscription='' @ bool_name (er_authorized r)
        @ '' increment='' @ u64_text (er_increment r) @ '' fence='' @ bool_name (er_fence_required r),
      ''authority_vector: '' @ authority_to_string (er_authority r)]"

definition resource_line :: "resource_accounting \<Rightarrow> string" where
  "resource_line x =
     ''  resource='' @ id_to_string (rx_resource x) @ '' health='' @ resource_health_name (rx_health x)
     @ '' usable='' @ u64_text (rx_effective_usable x) @ '' guarantees='' @ u64_text (rx_guarantees x)
     @ '' contingent='' @ u64_text (rx_contingent_committed x) @ '' ceiling='' @ u64_text (rx_ceiling x)
     @ '' free='' @ u64_text (rx_contingent_free x) @ '' overage='' @ u64_text (rx_overage x)"

definition intent_lines :: "corrective_intent \<Rightarrow> string list" where
  "intent_lines c =
     [''  '' @ corrective_kind_name (ci_kind c) @ '' target='' @ corrective_target_name (ci_target c)
        @ '' amount='' @ u64_text (ci_amount c)
        @ (if id_valid (ci_class c) then '' service_class='' @ id_to_string (ci_class c) else '''')
        @ (if id_valid (ci_resource c) then '' resource='' @ id_to_string (ci_resource c) else '''')
        @ '' reason='' @ reason_code_name (ci_reason c)]
     @ (if ci_rationale c \<noteq> '''' then [''    rationale: '' @ ci_rationale c] else [])"

definition explanation_lines :: "policy \<Rightarrow> evaluation_result \<Rightarrow> explain_options \<Rightarrow> string list" where
  "explanation_lines p r opts =
     outcome_lines r @ accounting_lines (er_accounting r) @ authority_lines r
     @ (if xo_resources opts \<and> er_resources r \<noteq> [] then ''resources:'' # map resource_line (er_resources r) else [])
     @ (if xo_intents opts \<and> er_intents r \<noteq> [] then ''corrective_intent:'' # concat (map intent_lines (er_intents r)) else [])
     @ (if xo_notes opts \<and> er_notes r \<noteq> [] then ''notes:'' # map (\<lambda>n. ''  '' @ n) (er_notes r) else [])
     @ [''result_digest: '' @ digest_to_hex (er_digest r),
        ''policy: id='' @ id_to_string (pl_id p) @ '' generation='' @ gen_to_string (pl_generation p)]"

section \<open>The budget\<close>

definition newline :: char where
  "newline = char_of (10 :: nat)"

definition line_limit :: "explain_options \<Rightarrow> u32" where
  "line_limit opts = min (if xo_max_lines opts = 0 then 1 else xo_max_lines opts) kHardMaxExplanationLines"

definition byte_limit :: "explain_options \<Rightarrow> u32" where
  "byte_limit opts = min (if xo_max_bytes opts = 0 then 1 else xo_max_bytes opts) kHardMaxExplanationBytes"

text \<open>The closure \<^verbatim>\<open>push\<close> over the output and its line lines_out.\<close>

definition push_line :: "nat \<Rightarrow> u32 \<Rightarrow> string \<Rightarrow> string \<times> u32 \<Rightarrow> string \<times> u32" where
  "push_line max_bytes max_lines line st =
     (let (out, lines_out) = st in
      if length out \<ge> max_bytes \<or> lines_out \<ge> max_lines then (out, lines_out)
      else let room = max_bytes - length out; wanted = length line + 1 in
        if wanted > room then (out @ take (if room > 0 then room - 1 else 0) line @ [newline], lines_out + 1)
        else (out @ line @ [newline], lines_out + 1))"

definition explain_evaluation :: "policy \<Rightarrow> evaluation_result \<Rightarrow> explain_options \<Rightarrow> string" where
  "explain_evaluation p r opts =
     fst (fold (push_line (unat (byte_limit opts)) (line_limit opts)) (explanation_lines p r opts) ([], 0))"

text \<open>The explanation of a decision: two lines follow the explanation of its evaluation, outside the budget.\<close>

definition bool_text :: "bool \<Rightarrow> string" where
  "bool_text b = (if b then ''true'' else ''false'')"

definition governor_explain :: "decision \<Rightarrow> explain_options \<Rightarrow> governor \<Rightarrow> status \<times> string" where
  "governor_explain x opts g =
     (status_success,
      explain_evaluation (ds_policy (gv_state g)) (de_evaluation x) opts
      @ ''decision: id='' @ u64_text (id_value (de_id x)) @ '' raw='' @ outcome_name (de_raw x)
      @ '' effective='' @ outcome_name (de_effective x) @ '' authorized='' @ bool_text (de_authorized x)
      @ '' increment='' @ u64_text (de_increment x) @ '' fenced='' @ bool_text (de_fenced x)
      @ '' confirmations='' @ u64_text (ucast (de_confirmations x)) @ [newline]
      @ ''decision_digest: '' @ digest_to_hex (de_digest x) @ [newline])"

section \<open>What the budget leaves\<close>

text \<open>All lines, each with its newline.\<close>

definition joined :: "string list \<Rightarrow> string" where
  "joined ls = concat (map (\<lambda>l. l @ [newline]) ls)"

lemma joined_simps [simp]: "joined [] = []" "joined (l # ls) = l @ newline # joined ls" "joined (ls @ ms) = joined ls @ joined ms"
  by (simp_all add: joined_def)

text \<open>A text cut to a number of bytes, the last of them a newline.\<close>

definition cut_to :: "nat \<Rightarrow> string \<Rightarrow> string" where
  "cut_to bytes s = (if length s \<le> bytes then s else take (bytes - 1) s @ [newline])"

lemma cut_to_length: "0 < bytes \<Longrightarrow> length (cut_to bytes s) = min bytes (length s)"
  by (simp add: cut_to_def)

lemma joined_ends: "joined ms \<noteq> [] \<Longrightarrow> joined ms = butlast (joined ms) @ [newline]"
  by (cases ms rule: rev_cases) (simp_all add: butlast_append)

text \<open>Once the bytes are used up, further lines change nothing.\<close>

lemma cut_to_full:
  assumes "0 < bytes" and "bytes \<le> length (joined ms)"
  shows "cut_to bytes (joined ms @ s) = cut_to bytes (joined ms)"
proof (cases "bytes = length (joined ms)")
  case True
  then have "joined ms \<noteq> []" using assms(1) by auto
  then have "take (bytes - 1) (joined ms) @ [newline] = joined ms"
    using joined_ends [of ms] True by (metis butlast_conv_take)
  with True show ?thesis by (simp add: cut_to_def)
next
  case False
  then show ?thesis using assms(2) by (simp add: cut_to_def)
qed

lemma push_lines_cut:
  assumes "0 < bytes"
  shows "fst (fold (push_line bytes lines) ls ([], 0)) = cut_to bytes (joined (take (unat lines) ls))
    \<and> (length (joined (take (unat lines) ls)) < bytes
        \<longrightarrow> unat (snd (fold (push_line bytes lines) ls ([], 0))) = min (unat lines) (length ls))"
proof (induction ls rule: rev_induct)
  case Nil
  then show ?case by (simp add: cut_to_def)
next
  case (snoc l ls)
  obtain out n where st: "fold (push_line bytes lines) ls ([], 0) = (out, n)" by fastforce
  let ?t = "joined (take (unat lines) ls)"
  have out: "out = cut_to bytes ?t" and n: "length ?t < bytes \<Longrightarrow> unat n = min (unat lines) (length ls)"
    using snoc.IH by (auto simp: st)
  have step: "fold (push_line bytes lines) (ls @ [l]) ([], 0) = push_line bytes lines l (out, n)" by (simp add: st)
  consider (bytes) "bytes \<le> length ?t" | (lines) "length ?t < bytes" "unat lines \<le> length ls"
    | (room) "length ?t < bytes" "length ls < unat lines" by linarith
  then show ?case
  proof cases
    case bytes
    then have "push_line bytes lines l (out, n) = (out, n)"
      using assms by (simp add: push_line_def out cut_to_length)
    with bytes show ?thesis unfolding step by (cases "unat lines - length ls") (simp_all add: out cut_to_full [OF assms])
  next
    case lines
    then have "push_line bytes lines l (out, n) = (out, n)"
      using n by (simp add: push_line_def word_le_nat_alt min_def)
    with lines n show ?thesis unfolding step by (simp add: out)
  next
    case room
    then have m: "out = joined ls" "unat n = length ls" using n by (simp_all add: out cut_to_def)
    with room have less: "n < lines" by (simp add: word_less_nat_alt)
    then have "n \<noteq> - 1" using less_le_trans [OF less word_order.extremum] by simp
    then have "unat (n + 1) = Suc (length ls)" by (simp add: unat_inc m(2))
    then show ?thesis
      using room m less unfolding step by (auto simp: push_line_def Let_def cut_to_def not_le)
  qed
qed

lemma limits_positive: "0 < unat (byte_limit opts)" "0 < line_limit opts" "unat (byte_limit opts) \<le> 262144" "unat (line_limit opts) \<le> 4096"
  by (auto simp: byte_limit_def line_limit_def kHardMaxExplanationBytes_def kHardMaxExplanationLines_def word_le_nat_alt word_less_nat_alt
      min_def unat_gt_0)

text \<open>
  An explanation stays within its budget and says nothing else: it is the full explanation, of which as
  many lines are kept as the line budget allows, and of these as many bytes as the byte budget allows, the last
  of them a newline; the budgets are the configured ones, at least 1 and never more than 4096 lines and 262144
  bytes.
\<close>

theorem explanation_within_budget:
  "explain_evaluation p r opts = cut_to (unat (byte_limit opts)) (joined (take (unat (line_limit opts)) (explanation_lines p r opts)))
    \<and> length (explain_evaluation p r opts) \<le> unat (byte_limit opts)
    \<and> unat (byte_limit opts) = min (max 1 (unat (xo_max_bytes opts))) 262144
    \<and> unat (line_limit opts) = min (max 1 (unat (xo_max_lines opts))) 4096"
proof (intro conjI)
  show eq: "explain_evaluation p r opts = cut_to (unat (byte_limit opts)) (joined (take (unat (line_limit opts)) (explanation_lines p r opts)))"
    unfolding explain_evaluation_def using push_lines_cut [OF limits_positive(1)] by blast
  show "length (explain_evaluation p r opts) \<le> unat (byte_limit opts)"
    unfolding eq by (simp only: cut_to_length [OF limits_positive(1)] min.cobounded1)
qed (simp_all add: byte_limit_def line_limit_def kHardMaxExplanationBytes_def kHardMaxExplanationLines_def min_def max_def
      word_le_nat_alt unat_eq_0 Suc_le_eq unat_gt_0)

end
