(* ===== verification/Protocol.thy ===== *)
theory Protocol
  imports State_Facts Governor
begin

text \<open>
  The wire protocol (\<^verbatim>\<open>dist/protocol.hpp\<close>, \<^verbatim>\<open>dist/protocol.cpp\<close>): its messages, one encoder
  and one decoder for each. An encoder is the payload it leaves in \<^verbatim>\<open>out\<close>; a decoder is the message, or
  \<^const>\<open>None\<close> where it returns \<^verbatim>\<open>false\<close>. What a failed decoder has written into its output
  parameter is not modelled: every caller drops the message.
\<close>

section \<open>Messages\<close>

definition kMaxDetailLength :: u32 where "kMaxDetailLength = 256"
definition kMaxWireIntents :: u32 where "kMaxWireIntents = 16"
definition kMaxWireResources :: u32 where "kMaxWireResources = 64"
definition kProtocolVersion :: u32 where "kProtocolVersion = 1"

lemma wire_bounds [simp]:
  "unat kMaxDetailLength = 256" "unat kMaxWireIntents = 16" "unat kMaxWireResources = 64"
  by (simp_all add: kMaxDetailLength_def kMaxWireIntents_def kMaxWireResources_def)

text \<open>A value of the enumeration, or any other word cast to it.\<close>

datatype message_type =
  Msg_Hello
| Msg_HelloAck
| Msg_Reject
| Msg_Publish
| Msg_PublishAck
| Msg_Evaluate
| Msg_Decision
| Msg_Revalidate
| Msg_RevalidateAck
| Msg_FencePublisher
| Msg_Shutdown
| Msg_ShutdownAck
| Msg_cast u32

primrec message_type_to_u32 :: "message_type \<Rightarrow> u32" where
  "message_type_to_u32 Msg_Hello = 1"
| "message_type_to_u32 Msg_HelloAck = 2"
| "message_type_to_u32 Msg_Reject = 3"
| "message_type_to_u32 Msg_Publish = 4"
| "message_type_to_u32 Msg_PublishAck = 5"
| "message_type_to_u32 Msg_Evaluate = 6"
| "message_type_to_u32 Msg_Decision = 7"
| "message_type_to_u32 Msg_Revalidate = 8"
| "message_type_to_u32 Msg_RevalidateAck = 9"
| "message_type_to_u32 Msg_FencePublisher = 10"
| "message_type_to_u32 Msg_Shutdown = 11"
| "message_type_to_u32 Msg_ShutdownAck = 12"
| "message_type_to_u32 (Msg_cast n) = n"

primrec message_type_name :: "message_type \<Rightarrow> string" where
  "message_type_name Msg_Hello = ''HELLO''"
| "message_type_name Msg_HelloAck = ''HELLO_ACK''"
| "message_type_name Msg_Reject = ''REJECT''"
| "message_type_name Msg_Publish = ''PUBLISH''"
| "message_type_name Msg_PublishAck = ''PUBLISH_ACK''"
| "message_type_name Msg_Evaluate = ''EVALUATE''"
| "message_type_name Msg_Decision = ''DECISION''"
| "message_type_name Msg_Revalidate = ''REVALIDATE''"
| "message_type_name Msg_RevalidateAck = ''REVALIDATE_ACK''"
| "message_type_name Msg_FencePublisher = ''FENCE_PUBLISHER''"
| "message_type_name Msg_Shutdown = ''SHUTDOWN''"
| "message_type_name Msg_ShutdownAck = ''SHUTDOWN_ACK''"
| "message_type_name (Msg_cast n) = ''UNKNOWN''"

record hello_request =
  hq_version :: u32
  hq_publisher :: publisher_id
  hq_incarnation :: incarnation_id
  hq_domain :: domain_id
  hq_adopt :: bool
  hq_tick :: u64

record hello_response =
  hs_version :: u32
  hs_epoch :: fabric_epoch
  hs_policy_generation :: policy_generation
  hs_capacity_generation :: u64
  hs_reservation_generation :: u64
  hs_admission_generation :: u64
  hs_last_sequence :: u64

record publish_ack =
  pa_code :: status_code
  pa_reason :: reason_code
  pa_generation :: u64
  pa_duplicate :: bool
  pa_detail :: string

record revalidate_ack =
  ra_valid :: bool
  ra_reason :: reason_code
  ra_detail :: string

section \<open>Shared parts\<close>

text \<open>A payload holds one message and nothing after it (\<^verbatim>\<open>at_end\<close>).\<close>

definition whole :: "'a reader \<Rightarrow> u8 list \<Rightarrow> 'a option" where
  "whole r payload = (case r payload of None \<Rightarrow> None | Some (x, rest) \<Rightarrow> if rest = [] then Some x else None)"

definition w_detail :: "string \<Rightarrow> u8 list" where
  "w_detail s = w_string_dropped (if length s > unat kMaxDetailLength then take (unat kMaxDetailLength) s else s) kMaxDetailLength"

definition write_provenance :: "provenance \<Rightarrow> u8 list" where
  "write_provenance p =
     w_u64 (id_value (pv_publisher p)) @ w_u64 (id_value (pv_incarnation p)) @ w_u64 (epoch_value (pv_epoch p))
     @ w_u64 (pv_sequence p) @ w_u64 (pv_observed_tick p) @ w_u64 (pv_observed_wall_millis p)
     @ w_u64 (id_value (pv_evidence_id p)) @ w_digest (pv_payload_digest p)"

definition read_provenance :: "provenance reader" where
  "read_provenance bs = do {
     (p, bs) \<leftarrow> r_u64 bs; (inc, bs) \<leftarrow> r_u64 bs; (epoch, bs) \<leftarrow> r_u64 bs; (sequence, bs) \<leftarrow> r_u64 bs;
     (tick, bs) \<leftarrow> r_u64 bs; (wall, bs) \<leftarrow> r_u64 bs; (evidence, bs) \<leftarrow> r_u64 bs; (digest, bs) \<leftarrow> r_digest bs;
     Some (\<lparr>pv_publisher = StrongId p, pv_incarnation = StrongId inc, pv_epoch = FabricEpoch epoch, pv_sequence = sequence,
            pv_observed_tick = tick, pv_observed_wall_millis = wall, pv_evidence_id = StrongId evidence,
            pv_payload_digest = digest\<rparr>, bs)
   }"

definition write_authority :: "authority_vector \<Rightarrow> u8 list" where
  "write_authority v =
     w_u64 (id_value (av_domain v)) @ w_u64 (gen_value (av_domain_generation v)) @ w_u64 (id_value (av_policy v))
     @ w_u64 (gen_value (av_policy_generation v)) @ w_u64 (gen_value (av_capacity_generation v))
     @ w_u64 (gen_value (av_reservation_generation v)) @ w_u64 (gen_value (av_admission_generation v))
     @ w_u64 (id_value (av_risk_budget v)) @ w_u64 (gen_value (av_risk_budget_generation v)) @ w_u64 (epoch_value (av_epoch v))
     @ w_u64 (av_resource_set_fold v) @ w_digest (av_input_digest v)"

definition read_authority :: "authority_vector reader" where
  "read_authority bs = do {
     (d, bs) \<leftarrow> r_u64 bs; (dg, bs) \<leftarrow> r_u64 bs; (p, bs) \<leftarrow> r_u64 bs; (pg, bs) \<leftarrow> r_u64 bs; (cg, bs) \<leftarrow> r_u64 bs;
     (rg, bs) \<leftarrow> r_u64 bs; (ag, bs) \<leftarrow> r_u64 bs; (b, bs) \<leftarrow> r_u64 bs; (bg, bs) \<leftarrow> r_u64 bs; (epoch, bs) \<leftarrow> r_u64 bs;
     (f, bs) \<leftarrow> r_u64 bs; (digest, bs) \<leftarrow> r_digest bs;
     Some (\<lparr>av_domain = StrongId d, av_domain_generation = Gen dg, av_policy = StrongId p, av_policy_generation = Gen pg,
            av_capacity_generation = Gen cg, av_reservation_generation = Gen rg, av_admission_generation = Gen ag,
            av_risk_budget = StrongId b, av_risk_budget_generation = Gen bg, av_epoch = FabricEpoch epoch,
            av_resource_set_fold = f, av_input_digest = digest\<rparr>, bs)
   }"

definition write_accounting :: "domain_accounting \<Rightarrow> u8 list" where
  "write_accounting a =
     w_u64 (id_value (da_domain a)) @ w_u64 (id_value (da_pool a)) @ w_u64 (da_physical a) @ w_u64 (da_usable a)
     @ w_u64 (da_effective_usable a) @ w_u64 (da_guarantees a) @ w_u64 (da_reserve a) @ w_u64 (da_min_headroom a)
     @ w_u64 (da_protected_required a) @ w_u64 (da_floor_required a) @ w_u64 (rat_num (da_configured_ratio a))
     @ w_u64 (rat_den (da_configured_ratio a)) @ w_u64 (rat_num (da_effective_ratio a)) @ w_u64 (rat_den (da_effective_ratio a))
     @ w_u64 (da_configured_ratio_ppm a) @ w_u64 (da_effective_ratio_ppm a) @ w_bool (da_ratio_reduced a) @ w_u64 (da_ceiling a)
     @ w_u64 (da_contingent_ceiling a) @ w_u64 (da_contingent_committed a) @ w_u64 (da_contingent_pending a)
     @ w_u64 (da_burst_committed a) @ w_u64 (da_guaranteed_admitted a) @ w_u64 (da_contingent_free a) @ w_u64 (da_committed a)
     @ w_u64 (da_overage a) @ w_u64 (da_protected_headroom a) @ w_u64 (da_used_ppm a) @ w_u64 (da_exposure a)
     @ w_u64 (da_risk_ceiling a) @ w_u64 (da_risk_remaining a) @ w_bool (da_risk_exceeded a) @ w_u64 (da_oos_guarantees a)
     @ w_u64 (da_oos_demand a) @ w_u32 (da_degraded a) @ w_u32 (da_failed a) @ w_u32 (constraint_to_u32 (da_binding a))
     @ w_bool (da_approaching a) @ w_bool (da_closed a)"

definition read_accounting :: "domain_accounting reader" where
  "read_accounting bs = do {
     (d, bs) \<leftarrow> r_u64 bs; (pool, bs) \<leftarrow> r_u64 bs; (physical, bs) \<leftarrow> r_u64 bs; (usable, bs) \<leftarrow> r_u64 bs;
     (effective, bs) \<leftarrow> r_u64 bs; (guarantees, bs) \<leftarrow> r_u64 bs; (reserve, bs) \<leftarrow> r_u64 bs; (headroom, bs) \<leftarrow> r_u64 bs;
     (required, bs) \<leftarrow> r_u64 bs; (fl, bs) \<leftarrow> r_u64 bs; (cn, bs) \<leftarrow> r_u64 bs; (cd, bs) \<leftarrow> r_u64 bs; (en, bs) \<leftarrow> r_u64 bs;
     (ed, bs) \<leftarrow> r_u64 bs; (cppm, bs) \<leftarrow> r_u64 bs; (eppm, bs) \<leftarrow> r_u64 bs; (reduced, bs) \<leftarrow> r_bool bs; (ceil, bs) \<leftarrow> r_u64 bs;
     (cc, bs) \<leftarrow> r_u64 bs; (ccom, bs) \<leftarrow> r_u64 bs; (cpen, bs) \<leftarrow> r_u64 bs; (burst, bs) \<leftarrow> r_u64 bs; (gadm, bs) \<leftarrow> r_u64 bs;
     (free, bs) \<leftarrow> r_u64 bs; (committed, bs) \<leftarrow> r_u64 bs; (overage, bs) \<leftarrow> r_u64 bs; (ph, bs) \<leftarrow> r_u64 bs; (used, bs) \<leftarrow> r_u64 bs;
     (exposure, bs) \<leftarrow> r_u64 bs; (rc, bs) \<leftarrow> r_u64 bs; (rr, bs) \<leftarrow> r_u64 bs; (exceeded, bs) \<leftarrow> r_bool bs; (og, bs) \<leftarrow> r_u64 bs;
     (od, bs) \<leftarrow> r_u64 bs; (degraded, bs) \<leftarrow> r_u32 bs; (failed, bs) \<leftarrow> r_u32 bs; (binding, bs) \<leftarrow> r_u32 bs;
     (approaching, bs) \<leftarrow> r_bool bs; (closed, bs) \<leftarrow> r_bool bs;
     Some (\<lparr>da_domain = StrongId d, da_pool = StrongId pool, da_physical = physical, da_usable = usable,
            da_effective_usable = effective, da_guarantees = guarantees, da_reserve = reserve, da_min_headroom = headroom,
            da_protected_required = required, da_floor_required = fl, da_configured_ratio = Ratio cn cd,
            da_effective_ratio = Ratio en ed, da_configured_ratio_ppm = cppm, da_effective_ratio_ppm = eppm,
            da_ratio_reduced = reduced, da_ceiling = ceil, da_contingent_ceiling = cc, da_contingent_committed = ccom,
            da_contingent_pending = cpen, da_burst_committed = burst, da_guaranteed_admitted = gadm, da_contingent_free = free,
            da_committed = committed, da_overage = overage, da_protected_headroom = ph, da_used_ppm = used,
            da_exposure = exposure, da_risk_ceiling = rc, da_risk_remaining = rr, da_risk_exceeded = exceeded,
            da_oos_guarantees = og, da_oos_demand = od, da_degraded = degraded, da_failed = failed,
            da_binding = constraint_of_u32 binding, da_approaching = approaching, da_closed = closed\<rparr>, bs)
   }"

definition write_intent :: "corrective_intent \<Rightarrow> u8 list" where
  "write_intent c =
     w_u32 (corrective_kind_to_u32 (ci_kind c)) @ w_u32 (corrective_target_to_u32 (ci_target c)) @ w_u64 (id_value (ci_domain c))
     @ w_u64 (id_value (ci_resource c)) @ w_u64 (id_value (ci_pool c)) @ w_u64 (id_value (ci_class c)) @ w_u64 (ci_amount c)
     @ w_u32 (reason_value (ci_reason c)) @ w_string_dropped (ci_rationale c) kMaxDetailLength"

definition read_intent :: "corrective_intent reader" where
  "read_intent bs = do {
     (kind, bs) \<leftarrow> r_u32 bs; (target, bs) \<leftarrow> r_u32 bs; (d, bs) \<leftarrow> r_u64 bs; (x, bs) \<leftarrow> r_u64 bs; (pool, bs) \<leftarrow> r_u64 bs;
     (sc, bs) \<leftarrow> r_u64 bs; (amount, bs) \<leftarrow> r_u64 bs; (reason, bs) \<leftarrow> r_u32 bs; (rationale, bs) \<leftarrow> r_string kMaxDetailLength bs;
     Some (\<lparr>ci_kind = corrective_kind_of_u32 kind, ci_target = corrective_target_of_u32 target, ci_domain = StrongId d,
            ci_resource = StrongId x, ci_pool = StrongId pool, ci_class = StrongId sc, ci_amount = amount,
            ci_reason = ReasonCode reason, ci_rationale = rationale\<rparr>, bs)
   }"

section \<open>Greetings and acknowledgements\<close>

definition encode_hello :: "hello_request \<Rightarrow> u8 list" where
  "encode_hello q =
     w_u32 (hq_version q) @ w_u64 (id_value (hq_publisher q)) @ w_u64 (id_value (hq_incarnation q)) @ w_u64 (id_value (hq_domain q))
     @ w_bool (hq_adopt q) @ w_u64 (hq_tick q)"

definition decode_hello :: "u8 list \<Rightarrow> hello_request option" where
  "decode_hello = whole (\<lambda>bs. do {
     (version, bs) \<leftarrow> r_u32 bs; (p, bs) \<leftarrow> r_u64 bs; (inc, bs) \<leftarrow> r_u64 bs; (d, bs) \<leftarrow> r_u64 bs; (adopt, bs) \<leftarrow> r_bool bs;
     (tick, bs) \<leftarrow> r_u64 bs;
     Some (\<lparr>hq_version = version, hq_publisher = StrongId p, hq_incarnation = StrongId inc, hq_domain = StrongId d,
            hq_adopt = adopt, hq_tick = tick\<rparr>, bs)
   })"

definition encode_hello_response :: "hello_response \<Rightarrow> u8 list" where
  "encode_hello_response h =
     w_u32 (hs_version h) @ w_u64 (epoch_value (hs_epoch h)) @ w_u64 (gen_value (hs_policy_generation h))
     @ w_u64 (hs_capacity_generation h) @ w_u64 (hs_reservation_generation h) @ w_u64 (hs_admission_generation h)
     @ w_u64 (hs_last_sequence h)"

definition decode_hello_response :: "u8 list \<Rightarrow> hello_response option" where
  "decode_hello_response = whole (\<lambda>bs. do {
     (version, bs) \<leftarrow> r_u32 bs; (epoch, bs) \<leftarrow> r_u64 bs; (pg, bs) \<leftarrow> r_u64 bs; (cg, bs) \<leftarrow> r_u64 bs; (rg, bs) \<leftarrow> r_u64 bs;
     (ag, bs) \<leftarrow> r_u64 bs; (sequence, bs) \<leftarrow> r_u64 bs;
     Some (\<lparr>hs_version = version, hs_epoch = FabricEpoch epoch, hs_policy_generation = Gen pg, hs_capacity_generation = cg,
            hs_reservation_generation = rg, hs_admission_generation = ag, hs_last_sequence = sequence\<rparr>, bs)
   })"

definition encode_status :: "status \<Rightarrow> u8 list" where
  "encode_status s = w_u32 (status_code_to_u32 (st_code s)) @ w_u32 (reason_value (st_reason s)) @ w_detail (st_detail s)"

definition decode_status :: "u8 list \<Rightarrow> status option" where
  "decode_status = whole (\<lambda>bs. do {
     (code, bs) \<leftarrow> r_u32 bs; (reason, bs) \<leftarrow> r_u32 bs; (detail, bs) \<leftarrow> r_string kMaxDetailLength bs;
     Some (\<lparr>st_code = status_code_of_u32 code, st_reason = ReasonCode reason, st_detail = detail\<rparr>, bs)
   })"

definition encode_publish_ack :: "publish_ack \<Rightarrow> u8 list" where
  "encode_publish_ack a =
     w_u32 (status_code_to_u32 (pa_code a)) @ w_u32 (reason_value (pa_reason a)) @ w_u64 (pa_generation a)
     @ w_bool (pa_duplicate a) @ w_detail (pa_detail a)"

definition decode_publish_ack :: "u8 list \<Rightarrow> publish_ack option" where
  "decode_publish_ack = whole (\<lambda>bs. do {
     (code, bs) \<leftarrow> r_u32 bs; (reason, bs) \<leftarrow> r_u32 bs; (generation, bs) \<leftarrow> r_u64 bs; (duplicate, bs) \<leftarrow> r_bool bs;
     (detail, bs) \<leftarrow> r_string kMaxDetailLength bs;
     Some (\<lparr>pa_code = status_code_of_u32 code, pa_reason = ReasonCode reason, pa_generation = generation,
            pa_duplicate = duplicate, pa_detail = detail\<rparr>, bs)
   })"

definition encode_revalidate_ack :: "revalidate_ack \<Rightarrow> u8 list" where
  "encode_revalidate_ack a = w_bool (ra_valid a) @ w_u32 (reason_value (ra_reason a)) @ w_detail (ra_detail a)"

definition decode_revalidate_ack :: "u8 list \<Rightarrow> revalidate_ack option" where
  "decode_revalidate_ack = whole (\<lambda>bs. do {
     (valid, bs) \<leftarrow> r_bool bs; (reason, bs) \<leftarrow> r_u32 bs; (detail, bs) \<leftarrow> r_string kMaxDetailLength bs;
     Some (\<lparr>ra_valid = valid, ra_reason = ReasonCode reason, ra_detail = detail\<rparr>, bs)
   })"


section \<open>Evidence\<close>

definition write_resource :: "resource_capacity \<Rightarrow> u8 list" where
  "write_resource r =
     w_u64 (id_value (rc_resource r)) @ w_u64 (id_value (rc_pool r)) @ w_u64 (rc_physical r) @ w_u64 (rc_usable r)
     @ w_u32 (resource_health_to_u32 (rc_health r)) @ w_u64 (rc_degraded_ppm r) @ w_u64 (gen_value (rc_generation r))"

definition read_resource :: "resource_capacity reader" where
  "read_resource bs = do {
     (i, bs) \<leftarrow> r_u64 bs; (pool, bs) \<leftarrow> r_u64 bs; (physical, bs) \<leftarrow> r_u64 bs; (usable, bs) \<leftarrow> r_u64 bs; (health, bs) \<leftarrow> r_u32 bs;
     (ppm, bs) \<leftarrow> r_u64 bs; (g, bs) \<leftarrow> r_u64 bs;
     Some (\<lparr>rc_resource = StrongId i, rc_pool = StrongId pool, rc_physical = physical, rc_usable = usable,
            rc_health = resource_health_of_u32 health, rc_degraded_ppm = ppm, rc_generation = Gen g\<rparr>, bs)
   }"

definition encode_capacity_snapshot :: "capacity_snapshot \<Rightarrow> u8 list" where
  "encode_capacity_snapshot s =
     w_u64 (id_value (cs_domain s)) @ w_u64 (gen_value (cs_generation s)) @ w_u64 (epoch_value (cs_epoch s)) @ w_u64 (cs_tick s)
     @ w_list write_resource (cs_resources s) @ write_provenance (cs_provenance s)"

definition decode_capacity_snapshot :: "u8 list \<Rightarrow> capacity_snapshot option" where
  "decode_capacity_snapshot = whole (\<lambda>bs. do {
     (d, bs) \<leftarrow> r_u64 bs; (g, bs) \<leftarrow> r_u64 bs; (epoch, bs) \<leftarrow> r_u64 bs; (tick, bs) \<leftarrow> r_u64 bs;
     (resources, bs) \<leftarrow> r_list (unat kHardMaxResourcesPerSnapshot) read_resource bs; (p, bs) \<leftarrow> read_provenance bs;
     Some (\<lparr>cs_domain = StrongId d, cs_generation = Gen g, cs_epoch = FabricEpoch epoch, cs_tick = tick,
            cs_resources = resources, cs_provenance = p\<rparr>, bs)
   })"

definition write_guarantee :: "guarantee \<Rightarrow> u8 list" where
  "write_guarantee g =
     w_u64 (id_value (gt_reservation g)) @ w_u64 (id_value (gt_resource g)) @ w_u64 (id_value (gt_pool g)) @ w_u64 (id_value (gt_class g))
     @ w_u64 (gt_capacity g) @ w_u32 (priority_value (gt_priority g)) @ w_bool (gt_protected g) @ w_bool (gt_preemptible g)
     @ w_u64 (gen_value (gt_generation g))"

definition read_guarantee :: "guarantee reader" where
  "read_guarantee bs = do {
     (i, bs) \<leftarrow> r_u64 bs; (x, bs) \<leftarrow> r_u64 bs; (pool, bs) \<leftarrow> r_u64 bs; (sc, bs) \<leftarrow> r_u64 bs; (capacity, bs) \<leftarrow> r_u64 bs;
     (priority, bs) \<leftarrow> r_u32 bs; (protected, bs) \<leftarrow> r_bool bs; (preemptible, bs) \<leftarrow> r_bool bs; (g, bs) \<leftarrow> r_u64 bs;
     Some (\<lparr>gt_reservation = StrongId i, gt_resource = StrongId x, gt_pool = StrongId pool, gt_class = StrongId sc,
            gt_capacity = capacity, gt_priority = PriorityRef priority, gt_protected = protected, gt_preemptible = preemptible,
            gt_generation = Gen g\<rparr>, bs)
   }"

definition encode_reservation_snapshot :: "reservation_snapshot \<Rightarrow> u8 list" where
  "encode_reservation_snapshot s =
     w_u64 (id_value (rs_domain s)) @ w_u64 (gen_value (rs_generation s)) @ w_u64 (epoch_value (rs_epoch s)) @ w_u64 (rs_tick s)
     @ w_list write_guarantee (rs_guarantees s) @ write_provenance (rs_provenance s)"

definition decode_reservation_snapshot :: "u8 list \<Rightarrow> reservation_snapshot option" where
  "decode_reservation_snapshot = whole (\<lambda>bs. do {
     (d, bs) \<leftarrow> r_u64 bs; (g, bs) \<leftarrow> r_u64 bs; (epoch, bs) \<leftarrow> r_u64 bs; (tick, bs) \<leftarrow> r_u64 bs;
     (guarantees, bs) \<leftarrow> r_list (unat kHardMaxGuaranteesPerSnapshot) read_guarantee bs; (p, bs) \<leftarrow> read_provenance bs;
     Some (\<lparr>rs_domain = StrongId d, rs_generation = Gen g, rs_epoch = FabricEpoch epoch, rs_tick = tick,
            rs_guarantees = guarantees, rs_provenance = p\<rparr>, bs)
   })"

definition write_demand :: "demand_record \<Rightarrow> u8 list" where
  "write_demand r =
     w_u64 (id_value (dr_admission r)) @ w_u64 (id_value (dr_resource r)) @ w_u64 (id_value (dr_pool r)) @ w_u64 (id_value (dr_class r))
     @ w_u32 (demand_kind_to_u32 (dr_kind r)) @ w_u64 (dr_committed r) @ w_u64 (dr_pending r) @ w_u64 (gen_value (dr_generation r))"

definition read_demand :: "demand_record reader" where
  "read_demand bs = do {
     (i, bs) \<leftarrow> r_u64 bs; (x, bs) \<leftarrow> r_u64 bs; (pool, bs) \<leftarrow> r_u64 bs; (sc, bs) \<leftarrow> r_u64 bs; (kind, bs) \<leftarrow> r_u32 bs;
     (committed, bs) \<leftarrow> r_u64 bs; (pending, bs) \<leftarrow> r_u64 bs; (g, bs) \<leftarrow> r_u64 bs;
     Some (\<lparr>dr_admission = StrongId i, dr_resource = StrongId x, dr_pool = StrongId pool, dr_class = StrongId sc,
            dr_kind = demand_kind_of_u32 kind, dr_committed = committed, dr_pending = pending, dr_generation = Gen g\<rparr>, bs)
   }"

definition encode_admission_snapshot :: "admission_snapshot \<Rightarrow> u8 list" where
  "encode_admission_snapshot s =
     w_u64 (id_value (as_domain s)) @ w_u64 (gen_value (as_generation s)) @ w_u64 (epoch_value (as_epoch s)) @ w_u64 (as_tick s)
     @ w_list write_demand (as_records s) @ write_provenance (as_provenance s)"

definition decode_admission_snapshot :: "u8 list \<Rightarrow> admission_snapshot option" where
  "decode_admission_snapshot = whole (\<lambda>bs. do {
     (d, bs) \<leftarrow> r_u64 bs; (g, bs) \<leftarrow> r_u64 bs; (epoch, bs) \<leftarrow> r_u64 bs; (tick, bs) \<leftarrow> r_u64 bs;
     (records, bs) \<leftarrow> r_list (unat kHardMaxDemandRecordsPerSnapshot) read_demand bs; (p, bs) \<leftarrow> read_provenance bs;
     Some (\<lparr>as_domain = StrongId d, as_generation = Gen g, as_epoch = FabricEpoch epoch, as_tick = tick,
            as_records = records, as_provenance = p\<rparr>, bs)
   })"

section \<open>Decisions\<close>

definition write_resource_accounting :: "resource_accounting \<Rightarrow> u8 list" where
  "write_resource_accounting x =
     w_u64 (id_value (rx_resource x)) @ w_u64 (id_value (rx_pool x)) @ w_u32 (resource_health_to_u32 (rx_health x))
     @ w_u64 (rx_physical x) @ w_u64 (rx_usable x) @ w_u64 (rx_effective_usable x) @ w_u64 (rx_guarantees x)
     @ w_u64 (rx_contingent_committed x) @ w_u64 (rx_contingent_pending x) @ w_u64 (rx_ceiling x) @ w_u64 (rx_contingent_ceiling x)
     @ w_u64 (rx_contingent_free x) @ w_u64 (rx_overage x) @ w_u64 (rx_protected_headroom x) @ w_u32 (constraint_to_u32 (rx_binding x))"

definition read_resource_accounting :: "resource_accounting reader" where
  "read_resource_accounting bs = do {
     (i, bs) \<leftarrow> r_u64 bs; (pool, bs) \<leftarrow> r_u64 bs; (health, bs) \<leftarrow> r_u32 bs; (physical, bs) \<leftarrow> r_u64 bs; (usable, bs) \<leftarrow> r_u64 bs;
     (effective, bs) \<leftarrow> r_u64 bs; (guarantees, bs) \<leftarrow> r_u64 bs; (com, bs) \<leftarrow> r_u64 bs; (pen, bs) \<leftarrow> r_u64 bs; (ceil, bs) \<leftarrow> r_u64 bs;
     (cc, bs) \<leftarrow> r_u64 bs; (free, bs) \<leftarrow> r_u64 bs; (overage, bs) \<leftarrow> r_u64 bs; (ph, bs) \<leftarrow> r_u64 bs; (binding, bs) \<leftarrow> r_u32 bs;
     Some (\<lparr>rx_resource = StrongId i, rx_pool = StrongId pool, rx_health = resource_health_of_u32 health, rx_physical = physical,
            rx_usable = usable, rx_effective_usable = effective, rx_guarantees = guarantees, rx_contingent_committed = com,
            rx_contingent_pending = pen, rx_ceiling = ceil, rx_contingent_ceiling = cc, rx_contingent_free = free, rx_overage = overage,
            rx_protected_headroom = ph, rx_binding = constraint_of_u32 binding\<rparr>, bs)
   }"

text \<open>A list cut to its wire bound.\<close>

definition w_bounded :: "u32 \<Rightarrow> ('a \<Rightarrow> u8 list) \<Rightarrow> 'a list \<Rightarrow> u8 list" where
  "w_bounded bound w xs =
     (if length xs > unat bound then w_u64 (ucast bound) else w_u64 (word_of_nat (length xs))) @ concat (map w (take (unat bound) xs))"

definition encode_decision :: "decision \<Rightarrow> u8 list" where
  "encode_decision x =
     (let r = de_evaluation x in
      w_u64 (id_value (de_id x)) @ w_u32 (outcome_to_u32 (er_outcome r)) @ w_u32 (reason_value (er_reason r))
      @ w_detail (er_detail r) @ w_digest (er_digest r) @ write_accounting (er_accounting r) @ w_bool (er_authority_valid r)
      @ w_bool (er_authorized r) @ w_u64 (er_increment r) @ w_bool (er_fence_required r) @ write_authority (er_authority r)
      @ w_bounded kMaxWireResources write_resource_accounting (er_resources r)
      @ w_bounded kMaxWireIntents write_intent (er_intents r)
      @ w_u32 (outcome_to_u32 (de_raw x)) @ w_u32 (outcome_to_u32 (de_effective x)) @ w_bool (de_authorized x)
      @ w_u64 (de_increment x) @ w_bool (de_fenced x) @ w_u32 (de_confirmations x) @ w_u64 (de_issued_tick x)
      @ w_u64 (id_value (de_incarnation x)) @ w_u64 (epoch_value (de_epoch x)) @ w_digest (de_digest x))"

text \<open>Every caller decodes into a fresh \<^verbatim>\<open>Decision\<close>, whose notes stay empty.\<close>

definition decode_decision :: "u8 list \<Rightarrow> decision option" where
  "decode_decision = whole (\<lambda>bs. do {
     (i, bs) \<leftarrow> r_u64 bs; (out, bs) \<leftarrow> r_u32 bs; (reason, bs) \<leftarrow> r_u32 bs; (detail, bs) \<leftarrow> r_string kMaxDetailLength bs;
     (rd, bs) \<leftarrow> r_digest bs; (a, bs) \<leftarrow> read_accounting bs; (av, bs) \<leftarrow> r_bool bs; (auth, bs) \<leftarrow> r_bool bs; (inc, bs) \<leftarrow> r_u64 bs;
     (fence, bs) \<leftarrow> r_bool bs; (v, bs) \<leftarrow> read_authority bs;
     (resources, bs) \<leftarrow> r_list (unat kMaxWireResources) read_resource_accounting bs;
     (intents, bs) \<leftarrow> r_list (unat kMaxWireIntents) read_intent bs;
     (raw, bs) \<leftarrow> r_u32 bs; (eff, bs) \<leftarrow> r_u32 bs; (dauth, bs) \<leftarrow> r_bool bs; (dinc, bs) \<leftarrow> r_u64 bs; (fenced, bs) \<leftarrow> r_bool bs;
     (conf, bs) \<leftarrow> r_u32 bs; (tick, bs) \<leftarrow> r_u64 bs; (incarnation, bs) \<leftarrow> r_u64 bs; (epoch, bs) \<leftarrow> r_u64 bs; (dd, bs) \<leftarrow> r_digest bs;
     Some (no_decision\<lparr>de_id := StrongId i,
        de_evaluation := result_zero\<lparr>er_outcome := outcome_of_u32 out, er_reason := ReasonCode reason, er_detail := detail,
          er_accounting := a, er_resources := resources, er_intents := intents, er_authority := v, er_authority_valid := av,
          er_authorized := auth, er_increment := inc, er_fence_required := fence, er_digest := rd\<rparr>,
        de_raw := outcome_of_u32 raw, de_effective := outcome_of_u32 eff, de_authorized := dauth, de_increment := dinc,
        de_fenced := fenced, de_confirmations := conf, de_issued_tick := tick, de_incarnation := StrongId incarnation,
        de_epoch := FabricEpoch epoch, de_digest := dd\<rparr>, bs)
   })"

definition encode_revalidate_request :: "decision \<Rightarrow> u8 list" where
  "encode_revalidate_request x =
     w_u64 (id_value (de_id x)) @ w_digest (de_digest x) @ w_bool (er_authority_valid (de_evaluation x))
     @ w_u64 (id_value (de_incarnation x)) @ w_u64 (epoch_value (de_epoch x)) @ write_authority (er_authority (de_evaluation x))"

definition decode_revalidate_request :: "u8 list \<Rightarrow> decision option" where
  "decode_revalidate_request = whole (\<lambda>bs. do {
     (i, bs) \<leftarrow> r_u64 bs; (dd, bs) \<leftarrow> r_digest bs; (av, bs) \<leftarrow> r_bool bs; (inc, bs) \<leftarrow> r_u64 bs; (epoch, bs) \<leftarrow> r_u64 bs;
     (v, bs) \<leftarrow> read_authority bs;
     Some (no_decision\<lparr>de_id := StrongId i, de_digest := dd, de_incarnation := StrongId inc, de_epoch := FabricEpoch epoch,
        de_evaluation := result_zero\<lparr>er_authority_valid := av, er_authority := v\<rparr>\<rparr>, bs)
   })"

end
