(* ===== verification/Transport.thy ===== *)
theory Transport
  imports Bytes Status
begin

text \<open>
  Framed connections (\<^verbatim>\<open>include/oversub/net.hpp\<close>, \<^verbatim>\<open>src/net.cpp\<close>): \<^verbatim>\<open>send_frame\<close> and
  \<^verbatim>\<open>recv_frame\<close> with their loops over the partial reads and writes of a TCP socket.

  The socket is what the operating system does with it. What the peer sent is a list of arrivals: pieces of
  any size, the end of the stream, or an error; when none is left the read blocks, which is the answer
  \<^const>\<open>None\<close>. A write takes as many bytes as its outcome says, at least one (a return of 0 is a
  failure, as in the code), and everything when no outcome is given.
  Establishing connections (\<^verbatim>\<open>tcp_listen\<close>, \<^verbatim>\<open>tcp_connect\<close>, \<^verbatim>\<open>tcp_accept\<close>) is the operating system's.
\<close>

section \<open>The socket\<close>

datatype arrival =
  Arrived "u8 list"
| Hangup
| Broken nat

datatype send_outcome =
  Taken nat
| Send_fails nat

record framed_connection =
  fc_valid :: bool
  fc_closed :: bool
  fc_in :: "arrival list"
  fc_out :: "u8 list"
  fc_sends :: "send_outcome list"

definition kMaxFramePayloadBytes :: u32 where "kMaxFramePayloadBytes = 2 ^ 20"

lemma frame_bound [simp]: "unat kMaxFramePayloadBytes = 1048576"
  by (simp add: kMaxFramePayloadBytes_def)

text \<open>\<^verbatim>\<open>recv\<close> of at most \<open>n > 0\<close> bytes: no bytes at the end of the stream, which stays at its end.\<close>

datatype received = Chunk "u8 list" | Recv_failed nat

fun recv_some :: "nat \<Rightarrow> arrival list \<Rightarrow> (received \<times> arrival list) option" where
  "recv_some n [] = None"
| "recv_some n (Arrived bs # rest) =
     (if bs = [] then recv_some n rest
      else Some (Chunk (take n bs), if length bs \<le> n then rest else Arrived (drop n bs) # rest))"
| "recv_some n (Hangup # rest) = Some (Chunk [], Hangup # rest)"
| "recv_some n (Broken e # rest) = Some (Recv_failed e, rest)"

definition socket_error :: "reason_code \<Rightarrow> string \<Rightarrow> nat \<Rightarrow> status" where
  "socket_error reason what errno =
     status_failure Status_IoError reason (what @ '' failed with errno '' @ decimal errno)"

section \<open>Reading\<close>

definition socket_closed :: status where
  "socket_closed = status_failure Status_IoError Reason_TransportClosed ''socket is closed''"

definition connection_closed :: status where
  "connection_closed = status_failure Status_IoError Reason_TransportClosed ''connection is closed''"

text \<open>The loop of \<^verbatim>\<open>read_exact\<close>: \<open>got\<close> are the bytes before the cursor.\<close>

function read_exact_from :: "nat \<Rightarrow> u8 list \<Rightarrow> arrival list \<Rightarrow> ((status + u8 list) \<times> arrival list) option" where
  "read_exact_from len got as =
     (if len \<le> length got then Some (Inr got, as)
      else (case recv_some (len - length got) as of
        None \<Rightarrow> None
      | Some (Chunk c, as') \<Rightarrow>
          if c = []
          then Some (Inl (if got = []
                          then status_failure Status_IoError Reason_TransportClosed ''peer closed the connection''
                          else status_failure Status_IoError Reason_FrameTruncated ''peer closed the connection mid-frame''), as')
          else read_exact_from len (got @ c) as'
      | Some (Recv_failed e, as') \<Rightarrow> Some (Inl (socket_error Reason_TransportError ''recv'' e), as')))"
  by pat_completeness auto

termination
  by (relation "measure (\<lambda>(len, got, as). len - length got)") (auto simp: neq_Nil_conv)

declare read_exact_from.simps [simp del]

definition read_exact :: "nat \<Rightarrow> framed_connection \<Rightarrow> ((status + u8 list) \<times> framed_connection) option" where
  "read_exact len c =
     (if len = 0 then Some (Inr [], c)
      else if \<not> fc_valid c then Some (Inl socket_closed, c)
      else map_option (\<lambda>(r, as). (r, c\<lparr>fc_in := as\<rparr>)) (read_exact_from len [] (fc_in c)))"

definition take_u32 :: "u8 list \<Rightarrow> u32" where
  "take_u32 data = fold (\<lambda>i v. v OR push_bit (i * 8) (ucast (data ! i))) [0..<4] 0"

definition recv_frame :: "framed_connection \<Rightarrow> ((status + u32 \<times> u8 list) \<times> framed_connection) option" where
  "recv_frame c =
     (if fc_closed c then Some (Inl connection_closed, c)
      else (case read_exact 8 c of
        None \<Rightarrow> None
      | Some (Inl s, c) \<Rightarrow> Some (Inl s, if st_reason s = Reason_TransportClosed then c\<lparr>fc_closed := True\<rparr> else c)
      | Some (Inr header, c) \<Rightarrow>
          let frame_type = take_u32 header; len = take_u32 (drop 4 header) in
          if len > kMaxFramePayloadBytes
          then Some (Inl (status_failure Status_OutOfRange Reason_FrameTooLarge ''declared frame payload exceeds the bound''), c)
          else if len = 0 then Some (Inr (frame_type, []), c)
          else (case read_exact (unat len) c of
            None \<Rightarrow> None
          | Some (Inl s, c) \<Rightarrow> Some (Inl s, c)
          | Some (Inr payload, c) \<Rightarrow> Some (Inr (frame_type, payload), c))))"

section \<open>Writing\<close>

function send_all :: "u8 list \<Rightarrow> framed_connection \<Rightarrow> status \<times> framed_connection" where
  "send_all data c =
     (if data = [] then (status_success, c)
      else (case fc_sends c of
        [] \<Rightarrow> (status_success, c\<lparr>fc_out := fc_out c @ data\<rparr>)
      | Send_fails e # outs \<Rightarrow> (socket_error Reason_TransportError ''send'' e, c\<lparr>fc_sends := outs\<rparr>)
      | Taken n # outs \<Rightarrow>
          let k = max 1 (min n (length data))
          in send_all (drop k data) (c\<lparr>fc_out := fc_out c @ take k data, fc_sends := outs\<rparr>)))"
  by pat_completeness auto

termination
  by (relation "measure (\<lambda>(data, c). length data)") auto

declare send_all.simps [simp del]

definition send_frame :: "u32 \<Rightarrow> u8 list \<Rightarrow> framed_connection \<Rightarrow> status \<times> framed_connection" where
  "send_frame type payload c =
     (if fc_closed c then (connection_closed, c)
      else if length payload > unat kMaxFramePayloadBytes
      then (status_failure Status_OutOfRange Reason_FrameTooLarge ''frame payload exceeds the bound'', c)
      else if \<not> fc_valid c then (socket_closed, c)
      else let (status, c) = send_all (w_u32 type @ w_u32 (word_of_nat (length payload))) c in
        if \<not> status_ok status then (status, c)
        else if payload \<noteq> [] then send_all payload c else (status, c))"

definition close_connection :: "framed_connection \<Rightarrow> framed_connection" where
  "close_connection c = c\<lparr>fc_closed := True, fc_valid := False\<rparr>"

end
