(* ===== verification/Transport_Properties.thy ===== *)
theory Transport_Properties
  imports Transport
begin

text \<open>
  What framing promises over a byte stream: frames arrive whole and in order however the stream is cut into
  pieces, nothing but a whole frame within the bound is ever delivered, and receiving blocks only while a frame
  is incomplete on a stream that has neither ended nor failed.
\<close>

section \<open>The stream behind the arrivals\<close>

text \<open>The bytes that arrive before the stream ends or fails, and what ends it.\<close>

fun stream :: "arrival list \<Rightarrow> u8 list" where
  "stream (Arrived bs # as) = bs @ stream as"
| "stream _ = []"

fun ending :: "arrival list \<Rightarrow> arrival list" where
  "ending (Arrived bs # as) = ending as"
| "ending as = as"

lemma ending_ends: "stream (ending as) = []" "ending (ending as) = ending as"
  by (induction as rule: ending.induct) simp_all

lemma recv_some_piece:
  assumes "0 < n" and "stream as \<noteq> []"
  obtains k as' where "0 < k" "k \<le> n" "k \<le> length (stream as)" "recv_some n as = Some (Chunk (take k (stream as)), as')"
    "stream as' = drop k (stream as)" "ending as' = ending as"
proof -
  have "\<exists>k as'. 0 < k \<and> k \<le> n \<and> k \<le> length (stream as) \<and> recv_some n as = Some (Chunk (take k (stream as)), as')
      \<and> stream as' = drop k (stream as) \<and> ending as' = ending as"
    using assms
  proof (induction n as rule: recv_some.induct)
    case (2 n bs rest)
    show ?case
    proof (cases "bs = []")
      case False
      then have "0 < min n (length bs)" using 2 by simp
      then show ?thesis by (intro exI [of _ "min n (length bs)"]) (use False in auto)
    qed (use 2 in simp)
  qed simp_all
  then show thesis using that by blast
qed

lemma recv_some_ended: "stream as = [] \<Longrightarrow> recv_some n as = recv_some n (ending as)"
  by (induction as rule: ending.induct) auto

section \<open>Reading a number of bytes\<close>

lemma read_enough:
  assumes "length got \<le> len" and "len \<le> length got + length (stream as)"
  shows "\<exists>as'. read_exact_from len got as = Some (Inr (got @ take (len - length got) (stream as)), as')
    \<and> stream as' = drop (len - length got) (stream as) \<and> ending as' = ending as"
  using assms
proof (induction len got as rule: read_exact_from.induct)
  case (1 len got as)
  show ?case
  proof (cases "len \<le> length got")
    case False
    then have more: "0 < len - length got" "stream as \<noteq> []" using 1 by auto
    from recv_some_piece [OF this] obtain k as' where k: "0 < k" "k \<le> len - length got" "k \<le> length (stream as)"
      and got: "recv_some (len - length got) as = Some (Chunk (take k (stream as)), as')"
      and as': "stream as' = drop k (stream as)" "ending as' = ending as" by metis
    have "\<exists>as''. read_exact_from len (got @ take k (stream as)) as'
        = Some (Inr ((got @ take k (stream as)) @ take (len - length (got @ take k (stream as))) (stream as')), as'')
        \<and> stream as'' = drop (len - length (got @ take k (stream as))) (stream as') \<and> ending as'' = ending as'"
      by (rule 1(1) [OF False got]) (use False k 1 as' in auto)
    moreover have "take k (stream as) @ take (len - (length got + k)) (drop k (stream as)) = take (len - length got) (stream as)"
      using k by (metis (no_types) add_diff_inverse_nat diff_diff_left leD take_add)
    ultimately show ?thesis
      using False k got as' by (auto simp: read_exact_from.simps [of len got as])
  qed (use 1 in \<open>auto simp: read_exact_from.simps [of "length got" got as]\<close>)
qed

lemma read_short:
  assumes "length got + length (stream as) < len"
  shows "read_exact_from len got as = read_exact_from len (got @ stream as) (ending as)"
  using assms
proof (induction len got as rule: read_exact_from.induct)
  case (1 len got as)
  show ?case
  proof (cases "stream as = []")
    case True
    then have "recv_some (len - length got) as = recv_some (len - length got) (ending as)" by (rule recv_some_ended)
    with True 1(2) show ?thesis by (simp add: read_exact_from.simps [of len got])
  next
    case False
    with 1(2) have room: "0 < len - length got" by simp
    from recv_some_piece [OF room False] obtain k as' where k: "0 < k" "k \<le> len - length got" "k \<le> length (stream as)"
      and got: "recv_some (len - length got) as = Some (Chunk (take k (stream as)), as')"
      and as': "stream as' = drop k (stream as)" "ending as' = ending as" by metis
    have "read_exact_from len (got @ take k (stream as)) as' = read_exact_from len ((got @ take k (stream as)) @ stream as') (ending as')"
      by (rule 1(1)) (use room False k got as' 1(2) in auto)
    moreover have "read_exact_from len got as = read_exact_from len (got @ take k (stream as)) as'"
      using room k got False by (simp add: read_exact_from.simps [of len got as])
    ultimately show ?thesis using as' k by simp
  qed
qed

text \<open>At the end of the stream.\<close>

lemma read_end:
  assumes "length got < len"
  shows "read_exact_from len got (ending as) =
    (case ending as of [] \<Rightarrow> None
     | Broken e # rest \<Rightarrow> Some (Inl (socket_error Reason_TransportError ''recv'' e), rest)
     | _ \<Rightarrow> Some (Inl (if got = [] then status_failure Status_IoError Reason_TransportClosed ''peer closed the connection''
                     else status_failure Status_IoError Reason_FrameTruncated ''peer closed the connection mid-frame''), ending as))"
proof -
  have "ending as = [] \<or> (\<exists>r. ending as = Hangup # r) \<or> (\<exists>e r. ending as = Broken e # r)"
    by (induction as rule: ending.induct) simp_all
  then show ?thesis using assms by (auto simp: read_exact_from.simps [of len got])
qed


section \<open>Frames\<close>

definition frame_bytes :: "u32 \<times> u8 list \<Rightarrow> u8 list" where
  "frame_bytes f = (case f of (type, payload) \<Rightarrow> w_u32 type @ w_u32 (word_of_nat (length payload)) @ payload)"

definition payload_fits :: "u32 \<times> u8 list \<Rightarrow> bool" where
  "payload_fits f \<longleftrightarrow> length (snd f) \<le> 1048576"

text \<open>The header reads back, and four bytes are the header of what they read as.\<close>

lemma take_u32_written [simp]: "take_u32 (w_u32 n @ rest) = n"
proof -
  have "r_u32 (w_u32 n @ rest) = Some (take_u32 (w_u32 n @ rest), drop 4 (w_u32 n @ rest))"
    by (simp add: r_u32_def take_u32_def w_u32_def)
  then show ?thesis by (simp add: r_u32_w_u32)
qed

lemma low_byte: "(ucast (x AND 255 :: u32) :: u8) = ucast x"
proof -
  have "x AND 255 = x AND mask 8" by (simp add: mask_eq_exp_minus_1)
  then show ?thesis by (intro bit_word_eqI) (simp add: bit_simps)
qed

lemma four_bytes:
  fixes a b c d :: u8
  defines "x \<equiv> (ucast a :: u32) OR push_bit 8 (ucast b) OR push_bit 16 (ucast c) OR push_bit 24 (ucast d)"
  shows "ucast x = a" "ucast (drop_bit 8 x) = b" "ucast (drop_bit 16 x) = c" "ucast (drop_bit 24 x) = d"
proof -
  show "ucast x = a" unfolding x_def by (rule bit_word_eqI) (auto simp: bit_simps)
  show "ucast (drop_bit 8 x) = b" unfolding x_def by (rule bit_word_eqI) (auto simp: bit_simps dest: bit_imp_le_length)
  show "ucast (drop_bit 16 x) = c" unfolding x_def by (rule bit_word_eqI) (auto simp: bit_simps dest: bit_imp_le_length)
  show "ucast (drop_bit 24 x) = d" unfolding x_def by (rule bit_word_eqI) (auto simp: bit_simps dest: bit_imp_le_length)
qed

lemma take_u32_header:
  assumes "4 \<le> length bs"
  shows "w_u32 (take_u32 bs) = take 4 bs"
proof -
  from assms obtain a b c d rest where bs: "bs = a # b # c # d # rest"
    by (auto simp: numeral_eq_Suc Suc_le_length_iff)
  have "take_u32 bs = (ucast a :: u32) OR push_bit 8 (ucast b) OR push_bit 16 (ucast c) OR push_bit 24 (ucast d)"
    by (simp add: bs take_u32_def upt_rec or.assoc)
  then show ?thesis using four_bytes [of a b c d] by (simp add: bs w_u32_def upt_rec low_byte)
qed

section \<open>Reading from a connection\<close>

abbreviation usable :: "framed_connection \<Rightarrow> bool" where
  "usable c \<equiv> fc_valid c \<and> \<not> fc_closed c"

lemma read_exact_enough:
  assumes "fc_valid c" and "n \<le> length (stream (fc_in c))"
  obtains as where "read_exact n c = Some (Inr (take n (stream (fc_in c))), c\<lparr>fc_in := as\<rparr>)" "stream as = drop n (stream (fc_in c))"
    "ending as = ending (fc_in c)"
proof (cases "n = 0")
  case True
  then show thesis using that [of "fc_in c"] by (simp add: read_exact_def)
next
  case False
  obtain as where "read_exact_from n [] (fc_in c) = Some (Inr (take n (stream (fc_in c))), as)" "stream as = drop n (stream (fc_in c))"
    "ending as = ending (fc_in c)"
    using read_enough [of "[]" n "fc_in c"] assms by auto
  then show thesis using that [of as] False assms by (simp add: read_exact_def)
qed

definition interrupted :: "framed_connection \<Rightarrow> ((status + u8 list) \<times> framed_connection) option" where
  "interrupted c =
     (case ending (fc_in c) of [] \<Rightarrow> None
      | Broken e # rest \<Rightarrow> Some (Inl (socket_error Reason_TransportError ''recv'' e), c\<lparr>fc_in := rest\<rparr>)
      | _ \<Rightarrow> Some (Inl (if stream (fc_in c) = [] then status_failure Status_IoError Reason_TransportClosed ''peer closed the connection''
                      else status_failure Status_IoError Reason_FrameTruncated ''peer closed the connection mid-frame''),
                 c\<lparr>fc_in := ending (fc_in c)\<rparr>))"

lemma read_exact_short:
  assumes "fc_valid c" and "length (stream (fc_in c)) < n"
  shows "read_exact n c = interrupted c"
proof -
  have "read_exact_from n [] (fc_in c) = read_exact_from n (stream (fc_in c)) (ending (fc_in c))"
    using read_short [of "[]" "fc_in c" n] assms by simp
  then show ?thesis
    using assms read_end [OF assms(2), of "fc_in c"]
    by (auto simp: read_exact_def interrupted_def split: list.split arrival.split)
qed

lemma interrupted_fails: "interrupted c \<noteq> Some (Inr bs, c')" "interrupted c = None \<longleftrightarrow> ending (fc_in c) = []"
  by (auto simp: interrupted_def split: list.splits arrival.splits)

text \<open>The length a header declares.\<close>

definition declared :: "u8 list \<Rightarrow> nat" where
  "declared s = unat (take_u32 (drop 4 s))"

text \<open>With a header on the stream, the answer depends on the declared length.\<close>

lemma recv_frame_header:
  assumes "usable c" and "8 \<le> length (stream (fc_in c))"
  obtains as where "stream as = drop 8 (stream (fc_in c))" "ending as = ending (fc_in c)"
    "recv_frame c =
       (if 1048576 < declared (stream (fc_in c))
        then Some (Inl (status_failure Status_OutOfRange Reason_FrameTooLarge ''declared frame payload exceeds the bound''), c\<lparr>fc_in := as\<rparr>)
        else map_option (\<lambda>(r, c'). (map_sum id (Pair (take_u32 (stream (fc_in c)))) r, c'))
          (read_exact (declared (stream (fc_in c))) (c\<lparr>fc_in := as\<rparr>)))"
proof -
  let ?s = "stream (fc_in c)"
  obtain as where as: "read_exact 8 c = Some (Inr (take 8 ?s), c\<lparr>fc_in := as\<rparr>)" "stream as = drop 8 ?s" "ending as = ending (fc_in c)"
    using read_exact_enough assms by metis
  have head: "take_u32 (take 8 ?s) = take_u32 ?s" "take_u32 (drop 4 (take 8 ?s)) = take_u32 (drop 4 ?s)"
    using assms(2) by (simp_all add: take_u32_def upt_rec)
  have "read_exact 0 (c\<lparr>fc_in := as\<rparr>) = Some (Inr [], c\<lparr>fc_in := as\<rparr>)" by (simp add: read_exact_def)
  then have "recv_frame c =
       (if 1048576 < declared ?s
        then Some (Inl (status_failure Status_OutOfRange Reason_FrameTooLarge ''declared frame payload exceeds the bound''), c\<lparr>fc_in := as\<rparr>)
        else map_option (\<lambda>(r, c'). (map_sum id (Pair (take_u32 ?s)) r, c')) (read_exact (declared ?s) (c\<lparr>fc_in := as\<rparr>)))"
    using assms(1)
    by (auto simp: recv_frame_def as(1) Let_def head declared_def word_less_nat_alt unat_eq_0 split: option.split sum.split)
  with as show thesis by (intro that)
qed

lemma recv_frame_short:
  assumes "usable c" and "length (stream (fc_in c)) < 8"
  shows "recv_frame c = None \<longleftrightarrow> ending (fc_in c) = []" "recv_frame c \<noteq> Some (Inr f, c')"
  using assms read_exact_short [of c 8] interrupted_fails [of c]
  by (auto simp: recv_frame_def split: option.splits sum.splits)

text \<open>A whole frame within the bound is the next on a stream.\<close>

lemma frame_bytes_length: "length (frame_bytes f) = 8 + length (snd f)"
  by (simp add: frame_bytes_def length_writers split: prod.split)

lemma frame_bytes_declared:
  assumes "payload_fits (t, payload)"
  shows "declared (frame_bytes (t, payload) @ rest) = length payload" "take_u32 (frame_bytes (t, payload) @ rest) = t"
  using assms by (simp_all add: frame_bytes_def declared_def payload_fits_def length_writers)

lemma frame_next:
  assumes "8 + declared s \<le> length s" and "declared s \<le> 1048576"
  shows "s = frame_bytes (take_u32 s, take (declared s) (drop 8 s)) @ drop (8 + declared s) s"
proof -
  have "w_u32 (word_of_nat (declared s)) = take 4 (drop 4 s)" "w_u32 (take_u32 s) = take 4 s"
    using assms by (simp_all add: declared_def take_u32_header)
  moreover have "s = take 4 s @ take 4 (drop 4 s) @ take (declared s) (drop 8 s) @ drop (8 + declared s) s"
    by (metis append_take_drop_id drop_drop numeral_Bit0 add.commute)
  moreover have "length (take (declared s) (drop 8 s)) = declared s" using assms by simp
  ultimately show ?thesis by (simp only: frame_bytes_def prod.case append_assoc)
qed

lemma recv_frame_whole:
  assumes "usable c" and "stream (fc_in c) = frame_bytes f @ rest" and "payload_fits f"
  obtains as where "recv_frame c = Some (Inr f, c\<lparr>fc_in := as\<rparr>)" "stream as = rest" "ending as = ending (fc_in c)"
proof -
  obtain t payload where f: "f = (t, payload)" by (cases f)
  note head = frame_bytes_declared [OF assms(3) [unfolded f], of rest]
  have "8 \<le> length (stream (fc_in c))" by (simp add: assms(2) frame_bytes_length)
  from recv_frame_header [OF assms(1) this] obtain as where as: "stream as = drop 8 (frame_bytes f @ rest)" "ending as = ending (fc_in c)"
    "recv_frame c = map_option (\<lambda>(r, c'). (map_sum id (Pair t) r, c')) (read_exact (length payload) (c\<lparr>fc_in := as\<rparr>))"
    using assms(3) by (auto simp: assms(2) f head payload_fits_def)
  have rest: "stream as = payload @ rest" by (simp add: as(1) f frame_bytes_def length_writers)
  obtain as' where "read_exact (length payload) (c\<lparr>fc_in := as\<rparr>) = Some (Inr payload, c\<lparr>fc_in := as'\<rparr>)" "stream as' = rest"
    "ending as' = ending as"
    using read_exact_enough [of "c\<lparr>fc_in := as\<rparr>" "length payload"] assms(1) by (auto simp: rest)
  with as show thesis by (intro that [of as']) (simp_all add: f)
qed

lemma recv_frame_partial:
  assumes "usable c" and "8 \<le> length (stream (fc_in c))" and "declared (stream (fc_in c)) \<le> 1048576"
    and "length (stream (fc_in c)) < 8 + declared (stream (fc_in c))"
  shows "recv_frame c = None \<longleftrightarrow> ending (fc_in c) = []" "recv_frame c \<noteq> Some (Inr f, c')"
proof -
  let ?d = "declared (stream (fc_in c))"
  from recv_frame_header [OF assms(1,2)] obtain as where as: "stream as = drop 8 (stream (fc_in c))" "ending as = ending (fc_in c)"
    "recv_frame c = map_option (\<lambda>(r, c'). (map_sum id (Pair (take_u32 (stream (fc_in c)))) r, c')) (read_exact ?d (c\<lparr>fc_in := as\<rparr>))"
    using assms(3) by auto
  have "read_exact ?d (c\<lparr>fc_in := as\<rparr>) = interrupted (c\<lparr>fc_in := as\<rparr>)"
    using assms as(1) by (intro read_exact_short) auto
  then show "recv_frame c = None \<longleftrightarrow> ending (fc_in c) = []" "recv_frame c \<noteq> Some (Inr f, c')"
    using interrupted_fails [of "c\<lparr>fc_in := as\<rparr>"] as(2) by (auto simp: as(3) map_sum_def split: sum.splits)
qed

section \<open>Sending\<close>

definition takes_all :: "send_outcome list \<Rightarrow> bool" where
  "takes_all = list_all (\<lambda>x. case x of Taken _ \<Rightarrow> True | Send_fails _ \<Rightarrow> False)"

lemma send_all_taken:
  assumes "takes_all (fc_sends c)"
  shows "\<exists>outs. send_all data c = (status_success, c\<lparr>fc_out := fc_out c @ data, fc_sends := outs\<rparr>) \<and> takes_all outs"
  using assms
proof (induction data c rule: send_all.induct)
  case (1 data c)
  show ?case
  proof (cases "fc_sends c")
    case Nil
    then show ?thesis by (auto simp: send_all.simps [of data c] takes_all_def intro!: exI [of _ "[]"])
  next
    case (Cons x outs)
    with 1(2) obtain n where x: "x = Taken n" "takes_all outs" by (auto simp: takes_all_def split: send_outcome.splits)
    show ?thesis
    proof (cases "data = []")
      case False
      from 1(1) [OF False Cons x(1) refl] x(2) obtain outs' where
        "send_all (drop (max 1 (min n (length data))) data)
           (c\<lparr>fc_out := fc_out c @ take (max 1 (min n (length data))) data, fc_sends := outs\<rparr>)
         = (status_success, c\<lparr>fc_out := fc_out c @ data, fc_sends := outs'\<rparr>)" "takes_all outs'" by auto
      then show ?thesis using False Cons x by (auto simp: send_all.simps [of data c] Let_def)
    qed (use 1(2) in \<open>auto simp: send_all.simps [of "[]" c] intro!: exI [of _ "fc_sends c"]\<close>)
  qed
qed

lemma send_frame_taken:
  assumes "usable c" and "takes_all (fc_sends c)" and "payload_fits f"
  shows "\<exists>outs. send_frame (fst f) (snd f) c = (status_success, c\<lparr>fc_out := fc_out c @ frame_bytes f, fc_sends := outs\<rparr>) \<and> takes_all outs"
proof -
  let ?h = "w_u32 (fst f) @ w_u32 (word_of_nat (length (snd f)))"
  obtain outs where h: "send_all ?h c = (status_success, c\<lparr>fc_out := fc_out c @ ?h, fc_sends := outs\<rparr>)" "takes_all outs"
    using send_all_taken [OF assms(2)] by blast
  from send_all_taken [of "c\<lparr>fc_out := fc_out c @ ?h, fc_sends := outs\<rparr>" "snd f"] h(2) obtain outs' where
    "send_all (snd f) (c\<lparr>fc_out := fc_out c @ ?h, fc_sends := outs\<rparr>) =
      (status_success, c\<lparr>fc_out := (fc_out c @ ?h) @ snd f, fc_sends := outs'\<rparr>)" "takes_all outs'" by auto
  then show ?thesis
    using assms h by (cases "snd f = []") (auto simp: send_frame_def payload_fits_def frame_bytes_def split: prod.splits)
qed

fun send_frames :: "(u32 \<times> u8 list) list \<Rightarrow> framed_connection \<Rightarrow> status \<times> framed_connection" where
  "send_frames [] c = (status_success, c)"
| "send_frames (f # fs) c =
     (let (status, c) = send_frame (fst f) (snd f) c in if status_ok status then send_frames fs c else (status, c))"

fun recv_frames :: "nat \<Rightarrow> framed_connection \<Rightarrow> ((status + (u32 \<times> u8 list) list) \<times> framed_connection) option" where
  "recv_frames 0 c = Some (Inr [], c)"
| "recv_frames (Suc n) c =
     (case recv_frame c of
        None \<Rightarrow> None
      | Some (Inl s, c) \<Rightarrow> Some (Inl s, c)
      | Some (Inr f, c) \<Rightarrow> map_option (\<lambda>(r, c). (map_sum id (Cons f) r, c)) (recv_frames n c))"

lemma send_frames_taken:
  assumes "usable c" and "takes_all (fc_sends c)" and "list_all payload_fits fs"
  shows "\<exists>outs. send_frames fs c = (status_success, c\<lparr>fc_out := fc_out c @ concat (map frame_bytes fs), fc_sends := outs\<rparr>)"
  using assms
proof (induction fs arbitrary: c)
  case Nil
  then show ?case by (auto intro: exI [of _ "fc_sends c"])
next
  case (Cons f fs)
  obtain outs where "send_frame (fst f) (snd f) c = (status_success, c\<lparr>fc_out := fc_out c @ frame_bytes f, fc_sends := outs\<rparr>)"
    "takes_all outs" using send_frame_taken [of c f] Cons.prems by auto
  with Cons.IH [of "c\<lparr>fc_out := fc_out c @ frame_bytes f, fc_sends := outs\<rparr>"] Cons.prems show ?case by auto
qed

lemma recv_frames_whole:
  assumes "usable c" and "stream (fc_in c) = concat (map frame_bytes fs) @ later" and "list_all payload_fits fs"
  shows "\<exists>as. recv_frames (length fs) c = Some (Inr fs, c\<lparr>fc_in := as\<rparr>) \<and> stream as = later \<and> ending as = ending (fc_in c)"
  using assms
proof (induction fs arbitrary: c)
  case Nil
  then show ?case by (auto intro: exI [of _ "fc_in c"])
next
  case (Cons f fs)
  obtain as where as: "recv_frame c = Some (Inr f, c\<lparr>fc_in := as\<rparr>)" "stream as = concat (map frame_bytes fs) @ later"
    "ending as = ending (fc_in c)"
    using recv_frame_whole [of c f "concat (map frame_bytes fs) @ later"] Cons.prems by auto
  with Cons.IH [of "c\<lparr>fc_in := as\<rparr>"] Cons.prems show ?case by auto
qed

text \<open>
  C26. Frames survive the stream: whatever pieces the sends accept and the receives return, frames of at most
  1 MiB that are sent one after the other are all accepted, and the receiver whose stream carries the sent
  bytes receives exactly these frames, in order, with nothing lost of what follows.
\<close>

theorem frames_survive_stream:
  assumes "usable c" and "fc_out c = []" and "takes_all (fc_sends c)" and "list_all payload_fits fs"
    and "usable d" and "stream (fc_in d) = fc_out (snd (send_frames fs c)) @ later"
  shows "fst (send_frames fs c) = status_success
    \<and> (\<exists>d'. recv_frames (length fs) d = Some (Inr fs, d') \<and> usable d' \<and> stream (fc_in d') = later \<and> ending (fc_in d') = ending (fc_in d))"
proof -
  from send_frames_taken [OF assms(1,3,4)] assms(2) obtain outs where
    sent: "send_frames fs c = (status_success, c\<lparr>fc_out := concat (map frame_bytes fs), fc_sends := outs\<rparr>)" by auto
  then have "stream (fc_in d) = concat (map frame_bytes fs) @ later" using assms(6) by simp
  from recv_frames_whole [OF assms(5) this assms(4)] sent assms(5) show ?thesis by auto
qed

definition idle_connection :: framed_connection where
  "idle_connection = \<lparr>fc_valid = True, fc_closed = False, fc_in = [], fc_out = [], fc_sends = [Taken 1, Taken 3, Taken 5]\<rparr>"

definition two_frames :: "(u32 \<times> u8 list) list" where
  "two_frames = [(7, [1, 2, 3]), (8, [])]"

text \<open>The bytes of the two frames in two pieces, the first of three bytes, and a byte of the next frame.\<close>

definition in_pieces :: "u8 list \<Rightarrow> framed_connection" where
  "in_pieces bytes = idle_connection\<lparr>fc_in := [Arrived (take 3 bytes), Arrived [], Arrived (drop 3 bytes @ [9]), Hangup]\<rparr>"

theorem frames_survive_stream_witness:
  "\<exists>d'. fst (send_frames two_frames idle_connection) = status_success
    \<and> recv_frames (length two_frames) (in_pieces (fc_out (snd (send_frames two_frames idle_connection)))) = Some (Inr two_frames, d')
    \<and> stream (fc_in d') = [9]"
proof -
  have pieces: "usable (in_pieces bs)" "stream (fc_in (in_pieces bs)) = bs @ [9]" for bs
    by (simp_all add: in_pieces_def idle_connection_def flip: append_assoc)
  have "usable idle_connection" "fc_out idle_connection = []" "takes_all (fc_sends idle_connection)" "list_all payload_fits two_frames"
    by (simp_all add: idle_connection_def takes_all_def two_frames_def payload_fits_def)
  from frames_survive_stream [OF this pieces] show ?thesis by blast
qed

lemma recv_frame_inv:
  assumes "recv_frame c = Some (Inr f, c')"
  shows "usable c \<and> payload_fits f \<and> (\<exists>as. stream (fc_in c) = frame_bytes f @ stream as \<and> ending as = ending (fc_in c) \<and> c' = c\<lparr>fc_in := as\<rparr>)"
proof -
  let ?s = "stream (fc_in c)"
  have u: "usable c" using assms by (auto simp: recv_frame_def read_exact_def socket_closed_def split: if_splits)
  have header: "8 \<le> length ?s" using recv_frame_short(2) [OF u, of f c'] assms by (simp only: not_le [symmetric]) blast
  have fits: "declared ?s \<le> 1048576"
    by (rule recv_frame_header [OF u header]) (simp add: assms not_le [symmetric] split: if_splits)
  have enough: "8 + declared ?s \<le> length ?s" using recv_frame_partial(2) [OF u header fits, of f c'] assms by (simp only: not_le [symmetric]) blast
  let ?f = "(take_u32 ?s, take (declared ?s) (drop 8 ?s))"
  have "payload_fits ?f" using fits by (simp add: payload_fits_def)
  from recv_frame_whole [OF u frame_next [OF enough fits] this] obtain as where
    "recv_frame c = Some (Inr ?f, c\<lparr>fc_in := as\<rparr>)" "stream as = drop (8 + declared ?s) ?s" "ending as = ending (fc_in c)" .
  with u \<open>payload_fits ?f\<close> frame_next [OF enough fits] assms show ?thesis by (metis Inr_inject option.inject prod.inject)
qed

text \<open>
  Nothing but whole frames: \<^verbatim>\<open>recv_frame\<close> delivers a frame exactly when the connection is usable and the
  whole frame, with a payload of at most 1 MiB, is next on the stream before it ends or fails; a truncated
  frame, a frame that declares too much, or a closed connection deliver none.
\<close>

theorem recv_frame_delivers_whole_frames:
  "(\<exists>c'. recv_frame c = Some (Inr f, c')) \<longleftrightarrow> usable c \<and> payload_fits f \<and> (\<exists>rest. stream (fc_in c) = frame_bytes f @ rest)"
proof
  assume "\<exists>c'. recv_frame c = Some (Inr f, c')"
  then show "usable c \<and> payload_fits f \<and> (\<exists>rest. stream (fc_in c) = frame_bytes f @ rest)" using recv_frame_inv by blast
next
  assume "usable c \<and> payload_fits f \<and> (\<exists>rest. stream (fc_in c) = frame_bytes f @ rest)"
  then obtain rest where "usable c" "stream (fc_in c) = frame_bytes f @ rest" "payload_fits f" by blast
  from recv_frame_whole [OF this] show "\<exists>c'. recv_frame c = Some (Inr f, c')" by blast
qed

text \<open>
  Receiving a frame returns: \<^verbatim>\<open>recv_frame\<close> blocks exactly when the connection is usable, the stream has
  neither ended nor failed, and what arrived is less than a header, or a header with an acceptable length and
  less than its payload. In particular an end of the stream, an error or an oversized header always answers.
\<close>

lemma recv_frame_blocks_only_midframe:
  "recv_frame c = None \<longleftrightarrow> usable c \<and> ending (fc_in c) = []
    \<and> (length (stream (fc_in c)) < 8
       \<or> declared (stream (fc_in c)) \<le> 1048576 \<and> length (stream (fc_in c)) < 8 + declared (stream (fc_in c)))"
proof (cases "usable c")
  case u: True
  show ?thesis
  proof (cases "length (stream (fc_in c)) < 8")
    case True
    with recv_frame_short(1) [OF u] u show ?thesis by blast
  next
    case False
    then have header: "8 \<le> length (stream (fc_in c))" by simp
    consider "1048576 < declared (stream (fc_in c))"
      | (partial) "declared (stream (fc_in c)) \<le> 1048576" "length (stream (fc_in c)) < 8 + declared (stream (fc_in c))"
      | (whole) "declared (stream (fc_in c)) \<le> 1048576" "8 + declared (stream (fc_in c)) \<le> length (stream (fc_in c))" by linarith
    then show ?thesis
    proof cases
      case 1
      then have "recv_frame c \<noteq> None" using recv_frame_header [OF u header] by (metis option.distinct(1))
      with 1 header show ?thesis by auto
    next
      case partial
      with recv_frame_partial(1) [OF u header partial] u show ?thesis by blast
    next
      case whole
      have "payload_fits (take_u32 (stream (fc_in c)), take (declared (stream (fc_in c))) (drop 8 (stream (fc_in c))))"
        using whole(1) by (simp add: payload_fits_def)
      then have "recv_frame c \<noteq> None" by (rule recv_frame_whole [OF u frame_next [OF whole(2,1)]]) simp
      with whole header show ?thesis by auto
    qed
  qed
qed (auto simp: recv_frame_def read_exact_def socket_closed_def)

text \<open>
  A peer that disappears between the header and the payload looks like a clean end of the stream: the second
  \<^verbatim>\<open>read_exact\<close> has read nothing of its own yet, and the connection is not marked as closed.
\<close>

lemma truncation_after_header_looks_clean:
  assumes "usable c" and "length (stream (fc_in c)) = 8" and "ending (fc_in c) = Hangup # rest"
    and "0 < declared (stream (fc_in c))" and "declared (stream (fc_in c)) \<le> 1048576"
  shows "\<exists>c'. recv_frame c = Some (Inl (status_failure Status_IoError Reason_TransportClosed ''peer closed the connection''), c') \<and> \<not> fc_closed c'"
proof -
  have "8 \<le> length (stream (fc_in c))" using assms(2) by simp
  from recv_frame_header [OF assms(1) this] obtain as where as: "stream as = []" "ending as = Hangup # rest"
    "recv_frame c = map_option (\<lambda>(r, c'). (map_sum id (Pair (take_u32 (stream (fc_in c)))) r, c')) (read_exact (declared (stream (fc_in c))) (c\<lparr>fc_in := as\<rparr>))"
    using assms(2,3,5) by auto
  have "read_exact (declared (stream (fc_in c))) (c\<lparr>fc_in := as\<rparr>) = interrupted (c\<lparr>fc_in := as\<rparr>)"
    using assms(1,4) as(1) by (intro read_exact_short) simp_all
  then show ?thesis using as assms(1) by (simp add: interrupted_def)
qed

end
