(* ===== verification/Coordinator.thy ===== *)
theory Coordinator
  imports Protocol Transport_Properties Governor_Open
begin

text \<open>
  The server role (\<^verbatim>\<open>dist/coordinator.hpp\<close>, \<^verbatim>\<open>dist/coordinator.cpp\<close>): the accept loop with its
  connection limit, one handler per connection, what a handler does with each frame, start and stop.

  Handlers are threads over one governor, whose operations lock its mutex. A step of the model is one frame of
  one handler, or one accepted connection; steps of different handlers interleave freely. The governor calls
  that answer one frame are made one after the other in a step. The wall clock a step reads and the iteration
  order of an \<^verbatim>\<open>unordered_map\<close> are arguments. Binding the listener and the self-connection that wakes
  \<^verbatim>\<open>accept\<close> belong to the operating system; the peers' names are not kept.
\<close>

section \<open>State\<close>

record coordinator_options =
  cp_governor :: governor_options
  cp_max_connections :: u32
  cp_max_frames :: u64

text \<open>
  Where \<^verbatim>\<open>handle_connection\<close> is: before the first frame, at the head of its loop after so many frames,
  receiving the next frame, returned.
\<close>

datatype phase = Greeting | Serving u64 | Receiving u64 | Finished

record handler =
  hd_connection :: framed_connection
  hd_phase :: phase

record coordinator =
  co_options :: coordinator_options
  co_governor :: governor
  co_stop_requested :: bool
  co_running :: bool
  co_connections :: u64
  co_frames :: u64
  co_failures :: u32
  co_handlers :: "handler list"

section \<open>The first frame\<close>

definition reject_with :: "status \<Rightarrow> framed_connection \<Rightarrow> status \<times> framed_connection" where
  "reject_with s c = send_frame (message_type_to_u32 Msg_Reject) (encode_status s) c"

definition governor_epoch :: "governor \<Rightarrow> fabric_epoch" where
  "governor_epoch g = ds_epoch (gv_state g)"

definition hello_registration :: "hello_request \<Rightarrow> governor \<Rightarrow> status \<times> governor" where
  "hello_registration q g =
     (let (status, g) = (if hq_adopt q
                         then adopt_incarnation (hq_publisher q) (hq_incarnation q) (governor_epoch g) (hq_tick q) g
                         else register_publisher (hq_publisher q) (hq_incarnation q) (governor_epoch g) (hq_tick q) g)
      in if \<not> status_ok status \<and> hq_adopt q \<and> st_reason status = Reason_PublisherNotRegistered
         then register_publisher (hq_publisher q) (hq_incarnation q) (governor_epoch g) (hq_tick q) g
         else (status, g))"

definition hello_reply :: "hello_request \<Rightarrow> governor \<Rightarrow> hello_response" where
  "hello_reply q g =
     (let (capacity, reservation, admission) =
            (case evidence_generations (hq_domain q) g of Inl _ \<Rightarrow> (0, 0, 0) | Inr generations \<Rightarrow> generations);
          sequence = (if id_valid (hq_publisher q)
                      then (case publisher_sequence (hq_publisher q) g of Inl _ \<Rightarrow> 0 | Inr n \<Rightarrow> n) else 0)
      in \<lparr>hs_version = kProtocolVersion, hs_epoch = governor_epoch g, hs_policy_generation = pl_generation (ds_policy (gv_state g)),
          hs_capacity_generation = capacity, hs_reservation_generation = reservation, hs_admission_generation = admission,
          hs_last_sequence = sequence\<rparr>)"

text \<open>The rejection, or the greeting to send back.\<close>

definition greet :: "u32 \<times> u8 list \<Rightarrow> governor \<Rightarrow> (status + hello_response) \<times> governor" where
  "greet f g =
     (case f of (type, payload) \<Rightarrow>
        if type \<noteq> message_type_to_u32 Msg_Hello
        then (Inl (status_failure Status_InvalidArgument Reason_ProtocolViolation ''the first frame must be HELLO''), g)
        else (case decode_hello payload of
          None \<Rightarrow> (Inl (status_failure Status_CorruptData Reason_FrameMalformed ''HELLO payload is malformed''), g)
        | Some q \<Rightarrow>
            if hq_version q \<noteq> kProtocolVersion
            then (Inl (status_failure Status_Unsupported Reason_PublisherProtocolMismatch ''protocol version mismatch''), g)
            else let (status, g) = hello_registration q g in
              if \<not> status_ok status then (Inl status, g) else (Inr (hello_reply q g), g)))"

section \<open>The frames that follow\<close>

datatype answer =
  Answer message_type "u8 list"
| Refuse status
| Stop_serving

definition refuse_malformed :: "string \<Rightarrow> answer" where
  "refuse_malformed detail = Refuse (status_failure Status_CorruptData Reason_FrameMalformed detail)"

definition ack_of :: "ingest_outcome \<Rightarrow> publish_ack" where
  "ack_of x = \<lparr>pa_code = st_code (in_status x), pa_reason = st_reason (in_status x), pa_generation = in_generation x,
     pa_duplicate = in_duplicate x, pa_detail = st_detail (in_status x)\<rparr>"

definition serve_body :: "(u8 list \<Rightarrow> 's option) \<Rightarrow> ('s \<Rightarrow> governor \<Rightarrow> ingest_outcome \<times> governor) \<Rightarrow> string \<Rightarrow> u8 list \<Rightarrow> governor
   \<Rightarrow> answer \<times> governor" where
  "serve_body decode ingest_snapshot detail body g =
     (case decode body of
        None \<Rightarrow> (refuse_malformed detail, g)
      | Some s \<Rightarrow> let (x, g) = ingest_snapshot s g in (Answer Msg_PublishAck (encode_publish_ack (ack_of x)), g))"

definition serve_publish :: "u8 list \<Rightarrow> governor \<Rightarrow> answer \<times> governor" where
  "serve_publish payload g =
     (case r_u32 payload of
        None \<Rightarrow> (refuse_malformed ''PUBLISH header is malformed'', g)
      | Some (kind, body) \<Rightarrow>
          if kind = evidence_kind_to_u32 Evidence_Capacity
          then serve_body decode_capacity_snapshot ingest_capacity ''capacity snapshot is malformed'' body g
          else if kind = evidence_kind_to_u32 Evidence_Reservation
          then serve_body decode_reservation_snapshot ingest_reservations ''reservation snapshot is malformed'' body g
          else if kind = evidence_kind_to_u32 Evidence_Admission
          then serve_body decode_admission_snapshot ingest_admissions ''admission snapshot is malformed'' body g
          else (Refuse (status_failure Status_InvalidArgument Reason_EvidenceMalformed ''unknown evidence kind''), g))"

definition read_evaluate :: "u8 list \<Rightarrow> evaluation_request option" where
  "read_evaluate = whole (\<lambda>bs. do {
     (d, bs) \<leftarrow> r_u64 bs; (tick, bs) \<leftarrow> r_u64 bs; Some (\<lparr>rq_domain = StrongId d, rq_tick = tick\<rparr>, bs)
   })"

definition serve_evaluate ::
  "((u64 \<times> u64) list \<Rightarrow> (u64 \<times> u64) list) \<Rightarrow> u64 \<Rightarrow> u8 list \<Rightarrow> governor \<Rightarrow> answer \<times> governor" where
  "serve_evaluate iter wall payload g =
     (case read_evaluate payload of
        None \<Rightarrow> (refuse_malformed ''EVALUATE payload is malformed'', g)
      | Some rq \<Rightarrow>
          (case evaluate iter wall rq g of
             (Inl status, g) \<Rightarrow> (Refuse status, g)
           | (Inr x, g) \<Rightarrow> (Answer Msg_Decision (encode_decision x), g)))"

definition revalidation_ack :: "status + revalidation_report \<Rightarrow> revalidate_ack" where
  "revalidation_ack r =
     (case r of
        Inl status \<Rightarrow> \<lparr>ra_valid = False, ra_reason = st_reason status, ra_detail = st_detail status\<rparr>
      | Inr v \<Rightarrow> \<lparr>ra_valid = vr_valid v, ra_reason = vr_reason v, ra_detail = vr_detail v\<rparr>)"

definition serve_revalidate :: "u8 list \<Rightarrow> governor \<Rightarrow> answer \<times> governor" where
  "serve_revalidate payload g =
     (case decode_revalidate_request payload of
        None \<Rightarrow> (refuse_malformed ''REVALIDATE payload is malformed'', g)
      | Some x \<Rightarrow> let (r, g) = revalidate x g in (Answer Msg_RevalidateAck (encode_revalidate_ack (revalidation_ack r)), g))"

definition read_fence :: "u8 list \<Rightarrow> (publisher_id \<times> reason_code) option" where
  "read_fence = whole (\<lambda>bs. do {
     (p, bs) \<leftarrow> r_u64 bs; (reason, bs) \<leftarrow> r_u32 bs; Some ((StrongId p, ReasonCode reason), bs)
   })"

definition serve_fence :: "u8 list \<Rightarrow> governor \<Rightarrow> answer \<times> governor" where
  "serve_fence payload g =
     (case read_fence payload of
        None \<Rightarrow> (refuse_malformed ''FENCE_PUBLISHER payload is malformed'', g)
      | Some (p, reason) \<Rightarrow> let (status, g) = fence_publisher p reason g in (Answer Msg_PublishAck (encode_status status), g))"

definition serve_frame ::
  "((u64 \<times> u64) list \<Rightarrow> (u64 \<times> u64) list) \<Rightarrow> u64 \<Rightarrow> u32 \<times> u8 list \<Rightarrow> governor \<Rightarrow> answer \<times> governor" where
  "serve_frame iter wall f g =
     (case f of (type, payload) \<Rightarrow>
        if type = message_type_to_u32 Msg_Publish then serve_publish payload g
        else if type = message_type_to_u32 Msg_Evaluate then serve_evaluate iter wall payload g
        else if type = message_type_to_u32 Msg_Revalidate then serve_revalidate payload g
        else if type = message_type_to_u32 Msg_FencePublisher then serve_fence payload g
        else if type = message_type_to_u32 Msg_Shutdown then (Stop_serving, g)
        else (Refuse (status_failure Status_InvalidArgument Reason_ProtocolViolation ''unexpected message type''), g))"

section \<open>A handler\<close>

text \<open>When \<^verbatim>\<open>handle_connection\<close> returns, the destructor of its connection closes the socket.\<close>

definition ended :: "framed_connection \<Rightarrow> handler" where
  "ended c = \<lparr>hd_connection = close_connection c, hd_phase = Finished\<rparr>"

definition serving :: "u64 \<Rightarrow> framed_connection \<Rightarrow> handler" where
  "serving n c = \<lparr>hd_connection = c, hd_phase = Serving n\<rparr>"

definition greet_step :: "framed_connection \<Rightarrow> coordinator \<Rightarrow> (handler \<times> coordinator) option" where
  "greet_step c k =
     (case recv_frame c of
        None \<Rightarrow> None
      | Some (Inl s, c) \<Rightarrow> Some (ended c, k)
      | Some (Inr f, c) \<Rightarrow>
          (case greet f (co_governor k) of
             (Inl s, g) \<Rightarrow> Some (ended (snd (reject_with s c)), k\<lparr>co_governor := g\<rparr>)
           | (Inr h, g) \<Rightarrow>
               let (status, c) = send_frame (message_type_to_u32 Msg_HelloAck) (encode_hello_response h) c
               in Some (if status_ok status then serving 0 c else ended c, k\<lparr>co_governor := g\<rparr>)))"

definition frame_budget_exhausted :: status where
  "frame_budget_exhausted = status_failure Status_OutOfRange Reason_QueueLimitExceeded ''frame budget for this connection is exhausted''"

definition deliver_answer :: "u64 \<Rightarrow> answer \<Rightarrow> framed_connection \<Rightarrow> coordinator \<Rightarrow> handler \<times> coordinator" where
  "deliver_answer n a c k =
     (case a of
        Answer m payload \<Rightarrow>
          let (status, c) = send_frame (message_type_to_u32 m) payload c in (if status_ok status then serving n c else ended c, k)
      | Refuse s \<Rightarrow> (ended (snd (reject_with s c)), k)
      | Stop_serving \<Rightarrow>
          (ended (snd (send_frame (message_type_to_u32 Msg_ShutdownAck) (encode_status status_success) c)), k\<lparr>co_stop_requested := True\<rparr>))"

definition serve_step ::
  "((u64 \<times> u64) list \<Rightarrow> (u64 \<times> u64) list) \<Rightarrow> u64 \<Rightarrow> u64 \<Rightarrow> framed_connection \<Rightarrow> coordinator \<Rightarrow> (handler \<times> coordinator) option" where
  "serve_step iter wall n c k =
     (case recv_frame c of
        None \<Rightarrow> None
      | Some (Inl s, c) \<Rightarrow> Some (ended c, k)
      | Some (Inr f, c) \<Rightarrow>
          let k = k\<lparr>co_frames := co_frames k + 1\<rparr>; n = n + 1 in
          if n > cp_max_frames (co_options k) then Some (ended (snd (reject_with frame_budget_exhausted c)), k)
          else let (a, g) = serve_frame iter wall f (co_governor k)
               in Some (deliver_answer n a c (k\<lparr>co_governor := g\<rparr>)))"

text \<open>One step of a handler; \<^const>\<open>None\<close> while it waits in \<^verbatim>\<open>recv\<close>.\<close>

definition handler_step ::
  "((u64 \<times> u64) list \<Rightarrow> (u64 \<times> u64) list) \<Rightarrow> u64 \<Rightarrow> handler \<Rightarrow> coordinator \<Rightarrow> (handler \<times> coordinator) option" where
  "handler_step iter wall h k =
     (case hd_phase h of
        Greeting \<Rightarrow> greet_step (hd_connection h) k
      | Serving n \<Rightarrow> Some (if co_stop_requested k then ended (hd_connection h) else h\<lparr>hd_phase := Receiving n\<rparr>, k)
      | Receiving n \<Rightarrow> serve_step iter wall n (hd_connection h) k
      | Finished \<Rightarrow> None)"

text \<open>
  Every step of a handler ends it, passes the head of its loop, or takes a whole frame, at least its header,
  off the stream.
\<close>

lemma recv_frame_consumes: "recv_frame c = Some (Inr f, c') \<Longrightarrow> length (stream (fc_in c')) + 8 \<le> length (stream (fc_in c))"
  by (auto dest!: recv_frame_inv simp: frame_bytes_length)

lemma send_all_in: "fc_in (snd (send_all data c)) = fc_in c"
  by (induction data c rule: send_all.induct)
     (subst send_all.simps, auto simp: Let_def split: list.split send_outcome.split)

lemma send_frame_in: "send_frame type payload c = (s, c') \<Longrightarrow> fc_in c' = fc_in c"
  using send_all_in [of "w_u32 type @ w_u32 (word_of_nat (length payload))" c] send_all_in [of payload]
  by (auto simp: send_frame_def Let_def split: if_splits prod.splits) (metis snd_conv)+

definition handler_rank :: "handler \<Rightarrow> nat" where
  "handler_rank h =
     (case hd_phase h of Finished \<Rightarrow> 0 | Serving _ \<Rightarrow> 2 + 2 * length (stream (fc_in (hd_connection h)))
      | _ \<Rightarrow> 1 + 2 * length (stream (fc_in (hd_connection h))))"

lemma rank_simps [simp]: "handler_rank (ended c) = 0" "handler_rank (serving n c) = 2 + 2 * length (stream (fc_in c))"
  by (simp_all add: handler_rank_def ended_def serving_def)

lemma rank_deliver: "handler_rank (fst (deliver_answer n a c k)) \<le> 2 + 2 * length (stream (fc_in c))"
  by (auto simp: deliver_answer_def dest: send_frame_in split: answer.split prod.split)

lemma rank_greet:
  assumes "greet_step c k = Some (h', k')"
  shows "handler_rank h' < 1 + 2 * length (stream (fc_in c))"
proof (cases "recv_frame c")
  case (Some r)
  obtain x c' where r: "r = (x, c')" by (cases r)
  show ?thesis
  proof (cases x)
    case (Inr f)
    obtain y g where y: "greet f (co_governor k) = (y, g)" by fastforce
    have "length (stream (fc_in c')) + 8 \<le> length (stream (fc_in c))" using Some r Inr recv_frame_consumes by simp
    moreover have "handler_rank h' \<le> 2 + 2 * length (stream (fc_in c'))"
      using assms Some r Inr y by (cases y) (auto simp: greet_step_def Let_def dest: send_frame_in split: prod.splits)
    ultimately show ?thesis by linarith
  qed (use assms Some r in \<open>auto simp: greet_step_def\<close>)
qed (use assms in \<open>simp add: greet_step_def\<close>)

lemma rank_serve:
  assumes "serve_step iter wall n c k = Some (h', k')"
  shows "handler_rank h' < 1 + 2 * length (stream (fc_in c))"
proof (cases "recv_frame c")
  case (Some r)
  obtain x c' where r: "r = (x, c')" by (cases r)
  show ?thesis
  proof (cases x)
    case (Inr f)
    then have "length (stream (fc_in c')) + 8 \<le> length (stream (fc_in c))" using Some r recv_frame_consumes by simp
    moreover have "h' = ended (snd (reject_with frame_budget_exhausted c')) \<or> (\<exists>a k. h' = fst (deliver_answer (n + 1) a c' k))"
      using assms Some r Inr by (auto simp: serve_step_def Let_def split: prod.splits if_splits) (metis fst_conv)+
    moreover from this have "handler_rank h' \<le> 2 + 2 * length (stream (fc_in c'))" using rank_deliver [of "n + 1" _ c'] by auto
    ultimately show ?thesis by linarith
  qed (use assms Some r in \<open>auto simp: serve_step_def\<close>)
qed (use assms in \<open>simp add: serve_step_def\<close>)

lemma handler_step_progress:
  assumes "handler_step iter wall h k = Some (h', k')"
  shows "handler_rank h' < handler_rank h"
proof (cases "hd_phase h")
  case (Serving n)
  then have "h' = ended (hd_connection h) \<or> h' = h\<lparr>hd_phase := Receiving n\<rparr>" using assms by (auto simp: handler_step_def)
  with Serving show ?thesis by (auto simp: handler_rank_def [of "h\<lparr>hd_phase := _\<rparr>"] handler_rank_def [of h])
qed (use assms rank_greet rank_serve in \<open>auto simp: handler_step_def handler_rank_def [of h]\<close>)

text \<open>
  \<^verbatim>\<open>handle_connection\<close> while no other handler runs; \<open>walls n\<close> is the wall clock at its n-th step. The result is
  \<^const>\<open>None\<close> when it waits for bytes that do not come.
\<close>

function handle_connection ::
  "((u64 \<times> u64) list \<Rightarrow> (u64 \<times> u64) list) \<Rightarrow> (nat \<Rightarrow> u64) \<Rightarrow> nat \<Rightarrow> handler \<Rightarrow> coordinator \<Rightarrow> (handler \<times> coordinator) option" where
  "handle_connection iter walls n h k =
     (if hd_phase h = Finished then Some (h, k)
      else (case handler_step iter (walls n) h k of
        None \<Rightarrow> None
      | Some (h', k') \<Rightarrow> handle_connection iter walls (Suc n) h' k'))"
  by pat_completeness auto

termination
  by (relation "measure (\<lambda>(iter, walls, n, h, k). handler_rank h)") (auto intro: handler_step_progress)

declare handle_connection.simps [simp del]

section \<open>Accepting, starting and stopping\<close>

definition connection_limit :: status where
  "connection_limit = status_failure Status_Busy Reason_QueueLimitExceeded ''connection limit reached''"

definition reap_handlers :: "handler list \<Rightarrow> handler list" where
  "reap_handlers hs = filter (\<lambda>h. hd_phase h \<noteq> Finished) hs"

text \<open>
  One turn of the accept loop: what \<^verbatim>\<open>tcp_accept\<close> returned is a connection, or \<^const>\<open>None\<close> on failure. The result
  is the connection that was refused, if any; \<^verbatim>\<open>running_\<close> falls when the loop ends.
\<close>

definition accept_turn :: "framed_connection option \<Rightarrow> coordinator \<Rightarrow> framed_connection option \<times> coordinator" where
  "accept_turn accepted k =
     (if co_stop_requested k then (None, k\<lparr>co_running := False\<rparr>)
      else (case accepted of
        None \<Rightarrow>
          let failures = co_failures k + 1 in
          (None, if failures > 16 then k\<lparr>co_failures := failures, co_running := False\<rparr> else k\<lparr>co_failures := failures\<rparr>)
      | Some c \<Rightarrow>
          let k = k\<lparr>co_failures := 0, co_handlers := reap_handlers (co_handlers k)\<rparr> in
          if length (co_handlers k) \<ge> unat (cp_max_connections (co_options k))
          then (Some (close_connection (snd (reject_with connection_limit c))), k)
          else (None, k\<lparr>co_handlers := co_handlers k @ [\<lparr>hd_connection = c, hd_phase = Greeting\<rparr>],
                        co_connections := co_connections k + 1\<rparr>)))"

text \<open>\<open>listened\<close> is what \<^verbatim>\<open>tcp_listen\<close> returns.\<close>

definition coordinator_start :: "status \<Rightarrow> coordinator_options \<Rightarrow> policy \<Rightarrow> coordinator \<Rightarrow> status \<times> coordinator" where
  "coordinator_start listened opts p k =
     (let k = k\<lparr>co_options := opts\<rparr> in
      if cp_max_connections opts = 0
      then (status_failure Status_InvalidArgument Reason_LimitExceeded ''max_connections must be non-zero'', k)
      else if cp_max_frames opts = 0
      then (status_failure Status_InvalidArgument Reason_LimitExceeded ''max_frames_per_connection must be non-zero'', k)
      else let (status, g) = governor_open (cp_governor opts) p (co_governor k) in
        if \<not> status_ok status then (status, k\<lparr>co_governor := g\<rparr>)
        else if \<not> status_ok listened then (listened, k\<lparr>co_governor := snd (governor_close 0 g)\<rparr>)
        else (status_success, k\<lparr>co_governor := g, co_running := True, co_failures := 0\<rparr>))"

text \<open>
  \<^verbatim>\<open>stop\<close> requests the stop and joins the accept loop and every handler: it waits, \<^const>\<open>None\<close>, until each has
  ended by a step of its own.
\<close>

definition request_stop :: "coordinator \<Rightarrow> coordinator" where
  "request_stop k = k\<lparr>co_stop_requested := True\<rparr>"

definition coordinator_join :: "coordinator \<Rightarrow> (status \<times> coordinator) option" where
  "coordinator_join k =
     (if co_running k \<or> reap_handlers (co_handlers k) \<noteq> [] then None
      else Some (status_success, k\<lparr>co_handlers := [], co_governor := snd (governor_close 0 (co_governor k))\<rparr>))"

section \<open>Steps\<close>

text \<open>
  What happens to a running coordinator: a connection is accepted or fails to be, a handler takes a step, bytes
  arrive for a handler, a stop is requested.
\<close>

inductive coordinator_step :: "((u64 \<times> u64) list \<Rightarrow> (u64 \<times> u64) list) \<Rightarrow> coordinator \<Rightarrow> coordinator \<Rightarrow> bool" for iter where
  step_accept: "co_running k \<Longrightarrow> accept_turn accepted k = (turned_away, k') \<Longrightarrow> coordinator_step iter k k'"
| step_handler: "i < length (co_handlers k) \<Longrightarrow> handler_step iter wall (co_handlers k ! i) k = Some (h, k')
    \<Longrightarrow> coordinator_step iter k (k'\<lparr>co_handlers := (co_handlers k)[i := h]\<rparr>)"
| step_arrival: "i < length (co_handlers k) \<Longrightarrow> h = co_handlers k ! i
    \<Longrightarrow> h' = h\<lparr>hd_connection := (hd_connection h)\<lparr>fc_in := fc_in (hd_connection h) @ as, fc_sends := fc_sends (hd_connection h) @ outs\<rparr>\<rparr>
    \<Longrightarrow> coordinator_step iter k (k\<lparr>co_handlers := (co_handlers k)[i := h']\<rparr>)"
| step_stop: "coordinator_step iter k (request_stop k)"

end
