(* ===== verification/Worker.thy ===== *)
theory Worker
  imports Coordinator
begin

text \<open>
  The publisher role (\<^verbatim>\<open>dist/worker.hpp\<close>, \<^verbatim>\<open>dist/worker.cpp\<close>): one request, one response over a framed
  connection, the provenance stamped on every publication, and the client's view of each answer. The result of
  a call is \<^const>\<open>None\<close> while it waits for the response. What \<^verbatim>\<open>tcp_connect\<close> returned and the wall clock are
  arguments.
\<close>

section \<open>State\<close>

record worker_options =
  wo_publisher :: publisher_id
  wo_incarnation :: incarnation_id
  wo_domain :: domain_id
  wo_adopt :: bool
  wo_tick :: u64

text \<open>\<open>wc_rejected\<close> is \<^verbatim>\<open>remote_status_\<close> while \<^verbatim>\<open>remote_rejected_\<close> holds.\<close>

record worker_client =
  wc_connection :: framed_connection
  wc_hello :: hello_response
  wc_publisher :: publisher_id
  wc_incarnation :: incarnation_id
  wc_sequence :: u64
  wc_evidence_counter :: u64
  wc_sequence_valid :: bool
  wc_rejected :: "status option"
  wc_epoch_override :: fabric_epoch

definition wire_malformed :: "string \<Rightarrow> status" where
  "wire_malformed detail = status_failure Status_CorruptData Reason_FrameMalformed detail"

text \<open>A client as it is constructed, and its setters.\<close>

definition new_client :: worker_client where
  "new_client =
     \<lparr>wc_connection = \<lparr>fc_valid = False, fc_closed = False, fc_in = [], fc_out = [], fc_sends = []\<rparr>,
      wc_hello = \<lparr>hs_version = kProtocolVersion, hs_epoch = FabricEpoch 0, hs_policy_generation = Gen 0, hs_capacity_generation = 0,
        hs_reservation_generation = 0, hs_admission_generation = 0, hs_last_sequence = 0\<rparr>,
      wc_publisher = StrongId 0, wc_incarnation = StrongId 0, wc_sequence = 0, wc_evidence_counter = 0, wc_sequence_valid = False,
      wc_rejected = None, wc_epoch_override = FabricEpoch 0\<rparr>"

definition client_connected :: "worker_client \<Rightarrow> bool" where
  "client_connected w \<longleftrightarrow> \<not> fc_closed (wc_connection w) \<and> wc_sequence_valid w"

definition set_sequence :: "u64 \<Rightarrow> worker_client \<Rightarrow> worker_client" where
  "set_sequence n w = w\<lparr>wc_sequence := n\<rparr>"

definition set_evidence_counter :: "u64 \<Rightarrow> worker_client \<Rightarrow> worker_client" where
  "set_evidence_counter n w = w\<lparr>wc_evidence_counter := n\<rparr>"

definition set_epoch_override :: "fabric_epoch \<Rightarrow> worker_client \<Rightarrow> worker_client" where
  "set_epoch_override e w = w\<lparr>wc_epoch_override := e\<rparr>"

section \<open>Request and response\<close>

text \<open>A rejection is a success of the exchange with an empty response; the caller consumes it.\<close>

definition exchange :: "message_type \<Rightarrow> u8 list \<Rightarrow> message_type \<Rightarrow> worker_client \<Rightarrow> ((status + u8 list) \<times> worker_client) option" where
  "exchange request payload expected w =
     (let w = w\<lparr>wc_rejected := None\<rparr>;
          (status, c) = send_frame (message_type_to_u32 request) payload (wc_connection w);
          w = w\<lparr>wc_connection := c\<rparr> in
      if \<not> status_ok status then Some (Inl status, w)
      else (case recv_frame (wc_connection w) of
        None \<Rightarrow> None
      | Some (Inl status, c) \<Rightarrow> Some (Inl status, w\<lparr>wc_connection := c\<rparr>)
      | Some (Inr (type, received), c) \<Rightarrow>
          let w = w\<lparr>wc_connection := c\<rparr> in
          if type = message_type_to_u32 Msg_Reject
          then (case decode_status received of
            None \<Rightarrow> Some (Inl (wire_malformed ''REJECT is malformed''), w)
          | Some remote \<Rightarrow> Some (Inr [], w\<lparr>wc_rejected := Some remote\<rparr>))
          else if type \<noteq> message_type_to_u32 expected
          then Some (Inl (status_failure Status_Conflict Reason_ProtocolViolation (''unexpected response type '' @ decimal (unat type))), w)
          else Some (Inr received, w)))"

text \<open>
  What every caller does next: an error or a rejection is the answer, a response is decoded. The rejection is
  \<^const>\<open>Inr\<close> of \<^const>\<open>Inl\<close>.
\<close>

definition call ::
  "message_type \<Rightarrow> u8 list \<Rightarrow> message_type \<Rightarrow> (u8 list \<Rightarrow> 'a option) \<Rightarrow> string \<Rightarrow> worker_client
   \<Rightarrow> ((status + (status + 'a)) \<times> worker_client) option" where
  "call request payload expected decode detail w =
     (case exchange request payload expected w of
        None \<Rightarrow> None
      | Some (Inl status, w) \<Rightarrow> Some (Inl status, w)
      | Some (Inr response, w) \<Rightarrow>
          (case wc_rejected w of
             Some remote \<Rightarrow> Some (Inr (Inl remote), w\<lparr>wc_rejected := None\<rparr>)
           | None \<Rightarrow>
               (case decode response of
                  None \<Rightarrow> Some (Inl (wire_malformed detail), w)
                | Some x \<Rightarrow> Some (Inr (Inr x), w))))"

text \<open>The answer of a call whose rejection is the status it returns.\<close>

definition rejection_is_status :: "(status + (status + 'a)) \<times> worker_client \<Rightarrow> (status + 'a) \<times> worker_client" where
  "rejection_is_status r = (case r of (Inl s, w) \<Rightarrow> (Inl s, w) | (Inr x, w) \<Rightarrow> (x, w))"

section \<open>Connecting\<close>

definition client_connect ::
  "worker_options \<Rightarrow> status + framed_connection \<Rightarrow> worker_client \<Rightarrow> (status \<times> worker_client) option" where
  "client_connect opts connected w =
     (if \<not> id_valid (wo_publisher opts) \<or> \<not> id_valid (wo_incarnation opts) \<or> \<not> id_valid (wo_domain opts)
      then Some (status_failure Status_InvalidArgument Reason_InvalidIdentity ''publisher, incarnation, and domain are required'', w)
      else (case connected of
        Inl status \<Rightarrow> Some (status, w)
      | Inr c \<Rightarrow>
          let w = w\<lparr>wc_connection := c, wc_publisher := wo_publisher opts, wc_incarnation := wo_incarnation opts,
                    wc_sequence := 0, wc_evidence_counter := 0, wc_sequence_valid := True\<rparr>;
              q = \<lparr>hq_version = kProtocolVersion, hq_publisher = wo_publisher opts, hq_incarnation = wo_incarnation opts,
                   hq_domain = wo_domain opts, hq_adopt = wo_adopt opts, hq_tick = wo_tick opts\<rparr> in
          (case call Msg_Hello (encode_hello q) Msg_HelloAck decode_hello_response ''HELLO_ACK is malformed'' w of
             None \<Rightarrow> None
           | Some (Inl status, w) \<Rightarrow> Some (status, w)
           | Some (Inr (Inl remote), w) \<Rightarrow> Some (remote, w)
           | Some (Inr (Inr h), w) \<Rightarrow>
               let w = w\<lparr>wc_hello := h\<rparr> in
               if hs_version h \<noteq> kProtocolVersion
               then Some (status_failure Status_Unsupported Reason_PublisherProtocolMismatch
                            ''coordinator protocol version mismatch'', w)
               else Some (status_success, w\<lparr>wc_sequence := hs_last_sequence h, wc_evidence_counter := hs_last_sequence h\<rparr>))))"

section \<open>Publishing\<close>

definition claimed_epoch :: "worker_client \<Rightarrow> fabric_epoch" where
  "claimed_epoch w = (if epoch_valid (wc_epoch_override w) then wc_epoch_override w else hs_epoch (wc_hello w))"

definition next_evidence_id :: "incarnation_id \<Rightarrow> u64 \<Rightarrow> u64" where
  "next_evidence_id incarnation counter =
     (let base = (case mul_checked (id_value incarnation) 1000003 of None \<Rightarrow> 0 | Some n \<Rightarrow> n); i = add_sat base counter
      in if i = 0 then counter else i)"

text \<open>The provenance for the next publication; the payload digest is set by the caller.\<close>

definition stamp_provenance :: "u64 \<Rightarrow> u64 \<Rightarrow> provenance \<Rightarrow> worker_client \<Rightarrow> provenance \<times> worker_client" where
  "stamp_provenance wall observed p w =
     (let w = w\<lparr>wc_sequence := wc_sequence w + 1, wc_evidence_counter := wc_evidence_counter w + 1\<rparr>
      in (p\<lparr>pv_publisher := wc_publisher w, pv_incarnation := wc_incarnation w, pv_epoch := claimed_epoch w,
            pv_sequence := wc_sequence w, pv_observed_tick := observed, pv_observed_wall_millis := wall,
            pv_evidence_id := StrongId (next_evidence_id (wc_incarnation w) (wc_evidence_counter w))\<rparr>, w))"

definition stamp_capacity :: "u64 \<Rightarrow> capacity_snapshot \<Rightarrow> worker_client \<Rightarrow> capacity_snapshot \<times> worker_client" where
  "stamp_capacity wall s w =
     (let (p, w) = stamp_provenance wall (cs_tick s) (cs_provenance s) w;
          s = s\<lparr>cs_provenance := p, cs_epoch := claimed_epoch w,
                cs_domain := (if id_valid (cs_domain s) then cs_domain s else StrongId 0)\<rparr>
      in (s\<lparr>cs_provenance := (cs_provenance s)\<lparr>pv_payload_digest := capacity_snapshot_digest s\<rparr>\<rparr>, w))"

definition stamp_reservations :: "u64 \<Rightarrow> reservation_snapshot \<Rightarrow> worker_client \<Rightarrow> reservation_snapshot \<times> worker_client" where
  "stamp_reservations wall s w =
     (let (p, w) = stamp_provenance wall (rs_tick s) (rs_provenance s) w; s = s\<lparr>rs_provenance := p, rs_epoch := claimed_epoch w\<rparr>
      in (s\<lparr>rs_provenance := (rs_provenance s)\<lparr>pv_payload_digest := reservation_snapshot_digest s\<rparr>\<rparr>, w))"

definition stamp_admissions :: "u64 \<Rightarrow> admission_snapshot \<Rightarrow> worker_client \<Rightarrow> admission_snapshot \<times> worker_client" where
  "stamp_admissions wall s w =
     (let (p, w) = stamp_provenance wall (as_tick s) (as_provenance s) w; s = s\<lparr>as_provenance := p, as_epoch := claimed_epoch w\<rparr>
      in (s\<lparr>as_provenance := (as_provenance s)\<lparr>pv_payload_digest := admission_snapshot_digest s\<rparr>\<rparr>, w))"

text \<open>A rejection becomes an acknowledgement that carries it.\<close>

definition rejected_ack :: "status \<Rightarrow> publish_ack" where
  "rejected_ack remote = \<lparr>pa_code = st_code remote, pa_reason = st_reason remote, pa_generation = 0, pa_duplicate = False,
     pa_detail = st_detail remote\<rparr>"

definition publish_call :: "evidence_kind \<Rightarrow> u8 list \<Rightarrow> worker_client \<Rightarrow> ((status + publish_ack) \<times> worker_client) option" where
  "publish_call kind body w =
     map_option (\<lambda>(r, w). (case r of Inl s \<Rightarrow> Inl s | Inr (Inl remote) \<Rightarrow> Inr (rejected_ack remote) | Inr (Inr ack) \<Rightarrow> Inr ack, w))
       (call Msg_Publish (w_u32 (evidence_kind_to_u32 kind) @ body) Msg_PublishAck decode_publish_ack ''PUBLISH_ACK is malformed'' w)"

definition acknowledged :: "status + publish_ack \<Rightarrow> bool" where
  "acknowledged r = (case r of Inl _ \<Rightarrow> False | Inr ack \<Rightarrow> pa_code ack = Status_Ok)"

definition client_publish_capacity ::
  "u64 \<Rightarrow> capacity_snapshot \<Rightarrow> worker_client \<Rightarrow> ((status + publish_ack) \<times> capacity_snapshot \<times> worker_client) option" where
  "client_publish_capacity wall s w =
     (let (s, w) = stamp_capacity wall s w in
      map_option (\<lambda>(r, w). (r, case r of Inr ack \<Rightarrow> if acknowledged r then s\<lparr>cs_generation := Gen (pa_generation ack)\<rparr> else s | Inl _ \<Rightarrow> s, w))
        (publish_call Evidence_Capacity (encode_capacity_snapshot s) w))"

definition client_publish_reservations ::
  "u64 \<Rightarrow> reservation_snapshot \<Rightarrow> worker_client \<Rightarrow> ((status + publish_ack) \<times> reservation_snapshot \<times> worker_client) option" where
  "client_publish_reservations wall s w =
     (let (s, w) = stamp_reservations wall s w in
      map_option (\<lambda>(r, w). (r, case r of Inr ack \<Rightarrow> if acknowledged r then s\<lparr>rs_generation := Gen (pa_generation ack)\<rparr> else s | Inl _ \<Rightarrow> s, w))
        (publish_call Evidence_Reservation (encode_reservation_snapshot s) w))"

definition client_publish_admissions ::
  "u64 \<Rightarrow> admission_snapshot \<Rightarrow> worker_client \<Rightarrow> ((status + publish_ack) \<times> admission_snapshot \<times> worker_client) option" where
  "client_publish_admissions wall s w =
     (let (s, w) = stamp_admissions wall s w in
      map_option (\<lambda>(r, w). (r, case r of Inr ack \<Rightarrow> if acknowledged r then s\<lparr>as_generation := Gen (pa_generation ack)\<rparr> else s | Inl _ \<Rightarrow> s, w))
        (publish_call Evidence_Admission (encode_admission_snapshot s) w))"

section \<open>Asking\<close>

definition client_evaluate :: "domain_id \<Rightarrow> u64 \<Rightarrow> worker_client \<Rightarrow> ((status + decision) \<times> worker_client) option" where
  "client_evaluate i tick w =
     map_option rejection_is_status
       (call Msg_Evaluate (w_u64 (id_value i) @ w_u64 tick) Msg_Decision decode_decision ''DECISION is malformed'' w)"

definition client_revalidate :: "decision \<Rightarrow> worker_client \<Rightarrow> ((status + revalidate_ack) \<times> worker_client) option" where
  "client_revalidate x w =
     map_option rejection_is_status
       (call Msg_Revalidate (encode_revalidate_request x) Msg_RevalidateAck decode_revalidate_ack ''REVALIDATE_ACK is malformed'' w)"

text \<open>The remote status, or the error of the call.\<close>

definition client_fence_publisher :: "publisher_id \<Rightarrow> reason_code \<Rightarrow> worker_client \<Rightarrow> ((status + status) \<times> worker_client) option" where
  "client_fence_publisher p reason w =
     map_option (\<lambda>(r, w). (case r of Inl s \<Rightarrow> Inl s | Inr (Inl remote) \<Rightarrow> Inr remote
                          | Inr (Inr ack) \<Rightarrow> Inr \<lparr>st_code = pa_code ack, st_reason = pa_reason ack, st_detail = pa_detail ack\<rparr>, w))
       (call Msg_FencePublisher (w_u64 (id_value p) @ w_u32 (reason_value reason)) Msg_PublishAck decode_publish_ack
          ''FENCE ack is malformed'' w)"

definition client_close :: "worker_client \<Rightarrow> worker_client" where
  "client_close w = w\<lparr>wc_connection := close_connection (wc_connection w)\<rparr>"

text \<open>The response to a shutdown is not decoded.\<close>

definition client_shutdown :: "worker_client \<Rightarrow> (status \<times> worker_client) option" where
  "client_shutdown w =
     map_option (\<lambda>(r, w). (case r of Inl s \<Rightarrow> s | Inr (Inl remote) \<Rightarrow> remote | Inr (Inr _) \<Rightarrow> status_success, client_close w))
       (call Msg_Shutdown [] Msg_ShutdownAck Some '''' w)"

end
