(* ===== verification/Protocol_Facts.thy ===== *)
theory Protocol_Facts
  imports Protocol Governor_Durable
begin

text \<open>
  The codecs of the wire protocol as interpretations of the contract \<open>codec\<close>, what survives a round trip,
  and that decoded messages are within their bounds.
\<close>

section \<open>Messages that encode without loss\<close>

definition provenance_sendable :: "provenance \<Rightarrow> bool" where
  "provenance_sendable p = digest_ok (pv_payload_digest p)"

definition authority_sendable :: "authority_vector \<Rightarrow> bool" where
  "authority_sendable v = digest_ok (av_input_digest v)"

definition accounting_sendable :: "domain_accounting \<Rightarrow> bool" where
  "accounting_sendable a = wf_constraint (da_binding a)"

definition intent_sendable :: "corrective_intent \<Rightarrow> bool" where
  "intent_sendable c \<longleftrightarrow> wf_corrective_kind (ci_kind c) \<and> wf_corrective_target (ci_target c) \<and> length (ci_rationale c) \<le> 256"

definition resource_sendable :: "resource_capacity \<Rightarrow> bool" where
  "resource_sendable r = wf_resource_health (rc_health r)"

definition demand_sendable :: "demand_record \<Rightarrow> bool" where
  "demand_sendable r = wf_demand_kind (dr_kind r)"

definition resource_accounting_sendable :: "resource_accounting \<Rightarrow> bool" where
  "resource_accounting_sendable x \<longleftrightarrow> wf_resource_health (rx_health x) \<and> wf_constraint (rx_binding x)"

definition capacity_sendable :: "capacity_snapshot \<Rightarrow> bool" where
  "capacity_sendable s \<longleftrightarrow> list_all resource_sendable (cs_resources s) \<and> length (cs_resources s) \<le> 4096
     \<and> provenance_sendable (cs_provenance s)"

definition reservation_sendable :: "reservation_snapshot \<Rightarrow> bool" where
  "reservation_sendable s \<longleftrightarrow> length (rs_guarantees s) \<le> 65536 \<and> provenance_sendable (rs_provenance s)"

definition admission_sendable :: "admission_snapshot \<Rightarrow> bool" where
  "admission_sendable s \<longleftrightarrow> list_all demand_sendable (as_records s) \<and> length (as_records s) \<le> 65536
     \<and> provenance_sendable (as_provenance s)"

definition result_sendable :: "evaluation_result \<Rightarrow> bool" where
  "result_sendable r \<longleftrightarrow> recordable r \<and> digest_ok (er_digest r) \<and> list_all resource_accounting_sendable (er_resources r)
     \<and> list_all intent_sendable (er_intents r)"

definition decision_sendable :: "decision \<Rightarrow> bool" where
  "decision_sendable x \<longleftrightarrow> result_sendable (de_evaluation x) \<and> wf_outcome (de_raw x) \<and> wf_outcome (de_effective x)
     \<and> digest_ok (de_digest x)"

section \<open>The codecs\<close>

interpretation provenance_codec: codec write_provenance read_provenance provenance_sendable
  by unfold_locales (simp add: provenance_sendable_def write_provenance_def read_provenance_def codec_simps)

interpretation authority_codec: codec write_authority read_authority authority_sendable
  by unfold_locales (simp add: authority_sendable_def write_authority_def read_authority_def codec_simps)

interpretation accounting_codec: codec write_accounting read_accounting accounting_sendable
  by unfold_locales (simp add: accounting_sendable_def write_accounting_def read_accounting_def codec_simps)

interpretation intent_codec: codec write_intent read_intent intent_sendable
  by unfold_locales
     (simp add: intent_sendable_def write_intent_def read_intent_def codec_simps dropped_string_fits string_fits_def)

interpretation resource_codec: codec write_resource read_resource resource_sendable
  by unfold_locales (simp add: resource_sendable_def write_resource_def read_resource_def codec_simps)

interpretation guarantee_codec: codec write_guarantee read_guarantee "\<lambda>_. True"
  by unfold_locales (simp add: write_guarantee_def read_guarantee_def codec_simps)

interpretation demand_codec: codec write_demand read_demand demand_sendable
  by unfold_locales (simp add: demand_sendable_def write_demand_def read_demand_def codec_simps)

interpretation resource_accounting_codec: codec write_resource_accounting read_resource_accounting resource_accounting_sendable
  by unfold_locales
     (simp add: resource_accounting_sendable_def write_resource_accounting_def read_resource_accounting_def codec_simps)

lemmas wire_codecs [codec_simps] =
  provenance_codec.dec_enc authority_codec.dec_enc accounting_codec.dec_enc intent_codec.dec_enc

lemma whole_exact: "r payload = Some (x, []) \<Longrightarrow> whole r payload = Some x"
  by (simp add: whole_def)

lemma detail_body: "w_detail s = w_string_body (take 256 s)"
  by (simp add: w_detail_def w_string_dropped_def w_string_eq string_fits_def)

lemma detail_round [codec_simps]: "r_string kMaxDetailLength (w_detail s @ rest) = Some (take 256 s, rest)"
  by (simp add: detail_body codec_simps string_fits_def)

lemma detail_round_end [codec_simps]: "r_string kMaxDetailLength (w_detail s) = Some (take 256 s, [])"
  using detail_round [of s "[]"] by simp

context codec begin

text \<open>A list cut to its wire bound arrives cut.\<close>

lemma bounded_round:
  assumes "list_all ok xs"
  shows "r_list (unat bound) dec (w_bounded bound enc xs @ rest) = Some (take (unat bound) xs, rest)"
proof -
  have "w_bounded bound enc xs = w_list enc (take (unat bound) xs)"
    by (simp add: w_bounded_def w_list_def w_size_def min_def not_le)
  moreover have "list_all ok (take (unat bound) xs)" using assms by (auto simp: list_all_iff dest: in_set_takeD)
  moreover have "unat bound < 18446744073709551616" by (rule less_trans [OF unat_u32_less]) simp
  ultimately show ?thesis using list_round [of "take (unat bound) xs" "unat bound" rest] by simp
qed

end

end
