(* ===== verification/Coordinator_Properties.thy ===== *)
theory Coordinator_Properties
  imports Coordinator Governor_Properties Protocol_Facts
begin

text \<open>
  What serving adds and does not add: remote clients move the governor only by its own operations, at most
  the configured number of connections is served, a handler returns when its stream ends and serves no more
  than its budget of frames, a connection that does not greet changes nothing.
\<close>

section \<open>Every frame is a sequence of governor steps\<close>

lemma registration_steps: "hello_registration q g = (s, g') \<Longrightarrow> (governor_step iter)\<^sup>*\<^sup>* g g'"
  unfolding hello_registration_def Let_def
  by (auto split: prod.splits if_splits
      intro: step_adopt step_register r_into_rtranclp rtranclp.rtrancl_into_rtrancl [OF r_into_rtranclp])

lemma greet_steps: "greet f g = (r, g') \<Longrightarrow> (governor_step iter)\<^sup>*\<^sup>* g g'"
  unfolding greet_def by (auto simp: Let_def split: prod.splits if_splits option.splits intro: registration_steps)

lemma publish_steps: "serve_publish payload g = (a, g') \<Longrightarrow> (governor_step iter)\<^sup>*\<^sup>* g g'"
  unfolding serve_publish_def serve_body_def
  by (auto simp: Let_def split: prod.splits if_splits option.splits intro: step_capacity step_reservations step_admissions)

lemma evaluate_steps: "serve_evaluate iter wall payload g = (a, g') \<Longrightarrow> (governor_step iter)\<^sup>*\<^sup>* g g'"
  unfolding serve_evaluate_def evaluate_def
  by (auto split: prod.splits sum.splits if_splits option.splits intro: step_evaluate)

lemma serve_steps: "serve_frame iter wall f g = (a, g') \<Longrightarrow> (governor_step iter)\<^sup>*\<^sup>* g g'"
  unfolding serve_frame_def serve_revalidate_def serve_fence_def
  by (auto simp: Let_def split: prod.splits if_splits option.splits
      intro: publish_steps evaluate_steps step_revalidate step_fence)

lemma deliver_governor [simp]: "co_governor (snd (deliver_answer n a c k)) = co_governor k"
  "co_options (snd (deliver_answer n a c k)) = co_options k" "co_handlers (snd (deliver_answer n a c k)) = co_handlers k"
  "co_frames (snd (deliver_answer n a c k)) = co_frames k" "co_running (snd (deliver_answer n a c k)) = co_running k"
  by (simp_all add: deliver_answer_def split: answer.split prod.split)

lemma greet_step_steps:
  assumes "greet_step c k = Some (h, k')"
  shows "(governor_step iter)\<^sup>*\<^sup>* (co_governor k) (co_governor k')" "co_options k' = co_options k" "co_handlers k' = co_handlers k"
    "co_frames k' = co_frames k"
  using assms by (auto simp: greet_step_def Let_def split: option.splits sum.splits prod.splits intro: greet_steps)

lemma serve_step_cases:
  assumes "serve_step iter wall n c k = Some (h, k')"
  obtains (failed) s c' where "recv_frame c = Some (Inl s, c')" "h = ended c'" "k' = k"
  | (exhausted) f c' where "recv_frame c = Some (Inr f, c')" "n + 1 > cp_max_frames (co_options k)"
      "h = ended (snd (reject_with frame_budget_exhausted c'))" "k' = k\<lparr>co_frames := co_frames k + 1\<rparr>"
  | (served) f c' a g where "recv_frame c = Some (Inr f, c')" "n + 1 \<le> cp_max_frames (co_options k)"
      "serve_frame iter wall f (co_governor k) = (a, g)"
      "(h, k') = deliver_answer (n + 1) a c' (k\<lparr>co_frames := co_frames k + 1, co_governor := g\<rparr>)"
proof (cases "recv_frame c")
  case (Some r)
  obtain x c' where r: "r = (x, c')" by (cases r)
  show thesis
  proof (cases x)
    case (Inl s)
    then show thesis using assms Some r failed by (simp add: serve_step_def)
  next
    case (Inr f)
    obtain a g where ag: "serve_frame iter wall f (co_governor k) = (a, g)" by fastforce
    show thesis
    proof (cases "n + 1 > cp_max_frames (co_options k)")
      case True
      then show thesis using assms Some r Inr exhausted by (simp add: serve_step_def Let_def)
    next
      case False
      then have "n + 1 \<le> cp_max_frames (co_options k)" by simp
      with False show thesis using assms Some r Inr ag served [of f c' a g] by (simp add: serve_step_def Let_def del: not_less)
    qed
  qed
qed (use assms in \<open>simp add: serve_step_def\<close>)

lemma serve_step_steps:
  assumes "serve_step iter wall n c k = Some (h, k')"
  shows "(governor_step iter)\<^sup>*\<^sup>* (co_governor k) (co_governor k')" "co_options k' = co_options k" "co_handlers k' = co_handlers k"
proof -
  from assms have "(governor_step iter)\<^sup>*\<^sup>* (co_governor k) (co_governor k') \<and> co_options k' = co_options k \<and> co_handlers k' = co_handlers k"
  proof (cases rule: serve_step_cases)
    case (served f c' a g)
    from served(4) have "k' = snd (deliver_answer (n + 1) a c' (k\<lparr>co_frames := co_frames k + 1, co_governor := g\<rparr>))" by (metis snd_conv)
    with serve_steps [OF served(3)] show ?thesis by simp
  qed simp_all
  then show "(governor_step iter)\<^sup>*\<^sup>* (co_governor k) (co_governor k')" "co_options k' = co_options k" "co_handlers k' = co_handlers k" by auto
qed

lemma handler_step_steps:
  assumes "handler_step iter wall h k = Some (h', k')"
  shows "(governor_step iter)\<^sup>*\<^sup>* (co_governor k) (co_governor k')" "co_options k' = co_options k" "co_handlers k' = co_handlers k"
  using assms by (auto simp: handler_step_def dest: greet_step_steps serve_step_steps split: phase.splits)

lemma accept_turn_frame:
  assumes "accept_turn accepted k = (turned_away, k')"
  shows "co_governor k' = co_governor k" "co_options k' = co_options k"
    "length (co_handlers k') \<le> max (length (co_handlers k)) (unat (cp_max_connections (co_options k)))"
  using assms
  by (auto simp: accept_turn_def Let_def reap_handlers_def le_max_iff_disj split: if_splits option.splits
      intro: order.trans [OF length_filter_le])


text \<open>
  The connection limit holds: the coordinator never serves more connections at a time than its limit, in
  any interleaving of accepted connections, served frames and finished handlers.
\<close>

theorem connections_bounded:
  assumes "(coordinator_step iter)\<^sup>*\<^sup>* k k'" and "length (co_handlers k) \<le> unat (cp_max_connections (co_options k))"
  shows "length (co_handlers k') \<le> unat (cp_max_connections (co_options k')) \<and> co_options k' = co_options k"
  using assms
proof (induction rule: rtranclp_induct)
  case (step y z)
  from step(2) have "length (co_handlers z) \<le> max (length (co_handlers y)) (unat (cp_max_connections (co_options y))) \<and> co_options z = co_options y"
  proof cases
    case (step_accept accepted turned_away)
    then show ?thesis using accept_turn_frame by blast
  next
    case (step_handler i wall h k'')
    then show ?thesis using handler_step_steps(2) by simp
  qed (simp_all add: request_stop_def)
  with step.IH [OF step.prems] show ?case by (auto simp: le_max_iff_disj)
qed simp


section \<open>A sample coordinator\<close>

definition bringing :: "u32 \<times> u8 list \<Rightarrow> framed_connection" where
  "bringing f = idle_connection\<lparr>fc_in := [Arrived (frame_bytes f)], fc_sends := []\<rparr>"

definition sample_coordinator :: coordinator where
  "sample_coordinator =
     \<lparr>co_options = \<lparr>cp_governor = gv_options sample_governor, cp_max_connections = 8, cp_max_frames = 65536\<rparr>, co_governor = sample_governor,
      co_stop_requested = False, co_running = True, co_connections = 1, co_frames = 0, co_failures = 0, co_handlers = []\<rparr>"

lemma sample_served: "co_governor sample_coordinator = sample_governor"
  by (simp add: sample_coordinator_def)

definition evaluate_frame :: "u32 \<times> u8 list" where
  "evaluate_frame = (message_type_to_u32 Msg_Evaluate, w_u64 7 @ w_u64 21)"

definition evaluating_coordinator :: coordinator where
  "evaluating_coordinator = sample_coordinator\<lparr>co_handlers := [\<lparr>hd_connection = bringing evaluate_frame, hd_phase = Receiving 0\<rparr>]\<rparr>"

lemma evaluating_steps:
  assumes "evaluate id 0 sample_request sample_governor = (Inr x, g')"
  shows "\<exists>k'. coordinator_step id evaluating_coordinator k' \<and> co_governor k' = g'"
proof -
  have f: "usable (bringing evaluate_frame)" "stream (fc_in (bringing evaluate_frame)) = frame_bytes evaluate_frame @ []" "payload_fits evaluate_frame"
    by (simp_all add: bringing_def idle_connection_def payload_fits_def evaluate_frame_def)
  from recv_frame_whole [OF this] obtain as where r: "recv_frame (bringing evaluate_frame) = Some (Inr evaluate_frame, (bringing evaluate_frame)\<lparr>fc_in := as\<rparr>)" .
  have "read_evaluate (w_u64 7 @ w_u64 21) = Some sample_request"
    unfolding read_evaluate_def by (intro whole_exact) (simp add: codec_simps u64_codec.dec_enc_exact sample_request_def)
  then have a: "serve_frame id 0 evaluate_frame sample_governor = (Answer Msg_Decision (encode_decision x), g')"
    using assms by (simp add: serve_frame_def evaluate_frame_def serve_evaluate_def)
  obtain h k' where d: "deliver_answer 1 (Answer Msg_Decision (encode_decision x)) ((bringing evaluate_frame)\<lparr>fc_in := as\<rparr>)
      (evaluating_coordinator\<lparr>co_frames := co_frames evaluating_coordinator + 1, co_governor := g'\<rparr>) = (h, k')" by fastforce
  have "handler_step id 0 (co_handlers evaluating_coordinator ! 0) evaluating_coordinator = Some (h, k')"
    using a d by (simp add: handler_step_def serve_step_def r Let_def evaluating_coordinator_def sample_coordinator_def)
  moreover have "co_governor k' = g'" using d deliver_governor(1) by (metis coordinator.select_convs(2) coordinator.surjective coordinator.update_convs(2) snd_conv)
  ultimately show ?thesis
    using step_handler [of 0 evaluating_coordinator id 0 h k'] by (intro exI) (auto simp: evaluating_coordinator_def)
qed


theorem connections_bounded_witness:
  "\<exists>(k' :: coordinator). (coordinator_step id)\<^sup>*\<^sup>* sample_coordinator k' \<and> length (co_handlers k') = 1 \<and> length (co_handlers k') \<le> 8"
proof -
  obtain k' where k': "accept_turn (Some (bringing evaluate_frame)) sample_coordinator = (None, k')" "length (co_handlers k') = 1"
    by (auto simp: accept_turn_def sample_coordinator_def reap_handlers_def)
  have "coordinator_step id sample_coordinator k'" using step_accept [OF _ k'(1)] by (simp add: sample_coordinator_def)
  then have "(coordinator_step id)\<^sup>*\<^sup>* sample_coordinator k'" by blast
  from connections_bounded [OF this] this k'(2) show ?thesis by (auto simp: sample_coordinator_def)
qed

section \<open>A handler returns\<close>

lemma recv_frame_ends: "recv_frame c = Some (r, c') \<Longrightarrow> ending (fc_in c) \<noteq> [] \<Longrightarrow> isl r \<or> ending (fc_in c') = ending (fc_in c)"
  by (cases r) (auto dest: recv_frame_inv)

text \<open>A step of a handler whose stream ends: it takes one, and the stream of what goes on ends too.\<close>

lemma handler_step_ends:
  assumes "ending (fc_in (hd_connection h)) \<noteq> []" and "hd_phase h \<noteq> Finished"
  obtains h' k' where "handler_step iter wall h k = Some (h', k')"
    "hd_phase h' \<noteq> Finished \<longrightarrow> ending (fc_in (hd_connection h')) \<noteq> []"
proof -
  obtain r c' where r: "recv_frame (hd_connection h) = Some (r, c')"
    using recv_frame_blocks_only_midframe [of "hd_connection h"] assms(1) by fastforce
  then have e: "isl r \<or> ending (fc_in c') \<noteq> []" using recv_frame_ends [OF r assms(1)] assms(1) by auto
  have sent: "fc_in (snd (send_frame t p c')) = fc_in c'" for t p by (cases "send_frame t p c'") (simp add: send_frame_in)
  have deliver: "hd_phase (fst (deliver_answer n a c' k)) \<noteq> Finished \<longrightarrow> fc_in (hd_connection (fst (deliver_answer n a c' k))) = fc_in c'" for n a k
    by (auto simp: deliver_answer_def ended_def serving_def dest: send_frame_in split: answer.split prod.split)
  show thesis
  proof (cases "hd_phase h")
    case Greeting
    show thesis
    proof (cases r)
      case (Inl s)
      then show thesis using Greeting r that by (simp add: handler_step_def greet_step_def ended_def)
    next
      case (Inr f)
      obtain y g where y: "greet f (co_governor k) = (y, g)" by fastforce
      show thesis
      proof (cases y)
        case (Inl s)
        then show thesis using Greeting r \<open>r = Inr f\<close> y that by (simp add: handler_step_def greet_step_def ended_def)
      next
        case (Inr hello)
        obtain st c2 where "send_frame (message_type_to_u32 Msg_HelloAck) (encode_hello_response hello) c' = (st, c2)" by fastforce
        then show thesis
          using Greeting r \<open>r = Inr f\<close> y Inr e that [of "if status_ok st then serving 0 c2 else ended c2" "k\<lparr>co_governor := g\<rparr>"]
          by (auto simp: handler_step_def greet_step_def Let_def ended_def serving_def dest: send_frame_in)
      qed
    qed
  next
    case (Serving n)
    then show thesis using that [of "if co_stop_requested k then ended (hd_connection h) else h\<lparr>hd_phase := Receiving n\<rparr>" k] assms(1)
      by (simp add: handler_step_def ended_def)
  next
    case (Receiving n)
    show thesis
    proof (cases r)
      case (Inl s)
      then show thesis using Receiving r that by (simp add: handler_step_def serve_step_def ended_def)
    next
      case (Inr f)
      obtain a g where "serve_frame iter wall f (co_governor k) = (a, g)" by fastforce
      then have "handler_step iter wall h k = Some (if n + 1 > cp_max_frames (co_options k)
            then (ended (snd (reject_with frame_budget_exhausted c')), k\<lparr>co_frames := co_frames k + 1\<rparr>)
            else deliver_answer (n + 1) a c' (k\<lparr>co_frames := co_frames k + 1, co_governor := g\<rparr>))"
        using Receiving r Inr by (simp add: handler_step_def serve_step_def Let_def)
      then show thesis
        using that deliver [of "n + 1" a] e Inr by (auto simp: ended_def split: if_splits) (metis prod.collapse)
    qed
  qed (use assms(2) in simp)
qed

text \<open>How many more frames a handler may count.\<close>

definition frames_left :: "u64 \<Rightarrow> phase \<Rightarrow> nat" where
  "frames_left most p =
     (case p of Greeting \<Rightarrow> unat most + 1 | Serving n \<Rightarrow> unat most + 1 - unat n | Receiving n \<Rightarrow> unat most + 1 - unat n | Finished \<Rightarrow> 0)"

definition within_budget :: "u64 \<Rightarrow> phase \<Rightarrow> bool" where
  "within_budget most p = (case p of Serving n \<Rightarrow> n \<le> most | Receiving n \<Rightarrow> n \<le> most | _ \<Rightarrow> True)"

lemma deliver_phase: "hd_phase (fst (deliver_answer n a c k)) \<in> {Serving n, Finished}"
  by (auto simp: deliver_answer_def ended_def serving_def split: answer.split prod.split)

lemma serve_step_frames:
  assumes "serve_step iter wall n c k = Some (h', k')" and "n \<le> cp_max_frames (co_options k)" and "cp_max_frames (co_options k) \<noteq> - 1"
  shows "within_budget (cp_max_frames (co_options k)) (hd_phase h')
    \<and> (\<exists>m. co_frames k' = co_frames k + word_of_nat m
          \<and> m + frames_left (cp_max_frames (co_options k)) (hd_phase h') \<le> frames_left (cp_max_frames (co_options k)) (Receiving n))"
  using assms(1)
proof (cases rule: serve_step_cases)
  case (failed s c')
  then show ?thesis by (auto simp: ended_def within_budget_def frames_left_def intro: exI [of _ 0])
next
  case (exhausted f c')
  then show ?thesis
    using assms(2) by (auto simp: ended_def within_budget_def frames_left_def word_le_nat_alt intro!: exI [of _ 1])
next
  case (served f c' a g)
  from served(4) have h: "h' = fst (deliver_answer (n + 1) a c' (k\<lparr>co_frames := co_frames k + 1, co_governor := g\<rparr>))"
    and "k' = snd (deliver_answer (n + 1) a c' (k\<lparr>co_frames := co_frames k + 1, co_governor := g\<rparr>))" by (metis fst_conv, metis snd_conv)
  then have k: "co_frames k' = co_frames k + 1" by simp
  have "n \<noteq> - 1" using assms(2,3) word_order.extremum_unique by blast
  then have "unat (n + 1) = Suc (unat n)" by (rule unat_inc)
  then show ?thesis
    using deliver_phase [of "n + 1" a c' "k\<lparr>co_frames := co_frames k + 1, co_governor := g\<rparr>"] served(2) k assms(2)
    unfolding h by (auto simp: within_budget_def frames_left_def word_le_nat_alt intro!: exI [of _ 1])
qed

lemma handler_step_frames:
  assumes "handler_step iter wall h k = Some (h', k')" and "within_budget (cp_max_frames (co_options k)) (hd_phase h)"
    and "cp_max_frames (co_options k) \<noteq> - 1"
  shows "within_budget (cp_max_frames (co_options k)) (hd_phase h')
    \<and> (\<exists>m. co_frames k' = co_frames k + word_of_nat m
          \<and> m + frames_left (cp_max_frames (co_options k)) (hd_phase h') \<le> frames_left (cp_max_frames (co_options k)) (hd_phase h))"
proof (cases "hd_phase h")
  case Greeting
  then have "hd_phase h' \<in> {Serving 0, Finished} \<and> co_frames k' = co_frames k"
    using assms(1) by (auto simp: handler_step_def greet_step_def ended_def serving_def Let_def split: option.splits sum.splits prod.splits if_splits)
  with Greeting show ?thesis by (auto simp: within_budget_def frames_left_def intro: exI [of _ 0])
next
  case (Serving n)
  then have "hd_phase h' \<in> {Receiving n, Finished} \<and> co_frames k' = co_frames k"
    using assms(1) by (auto simp: handler_step_def ended_def)
  with Serving assms(2) show ?thesis by (auto simp: within_budget_def frames_left_def intro: exI [of _ 0])
next
  case (Receiving n)
  then show ?thesis using serve_step_frames [of iter wall n "hd_connection h" k h' k'] assms
    by (simp add: handler_step_def within_budget_def)
qed (use assms(1) in \<open>simp add: handler_step_def\<close>)



section \<open>Stopping\<close>

text \<open>
  Stopping waits for idle clients: while a handler is receiving and its usable connection has less than a
  frame to read, the handler can take no step, whether or not a stop is requested, and the join of \<^verbatim>\<open>stop\<close> does
  not return.
\<close>

theorem stop_waits_for_idle_client:
  assumes "h \<in> set (co_handlers k)" and "hd_phase h = Receiving n" and "recv_frame (hd_connection h) = None"
  shows "handler_step iter wall h (request_stop k) = None \<and> coordinator_join (request_stop k) = None"
proof -
  have "reap_handlers (co_handlers k) \<noteq> []" using assms(1,2) by (auto simp: reap_handlers_def filter_empty_conv intro!: bexI [of _ h])
  then show ?thesis using assms by (simp add: handler_step_def serve_step_def coordinator_join_def request_stop_def)
qed

theorem stop_waits_for_idle_client_witness:
  "handler_step id 0 \<lparr>hd_connection = idle_connection, hd_phase = Receiving 3\<rparr>
      (request_stop (sample_coordinator\<lparr>co_handlers := [\<lparr>hd_connection = idle_connection, hd_phase = Receiving 3\<rparr>]\<rparr>)) = None
    \<and> coordinator_join (request_stop (sample_coordinator\<lparr>co_handlers := [\<lparr>hd_connection = idle_connection, hd_phase = Receiving 3\<rparr>]\<rparr>)) = None"
proof -
  have "recv_frame idle_connection = None"
    unfolding recv_frame_blocks_only_midframe by (simp add: idle_connection_def)
  then show ?thesis by (intro stop_waits_for_idle_client) simp_all
qed

end
