(* ===== verification/Protocol_Properties.thy ===== *)
theory Protocol_Properties
  imports Protocol_Facts Governor_Properties
begin

text \<open>
  What the wire keeps: evidence arrives as it was sent, whatever arrives is within its bounds, an answered
  decision arrives with everything its digest binds, and a decision sent back for revalidation is judged as
  the original would be.
\<close>

section \<open>What a decoder returns\<close>

lemma yields_provenance: "yields read_provenance provenance_sendable"
  by (auto simp: yields_def read_provenance_def provenance_sendable_def split: bind_splits dest: yieldsD [OF yields_digest])

lemma yields_resource: "yields read_resource resource_sendable"
  by (auto simp: yields_def read_resource_def resource_sendable_def split: bind_splits)

lemma yields_demand: "yields read_demand demand_sendable"
  by (auto simp: yields_def read_demand_def demand_sendable_def split: bind_splits)

lemma yields_guarantee: "yields read_guarantee (\<lambda>_. True)"
  by (simp add: yields_def)

lemma wholeD: "whole r payload = Some x \<Longrightarrow> r payload = Some (x, [])"
  by (auto simp: whole_def split: option.splits prod.splits if_splits)

lemma capacity_arrives: "capacity_sendable c \<Longrightarrow> decode_capacity_snapshot (encode_capacity_snapshot c) = Some c"
  using resource_codec.list_round [of "cs_resources c" 4096] provenance_codec.dec_enc_exact [of "cs_provenance c"]
  unfolding decode_capacity_snapshot_def encode_capacity_snapshot_def capacity_sendable_def
  by (intro whole_exact) (simp add: codec_simps)

lemma reservations_arrive: "reservation_sendable r \<Longrightarrow> decode_reservation_snapshot (encode_reservation_snapshot r) = Some r"
  using guarantee_codec.list_round [of "rs_guarantees r" 65536] provenance_codec.dec_enc_exact [of "rs_provenance r"]
  unfolding decode_reservation_snapshot_def encode_reservation_snapshot_def reservation_sendable_def
  by (intro whole_exact) (simp add: codec_simps list.pred_True)

lemma admissions_arrive: "admission_sendable a \<Longrightarrow> decode_admission_snapshot (encode_admission_snapshot a) = Some a"
  using demand_codec.list_round [of "as_records a" 65536] provenance_codec.dec_enc_exact [of "as_provenance a"]
  unfolding decode_admission_snapshot_def encode_admission_snapshot_def admission_sendable_def
  by (intro whole_exact) (simp add: codec_simps)

text \<open>
  C25. Evidence crosses the wire unchanged: a decoder returns exactly the snapshots that encode without loss
  (within the per-snapshot bounds, with proper kinds and digests), and decoding the encoding of such a snapshot
  gives it back, for the three kinds of evidence.
\<close>

theorem evidence_survives_wire:
  "(decode_capacity_snapshot (encode_capacity_snapshot c) = Some c \<longleftrightarrow> capacity_sendable c)
   \<and> (decode_reservation_snapshot (encode_reservation_snapshot r) = Some r \<longleftrightarrow> reservation_sendable r)
   \<and> (decode_admission_snapshot (encode_admission_snapshot a) = Some a \<longleftrightarrow> admission_sendable a)
   \<and> pred_option capacity_sendable (decode_capacity_snapshot bytes)
   \<and> pred_option reservation_sendable (decode_reservation_snapshot bytes)
   \<and> pred_option admission_sendable (decode_admission_snapshot bytes)"
proof -
  have c: "capacity_sendable s" if "decode_capacity_snapshot bs = Some s" for bs s
    using that yieldsD [OF yields_list [OF yields_resource]] yieldsD [OF yields_provenance]
    by (auto simp: decode_capacity_snapshot_def capacity_sendable_def dest!: wholeD split: bind_splits)
  have r: "reservation_sendable s" if "decode_reservation_snapshot bs = Some s" for bs s
    using that yieldsD [OF yields_list [OF yields_guarantee]] yieldsD [OF yields_provenance]
    by (auto simp: decode_reservation_snapshot_def reservation_sendable_def dest!: wholeD split: bind_splits)
  have a: "admission_sendable s" if "decode_admission_snapshot bs = Some s" for bs s
    using that yieldsD [OF yields_list [OF yields_demand]] yieldsD [OF yields_provenance]
    by (auto simp: decode_admission_snapshot_def admission_sendable_def dest!: wholeD split: bind_splits)
  show ?thesis using c r a capacity_arrives reservations_arrive admissions_arrive by (auto simp: pred_option_def)
qed


section \<open>Decisions\<close>

text \<open>
  What the receiver of a decision holds: the notes are not sent, the detail, the resource table and the
  intents are cut to their wire bounds.
\<close>

definition received_result :: "evaluation_result \<Rightarrow> evaluation_result" where
  "received_result r = r\<lparr>er_detail := take 256 (er_detail r), er_resources := take 64 (er_resources r), er_intents := take 16 (er_intents r),
     er_notes := []\<rparr>"

definition received_decision :: "decision \<Rightarrow> decision" where
  "received_decision x = x\<lparr>de_evaluation := received_result (de_evaluation x)\<rparr>"

lemma decision_round:
  assumes "decision_sendable x"
  shows "decode_decision (encode_decision x) = Some (received_decision x)"
proof -
  let ?r = "de_evaluation x"
  have ok: "wf_outcome (er_outcome ?r)" "accounting_sendable (er_accounting ?r)" "authority_sendable (er_authority ?r)"
    "digest_ok (er_digest ?r)" "wf_outcome (de_raw x)" "wf_outcome (de_effective x)" "digest_ok (de_digest x)"
    using assms by (simp_all add: decision_sendable_def result_sendable_def recordable_def accounting_sendable_def authority_sendable_def)
  have lists: "list_all resource_accounting_sendable (er_resources ?r)" "list_all intent_sendable (er_intents ?r)"
    using assms by (simp_all add: decision_sendable_def result_sendable_def)
  note lists' = resource_accounting_codec.bounded_round [OF lists(1), of kMaxWireResources, simplified]
    intent_codec.bounded_round [OF lists(2), of kMaxWireIntents, simplified]
  have "r_digest (w_digest (de_digest x)) = Some (de_digest x, [])" using digest_codec.dec_enc_exact [OF ok(7)] .
  then show ?thesis
    unfolding decode_decision_def encode_decision_def Let_def
    by (intro whole_exact)
       (simp add: codec_simps ok lists' received_decision_def received_result_def no_decision_def result_zero_def)
qed

text \<open>
  An enumeration holds a word; the model's representation of it by a constructor or by a cast is not unique.
  The canonical form chooses the constructor, as reading does; the word and the encoding are the same.
\<close>

definition canonical_resource :: "resource_accounting \<Rightarrow> resource_accounting" where
  "canonical_resource x = x\<lparr>rx_health := resource_health_of_u32 (resource_health_to_u32 (rx_health x)),
     rx_binding := constraint_of_u32 (constraint_to_u32 (rx_binding x))\<rparr>"

definition canonical_intent :: "corrective_intent \<Rightarrow> corrective_intent" where
  "canonical_intent c = c\<lparr>ci_kind := corrective_kind_of_u32 (corrective_kind_to_u32 (ci_kind c)),
     ci_target := corrective_target_of_u32 (corrective_target_to_u32 (ci_target c))\<rparr>"

definition canonical_result :: "evaluation_result \<Rightarrow> evaluation_result" where
  "canonical_result r = r\<lparr>er_resources := map canonical_resource (er_resources r), er_intents := map canonical_intent (er_intents r)\<rparr>"

definition canonical_decision :: "decision \<Rightarrow> decision" where
  "canonical_decision x = x\<lparr>de_evaluation := canonical_result (de_evaluation x),
     de_effective := outcome_of_u32 (outcome_to_u32 (de_effective x))\<rparr>"

lemma enum_words:
  "outcome_to_u32 (outcome_of_u32 n) = n" "constraint_to_u32 (constraint_of_u32 n) = n"
  "resource_health_to_u32 (resource_health_of_u32 n) = n" "corrective_kind_to_u32 (corrective_kind_of_u32 n) = n"
  "corrective_target_to_u32 (corrective_target_of_u32 n) = n"
  by (simp_all add: outcome_of_u32_def constraint_of_u32_def resource_health_of_u32_def corrective_kind_of_u32_def
      corrective_target_of_u32_def)

lemma canonical_parts:
  "write_resource_accounting (canonical_resource y) = write_resource_accounting y" "write_intent (canonical_intent c) = write_intent c"
  by (simp_all add: write_resource_accounting_def canonical_resource_def write_intent_def canonical_intent_def enum_words)

lemma canonical_same_bytes: "encode_decision (canonical_decision x) = encode_decision x"
  by (simp add: encode_decision_def canonical_decision_def canonical_result_def w_bounded_def take_map comp_def Let_def
      canonical_parts enum_words)

lemma canonical_same_digest: "decision_digest (received_decision (canonical_decision x)) = decision_digest x"
  by (simp add: decision_digest_def received_decision_def received_result_def canonical_decision_def canonical_result_def enum_words)

section \<open>Answered decisions can be sent\<close>

text \<open>Every rationale an evaluation gives fits the wire, and its digest is a digest.\<close>

definition explainable :: "evaluation_result \<Rightarrow> bool" where
  "explainable r \<longleftrightarrow> list_all (\<lambda>c. length (ci_rationale c) \<le> 256) (er_intents r) \<and> digest_ok (er_digest r)"

lemma explainable_upd: "explainable (upd_acc f r) = explainable r"
  by (simp add: explainable_def upd_acc_def)

lemma explainable_intent: "explainable r \<Longrightarrow> length (ci_rationale c) \<le> 256 \<Longrightarrow> explainable (add_intent l c r)"
  by (simp add: explainable_def add_intent_def)

lemma explainable_note: "explainable r \<Longrightarrow> explainable (add_note l t r)"
  by (simp add: explainable_def add_note_def)

lemma result_digest_ok: "digest_ok (evaluation_result_digest r)"
  unfolding evaluation_result_digest_def
  by (rule digest_ok_canonical) (simp add: hash_accounting_def list_all_concat_map hash_resource_accounting_def hash_intent_def)

lemma explainable_final: "explainable r \<Longrightarrow> explainable (finalize_result r)"
  by (simp add: explainable_def finalize_result_def Let_def result_digest_ok)

lemma explainable_set [simp]:
  "explainable (r\<lparr>er_outcome := out\<rparr>) = explainable r" "explainable (r\<lparr>er_reason := reason\<rparr>) = explainable r"
  "explainable (r\<lparr>er_detail := t\<rparr>) = explainable r" "explainable (r\<lparr>er_fence_required := b\<rparr>) = explainable r"
  "explainable (r\<lparr>er_accounting := a\<rparr>) = explainable r" "explainable (r\<lparr>er_authority := v\<rparr>) = explainable r"
  "explainable (r\<lparr>er_resources := xs\<rparr>) = explainable r"
  by (simp_all add: explainable_def)

lemma explainable_when:
  "explainable r \<Longrightarrow> length (ci_rationale c) \<le> 256 \<Longrightarrow> explainable (intent_when b l c r)"
  by (simp add: intent_when_def explainable_intent)

lemma explainable_reject: "explainable r \<Longrightarrow> explainable (reject p d r out reason detail)"
  unfolding reject_def Let_def reject_intents_def base_intent_def
  by (rule explainable_final) (simp add: explainable_intent)

lemma explainable_finish: "explainable r \<Longrightarrow> explainable (finish p d f r out reason detail)"
  unfolding finish_def finish_intents_def Let_def base_intent_def comp_def
  by (rule explainable_final) (simp add: explainable_when)


lemma explainable_zero: "explainable result_zero"
  by (simp add: explainable_def result_zero_def digest_ok_def digest_zero_def)

interpretation explained: evaluation_contract p explainable explainable for p
proof unfold_locales
  fix e b ras r a c
  assume "explainable r"
  then show "explainable (fst (break_down (pl_limits p) e b ras (r\<lparr>er_accounting := a\<rparr>) c))"
    by (simp add: break_down_def Let_def explainable_note)
qed (simp_all add: explainable_upd explainable_intent explainable_note explainable_reject explainable_finish base_intent_def)

lemma current_result_explainable: "explainable (current_result iter i t g)"
proof (cases "index_domain (gv_index g) i")
  case None
  then show ?thesis
    using explainable_zero by (simp add: current_result_def Let_def uncovered_result_def explainable_def)
next
  case (Some d)
  have "explainable (initial_result p d ex)" for p d ex
    using explainable_zero by (simp add: initial_result_def)
  then have "explainable (evaluate_domain iter p ix d ex ev tick)" for p ix d ex ev tick
    by (rule explained.evaluation) (simp add: bind_authority_def \<open>\<And>p d ex. explainable (initial_result p d ex)\<close>)
  with Some show ?thesis by (simp add: current_result_def Let_def)
qed

lemma canonical_sendable:
  assumes "recordable (de_evaluation x)" and "explainable (de_evaluation x)" and "digest_ok (de_digest x)" and "wf_outcome (de_raw x)"
  shows "decision_sendable (canonical_decision x)"
proof -
  show ?thesis
    using assms
    by (simp add: decision_sendable_def result_sendable_def canonical_decision_def canonical_result_def recordable_def explainable_def
        list_all_iff resource_accounting_sendable_def canonical_resource_def intent_sendable_def canonical_intent_def)
qed

lemma make_decision_digest: "de_digest (make_decision g r e d t) = decision_digest (make_decision g r e d t)"
  by (simp add: make_decision_def Let_def decision_digest_def)

lemma answered_decision_round:
  assumes "evaluate iter wall rq g = (Inr x, g')"
  shows "decode_decision (encode_decision x) = Some (received_decision (canonical_decision x))"
    and "de_digest x = decision_digest x" and "decision_sendable (canonical_decision x)"
proof -
  from assms have ev: "evaluate_locked iter wall rq False g = (Inr x, g')" by (simp add: evaluate_def split: if_splits)
  from evaluate_answers [OF ev] obtain d a where
    prep: "prepare_decision iter wall (rq_domain rq) (evaluation_tick rq g) g = (d, x, a)" by metis
  from prepare_decision_facts [OF prep] obtain r e where
    r: "r = current_result iter (rq_domain rq) (evaluation_tick rq g) g" and x: "x = make_decision g r e d (evaluation_tick rq g)" by metis
  have rec: "recordable r" "explainable r" unfolding r by (rule current_result_recordable current_result_explainable)+
  show "de_digest x = decision_digest x" unfolding x by (rule make_decision_digest)
  show ok: "decision_sendable (canonical_decision x)"
    using rec decision_digest_ok [of x] by (intro canonical_sendable) (simp_all add: x make_decision_digest recordable_def)
  show "decode_decision (encode_decision x) = Some (received_decision (canonical_decision x))"
    using decision_round [OF ok] by (simp add: canonical_same_bytes)
qed

lemma received_decision_sel [simp]:
  "de_id (received_decision (canonical_decision x)) = de_id x" "de_digest (received_decision (canonical_decision x)) = de_digest x"
  "de_authorized (received_decision (canonical_decision x)) = de_authorized x"
  "de_increment (received_decision (canonical_decision x)) = de_increment x"
  "de_fenced (received_decision (canonical_decision x)) = de_fenced x"
  "de_incarnation (received_decision (canonical_decision x)) = de_incarnation x"
  "de_epoch (received_decision (canonical_decision x)) = de_epoch x"
  "outcome_to_u32 (de_effective (received_decision (canonical_decision x))) = outcome_to_u32 (de_effective x)"
  "er_authority (de_evaluation (received_decision (canonical_decision x))) = er_authority (de_evaluation x)"
  "er_authority_valid (de_evaluation (received_decision (canonical_decision x))) = er_authority_valid (de_evaluation x)"
  by (simp_all add: received_decision_def received_result_def canonical_decision_def canonical_result_def enum_words)

text \<open>
  Every answered decision arrives: whatever the evidence, the decision the governor answers can be decoded
  from its encoding; apart from what the wire bounds cut (notes, the detail beyond 256 characters, resources
  beyond 64, intents beyond 16) the receiver holds that decision, and the digest it recomputes is the digest
  the governor issued.
\<close>

theorem answered_decision_arrives:
  assumes "evaluate iter wall rq g = (Inr x, g')"
  shows "\<exists>y. decode_decision (encode_decision x) = Some y \<and> y = received_decision (canonical_decision x)
    \<and> decision_digest y = de_digest x \<and> de_digest y = de_digest x \<and> de_id y = de_id x \<and> de_authorized y = de_authorized x
    \<and> de_increment y = de_increment x \<and> de_fenced y = de_fenced x
    \<and> outcome_to_u32 (de_effective y) = outcome_to_u32 (de_effective x)
    \<and> er_authority (de_evaluation y) = er_authority (de_evaluation x)"
  by (simp add: answered_decision_round(1) [OF assms] canonical_same_digest flip: answered_decision_round(2) [OF assms])

theorem answered_decision_arrives_witness:
  "\<exists>x g' y. evaluate id 0 sample_request sample_governor = (Inr x, g') \<and> de_authorized x
    \<and> decode_decision (encode_decision x) = Some y \<and> decision_digest y = de_digest x \<and> de_authorized y"
proof -
  obtain x g' where x: "evaluate id 0 sample_request sample_governor = (Inr x, g')" "de_authorized x" using sample_evaluates by blast
  from answered_decision_arrives [OF x(1)] x show ?thesis by blast
qed

section \<open>Revalidation from afar\<close>

text \<open>Revalidation reads of a decision only what the request carries.\<close>

lemma check_decision_cong:
  assumes "de_id y = de_id x" and "de_incarnation y = de_incarnation x" and "de_epoch y = de_epoch x"
    and "er_authority (de_evaluation y) = er_authority (de_evaluation x)"
    and "er_authority_valid (de_evaluation y) = er_authority_valid (de_evaluation x)"
  shows "check_decision y g = check_decision x g" "revalidate y g = revalidate x g"
proof -
  have "check_runtime y = check_runtime x" by (simp add: fun_eq_iff check_runtime_def assms(1) split: option.splits)
  then show c: "check_decision y g = check_decision x g" for g by (simp only: check_decision_def assms)
  show "revalidate y g = revalidate x g" by (simp add: revalidate_def c)
qed

lemma revalidate_round:
  assumes "digest_ok (de_digest x)" and "authority_sendable (er_authority (de_evaluation x))"
  shows "\<exists>z. decode_revalidate_request (encode_revalidate_request x) = Some z \<and> de_id z = de_id x \<and> de_incarnation z = de_incarnation x
    \<and> de_epoch z = de_epoch x \<and> er_authority (de_evaluation z) = er_authority (de_evaluation x)
    \<and> er_authority_valid (de_evaluation z) = er_authority_valid (de_evaluation x) \<and> de_digest z = de_digest x"
proof -
  let ?z = "no_decision\<lparr>de_id := de_id x, de_digest := de_digest x, de_incarnation := de_incarnation x, de_epoch := de_epoch x,
        de_evaluation := result_zero\<lparr>er_authority_valid := er_authority_valid (de_evaluation x), er_authority := er_authority (de_evaluation x)\<rparr>\<rparr>"
  have "decode_revalidate_request (encode_revalidate_request x) = Some ?z"
    unfolding decode_revalidate_request_def encode_revalidate_request_def
    by (intro whole_exact) (simp add: codec_simps assms authority_codec.dec_enc_exact [OF assms(2)])
  then show ?thesis by simp
qed

text \<open>
  C24. Revalidation from afar is revalidation: whatever decision the governor answers, the client that received
  it and sends it back for revalidation obtains, at any state of the governor, exactly the verdict and the
  state that revalidating the governor's own decision gives.
\<close>

theorem remote_revalidation_agrees:
  assumes "evaluate iter wall rq g = (Inr x, g')"
  shows "\<exists>y z. decode_decision (encode_decision x) = Some y \<and> decode_revalidate_request (encode_revalidate_request y) = Some z
    \<and> revalidate z h = revalidate x h"
proof -
  note round = answered_decision_round [OF assms]
  let ?y = "received_decision (canonical_decision x)"
  have "digest_ok (de_digest ?y)" "authority_sendable (er_authority (de_evaluation ?y))"
    using round(3) by (simp_all add: decision_sendable_def result_sendable_def canonical_decision_def canonical_result_def
        authority_sendable_def recordable_def received_decision_def received_result_def)
  from revalidate_round [OF this] obtain z where z: "decode_revalidate_request (encode_revalidate_request ?y) = Some z"
    "de_id z = de_id x" "de_incarnation z = de_incarnation x" "de_epoch z = de_epoch x"
    "er_authority (de_evaluation z) = er_authority (de_evaluation x)"
    "er_authority_valid (de_evaluation z) = er_authority_valid (de_evaluation x)" by auto
  then have "revalidate z h = revalidate x h" by (intro check_decision_cong(2)) simp_all
  with z(1) round(1) show ?thesis by blast
qed

theorem remote_revalidation_agrees_witness:
  "\<exists>x g' y z. evaluate id 0 sample_request sample_governor = (Inr x, g') \<and> decode_decision (encode_decision x) = Some y
    \<and> decode_revalidate_request (encode_revalidate_request y) = Some z \<and> revalidate z g' = revalidate x g'"
proof -
  obtain x g' where x: "evaluate id 0 sample_request sample_governor = (Inr x, g')" using sample_evaluates by blast
  from remote_revalidation_agrees [OF x, of g'] x show ?thesis by blast
qed

end
