(* ===== verification/Worker_Properties.thy ===== *)
theory Worker_Properties
  imports Worker Coordinator_Properties Protocol_Properties
begin

text \<open>
  The two roles together: a request of the worker that travels to a handler of the coordinator, and the
  handler's answer that travels back, have the effect of the governor's operation and report its outcome.
\<close>

section \<open>A request and its answer\<close>

text \<open>
  The handler connection \<open>c\<close> has the request frame next on its stream, takes it in a step that leads from \<open>k\<close>
  to \<open>k'\<close>, and what it sends is next on the worker's stream.
\<close>

definition carried ::
  "((u64 \<times> u64) list \<Rightarrow> (u64 \<times> u64) list) \<Rightarrow> u64 \<Rightarrow> u64 \<Rightarrow> framed_connection \<Rightarrow> coordinator \<Rightarrow> u32 \<times> u8 list \<Rightarrow> worker_client \<Rightarrow> coordinator \<Rightarrow> bool"
where
  "carried iter wall n c k f w k' \<longleftrightarrow>
     usable c \<and> takes_all (fc_sends c) \<and> fc_out c = [] \<and> (\<exists>rest. stream (fc_in c) = frame_bytes f @ rest)
     \<and> n + 1 \<le> cp_max_frames (co_options k) \<and> payload_fits f
     \<and> usable (wc_connection w) \<and> takes_all (fc_sends (wc_connection w))
     \<and> (\<exists>h rest. serve_step iter wall n c k = Some (h, k') \<and> stream (fc_in (wc_connection w)) = fc_out (hd_connection h) @ rest)"

text \<open>The frame of an answer.\<close>

definition answer_frame :: "answer \<Rightarrow> u32 \<times> u8 list" where
  "answer_frame a =
     (case a of
        Answer m payload \<Rightarrow> (message_type_to_u32 m, payload)
      | Refuse s \<Rightarrow> (message_type_to_u32 Msg_Reject, encode_status s)
      | Stop_serving \<Rightarrow> (message_type_to_u32 Msg_ShutdownAck, encode_status status_success))"

lemma sent_frame:
  assumes "usable c" and "takes_all (fc_sends c)" and "payload_fits (t, payload)"
  obtains outs where "send_frame t payload c = (status_success, c\<lparr>fc_out := fc_out c @ frame_bytes (t, payload), fc_sends := outs\<rparr>)"
  using send_frame_taken [OF assms] by auto

lemma success_ok [simp]: "status_ok status_success"
  by (simp add: status_ok_def status_success_def)

lemma delivered:
  assumes "usable c" and "takes_all (fc_sends c)" and "payload_fits (answer_frame a)"
  shows "fc_out (hd_connection (fst (deliver_answer n a c k))) = fc_out c @ frame_bytes (answer_frame a)"
proof -
  obtain outs where "send_frame (fst (answer_frame a)) (snd (answer_frame a)) c =
      (status_success, c\<lparr>fc_out := fc_out c @ frame_bytes (answer_frame a), fc_sends := outs\<rparr>)"
    using sent_frame [OF assms(1,2), of "fst (answer_frame a)" "snd (answer_frame a)"] assms(3) by auto
  then show ?thesis
    by (cases a) (auto simp: deliver_answer_def answer_frame_def serving_def ended_def close_connection_def reject_with_def)
qed

text \<open>What the worker receives is the frame of the answer the coordinator computed.\<close>

lemma carried_answer:
  assumes "carried iter wall n c k f w k'" and "serve_frame iter wall f (co_governor k) = (a, g)" and "payload_fits (answer_frame a)"
  shows "co_governor k' = g" "\<exists>rest. stream (fc_in (wc_connection w)) = frame_bytes (answer_frame a) @ rest"
proof -
  from assms(1) obtain rest where c: "usable c" "takes_all (fc_sends c)" "fc_out c = []" "stream (fc_in c) = frame_bytes f @ rest"
    "payload_fits f" "n + 1 \<le> cp_max_frames (co_options k)" by (auto simp: carried_def)
  from recv_frame_whole [OF c(1,4,5)] obtain as where r: "recv_frame c = Some (Inr f, c\<lparr>fc_in := as\<rparr>)" by blast
  have step: "serve_step iter wall n c k = Some (deliver_answer (n + 1) a (c\<lparr>fc_in := as\<rparr>) (k\<lparr>co_frames := co_frames k + 1, co_governor := g\<rparr>))"
    using c(6) by (simp add: serve_step_def r assms(2) Let_def leD)
  from assms(1) obtain h rest' where h: "serve_step iter wall n c k = Some (h, k')"
    "stream (fc_in (wc_connection w)) = fc_out (hd_connection h) @ rest'" by (auto simp: carried_def)
  let ?d = "deliver_answer (n + 1) a (c\<lparr>fc_in := as\<rparr>) (k\<lparr>co_frames := co_frames k + 1, co_governor := g\<rparr>)"
  from step h(1) have "?d = (h, k')" by simp
  then have k': "k' = snd ?d" and h': "h = fst ?d" by (metis snd_conv, metis fst_conv)
  show "co_governor k' = g" unfolding k' by simp
  have "fc_out (hd_connection h) = frame_bytes (answer_frame a)"
    unfolding h' using delivered [of "c\<lparr>fc_in := as\<rparr>" a] c(1-3) assms(3) by simp
  with h(2) show "\<exists>rest. stream (fc_in (wc_connection w)) = frame_bytes (answer_frame a) @ rest" by auto
qed

lemma exchange_answered:
  assumes "usable (wc_connection w)" and "takes_all (fc_sends (wc_connection w))" and "payload_fits (message_type_to_u32 request, payload)"
    and "stream (fc_in (wc_connection w)) = frame_bytes (message_type_to_u32 expected, response) @ rest"
    and "payload_fits (message_type_to_u32 expected, response)" and "message_type_to_u32 expected \<noteq> message_type_to_u32 Msg_Reject"
  shows "\<exists>c'. exchange request payload expected w = Some (Inr response, w\<lparr>wc_rejected := None, wc_connection := c'\<rparr>)
    \<and> fc_out c' = fc_out (wc_connection w) @ frame_bytes (message_type_to_u32 request, payload)"
proof -
  obtain outs where sent: "send_frame (message_type_to_u32 request) payload (wc_connection w) =
      (status_success, (wc_connection w)\<lparr>fc_out := fc_out (wc_connection w) @ frame_bytes (message_type_to_u32 request, payload), fc_sends := outs\<rparr>)"
    using sent_frame [OF assms(1-3)] by blast
  let ?c = "(wc_connection w)\<lparr>fc_out := fc_out (wc_connection w) @ frame_bytes (message_type_to_u32 request, payload), fc_sends := outs\<rparr>"
  have "usable ?c" "stream (fc_in ?c) = frame_bytes (message_type_to_u32 expected, response) @ rest" using assms(1,4) by simp_all
  from recv_frame_whole [OF this assms(5)] obtain as where
    "recv_frame ?c = Some (Inr (message_type_to_u32 expected, response), ?c\<lparr>fc_in := as\<rparr>)" by blast
  then show ?thesis using assms(6) by (auto simp: exchange_def sent Let_def)
qed

text \<open>A call whose frame is carried returns what its decoder makes of the coordinator's answer.\<close>

lemma call_carried:
  assumes "carried iter wall n c k (message_type_to_u32 request, payload) w k'"
    and "serve_frame iter wall (message_type_to_u32 request, payload) (co_governor k) = (Answer expected response, g)"
    and "length response \<le> 1048576" and "message_type_to_u32 expected \<noteq> message_type_to_u32 Msg_Reject"
  shows "co_governor k' = g \<and> (\<exists>w'. fc_out (wc_connection w') = fc_out (wc_connection w) @ frame_bytes (message_type_to_u32 request, payload)
    \<and> call request payload expected decode detail w =
        Some (case decode response of None \<Rightarrow> Inl (wire_malformed detail) | Some x \<Rightarrow> Inr (Inr x), w'))"
proof -
  have fits: "payload_fits (answer_frame (Answer expected response))" using assms(3) by (simp add: answer_frame_def payload_fits_def)
  from carried_answer [OF assms(1,2) fits] obtain rest where k': "co_governor k' = g"
    and s: "stream (fc_in (wc_connection w)) = frame_bytes (message_type_to_u32 expected, response) @ rest"
    by (auto simp: answer_frame_def)
  from assms(1) have "usable (wc_connection w)" "takes_all (fc_sends (wc_connection w))" "payload_fits (message_type_to_u32 request, payload)"
    by (auto simp: carried_def)
  from exchange_answered [OF this s _ assms(4)] assms(3) obtain c' where
    "exchange request payload expected w = Some (Inr response, w\<lparr>wc_rejected := None, wc_connection := c'\<rparr>)"
    "fc_out c' = fc_out (wc_connection w) @ frame_bytes (message_type_to_u32 request, payload)" by (auto simp: payload_fits_def)
  then show ?thesis using k'
    by (intro conjI exI [of _ "w\<lparr>wc_rejected := None, wc_connection := c'\<rparr>"]) (simp_all add: call_def split: option.split)
qed

section \<open>Stamped evidence can be sent\<close>

lemma capacity_digest_ok: "digest_ok (capacity_snapshot_digest s)"
  unfolding capacity_snapshot_digest_def Let_def
  by (rule digest_ok_canonical) (simp add: list_all_concat_map hash_resource_def)

lemma stamped_sendable:
  assumes "list_all resource_sendable (cs_resources s)" and "length (cs_resources s) \<le> 4096"
  shows "capacity_sendable (fst (stamp_capacity t s w))"
  using assms capacity_digest_ok
  by (simp add: capacity_sendable_def stamp_capacity_def stamp_provenance_def Let_def provenance_sendable_def)

text \<open>Capacity evidence always fits a frame.\<close>

lemma capacity_frame_fits:
  assumes "capacity_sendable s"
  shows "payload_fits (t, w_u32 kind @ encode_capacity_snapshot s)"
proof -
  have "length (concat (map write_resource rs)) = 52 * length rs" for rs
    by (induction rs) (simp_all add: write_resource_def)
  then have "length (encode_capacity_snapshot s) = 40 + 52 * length (cs_resources s) + 88"
    using assms by (simp add: encode_capacity_snapshot_def w_list_def w_size_def write_provenance_def capacity_sendable_def
        provenance_sendable_def digest_ok_def w_digest_def w_raw_def)
  then show ?thesis using assms by (simp add: payload_fits_def capacity_sendable_def)
qed

section \<open>Publishing from afar\<close>

definition received_ack :: "publish_ack \<Rightarrow> publish_ack" where
  "received_ack a = a\<lparr>pa_code := status_code_of_u32 (status_code_to_u32 (pa_code a)), pa_detail := take 256 (pa_detail a)\<rparr>"

lemma publish_ack_round: "decode_publish_ack (encode_publish_ack a) = Some (received_ack a)"
  unfolding decode_publish_ack_def encode_publish_ack_def
  by (intro whole_exact) (simp add: codec_simps received_ack_def)

lemma detail_length: "length (w_detail s) \<le> 260"
  by (simp add: detail_body w_string_body_def string_bytes_def)

lemma publish_ack_length: "length (encode_publish_ack a) \<le> 1048576"
  using detail_length [of "pa_detail a"] by (simp add: encode_publish_ack_def)

lemma message_words [simp]:
  "message_type_to_u32 Msg_PublishAck \<noteq> message_type_to_u32 Msg_Reject" "message_type_to_u32 Msg_Decision \<noteq> message_type_to_u32 Msg_Reject"
  by simp_all

lemma publish_body:
  assumes "carried iter wall n c k (message_type_to_u32 Msg_Publish, w_u32 (evidence_kind_to_u32 kind) @ body) w k'"
    and "serve_publish (w_u32 (evidence_kind_to_u32 kind) @ body) (co_governor k) = (Answer Msg_PublishAck (encode_publish_ack (ack_of x)), g)"
  shows "co_governor k' = g \<and> (\<exists>w'. publish_call kind body w = Some (Inr (received_ack (ack_of x)), w')
    \<and> fc_out (wc_connection w') = fc_out (wc_connection w) @ frame_bytes (message_type_to_u32 Msg_Publish, w_u32 (evidence_kind_to_u32 kind) @ body))"
proof -
  have "serve_frame iter wall (message_type_to_u32 Msg_Publish, w_u32 (evidence_kind_to_u32 kind) @ body) (co_governor k)
      = (Answer Msg_PublishAck (encode_publish_ack (ack_of x)), g)"
    using assms(2) by (simp add: serve_frame_def)
  from call_carried [OF assms(1) this publish_ack_length, of decode_publish_ack "''PUBLISH_ACK is malformed''"]
  obtain w' where "co_governor k' = g" "fc_out (wc_connection w') = fc_out (wc_connection w)
        @ frame_bytes (message_type_to_u32 Msg_Publish, w_u32 (evidence_kind_to_u32 kind) @ body)"
    "call Msg_Publish (w_u32 (evidence_kind_to_u32 kind) @ body) Msg_PublishAck decode_publish_ack ''PUBLISH_ACK is malformed'' w
      = Some (Inr (Inr (received_ack (ack_of x))), w')"
    by (auto simp: publish_ack_round)
  then show ?thesis by (simp add: publish_call_def)
qed

text \<open>
  A kind of evidence on its way: what its decoder makes of its encoder's bytes, and that the coordinator
  hands the bodies of this kind to its ingestion.
\<close>

locale remote_evidence =
  fixes kind :: evidence_kind
    and sendable :: "'s \<Rightarrow> bool"
    and encode :: "'s \<Rightarrow> u8 list"
    and decode :: "u8 list \<Rightarrow> 's option"
    and ingest_snapshot :: "'s \<Rightarrow> governor \<Rightarrow> ingest_outcome \<times> governor"
    and detail :: string
  assumes arrives: "sendable s \<Longrightarrow> decode (encode s) = Some s"
    and served: "serve_publish (w_u32 (evidence_kind_to_u32 kind) @ body) g = serve_body decode ingest_snapshot detail body g"
begin

lemma published:
  assumes "sendable s"
    and "carried iter wall n c k (message_type_to_u32 Msg_Publish, w_u32 (evidence_kind_to_u32 kind) @ encode s) w k'"
  obtains x w' where "ingest_snapshot s (co_governor k) = (x, co_governor k')"
    "publish_call kind (encode s) w = Some (Inr (received_ack (ack_of x)), w')"
    "fc_out (wc_connection w') = fc_out (wc_connection w)
       @ frame_bytes (message_type_to_u32 Msg_Publish, w_u32 (evidence_kind_to_u32 kind) @ encode s)"
proof -
  obtain x g where x: "ingest_snapshot s (co_governor k) = (x, g)" by fastforce
  have "serve_publish (w_u32 (evidence_kind_to_u32 kind) @ encode s) (co_governor k) = (Answer Msg_PublishAck (encode_publish_ack (ack_of x)), g)"
    by (simp add: served serve_body_def arrives [OF assms(1)] x)
  from publish_body [OF assms(2) this] x that show thesis by blast
qed

end

interpretation remote_capacity: remote_evidence Evidence_Capacity capacity_sendable encode_capacity_snapshot decode_capacity_snapshot
    ingest_capacity "''capacity snapshot is malformed''"
  by unfold_locales (simp_all add: capacity_arrives serve_publish_def codec_simps)

interpretation remote_reservations: remote_evidence Evidence_Reservation reservation_sendable encode_reservation_snapshot
    decode_reservation_snapshot ingest_reservations "''reservation snapshot is malformed''"
  by unfold_locales (simp_all add: reservations_arrive serve_publish_def codec_simps)

interpretation remote_admissions: remote_evidence Evidence_Admission admission_sendable encode_admission_snapshot decode_admission_snapshot
    ingest_admissions "''admission snapshot is malformed''"
  by unfold_locales (simp_all add: admissions_arrive serve_publish_def codec_simps)

lemma reservation_digest_ok: "digest_ok (reservation_snapshot_digest s)"
  unfolding reservation_snapshot_digest_def Let_def
  by (rule digest_ok_canonical) (simp add: list_all_concat_map hash_guarantee_def)

lemma admission_digest_ok: "digest_ok (admission_snapshot_digest s)"
  unfolding admission_snapshot_digest_def Let_def
  by (rule digest_ok_canonical) (simp add: list_all_concat_map hash_demand_def)

lemma stamped_reservations_sendable:
  "length (rs_guarantees s) \<le> 65536 \<Longrightarrow> reservation_sendable (fst (stamp_reservations t s w))"
  using reservation_digest_ok
  by (simp add: reservation_sendable_def stamp_reservations_def stamp_provenance_def Let_def provenance_sendable_def)

lemma stamped_admissions_sendable:
  "list_all demand_sendable (as_records s) \<Longrightarrow> length (as_records s) \<le> 65536 \<Longrightarrow> admission_sendable (fst (stamp_admissions t s w))"
  using admission_digest_ok
  by (simp add: admission_sendable_def stamp_admissions_def stamp_provenance_def Let_def provenance_sendable_def)

text \<open>
  C20. Publishing from afar is ingestion: when the frame a worker sends for a capacity snapshot is carried to
  the coordinator and the answer back, the governor has ingested exactly the stamped snapshot, the worker's
  acknowledgement is the outcome of that ingestion, and on success its snapshot carries the generation the
  governor gave it.
\<close>

theorem remote_publication_is_ingestion:
  assumes "list_all resource_sendable (cs_resources s)" and "length (cs_resources s) \<le> 4096" and "stamp_capacity t s w = (s1, w1)"
    and "carried iter wall n c k (message_type_to_u32 Msg_Publish, w_u32 (evidence_kind_to_u32 Evidence_Capacity) @ encode_capacity_snapshot s1) w1 k'"
  shows "\<exists>x w'. ingest_capacity s1 (co_governor k) = (x, co_governor k')
    \<and> client_publish_capacity t s w =
        Some (Inr (received_ack (ack_of x)),
              if status_code_of_u32 (status_code_to_u32 (st_code (in_status x))) = Status_Ok then s1\<lparr>cs_generation := Gen (in_generation x)\<rparr> else s1, w')
    \<and> fc_out (wc_connection w') = fc_out (wc_connection w1)
        @ frame_bytes (message_type_to_u32 Msg_Publish, w_u32 (evidence_kind_to_u32 Evidence_Capacity) @ encode_capacity_snapshot s1)"
proof -
  have sendable: "capacity_sendable s1" using stamped_sendable [OF assms(1,2), of t w] by (simp add: assms(3))
  from remote_capacity.published [OF this assms(4)] obtain x w' where
    "ingest_capacity s1 (co_governor k) = (x, co_governor k')"
    "publish_call Evidence_Capacity (encode_capacity_snapshot s1) w1 = Some (Inr (received_ack (ack_of x)), w')"
    "fc_out (wc_connection w') = fc_out (wc_connection w1)
       @ frame_bytes (message_type_to_u32 Msg_Publish, w_u32 (evidence_kind_to_u32 Evidence_Capacity) @ encode_capacity_snapshot s1)" .
  then show ?thesis by (auto simp: client_publish_capacity_def assms(3) acknowledged_def received_ack_def ack_of_def)
qed

text \<open>The other two kinds, whose snapshots may be larger than a frame holds.\<close>

lemma remote_reservations_ingested:
  assumes "length (rs_guarantees s) \<le> 65536" and "stamp_reservations t s w = (s1, w1)"
    and "carried iter wall n c k (message_type_to_u32 Msg_Publish, w_u32 (evidence_kind_to_u32 Evidence_Reservation) @ encode_reservation_snapshot s1) w1 k'"
  shows "\<exists>x r w'. ingest_reservations s1 (co_governor k) = (x, co_governor k')
    \<and> client_publish_reservations t s w = Some (Inr (received_ack (ack_of x)), r, w')"
proof -
  have "reservation_sendable s1" using stamped_reservations_sendable [OF assms(1), of t w] by (simp add: assms(2))
  then show ?thesis
    by (rule remote_reservations.published [OF _ assms(3)]) (auto simp: client_publish_reservations_def assms(2))
qed

lemma remote_admissions_ingested:
  assumes "list_all demand_sendable (as_records s)" and "length (as_records s) \<le> 65536" and "stamp_admissions t s w = (s1, w1)"
    and "carried iter wall n c k (message_type_to_u32 Msg_Publish, w_u32 (evidence_kind_to_u32 Evidence_Admission) @ encode_admission_snapshot s1) w1 k'"
  shows "\<exists>x r w'. ingest_admissions s1 (co_governor k) = (x, co_governor k')
    \<and> client_publish_admissions t s w = Some (Inr (received_ack (ack_of x)), r, w')"
proof -
  have "admission_sendable s1" using stamped_admissions_sendable [OF assms(1,2), of t w] by (simp add: assms(3))
  then show ?thesis
    by (rule remote_admissions.published [OF _ assms(4)]) (auto simp: client_publish_admissions_def assms(3))
qed

section \<open>A sample exchange\<close>

text \<open>The worker whose stream carries the bytes \<open>bs\<close>.\<close>

definition sample_worker :: "u8 list \<Rightarrow> worker_client" where
  "sample_worker bs =
     \<lparr>wc_connection = idle_connection\<lparr>fc_in := [Arrived bs], fc_sends := []\<rparr>,
      wc_hello = \<lparr>hs_version = 1, hs_epoch = FabricEpoch 1, hs_policy_generation = Gen 4, hs_capacity_generation = 2,
        hs_reservation_generation = 2, hs_admission_generation = 2, hs_last_sequence = 1\<rparr>,
      wc_publisher = StrongId 1, wc_incarnation = StrongId 1, wc_sequence = 1, wc_evidence_counter = 1, wc_sequence_valid = True,
      wc_rejected = None, wc_epoch_override = FabricEpoch 0\<rparr>"

lemma sample_carried:
  assumes "payload_fits f"
  shows "\<exists>bs k'. \<forall>w. usable (wc_connection w) \<and> takes_all (fc_sends (wc_connection w)) \<and> fc_in (wc_connection w) = [Arrived bs]
    \<longrightarrow> carried id 0 0 (bringing f) sample_coordinator f w k'"
proof -
  have c: "usable (bringing f)" "takes_all (fc_sends (bringing f))" "fc_out (bringing f) = []" "stream (fc_in (bringing f)) = frame_bytes f @ []"
    by (simp_all add: bringing_def idle_connection_def takes_all_def)
  from recv_frame_whole [OF c(1,4) assms] obtain as where r: "recv_frame (bringing f) = Some (Inr f, (bringing f)\<lparr>fc_in := as\<rparr>)" by blast
  have max: "cp_max_frames (co_options sample_coordinator) = 65536" by (simp add: sample_coordinator_def)
  obtain h k' where "serve_step id 0 0 (bringing f) sample_coordinator = Some (h, k')"
    by (cases "serve_frame id 0 f (co_governor sample_coordinator)";
        cases "deliver_answer 1 (fst (serve_frame id 0 f (co_governor sample_coordinator))) ((bringing f)\<lparr>fc_in := as\<rparr>)
          (sample_coordinator\<lparr>co_frames := co_frames sample_coordinator + 1, co_governor := snd (serve_frame id 0 f (co_governor sample_coordinator))\<rparr>)")
       (simp add: serve_step_def r Let_def max)
  then show ?thesis
    using c assms max by (intro exI [of _ "fc_out (hd_connection h)"] exI [of _ k']) (auto simp: carried_def)
qed

theorem remote_publication_is_ingestion_witness:
  "\<exists>bs (k' :: coordinator) x w'. ingest_capacity (fst (stamp_capacity 0 sample_capacity (sample_worker bs))) sample_governor = (x, co_governor k')
    \<and> client_publish_capacity 0 sample_capacity (sample_worker bs) =
        Some (Inr (received_ack (ack_of x)),
              if status_code_of_u32 (status_code_to_u32 (st_code (in_status x))) = Status_Ok
              then (fst (stamp_capacity 0 sample_capacity (sample_worker bs)))\<lparr>cs_generation := Gen (in_generation x)\<rparr>
              else fst (stamp_capacity 0 sample_capacity (sample_worker bs)), w')"
proof -
  let ?s = "\<lambda>bs. fst (stamp_capacity 0 sample_capacity (sample_worker bs))"
  have same: "?s bs = ?s []" for bs
    by (simp add: stamp_capacity_def stamp_provenance_def sample_worker_def claimed_epoch_def Let_def)
  let ?f = "(message_type_to_u32 Msg_Publish, w_u32 (evidence_kind_to_u32 Evidence_Capacity) @ encode_capacity_snapshot (?s []))"
  have sample: "list_all resource_sendable (cs_resources sample_capacity)" "length (cs_resources sample_capacity) \<le> 4096"
    by (simp_all add: sample_defs resource_sendable_def wf_resource_health_def)
  have "payload_fits ?f" by (rule capacity_frame_fits [OF stamped_sendable [OF sample]])
  from sample_carried [OF this] obtain bs k' where
    carried: "\<And>w. usable (wc_connection w) \<and> takes_all (fc_sends (wc_connection w)) \<and> fc_in (wc_connection w) = [Arrived bs]
      \<longrightarrow> carried id 0 0 (bringing ?f) sample_coordinator ?f w k'" by blast
  obtain w1 where w1: "stamp_capacity 0 sample_capacity (sample_worker bs) = (?s bs, w1)" "wc_connection w1 = wc_connection (sample_worker bs)"
    by (cases "stamp_capacity 0 sample_capacity (sample_worker bs)") (auto simp: stamp_capacity_def stamp_provenance_def Let_def)
  have "carried id 0 0 (bringing ?f) sample_coordinator ?f w1 k'"
    by (rule carried [rule_format]) (simp add: w1(2) sample_worker_def idle_connection_def takes_all_def)
  then have "carried id 0 0 (bringing ?f) sample_coordinator
      (message_type_to_u32 Msg_Publish, w_u32 (evidence_kind_to_u32 Evidence_Capacity) @ encode_capacity_snapshot (?s bs)) w1 k'"
    by (simp only: same [of bs])
  from remote_publication_is_ingestion [OF sample w1(1) this] show ?thesis unfolding sample_served by blast
qed

section \<open>Fencing from afar\<close>

lemma status_length: "length (encode_status s) \<le> 1048576"
  using detail_length [of "st_detail s"] by (simp add: encode_status_def)

lemma status_is_no_ack: "decode_publish_ack (encode_status status_success) = None"
  by code_simp

text \<open>
  C31. A remote fence always looks malformed: when the frame of \<^verbatim>\<open>fence_publisher\<close> is carried to the coordinator,
  whose governor fences the publisher, and the answer back, the worker reports that the acknowledgement is
  malformed: the coordinator answers with an encoded status, the worker decodes a publication acknowledgement.
\<close>

theorem remote_fence_reports_malformed:
  assumes "fence_publisher p reason (co_governor k) = (status_success, g)"
    and "carried iter wall n c k (message_type_to_u32 Msg_FencePublisher, w_u64 (id_value p) @ w_u32 (reason_value reason)) w k'"
  shows "co_governor k' = g \<and> (\<exists>w'. client_fence_publisher p reason w = Some (Inl (wire_malformed ''FENCE ack is malformed''), w'))"
proof -
  have "read_fence (w_u64 (id_value p) @ w_u32 (reason_value reason)) = Some (p, reason)"
    unfolding read_fence_def by (intro whole_exact) (cases p; cases reason; simp add: codec_simps u32_codec.dec_enc_exact)
  then have "serve_frame iter wall (message_type_to_u32 Msg_FencePublisher, w_u64 (id_value p) @ w_u32 (reason_value reason)) (co_governor k)
      = (Answer Msg_PublishAck (encode_status status_success), g)"
    using assms(1) by (simp add: serve_frame_def serve_fence_def)
  from call_carried [OF assms(2) this status_length, of decode_publish_ack "''FENCE ack is malformed''"] obtain w' where "co_governor k' = g"
    "call Msg_FencePublisher (w_u64 (id_value p) @ w_u32 (reason_value reason)) Msg_PublishAck decode_publish_ack ''FENCE ack is malformed'' w
      = Some (Inl (wire_malformed ''FENCE ack is malformed''), w')"
    by (auto simp: status_is_no_ack)
  then show ?thesis by (simp add: client_fence_publisher_def)
qed

lemma sample_fences: "\<exists>g. fence_publisher (StrongId 1) Reason_None sample_governor = (status_success, g)"
proof -
  define h where "h = (update_registration (StrongId 1) (\<lambda>r. r\<lparr>pr_fenced := True, pr_fence_reason := Reason_None\<rparr>) sample_governor)\<lparr>gv_dirty := True\<rparr>"
  have fence: "fence_publisher (StrongId 1) Reason_None sample_governor = persist_state True h"
    by (simp add: fence_publisher_def find_registration_def sample_state_def h_def)
  have "sr_open (gv_store h)" "gv_open h" "wd_outcomes (gv_world h) = []" "list_all (\<lambda>a. length (au_summary a) \<le> 256) (ds_audit (gv_state h))"
    "gv_store h = sample_store"
    by (simp_all add: h_def update_registration_def sample_world_def sample_state_def sample_audit_def)
  moreover have "length (state_bytes (saved_form h)) \<le> 33554432"
    by (simp add: saved_form_def h_def update_registration_def sample_slot_def sample_state_def sample_defs
        sample_runtime_def sample_audit_def fresh_runtime_def state_bytes_defs)
  ultimately show ?thesis using save_state_succeeds [of h] unfolding fence by (auto simp: persist_state_def)
qed

theorem remote_fence_reports_malformed_witness:
  "\<exists>bs (k' :: coordinator) w' g. fence_publisher (StrongId 1) Reason_None sample_governor = (status_success, g) \<and> co_governor k' = g
    \<and> client_fence_publisher (StrongId 1) Reason_None (sample_worker bs) = Some (Inl (wire_malformed ''FENCE ack is malformed''), w')"
proof -
  obtain g where g: "fence_publisher (StrongId 1) Reason_None (co_governor sample_coordinator) = (status_success, g)"
    using sample_fences by (auto simp: sample_coordinator_def)
  let ?f = "(message_type_to_u32 Msg_FencePublisher, w_u64 (id_value (StrongId 1 :: publisher_id)) @ w_u32 (reason_value Reason_None))"
  have "payload_fits ?f" by (simp add: payload_fits_def)
  from sample_carried [OF this] obtain bs k' where
    carried: "\<And>w. usable (wc_connection w) \<and> takes_all (fc_sends (wc_connection w)) \<and> fc_in (wc_connection w) = [Arrived bs]
      \<longrightarrow> carried id 0 0 (bringing ?f) sample_coordinator ?f w k'" by blast
  have "carried id 0 0 (bringing ?f) sample_coordinator ?f (sample_worker bs) k'"
    by (rule carried [rule_format]) (simp add: sample_worker_def idle_connection_def takes_all_def)
  from remote_fence_reports_malformed [OF g this] g show ?thesis unfolding sample_served by blast
qed

section \<open>Evidence identifiers\<close>

text \<open>The identifiers of different incarnations can coincide.\<close>

lemma evidence_ids_collide: "next_evidence_id (StrongId 1) 1000004 = next_evidence_id (StrongId 2) 1"
  by (simp add: next_evidence_id_def mul_checked_def add_sat_def add_checked_def Let_def)

end
