(* ===== verification/Sockets.thy ===== *)
theory Sockets
  imports Transport "HOL-Library.Multiset"
begin

text \<open>
  Sockets and how they are opened (\<^verbatim>\<open>include/oversub/net.hpp\<close>, \<^verbatim>\<open>src/net.cpp\<close>), in the POSIX variant: the owning
  handle \<^verbatim>\<open>Socket\<close> with its moves, and \<^verbatim>\<open>tcp_listen\<close>, \<^verbatim>\<open>tcp_connect\<close> and \<^verbatim>\<open>tcp_accept\<close> step by step. The descriptors the
  process holds are part of the state, so that a leak, a shared descriptor or a second close can be told. What each
  system call answers, and \<^verbatim>\<open>inet_pton\<close> and \<^verbatim>\<open>inet_ntop\<close>, are arguments. \<^verbatim>\<open>ensure_network\<close> is always true in this variant.
\<close>

section \<open>The process and its descriptors\<close>

text \<open>\<open>ds_bad\<close> counts the calls of \<^verbatim>\<open>close\<close> with a descriptor that is not open; \<open>ds_nodelay\<close> and \<open>ds_reuse\<close> are the sockets the options were set on.\<close>

record descriptors =
  ds_open :: "int set"
  ds_bad :: nat
  ds_nodelay :: "int set"
  ds_reuse :: "int set"

definition close_descriptor :: "int \<Rightarrow> descriptors \<Rightarrow> descriptors" where
  "close_descriptor h s =
     (if h \<in> ds_open s then s\<lparr>ds_open := ds_open s - {h}, ds_nodelay := ds_nodelay s - {h}, ds_reuse := ds_reuse s - {h}\<rparr>
      else s\<lparr>ds_bad := ds_bad s + 1\<rparr>)"

definition open_descriptor :: "int \<Rightarrow> descriptors \<Rightarrow> descriptors" where
  "open_descriptor h s = s\<lparr>ds_open := insert h (ds_open s)\<rparr>"

definition kInvalidSocket :: int where "kInvalidSocket = - 1"

definition close_native :: "int \<Rightarrow> descriptors \<Rightarrow> descriptors" where
  "close_native h s = (if h = kInvalidSocket then s else close_descriptor h s)"

section \<open>The handle\<close>

text \<open>A \<^verbatim>\<open>Socket\<close> is its descriptor, or -1.\<close>

type_synonym socket = int

definition no_socket :: socket where "no_socket = - 1"

definition socket_valid :: "socket \<Rightarrow> bool" where
  "socket_valid k \<longleftrightarrow> k \<noteq> - 1"

definition socket_reset :: "socket \<Rightarrow> descriptors \<Rightarrow> socket \<times> descriptors" where
  "socket_reset k s = (if k = - 1 then (k, s) else (- 1, close_native k s))"

text \<open>The new handle and what the source keeps.\<close>

definition socket_take :: "socket \<Rightarrow> socket \<times> socket" where
  "socket_take source = (source, - 1)"

definition socket_assign :: "socket \<Rightarrow> socket \<Rightarrow> descriptors \<Rightarrow> socket \<times> socket \<times> descriptors" where
  "socket_assign target source s = (let (_, s) = socket_reset target s in (source, - 1, s))"

definition set_nodelay :: "bool \<Rightarrow> socket \<Rightarrow> descriptors \<Rightarrow> descriptors" where
  "set_nodelay enabled k s =
     (if k = - 1 then s
      else if enabled then s\<lparr>ds_nodelay := insert k (ds_nodelay s)\<rparr> else s\<lparr>ds_nodelay := ds_nodelay s - {k}\<rparr>)"

section \<open>Addresses\<close>

definition INADDR_LOOPBACK :: u32 where "INADDR_LOOPBACK = 0x7F000001"

text \<open>The address and the port of a \<^verbatim>\<open>sockaddr_in\<close>, in host order.\<close>

definition fill_address :: "(string \<Rightarrow> u32 option) \<Rightarrow> string \<Rightarrow> u16 \<Rightarrow> status + u32 \<times> u16" where
  "fill_address pton address port =
     (if address = '''' \<or> address = ''localhost'' then Inr (INADDR_LOOPBACK, port)
      else (case pton address of
        None \<Rightarrow> Inl (status_failure Status_InvalidArgument Reason_InvalidField (''address is not a valid IPv4 literal: '' @ address))
      | Some a \<Rightarrow> Inr (a, port)))"

section \<open>Opening\<close>

text \<open>The answer of a system call: the error number, or the value.\<close>

type_synonym 'a sys = "nat + 'a"

definition sys_error :: "string \<Rightarrow> nat \<Rightarrow> status" where
  "sys_error what errno = socket_error Reason_TransportError what errno"

text \<open>A call after the descriptor is open: when it fails the descriptor is closed.\<close>

definition or_close :: "string \<Rightarrow> 'a sys \<Rightarrow> int \<Rightarrow> descriptors \<Rightarrow> (status + 'a) \<times> descriptors" where
  "or_close what answer h s =
     (case answer of Inl errno \<Rightarrow> (Inl (sys_error what errno), close_native h s) | Inr x \<Rightarrow> (Inr x, s))"

record listen_calls =
  lc_socket :: "int sys"
  lc_bind :: "unit sys"
  lc_listen :: "unit sys"
  lc_getsockname :: "u16 sys"

text \<open>The temporary \<^verbatim>\<open>Socket\<close> is moved into \<open>out\<close>, which closes what \<open>out\<close> held.\<close>

definition tcp_listen ::
  "(string \<Rightarrow> u32 option) \<Rightarrow> listen_calls \<Rightarrow> string \<Rightarrow> u16 \<Rightarrow> socket \<Rightarrow> u16 \<Rightarrow> descriptors \<Rightarrow> status \<times> socket \<times> u16 \<times> descriptors" where
  "tcp_listen pton calls address port out bound_port s =
     (case fill_address pton address port of
        Inl status \<Rightarrow> (status, out, bound_port, s)
      | Inr addr \<Rightarrow>
          (case lc_socket calls of
             Inl errno \<Rightarrow> (sys_error ''socket'' errno, out, bound_port, s)
           | Inr h \<Rightarrow>
               let s = open_descriptor h s; s = s\<lparr>ds_reuse := insert h (ds_reuse s)\<rparr> in
               (case or_close ''bind'' (lc_bind calls) h s of
                  (Inl status, s) \<Rightarrow> (status, out, bound_port, s)
                | (Inr _, s) \<Rightarrow>
               (case or_close ''listen'' (lc_listen calls) h s of
                  (Inl status, s) \<Rightarrow> (status, out, bound_port, s)
                | (Inr _, s) \<Rightarrow>
               (case or_close ''getsockname'' (lc_getsockname calls) h s of
                  (Inl status, s) \<Rightarrow> (status, out, bound_port, s)
                | (Inr bound, s) \<Rightarrow> let (out, _, s) = socket_assign out h s in (status_success, out, bound, s))))))"

definition tcp_connect ::
  "(string \<Rightarrow> u32 option) \<Rightarrow> int sys \<Rightarrow> unit sys \<Rightarrow> string \<Rightarrow> u16 \<Rightarrow> socket \<Rightarrow> descriptors \<Rightarrow> status \<times> socket \<times> descriptors" where
  "tcp_connect pton opened connected address port out s =
     (case fill_address pton address port of
        Inl status \<Rightarrow> (status, out, s)
      | Inr addr \<Rightarrow>
          (case opened of
             Inl errno \<Rightarrow> (sys_error ''socket'' errno, out, s)
           | Inr h \<Rightarrow>
               (case or_close ''connect'' connected h (open_descriptor h s) of
                  (Inl status, s) \<Rightarrow> (status, out, s)
                | (Inr _, s) \<Rightarrow>
                    let (out, _, s) = socket_assign out h s in (status_success, out, set_nodelay True out s))))"

definition listener_closed :: status where
  "listener_closed = status_failure Status_InvalidArgument Reason_TransportClosed ''listener is not open''"

text \<open>\<open>accepted\<close> is the descriptor with the address and port of the peer.\<close>

definition tcp_accept ::
  "(u32 \<Rightarrow> string option) \<Rightarrow> (int \<times> u32 \<times> u16) sys \<Rightarrow> socket \<Rightarrow> socket \<Rightarrow> string \<Rightarrow> descriptors \<Rightarrow> status \<times> socket \<times> string \<times> descriptors" where
  "tcp_accept ntop accepted listener out peer s =
     (if \<not> socket_valid listener then (listener_closed, out, peer, s)
      else (case accepted of
        Inl errno \<Rightarrow> (socket_error Reason_TransportClosed ''accept'' errno, out, peer, s)
      | Inr (h, address, port) \<Rightarrow>
          let s = open_descriptor h s; name = (case ntop address of None \<Rightarrow> ''unknown'' | Some t \<Rightarrow> t);
              (out, _, s) = socket_assign out h s
          in (status_success, out, name @ '':'' @ decimal (unat port), set_nodelay True out s)))"

section \<open>Every descriptor has one owner\<close>

text \<open>The handles of the program: each open descriptor is held by exactly one of them, and none was closed twice.\<close>

definition owned :: "socket list \<Rightarrow> int set" where
  "owned ks = set (filter socket_valid ks)"

definition accounted :: "socket list \<Rightarrow> descriptors \<Rightarrow> bool" where
  "accounted ks s \<longleftrightarrow> ds_open s = owned ks \<and> distinct (filter socket_valid ks) \<and> ds_bad s = 0"

text \<open>
  What the kernel promises: a new descriptor is not negative and is not open. The steps of a program over its
  handles: opening into a handle, moving one handle to another, resetting one, a new one, and the end of one.
\<close>

definition fresh_descriptor :: "int \<Rightarrow> descriptors \<Rightarrow> bool" where
  "fresh_descriptor h s \<longleftrightarrow> 0 \<le> h \<and> h \<notin> ds_open s"

inductive socket_step :: "socket list \<times> descriptors \<Rightarrow> socket list \<times> descriptors \<Rightarrow> bool" where
  step_listen: "\<lbrakk>i < length ks; \<And>h. lc_socket calls = Inr h \<Longrightarrow> fresh_descriptor h s;
      tcp_listen pton calls address port (ks ! i) bound s = (status, k, bound', s')\<rbrakk> \<Longrightarrow> socket_step (ks, s) (ks[i := k], s')"
| step_connect: "\<lbrakk>i < length ks; \<And>h. opened = Inr h \<Longrightarrow> fresh_descriptor h s;
      tcp_connect pton opened connected address port (ks ! i) s = (status, k, s')\<rbrakk> \<Longrightarrow> socket_step (ks, s) (ks[i := k], s')"
| step_accept: "\<lbrakk>i < length ks; j < length ks; \<And>h a p. accepted = Inr (h, a, p) \<Longrightarrow> fresh_descriptor h s;
      tcp_accept ntop accepted (ks ! j) (ks ! i) peer s = (status, k, peer', s')\<rbrakk> \<Longrightarrow> socket_step (ks, s) (ks[i := k], s')"
| step_assign: "\<lbrakk>i < length ks; j < length ks; i \<noteq> j; socket_assign (ks ! i) (ks ! j) s = (k, k', s')\<rbrakk>
      \<Longrightarrow> socket_step (ks, s) (ks[i := k, j := k'], s')"
| step_take: "\<lbrakk>j < length ks; socket_take (ks ! j) = (k, k')\<rbrakk> \<Longrightarrow> socket_step (ks, s) (ks[j := k'] @ [k], s)"
| step_reset: "\<lbrakk>i < length ks; socket_reset (ks ! i) s = (k, s')\<rbrakk> \<Longrightarrow> socket_step (ks, s) (ks[i := k], s')"
| step_create: "socket_step (ks, s) (ks @ [no_socket], s)"
| step_destroy: "socket_reset k s = (k', s') \<Longrightarrow> socket_step (ks @ k # ks', s) (ks @ ks', s')"

subsection \<open>What one operation does to the owners\<close>

lemma accounted_perm: "mset ks = mset ks' \<Longrightarrow> accounted ks s = accounted ks' s"
proof -
  assume "mset ks = mset ks'"
  then have "mset (filter socket_valid ks) = mset (filter socket_valid ks')" by simp
  from mset_eq_setD [OF this] mset_eq_imp_distinct_iff [OF this] show ?thesis by (simp only: accounted_def owned_def)
qed

lemma accounted_none [simp]: "accounted (- 1 # ks) s = accounted ks s"
  by (simp add: accounted_def owned_def socket_valid_def)

lemma accounted_options [simp]:
  "accounted ks (s\<lparr>ds_reuse := x\<rparr>) = accounted ks s" "accounted ks (s\<lparr>ds_nodelay := x\<rparr>) = accounted ks s"
  "accounted ks (set_nodelay b k s) = accounted ks s"
  by (simp_all add: accounted_def set_nodelay_def)

lemma fresh_valid: "fresh_descriptor h s \<Longrightarrow> socket_valid h"
  by (auto simp: fresh_descriptor_def socket_valid_def)

lemma accounted_open: "accounted ks s \<Longrightarrow> fresh_descriptor h s \<Longrightarrow> accounted (h # ks) (open_descriptor h s)"
  using fresh_valid [of h s] by (auto simp: accounted_def owned_def open_descriptor_def fresh_descriptor_def)

lemma accounted_close: "accounted (k # ks) s \<Longrightarrow> accounted ks (close_native k s)"
  by (auto simp: accounted_def owned_def close_native_def close_descriptor_def kInvalidSocket_def socket_valid_def)

lemma socket_reset_close: "socket_reset k s = (- 1, close_native k s)"
  by (simp add: socket_reset_def close_native_def kInvalidSocket_def)

lemma accounted_swap: "accounted (k # k' # ks) s = accounted (k' # k # ks) s"
  by (rule accounted_perm) simp

lemma sys_error_fails [simp]: "\<not> status_ok (sys_error what e)"
  by (simp add: sys_error_def socket_error_def status_failure_def status_ok_def)

lemma fill_address_fails: "fill_address pton address port = Inl e \<Longrightarrow> \<not> status_ok e"
  by (auto simp: fill_address_def status_failure_def status_ok_def split: if_splits option.splits)

lemma success_is_ok [simp]: "status_ok status_success"
  by (simp add: status_ok_def status_success_def)

text \<open>A call after the descriptor is open fails with the descriptor closed, or leaves everything as it is.\<close>

lemma or_close_cases [consumes 1, case_names fails goes_on]:
  assumes "accounted (h # ks) s"
  obtains e s' where "or_close what answer h s = (Inl e, s')" "\<not> status_ok e" "accounted ks s'"
  | x where "or_close what answer h s = (Inr x, s)"
proof (cases answer)
  case (Inl e)
  with accounted_close [OF assms] that(1) show thesis by (simp add: or_close_def)
next
  case (Inr x)
  with that(2) show thesis by (simp add: or_close_def)
qed

lemma accounted_assign:
  assumes "accounted (target # source # ks) s" and "socket_assign target source s = (k, k', s')"
  shows "accounted (k # k' # ks) s'"
proof -
  from assms(2) have k: "k = source" "k' = - 1" "s' = close_native target s" by (auto simp: socket_assign_def socket_reset_close)
  from accounted_close [OF assms(1)] have "accounted (- 1 # source # ks) s'" unfolding k by (simp only: accounted_none)
  then show ?thesis unfolding k by (simp only: accounted_swap [of source])
qed

text \<open>What an operation that opens a socket into \<open>out\<close> leaves: with success the new descriptor, else \<open>out\<close>.\<close>

definition opens_into :: "socket \<Rightarrow> socket list \<Rightarrow> int sys \<Rightarrow> status \<Rightarrow> socket \<Rightarrow> descriptors \<Rightarrow> bool" where
  "opens_into out ks opened status k s' \<longleftrightarrow> accounted (k # ks) s' \<and> (if status_ok status then opened = Inr k else k = out)"

lemma opens_fails: "\<not> status_ok status \<Longrightarrow> accounted (out # ks) s' \<Longrightarrow> opens_into out ks opened status out s'"
  by (simp add: opens_into_def)

lemma opens_succeeds:
  assumes "accounted (h # out # ks) s" and "socket_assign out h s = (k, k', s')" and "opened = Inr h"
  shows "opens_into out ks opened status_success k s'"
proof -
  from assms(1) have "accounted (out # h # ks) s" by (simp only: accounted_swap)
  from accounted_assign [OF this assms(2)] assms(2,3) show ?thesis
    using accounted_swap [of h "- 1" ks s'] by (auto simp: opens_into_def socket_assign_def split: prod.splits)
qed

lemma listen_accounted:
  assumes "accounted (out # ks) s" and "\<And>h. lc_socket calls = Inr h \<Longrightarrow> fresh_descriptor h s"
    and "tcp_listen pton calls address port out bound s = (status, k, bound', s')"
  shows "opens_into out ks (lc_socket calls) status k s'"
proof (cases "fill_address pton address port")
  case (Inl e)
  with assms fill_address_fails [OF Inl] show ?thesis by (auto simp: tcp_listen_def intro: opens_fails)
next
  case addr: (Inr a)
  show ?thesis
  proof (cases "lc_socket calls")
    case (Inl e)
    with addr assms show ?thesis by (auto simp: tcp_listen_def intro: opens_fails)
  next
    case (Inr h)
    let ?s = "(open_descriptor h s)\<lparr>ds_reuse := insert h (ds_reuse (open_descriptor h s))\<rparr>"
    have opened: "accounted (h # out # ks) ?s" using accounted_open [OF assms(1,2)] Inr by simp
    note result = assms(3) [unfolded tcp_listen_def addr Inr sum.case Let_def]
    from opened show ?thesis
    proof (cases rule: or_close_cases [where what = "''bind''" and answer = "lc_bind calls"])
      case fails
      with result Inr show ?thesis by (simp add: opens_fails)
    next
      case bound: (goes_on x)
      from opened show ?thesis
      proof (cases rule: or_close_cases [where what = "''listen''" and answer = "lc_listen calls"])
        case fails
        with result bound Inr show ?thesis by (simp add: opens_fails)
      next
        case listening: (goes_on y)
        from opened show ?thesis
        proof (cases rule: or_close_cases [where what = "''getsockname''" and answer = "lc_getsockname calls"])
          case fails
          with result bound listening Inr show ?thesis by (simp add: opens_fails)
        next
          case (goes_on z)
          obtain k1 k2 s1 where m: "socket_assign out h ?s = (k1, k2, s1)" by (cases "socket_assign out h ?s")
          with result bound listening goes_on have "status = status_success" "k = k1" "s' = s1" by simp_all
          with opens_succeeds [OF opened m Inr] Inr show ?thesis by simp
        qed
      qed
    qed
  qed
qed

lemma connect_accounted:
  assumes "accounted (out # ks) s" and "\<And>h. opened = Inr h \<Longrightarrow> fresh_descriptor h s"
    and "tcp_connect pton opened connected address port out s = (status, k, s')"
  shows "opens_into out ks opened status k s'"
proof (cases "fill_address pton address port")
  case (Inl e)
  with assms fill_address_fails [OF Inl] show ?thesis by (auto simp: tcp_connect_def intro: opens_fails)
next
  case addr: (Inr a)
  show ?thesis
  proof (cases opened)
    case (Inl e)
    with addr assms show ?thesis by (auto simp: tcp_connect_def intro: opens_fails)
  next
    case (Inr h)
    have opened: "accounted (h # out # ks) (open_descriptor h s)" using accounted_open [OF assms(1,2)] Inr by simp
    note result = assms(3) [unfolded tcp_connect_def addr Inr sum.case Let_def]
    from opened show ?thesis
    proof (cases rule: or_close_cases [where what = "''connect''" and answer = connected])
      case fails
      with result Inr show ?thesis by (simp add: opens_fails)
    next
      case (goes_on x)
      obtain k1 k2 s1 where m: "socket_assign out h (open_descriptor h s) = (k1, k2, s1)" by (cases "socket_assign out h (open_descriptor h s)")
      with result goes_on have "status = status_success" "k = k1" "s' = set_nodelay True k1 s1" by auto
      with opens_succeeds [OF opened m Inr] Inr show ?thesis by (simp add: opens_into_def)
    qed
  qed
qed

lemma accept_accounted:
  assumes "accounted (out # ks) s" and "\<And>h a p. accepted = Inr (h, a, p) \<Longrightarrow> fresh_descriptor h s"
    and "tcp_accept ntop accepted listener out peer s = (status, k, peer', s')"
  shows "opens_into out ks (map_sum id fst accepted) status k s'"
proof (cases "socket_valid listener")
  case False
  with assms show ?thesis by (auto simp: tcp_accept_def listener_closed_def status_failure_def status_ok_def intro: opens_fails)
next
  case listener: True
  show ?thesis
  proof (cases accepted)
    case (Inl e)
    with listener assms show ?thesis
      by (auto simp: tcp_accept_def socket_error_def status_failure_def status_ok_def intro: opens_fails)
  next
    case (Inr r)
    obtain h a p where r: "r = (h, a, p)" by (cases r)
    have opened: "accounted (h # out # ks) (open_descriptor h s)" using accounted_open [OF assms(1,2)] Inr r by simp
    obtain k1 k2 s1 where m: "socket_assign out h (open_descriptor h s) = (k1, k2, s1)" by (cases "socket_assign out h (open_descriptor h s)")
    from opens_succeeds [OF opened m, of "map_sum id fst accepted"] Inr r
    have "opens_into out ks (map_sum id fst accepted) status_success k1 s1" by simp
    with listener assms(3) Inr r m show ?thesis by (auto simp: tcp_accept_def Let_def opens_into_def)
  qed
qed

subsection \<open>Every step keeps the account\<close>

lemma handle_at:
  assumes "i < length ks"
  obtains rest where "\<And>s. accounted ks s = accounted (ks ! i # rest) s" "\<And>k s. accounted (ks[i := k]) s = accounted (k # rest) s"
proof -
  let ?rest = "take i ks @ drop (Suc i) ks"
  have "mset ks = mset (ks ! i # ?rest)" by (subst id_take_nth_drop [OF assms]) simp
  moreover have "mset (ks[i := k]) = mset (k # ?rest)" for k by (simp add: upd_conv_take_nth_drop [OF assms])
  ultimately show thesis using that [of ?rest] by (metis accounted_perm)
qed

lemma socket_step_accounted:
  assumes "socket_step p q" and "accounted (fst p) (snd p)"
  shows "accounted (fst q) (snd q)"
  using assms
proof cases
  case (step_listen i ks calls s pton address port bound status k bound' s')
  from handle_at [OF step_listen(3)] obtain rest where r: "\<And>s. accounted ks s = accounted (ks ! i # rest) s"
    "\<And>k s. accounted (ks[i := k]) s = accounted (k # rest) s" by blast
  have "accounted (ks ! i # rest) s" using assms(2) step_listen(1) r(1) by simp
  from listen_accounted [OF this step_listen(4,5)] show ?thesis using step_listen(2) r(2) by (simp add: opens_into_def)
next
  case (step_connect i ks opened s pton connected address port status k s')
  from handle_at [OF step_connect(3)] obtain rest where r: "\<And>s. accounted ks s = accounted (ks ! i # rest) s"
    "\<And>k s. accounted (ks[i := k]) s = accounted (k # rest) s" by blast
  have "accounted (ks ! i # rest) s" using assms(2) step_connect(1) r(1) by simp
  from connect_accounted [OF this step_connect(4,5)] show ?thesis using step_connect(2) r(2) by (simp add: opens_into_def)
next
  case (step_accept i ks j accepted s ntop peer status k peer' s')
  from handle_at [OF step_accept(3)] obtain rest where r: "\<And>s. accounted ks s = accounted (ks ! i # rest) s"
    "\<And>k s. accounted (ks[i := k]) s = accounted (k # rest) s" by blast
  have "accounted (ks ! i # rest) s" using assms(2) step_accept(1) r(1) by simp
  from accept_accounted [OF this step_accept(5,6)] show ?thesis using step_accept(2) r(2) by (simp add: opens_into_def)
next
  case (step_assign i ks j s k k' s')
  let ?ks = "ks[i := - 1]"
  from handle_at [OF step_assign(3)] obtain rest where r: "\<And>s. accounted ks s = accounted (ks ! i # rest) s"
    "\<And>k s. accounted (ks[i := k]) s = accounted (k # rest) s" by blast
  have k: "k = ks ! j" "k' = - 1" "s' = close_native (ks ! i) s"
    using step_assign(6) by (auto simp: socket_assign_def socket_reset_close)
  then have "accounted ?ks s'" using assms(2) step_assign(1) r accounted_close [of "ks ! i" rest s] by simp
  moreover have "?ks[j := ?ks ! i, i := ?ks ! j] = ks[i := k, j := k']"
    using step_assign(3-5) k by (simp add: list_update_swap [of i j])
  ultimately show ?thesis
    using step_assign(2-5) mset_swap [of i ?ks j] accounted_perm [of "?ks[j := ?ks ! i, i := ?ks ! j]" ?ks s'] by simp
next
  case (step_take j ks k k' s)
  have "mset (ks[j := - 1] @ [ks ! j]) = mset (- 1 # ks)" using step_take(3) by (simp add: mset_update)
  from accounted_perm [OF this] show ?thesis using assms(2) step_take by (simp add: socket_take_def)
next
  case (step_reset i ks s k s')
  from handle_at [OF step_reset(3)] obtain rest where r: "\<And>s. accounted ks s = accounted (ks ! i # rest) s"
    "\<And>k s. accounted (ks[i := k]) s = accounted (k # rest) s" by blast
  with step_reset assms(2) show ?thesis by (auto simp: socket_reset_close intro: accounted_close)
next
  case (step_create ks s)
  then show ?thesis using assms(2) accounted_perm [of "ks @ [- 1]" "- 1 # ks" s] by (simp add: no_socket_def)
next
  case (step_destroy k s k' s' ks ks')
  then have "accounted (k # (ks @ ks')) s" using assms(2) accounted_perm [of "ks @ k # ks'" "k # (ks @ ks')" s] by simp
  from accounted_close [OF this] show ?thesis using step_destroy by (simp add: socket_reset_close)
qed

text \<open>
  C27. No descriptor leaks, is shared or is closed twice: over every sequence of listening, connecting, accepting,
  moving, resetting and destroying sockets, with any of the system calls failing at any point, the open descriptors
  are exactly those of the valid handles, each held by one handle, and no closed descriptor was closed again.
\<close>

theorem descriptors_have_owners:
  assumes "socket_step\<^sup>*\<^sup>* (ks, s) (ks', s')" and "accounted ks s"
  shows "ds_open s' = owned ks' \<and> distinct (filter socket_valid ks') \<and> ds_bad s' = 0"
proof -
  have "accounted (fst q) (snd q)" if "socket_step\<^sup>*\<^sup>* p q" "accounted (fst p) (snd p)" for p q
    using that by (induction rule: rtranclp_induct) (auto intro: socket_step_accounted)
  from this [OF assms(1)] assms(2) show ?thesis by (simp add: accounted_def)
qed

text \<open>Listening fails at \<^verbatim>\<open>bind\<close> and succeeds the second time, with the same descriptor.\<close>

definition no_descriptors :: descriptors where
  "no_descriptors = \<lparr>ds_open = {}, ds_bad = 0, ds_nodelay = {}, ds_reuse = {}\<rparr>"

definition listening :: "unit sys \<Rightarrow> listen_calls" where
  "listening b = \<lparr>lc_socket = Inr 3, lc_bind = b, lc_listen = Inr (), lc_getsockname = Inr 4000\<rparr>"

theorem descriptors_have_owners_witness:
  "\<exists>s'. socket_step\<^sup>*\<^sup>* ([- 1], no_descriptors) ([3], s') \<and> ds_open s' = {3} \<and> ds_bad s' = 0"
proof -
  let ?port = "0 :: u16"
  obtain st k b s1 where one: "tcp_listen (\<lambda>_. None) (listening (Inl 98)) '''' ?port (- 1) 0 no_descriptors = (st, k, b, s1)"
    by (cases "tcp_listen (\<lambda>_. None) (listening (Inl 98)) '''' ?port (- 1) 0 no_descriptors") auto
  then have s1: "k = - 1" "s1 = no_descriptors"
    by (auto simp: tcp_listen_def listening_def fill_address_def or_close_def open_descriptor_def close_native_def close_descriptor_def
        kInvalidSocket_def no_descriptors_def)
  obtain st' k' b' s2 where two: "tcp_listen (\<lambda>_. None) (listening (Inr ())) '''' ?port (- 1) 0 no_descriptors = (st', k', b', s2)"
    by (cases "tcp_listen (\<lambda>_. None) (listening (Inr ())) '''' ?port (- 1) 0 no_descriptors") auto
  then have k': "k' = 3"
    by (auto simp: tcp_listen_def listening_def fill_address_def or_close_def socket_assign_def socket_reset_def Let_def split: prod.splits)
  have fresh: "lc_socket (listening x) = Inr h \<Longrightarrow> fresh_descriptor h no_descriptors" for x h
    by (simp add: listening_def fresh_descriptor_def no_descriptors_def)
  have "socket_step ([- 1], no_descriptors) ([- 1], no_descriptors)"
    using step_listen [of 0 "[- 1]", OF _ fresh] one s1 by simp
  moreover have "socket_step ([- 1], no_descriptors) ([3], s2)"
    using step_listen [of 0 "[- 1]", OF _ fresh] two k' by simp
  ultimately have run: "socket_step\<^sup>*\<^sup>* ([- 1], no_descriptors) ([3], s2)" by (meson rtranclp.simps)
  have "accounted [- 1] no_descriptors" by (simp add: accounted_def owned_def no_descriptors_def socket_valid_def)
  from descriptors_have_owners [OF run this] run show ?thesis by (auto simp: owned_def socket_valid_def)
qed

end
