(* ===== verification/Adapters.thy ===== *)
theory Adapters
  imports Governor
begin

text \<open>
  The hand-off of corrective intent (\<^verbatim>\<open>include/oversub/adapters.hpp\<close>): a sink takes the intents of a decision one
  by one, and the reference sink records them in a bounded buffer. What is handed off is stated against the
  list of intents without the empty ones.
\<close>

section \<open>The recording sink\<close>

record intent_record =
  ir_decision :: decision_id
  ir_kind :: corrective_kind
  ir_target :: corrective_target
  ir_domain :: domain_id
  ir_class :: service_class_id
  ir_resource :: resource_id
  ir_amount :: u64
  ir_reason :: reason_code

record recording_sink =
  sk_capacity :: nat
  sk_records :: "intent_record list"
  sk_delivered :: u64
  sk_dropped :: u64

definition new_sink :: "nat \<Rightarrow> recording_sink" where
  "new_sink capacity =
     \<lparr>sk_capacity = (if capacity = 0 then 1 else capacity), sk_records = [], sk_delivered = 0, sk_dropped = 0\<rparr>"

definition record_of :: "decision \<Rightarrow> corrective_intent \<Rightarrow> intent_record" where
  "record_of x i =
     \<lparr>ir_decision = de_id x, ir_kind = ci_kind i, ir_target = ci_target i, ir_domain = ci_domain i, ir_class = ci_class i,
      ir_resource = ci_resource i, ir_amount = ci_amount i, ir_reason = ci_reason i\<rparr>"

definition buffer_full :: status where
  "buffer_full = status_failure Status_OutOfRange Reason_LimitExceeded ''intent record buffer is full''"

definition deliver_record :: "decision \<Rightarrow> corrective_intent \<Rightarrow> recording_sink \<Rightarrow> status \<times> recording_sink" where
  "deliver_record x i s =
     (let s = s\<lparr>sk_delivered := sk_delivered s + 1\<rparr> in
      if length (sk_records s) \<ge> sk_capacity s then (buffer_full, s\<lparr>sk_dropped := sk_dropped s + 1\<rparr>)
      else (status_success, s\<lparr>sk_records := sk_records s @ [record_of x i]\<rparr>))"

definition clear_sink :: "recording_sink \<Rightarrow> recording_sink" where
  "clear_sink s = s\<lparr>sk_records := [], sk_delivered := 0, sk_dropped := 0\<rparr>"

section \<open>Dispatch\<close>

definition dispatch_exhausted :: status where
  "dispatch_exhausted = status_failure Status_OutOfRange Reason_LimitExceeded ''corrective intent dispatch budget exhausted''"

text \<open>The loop over the intents; the sink is any, with its own state.\<close>

fun dispatch_from ::
  "(decision \<Rightarrow> corrective_intent \<Rightarrow> 's \<Rightarrow> status \<times> 's) \<Rightarrow> decision \<Rightarrow> u32 \<Rightarrow> u32 \<Rightarrow> corrective_intent list \<Rightarrow> 's \<Rightarrow> status \<times> 's" where
  "dispatch_from deliver x max_intents delivered [] s = (status_success, s)"
| "dispatch_from deliver x max_intents delivered (i # is) s =
     (if ci_kind i = Corrective_None then dispatch_from deliver x max_intents delivered is s
      else if delivered \<ge> max_intents then (dispatch_exhausted, s)
      else let (status, s) = deliver x i s in
        if \<not> status_ok status then (status, s) else dispatch_from deliver x max_intents (delivered + 1) is s)"

definition dispatch_corrective_intent ::
  "(decision \<Rightarrow> corrective_intent \<Rightarrow> 's \<Rightarrow> status \<times> 's) \<Rightarrow> decision \<Rightarrow> u32 \<Rightarrow> 's \<Rightarrow> status \<times> 's" where
  "dispatch_corrective_intent deliver x max_intents s = dispatch_from deliver x max_intents 0 (er_intents (de_evaluation x)) s"

section \<open>What is handed off\<close>

definition wanted :: "decision \<Rightarrow> corrective_intent list" where
  "wanted x = filter (\<lambda>i. ci_kind i \<noteq> Corrective_None) (er_intents (de_evaluation x))"

lemma unat_suc_below: "unat (n :: u32) < unat (m :: u32) \<Longrightarrow> unat (n + 1) = Suc (unat n)"
proof (rule unat_inc)
  assume "unat n < unat m"
  moreover have "unat m \<le> unat (- 1 :: u32)" by (simp add: word_le_nat_alt [symmetric])
  ultimately show "n \<noteq> - 1" by auto
qed

text \<open>
  What a client relies on in a bounded sink: while there is room a delivery succeeds and appends what it was
  given, without room it fails and keeps what it holds.
\<close>

locale bounded_sink =
  fixes deliver :: "decision \<Rightarrow> corrective_intent \<Rightarrow> 's \<Rightarrow> status \<times> 's"
    and held :: "'s \<Rightarrow> 'r list"
    and room :: "'s \<Rightarrow> nat"
    and recorded :: "decision \<Rightarrow> corrective_intent \<Rightarrow> 'r"
  assumes takes: "0 < room s \<Longrightarrow> status_ok (fst (deliver x i s)) \<and> held (snd (deliver x i s)) = held s @ [recorded x i]
      \<and> room (snd (deliver x i s)) = room s - 1"
    and refuses: "room s = 0 \<Longrightarrow> \<not> status_ok (fst (deliver x i s)) \<and> held (snd (deliver x i s)) = held s"
begin

lemma dispatched:
  assumes "delivered \<le> max_intents"
  shows "let is' = filter (\<lambda>i. ci_kind i \<noteq> Corrective_None) is; n = min (unat max_intents - unat delivered) (room s);
             (status, s') = dispatch_from deliver x max_intents delivered is s
         in held s' = held s @ map (recorded x) (take n is') \<and> (status_ok status \<longleftrightarrow> length is' \<le> n)"
  using assms
proof (induction "is" arbitrary: delivered s)
  case (Cons i "is")
  show ?case
  proof (cases "ci_kind i = Corrective_None \<or> delivered \<ge> max_intents")
    case True
    then show ?thesis using Cons by (auto simp: Let_def dispatch_exhausted_def status_failure_def status_ok_def)
  next
    case False
    show ?thesis
    proof (cases "room s = 0")
      case True
      with refuses [OF this, of x i] False show ?thesis by (auto simp: Let_def split: prod.splits)
    next
      case room: False
      obtain status s' where d: "deliver x i s = (status, s')" by fastforce
      have nxt: "status_ok status" "held s' = held s @ [recorded x i]" "room s' = room s - 1"
        using takes [of s x i] room d by simp_all
      have less: "unat delivered < unat max_intents" using False by (simp add: word_less_nat_alt linorder_not_le)
      then have up: "unat (delivered + 1) = Suc (unat delivered)" by (rule unat_suc_below)
      then have "delivered + 1 \<le> max_intents" using less by (simp add: word_le_nat_alt)
      from Cons.IH [OF this, of s'] have "let is' = filter (\<lambda>i. ci_kind i \<noteq> Corrective_None) is; n = min (unat max_intents - Suc (unat delivered)) (room s - 1);
             (status, s'') = dispatch_from deliver x max_intents (delivered + 1) is s'
         in held s'' = held s @ recorded x i # map (recorded x) (take n is') \<and> (status_ok status \<longleftrightarrow> length is' \<le> n)"
        by (simp add: nxt up)
      moreover have "min (unat max_intents - unat delivered) (room s)
          = Suc (min (unat max_intents - Suc (unat delivered)) (room s - 1))" using less room by simp
      ultimately show ?thesis using False nxt d by (auto simp: Let_def split: prod.splits)
    qed
  qed
qed simp

end

definition sink_room :: "recording_sink \<Rightarrow> nat" where
  "sink_room s = sk_capacity s - length (sk_records s)"

interpretation recording: bounded_sink deliver_record sk_records sink_room record_of
  by unfold_locales (auto simp: deliver_record_def sink_room_def Let_def buffer_full_def status_failure_def status_ok_def status_success_def)

text \<open>
  Dispatching a decision to the recording sink records exactly the non-empty intents, in the order the
  evaluation produced them, up to the dispatch budget and the room of the sink, and reports success exactly
  when none was left out.
\<close>

theorem dispatch_hands_off:
  "let n = min (unat max_intents) (sk_capacity s - length (sk_records s));
       (status, s') = dispatch_corrective_intent deliver_record x max_intents s
   in sk_records s' = sk_records s @ map (record_of x) (take n (wanted x)) \<and> (status_ok status \<longleftrightarrow> length (wanted x) \<le> n)"
  using recording.dispatched [of 0 max_intents "er_intents (de_evaluation x)" s x]
  by (simp add: dispatch_corrective_intent_def wanted_def sink_room_def Let_def)


end
