(* ===== verification/Process.thy ===== *)
theory Process
  imports Status
begin

text \<open>
  Supervision of child processes (\<^verbatim>\<open>include/oversub/process.hpp\<close>, \<^verbatim>\<open>src/process.cpp\<close>), in the POSIX variant. What
  \<^verbatim>\<open>fork\<close>, \<^verbatim>\<open>waitpid\<close>, \<^verbatim>\<open>kill\<close> and the file system answer are arguments; a call that blocks is \<^const>\<open>None\<close>.
  Of the Windows variant only the quoting of a command line is modelled.
\<close>

section \<open>State\<close>

record process_spec =
  ps_executable :: string
  ps_arguments :: "string list"
  ps_directory :: string
  ps_inherit_output :: bool

record child_process =
  ch_os_pid :: int
  ch_pid :: u32

definition no_child :: child_process where
  "no_child = \<lparr>ch_os_pid = - 1, ch_pid = 0\<rparr>"

definition child_valid :: "child_process \<Rightarrow> bool" where
  "child_valid c \<longleftrightarrow> ch_os_pid c > 0"

definition child_reset :: "child_process \<Rightarrow> child_process" where
  "child_reset c = c\<lparr>ch_os_pid := - 1, ch_pid := 0\<rparr>"

text \<open>A move gives the handle and leaves the source without one: the new handle and the source.\<close>

definition move_construct :: "child_process \<Rightarrow> child_process \<times> child_process" where
  "move_construct other =
     (\<lparr>ch_os_pid = ch_os_pid other, ch_pid = ch_pid other\<rparr>, other\<lparr>ch_os_pid := - 1, ch_pid := 0\<rparr>)"

definition move_assign :: "child_process \<Rightarrow> child_process \<Rightarrow> child_process \<times> child_process" where
  "move_assign this other =
     ((child_reset this)\<lparr>ch_os_pid := ch_os_pid other, ch_pid := ch_pid other\<rparr>, other\<lparr>ch_os_pid := - 1, ch_pid := 0\<rparr>)"

section \<open>Spawning\<close>

definition io_failure :: "string \<Rightarrow> status" where
  "io_failure detail = status_failure Status_IoError Reason_None detail"

definition handle_invalid :: status where
  "handle_invalid = status_failure Status_InvalidArgument Reason_None ''process handle is not valid''"

definition child_spawn :: "process_spec \<Rightarrow> int \<Rightarrow> child_process \<Rightarrow> status \<times> child_process" where
  "child_spawn spec forked c =
     (if ps_executable spec = ''''
      then (status_failure Status_InvalidArgument Reason_InvalidField ''executable path is empty'', c)
      else if child_valid c
      then (status_failure Status_AlreadyExists Reason_None ''process handle is already in use'', c)
      else if forked < 0 then (io_failure ''fork failed'', c)
      else (status_success, c\<lparr>ch_os_pid := forked, ch_pid := word_of_int forked\<rparr>))"

text \<open>What the forked process becomes: the program with its arguments, or nothing but an exit code.\<close>

datatype image = Runs string "string list" | Exits nat

definition child_image :: "process_spec \<Rightarrow> (string \<Rightarrow> bool) \<Rightarrow> (string \<Rightarrow> bool) \<Rightarrow> image" where
  "child_image spec chdir_ok execv_ok =
     (if ps_directory spec \<noteq> '''' \<and> \<not> chdir_ok (ps_directory spec) then Exits 127
      else if execv_ok (ps_executable spec) then Runs (ps_executable spec) (ps_executable spec # ps_arguments spec)
      else Exits 127)"

section \<open>Waiting\<close>

text \<open>\<open>waitpid pid nohang os\<close> is the result with the wait status and the operating system behind it.\<close>

type_synonym 'os waitpid = "int \<Rightarrow> bool \<Rightarrow> 'os \<Rightarrow> ((int \<times> u32) \<times> 'os) option"

definition child_running :: "'os waitpid \<Rightarrow> child_process \<Rightarrow> 'os \<Rightarrow> (bool \<times> 'os) option" where
  "child_running waitpid c os =
     (if \<not> child_valid c then Some (False, os)
      else map_option (\<lambda>((result, status), os). (result = 0, os)) (waitpid (ch_os_pid c) True os))"

definition exited :: "u32 \<Rightarrow> bool" where
  "exited status \<longleftrightarrow> status AND 0x7F = 0"

definition exit_code_of :: "u32 \<Rightarrow> u32" where
  "exit_code_of status = (if exited status then drop_bit 8 (status AND 0xFF00) else 1)"

definition child_wait :: "'os waitpid \<Rightarrow> child_process \<Rightarrow> 'os \<Rightarrow> ((status + u32) \<times> child_process \<times> 'os) option" where
  "child_wait waitpid c os =
     (if \<not> child_valid c then Some (Inl handle_invalid, c, os)
      else map_option (\<lambda>((result, status), os).
          if result < 0 then (Inl (io_failure ''waitpid failed''), c, os)
          else (Inr (exit_code_of status), child_reset c, os))
        (waitpid (ch_os_pid c) False os))"

definition child_terminate :: "(int \<Rightarrow> int) \<Rightarrow> child_process \<Rightarrow> status" where
  "child_terminate kill c =
     (if \<not> child_valid c then handle_invalid
      else if kill (ch_os_pid c) \<noteq> 0 then io_failure ''kill failed''
      else status_success)"

section \<open>The running executable\<close>

definition current_executable_path :: "string option \<Rightarrow> status + string" where
  "current_executable_path link =
     (case link of None \<Rightarrow> Inl (io_failure ''cannot resolve /proc/self/exe'') | Some path \<Rightarrow> Inr path)"

definition current_executable_directory :: "(string \<Rightarrow> string) \<Rightarrow> string option \<Rightarrow> status + string" where
  "current_executable_directory parent_path link =
     (case current_executable_path link of Inl status \<Rightarrow> Inl status | Inr path \<Rightarrow> Inr (parent_path path))"

section \<open>The Windows command line\<close>

text \<open>The closing quote of an argument that ends in a backslash reads as an escaped one: the backslash is not doubled.\<close>

definition quote :: "string \<Rightarrow> string" where
  "quote text = ''\"'' @ concat (map (\<lambda>ch. if ch = CHR 0x22 then [CHR 0x5C, ch] else [ch]) text) @ ''\"''"

definition command_line :: "process_spec \<Rightarrow> string" where
  "command_line spec = quote (ps_executable spec) @ concat (map (\<lambda>a. '' '' @ quote a) (ps_arguments spec))"

lemma trailing_backslash_escapes_quote: "quote (text @ [CHR 0x5C]) = butlast (quote text) @ [CHR 0x5C, CHR 0x22]"
  by (simp add: quote_def butlast_append)

section \<open>Life of a handle\<close>

text \<open>A handle stands for a child exactly while it holds a positive process id, and its two ids agree.\<close>

definition child_ok :: "child_process \<Rightarrow> bool" where
  "child_ok c \<longleftrightarrow> (ch_os_pid c = - 1 \<and> ch_pid c = 0) \<or> (ch_os_pid c > 0 \<and> ch_pid c = word_of_int (ch_os_pid c))"

lemma child_ok_kept:
  "child_ok no_child"
  "child_ok c \<Longrightarrow> forked \<noteq> 0 \<Longrightarrow> child_ok (snd (child_spawn spec forked c))"
  "child_ok c \<Longrightarrow> child_wait waitpid c os = Some (r, c', os') \<Longrightarrow> child_ok c'"
  "child_ok c \<Longrightarrow> child_ok d \<Longrightarrow> child_ok (fst (move_assign c d)) \<and> child_ok (snd (move_assign c d))"
  "child_ok c \<Longrightarrow> child_ok (fst (move_construct c)) \<and> child_ok (snd (move_construct c))"
  by (auto simp: child_ok_def no_child_def child_spawn_def child_wait_def child_reset_def move_assign_def move_construct_def
      split: if_splits)

text \<open>A spawned child that ended is waited for: the exit code is the child's, and the handle can spawn again.\<close>

lemma wait_returns_exit_code:
  assumes "child_spawn spec forked no_child = (s, c)" "status_ok s" "forked \<noteq> 0"
    and "waitpid forked False os = Some ((forked, status), os')"
  shows "child_wait waitpid c os = Some (Inr (exit_code_of status), no_child, os')"
  using assms by (auto simp: child_spawn_def child_wait_def child_valid_def no_child_def child_reset_def io_failure_def
      status_failure_def status_ok_def split: if_splits)

text \<open>
  Once a child has exited, asking whether it runs collects its exit status and throws it away: the wait
  that follows fails instead of reporting the exit code, and the handle keeps its stale process id, so it still
  counts as valid and can never spawn again.
\<close>

theorem poll_loses_exit_code:
  assumes posix: "\<And>pid h os status os' h'. 0 < pid \<Longrightarrow> waitpid pid h os = Some ((pid, status), os') \<Longrightarrow> \<exists>st. waitpid pid h' os' = Some ((- 1, st), os')"
    and valid: "child_valid c"
    and ended: "waitpid (ch_os_pid c) True os = Some ((ch_os_pid c, status), os')"
  shows "child_running waitpid c os = Some (False, os')
    \<and> child_wait waitpid c os' = Some (Inl (io_failure ''waitpid failed''), c, os')
    \<and> child_valid c \<and> (ps_executable spec \<noteq> '''' \<longrightarrow> st_code (fst (child_spawn spec forked c)) = Status_AlreadyExists)"
proof (intro conjI)
  have "0 < ch_os_pid c" using valid by (simp add: child_valid_def)
  then obtain st where "waitpid (ch_os_pid c) False os' = Some ((- 1, st), os')" using posix [OF _ ended] by blast
  then show "child_wait waitpid c os' = Some (Inl (io_failure ''waitpid failed''), c, os')" using valid by (simp add: child_wait_def)
  show "child_running waitpid c os = Some (False, os')" using valid ended by (auto simp: child_running_def child_valid_def)
  show "ps_executable spec \<noteq> '''' \<longrightarrow> st_code (fst (child_spawn spec forked c)) = Status_AlreadyExists"
    using valid by (simp add: child_spawn_def status_failure_def)
qed (rule valid)

text \<open>A process table: a child that runs, or that ended with a status nobody collected.\<close>

definition table_waitpid :: "(int \<rightharpoonup> u32 option) waitpid" where
  "table_waitpid pid nohang table =
     (case table pid of
        None \<Rightarrow> Some ((- 1, 0), table)
      | Some None \<Rightarrow> if nohang then Some ((0, 0), table) else None
      | Some (Some status) \<Rightarrow> Some ((pid, status), table(pid := None)))"

lemma poll_loses_exit_code_witness:
  "let c = \<lparr>ch_os_pid = 42, ch_pid = 42\<rparr>; ended = Map.empty(42 \<mapsto> Some 0x300)
   in child_wait table_waitpid c ended = Some (Inr 3, no_child, Map.empty)
      \<and> child_running table_waitpid c ended = Some (False, Map.empty)
      \<and> child_wait table_waitpid c Map.empty = Some (Inl (io_failure ''waitpid failed''), c, Map.empty)"
proof -
  let ?c = "\<lparr>ch_os_pid = 42, ch_pid = 42\<rparr>" and ?ended = "Map.empty(42 \<mapsto> Some 0x300)"
  have posix: "\<exists>st. table_waitpid pid h' os' = Some ((- 1, st), os')"
    if "0 < pid" "table_waitpid pid h os = Some ((pid, status), os')" for pid h h' os os' status
    using that by (auto simp: table_waitpid_def split: option.splits if_splits)
  have "child_wait table_waitpid ?c ?ended = Some (Inr 3, no_child, Map.empty)"
    by (simp add: child_wait_def child_valid_def table_waitpid_def exit_code_of_def exited_def child_reset_def no_child_def)
  moreover have "table_waitpid (ch_os_pid ?c) True ?ended = Some ((ch_os_pid ?c, 0x300), Map.empty)"
    by (simp add: table_waitpid_def)
  ultimately show ?thesis
    using poll_loses_exit_code [of table_waitpid ?c ?ended "0x300" Map.empty, OF posix] by (simp add: child_valid_def)
qed

end
