(* ===== verification/Command_Line.thy ===== *)
theory Command_Line
  imports Checked
begin

text \<open>
  The arguments of the two programs: numbers, the options of the command-line tool (\<^verbatim>\<open>cli/main.cpp\<close>) and
  those of the multiprocess tool (\<^verbatim>\<open>dist/main.cpp\<close>). \<^verbatim>\<open>argv\<close> is the list of tokens behind the program name.
  An option that cannot be read ends the parse: it is \<^const>\<open>Inl\<close> of the options as they were left.
\<close>

section \<open>Numbers\<close>

definition is_digit :: "char \<Rightarrow> bool" where
  "is_digit c \<longleftrightarrow> 48 \<le> (of_char c :: nat) \<and> of_char c \<le> (57 :: nat)"

definition digit_of :: "char \<Rightarrow> nat" where
  "digit_of c = of_char c - 48"

fun parse_digits :: "u64 \<Rightarrow> string \<Rightarrow> u64 option" where
  "parse_digits n [] = Some n"
| "parse_digits n (c # cs) =
     (if \<not> is_digit c then None
      else let digit = word_of_nat (digit_of c) in
        if n > (- 1 - digit) div 10 then None else parse_digits (n * 10 + digit) cs)"

text \<open>\<^verbatim>\<open>parse_u64\<close> of the command-line tool; \<^const>\<open>None\<close> leaves the output parameter alone.\<close>

definition parse_u64 :: "string \<Rightarrow> u64 option" where
  "parse_u64 text = (if text = '''' then None else parse_digits 0 text)"

text \<open>\<^verbatim>\<open>parse_u64\<close> of the multiprocess tool: the value, 0 when it is none, and whether it is one.\<close>

definition dist_parse_u64 :: "string \<Rightarrow> u64 \<times> bool" where
  "dist_parse_u64 text = (case parse_u64 text of None \<Rightarrow> (0, False) | Some n \<Rightarrow> (n, True))"

section \<open>Options of the command-line tool\<close>

record cli_options =
  op_command :: string
  op_directory :: string
  op_file :: string
  op_domains :: u32
  op_resources :: u32
  op_guarantees :: u32
  op_demand :: u32
  op_capacity :: u64
  op_ratio_num :: u64
  op_ratio_den :: u64
  op_degraded :: u32
  op_failed :: u32
  op_over_demand :: u64
  op_tick :: u64
  op_limit :: u64
  op_valid :: bool
  op_error :: string

definition default_cli_options :: cli_options where
  "default_cli_options =
     \<lparr>op_command = '''', op_directory = '''', op_file = '''', op_domains = 1, op_resources = 2, op_guarantees = 2, op_demand = 4,
      op_capacity = 1000000, op_ratio_num = 2, op_ratio_den = 1, op_degraded = 0, op_failed = 0, op_over_demand = 1000000,
      op_tick = 0, op_limit = 16, op_valid = True, op_error = ''''\<rparr>"

definition cli_fail :: "string \<Rightarrow> cli_options \<Rightarrow> cli_options" where
  "cli_fail e q = q\<lparr>op_valid := False, op_error := e\<rparr>"

definition cli_value :: "string \<Rightarrow> string list \<Rightarrow> cli_options \<Rightarrow> cli_options + string \<times> string list" where
  "cli_value token rest q =
     (case rest of [] \<Rightarrow> Inl (cli_fail (''missing value for '' @ token) q) | v # rest \<Rightarrow> Inr (v, rest))"

definition cli_number :: "string \<Rightarrow> string list \<Rightarrow> cli_options \<Rightarrow> cli_options + u64 \<times> string list" where
  "cli_number token rest q = and_then (cli_value token rest q) (\<lambda>(text, rest).
     case parse_u64 text of None \<Rightarrow> Inl (cli_fail (''invalid number for '' @ token) q) | Some n \<Rightarrow> Inr (n, rest))"

text \<open>A number with a bound; its error replaces that of the number.\<close>

definition cli_bounded ::
  "string \<Rightarrow> (u64 \<Rightarrow> bool) \<Rightarrow> (u64 \<Rightarrow> cli_options \<Rightarrow> cli_options) \<Rightarrow> string list \<Rightarrow> cli_options \<Rightarrow> cli_options + cli_options \<times> string list"
where
  "cli_bounded token in_bound assign rest q =
     (case cli_number token rest q of
        Inl _ \<Rightarrow> Inl (cli_fail (''invalid '' @ token) q)
      | Inr (n, rest) \<Rightarrow> if in_bound n then Inr (assign n q, rest) else Inl (cli_fail (''invalid '' @ token) q))"

text \<open>The capacity is written before it is checked, and so is each side of a ratio.\<close>

definition cli_capacity :: "string list \<Rightarrow> cli_options \<Rightarrow> cli_options + cli_options \<times> string list" where
  "cli_capacity rest q =
     (case cli_number ''--capacity'' rest q of
        Inl _ \<Rightarrow> Inl (cli_fail ''invalid --capacity'' q)
      | Inr (n, rest) \<Rightarrow> let q = q\<lparr>op_capacity := n\<rparr> in
          if n = 0 \<or> n > kHardMaxCapacityUnits then Inl (cli_fail ''invalid --capacity'' q) else Inr (q, rest))"

definition cli_ratio :: "string list \<Rightarrow> cli_options \<Rightarrow> cli_options + cli_options \<times> string list" where
  "cli_ratio rest q = and_then (cli_value ''--ratio'' rest q) (\<lambda>(text, rest).
     let bad = (\<lambda>q. Inl (cli_fail ''invalid --ratio (expected NUM:DEN with NUM >= DEN >= 1)'' q));
         num = takeWhile (\<lambda>c. c \<noteq> CHR '':'') text; den = drop (length num + 1) text in
     if CHR '':'' \<notin> set text then bad q
     else (case parse_u64 num of None \<Rightarrow> bad q | Some n \<Rightarrow> let q = q\<lparr>op_ratio_num := n\<rparr> in
       (case parse_u64 den of None \<Rightarrow> bad q | Some d \<Rightarrow> let q = q\<lparr>op_ratio_den := d\<rparr> in
         if ratio_valid (Ratio n d) then Inr (q, rest) else bad q)))"

definition cli_option :: "string \<Rightarrow> string list \<Rightarrow> cli_options \<Rightarrow> cli_options + cli_options \<times> string list" where
  "cli_option token rest q =
     (if token = ''--dir'' \<or> token = ''--state-dir''
      then and_then (cli_value token rest q) (\<lambda>(v, rest). Inr (q\<lparr>op_directory := v\<rparr>, rest))
      else if token = ''--file'' then and_then (cli_value token rest q) (\<lambda>(v, rest). Inr (q\<lparr>op_file := v\<rparr>, rest))
      else if token = ''--domains'' then cli_bounded token (\<lambda>n. n \<noteq> 0 \<and> n \<le> 64) (\<lambda>n q. q\<lparr>op_domains := ucast n\<rparr>) rest q
      else if token = ''--resources'' then cli_bounded token (\<lambda>n. n \<noteq> 0 \<and> n \<le> 64) (\<lambda>n q. q\<lparr>op_resources := ucast n\<rparr>) rest q
      else if token = ''--guarantees'' then cli_bounded token (\<lambda>n. n \<le> 16) (\<lambda>n q. q\<lparr>op_guarantees := ucast n\<rparr>) rest q
      else if token = ''--demand'' then cli_bounded token (\<lambda>n. n \<le> 64) (\<lambda>n q. q\<lparr>op_demand := ucast n\<rparr>) rest q
      else if token = ''--capacity'' then cli_capacity rest q
      else if token = ''--ratio'' then cli_ratio rest q
      else if token = ''--degraded'' then cli_bounded token (\<lambda>n. n \<le> 64) (\<lambda>n q. q\<lparr>op_degraded := ucast n\<rparr>) rest q
      else if token = ''--failed'' then cli_bounded token (\<lambda>n. n \<le> 64) (\<lambda>n q. q\<lparr>op_failed := ucast n\<rparr>) rest q
      else if token = ''--over-demand-ppm''
      then and_then (cli_number token rest q) (\<lambda>(n, rest). Inr (q\<lparr>op_over_demand := n\<rparr>, rest))
      else if token = ''--tick'' then and_then (cli_number token rest q) (\<lambda>(n, rest). Inr (q\<lparr>op_tick := n\<rparr>, rest))
      else if token = ''--limit'' then cli_bounded token (\<lambda>n. n \<noteq> 0 \<and> n \<le> 100000) (\<lambda>n q. q\<lparr>op_limit := n\<rparr>) rest q
      else Inl (cli_fail (''unknown argument: '' @ token) q))"

lemma cli_reads_forward:
  "cli_value token rest q = Inr (v, rest') \<Longrightarrow> length rest' \<le> length rest"
  "cli_number token rest q = Inr (n, rest') \<Longrightarrow> length rest' \<le> length rest"
  "cli_bounded token in_bound assign rest q = Inr (q', rest') \<Longrightarrow> length rest' \<le> length rest"
  "cli_capacity rest q = Inr (q', rest') \<Longrightarrow> length rest' \<le> length rest"
  "cli_ratio rest q = Inr (q', rest') \<Longrightarrow> length rest' \<le> length rest"
  by (auto simp: cli_value_def cli_number_def cli_bounded_def cli_capacity_def cli_ratio_def and_then_Inr_iff Let_def
      split: list.splits option.splits sum.splits if_splits)

lemma cli_option_forward: "cli_option token rest q = Inr (q', rest') \<Longrightarrow> length rest' \<le> length rest"
  by (auto simp: cli_option_def and_then_Inr_iff dest: cli_reads_forward split: if_splits)

function cli_loop :: "string list \<Rightarrow> cli_options \<Rightarrow> cli_options" where
  "cli_loop [] q = q"
| "cli_loop (token # rest) q = (case cli_option token rest q of Inl q \<Rightarrow> q | Inr (q, rest) \<Rightarrow> cli_loop rest q)"
  by pat_completeness auto
termination by (relation "measure (\<lambda>(tokens, q). length tokens)") (auto dest: cli_option_forward)

definition cli_parse :: "string list \<Rightarrow> cli_options" where
  "cli_parse tokens =
     (case tokens of
        [] \<Rightarrow> cli_fail ''a command is required'' default_cli_options
      | command # rest \<Rightarrow> cli_loop rest (default_cli_options\<lparr>op_command := command\<rparr>))"

section \<open>Arguments of the multiprocess tool\<close>

record dist_arguments =
  dg_role :: string
  dg_address :: string
  dg_port :: u16
  dg_state_directory :: string
  dg_report_path :: string
  dg_publisher :: u64
  dg_incarnation :: u64
  dg_domain :: u64
  dg_tick :: u64
  dg_domains :: u32
  dg_resources :: u32
  dg_guarantees :: u32
  dg_demand :: u32
  dg_capacity :: u64
  dg_rounds :: u32
  dg_adopt :: bool
  dg_auto_generations :: bool
  dg_explicit_generations :: bool
  dg_revalidate :: bool
  dg_replay :: bool
  dg_stale_epoch :: bool
  dg_expect_outcome :: string
  dg_valid :: bool
  dg_error :: string

definition default_dist_arguments :: dist_arguments where
  "default_dist_arguments =
     \<lparr>dg_role = '''', dg_address = ''127.0.0.1'', dg_port = 0, dg_state_directory = '''', dg_report_path = '''', dg_publisher = 1,
      dg_incarnation = 1, dg_domain = 1, dg_tick = 0, dg_domains = 1, dg_resources = 4, dg_guarantees = 2, dg_demand = 4,
      dg_capacity = 1000000, dg_rounds = 1, dg_adopt = False, dg_auto_generations = False, dg_explicit_generations = True,
      dg_revalidate = False, dg_replay = False, dg_stale_epoch = False, dg_expect_outcome = '''', dg_valid = True, dg_error = ''''\<rparr>"

definition dist_fail :: "string \<Rightarrow> dist_arguments \<Rightarrow> dist_arguments" where
  "dist_fail e a = a\<lparr>dg_valid := False, dg_error := e\<rparr>"

definition dist_next ::
  "string \<Rightarrow> (string \<Rightarrow> dist_arguments \<Rightarrow> dist_arguments) \<Rightarrow> string list \<Rightarrow> dist_arguments \<Rightarrow> dist_arguments + dist_arguments \<times> string list"
where
  "dist_next token assign rest a =
     (case rest of [] \<Rightarrow> Inl (dist_fail (''missing value for '' @ token) a) | v # rest \<Rightarrow> Inr (assign v a, rest))"

text \<open>A number is written whether or not it is one.\<close>

definition dist_next_u64 ::
  "string \<Rightarrow> (u64 \<Rightarrow> dist_arguments \<Rightarrow> dist_arguments) \<Rightarrow> string list \<Rightarrow> dist_arguments \<Rightarrow> dist_arguments + dist_arguments \<times> string list"
where
  "dist_next_u64 token assign rest a =
     (case rest of
        [] \<Rightarrow> Inl (dist_fail (''missing value for '' @ token) a)
      | text # rest \<Rightarrow> let (n, ok) = dist_parse_u64 text; a = assign n a in
          if \<not> ok then Inl (dist_fail (''invalid numeric value for '' @ token) a) else Inr (a, rest))"

definition dist_bounded ::
  "string \<Rightarrow> (u64 \<Rightarrow> bool) \<Rightarrow> (u64 \<Rightarrow> dist_arguments \<Rightarrow> dist_arguments) \<Rightarrow> string list \<Rightarrow> dist_arguments
   \<Rightarrow> dist_arguments + dist_arguments \<times> string list"
where
  "dist_bounded what in_bound assign rest a =
     (case rest of
        [] \<Rightarrow> Inl (dist_fail (''invalid '' @ what) a)
      | text # rest \<Rightarrow> let (n, ok) = dist_parse_u64 text in
          if \<not> ok \<or> \<not> in_bound n then Inl (dist_fail (''invalid '' @ what) a) else Inr (assign n a, rest))"

definition dist_option :: "string \<Rightarrow> string list \<Rightarrow> dist_arguments \<Rightarrow> dist_arguments + dist_arguments \<times> string list" where
  "dist_option token rest a =
     (if token = ''--address'' then dist_next token (\<lambda>v a. a\<lparr>dg_address := v\<rparr>) rest a
      else if token = ''--port'' then dist_bounded ''port'' (\<lambda>n. n \<le> 65535) (\<lambda>n a. a\<lparr>dg_port := ucast n\<rparr>) rest a
      else if token = ''--state-dir'' then dist_next token (\<lambda>v a. a\<lparr>dg_state_directory := v\<rparr>) rest a
      else if token = ''--report'' then dist_next token (\<lambda>v a. a\<lparr>dg_report_path := v\<rparr>) rest a
      else if token = ''--publisher'' then dist_next_u64 token (\<lambda>n a. a\<lparr>dg_publisher := n\<rparr>) rest a
      else if token = ''--incarnation'' then dist_next_u64 token (\<lambda>n a. a\<lparr>dg_incarnation := n\<rparr>) rest a
      else if token = ''--domain'' then dist_next_u64 token (\<lambda>n a. a\<lparr>dg_domain := n\<rparr>) rest a
      else if token = ''--tick'' then dist_next_u64 token (\<lambda>n a. a\<lparr>dg_tick := n\<rparr>) rest a
      else if token = ''--domains'' then dist_bounded token (\<lambda>n. n \<noteq> 0 \<and> n \<le> 64) (\<lambda>n a. a\<lparr>dg_domains := ucast n\<rparr>) rest a
      else if token = ''--resources'' then dist_bounded token (\<lambda>n. n \<noteq> 0 \<and> n \<le> 64) (\<lambda>n a. a\<lparr>dg_resources := ucast n\<rparr>) rest a
      else if token = ''--guarantees'' then dist_bounded token (\<lambda>n. n \<le> 16) (\<lambda>n a. a\<lparr>dg_guarantees := ucast n\<rparr>) rest a
      else if token = ''--demand'' then dist_bounded token (\<lambda>n. n \<le> 64) (\<lambda>n a. a\<lparr>dg_demand := ucast n\<rparr>) rest a
      else if token = ''--capacity''
      then dist_bounded token (\<lambda>n. n \<noteq> 0 \<and> n \<le> kHardMaxCapacityUnits) (\<lambda>n a. a\<lparr>dg_capacity := n\<rparr>) rest a
      else if token = ''--rounds'' then dist_bounded token (\<lambda>n. n \<noteq> 0 \<and> n \<le> 64) (\<lambda>n a. a\<lparr>dg_rounds := ucast n\<rparr>) rest a
      else if token = ''--expect-outcome'' then dist_next token (\<lambda>v a. a\<lparr>dg_expect_outcome := v\<rparr>) rest a
      else if token = ''--adopt'' then Inr (a\<lparr>dg_adopt := True\<rparr>, rest)
      else if token = ''--auto-generations'' then Inr (a\<lparr>dg_auto_generations := True, dg_explicit_generations := False\<rparr>, rest)
      else if token = ''--revalidate'' then Inr (a\<lparr>dg_revalidate := True\<rparr>, rest)
      else if token = ''--replay'' then Inr (a\<lparr>dg_replay := True\<rparr>, rest)
      else if token = ''--stale-epoch'' then Inr (a\<lparr>dg_stale_epoch := True\<rparr>, rest)
      else Inl (dist_fail (''unknown argument: '' @ token) a))"

lemma dist_reads_forward:
  "dist_next token put rest a = Inr (a', rest') \<Longrightarrow> length rest' \<le> length rest"
  "dist_next_u64 token assign rest a = Inr (a', rest') \<Longrightarrow> length rest' \<le> length rest"
  "dist_bounded token in_bound assign rest a = Inr (a', rest') \<Longrightarrow> length rest' \<le> length rest"
  by (auto simp: dist_next_def dist_next_u64_def dist_bounded_def Let_def split: list.splits prod.splits if_splits)

lemma dist_option_forward: "dist_option token rest a = Inr (a', rest') \<Longrightarrow> length rest' \<le> length rest"
  by (auto simp: dist_option_def dest: dist_reads_forward split: if_splits)

function dist_loop :: "string list \<Rightarrow> dist_arguments \<Rightarrow> dist_arguments" where
  "dist_loop [] a = a"
| "dist_loop (token # rest) a = (case dist_option token rest a of Inl a \<Rightarrow> a | Inr (a, rest) \<Rightarrow> dist_loop rest a)"
  by pat_completeness auto
termination by (relation "measure (\<lambda>(tokens, a). length tokens)") (auto dest: dist_option_forward)

definition dist_parse :: "string list \<Rightarrow> dist_arguments" where
  "dist_parse tokens =
     (case tokens of
        [] \<Rightarrow> dist_fail ''role argument is required'' default_dist_arguments
      | role # rest \<Rightarrow> dist_loop rest (default_dist_arguments\<lparr>dg_role := role\<rparr>))"

section \<open>Numbers are read exactly\<close>

definition decimal_from :: "nat \<Rightarrow> string \<Rightarrow> nat" where
  "decimal_from n text = foldl (\<lambda>n c. n * 10 + digit_of c) n text"

abbreviation decimal_value :: "string \<Rightarrow> nat" where
  "decimal_value \<equiv> decimal_from 0"

lemma decimal_from_simps [simp]:
  "decimal_from n [] = n"
  "decimal_from n (c # cs) = decimal_from (n * 10 + digit_of c) cs"
  "decimal_from n (cs @ ds) = decimal_from (decimal_from n cs) ds"
  by (simp_all add: decimal_from_def)

lemma decimal_from_grows: "n \<le> decimal_from n cs"
proof (induction cs arbitrary: n)
  case (Cons c cs)
  have "n \<le> n * 10 + digit_of c" by simp
  also have "\<dots> \<le> decimal_from (n * 10 + digit_of c) cs" by (rule Cons.IH)
  finally show ?case by simp
qed simp

lemma digit_below: "is_digit c \<Longrightarrow> digit_of c < 10"
  unfolding is_digit_def digit_of_def by linarith

lemma digit_step:
  assumes "is_digit c"
  shows "(n > (- 1 - word_of_nat (digit_of c)) div 10) \<longleftrightarrow> unat (n :: u64) * 10 + digit_of c \<ge> 2 ^ 64"
    and "\<not> n > (- 1 - word_of_nat (digit_of c)) div 10 \<Longrightarrow> unat (n * 10 + word_of_nat (digit_of c)) = unat n * 10 + digit_of c"
proof -
  let ?d = "word_of_nat (digit_of c) :: u64"
  have d: "unat ?d = digit_of c" using digit_below [OF assms] by simp
  have "unat (- 1 :: u64) = 2 ^ 64 - 1" by (simp add: unsigned_minus_1_eq_mask mask_eq_exp_minus_1)
  then have "unat (- 1 - ?d) = 2 ^ 64 - 1 - digit_of c" by (subst unat_diff_u64) (simp_all add: d)
  then have "unat ((- 1 - ?d) div 10) = (2 ^ 64 - 1 - digit_of c) div 10" by (simp add: unat_div)
  then show le: "(n > (- 1 - ?d) div 10) \<longleftrightarrow> unat n * 10 + digit_of c \<ge> 2 ^ 64"
    using digit_below [OF assms] by (simp add: word_less_nat_alt) linarith
  assume "\<not> n > (- 1 - ?d) div 10"
  then have fits: "unat n * 10 + digit_of c < 2 ^ 64" using le by simp
  then have "unat (n * 10) = unat n * 10" by (subst unat_mult_u64) simp_all
  then show "unat (n * 10 + ?d) = unat n * 10 + digit_of c" using fits d by (subst unat_add_u64) simp_all
qed

lemma parse_digits_iff:
  "parse_digits n cs = Some v \<longleftrightarrow> list_all is_digit cs \<and> decimal_from (unat n) cs = unat v"
proof (induction cs arbitrary: n)
  case Nil
  then show ?case by (auto simp: word_eq_by_unat)
next
  case (Cons c cs)
  show ?case
  proof (cases "is_digit c \<and> \<not> n > (- 1 - word_of_nat (digit_of c)) div 10")
    case True
    then show ?thesis using Cons.IH digit_step(2) [of c n] by (simp add: Let_def)
  next
    case False
    have "decimal_from (unat n * 10 + digit_of c) cs \<noteq> unat v" if "is_digit c"
    proof -
      have "2 ^ 64 \<le> unat n * 10 + digit_of c" using False that digit_step(1) [OF that, of n] by blast
      also have "\<dots> \<le> decimal_from (unat n * 10 + digit_of c) cs" by (rule decimal_from_grows)
      also have "unat v < 2 ^ 64" by simp
      ultimately show ?thesis by linarith
    qed
    then show ?thesis using False by (auto simp: Let_def)
  qed
qed

lemma decimal_digits: "list_all is_digit (decimal n) \<and> decimal_value (decimal n) = n \<and> decimal n \<noteq> ''''"
proof (induction n rule: decimal.induct)
  case (1 n)
  have digit: "is_digit (char_of (48 + k)) \<and> digit_of (char_of (48 + k)) = k" if "k < 10" for k :: nat
    using that by (simp add: is_digit_def digit_of_def)
  show ?case
  proof (cases "n < 10")
    case True
    then show ?thesis using digit [of n] by (simp add: decimal.simps [of n])
  next
    case False
    then show ?thesis using 1 digit [of "n mod 10"] by (simp add: decimal.simps [of n])
  qed
qed

lemma parse_u64_iff: "parse_u64 cs = Some v \<longleftrightarrow> cs \<noteq> '''' \<and> list_all is_digit cs \<and> decimal_value cs = unat v"
  by (simp add: parse_u64_def parse_digits_iff)

text \<open>
  A number is read exactly when the text is a non-empty sequence of decimal digits whose value fits 64
  bits, and it is that value; what \<^verbatim>\<open>std::to_string\<close> prints is read back. The reader of the multiprocess tool
  agrees.
\<close>

theorem parse_u64_exact:
  "(parse_u64 text = Some v \<longleftrightarrow> text \<noteq> '''' \<and> list_all is_digit text \<and> decimal_value text = unat v)
   \<and> parse_u64 (to_string_u64 v) = Some v
   \<and> (dist_parse_u64 text = (v, True) \<longleftrightarrow> parse_u64 text = Some v)"
proof (intro conjI)
  show "parse_u64 (to_string_u64 v) = Some v" by (simp add: parse_u64_iff to_string_u64_def decimal_digits)
  show "dist_parse_u64 text = (v, True) \<longleftrightarrow> parse_u64 text = Some v"
    by (cases "parse_u64 text") (simp_all add: dist_parse_u64_def)
qed (rule parse_u64_iff)

section \<open>Parsed options are in bounds\<close>

definition cli_typed :: "cli_options \<Rightarrow> bool" where
  "cli_typed q \<longleftrightarrow>
     op_domains q \<in> {1..64} \<and> op_resources q \<in> {1..64} \<and> op_guarantees q \<le> 16 \<and> op_demand q \<le> 64
     \<and> op_capacity q \<in> {1..kHardMaxCapacityUnits} \<and> ratio_valid (Ratio (op_ratio_num q) (op_ratio_den q))
     \<and> op_degraded q \<le> 64 \<and> op_failed q \<le> 64 \<and> op_limit q \<in> {1..100000}"

definition dist_typed :: "dist_arguments \<Rightarrow> bool" where
  "dist_typed a \<longleftrightarrow>
     dg_domains a \<in> {1..64} \<and> dg_resources a \<in> {1..64} \<and> dg_guarantees a \<le> 16 \<and> dg_demand a \<le> 64
     \<and> dg_capacity a \<in> {1..kHardMaxCapacityUnits} \<and> dg_rounds a \<in> {1..64}
     \<and> dg_explicit_generations a = (\<not> dg_auto_generations a)"

text \<open>How the reading of an option ends: in a failure of one kind, or in options of another, with tokens left.\<close>

definition reads :: "('a \<Rightarrow> bool) \<Rightarrow> ('b \<Rightarrow> bool) \<Rightarrow> 'a + 'b \<times> string list \<Rightarrow> bool" where
  "reads F Q r = (case r of Inl x \<Rightarrow> F x | Inr (y, rest) \<Rightarrow> Q y)"

lemma reads_intros [intro]:
  "F x \<Longrightarrow> reads F Q (Inl x)"
  "Q y \<Longrightarrow> reads F Q (Inr (y, rest))"
  "reads F Q m \<Longrightarrow> reads F Q n \<Longrightarrow> reads F Q (if c then m else n)"
  by (simp_all add: reads_def)

lemma reads_then:
  assumes "reads F R m" and "\<And>y rest. R y \<Longrightarrow> reads F Q (f (y, rest))"
  shows "reads F Q (and_then m f)"
proof (cases m)
  case (Inr z)
  obtain y rest where "z = (y, rest)" by (cases z)
  then show ?thesis using assms Inr by (simp add: reads_def)
qed (use assms(1) in \<open>simp add: reads_def\<close>)

definition cli_failed :: "cli_options \<Rightarrow> cli_options \<Rightarrow> bool" where
  "cli_failed q q' \<longleftrightarrow> \<not> op_valid q' \<and> op_error q' \<noteq> '''' \<and> op_command q' = op_command q"

definition cli_accepts :: "cli_options \<Rightarrow> cli_options \<Rightarrow> bool" where
  "cli_accepts q q' \<longleftrightarrow> (cli_typed q \<longrightarrow> cli_typed q')
     \<and> op_valid q' = op_valid q \<and> op_error q' = op_error q \<and> op_command q' = op_command q"

lemma cli_fail_failed [simp]: "op_command q' = op_command q \<Longrightarrow> cli_failed q (cli_fail (c # e) q')"
  by (simp add: cli_failed_def cli_fail_def)

lemma reads_cli_value: "reads (cli_failed q) (\<lambda>_. True) (cli_value token rest q)"
  by (auto simp: cli_value_def reads_def split: list.splits)

lemma reads_cli_number: "reads (cli_failed q) (\<lambda>_. True) (cli_number token rest q)"
  unfolding cli_number_def by (rule reads_then [OF reads_cli_value]) (auto split: option.splits)

lemma reads_cli_bounded:
  assumes "\<And>n. in_bound n \<Longrightarrow> cli_accepts q (assign n q)"
  shows "reads (cli_failed q) (cli_accepts q) (cli_bounded token in_bound assign rest q)"
  using assms by (auto simp: cli_bounded_def reads_def split: sum.splits)

lemma one_le_nonzero: "(n :: u64) \<noteq> 0 \<Longrightarrow> 1 \<le> n"
  by (simp add: word_le_nat_alt unat_gt_0 Suc_le_eq)

lemma reads_cli_capacity: "reads (cli_failed q) (cli_accepts q) (cli_capacity rest q)"
  by (auto simp: cli_capacity_def reads_def Let_def cli_accepts_def cli_typed_def one_le_nonzero linorder_not_less split: sum.splits)

lemma reads_cli_ratio: "reads (cli_failed q) (cli_accepts q) (cli_ratio rest q)"
  unfolding cli_ratio_def Let_def
  by (rule reads_then [OF reads_cli_value]) (auto simp: cli_accepts_def cli_typed_def split: option.splits)

lemma narrowed:
  "(n :: u64) \<le> 64 \<Longrightarrow> (ucast n :: u32) \<le> 64" "n \<le> 16 \<Longrightarrow> (ucast n :: u32) \<le> 16"
  "n \<noteq> 0 \<Longrightarrow> n \<le> 64 \<Longrightarrow> 1 \<le> (ucast n :: u32)"
proof -
  have u: "unat (ucast n :: u32) = unat n" if "n \<le> 64" using that by (simp add: unsigned_ucast_eq take_bit_nat_eq_self word_le_nat_alt)
  show "n \<le> 64 \<Longrightarrow> (ucast n :: u32) \<le> 64" using u by (simp add: word_le_nat_alt)
  show "n \<le> 16 \<Longrightarrow> (ucast n :: u32) \<le> 16" using u by (simp add: word_le_nat_alt)
  show "n \<noteq> 0 \<Longrightarrow> n \<le> 64 \<Longrightarrow> 1 \<le> (ucast n :: u32)" using u by (simp add: word_le_nat_alt unat_gt_0 Suc_le_eq)
qed

lemma reads_cli_option: "reads (cli_failed q) (cli_accepts q) (cli_option token rest q)"
  unfolding cli_option_def
  by (intro reads_intros reads_then [OF reads_cli_value] reads_then [OF reads_cli_number] reads_cli_bounded reads_cli_capacity
      reads_cli_ratio) (simp_all add: cli_accepts_def cli_typed_def narrowed one_le_nonzero reads_def)

lemma cli_loop_typed:
  assumes "cli_typed q" "op_valid q" "op_error q = ''''"
  shows "(op_valid (cli_loop tokens q) \<longrightarrow> cli_typed (cli_loop tokens q))
    \<and> (op_valid (cli_loop tokens q) \<longleftrightarrow> op_error (cli_loop tokens q) = '''') \<and> op_command (cli_loop tokens q) = op_command q"
  using assms
proof (induction tokens q rule: cli_loop.induct)
  case (2 token rest q)
  show ?case
  proof (cases "cli_option token rest q")
    case (Inl q')
    then show ?thesis using reads_cli_option [of q token rest] by (simp add: reads_def cli_failed_def)
  next
    case (Inr r)
    then obtain q' rest' where r: "cli_option token rest q = Inr (q', rest')" by (cases r) auto
    have "cli_accepts q q'" using reads_cli_option [of q token rest] r by (simp add: reads_def)
    with 2(1) [OF r refl] 2(2-4) show ?thesis by (simp add: r cli_accepts_def)
  qed
qed simp

definition dist_failed :: "dist_arguments \<Rightarrow> dist_arguments \<Rightarrow> bool" where
  "dist_failed a a' \<longleftrightarrow> \<not> dg_valid a' \<and> dg_error a' \<noteq> '''' \<and> dg_role a' = dg_role a"

definition dist_accepts :: "dist_arguments \<Rightarrow> dist_arguments \<Rightarrow> bool" where
  "dist_accepts a a' \<longleftrightarrow> (dist_typed a \<longrightarrow> dist_typed a')
     \<and> dg_valid a' = dg_valid a \<and> dg_error a' = dg_error a \<and> dg_role a' = dg_role a"

lemma dist_fail_failed [simp]: "dg_role a' = dg_role a \<Longrightarrow> dist_failed a (dist_fail (c # e) a')"
  by (simp add: dist_failed_def dist_fail_def)

lemma reads_dist_next:
  assumes "\<And>v. dist_accepts a (put v a)"
  shows "reads (dist_failed a) (dist_accepts a) (dist_next token put rest a)"
  using assms by (auto simp: dist_next_def reads_def split: list.splits)

lemma reads_dist_next_u64:
  assumes "\<And>n. dist_accepts a (assign n a)"
  shows "reads (dist_failed a) (dist_accepts a) (dist_next_u64 token assign rest a)"
  using assms by (auto simp: dist_next_u64_def reads_def Let_def dist_accepts_def split: list.splits prod.splits)

lemma reads_dist_bounded:
  assumes "\<And>n. in_bound n \<Longrightarrow> dist_accepts a (assign n a)"
  shows "reads (dist_failed a) (dist_accepts a) (dist_bounded what in_bound assign rest a)"
  using assms by (auto simp: dist_bounded_def reads_def Let_def split: list.splits prod.splits)

lemma reads_dist_option: "reads (dist_failed a) (dist_accepts a) (dist_option token rest a)"
  unfolding dist_option_def
  by (intro reads_intros reads_dist_next reads_dist_next_u64 reads_dist_bounded)
     (simp_all add: dist_accepts_def dist_typed_def narrowed one_le_nonzero)

lemma dist_loop_typed:
  assumes "dist_typed a" "dg_valid a" "dg_error a = ''''"
  shows "(dg_valid (dist_loop tokens a) \<longrightarrow> dist_typed (dist_loop tokens a))
    \<and> (dg_valid (dist_loop tokens a) \<longleftrightarrow> dg_error (dist_loop tokens a) = '''') \<and> dg_role (dist_loop tokens a) = dg_role a"
  using assms
proof (induction tokens a rule: dist_loop.induct)
  case (2 token rest a)
  show ?case
  proof (cases "dist_option token rest a")
    case (Inl a')
    then show ?thesis using reads_dist_option [of a token rest] by (simp add: reads_def dist_failed_def)
  next
    case (Inr r)
    then obtain a' rest' where r: "dist_option token rest a = Inr (a', rest')" by (cases r) auto
    have "dist_accepts a a'" using reads_dist_option [of a token rest] r by (simp add: reads_def)
    with 2(1) [OF r refl] 2(2-4) show ?thesis by (simp add: r dist_accepts_def)
  qed
qed simp

lemma defaults_typed: "cli_typed (default_cli_options\<lparr>op_command := c\<rparr>)" "dist_typed (default_dist_arguments\<lparr>dg_role := c\<rparr>)"
  by (simp_all add: cli_typed_def dist_typed_def default_cli_options_def default_dist_arguments_def kHardMaxCapacityUnits_def
      ratio_valid_def kMaxRatioTerm_def ratio_ge_def)

text \<open>
  C36. What a parse accepts is in the bounds the options document, whatever the tokens: counts of domains and
  resources are between 1 and 64, the capacity is positive and bounded, a ratio is valid, and the command is the
  first token. A parse reports an error text exactly when it does not accept. The same holds of the arguments
  of the multiprocess tool.
\<close>

theorem parsed_options_typed:
  "(op_valid (cli_parse tokens) \<longrightarrow> cli_typed (cli_parse tokens) \<and> op_command (cli_parse tokens) = hd tokens)
   \<and> (op_valid (cli_parse tokens) \<longleftrightarrow> op_error (cli_parse tokens) = '''')
   \<and> (dg_valid (dist_parse tokens) \<longrightarrow> dist_typed (dist_parse tokens) \<and> dg_role (dist_parse tokens) = hd tokens)
   \<and> (dg_valid (dist_parse tokens) \<longleftrightarrow> dg_error (dist_parse tokens) = '''')"
proof (cases tokens)
  case Nil
  then show ?thesis by (simp add: cli_parse_def dist_parse_def cli_fail_def dist_fail_def)
next
  case (Cons c rest)
  show ?thesis
    using cli_loop_typed [of "default_cli_options\<lparr>op_command := c\<rparr>" rest] dist_loop_typed [of "default_dist_arguments\<lparr>dg_role := c\<rparr>" rest]
    by (simp add: Cons cli_parse_def dist_parse_def defaults_typed) (simp add: default_cli_options_def default_dist_arguments_def)
qed

lemma parsed_options_typed_witness:
  "op_domains (cli_parse [''evaluate'', ''--domains'', ''3'', ''--ratio'', ''3:2'']) = 3
   \<and> cli_typed (cli_parse [''evaluate'', ''--domains'', ''3'', ''--ratio'', ''3:2''])
   \<and> dist_typed (dist_parse [''worker'', ''--rounds'', ''4'', ''--replay''])"
proof -
  have c: "cli_parse [''evaluate'', ''--domains'', ''3'', ''--ratio'', ''3:2'']
      = default_cli_options\<lparr>op_command := ''evaluate'', op_domains := 3, op_ratio_num := 3, op_ratio_den := 2\<rparr>"
    by (simp add: cli_parse_def cli_option_def cli_bounded_def cli_ratio_def cli_number_def cli_value_def parse_u64_def is_digit_def
        digit_of_def ratio_valid_def kMaxRatioTerm_def ratio_ge_def default_cli_options_def)
  have d: "dist_parse [''worker'', ''--rounds'', ''4'', ''--replay'']
      = default_dist_arguments\<lparr>dg_role := ''worker'', dg_rounds := 4, dg_replay := True\<rparr>"
    by (simp add: dist_parse_def dist_option_def dist_bounded_def dist_parse_u64_def parse_u64_def is_digit_def digit_of_def
        default_dist_arguments_def)
  show ?thesis
    using parsed_options_typed [of "[''evaluate'', ''--domains'', ''3'', ''--ratio'', ''3:2'']"]
      parsed_options_typed [of "[''worker'', ''--rounds'', ''4'', ''--replay'']"]
    unfolding c d by (simp add: default_cli_options_def default_dist_arguments_def)
qed


end
