(* ===== verification/Synth.thy ===== *)
theory Synth
  imports Governor
begin

text \<open>
  Synthetic populations (\<^verbatim>\<open>include/oversub/synth.hpp\<close>, \<^verbatim>\<open>src/synth.cpp\<close>): a policy and evidence for it,
  computed from a configuration by a hash of the seed and the index of each record, and the slice of a
  population that belongs to one domain. The arithmetic wraps at the width of the code's integers.
\<close>

section \<open>Configuration and population\<close>

record synth_config =
  sy_seed :: u64
  sy_domains :: u32
  sy_resources_per_domain :: u32
  sy_guarantees_per_resource :: u32
  sy_demand_records_per_resource :: u32
  sy_capacity_per_resource :: u64
  sy_guarantee_ppm :: u64
  sy_contingent_ppm :: u64
  sy_configured_ratio :: ratio
  sy_has_degraded_cap :: bool
  sy_degraded_cap :: ratio
  sy_reserve_ppm :: u64
  sy_headroom_ppm :: u64
  sy_risk_exposure_ppm :: u64
  sy_degraded_resources :: u32
  sy_failed_resources :: u32
  sy_burst_enabled :: bool
  sy_burst_units :: u64
  sy_distinct_classes :: u32
  sy_policy :: policy_id
  sy_first_domain :: domain_id
  sy_publisher :: publisher_id
  sy_incarnation :: incarnation_id
  sy_epoch :: fabric_epoch

definition default_synth_config :: synth_config where
  "default_synth_config =
     \<lparr>sy_seed = 1, sy_domains = 1, sy_resources_per_domain = 4, sy_guarantees_per_resource = 2, sy_demand_records_per_resource = 4,
      sy_capacity_per_resource = 1000000, sy_guarantee_ppm = 400000, sy_contingent_ppm = 500000, sy_configured_ratio = Ratio 2 1,
      sy_has_degraded_cap = True, sy_degraded_cap = Ratio 3 2, sy_reserve_ppm = 20000, sy_headroom_ppm = 0,
      sy_risk_exposure_ppm = 200000, sy_degraded_resources = 0, sy_failed_resources = 0, sy_burst_enabled = False, sy_burst_units = 0,
      sy_distinct_classes = 2, sy_policy = StrongId 1, sy_first_domain = StrongId 1, sy_publisher = StrongId 1,
      sy_incarnation = StrongId 1, sy_epoch = FabricEpoch 1\<rparr>"

record population =
  po_policy :: policy
  po_capacity :: capacity_snapshot
  po_reservations :: reservation_snapshot
  po_admissions :: admission_snapshot

definition synth_resource_id :: "domain_id \<Rightarrow> u32 \<Rightarrow> resource_id" where
  "synth_resource_id d index = StrongId (id_value d * 100000 + ucast index + 1)"

section \<open>Pseudo-random values\<close>

definition mix :: "u64 \<Rightarrow> u64" where
  "mix value =
     (let v = value + 0x9E3779B97F4A7C15;
          v = (v XOR drop_bit 30 v) * 0xBF58476D1CE4E5B9;
          v = (v XOR drop_bit 27 v) * 0x94D049BB133111EB
      in v XOR drop_bit 31 v)"

text \<open>
  For \<open>low = 0\<close> and \<open>high = 2^64 - 1\<close> the span wraps to 0 and the code divides by it; no caller passes these.
\<close>

definition spread :: "u64 \<Rightarrow> u64 \<Rightarrow> u64 \<Rightarrow> u64 \<Rightarrow> u64" where
  "spread seed index low high =
     (if high \<le> low then low
      else low + mix (seed XOR (index * 0x2545F4914F6CDD1D)) mod (high - low + 1))"

definition guaranteed_class :: "u32 \<Rightarrow> service_class_id" where
  "guaranteed_class index = StrongId (ucast (1 + index))"

definition contingent_class :: "u32 \<Rightarrow> u32 \<Rightarrow> service_class_id" where
  "contingent_class index distinct_classes = StrongId (ucast (1 + distinct_classes + index))"

definition distinct_of :: "synth_config \<Rightarrow> u32" where
  "distinct_of c = max (sy_distinct_classes c) 1"

text \<open>The indices of a loop.\<close>

definition below :: "u32 \<Rightarrow> u32 list" where
  "below n = map word_of_nat [0..<unat n]"

section \<open>The policy\<close>

definition synth_limits :: "synth_config \<Rightarrow> policy_limits" where
  "synth_limits c =
     \<lparr>lm_max_domains = max (sy_domains c + 8) 16, lm_max_resources_per_domain = max (sy_resources_per_domain c + 8) 16,
      lm_max_service_classes = max (sy_distinct_classes c * 2 + 4) 8,
      lm_max_guarantees = max (ucast (sy_resources_per_domain c) * ucast (sy_guarantees_per_resource c) * 4 + 16) 64,
      lm_max_demand_records = max (ucast (sy_resources_per_domain c) * ucast (sy_demand_records_per_resource c) * 4 + 16) 64,
      lm_max_intents = 8, lm_max_lines = 64, lm_max_bytes = 8192, lm_max_breakdown = 32,
      lm_max_capacity_units = kHardMaxCapacityUnits\<rparr>"

definition synth_class :: "service_class_id \<Rightarrow> string \<Rightarrow> u32 \<Rightarrow> bool \<Rightarrow> u32 \<Rightarrow> service_class_ref" where
  "synth_class i name priority eligible weight =
     \<lparr>sc_id = i, sc_name = name, sc_priority = PriorityRef priority, sc_eligible = eligible, sc_risk_weight_ppm = weight,
      sc_has_share_cap = False, sc_share_cap_ppm = 0\<rparr>"

definition synth_classes :: "synth_config \<Rightarrow> service_class_ref list" where
  "synth_classes c =
     map (\<lambda>i. synth_class (guaranteed_class i) (''guaranteed-'' @ decimal (unat i)) (100 + i) False (ucast kPpmScale)) (below (distinct_of c))
     @ map (\<lambda>i. synth_class (contingent_class i (distinct_of c)) (''contingent-'' @ decimal (unat i)) (500 + i) True (ucast (kPpmScale div 2)))
         (below (distinct_of c))"

definition synth_domain_id :: "synth_config \<Rightarrow> u32 \<Rightarrow> domain_id" where
  "synth_domain_id c d = StrongId (id_value (sy_first_domain c) + ucast d)"

definition synth_domain :: "synth_config \<Rightarrow> u32 \<Rightarrow> domain_config" where
  "synth_domain c d =
     (let i = synth_domain_id c d;
          usable = (case mul_checked (sy_capacity_per_resource c) (ucast (sy_resources_per_domain c)) of
                      None \<Rightarrow> kHardMaxCapacityUnits | Some n \<Rightarrow> n)
      in \<lparr>dm_id = i, dm_generation = Gen 1, dm_name = ''domain-'' @ decimal (unat d), dm_pool = StrongId (id_value i),
          dm_members = map (synth_resource_id i) (below (sy_resources_per_domain c)),
          dm_configured_ratio = sy_configured_ratio c, dm_has_degraded_cap = sy_has_degraded_cap c, dm_degraded_cap = sy_degraded_cap c,
          dm_reserve_units = mul_div_floor_sat usable (sy_reserve_ppm c) kPpmScale,
          dm_headroom_units = (if sy_headroom_ppm c = 0 then 0 else mul_div_floor_sat usable (sy_headroom_ppm c) kPpmScale),
          dm_burst_enabled = sy_burst_enabled c, dm_burst_cap_units = (if sy_burst_enabled c then sy_burst_units c else 0)\<rparr>)"

definition synth_policy :: "synth_config \<Rightarrow> policy" where
  "synth_policy c = compute_policy_digest
     \<lparr>pl_id = sy_policy c, pl_generation = Gen 1, pl_name = ''synthetic'', pl_ratio_cap = Ratio 4 1,
      pl_domains = map (synth_domain c) (below (sy_domains c)), pl_classes = synth_classes c,
      pl_risk_budget = \<lparr>rb_id = StrongId 1, rb_generation = Gen 1, rb_has_absolute = False, rb_max_units = 0, rb_has_ppm = True,
        rb_max_ppm = sy_risk_exposure_ppm c\<rparr>,
      pl_thresholds = \<lparr>th_warn_used_ppm = 900000, th_reduce_overage_ppm = 1, th_emergency_overage_ppm = 100000\<rparr>,
      pl_hysteresis = \<lparr>hy_escalation_confirmations = 1, hy_deescalation_confirmations = 1, hy_cooldown_ticks = 0, hy_margin_ppm = 0\<rparr>,
      pl_limits = synth_limits c, pl_capacity_age = 1000, pl_reservation_age = 1000, pl_admission_age = 1000, pl_digest = digest_zero\<rparr>"

section \<open>The evidence\<close>

text \<open>The index of a resource in the population.\<close>

definition resource_index :: "synth_config \<Rightarrow> u32 \<Rightarrow> u32 \<Rightarrow> u64" where
  "resource_index c d r = ucast d * ucast (sy_resources_per_domain c) + ucast r"

text \<open>One turn of the loop over a resource's guarantees: the guarantee and the units allocated so far.\<close>

definition synth_guarantee :: "synth_config \<Rightarrow> u32 \<Rightarrow> u32 \<Rightarrow> u32 \<Rightarrow> guarantee list \<times> u64 \<Rightarrow> guarantee list \<times> u64" where
  "synth_guarantee c d r g st =
     (let (gs, allocated) = st; n = sy_guarantees_per_resource c; i = synth_domain_id c d;
          budget = mul_div_floor_sat (sy_capacity_per_resource c) (sy_guarantee_ppm c) kPpmScale;
          index = resource_index c d r * ucast n + ucast g;
          share = (if g + 1 = n then if budget > allocated then budget - allocated else 0 else budget div ucast n);
          units = spread (sy_seed c) index (share div 2) share
      in (gs @ [\<lparr>gt_reservation = StrongId (index + 1), gt_resource = synth_resource_id i r, gt_pool = StrongId (id_value i),
             gt_class = guaranteed_class (g mod distinct_of c), gt_capacity = units, gt_priority = PriorityRef 100,
             gt_protected = True, gt_preemptible = False, gt_generation = Gen (1 + index)\<rparr>],
          allocated + units))"

text \<open>The admission that mirrors the n-th guarantee of a resource.\<close>

definition mirror_demand :: "synth_config \<Rightarrow> u32 \<Rightarrow> u32 \<Rightarrow> nat \<times> guarantee \<Rightarrow> demand_record" where
  "mirror_demand c d r m =
     (let (n, g) = m; i = synth_domain_id c d
      in \<lparr>dr_admission = StrongId (resource_index c d r * 1000 + word_of_nat n + 1), dr_resource = synth_resource_id i r,
          dr_pool = StrongId (id_value i), dr_class = gt_class g, dr_kind = Demand_Guaranteed, dr_committed = gt_capacity g,
          dr_pending = 0, dr_generation = Gen (1 + word_of_nat n)\<rparr>)"

definition contingent_records :: "synth_config \<Rightarrow> u32" where
  "contingent_records c =
     (if sy_demand_records_per_resource c > sy_guarantees_per_resource c
      then sy_demand_records_per_resource c - sy_guarantees_per_resource c else 1)"

definition contingent_budget :: "synth_config \<Rightarrow> u64 \<Rightarrow> u64" where
  "contingent_budget c guarantee_sum =
     (let ratio = sy_configured_ratio c; ceiling = mul_div_floor_sat (sy_capacity_per_resource c) (rat_num ratio) (rat_den ratio)
      in if ceiling > guarantee_sum then mul_div_floor_sat (ceiling - guarantee_sum) (sy_contingent_ppm c) kPpmScale else 0)"

definition synth_contingent :: "synth_config \<Rightarrow> u32 \<Rightarrow> u32 \<Rightarrow> u64 \<Rightarrow> u32 \<Rightarrow> demand_record" where
  "synth_contingent c d r budget k =
     (let i = synth_domain_id c d; index = resource_index c d r * 97 + ucast k; share = budget div ucast (contingent_records c)
      in \<lparr>dr_admission = StrongId (resource_index c d r * 1000 + 500 + ucast k + 1), dr_resource = synth_resource_id i r,
          dr_pool = StrongId (id_value i), dr_class = contingent_class (k mod distinct_of c) (distinct_of c),
          dr_kind = Demand_Contingent, dr_committed = spread (sy_seed c + 7) index (share div 2) share,
          dr_pending = spread (sy_seed c + 11) index 0 (share div 2), dr_generation = Gen (1 + index mod 1000)\<rparr>)"

definition synth_resource :: "synth_config \<Rightarrow> u32 \<Rightarrow> u32 \<Rightarrow> resource_capacity" where
  "synth_resource c d r =
     (let i = synth_domain_id c d; usable = sy_capacity_per_resource c
      in \<lparr>rc_resource = synth_resource_id i r, rc_pool = StrongId (id_value i), rc_physical = usable, rc_usable = usable,
          rc_health = Health_Healthy, rc_degraded_ppm = kPpmScale, rc_generation = Gen 1\<rparr>)"

text \<open>The body of the loops over domains and resources; the records of the population so far are searched for the resource's.\<close>

type_synonym records = "guarantee list \<times> demand_record list \<times> resource_capacity list"

definition synth_member :: "synth_config \<Rightarrow> u32 \<times> u32 \<Rightarrow> records \<Rightarrow> records" where
  "synth_member c m st =
     (let (d, r) = m; (gs, ds, rs) = st; resource = synth_resource_id (synth_domain_id c d) r;
          (gs, allocated) = fold (synth_guarantee c d r) (below (sy_guarantees_per_resource c)) (gs, 0);
          own = filter (\<lambda>g. gt_resource g = resource) gs;
          ds = ds @ map (mirror_demand c d r) (enumerate 0 own);
          budget = contingent_budget c (sum_list (map gt_capacity own));
          ds = ds @ map (synth_contingent c d r budget) (below (contingent_records c))
      in (gs, ds, rs @ [synth_resource c d r]))"

definition synth_records :: "synth_config \<Rightarrow> records" where
  "synth_records c =
     fold (synth_member c) (concat (map (\<lambda>d. map (Pair d) (below (sy_resources_per_domain c))) (below (sy_domains c)))) ([], [], [])"

text \<open>The health scenario: the first resources fail, the next ones degrade.\<close>

fun synth_health :: "u32 \<Rightarrow> u32 \<Rightarrow> resource_capacity list \<Rightarrow> resource_capacity list" where
  "synth_health degraded failed [] = []"
| "synth_health degraded failed (r # rs) =
     (if failed > 0 then r\<lparr>rc_health := Health_Failed\<rparr> # synth_health degraded (failed - 1) rs
      else if degraded > 0
      then r\<lparr>rc_health := Health_Degraded, rc_degraded_ppm := kPpmScale div 2\<rparr> # synth_health (degraded - 1) failed rs
      else r # synth_health degraded failed rs)"

definition synth_provenance :: "synth_config \<Rightarrow> u64 \<Rightarrow> u64 \<Rightarrow> provenance" where
  "synth_provenance c evidence sequence =
     \<lparr>pv_publisher = sy_publisher c, pv_incarnation = sy_incarnation c, pv_epoch = sy_epoch c, pv_sequence = sequence,
      pv_observed_tick = 0, pv_observed_wall_millis = 0, pv_evidence_id = StrongId evidence, pv_payload_digest = digest_zero\<rparr>"

text \<open>The payload digests, computed last.\<close>

definition seal_capacity :: "capacity_snapshot \<Rightarrow> capacity_snapshot" where
  "seal_capacity s = s\<lparr>cs_provenance := with_digest (capacity_snapshot_digest s) (cs_provenance s)\<rparr>"

definition seal_reservations :: "reservation_snapshot \<Rightarrow> reservation_snapshot" where
  "seal_reservations s = s\<lparr>rs_provenance := with_digest (reservation_snapshot_digest s) (rs_provenance s)\<rparr>"

definition seal_admissions :: "admission_snapshot \<Rightarrow> admission_snapshot" where
  "seal_admissions s = s\<lparr>as_provenance := with_digest (admission_snapshot_digest s) (as_provenance s)\<rparr>"

definition sealed :: "population \<Rightarrow> population" where
  "sealed p =
     \<lparr>po_policy = po_policy p, po_capacity = seal_capacity (po_capacity p), po_reservations = seal_reservations (po_reservations p),
      po_admissions = seal_admissions (po_admissions p)\<rparr>"

definition synthesize :: "synth_config \<Rightarrow> population" where
  "synthesize c =
     (let (gs, ds, rs) = synth_records c; i = StrongId (id_value (sy_first_domain c)) in
      sealed \<lparr>po_policy = synth_policy c,
        po_capacity = \<lparr>cs_domain = i, cs_generation = Gen 1, cs_epoch = sy_epoch c, cs_tick = 0,
          cs_resources = synth_health (sy_degraded_resources c) (sy_failed_resources c) rs, cs_provenance = synth_provenance c 1 1\<rparr>,
        po_reservations = \<lparr>rs_domain = i, rs_generation = Gen 1, rs_epoch = sy_epoch c, rs_tick = 0, rs_guarantees = gs,
          rs_provenance = synth_provenance c 2 2\<rparr>,
        po_admissions = \<lparr>as_domain = i, as_generation = Gen 1, as_epoch = sy_epoch c, as_tick = 0, as_records = ds,
          as_provenance = synth_provenance c 3 3\<rparr>\<rparr>)"

text \<open>Without the domain in the policy the slice holds no records, and its provenance is the population's.\<close>

definition keep_capacity :: "domain_id \<Rightarrow> resource_id list \<Rightarrow> capacity_snapshot \<Rightarrow> capacity_snapshot" where
  "keep_capacity i members s = s\<lparr>cs_domain := i, cs_resources := filter (\<lambda>r. rc_resource r \<in> set members) (cs_resources s)\<rparr>"

definition keep_reservations :: "domain_id \<Rightarrow> resource_id list \<Rightarrow> reservation_snapshot \<Rightarrow> reservation_snapshot" where
  "keep_reservations i members s = s\<lparr>rs_domain := i, rs_guarantees := filter (\<lambda>g. gt_resource g \<in> set members) (rs_guarantees s)\<rparr>"

definition keep_admissions :: "domain_id \<Rightarrow> resource_id list \<Rightarrow> admission_snapshot \<Rightarrow> admission_snapshot" where
  "keep_admissions i members s = s\<lparr>as_domain := i, as_records := filter (\<lambda>r. dr_resource r \<in> set members) (as_records s)\<rparr>"

definition slice_domain :: "population \<Rightarrow> domain_id \<Rightarrow> population" where
  "slice_domain p i =
     (let keep = (\<lambda>members. \<lparr>po_policy = po_policy p, po_capacity = keep_capacity i members (po_capacity p),
            po_reservations = keep_reservations i members (po_reservations p),
            po_admissions = keep_admissions i members (po_admissions p)\<rparr>)
      in (case find_domain (po_policy p) i of None \<Rightarrow> keep [] | Some d \<Rightarrow> sealed (keep (dm_members d))))"

section \<open>What is generated\<close>

lemma spread_between:
  assumes "low \<le> high" and "high - low \<noteq> - 1"
  shows "low \<le> spread seed index low high" "spread seed index low high \<le> high"
proof -
  have "low \<le> spread seed index low high \<and> spread seed index low high \<le> high"
  proof (cases "high \<le> low")
    case False
    let ?m = "mix (seed XOR (index * 0x2545F4914F6CDD1D)) mod (high - low + 1)"
    have span: "unat (high - low + 1) = Suc (unat (high - low))" using assms(2) by (rule unat_inc)
    have "unat ?m < unat (high - low + 1)" using span by (simp add: unat_mod)
    then have m: "unat ?m \<le> unat high - unat low" using span assms(1) by (simp add: unat_diff_u64)
    moreover have "unat low \<le> unat high" using assms(1) by (simp add: word_le_nat_alt)
    ultimately have "unat (low + ?m) = unat low + unat ?m" using unat_u64_less [of high] by (intro unat_add_u64) linarith
    with m \<open>unat low \<le> unat high\<close> show ?thesis using False by (simp add: spread_def word_le_nat_alt)
  qed (use assms in \<open>simp add: spread_def\<close>)
  then show "low \<le> spread seed index low high" "spread seed index low high \<le> high" by auto
qed

text \<open>Failing and degrading starts at the front of the population.\<close>

lemma synth_health_front:
  "synth_health degraded failed rs =
     map (\<lambda>r. r\<lparr>rc_health := Health_Failed\<rparr>) (take (unat failed) rs)
     @ map (\<lambda>r. r\<lparr>rc_health := Health_Degraded, rc_degraded_ppm := kPpmScale div 2\<rparr>) (take (unat degraded) (drop (unat failed) rs))
     @ drop (unat failed + unat degraded) rs"
proof (induction degraded failed rs rule: synth_health.induct)
  case step: (2 degraded failed r rs)
  have dec: "unat n = Suc (unat (n - 1))" if "0 < n" for n :: u32 using that by (simp add: unat_minus_one unat_gt_0)
  consider (fail) "0 < failed" | (degrade) "failed = 0" "0 < degraded" | (healthy) "failed = 0" "degraded = 0"
    using word_neq_0_conv [of failed] word_neq_0_conv [of degraded] by blast
  then show ?case
  proof cases
    case fail
    then show ?thesis using step.IH(1) dec [OF fail] by simp
  next
    case degrade
    then show ?thesis using step.IH(2) dec [OF degrade(2)] by simp
  next
    case healthy
    then show ?thesis using step.IH(3) by simp
  qed
qed simp

lemma capacity_digest_ignores_provenance:
  "capacity_snapshot_digest (s\<lparr>cs_provenance := v\<rparr>) = capacity_snapshot_digest s"
  by (cases s) (simp only: capacity_snapshot_digest_def capacity_snapshot.simps)

lemma reservation_digest_ignores_provenance:
  "reservation_snapshot_digest (s\<lparr>rs_provenance := v\<rparr>) = reservation_snapshot_digest s"
  by (cases s) (simp only: reservation_snapshot_digest_def reservation_snapshot.simps)

lemma admission_digest_ignores_provenance:
  "admission_snapshot_digest (s\<lparr>as_provenance := v\<rparr>) = admission_snapshot_digest s"
  by (cases s) (simp only: admission_snapshot_digest_def admission_snapshot.simps)

lemmas digest_ignores_provenance =
  capacity_digest_ignores_provenance reservation_digest_ignores_provenance admission_digest_ignores_provenance

lemma seal_kept_capacity:
  "keep_capacity i ms (seal_capacity (keep_capacity i ms s)) = seal_capacity (keep_capacity i ms s)"
  "seal_capacity (seal_capacity s) = seal_capacity s"
  by (simp_all add: keep_capacity_def seal_capacity_def with_digest_def digest_ignores_provenance)

lemma seal_kept_reservations:
  "keep_reservations i ms (seal_reservations (keep_reservations i ms s)) = seal_reservations (keep_reservations i ms s)"
  "seal_reservations (seal_reservations s) = seal_reservations s"
  by (simp_all add: keep_reservations_def seal_reservations_def with_digest_def digest_ignores_provenance)

lemma seal_kept_admissions:
  "keep_admissions i ms (seal_admissions (keep_admissions i ms s)) = seal_admissions (keep_admissions i ms s)"
  "seal_admissions (seal_admissions s) = seal_admissions s"
  by (simp_all add: keep_admissions_def seal_admissions_def with_digest_def digest_ignores_provenance)

lemma keep_twice:
  "keep_capacity i ms (keep_capacity i ms c) = keep_capacity i ms c"
  "keep_reservations i ms (keep_reservations i ms r) = keep_reservations i ms r"
  "keep_admissions i ms (keep_admissions i ms a) = keep_admissions i ms a"
  by (simp_all add: keep_capacity_def keep_reservations_def keep_admissions_def)

text \<open>A slice keeps what it is a slice of: slicing again changes nothing.\<close>

lemma slice_twice: "slice_domain (slice_domain p i) i = slice_domain p i"
  by (cases "find_domain (po_policy p) i")
     (simp_all add: slice_domain_def sealed_def keep_twice seal_kept_capacity seal_kept_reservations seal_kept_admissions)

end
