(* ===== verification/Cli.thy ===== *)
theory Cli
  imports Command_Line Synth Explain Transport Protocol
begin

text \<open>
  The command-line tool (\<^verbatim>\<open>cli/main.cpp\<close>): every command as the exit code and the text it prints, over the world
  of \<^verbatim>\<open>Persistence\<close>. The clock, the temporary directory and the version string of the build are arguments.
\<close>

section \<open>Commands\<close>

record cli_run =
  cr_exit :: nat
  cr_out :: string
  cr_err :: string

definition line :: "string \<Rightarrow> string" where
  "line s = s @ [newline]"

definition stops :: "nat \<Rightarrow> string \<Rightarrow> cli_run" where
  "stops code err = \<lparr>cr_exit = code, cr_out = '''', cr_err = line err\<rparr>"

definition prints :: "nat \<Rightarrow> string \<Rightarrow> cli_run" where
  "prints code out = \<lparr>cr_exit = code, cr_out = out, cr_err = ''''\<rparr>"

definition usage :: string where
  "usage = concat (map line
     [''usage: oversub_cli <command> [options]'',
      ''  version                                  print the runtime version'',
      ''  evaluate   [scenario options]            evaluate a SYNTHETIC domain population'',
      ''  validate-state --dir DIR                 validate durable state'',
      ''  history    --dir DIR [--limit N]         print the durable audit tail'',
      ''  replay     --dir DIR                     rebuild runtime state from the journal'',
      ''  digest     --file PATH                   SHA-256 of a file (bounded)'',
      ''scenario options: --domains N --resources N --guarantees N --demand N --capacity N'',
      ''                  --ratio NUM:DEN --degraded N --failed N --over-demand-ppm N --tick N''])"

definition command_version :: "string \<Rightarrow> cli_run" where
  "command_version version = prints 0
     (line (''Oversubscription Governor '' @ version)
      @ line (''protocol_version='' @ to_string_u32 kProtocolVersion @ '' max_frame_payload='' @ to_string_u32 kMaxFramePayloadBytes))"

section \<open>Evaluating a scenario\<close>

definition cli_config :: "cli_options \<Rightarrow> synth_config" where
  "cli_config q = default_synth_config
     \<lparr>sy_domains := op_domains q, sy_resources_per_domain := op_resources q, sy_guarantees_per_resource := op_guarantees q,
      sy_demand_records_per_resource := op_demand q, sy_capacity_per_resource := op_capacity q,
      sy_configured_ratio := Ratio (op_ratio_num q) (op_ratio_den q), sy_has_degraded_cap := True, sy_degraded_cap := Ratio 1 1,
      sy_degraded_resources := op_degraded q, sy_failed_resources := op_failed q\<rparr>"

text \<open>Contingent demand is scaled, then the digest of the admissions is computed again.\<close>

definition scale_demand :: "u64 \<Rightarrow> demand_record \<Rightarrow> demand_record" where
  "scale_demand ppm r =
     (if dr_kind r \<noteq> Demand_Contingent then r
      else r\<lparr>dr_committed := mul_div_floor_sat (dr_committed r) ppm kPpmScale\<rparr>)"

definition scenario :: "cli_options \<Rightarrow> population" where
  "scenario q =
     (let p = synthesize (cli_config q); a = po_admissions p
      in p\<lparr>po_admissions := seal_admissions (a\<lparr>as_records := map (scale_demand (op_over_demand q)) (as_records a)\<rparr>)\<rparr>)"

text \<open>A governor as it is constructed.\<close>

definition new_governor :: "world \<Rightarrow> governor" where
  "new_governor w =
     \<lparr>gv_options = default_governor_options, gv_open = False, gv_accepting = False, gv_state = fresh_state, gv_store = closed_store,
      gv_index = index_rebuild default_policy, gv_slots = [], gv_slot_index = Map.empty, gv_clock = 0, gv_stats = no_stats,
      gv_since_save = 0, gv_dirty = False, gv_world = w\<rparr>"

text \<open>\<^verbatim>\<open>install\<close> stops the command with exit code 1 when a step fails; the text printed so far stays.\<close>

definition install :: "string \<Rightarrow> string \<Rightarrow> status \<times> governor \<Rightarrow> cli_run + governor" where
  "install out what r =
     (case r of (status, g) \<Rightarrow>
        if status_ok status then Inr g
        else Inl \<lparr>cr_exit = 1, cr_out = out, cr_err = line (what @ '' failed: '' @ status_to_string status)\<rparr>)"

definition ingested :: "ingest_outcome \<times> governor \<Rightarrow> status \<times> governor" where
  "ingested r = (case r of (x, g) \<Rightarrow> (in_status x, g))"

definition prepare_scenario :: "string \<Rightarrow> cli_options \<Rightarrow> governor \<Rightarrow> cli_run + governor" where
  "prepare_scenario directory q g0 =
     (let p = scenario q; provenance = cs_provenance (po_capacity p) in
      and_then (install '''' ''open''
                  (governor_open (default_governor_options\<lparr>go_directory := directory, go_sync_writes := False\<rparr>) (po_policy p) g0)) (\<lambda>g.
      and_then (install '''' ''register_publisher''
                  (register_publisher (pv_publisher provenance) (pv_incarnation provenance) (cs_epoch (po_capacity p)) (op_tick q) g)) (\<lambda>g.
      and_then (install '''' ''ingest_capacity'' (ingested (ingest_capacity (po_capacity p) g))) (\<lambda>g.
      and_then (install '''' ''ingest_reservations'' (ingested (ingest_reservations (po_reservations p) g))) (\<lambda>g.
      install '''' ''ingest_admissions'' (ingested (ingest_admissions (po_admissions p) g)))))))"

definition population_line :: "cli_options \<Rightarrow> string" where
  "population_line q = line (''population: SYNTHETIC domains='' @ to_string_u32 (op_domains q) @ '' resources='' @ to_string_u32 (op_resources q)
     @ '' guarantees='' @ to_string_u32 (op_guarantees q) @ '' demand='' @ to_string_u32 (op_demand q)
     @ '' capacity='' @ to_string_u64 (op_capacity q))"

definition cli_explain_options :: explain_options where
  "cli_explain_options = default_explain_options\<lparr>xo_max_lines := 48, xo_max_bytes := 8192\<rparr>"

text \<open>The body of the loop over the domains, with the governor, the exit code and the text so far.\<close>

definition evaluate_one ::
  "((u64 \<times> u64) list \<Rightarrow> (u64 \<times> u64) list) \<Rightarrow> (nat \<Rightarrow> u64) \<Rightarrow> cli_options \<Rightarrow> governor \<times> nat \<times> string \<Rightarrow> nat
   \<Rightarrow> cli_run + governor \<times> nat \<times> string" where
  "evaluate_one iter wall q st n =
     (let (g, code, out) = st; (answer, g) = evaluate iter (wall n) \<lparr>rq_domain = StrongId (word_of_nat n), rq_tick = op_tick q\<rparr> g in
      (case answer of
         Inl status \<Rightarrow> Inl \<lparr>cr_exit = 1, cr_out = out, cr_err = line (''evaluate failed: '' @ status_to_string status)\<rparr>
       | Inr x \<Rightarrow>
           let (status, text) = governor_explain x cli_explain_options g
           in Inr (g, if de_effective x \<noteq> Outcome_WithinPolicy \<and> de_effective x \<noteq> Outcome_AtLimit then 2 else code,
                   if status_ok status then out @ text else out)))"

definition command_evaluate ::
  "((u64 \<times> u64) list \<Rightarrow> (u64 \<times> u64) list) \<Rightarrow> (nat \<Rightarrow> u64) \<Rightarrow> string \<Rightarrow> cli_options \<Rightarrow> world \<Rightarrow> cli_run" where
  "command_evaluate iter wall directory q w = returned
     (and_then (prepare_scenario directory q (new_governor w)) (\<lambda>g.
      and_then (for_each (evaluate_one iter wall q) (g, 0, population_line q) [1..<Suc (unat (op_domains q))]) (\<lambda>(g, code, out).
        Inr (prints code out))))"

section \<open>Durable state\<close>

definition cli_store_options :: "bool \<Rightarrow> cli_options \<Rightarrow> store_options" where
  "cli_store_options sync q = default_options\<lparr>so_directory := op_directory q, so_sync_writes := sync\<rparr>"

text \<open>Opening a store and loading its state; without a state file the state stays as it was constructed.\<close>

definition open_and_load ::
  "bool \<Rightarrow> string \<Rightarrow> cli_options \<Rightarrow> world \<Rightarrow> cli_run + (durable_state \<times> load_report) \<times> store \<times> world" where
  "open_and_load sync failed q w =
     (let (status, st, w) = store_open (cli_store_options sync q) closed_store w in
      if \<not> status_ok status then Inl (stops 1 (''open failed: '' @ status_to_string status))
      else let (answer, st, w) = store_load st w in
        (case answer of
           Inl status \<Rightarrow> Inl (prints 2 (line (failed @ '' ('' @ status_to_string status @ '')'')))
         | Inr (loaded, report) \<Rightarrow> Inr ((case loaded of None \<Rightarrow> fresh_state | Some s \<Rightarrow> s, report), st, w)))"

definition domain_line :: "domain_runtime \<Rightarrow> string" where
  "domain_line d = line (''  domain='' @ id_to_string (rt_domain d) @ '' generation='' @ to_string_u64 (gen_value (rt_generation d))
     @ '' sticky='' @ outcome_name (rt_sticky d) @ '' fenced='' @ bool_name (rt_fenced d)
     @ '' confirmations='' @ to_string_u32 (rt_confirmations d))"

definition state_lines :: "durable_state \<Rightarrow> load_report \<Rightarrow> string" where
  "state_lines s report =
     line ''state: VALID''
     @ line (''outcome='' @ load_outcome_name (lr_outcome report) @ '' journal_records='' @ to_string_u64 (lr_journal_records report)
         @ '' discarded_tail_bytes='' @ to_string_u64 (lr_discarded report))
     @ line (''incarnation='' @ id_to_string (ds_incarnation s) @ '' epoch='' @ to_string_u64 (epoch_value (ds_epoch s))
         @ '' policy_generation='' @ to_string_u64 (gen_value (ds_policy_generation s)) @ '' decisions='' @ to_string_u64 (ds_decisions s)
         @ '' audit_records='' @ decimal (length (ds_audit s)))
     @ line (''domains='' @ decimal (length (ds_domains s)) @ '' publishers='' @ decimal (length (ds_publishers s))
         @ '' evidence_slots='' @ decimal (length (ds_evidence s)))
     @ concat (map domain_line (ds_domains s))"

definition command_validate_state :: "cli_options \<Rightarrow> world \<Rightarrow> cli_run" where
  "command_validate_state q w =
     (if op_directory q = '''' then stops 1 ''validate-state requires --dir''
      else returned (and_then (open_and_load True ''state: INVALID'' q w) (\<lambda>((s, report), st, w). Inr (prints 0 (state_lines s report)))))"

definition audit_line :: "audit_record \<Rightarrow> string" where
  "audit_line a = line (''  id='' @ id_to_string (au_id a) @ '' tick='' @ to_string_u64 (au_tick a) @ '' domain='' @ id_to_string (au_domain a)
     @ '' raw='' @ outcome_name (au_raw a) @ '' effective='' @ outcome_name (au_effective a) @ '' authorized='' @ bool_name (au_authorized a)
     @ '' increment='' @ to_string_u64 (au_increment a) @ '' fenced='' @ bool_name (au_fenced a))"

text \<open>
  The history is read through a governor that is opened for it and closed behind it: the world afterwards is
  part of the answer.
\<close>

definition command_history :: "cli_options \<Rightarrow> world \<Rightarrow> cli_run \<times> world" where
  "command_history q w =
     (if op_directory q = '''' then (stops 1 ''history requires --dir'', w)
      else let (status, g) = governor_open (default_governor_options\<lparr>go_directory := op_directory q, go_sync_writes := False\<rparr>)
                               default_policy (new_governor w) in
        if \<not> status_ok status then (stops 1 (''open failed: '' @ status_to_string status), gv_world g)
        else (case history (unat (op_limit q)) g of
                Inl status \<Rightarrow> (stops 1 (''history failed: '' @ status_to_string status), gv_world (snd (governor_close 0 g)))
              | Inr records \<Rightarrow>
                  let (status, g) = governor_close 0 g
                  in (prints (if status_ok status then 0 else 1)
                        (line (''audit records: '' @ decimal (length records)) @ concat (map audit_line records)), gv_world g)))"

definition command_replay :: "cli_options \<Rightarrow> world \<Rightarrow> cli_run" where
  "command_replay q w =
     (if op_directory q = '''' then stops 1 ''replay requires --dir''
      else returned (and_then (open_and_load False ''replay: FAILED'' q w) (\<lambda>((s, report), st, w).
        let (journal, st, w) = load_journal st w in
        (case journal of
           Inl status \<Rightarrow> Inl (prints 2 (line (''journal load failed: '' @ status_to_string status)))
         | Inr (records, journal_report) \<Rightarrow>
             let (rebuilt, replay) = rebuild_from_audit s records fresh_report; agrees = (ds_decisions rebuilt = ds_decisions s)
             in Inr (prints (if agrees then 0 else 3)
                  (line (''journal: outcome='' @ load_outcome_name (lr_outcome journal_report) @ '' records='' @ decimal (length records)
                     @ '' discarded_tail_bytes='' @ to_string_u64 (lr_discarded journal_report))
                   @ line (''replay: seen='' @ to_string_u64 (rp_seen replay) @ '' applied='' @ to_string_u64 (rp_applied replay)
                     @ '' skipped='' @ to_string_u64 (rp_skipped replay))
                   @ line (''rebuild agrees with durable state: '' @ bool_name agrees)))))))"

section \<open>The digest of a file\<close>

definition command_digest :: "u8 list option \<Rightarrow> cli_options \<Rightarrow> world \<Rightarrow> cli_run" where
  "command_digest content q w =
     (if op_file q = '''' then stops 1 ''digest requires --file''
      else let (file, w) = read_file_bounded (op_file q) content (32 * 1024 * 1024) w in
        (case file of
           Inl status \<Rightarrow> stops 1 (''read failed: '' @ status_to_string status)
         | Inr bytes \<Rightarrow> prints 0 (line (''sha256='' @ digest_to_hex (sha256 bytes) @ '' bytes='' @ decimal (length bytes)))))"

section \<open>The program\<close>

definition fails_with_usage :: "string \<Rightarrow> cli_run" where
  "fails_with_usage err = \<lparr>cr_exit = 2, cr_out = usage, cr_err = line (''oversub_cli: '' @ err)\<rparr>"

definition cli_main ::
  "((u64 \<times> u64) list \<Rightarrow> (u64 \<times> u64) list) \<Rightarrow> (nat \<Rightarrow> u64) \<Rightarrow> string \<Rightarrow> string \<Rightarrow> u8 list option \<Rightarrow> string list \<Rightarrow> world \<Rightarrow> world \<Rightarrow> cli_run"
where
  "cli_main iter wall version temporary content tokens fresh w =
     (let q = cli_parse tokens in
      if \<not> op_valid q then fails_with_usage (op_error q)
      else if op_command q = ''version'' then command_version version
      else if op_command q = ''evaluate'' then command_evaluate iter wall temporary q fresh
      else if op_command q = ''validate-state'' then command_validate_state q w
      else if op_command q = ''history'' then fst (command_history q w)
      else if op_command q = ''replay'' then command_replay q w
      else if op_command q = ''digest'' then command_digest content q w
      else fails_with_usage (''unknown command '' @ [CHR 0x27] @ op_command q @ [CHR 0x27]))"


end
