(* ===== verification/Isolation.thy ===== *)
theory Isolation
  imports Governor_Open Decision_Facts
begin

text \<open>
  Domains do not disturb each other through their evidence: a publication for one domain leaves the slots of
  every other domain as they are, so what an evaluation of the other domain computes is the same before and
  after it, whether the publication is accepted, a duplicate, refused or rolled back.
\<close>

section \<open>Slots of other domains\<close>

text \<open>The index points at slots that carry their key.\<close>

definition keyed :: "governor \<Rightarrow> bool" where
  "keyed g \<longleftrightarrow> (\<forall>k i. gv_slot_index g k = Some i \<longrightarrow> i < length (gv_slots g) \<and> key_of (gv_slots g ! i) = k)"

text \<open>What an evaluation reads besides the evidence of its domain.\<close>

definition rest_of :: "governor \<Rightarrow> bool \<times> bool \<times> policy_index \<times> logical_clock \<times> incarnation_id \<times> fabric_epoch \<times> policy
    \<times> domain_runtime list \<times> u64" where
  "rest_of g = (gv_open g, gv_accepting g, gv_index g, gv_clock g, ds_incarnation (gv_state g), ds_epoch (gv_state g),
     ds_policy (gv_state g), ds_domains (gv_state g), ds_decisions (gv_state g))"

definition spares :: "domain_id \<Rightarrow> governor \<Rightarrow> governor \<Rightarrow> bool" where
  "spares d g g' \<longleftrightarrow> (\<forall>j kind. j \<noteq> d \<longrightarrow> find_slot j kind g' = find_slot j kind g) \<and> rest_of g' = rest_of g"

lemma spares_refl [simp]: "spares d g g"
  by (simp add: spares_def)

lemma spares_trans [trans]: "spares d g h \<Longrightarrow> spares d h k \<Longrightarrow> spares d g k"
  by (simp add: spares_def)

lemma spares_same:
  assumes "gv_slots g' = gv_slots g" "gv_slot_index g' = gv_slot_index g" "rest_of g' = rest_of g"
  shows "spares d g g'" "keyed g' \<longleftrightarrow> keyed g"
  using assms by (simp_all add: spares_def find_slot_def keyed_def)

lemma keyedD: "keyed g \<Longrightarrow> gv_slot_index g k = Some i \<Longrightarrow> i < length (gv_slots g) \<and> key_of (gv_slots g ! i) = k"
  by (simp add: keyed_def del: split_paired_All)

lemma keyed_governor: "governor_ok g \<Longrightarrow> keyed g"
  by (auto simp: governor_ok_def slots_ok_def keyed_def simp del: split_paired_All)

lemma other_key: "j \<noteq> d \<Longrightarrow> slot_key j kind \<noteq> slot_key d kind'"
  by (auto simp: slot_key_def dest: strong_id.expand)

lemma spares_ensure:
  assumes "ensure_slot d kind g = (i, g')" and "keyed g"
  shows "spares d g g'" "keyed g'" "gv_slot_index g' (slot_key d kind) = Some i"
proof (atomize (full), cases "gv_slot_index g (slot_key d kind)")
  case None
  then have g': "i = length (gv_slots g)" "g' = g\<lparr>gv_slot_index := (gv_slot_index g)(slot_key d kind \<mapsto> length (gv_slots g)),
      gv_slots := gv_slots g @ [empty_slot d kind]\<rparr>"
    using assms(1) by (auto simp: ensure_slot_def)
  have "find_slot j k g' = find_slot j k g" if "j \<noteq> d" for j k
    using keyedD [OF assms(2)] other_key [OF that, of k kind]
    by (cases "gv_slot_index g (slot_key j k)") (auto simp: find_slot_def g' nth_append)
  moreover have "keyed g'"
    unfolding keyed_def using keyedD [OF assms(2)] by (auto simp: g' nth_append simp del: split_paired_All intro: less_SucI)
  ultimately show "spares d g g' \<and> keyed g' \<and> gv_slot_index g' (slot_key d kind) = Some i"
    by (simp add: spares_def g' rest_of_def)
next
  case (Some j)
  then show "spares d g g' \<and> keyed g' \<and> gv_slot_index g' (slot_key d kind) = Some i"
    using assms by (auto simp: ensure_slot_def)
qed

lemma spares_upd_slot:
  assumes "keyed g" and "gv_slot_index g (slot_key d kind) = Some i"
  shows "spares d g (upd_slot i f g)"
proof -
  have "find_slot j k (upd_slot i f g) = find_slot j k g" if "j \<noteq> d" for j k
  proof (cases "gv_slot_index g (slot_key j k)")
    case (Some n)
    have "n \<noteq> i" using keyedD [OF assms(1) Some] keyedD [OF assms] other_key [OF that, of k kind] by auto
    then show ?thesis by (simp add: find_slot_def Some)
  qed (simp add: find_slot_def)
  then show ?thesis by (simp add: spares_def rest_of_def)
qed

lemma keyed_upd_slot:
  assumes "keyed g" and "key_of (f (gv_slots g ! i)) = key_of (gv_slots g ! i)"
  shows "keyed (upd_slot i f g)"
proof -
  have "n < length (gv_slots (upd_slot i f g)) \<and> key_of (gv_slots (upd_slot i f g) ! n) = k"
    if "gv_slot_index (upd_slot i f g) k = Some n" for k n
    using keyedD [OF assms(1), of k n] that assms(2) by (cases "n = i") auto
  then show ?thesis by (simp add: keyed_def del: split_paired_All)
qed

section \<open>A publication\<close>

lemma spares_registration:
  "spares d g (update_registration p f g)" "keyed (update_registration p f g) = keyed g"
  "gv_slots (update_registration p f g) = gv_slots g" "gv_slot_index (update_registration p f g) = gv_slot_index g"
  using spares_same [of "update_registration p f g" g] by (simp_all add: rest_of_def update_registration_def)

lemma spares_stats:
  "spares d g (upd_stats f g)" "keyed (upd_stats f g) = keyed g"
  "spares d g (g\<lparr>gv_dirty := b\<rparr>)" "keyed (g\<lparr>gv_dirty := b\<rparr>) = keyed g"
  "spares d g (upd_stats f h) = spares d g h" "spares d g (h\<lparr>gv_dirty := b\<rparr>) = spares d g h"
  using spares_same [of "upd_stats f g" g] spares_same [of "g\<lparr>gv_dirty := b\<rparr>" g] by (simp_all add: rest_of_def spares_def find_slot_def)

lemma spares_persist:
  assumes "persist_state force g = (status, g')"
  shows "spares d g g'" "keyed g' = keyed g" "gv_slot_index g' = gv_slot_index g"
  using core_ofD [OF persist_state_frame(1) [OF assms]] identity_ofD [OF persist_state_frame(2) [OF assms]] spares_same [of g' g]
  by (simp_all add: rest_of_def)

lemma spares_ingest:
  assumes "ingest kind d claimed epoch observed pv payload g = (status, generation, duplicate, g')" and "keyed g"
  shows "spares d g g'" "keyed g'"
proof (atomize (full))
  obtain i g1 where en: "ensure_slot d kind g = (i, g1)" by (cases "ensure_slot d kind g") auto
  note e = spares_ensure [OF en assms(2)]
  define f where "f = (\<lambda>expected sl. clear_content (sl\<lparr>gs_state := (gs_state sl)\<lparr>sl_generation := expected, sl_evidence_id := pv_evidence_id pv,
      sl_publisher := pv_publisher pv, sl_incarnation := pv_incarnation pv, sl_sequence := pv_sequence pv, sl_observed_tick := observed,
      sl_payload_digest := payload, sl_revalidation := False\<rparr>\<rparr>))"
  have key: "key_of (f n sl) = key_of sl" for n sl by (simp add: f_def key_of_def)
  let ?r = "\<lambda>n. update_registration (pv_publisher pv) (\<lambda>r. r\<lparr>pr_last_sequence := pv_sequence pv\<rparr>) g1"
  have accept: "spares d g (accept_evidence i n observed pv payload g1) \<and> keyed (accept_evidence i n observed pv payload g1)" for n
  proof -
    have "spares d g (?r n)" by (rule spares_trans [OF e(1) spares_registration(1)])
    also have "spares d (?r n) (upd_slot i (f n) (?r n))" by (rule spares_upd_slot [where kind = kind]) (simp_all add: e spares_registration)
    finally have "spares d g (upd_slot i (f n) (?r n))" .
    moreover have "keyed (upd_slot i (f n) (?r n))" by (rule keyed_upd_slot) (simp_all add: e spares_registration key)
    ultimately show ?thesis
      by (simp add: accept_evidence_def Let_def f_def spares_stats)
  qed
  show "spares d g g' \<and> keyed g'"
    using assms e accept by (auto simp: ingest_def ingest_slot_def en Let_def split: if_splits option.splits)
qed

lemma spares_rollback:
  assumes "keyed g"
  shows "spares d g (restore_rollback rb d kind g)"
proof (cases "ir_slot rb")
  case None
  then show ?thesis by (auto simp: restore_rollback_def spares_registration split: option.splits)
next
  case (Some e)
  obtain i g1 where en: "ensure_slot d kind g = (i, g1)" by (cases "ensure_slot d kind g") auto
  have "spares d g g1" by (rule spares_ensure(1) [OF en assms])
  also have "spares d g1 (upd_slot i (\<lambda>sl. sl\<lparr>gs_state := e\<rparr>) g1)" by (rule spares_upd_slot [OF spares_ensure(2,3) [OF en assms]])
  finally show ?thesis
    by (auto simp: restore_rollback_def Some en Let_def intro: spares_trans spares_registration(1) split: option.splits)
qed

lemma spares_publish:
  assumes "publish kind d claimed epoch observed pv valid fill unfill g = (answer, g')" and "keyed g"
    and fill: "\<And>generation sl. gs_state (fill generation sl) = gs_state sl" and unfill: "\<And>sl. gs_state (unfill sl) = gs_state sl"
  shows "spares d g g'"
proof -
  obtain status generation duplicate g1 where ing: "ingest kind d claimed epoch observed pv (pv_payload_digest pv) g = (status, generation, duplicate, g1)"
    by (metis prod_cases4)
  note one = spares_ingest [OF ing assms(2)]
  obtain i g2 where en: "ensure_slot d kind g1 = (i, g2)" by (cases "ensure_slot d kind g1") auto
  note two = spares_ensure [OF en one(2)]
  define g3 where "g3 = upd_slot i (\<lambda>sl. (fill generation sl)\<lparr>gs_has_content := True\<rparr>) g2"
  have three: "spares d g2 g3" "keyed g3" "gv_slot_index g3 (slot_key d kind) = Some i"
    unfolding g3_def using two by (auto intro!: spares_upd_slot [where kind = kind] keyed_upd_slot simp: fill key_of_def)
  have synced: "spares d g3 (sync_evidence_state g3)" "keyed (sync_evidence_state g3)" "gv_slot_index (sync_evidence_state g3) = gv_slot_index g3"
    using spares_same [of "sync_evidence_state g3" g3] three by (simp_all add: sync_evidence_state_def rest_of_def)
  obtain saved g4 where per: "persist_state True (sync_evidence_state g3) = (saved, g4)" by (cases "persist_state True (sync_evidence_state g3)") auto
  have four: "spares d g g4" "keyed g4" "gv_slot_index g4 (slot_key d kind) = Some i"
    using spares_trans [OF one(1) spares_trans [OF two(1) spares_trans [OF three(1) spares_trans [OF synced(1) spares_persist(1) [OF per]]]]]
      spares_persist(2,3) [OF per] synced three by simp_all
  let ?g5 = "upd_slot i (\<lambda>sl. unfill (sl\<lparr>gs_has_content := False\<rparr>)) g4"
  have five: "spares d g4 ?g5" "keyed ?g5" using four by (auto intro!: spares_upd_slot [where kind = kind] keyed_upd_slot simp: unfill key_of_def)
  have rolled: "spares d g (restore_rollback (capture_rollback d kind (pv_publisher pv) g) d kind ?g5)"
    by (rule spares_trans [OF four(1) spares_trans [OF five(1) spares_rollback [OF five(2)]]])
  show ?thesis
    using assms(1) one(1) four(1) rolled
    by (auto simp: publish_def ing en per g3_def [symmetric] Let_def rejected_def spares_stats split: if_splits)
qed

lemma spares_ingests:
  assumes "governor_ok g"
  shows "ingest_capacity c g = (answer, g') \<Longrightarrow> spares (cs_domain c) g g'"
    "ingest_reservations r g = (answer, g') \<Longrightarrow> spares (rs_domain r) g g'"
    "ingest_admissions a g = (answer, g') \<Longrightarrow> spares (as_domain a) g g'"
  unfolding ingest_capacity_def ingest_reservations_def ingest_admissions_def Let_def
  by (drule spares_publish, rule keyed_governor [OF assms], simp, simp, simp)+

section \<open>What an evaluation of another domain computes\<close>

lemma spares_prepare:
  assumes "spares d g g'" and "j \<noteq> d"
  shows "current_evidence j g' = current_evidence j g" "prepare_decision iter wall j t g' = prepare_decision iter wall j t g"
proof -
  have slots: "find_slot j kind g' = find_slot j kind g" for kind using assms by (simp add: spares_def)
  have rest: "gv_index g' = gv_index g" "ds_incarnation (gv_state g') = ds_incarnation (gv_state g)"
      "ds_epoch (gv_state g') = ds_epoch (gv_state g)" "ds_policy (gv_state g') = ds_policy (gv_state g)"
      "ds_domains (gv_state g') = ds_domains (gv_state g)" "ds_decisions (gv_state g') = ds_decisions (gv_state g)"
    using assms(1) by (simp_all add: spares_def rest_of_def)
  show ev: "current_evidence j g' = current_evidence j g" by (simp add: current_evidence_def slot_content_def slots)
  have ex: "current_expectation j g' = current_expectation j g" by (simp add: current_expectation_def slot_generation_def slots rest)
  have "current_result iter j t g' = current_result iter j t g"
    unfolding current_result_def ex ev rest uncovered_result_def ..
  moreover have "find_runtime j g' = find_runtime j g" by (simp add: find_runtime_def rest)
  moreover have "make_decision g' = make_decision g" "make_audit g' = make_audit g"
    by (intro ext; simp add: make_decision_def make_audit_def Let_def rest)+
  ultimately show "prepare_decision iter wall j t g' = prepare_decision iter wall j t g"
    unfolding prepare_decision_def ex rest by simp
qed

text \<open>
  C16. Domains are isolated: whatever is published for one domain, accepted, duplicate, refused or rolled back,
  the evidence the governor holds for any other domain stays, and an evaluation of the other domain at any tick
  prepares the very same decision, audit record and runtime state as before the publication.
\<close>

theorem publication_isolated:
  assumes "governor_ok g" and "j \<noteq> d"
    and "(\<exists>c answer. cs_domain c = d \<and> ingest_capacity c g = (answer, g'))
      \<or> (\<exists>r answer. rs_domain r = d \<and> ingest_reservations r g = (answer, g'))
      \<or> (\<exists>a answer. as_domain a = d \<and> ingest_admissions a g = (answer, g'))"
  shows "current_evidence j g' = current_evidence j g \<and> prepare_decision iter wall j t g' = prepare_decision iter wall j t g"
proof -
  from assms(3) have "spares d g g'" using spares_ingests [OF assms(1)] by blast
  from spares_prepare [OF this assms(2)] show ?thesis by simp
qed

text \<open>The capacity that is published for the sample domain leaves the domain beside it alone.\<close>

lemma publication_isolated_witness:
  "prepare_decision id 5 (StrongId 8) 30 (snd (ingest_capacity sample_capacity sample_governor))
     = prepare_decision id 5 (StrongId 8) 30 sample_governor"
proof -
  obtain answer g' where pub: "ingest_capacity sample_capacity sample_governor = (answer, g')"
    by (cases "ingest_capacity sample_capacity sample_governor") auto
  have "StrongId 8 \<noteq> cs_domain sample_capacity" by (simp add: sample_capacity_def)
  from publication_isolated [OF sample_governor_ok this disjI1, of g' id 5 30] pub show ?thesis by auto
qed


end
