(* ===== verification/Cli_Properties.thy ===== *)
theory Cli_Properties
  imports Cli Isolation Governor_Authority Hysteresis_Properties
begin

text \<open>
  What the commands of the tool answer. The scenario of several domains publishes the evidence of all of them
  under the first domain, so every other domain is evaluated without evidence.
\<close>

section \<open>Evidence the governor does not hold\<close>

definition no_evidence :: "domain_id \<Rightarrow> governor \<Rightarrow> bool" where
  "no_evidence j g \<longleftrightarrow> current_evidence j g = \<lparr>ev_capacity = None, ev_reservations = None, ev_admissions = None\<rparr>"

lemma no_evidence_without_content:
  assumes "keyed g" and "\<forall>sl \<in> set (gv_slots g). \<not> gs_has_content sl"
  shows "no_evidence j g"
proof -
  have "\<not> gs_has_content sl" if "find_slot j kind g = Some sl" for kind sl
  proof -
    obtain i where "gv_slot_index g (slot_key j kind) = Some i" "sl = gv_slots g ! i" using \<open>find_slot j kind g = Some sl\<close> by (auto simp: find_slot_def)
    with keyedD [OF assms(1) this(1)] assms(2) show ?thesis using nth_mem by blast
  qed
  then show ?thesis by (auto simp: no_evidence_def current_evidence_def slot_content_def split: option.splits)
qed

lemma open_without_content:
  assumes "governor_open opts initial g = (status, g')" and "status_ok status"
  shows "\<forall>sl \<in> set (gv_slots g'). \<not> gs_has_content sl"
proof -
  have init: "\<forall>sl \<in> set (gv_slots h'). \<not> gs_has_content sl" if "initialize initial h = (s, h')" "status_ok s" for h h' s
    using that core_ofD(5) [OF persist_state_frame(1)] by (auto simp: initialize_def Let_def split: if_splits)
  have load: "\<forall>sl \<in> set (gv_slots h'). \<not> gs_has_content sl" if "restore d h = (s, h')" "status_ok s" for d h h' s
    using that core_ofD(5) [OF persist_state_frame(1)] by (auto simp: restore_def restored_slot_def Let_def split: if_splits)
  have fail: "\<not> status_ok s" if "store_load st w = (Inl s, st', w')" for st w s st' w'
    using fails_load [OF that] by simp
  show ?thesis
    using assms by (auto simp: governor_open_def Let_def dest: init load fail split: if_splits prod.splits sum.splits option.splits)
qed

lemma register_slots:
  assumes "register_publisher p inc epoch t g = (status, g')"
  shows "gv_slots g' = gv_slots g"
  using assms core_ofD(5) [OF persist_state_frame(1)]
  by (auto simp: register_publisher_def observe_tick_def Let_def split: if_splits option.splits)

lemma evaluated_evidence:
  assumes "evaluate iter wall rq g = (answer, g')" and "governor_ok g"
  shows "governor_ok g'" "current_evidence j g' = current_evidence j g"
proof -
  show "governor_ok g'" by (rule governor_ok_evaluate [OF assms])
  have "gv_slots g' = gv_slots g \<and> gv_slot_index g' = gv_slot_index g"
    using assms(1) evaluate_locked_frame [of iter wall rq False g answer g'] by (auto simp: evaluate_def split: if_splits)
  then show "current_evidence j g' = current_evidence j g" by (simp add: current_evidence_def slot_content_def find_slot_def)
qed

text \<open>Without evidence no evaluation of the domain is within policy or at the limit.\<close>

lemma unevidenced_restricted:
  assumes "evaluate iter wall rq g = (Inr x, g')" and "governor_ok g" and "\<And>xs. set (iter xs) = set xs"
    and "no_evidence (rq_domain rq) g"
  shows "de_effective x \<noteq> Outcome_WithinPolicy" "de_effective x \<noteq> Outcome_AtLimit"
proof -
  from answered_decision [OF assms(1)] obtain r where
    r: "r = current_result iter (rq_domain rq) (evaluation_tick rq g) g" "de_raw x = er_outcome r"
    and ev: "evaluate_locked iter wall rq False g = (Inr x, g')" by metis
  have severe: "outcome_severity (er_outcome r) \<ge> 2"
  proof (rule ccontr)
    assume "\<not> outcome_severity (er_outcome r) \<ge> 2"
    then have "er_outcome r = Outcome_WithinPolicy \<or> er_outcome r = Outcome_AtLimit"
      by (cases "er_outcome r") (simp_all add: word_le_nat_alt)
    then have "\<not> refused r" "er_outcome r \<noteq> Outcome_Unknown" by (auto simp: refused_def)
    from decided_result [OF assms(2,3) r(1) this] assms(4) show False by (auto simp: no_evidence_def)
  qed
  from evaluate_answers [OF ev] obtain d a g2 where
    prep: "prepare_decision iter wall (rq_domain rq) (evaluation_tick rq g) g = (d, x, a)" by blast
  have "de_effective x = er_outcome r"
  proof (rule prepare_decision_facts [OF prep])
    fix r' w effective
    assume "r' = current_result iter (rq_domain rq) (evaluation_tick rq g) g"
      "hysteresis (pl_hysteresis (ds_policy (gv_state g))) (evaluation_tick rq g) (er_outcome r') (da_used_ppm (er_accounting r'))
         (working_runtime (find_runtime (rq_domain rq) g) (rq_domain rq) (ex_domain_generation (current_expectation (rq_domain rq) g))
            (er_outcome r')) = (w, effective)"
      "x = make_decision g r' effective d (evaluation_tick rq g)"
    then show ?thesis using hysteresis_effective_within severe r(1) by auto
  qed
  then show "de_effective x \<noteq> Outcome_WithinPolicy" "de_effective x \<noteq> Outcome_AtLimit"
    using severe by (auto simp: word_le_nat_alt)
qed

section \<open>The scenario\<close>

lemma scenario_domain [simp]:
  "cs_domain (po_capacity (scenario q)) = StrongId 1" "rs_domain (po_reservations (scenario q)) = StrongId 1"
  "as_domain (po_admissions (scenario q)) = StrongId 1"
proof -
  have "sy_first_domain (cli_config q) = StrongId 1" by (simp add: cli_config_def default_synth_config_def)
  then show "cs_domain (po_capacity (scenario q)) = StrongId 1" "rs_domain (po_reservations (scenario q)) = StrongId 1"
    "as_domain (po_admissions (scenario q)) = StrongId 1"
    by (simp_all add: scenario_def synthesize_def sealed_def seal_capacity_def seal_reservations_def seal_admissions_def Let_def
        split: prod.splits)
qed

lemma install_Inr: "install out what r = Inr g \<longleftrightarrow> status_ok (fst r) \<and> g = snd r"
  by (auto simp: install_def split: prod.splits)

lemma install_Inl: "install out what r = Inl run \<Longrightarrow> cr_exit run = 1"
  by (auto simp: install_def split: prod.splits if_splits)

lemma ingested_sel [simp]: "snd (ingested r) = snd r"
  by (simp add: ingested_def split: prod.splits)

lemma ingests_spare:
  assumes "governor_ok g"
  shows "governor_ok (snd (ingest_capacity c g))" "spares (cs_domain c) g (snd (ingest_capacity c g))"
    "governor_ok (snd (ingest_reservations r g))" "spares (rs_domain r) g (snd (ingest_reservations r g))"
    "governor_ok (snd (ingest_admissions a g))" "spares (as_domain a) g (snd (ingest_admissions a g))"
  using governor_ok_ingest [OF _ assms] spares_ingests [OF assms] by (metis prod.collapse)+

lemma prepared_scenario:
  assumes "prepare_scenario directory q g = Inr g'" and "j \<noteq> StrongId 1"
  shows "governor_ok g'" "no_evidence j g'"
proof -
  define opts where "opts = default_governor_options\<lparr>go_directory := directory, go_sync_writes := False\<rparr>"
  define pv where "pv = cs_provenance (po_capacity (scenario q))"
  define epoch where "epoch = cs_epoch (po_capacity (scenario q))"
  define g1 where "g1 = snd (governor_open opts (po_policy (scenario q)) g)"
  define g2 where "g2 = snd (register_publisher (pv_publisher pv) (pv_incarnation pv) epoch (op_tick q) g1)"
  have opened: "status_ok (fst (governor_open opts (po_policy (scenario q)) g))"
    and rest: "g' = snd (ingest_admissions (po_admissions (scenario q)) (snd (ingest_reservations (po_reservations (scenario q))
       (snd (ingest_capacity (po_capacity (scenario q)) g2)))))"
    using assms(1) unfolding prepare_scenario_def Let_def and_then_Inr_iff install_Inr
    by (simp_all add: opts_def pv_def epoch_def g1_def g2_def)
  have ok1: "governor_ok g1" "\<forall>sl \<in> set (gv_slots g1). \<not> gs_has_content sl"
    using opened governor_open_ok open_without_content unfolding g1_def by (metis prod.collapse)+
  obtain status where r: "register_publisher (pv_publisher pv) (pv_incarnation pv) epoch (op_tick q) g1 = (status, g2)"
    unfolding g2_def by (metis prod.collapse)
  have ok2: "governor_ok g2" "no_evidence j g2"
    using governor_ok_register [OF r ok1(1)] register_slots [OF r] ok1(2) no_evidence_without_content keyed_governor by simp_all
  let ?g3 = "snd (ingest_capacity (po_capacity (scenario q)) g2)"
  let ?g4 = "snd (ingest_reservations (po_reservations (scenario q)) ?g3)"
  note three = ingests_spare(1,2) [OF ok2(1), of "po_capacity (scenario q)"]
  note four = ingests_spare(3,4) [OF three(1), of "po_reservations (scenario q)"]
  note five = ingests_spare(5,6) [OF four(1), of "po_admissions (scenario q)"]
  have "current_evidence j g' = current_evidence j g2"
    unfolding rest using spares_prepare(1) assms(2) three(2) four(2) five(2) by simp
  then show "no_evidence j g'" using ok2(2) by (simp add: no_evidence_def)
  show "governor_ok g'" unfolding rest by (rule five(1))
qed

lemma prepare_scenario_fails: "prepare_scenario directory q g = Inl run \<Longrightarrow> cr_exit run = 1"
  unfolding prepare_scenario_def Let_def and_then_Inl_iff by (auto dest: install_Inl)

text \<open>One turn of the loop keeps the exit code 2, and sets it for a domain without evidence.\<close>

lemma evaluate_one_code:
  assumes "evaluate_one iter wall q (g, code, out) n = Inr (g', code', out')" and "governor_ok g" and "\<And>xs. set (iter xs) = set xs"
  shows "governor_ok g'" "current_evidence j g' = current_evidence j g" "code = 2 \<Longrightarrow> code' = 2"
    "no_evidence (StrongId (word_of_nat n)) g \<Longrightarrow> code' = 2"
proof -
  let ?rq = "\<lparr>rq_domain = StrongId (word_of_nat n), rq_tick = op_tick q\<rparr>"
  obtain x where ev: "evaluate iter (wall n) ?rq g = (Inr x, g')"
    and c: "code' = (if de_effective x \<noteq> Outcome_WithinPolicy \<and> de_effective x \<noteq> Outcome_AtLimit then 2 else code)"
    using assms(1) by (auto simp: evaluate_one_def Let_def split: prod.splits sum.splits)
  show "governor_ok g'" "current_evidence j g' = current_evidence j g" using evaluated_evidence [OF ev assms(2)] by auto
  show "code = 2 \<Longrightarrow> code' = 2" using c by simp
  show "no_evidence (StrongId (word_of_nat n)) g \<Longrightarrow> code' = 2" using unevidenced_restricted [OF ev assms(2,3)] c by simp
qed

lemma evaluate_one_fails: "evaluate_one iter wall q st n = Inl run \<Longrightarrow> cr_exit run = 1"
  by (auto simp: evaluate_one_def Let_def split: prod.splits sum.splits)

lemma evaluate_loop_code:
  assumes "for_each (evaluate_one iter wall q) st ns = Inr (g', code', out')" and "governor_ok (fst st)" "fst (snd st) = 2"
    and "\<And>xs. set (iter xs) = set xs"
  shows "code' = 2"
proof -
  have "governor_ok (fst (g', code', out')) \<and> fst (snd (g', code', out')) = 2"
  proof (rule for_each_invariant [OF assms(1), where I = "\<lambda>st. governor_ok (fst st) \<and> fst (snd st) = 2"])
    fix s n s'
    assume "governor_ok (fst s) \<and> fst (snd s) = 2" "evaluate_one iter wall q s n = Inr s'"
    then show "governor_ok (fst s') \<and> fst (snd s') = 2"
      using evaluate_one_code(1,3) [OF _ _ assms(4)] by (cases s; cases s') auto
  qed (use assms in simp)
  then show ?thesis by simp
qed

text \<open>
  C32. A scenario of two or more domains never passes: whatever the options the parser accepted, the state of
  the file system and the clock, \<^verbatim>\<open>evaluate\<close> ends with exit code 1 or 2. The evidence of the whole population is
  published for the first domain, and the second is evaluated without any.
\<close>

theorem later_domains_never_pass:
  assumes "2 \<le> op_domains q" and "\<And>xs. set (iter xs) = set xs"
  shows "cr_exit (command_evaluate iter wall directory q w) \<in> {1, 2}"
proof (cases "prepare_scenario directory q (new_governor w)")
  case (Inl run)
  then show ?thesis using prepare_scenario_fails by (simp add: command_evaluate_def)
next
  case (Inr g)
  note prepared = prepared_scenario [OF Inr, of "StrongId 2"]
  define rest where "rest = [3..<Suc (unat (op_domains q))]"
  have range: "[1..<Suc (unat (op_domains q))] = 1 # 2 # rest"
  proof -
    have "2 \<le> unat (op_domains q)" using assms(1) by (simp add: word_le_nat_alt)
    then have "[1..<Suc (unat (op_domains q))] = 1 # [Suc 1..<Suc (unat (op_domains q))]"
      "[2..<Suc (unat (op_domains q))] = 2 # [Suc 2..<Suc (unat (op_domains q))]" by (simp_all only: upt_conv_Cons)
    moreover have "Suc 1 = 2" "Suc 2 = 3" by simp_all
    ultimately show ?thesis unfolding rest_def by metis
  qed
  let ?one = "evaluate_one iter wall q (g, 0, population_line q) 1"
  show ?thesis
  proof (cases "for_each (evaluate_one iter wall q) (g, 0, population_line q) [1..<Suc (unat (op_domains q))]")
    case (Inl run)
    have "cr_exit run = 1"
      by (rule for_each_early [OF Inl, where I = "\<lambda>_. True" and Q = "\<lambda>run. cr_exit run = 1"]) (auto dest: evaluate_one_fails)
    then show ?thesis using Inr Inl by (simp add: command_evaluate_def)
  next
    case ran: (Inr st)
    then obtain g1 c1 o1 g2 c2 o2 where
      one: "?one = Inr (g1, c1, o1)" and two: "evaluate_one iter wall q (g1, c1, o1) 2 = Inr (g2, c2, o2)"
      and loop: "for_each (evaluate_one iter wall q) (g2, c2, o2) rest = Inr st"
      unfolding range by (auto simp: and_then_Inr_iff)
    obtain g' code out where st: "st = (g', code, out)" by (cases st)
    note first = evaluate_one_code(1,2) [OF one prepared(1) assms(2)]
    have "no_evidence (StrongId (word_of_nat 2)) g1" using prepared(2) first(2) by (simp add: no_evidence_def)
    then have "c2 = 2" "governor_ok g2" using evaluate_one_code(1,4) [OF two first(1) assms(2)] by auto
    then have "code = 2" using evaluate_loop_code [OF loop [unfolded st] _ _ assms(2)] by simp
    then show ?thesis by (simp add: command_evaluate_def Inr ran [unfolded One_nat_def] st prints_def del: upt_Suc)
  qed
qed


lemma later_domains_never_pass_witness:
  "cr_exit (command_evaluate id (\<lambda>n. 7) ''/tmp/oversub-cli-evaluate'' (default_cli_options\<lparr>op_domains := 3\<rparr>)
     \<lparr>wd_state = None, wd_journal = None, wd_outcomes = []\<rparr>) \<in> {1, 2}"
  by (rule later_domains_never_pass) (simp_all add: word_le_nat_alt)


end
