(* ===== verification/Dist.thy ===== *)
theory Dist
  imports Command_Line Synth Worker
begin

text \<open>
  The two processes of the multiprocess tool (\<^verbatim>\<open>dist/main.cpp\<close>): the arguments of a process become the population
  and the options of its role, and its exit code and report are what the role ended with. The result of the
  worker is \<^const>\<open>None\<close> while it waits for the coordinator. What \<^verbatim>\<open>tcp_listen\<close> and \<^verbatim>\<open>tcp_connect\<close> returned, the
  wall clock and whether the report file could be written are arguments.
\<close>

definition config_from :: "dist_arguments \<Rightarrow> synth_config" where
  "config_from a = default_synth_config
     \<lparr>sy_domains := dg_domains a, sy_resources_per_domain := dg_resources a, sy_guarantees_per_resource := dg_guarantees a,
      sy_demand_records_per_resource := dg_demand a, sy_capacity_per_resource := dg_capacity a,
      sy_publisher := StrongId (dg_publisher a), sy_incarnation := StrongId (dg_incarnation a)\<rparr>"

section \<open>Reports\<close>

type_synonym report = "string list"

definition report_add :: "string \<Rightarrow> string \<Rightarrow> report \<Rightarrow> report" where
  "report_add key value r = r @ [key @ ''='' @ value]"

definition report_add_u64 :: "string \<Rightarrow> u64 \<Rightarrow> report \<Rightarrow> report" where
  "report_add_u64 key value r = report_add key (to_string_u64 value) r"

definition report_add_flag :: "string \<Rightarrow> bool \<Rightarrow> report \<Rightarrow> report" where
  "report_add_flag key b r = report_add_u64 key (if b then 1 else 0) r"

definition report_write :: "bool \<Rightarrow> string \<Rightarrow> report \<Rightarrow> bool" where
  "report_write written path r = (if path = '''' then True else written)"

section \<open>The coordinator process\<close>

definition dist_coordinator_options :: "dist_arguments \<Rightarrow> coordinator_options" where
  "dist_coordinator_options a =
     \<lparr>cp_governor = default_governor_options\<lparr>go_directory := dg_state_directory a\<rparr>, cp_max_connections = 8, cp_max_frames = 65536\<rparr>"

text \<open>The process up to the listening coordinator, or its exit code; and its end, \<^const>\<open>None\<close> while it serves.\<close>

definition coordinator_begin :: "status \<Rightarrow> dist_arguments \<Rightarrow> coordinator \<Rightarrow> nat + coordinator" where
  "coordinator_begin listened a k =
     (if dg_state_directory a = '''' then Inl 2
      else let (status, k) = coordinator_start listened (dist_coordinator_options a) (po_policy (synthesize (config_from a))) k in
        if \<not> status_ok status then Inl 3 else Inr k)"

definition coordinator_end :: "coordinator \<Rightarrow> (nat \<times> coordinator) option" where
  "coordinator_end k =
     (if co_running k then None
      else map_option (\<lambda>(status, k). (if \<not> status_ok status then 4 else 0, k)) (coordinator_join (request_stop k)))"

section \<open>The worker process\<close>

record worker_run =
  wr_report :: report
  wr_client :: worker_client

text \<open>
  A step of the worker: \<^const>\<open>None\<close> while it waits, \<^const>\<open>Inl\<close> with the exit code where the code breaks out of the
  rounds, \<^const>\<open>Inr\<close> with a value where it goes on.
\<close>

type_synonym 'a worker_step = "(nat \<times> worker_run + 'a \<times> worker_run) option"

definition step_then :: "'a worker_step \<Rightarrow> ('a \<Rightarrow> worker_run \<Rightarrow> 'b worker_step) \<Rightarrow> 'b worker_step" where
  "step_then m f = (case m of None \<Rightarrow> None | Some (Inl r) \<Rightarrow> Some (Inl r) | Some (Inr (x, v)) \<Rightarrow> f x v)"

definition noting :: "(report \<Rightarrow> report) \<Rightarrow> worker_run \<Rightarrow> worker_run" where
  "noting f v = v\<lparr>wr_report := f (wr_report v)\<rparr>"

text \<open>A call of the client: its failure is reported under a key and ends the rounds with an exit code.\<close>

definition call_step ::
  "string \<Rightarrow> nat \<Rightarrow> (worker_client \<Rightarrow> ((status + 'a) \<times> worker_client) option) \<Rightarrow> worker_run \<Rightarrow> 'a worker_step" where
  "call_step key code operation v =
     map_option (\<lambda>(r, w). case r of
         Inl status \<Rightarrow> Inl (code, noting (report_add key (status_to_string status)) (v\<lparr>wr_client := w\<rparr>))
       | Inr x \<Rightarrow> Inr (x, v\<lparr>wr_client := w\<rparr>))
     (operation (wr_client v))"

text \<open>
  A question to the coordinator that is rejected with a status of code \<^const>\<open>Status_Ok\<close> is a success to the worker, which goes on
  with the object it had default-constructed for the answer.
\<close>

definition asking ::
  "'a \<Rightarrow> (worker_client \<Rightarrow> ((status + 'a) \<times> worker_client) option) \<Rightarrow> worker_client \<Rightarrow> ((status + 'a) \<times> worker_client) option" where
  "asking blank operation w =
     map_option (\<lambda>(r, w). (case r of Inl status \<Rightarrow> if status_ok status then Inr blank else Inl status | Inr x \<Rightarrow> Inr x, w))
       (operation w)"

definition no_revalidation :: revalidate_ack where
  "no_revalidation = \<lparr>ra_valid = False, ra_reason = Reason_None, ra_detail = ''''\<rparr>"

text \<open>A publication answers the acknowledgement and the snapshot as the client left it.\<close>

definition publishing ::
  "(u64 \<Rightarrow> 's \<Rightarrow> worker_client \<Rightarrow> ((status + publish_ack) \<times> 's \<times> worker_client) option) \<Rightarrow> (u64 \<Rightarrow> u64) \<Rightarrow> 's
   \<Rightarrow> worker_client \<Rightarrow> ((status + publish_ack \<times> 's) \<times> worker_client) option" where
  "publishing operation wall s w =
     map_option (\<lambda>(r, s, w). (case r of Inl status \<Rightarrow> Inl status | Inr ack \<Rightarrow> Inr (ack, s), w)) (operation (wall (wc_sequence w)) s w)"

definition ack_accepted :: "publish_ack \<Rightarrow> bool" where
  "ack_accepted ack \<longleftrightarrow> pa_code ack = Status_Ok \<or> pa_code ack = Status_Duplicate"

definition record_ack :: "string \<Rightarrow> publish_ack \<Rightarrow> worker_run \<Rightarrow> unit worker_step" where
  "record_ack what ack v =
     (let v = noting (\<lambda>r. let r = report_add (what @ ''_code'') (status_code_name (pa_code ack)) r;
                            r = report_add (what @ ''_reason'') (reason_code_name (pa_reason ack)) r;
                            r = report_add_u64 (what @ ''_generation'') (pa_generation ack) r
                        in if pa_duplicate ack then report_add_u64 (what @ ''_duplicate'') 1 r else r) v
      in Some (if ack_accepted ack then Inr ((), v) else Inl (5, v)))"

text \<open>The snapshots of a round.\<close>

definition round_generation :: "dist_arguments \<Rightarrow> u64 \<Rightarrow> u32 \<Rightarrow> u64" where
  "round_generation a base round = (if dg_auto_generations a then 0 else base + ucast round + 1)"

definition round_capacity :: "dist_arguments \<Rightarrow> hello_response \<Rightarrow> population \<Rightarrow> u32 \<Rightarrow> capacity_snapshot" where
  "round_capacity a h p round = (po_capacity p)\<lparr>cs_tick := dg_tick a + ucast round,
     cs_generation := Gen (round_generation a (hs_capacity_generation h) round)\<rparr>"

definition round_reservations :: "dist_arguments \<Rightarrow> hello_response \<Rightarrow> population \<Rightarrow> u32 \<Rightarrow> reservation_snapshot" where
  "round_reservations a h p round = (po_reservations p)\<lparr>rs_tick := dg_tick a + ucast round,
     rs_generation := Gen (round_generation a (hs_reservation_generation h) round)\<rparr>"

definition round_admissions :: "dist_arguments \<Rightarrow> hello_response \<Rightarrow> population \<Rightarrow> u32 \<Rightarrow> admission_snapshot" where
  "round_admissions a h p round = (po_admissions p)\<lparr>as_tick := dg_tick a + ucast round,
     as_generation := Gen (round_generation a (hs_admission_generation h) round)\<rparr>"

definition decision_lines :: "decision \<Rightarrow> report \<Rightarrow> report" where
  "decision_lines x r =
     (let e = de_evaluation x; acc = er_accounting e in
      r @ map (\<lambda>(k, v). k @ ''='' @ v)
        [(''outcome'', outcome_name (er_outcome e)), (''effective'', outcome_name (de_effective x)),
         (''authorized'', if de_authorized x then ''1'' else ''0''), (''increment'', to_string_u64 (de_increment x)),
         (''binding'', constraint_name (da_binding acc)), (''ceiling'', to_string_u64 (da_ceiling acc)),
         (''committed'', to_string_u64 (da_committed acc)), (''contingent_free'', to_string_u64 (da_contingent_free acc)),
         (''decision_digest'', digest_to_hex (de_digest x)), (''result_digest'', digest_to_hex (er_digest e)),
         (''decision_id'', to_string_u64 (id_value (de_id x)))])"

text \<open>Publishing the capacity of the round once more, under the next sequence: what \<open>--replay\<close> asks for.\<close>

definition replay_step :: "dist_arguments \<Rightarrow> (u64 \<Rightarrow> u64) \<Rightarrow> capacity_snapshot \<Rightarrow> worker_run \<Rightarrow> unit worker_step" where
  "replay_step a wall capacity v =
     (if \<not> dg_replay a then Some (Inr ((), v))
      else step_then (call_step ''replay_error'' 7 (publishing client_publish_capacity wall capacity)
          (v\<lparr>wr_client := set_sequence (wc_sequence (wr_client v)) (wr_client v)\<rparr>)) (\<lambda>(ack, capacity) v.
        Some (Inr ((), noting (\<lambda>r. report_add_flag ''replay_duplicate'' (pa_duplicate ack)
          (report_add ''replay_reason'' (reason_code_name (pa_reason ack))
            (report_add ''replay_code'' (status_code_name (pa_code ack)) r))) v))))"

definition expect_step :: "dist_arguments \<Rightarrow> decision \<Rightarrow> worker_run \<Rightarrow> unit worker_step" where
  "expect_step a x v =
     Some (if dg_expect_outcome a \<noteq> '''' \<and> outcome_name (er_outcome (de_evaluation x)) \<noteq> dg_expect_outcome a then Inl (9, v)
           else Inr ((), v))"

definition revalidate_step :: "dist_arguments \<Rightarrow> decision \<Rightarrow> worker_run \<Rightarrow> unit worker_step" where
  "revalidate_step a x v =
     (if \<not> dg_revalidate a then Some (Inr ((), v))
      else step_then (call_step ''revalidate_error'' 10 (asking no_revalidation (client_revalidate x)) v) (\<lambda>ack v.
        Some (Inr ((), noting (\<lambda>r. report_add ''revalidate_reason'' (reason_code_name (ra_reason ack))
          (report_add_flag ''revalidate_valid'' (ra_valid ack) r)) v))))"

definition stale_step :: "dist_arguments \<Rightarrow> publish_ack \<Rightarrow> worker_run \<Rightarrow> unit worker_step" where
  "stale_step a ack v =
     (if \<not> dg_stale_epoch a then Some (Inr ((), v))
      else Some (Inl (0, noting (\<lambda>r. report_add ''stale_capacity_reason'' (reason_code_name (pa_reason ack))
             (report_add ''stale_capacity_code'' (status_code_name (pa_code ack)) r)) v)))"

definition worker_round :: "dist_arguments \<Rightarrow> (u64 \<Rightarrow> u64) \<Rightarrow> population \<Rightarrow> u32 \<Rightarrow> worker_run \<Rightarrow> unit worker_step" where
  "worker_round a wall p round v =
     (let h = wc_hello (wr_client v); tick = dg_tick a + ucast round in
      step_then (call_step ''publish_error'' 6 (publishing client_publish_capacity wall (round_capacity a h p round)) v) (\<lambda>(ack, capacity) v.
      step_then (stale_step a ack v) (\<lambda>_ v.
      step_then (record_ack ''capacity'' ack v) (\<lambda>_ v.
      step_then (call_step ''publish_error'' 6 (publishing client_publish_reservations wall (round_reservations a h p round)) v) (\<lambda>(ack, s) v.
      step_then (record_ack ''reservation'' ack v) (\<lambda>_ v.
      step_then (call_step ''publish_error'' 6 (publishing client_publish_admissions wall (round_admissions a h p round)) v) (\<lambda>(ack, s) v.
      step_then (record_ack ''admission'' ack v) (\<lambda>_ v.
      step_then (replay_step a wall capacity v) (\<lambda>_ v.
      step_then (call_step ''evaluate_error'' 8 (asking no_decision (client_evaluate (StrongId (dg_domain a)) tick)) v) (\<lambda>x v.
      let v = noting (decision_lines x) v in
      step_then (expect_step a x v) (\<lambda>_ v. revalidate_step a x v)))))))))))"

text \<open>The loop over the rounds: the exit code it ends with.\<close>

fun worker_rounds :: "dist_arguments \<Rightarrow> (u64 \<Rightarrow> u64) \<Rightarrow> population \<Rightarrow> u32 list \<Rightarrow> worker_run \<Rightarrow> (nat \<times> worker_run) option" where
  "worker_rounds a wall p [] v = Some (0, v)"
| "worker_rounds a wall p (n # ns) v =
     (case worker_round a wall p n v of
        None \<Rightarrow> None
      | Some (Inl (code, v)) \<Rightarrow> Some (code, v)
      | Some (Inr (_, v)) \<Rightarrow> worker_rounds a wall p ns v)"

definition dist_worker_options :: "dist_arguments \<Rightarrow> worker_options" where
  "dist_worker_options a =
     \<lparr>wo_publisher = StrongId (dg_publisher a), wo_incarnation = StrongId (dg_incarnation a), wo_domain = StrongId (dg_domain a),
      wo_adopt = dg_adopt a, wo_tick = dg_tick a\<rparr>"

definition worker_slice :: "dist_arguments \<Rightarrow> population" where
  "worker_slice a = slice_domain (synthesize (config_from a)) (StrongId (dg_domain a))"

definition worker_greeting :: "dist_arguments \<Rightarrow> report" where
  "worker_greeting a = report_add_u64 ''domain'' (dg_domain a) (report_add_u64 ''incarnation'' (dg_incarnation a)
     (report_add_u64 ''publisher'' (dg_publisher a) (report_add ''role'' ''worker'' [])))"

definition worker_connected :: "dist_arguments \<Rightarrow> worker_client \<Rightarrow> worker_run" where
  "worker_connected a w =
     (let h = wc_hello w; r = report_add_u64 ''epoch'' (epoch_value (hs_epoch h)) (worker_greeting a);
          r = report_add_u64 ''policy_generation'' (gen_value (hs_policy_generation h)) r;
          r = report_add_u64 ''resumed_sequence'' (hs_last_sequence h) r
      in \<lparr>wr_report = r, wr_client = (if dg_stale_epoch a then set_epoch_override (FabricEpoch (epoch_value (hs_epoch h) + 1)) w else w)\<rparr>)"

definition shut_down :: "nat \<Rightarrow> worker_run \<Rightarrow> (nat \<times> worker_run) option" where
  "shut_down code v =
     (if code \<noteq> 0 then Some (code, v)
      else map_option (\<lambda>(status, w). let v = v\<lparr>wr_client := w\<rparr> in
          if status_ok status then (0, v) else (11, noting (report_add ''shutdown_error'' (status_to_string status)) v))
        (client_shutdown (wr_client v)))"

definition run_worker ::
  "dist_arguments \<Rightarrow> status + framed_connection \<Rightarrow> (u64 \<Rightarrow> u64) \<Rightarrow> bool \<Rightarrow> (nat \<times> report) option" where
  "run_worker a connected wall written =
     (case client_connect (dist_worker_options a) connected new_client of
        None \<Rightarrow> None
      | Some (status, w) \<Rightarrow>
          if \<not> status_ok status then Some (3, report_add ''connect'' (status_to_string status) (worker_greeting a))
          else (case worker_rounds a wall (worker_slice a) (below (dg_rounds a)) (worker_connected a w) of
            None \<Rightarrow> None
          | Some (code, v) \<Rightarrow>
              (case shut_down code v of
                 None \<Rightarrow> None
               | Some (code, v) \<Rightarrow>
                   let r = report_add_u64 ''exit'' (word_of_nat code) (wr_report v)
                   in Some (if report_write written (dg_report_path a) r then code else 12, r))))"

section \<open>The program\<close>

datatype dist_role = Exit nat | Coordinate dist_arguments | Work dist_arguments

definition dist_main :: "string list \<Rightarrow> dist_role" where
  "dist_main tokens =
     (let a = dist_parse tokens in
      if \<not> dg_valid a then Exit 2
      else if dg_role a = ''coordinator'' then Coordinate a
      else if dg_role a = ''worker'' then Work a
      else Exit 2)"

end
