(* ===== verification/Dist_Properties.thy ===== *)
theory Dist_Properties
  imports Dist Worker_Properties
begin

text \<open>
  What the worker process ends with: it exits whenever the coordinator's stream ends, with one of the exit
  codes of the source, and its exit code 0 means what a script takes it for.
\<close>

section \<open>The worker exits\<close>

text \<open>The coordinator's stream ends sooner or later.\<close>

definition settling :: "worker_client \<Rightarrow> bool" where
  "settling w \<longleftrightarrow> ending (fc_in (wc_connection w)) \<noteq> []"

lemma exchange_returns:
  assumes "settling w"
  shows "\<exists>r w'. exchange request payload expected w = Some (r, w') \<and> (\<not> isl r \<longrightarrow> settling w')"
proof -
  obtain s c where c: "send_frame (message_type_to_u32 request) payload (wc_connection w) = (s, c)" by fastforce
  then have e: "ending (fc_in c) \<noteq> []" using assms send_frame_in by (metis settling_def)
  then obtain r c' where r: "recv_frame c = Some (r, c')" using recv_frame_blocks_only_midframe [of c] by fastforce
  with recv_frame_ends [OF r e] e have "isl r \<or> ending (fc_in c') \<noteq> []" by auto
  with c r show ?thesis by (auto simp: exchange_def settling_def Let_def split: sum.split option.split)
qed

lemma call_returns:
  assumes "settling w"
  shows "\<exists>r w'. call request payload expected decode detail w = Some (r, w') \<and> (\<not> isl r \<longrightarrow> settling w')"
proof -
  obtain r w' where "exchange request payload expected w = Some (r, w')" "\<not> isl r \<longrightarrow> settling w'"
    using exchange_returns [OF assms] by blast
  then show ?thesis by (cases r) (auto simp: call_def settling_def split: option.split)
qed

text \<open>An operation of the client that answers, and leaves a stream that ends when it answers with a value.\<close>

definition answering :: "(worker_client \<Rightarrow> ((status + 'a) \<times> worker_client) option) \<Rightarrow> bool" where
  "answering operation \<longleftrightarrow>
     (\<forall>w. settling w \<longrightarrow> (\<exists>r w'. operation w = Some (r, w') \<and> (\<not> isl r \<longrightarrow> settling w')))"

text \<open>An error is never a success, so the worker goes on only with what the coordinator sent.\<close>

lemma failure_not_ok [simp]: "code \<noteq> Status_Ok \<Longrightarrow> \<not> status_ok (status_failure code reason detail)"
  by (simp add: status_ok_def status_failure_def)

lemma read_exact_from_failed: "read_exact_from len got as = Some (Inl s, as') \<Longrightarrow> \<not> status_ok s"
proof (induction len got as rule: read_exact_from.induct)
  case (1 len got as)
  show ?case
  proof (cases "recv_some (len - length got) as")
    case (Some r)
    then obtain x as2 where r: "recv_some (len - length got) as = Some (x, as2)" by (cases r) simp
    show ?thesis
    proof (cases x)
      case (Chunk c)
      then show ?thesis using "1.prems" "1.IH" [OF _ r refl Chunk] r
        by (subst (asm) read_exact_from.simps) (auto split: if_splits)
    next
      case (Recv_failed e)
      then show ?thesis using "1.prems" r
        by (subst (asm) read_exact_from.simps) (auto simp: socket_error_def split: if_splits)
    qed
  qed (use "1.prems" in \<open>subst (asm) read_exact_from.simps, simp split: if_splits\<close>)
qed

lemma read_exact_failed: "read_exact len c = Some (Inl s, c') \<Longrightarrow> \<not> status_ok s"
  using read_exact_from_failed by (force simp: read_exact_def socket_closed_def split: if_splits)

lemma recv_frame_failed: "recv_frame c = Some (Inl s, c') \<Longrightarrow> \<not> status_ok s"
  using read_exact_failed
  by (fastforce simp: recv_frame_def Let_def connection_closed_def split: if_splits option.splits sum.splits)

lemma exchange_failed: "exchange request payload expected w = Some (Inl s, w') \<Longrightarrow> \<not> status_ok s"
  using recv_frame_failed
  by (fastforce simp: exchange_def Let_def wire_malformed_def split: if_splits option.splits sum.splits prod.splits)

lemma call_failed: "call request payload expected decode detail w = Some (Inl s, w') \<Longrightarrow> \<not> status_ok s"
  using exchange_failed
  by (fastforce simp: call_def wire_malformed_def split: option.splits sum.splits)

lemma answering_asking: "answering (asking blank (\<lambda>w. map_option rejection_is_status (call request payload expected decode detail w)))"
proof (unfold answering_def, intro allI impI)
  fix w assume "settling w"
  from call_returns [OF this] obtain r w' where r: "call request payload expected decode detail w = Some (r, w')" "\<not> isl r \<longrightarrow> settling w'"
    by blast
  show "\<exists>r w'. asking blank (\<lambda>w. map_option rejection_is_status (call request payload expected decode detail w)) w = Some (r, w')
    \<and> (\<not> isl r \<longrightarrow> settling w')"
  proof (cases r)
    case (Inl s)
    with r(1) call_failed [of request payload expected decode detail w s w'] show ?thesis by (simp add: asking_def rejection_is_status_def)
  next
    case (Inr x)
    with r show ?thesis by (simp add: asking_def rejection_is_status_def)
  qed
qed

lemma answering_publish: "answering (publish_call kind body)"
proof (unfold answering_def, intro allI impI)
  fix w assume "settling w"
  from call_returns [OF this] obtain r w' where
    "call Msg_Publish (w_u32 (evidence_kind_to_u32 kind) @ body) Msg_PublishAck decode_publish_ack ''PUBLISH_ACK is malformed'' w = Some (r, w')"
    "\<not> isl r \<longrightarrow> settling w'" by blast
  then show "\<exists>r w'. publish_call kind body w = Some (r, w') \<and> (\<not> isl r \<longrightarrow> settling w')"
    by (cases r) (auto simp: publish_call_def split: sum.split)
qed

lemma stamped_settling [simp]:
  "settling (snd (stamp_capacity wall s w)) = settling w"
  "settling (snd (stamp_reservations wall s' w)) = settling w"
  "settling (snd (stamp_admissions wall s'' w)) = settling w"
  by (simp_all add: settling_def stamp_capacity_def stamp_reservations_def stamp_admissions_def stamp_provenance_def Let_def)

lemma answering_publishing:
  assumes operation: "\<And>u s w. operation u s w = (let (s, w) = stamp u s w in
      map_option (\<lambda>(r, w). (r, numbered r s, w)) (publish_call kind (encode s) w))"
    and stamped: "\<And>u s w. settling (snd (stamp u s w)) = settling w"
  shows "answering (publishing operation wall s)"
  unfolding answering_def
proof (intro allI impI)
  fix w assume w: "settling w"
  obtain s' w' where sw: "stamp (wall (wc_sequence w)) s w = (s', w')" by fastforce
  with stamped [of "wall (wc_sequence w)" s w] w have "settling w'" by simp
  with answering_publish [of kind "encode s'"] obtain r v where "publish_call kind (encode s') w' = Some (r, v)" "\<not> isl r \<longrightarrow> settling v"
    unfolding answering_def by blast
  then show "\<exists>r w'. publishing operation wall s w = Some (r, w') \<and> (\<not> isl r \<longrightarrow> settling w')"
    by (cases r) (simp_all add: publishing_def operation sw)
qed

lemma answering_operations:
  "answering (asking blank (client_evaluate i tick))" "answering (asking no_ack (client_revalidate x))"
  "answering (publishing client_publish_capacity wall capacity)"
  "answering (publishing client_publish_reservations wall reservations)"
  "answering (publishing client_publish_admissions wall admissions)"
proof -
  show "answering (asking blank (client_evaluate i tick))" "answering (asking no_ack (client_revalidate x))"
    unfolding client_evaluate_def [abs_def] client_revalidate_def [abs_def] by (rule answering_asking)+
  show "answering (publishing client_publish_capacity wall capacity)"
    by (rule answering_publishing [OF client_publish_capacity_def]) simp
  show "answering (publishing client_publish_reservations wall reservations)"
    by (rule answering_publishing [OF client_publish_reservations_def]) simp
  show "answering (publishing client_publish_admissions wall admissions)"
    by (rule answering_publishing [OF client_publish_admissions_def]) simp
qed

section \<open>The steps of a round\<close>

text \<open>Setting the sequence to what it is changes nothing: \<open>--replay\<close> publishes anew, under the next sequence.\<close>

lemma replay_step_eq:
  "replay_step a wall capacity v =
     (if \<not> dg_replay a then Some (Inr ((), v))
      else step_then (call_step ''replay_error'' 7 (publishing client_publish_capacity wall capacity) v) (\<lambda>(ack, capacity) v.
        Some (Inr ((), noting (\<lambda>r. report_add_flag ''replay_duplicate'' (pa_duplicate ack)
          (report_add ''replay_reason'' (reason_code_name (pa_reason ack))
            (report_add ''replay_code'' (status_code_name (pa_code ack)) r))) v))))"
  by (simp add: replay_step_def set_sequence_def)


text \<open>
  A step that does not wait, whose exit code is one of the codes of the rounds, and behind which the stream
  still ends wherever the worker goes on to use it.
\<close>

definition settled_exit :: "nat \<times> worker_run \<Rightarrow> bool" where
  "settled_exit r \<longleftrightarrow> fst r \<in> {0, 5, 6, 7, 8, 9, 10} \<and> (fst r = 0 \<longrightarrow> settling (wr_client (snd r)))"

definition stepping :: "'a worker_step \<Rightarrow> bool" where
  "stepping m \<longleftrightarrow> (case m of None \<Rightarrow> False | Some (Inl r) \<Rightarrow> settled_exit r | Some (Inr (x, v)) \<Rightarrow> settling (wr_client v))"

lemma stepping_then:
  assumes "stepping m" and "\<And>x v. settling (wr_client v) \<Longrightarrow> stepping (f x v)"
  shows "stepping (step_then m f)"
proof (cases m)
  case (Some r)
  with assms show ?thesis by (cases r) (auto simp: step_then_def stepping_def)
qed (use assms in \<open>simp add: stepping_def\<close>)

lemma stepping_then_pair:
  assumes "stepping m" and "\<And>x y v. settling (wr_client v) \<Longrightarrow> stepping (f x y v)"
  shows "stepping (step_then m (\<lambda>(x, y) v. f x y v))"
  using assms by (auto intro!: stepping_then)

lemma settling_noting [simp]: "wr_client (noting f v) = wr_client v"
  by (simp add: noting_def)

lemma stepping_call:
  assumes "answering operation" and "settling (wr_client v)" and "code \<in> {5, 6, 7, 8, 9, 10}"
  shows "stepping (call_step key code operation v)"
proof -
  from assms obtain r w where "operation (wr_client v) = Some (r, w)" "\<not> isl r \<longrightarrow> settling w" unfolding answering_def by blast
  with assms(3) show ?thesis by (cases r) (auto simp: stepping_def call_step_def settled_exit_def)
qed

lemma stepping_steps:
  assumes "settling (wr_client v)"
  shows "stepping (stale_step a ack v)" "stepping (record_ack what ack v)" "stepping (expect_step a x v)"
    "stepping (replay_step a wall capacity v)" "stepping (revalidate_step a x v)"
proof -
  have go_on: "stepping (Some (Inr (y, noting f v)))" if "settling (wr_client v)" for y f v
    using that by (simp add: stepping_def)
  show "stepping (stale_step a ack v)" "stepping (record_ack what ack v)" "stepping (expect_step a x v)"
    using assms by (simp_all add: stepping_def stale_step_def record_ack_def expect_step_def settled_exit_def Let_def)
  show "stepping (replay_step a wall capacity v)"
  proof (cases "dg_replay a")
    case True
    then show ?thesis
      unfolding replay_step_eq if_not_P [OF not_not [THEN iffD2, OF True]]
      by (intro stepping_then_pair stepping_call answering_operations assms go_on) simp
  qed (use assms in \<open>simp add: replay_step_eq stepping_def\<close>)
  show "stepping (revalidate_step a x v)"
  proof (cases "dg_revalidate a")
    case True
    then show ?thesis
      unfolding revalidate_step_def if_not_P [OF not_not [THEN iffD2, OF True]]
      by (intro stepping_then stepping_call answering_operations assms go_on) simp
  qed (use assms in \<open>simp add: revalidate_step_def stepping_def\<close>)
qed

lemma stepping_round: "settling (wr_client v) \<Longrightarrow> stepping (worker_round a wall p n v)"
  unfolding worker_round_def Let_def
  by (rule stepping_then_pair stepping_then stepping_call answering_operations stepping_steps | assumption | simp)+

lemma stepping_cases [consumes 1, case_names leaves goes_on]:
  assumes "stepping m"
  obtains (leaves) code v where "m = Some (Inl (code, v))" "settled_exit (code, v)"
  | (goes_on) x v where "m = Some (Inr (x, v))" "settling (wr_client v)"
proof (cases m)
  case (Some r)
  with assms that show thesis by (cases r) (auto simp: stepping_def)
qed (use assms in \<open>simp add: stepping_def\<close>)

lemma rounds_return:
  "settling (wr_client v) \<Longrightarrow> \<exists>r. worker_rounds a wall p ns v = Some r \<and> settled_exit r"
proof (induction ns arbitrary: v)
  case (Cons n ns)
  from stepping_round [OF Cons.prems, of a wall p n] show ?case
  proof (cases rule: stepping_cases)
    case (leaves code v')
    then show ?thesis by simp
  next
    case (goes_on x v')
    with Cons.IH [of v'] show ?thesis by simp
  qed
qed (simp add: settled_exit_def)

lemma connect_returns:
  assumes "\<And>c. connected = Inr c \<Longrightarrow> ending (fc_in c) \<noteq> []" and "\<And>s. connected = Inl s \<Longrightarrow> \<not> status_ok s"
  shows "\<exists>s w'. client_connect opts connected w = Some (s, w') \<and> (status_ok s \<longrightarrow> settling w')"
proof (cases connected)
  case (Inl s)
  with assms(2) show ?thesis by (simp add: client_connect_def)
next
  case (Inr c)
  let ?w = "w\<lparr>wc_connection := c, wc_publisher := wo_publisher opts, wc_incarnation := wo_incarnation opts,
                    wc_sequence := 0, wc_evidence_counter := 0, wc_sequence_valid := True\<rparr>"
  let ?q = "\<lparr>hq_version = kProtocolVersion, hq_publisher = wo_publisher opts, hq_incarnation = wo_incarnation opts,
                   hq_domain = wo_domain opts, hq_adopt = wo_adopt opts, hq_tick = wo_tick opts\<rparr>"
  have "settling ?w" using assms(1) Inr by (simp add: settling_def)
  from call_returns [OF this] obtain r w' where
    r: "call Msg_Hello (encode_hello ?q) Msg_HelloAck decode_hello_response ''HELLO_ACK is malformed'' ?w = Some (r, w')"
    and w': "\<not> isl r \<longrightarrow> settling w'" by blast
  show ?thesis
  proof (cases r)
    case (Inl s)
    with r call_failed [of Msg_Hello _ Msg_HelloAck decode_hello_response _ ?w s w'] \<open>connected = Inr c\<close> show ?thesis
      by (auto simp: client_connect_def Let_def)
  next
    case (Inr x)
    with r w' \<open>connected = Inr c\<close> show ?thesis by (cases x) (auto simp: client_connect_def Let_def settling_def)
  qed
qed

lemma shut_down_returns:
  assumes "settled_exit (code, v)"
  shows "\<exists>code' v'. shut_down code v = Some (code', v') \<and> code' \<in> {0, 5, 6, 7, 8, 9, 10, 11}"
proof (cases "code = 0")
  case True
  with assms have "settling (wr_client v)" by (simp add: settled_exit_def)
  from call_returns [OF this] obtain r w' where
    "call Msg_Shutdown [] Msg_ShutdownAck (Some :: u8 list \<Rightarrow> u8 list option) '''' (wr_client v) = Some (r, w')" by blast
  with True show ?thesis by (simp add: shut_down_def client_shutdown_def Let_def)
qed (use assms in \<open>auto simp: shut_down_def settled_exit_def\<close>)

text \<open>
  C22. The worker process exits: whenever the coordinator's stream ends or fails, whatever the coordinator sent
  before, the process leaves every wait and ends with one of the exit codes of the source.
\<close>

theorem worker_exits:
  assumes "\<And>c. connected = Inr c \<Longrightarrow> ending (fc_in c) \<noteq> []" and "\<And>s. connected = Inl s \<Longrightarrow> \<not> status_ok s"
  shows "\<exists>code r. run_worker a connected wall written = Some (code, r) \<and> code \<in> {0, 3, 5, 6, 7, 8, 9, 10, 11, 12}"
proof -
  from connect_returns [OF assms] obtain s w' where
    c: "client_connect (dist_worker_options a) connected new_client = Some (s, w')" "status_ok s \<longrightarrow> settling w'" by blast
  show ?thesis
  proof (cases "status_ok s")
    case True
    with c(2) have "settling (wr_client (worker_connected a w'))" by (simp add: worker_connected_def settling_def set_epoch_override_def Let_def)
    from rounds_return [OF this] obtain code v where
      r: "worker_rounds a wall (worker_slice a) (below (dg_rounds a)) (worker_connected a w') = Some (code, v)" "settled_exit (code, v)" by force
    from shut_down_returns [OF r(2)] r(1) c(1) True show ?thesis by (auto simp: run_worker_def Let_def)
  qed (use c(1) in \<open>simp add: run_worker_def\<close>)
qed

text \<open>A coordinator that hangs up at once: the process ends with the code of a failed connection.\<close>

theorem worker_exits_witness:
  "\<exists>code r. run_worker default_dist_arguments (Inr (idle_connection\<lparr>fc_in := [Hangup], fc_sends := []\<rparr>)) id True = Some (code, r)
    \<and> code \<in> {0, 3, 5, 6, 7, 8, 9, 10, 11, 12}"
  by (rule worker_exits) auto

section \<open>What success means\<close>

text \<open>The values a report has under a key, in order.\<close>

definition reported :: "string \<Rightarrow> report \<Rightarrow> string list" where
  "reported key r = map (drop (length key + 1)) (filter (\<lambda>l. take (length key + 1) l = key @ ''='') r)"

lemma reported_append: "reported key (r @ s) = reported key r @ reported key s"
  by (simp add: reported_def)

lemma reported_add: "reported key (report_add k v r) = reported key r @ reported key [k @ ''='' @ v]"
  by (simp add: report_add_def reported_append)

lemma reported_own: "reported key [key @ ''='' @ v] = [v]"
  by (simp add: reported_def)

text \<open>
  A step that, when the worker goes on, has added \<open>n\<close> lines under the key, all with a value of \<open>Q\<close>, and that
  never leaves the rounds with the code of success.
\<close>

definition adding :: "string \<Rightarrow> (string \<Rightarrow> bool) \<Rightarrow> nat \<Rightarrow> worker_run \<Rightarrow> 'a worker_step \<Rightarrow> bool" where
  "adding key Q n v m \<longleftrightarrow>
     (\<forall>code v'. m = Some (Inl (code, v')) \<longrightarrow> code \<noteq> 0)
     \<and> (\<forall>x v'. m = Some (Inr (x, v')) \<longrightarrow>
          (\<exists>xs. reported key (wr_report v') = reported key (wr_report v) @ xs \<and> length xs = n \<and> list_all Q xs))"

lemma adding_then:
  assumes "adding key Q n v m" and "\<And>x v. adding key Q k v (f x v)"
  shows "adding key Q (n + k) v (step_then m f)"
proof (cases m)
  case (Some r)
  show ?thesis
  proof (cases r)
    case (Inr y)
    obtain x v' where y: "y = (x, v')" by fastforce
    from assms(1) Some Inr y obtain xs where xs: "reported key (wr_report v') = reported key (wr_report v) @ xs" "length xs = n" "list_all Q xs"
      by (auto simp: adding_def)
    have "step_then m f = f x v'" using Some Inr y by (simp add: step_then_def)
    then show ?thesis
      using assms(2) [of v' x] xs unfolding adding_def by (metis append.assoc length_append list_all_append)
  qed (use assms(1) Some in \<open>simp add: adding_def step_then_def\<close>)
qed (simp add: adding_def step_then_def)

lemma adding_then_pair:
  "adding key Q n v m \<Longrightarrow> (\<And>x y v. adding key Q k v (f x y v)) \<Longrightarrow> adding key Q (n + k) v (step_then m (\<lambda>(x, y) v. f x y v))"
  by (auto intro!: adding_then)

lemma adding_call: "code \<noteq> 0 \<Longrightarrow> adding key Q 0 v (call_step k code operation v)"
proof (cases "operation (wr_client v)")
  case (Some r)
  moreover obtain y w where "r = (y, w)" by fastforce
  moreover assume "code \<noteq> 0"
  ultimately show ?thesis by (cases y) (simp_all add: adding_def call_step_def)
qed (simp add: adding_def call_step_def)

lemma adding_lines: "reported key (f (wr_report v)) = reported key (wr_report v) \<Longrightarrow> adding key Q 0 v (Some (Inr (x, noting f v)))"
  by (simp add: adding_def noting_def)

lemma adding_nothing: "adding key Q 0 v (Some (Inr (x, v)))"
  by (simp add: adding_def)

lemma adding_stale: "\<not> dg_stale_epoch a \<Longrightarrow> adding key Q 0 v (stale_step a ack v)"
  by (simp add: stale_step_def adding_nothing)

definition accepted_name :: "string \<Rightarrow> bool" where
  "accepted_name s \<longleftrightarrow> s \<in> {status_code_name Status_Ok, status_code_name Status_Duplicate}"

text \<open>The keys success is read from.\<close>

definition success_keys :: "string set" where
  "success_keys = {''outcome'', ''capacity_code'', ''reservation_code'', ''admission_code''}"

lemma adding_ack:
  assumes "key \<in> success_keys" and "what \<in> {''capacity'', ''reservation'', ''admission''}" and "key = what @ ''_code'' \<Longrightarrow> Q = accepted_name"
  shows "adding key Q (if key = what @ ''_code'' then 1 else 0) v (record_ack what ack v)"
proof -
  have "reported key [(what @ suffix) @ ''='' @ x] = []" if "suffix \<in> {''_reason'', ''_generation'', ''_duplicate''}" for suffix x
    using assms(1,2) that by (auto simp: reported_def success_keys_def)
  then have other: "reported key (report_add (what @ suffix) x r) = reported key r"
    if "suffix \<in> {''_reason'', ''_generation'', ''_duplicate''}" for suffix x r
    using that by (simp only: reported_add append_Nil2)
  define added where "added = (\<lambda>x. if key = what @ ''_code'' then [x] else ([] :: string list))"
  have "reported key [(what @ ''_code'') @ ''='' @ x] = added x" for x
    using assms(1,2) by (auto simp: reported_def success_keys_def added_def)
  then have code: "reported key (report_add (what @ ''_code'') x r) = reported key r @ added x" for x r
    by (simp only: reported_add)
  have "\<exists>v'. record_ack what ack v = Some (if ack_accepted ack then Inr ((), v') else Inl (5, v'))
      \<and> reported key (wr_report v') = reported key (wr_report v) @ added (status_code_name (pa_code ack))"
    by (simp add: record_ack_def Let_def noting_def report_add_u64_def other code)
  then show ?thesis
    using assms(3) by (auto simp: adding_def accepted_name_def ack_accepted_def added_def split: if_splits)
qed

lemma adding_replay:
  assumes "key \<in> success_keys"
  shows "adding key Q 0 v (replay_step a wall capacity v)"
proof -
  have "reported key [k @ ''='' @ x] = []" if "k \<in> {''replay_code'', ''replay_reason'', ''replay_duplicate''}" for k x
    using assms that by (auto simp: reported_def success_keys_def)
  then have "reported key (report_add k x r) = reported key r" if "k \<in> {''replay_code'', ''replay_reason'', ''replay_duplicate''}" for k x r
    using that by (simp add: reported_add)
  then have "adding key Q (0 + 0) v (step_then (call_step ''replay_error'' 7 (publishing client_publish_capacity wall capacity) v) (\<lambda>(ack, capacity) v.
        Some (Inr ((), noting (\<lambda>r. report_add_flag ''replay_duplicate'' (pa_duplicate ack)
          (report_add ''replay_reason'' (reason_code_name (pa_reason ack))
            (report_add ''replay_code'' (status_code_name (pa_code ack)) r))) v))))"
    by (intro adding_then_pair adding_call adding_lines) (simp_all add: report_add_flag_def report_add_u64_def)
  then show ?thesis by (simp add: replay_step_eq adding_nothing)
qed

lemma adding_revalidation:
  assumes "key \<in> success_keys"
  shows "adding key Q 0 v (revalidate_step a x v)"
proof -
  have "reported key [k @ ''='' @ y] = []" if "k \<in> {''revalidate_valid'', ''revalidate_reason''}" for k y
    using assms that by (auto simp: reported_def success_keys_def)
  then have "reported key (report_add k y r) = reported key r" if "k \<in> {''revalidate_valid'', ''revalidate_reason''}" for k y r
    using that by (simp add: reported_add)
  then have "adding key Q (0 + 0) v (step_then (call_step ''revalidate_error'' 10 (asking no_revalidation (client_revalidate x)) v) (\<lambda>ack v.
        Some (Inr ((), noting (\<lambda>r. report_add ''revalidate_reason'' (reason_code_name (ra_reason ack))
          (report_add_flag ''revalidate_valid'' (ra_valid ack) r)) v))))"
    by (intro adding_then adding_call adding_lines) (simp_all add: report_add_flag_def report_add_u64_def)
  then show ?thesis by (simp add: revalidate_step_def adding_nothing)
qed

lemma decision_reported:
  "reported ''outcome'' (decision_lines x r) = reported ''outcome'' r @ [outcome_name (er_outcome (de_evaluation x))]"
  "key \<in> {''capacity_code'', ''reservation_code'', ''admission_code''} \<Longrightarrow> reported key (decision_lines x r) = reported key r"
  by (auto simp: decision_lines_def Let_def reported_append) (simp_all add: reported_def)

lemma adding_decision:
  assumes "key \<in> success_keys" and "key = ''outcome'' \<Longrightarrow> Q = (\<lambda>s. s = dg_expect_outcome a) \<and> dg_expect_outcome a \<noteq> ''''"
  shows "adding key Q (if key = ''outcome'' then 1 else 0) v (step_then (expect_step a x (noting (decision_lines x) v)) (\<lambda>_ v. revalidate_step a x v))"
proof -
  have "adding key Q (if key = ''outcome'' then 1 else 0) v (expect_step a x (noting (decision_lines x) v))"
    using assms by (auto simp: adding_def expect_step_def noting_def decision_reported success_keys_def split: if_splits)
  from adding_then [OF this, where f = "\<lambda>_ v. revalidate_step a x v" and k = 0, OF adding_revalidation [OF assms(1)]] show ?thesis by simp
qed

text \<open>A round adds one line under each key of success.\<close>

lemma adding_round:
  assumes "key \<in> success_keys" and "\<not> dg_stale_epoch a"
    and "Q = (if key = ''outcome'' then (\<lambda>s. s = dg_expect_outcome a) else accepted_name)"
    and "key = ''outcome'' \<Longrightarrow> dg_expect_outcome a \<noteq> ''''"
  shows "adding key Q 1 v (worker_round a wall p n v)"
proof -
  have ack: "adding key Q (if key = ''capacity_code'' then 1 else 0) v (record_ack ''capacity'' ack v)"
    "adding key Q (if key = ''reservation_code'' then 1 else 0) v (record_ack ''reservation'' ack v)"
    "adding key Q (if key = ''admission_code'' then 1 else 0) v (record_ack ''admission'' ack v)" for v ack
    using adding_ack [OF assms(1), of "''capacity''" Q v ack] adding_ack [OF assms(1), of "''reservation''" Q v ack]
      adding_ack [OF assms(1), of "''admission''" Q v ack] assms(3) by (auto split: if_splits)
  have decision: "adding key Q (if key = ''outcome'' then 1 else 0) v
      (step_then (expect_step a x (noting (decision_lines x) v)) (\<lambda>_ v. revalidate_step a x v))" for x v
    using adding_decision [OF assms(1)] assms(3,4) by simp
  have "adding key Q (0 + (0 + ((if key = ''capacity_code'' then 1 else 0) + (0 + ((if key = ''reservation_code'' then 1 else 0)
      + (0 + ((if key = ''admission_code'' then 1 else 0) + (0 + (0 + (if key = ''outcome'' then 1 else 0)))))))))) v (worker_round a wall p n v)"
    unfolding worker_round_def Let_def
    by (rule decision adding_then_pair adding_then adding_call adding_stale [OF assms(2)] adding_replay [OF assms(1)] ack | simp)+
  then show ?thesis using assms(1) by (auto simp: success_keys_def)
qed

lemma adding_rounds:
  assumes "worker_rounds a wall p ns v = Some (0, v')" and "\<And>n v. adding key Q 1 v (worker_round a wall p n v)"
  shows "\<exists>xs. reported key (wr_report v') = reported key (wr_report v) @ xs \<and> length xs = length ns \<and> list_all Q xs"
  using assms(1)
proof (induction ns arbitrary: v)
  case (Cons n ns)
  from Cons.prems assms(2) [of v n] obtain v2 where v2: "worker_round a wall p n v = Some (Inr ((), v2))" "worker_rounds a wall p ns v2 = Some (0, v')"
    by (auto simp: adding_def split: option.splits sum.splits)
  with assms(2) [of v n] obtain xs where "reported key (wr_report v2) = reported key (wr_report v) @ xs" "length xs = 1" "list_all Q xs"
    by (auto simp: adding_def)
  moreover from Cons.IH [OF v2(2)] obtain ys where "reported key (wr_report v') = reported key (wr_report v2) @ ys" "length ys = length ns" "list_all Q ys"
    by blast
  ultimately show ?case by (intro exI [of _ "xs @ ys"]) simp
qed simp

text \<open>The lines around the rounds have other keys.\<close>

lemma reported_around:
  assumes "key \<in> success_keys"
  shows "reported key (wr_report (worker_connected a w)) = []" "reported key (report_add_u64 ''exit'' n r) = reported key r"
proof -
  have "reported key [k @ ''='' @ y] = []"
    if "k \<in> {''role'', ''publisher'', ''incarnation'', ''domain'', ''epoch'', ''policy_generation'', ''resumed_sequence'', ''exit''}" for k y
    using assms that by (auto simp: reported_def success_keys_def)
  then have "reported key (report_add k y r) = reported key r"
    if "k \<in> {''role'', ''publisher'', ''incarnation'', ''domain'', ''epoch'', ''policy_generation'', ''resumed_sequence'', ''exit''}" for k y r
    using that by (simp add: reported_add)
  then show "reported key (wr_report (worker_connected a w)) = []" "reported key (report_add_u64 ''exit'' n r) = reported key r"
    by (simp_all add: worker_connected_def worker_greeting_def report_add_u64_def Let_def) (simp add: reported_def)
qed

lemma shut_down_success: "shut_down code v = Some (0, v') \<Longrightarrow> code = 0 \<and> wr_report v' = wr_report v"
  by (auto simp: shut_down_def Let_def noting_def split: if_splits)

lemma successful_run:
  assumes "run_worker a connected wall written = Some (0, r)"
  obtains v v' where "worker_rounds a wall (worker_slice a) (below (dg_rounds a)) v = Some (0, v')"
    "\<And>key. key \<in> success_keys \<Longrightarrow> reported key (wr_report v) = [] \<and> reported key r = reported key (wr_report v')"
proof -
  from assms obtain s w' where c: "client_connect (dist_worker_options a) connected new_client = Some (s, w')" "status_ok s"
    by (auto simp: run_worker_def split: option.splits if_splits)
  with assms obtain code v where v: "worker_rounds a wall (worker_slice a) (below (dg_rounds a)) (worker_connected a w') = Some (code, v)"
    by (auto simp: run_worker_def split: option.splits)
  with assms c obtain code' v' where d: "shut_down code v = Some (code', v')"
    by (auto simp: run_worker_def split: option.splits)
  with assms c v have "code' = 0" "r = report_add_u64 ''exit'' 0 (wr_report v')"
    by (auto simp: run_worker_def Let_def split: if_splits)
  with d shut_down_success v that [of "worker_connected a w'" v] reported_around show thesis by auto
qed


section \<open>A successful run\<close>

text \<open>The frames \<open>fs\<close> are next on the stream of the worker.\<close>

definition hears :: "(u32 \<times> u8 list) list \<Rightarrow> worker_client \<Rightarrow> bool" where
  "hears fs w \<longleftrightarrow> usable (wc_connection w) \<and> takes_all (fc_sends (wc_connection w))
     \<and> stream (fc_in (wc_connection w)) = concat (map frame_bytes fs)"

lemma call_heard:
  assumes "hears ((message_type_to_u32 expected, response) # fs) w" and "length payload \<le> 1048576" and "length response \<le> 1048576"
    and "message_type_to_u32 expected \<noteq> message_type_to_u32 Msg_Reject" and "decode response = Some x"
  obtains w' where "call request payload expected decode detail w = Some (Inr (Inr x), w')" "hears fs w'"
proof -
  let ?c = "wc_connection w" and ?q = "(message_type_to_u32 request, payload)"
  from assms(1,2) send_frame_taken [of ?c ?q] obtain outs where
    sent: "send_frame (message_type_to_u32 request) payload ?c = (status_success, ?c\<lparr>fc_out := fc_out ?c @ frame_bytes ?q, fc_sends := outs\<rparr>)"
    and outs: "takes_all outs" by (auto simp: hears_def payload_fits_def)
  let ?d = "?c\<lparr>fc_out := fc_out ?c @ frame_bytes ?q, fc_sends := outs\<rparr>"
  have "usable ?d" "stream (fc_in ?d) = frame_bytes (message_type_to_u32 expected, response) @ concat (map frame_bytes fs)"
    using assms(1) by (simp_all add: hears_def)
  from recv_frame_whole [OF this] assms(3) obtain as where
    "recv_frame ?d = Some (Inr (message_type_to_u32 expected, response), ?d\<lparr>fc_in := as\<rparr>)" "stream as = concat (map frame_bytes fs)"
    by (auto simp: payload_fits_def)
  with assms(1,4,5) sent outs show thesis
    by (intro that [of "w\<lparr>wc_rejected := None, wc_connection := ?d\<lparr>fc_in := as\<rparr>\<rparr>"])
      (simp_all add: call_def exchange_def Let_def hears_def)
qed

definition good_ack :: publish_ack where
  "good_ack = \<lparr>pa_code = Status_Ok, pa_reason = Reason_None, pa_generation = 1, pa_duplicate = False, pa_detail = ''''\<rparr>"

lemma good_ack_received: "received_ack good_ack = good_ack"
  by (simp add: received_ack_def good_ack_def status_code_of_u32_def)

definition ack_frame :: "u32 \<times> u8 list" where
  "ack_frame = (message_type_to_u32 Msg_PublishAck, encode_publish_ack good_ack)"

lemma publish_heard:
  assumes "hears (ack_frame # fs) w" and "length body \<le> 1048572"
  obtains w' where "publish_call kind body w = Some (Inr good_ack, w')" "hears fs w'"
proof -
  obtain w' where "call Msg_Publish (w_u32 (evidence_kind_to_u32 kind) @ body) Msg_PublishAck decode_publish_ack ''PUBLISH_ACK is malformed'' w
      = Some (Inr (Inr good_ack), w')" "hears fs w'"
    by (rule call_heard [OF assms(1) [unfolded ack_frame_def], of "w_u32 (evidence_kind_to_u32 kind) @ body" decode_publish_ack good_ack])
      (use assms(2) in \<open>simp_all add: publish_ack_length publish_ack_round good_ack_received\<close>)
  then show thesis by (intro that [of w']) (simp_all add: publish_call_def)
qed

lemma stamped_hears [simp]:
  "hears fs (snd (stamp_capacity t s w)) = hears fs w" "hears fs (snd (stamp_reservations t s' w)) = hears fs w"
  "hears fs (snd (stamp_admissions t s'' w)) = hears fs w"
  by (simp_all add: hears_def stamp_capacity_def stamp_reservations_def stamp_admissions_def stamp_provenance_def Let_def)

lemma stamped_small:
  "cs_resources s = [] \<Longrightarrow> length (encode_capacity_snapshot (fst (stamp_capacity t s w))) \<le> 1048572"
  "rs_guarantees s' = [] \<Longrightarrow> length (encode_reservation_snapshot (fst (stamp_reservations t s' w))) \<le> 1048572"
  "as_records s'' = [] \<Longrightarrow> length (encode_admission_snapshot (fst (stamp_admissions t s'' w))) \<le> 1048572"
  using capacity_digest_ok reservation_digest_ok admission_digest_ok
  by (simp_all add: encode_capacity_snapshot_def encode_reservation_snapshot_def encode_admission_snapshot_def w_list_def w_size_def
      write_provenance_def w_digest_def w_raw_def stamp_capacity_def stamp_reservations_def stamp_admissions_def
      stamp_provenance_def Let_def digest_ok_def)

lemma publishing_heard:
  assumes operation: "\<And>u s w. operation u s w = (let (s, w) = stamp u s w in
      map_option (\<lambda>(r, w). (r, numbered r s, w)) (publish_call kind (encode s) w))"
    and stamped: "\<And>u s w. hears (ack_frame # fs) (snd (stamp u s w)) = hears (ack_frame # fs) w"
    and small: "\<And>u w. length (encode (fst (stamp u s w))) \<le> 1048572"
    and v: "hears (ack_frame # fs) (wr_client v)"
  obtains x w' where "call_step key code (publishing operation wall s) v = Some (Inr ((good_ack, x), v\<lparr>wr_client := w'\<rparr>))" "hears fs w'"
proof -
  let ?w = "wr_client v" let ?u = "wall (wc_sequence ?w)"
  obtain s' w1 where sw: "stamp ?u s ?w = (s', w1)" by fastforce
  with stamped [of ?u s ?w] v small [of ?u ?w] obtain w' where "publish_call kind (encode s') w1 = Some (Inr good_ack, w')" "hears fs w'"
    using publish_heard [of fs w1 "encode s'" kind] by auto
  with sw show thesis
    by (intro that [of "numbered (Inr good_ack) s'" w']) (simp_all add: call_step_def publishing_def operation)
qed

definition one_round :: dist_arguments where
  "one_round = default_dist_arguments\<lparr>dg_domains := 0, dg_rounds := 1, dg_expect_outcome := outcome_name Outcome_Unknown\<rparr>"

text \<open>Without domains the slice holds no records.\<close>

lemma one_round_slice:
  "cs_resources (round_capacity one_round h (worker_slice one_round) n) = []"
  "rs_guarantees (round_reservations one_round h (worker_slice one_round) n) = []"
  "as_records (round_admissions one_round h (worker_slice one_round) n) = []"
proof -
  have "find_domain (po_policy (synthesize (config_from one_round))) i = None" for i
    by (simp add: synthesize_def sealed_def Let_def find_domain_def synth_policy_def config_from_def one_round_def below_def compute_policy_digest_def split: prod.split)
  then show "cs_resources (round_capacity one_round h (worker_slice one_round) n) = []"
    "rs_guarantees (round_reservations one_round h (worker_slice one_round) n) = []"
    "as_records (round_admissions one_round h (worker_slice one_round) n) = []"
    by (simp_all add: round_capacity_def round_reservations_def round_admissions_def worker_slice_def slice_domain_def Let_def
        keep_capacity_def keep_reservations_def keep_admissions_def)
qed

definition decision_frame :: "u32 \<times> u8 list" where
  "decision_frame = (message_type_to_u32 Msg_Decision, encode_decision no_decision)"

lemma decision_arrives:
  "decode_decision (encode_decision no_decision) = Some no_decision" "length (encode_decision no_decision) \<le> 1048576"
proof -
  have "decision_sendable no_decision"
    by (simp add: decision_sendable_def result_sendable_def recordable_def no_decision_def result_zero_def accounting_zero_def
        authority_unset_def wf_outcome_def wf_constraint_def)
  from decision_round [OF this] show "decode_decision (encode_decision no_decision) = Some no_decision"
    by (simp add: received_decision_def received_result_def no_decision_def result_zero_def)
  show "length (encode_decision no_decision) \<le> 1048576"
    using detail_length [of "''''"]
    by (simp add: encode_decision_def no_decision_def result_zero_def Let_def w_digest_def w_raw_def digest_zero_def
        write_accounting_def write_authority_def accounting_zero_def authority_unset_def w_bounded_def w_list_def w_size_def)
qed

lemmas one_round_small = stamped_small(1) [OF one_round_slice(1)] stamped_small(2) [OF one_round_slice(2)] stamped_small(3) [OF one_round_slice(3)]

lemma round_heard:
  assumes "hears (ack_frame # ack_frame # ack_frame # decision_frame # fs) (wr_client v)"
  obtains v' where "worker_round one_round wall (worker_slice one_round) n v = Some (Inr ((), v'))" "hears fs (wr_client v')"
proof -
  let ?h = "wc_hello (wr_client v)" and ?p = "worker_slice one_round"
  have noting: "hears gs (wr_client (noting f v)) = hears gs (wr_client v)" for gs f v by (simp add: noting_def)
  obtain x w1 where 1: "call_step ''publish_error'' 6 (publishing client_publish_capacity wall (round_capacity one_round ?h ?p n)) v
      = Some (Inr ((good_ack, x), v\<lparr>wr_client := w1\<rparr>))" "hears (ack_frame # ack_frame # decision_frame # fs) w1"
    by (rule publishing_heard [OF client_publish_capacity_def], rule stamped_hears, rule one_round_small, rule assms)
  have ack: "\<exists>f. record_ack what good_ack v = Some (Inr ((), noting f v))" for what v
    by (auto simp: record_ack_def ack_accepted_def good_ack_def)
  from ack [of "''capacity''" "v\<lparr>wr_client := w1\<rparr>"] obtain f1 where a1: "record_ack ''capacity'' good_ack (v\<lparr>wr_client := w1\<rparr>) = Some (Inr ((), noting f1 (v\<lparr>wr_client := w1\<rparr>)))" ..
  define v1 where "v1 = noting f1 (v\<lparr>wr_client := w1\<rparr>)"
  have h1: "hears (ack_frame # ack_frame # decision_frame # fs) (wr_client v1)" using 1 by (simp add: v1_def)
  obtain y w2 where 2: "call_step ''publish_error'' 6 (publishing client_publish_reservations wall (round_reservations one_round ?h ?p n)) v1
      = Some (Inr ((good_ack, y), v1\<lparr>wr_client := w2\<rparr>))" "hears (ack_frame # decision_frame # fs) w2"
    by (rule publishing_heard [OF client_publish_reservations_def], rule stamped_hears, rule one_round_small, rule h1)
  from ack [of "''reservation''" "v1\<lparr>wr_client := w2\<rparr>"] obtain f2 where a2: "record_ack ''reservation'' good_ack (v1\<lparr>wr_client := w2\<rparr>) = Some (Inr ((), noting f2 (v1\<lparr>wr_client := w2\<rparr>)))" ..
  define v2 where "v2 = noting f2 (v1\<lparr>wr_client := w2\<rparr>)"
  have h2: "hears (ack_frame # decision_frame # fs) (wr_client v2)" using 2 by (simp add: v2_def)
  obtain z w3 where 3: "call_step ''publish_error'' 6 (publishing client_publish_admissions wall (round_admissions one_round ?h ?p n)) v2
      = Some (Inr ((good_ack, z), v2\<lparr>wr_client := w3\<rparr>))" "hears (decision_frame # fs) w3"
    by (rule publishing_heard [OF client_publish_admissions_def], rule stamped_hears, rule one_round_small, rule h2)
  from ack [of "''admission''" "v2\<lparr>wr_client := w3\<rparr>"] obtain f3 where a3: "record_ack ''admission'' good_ack (v2\<lparr>wr_client := w3\<rparr>) = Some (Inr ((), noting f3 (v2\<lparr>wr_client := w3\<rparr>)))" ..
  define v3 where "v3 = noting f3 (v2\<lparr>wr_client := w3\<rparr>)"
  have h3: "hears (decision_frame # fs) (wr_client v3)" using 3 by (simp add: v3_def)
  obtain w4 where 4: "call Msg_Evaluate (w_u64 (dg_domain one_round) @ w_u64 (dg_tick one_round + ucast n)) Msg_Decision decode_decision ''DECISION is malformed'' (wr_client v3)
      = Some (Inr (Inr no_decision), w4)" "hears fs w4"
    by (rule call_heard [OF h3 [unfolded decision_frame_def], where request = Msg_Evaluate
          and payload = "w_u64 (dg_domain one_round) @ w_u64 (dg_tick one_round + ucast n)" and decode = decode_decision and x = no_decision
          and detail = "''DECISION is malformed''"])
      (simp_all add: decision_arrives)
  have "worker_round one_round wall ?p n v = Some (Inr ((), noting (decision_lines no_decision) (v3\<lparr>wr_client := w4\<rparr>)))"
    using 1(1) a1 2(1) a2 3(1) a3 4(1)
    by (simp add: worker_round_def Let_def step_then_def v1_def v2_def v3_def stale_step_def replay_step_eq expect_step_def
        revalidate_step_def one_round_def default_dist_arguments_def call_step_def [of "''evaluate_error''"] asking_def client_evaluate_def
        rejection_is_status_def no_decision_def result_zero_def)
  with 4(2) that show thesis by (simp add: noting_def)
qed

definition greeting :: hello_response where
  "greeting = \<lparr>hs_version = kProtocolVersion, hs_epoch = FabricEpoch 1, hs_policy_generation = Gen 1, hs_capacity_generation = 0,
     hs_reservation_generation = 0, hs_admission_generation = 0, hs_last_sequence = 0\<rparr>"

lemma greeting_arrives: "decode_hello_response (encode_hello_response greeting) = Some greeting" "length (encode_hello_response greeting) \<le> 1048576"
proof -
  show "decode_hello_response (encode_hello_response greeting) = Some greeting"
    unfolding decode_hello_response_def by (intro whole_exact) (simp add: encode_hello_response_def codec_simps u64_codec.dec_enc_exact greeting_def)
qed (simp add: encode_hello_response_def)

text \<open>What a coordinator sends to a worker with one round.\<close>

definition served_once :: framed_connection where
  "served_once = idle_connection\<lparr>fc_in := [Arrived (concat (map frame_bytes
     [(message_type_to_u32 Msg_HelloAck, encode_hello_response greeting), ack_frame, ack_frame, ack_frame, decision_frame,
      (message_type_to_u32 Msg_ShutdownAck, [])]))], fc_sends := []\<rparr>"

lemma one_round_connects:
  obtains w' where "client_connect (dist_worker_options one_round) (Inr served_once) w = Some (status_success, w')"
    "hears [ack_frame, ack_frame, ack_frame, decision_frame, (message_type_to_u32 Msg_ShutdownAck, [])] w'"
proof -
  let ?o = "dist_worker_options one_round"
  let ?w = "w\<lparr>wc_connection := served_once, wc_publisher := wo_publisher ?o, wc_incarnation := wo_incarnation ?o,
                    wc_sequence := 0, wc_evidence_counter := 0, wc_sequence_valid := True\<rparr>"
  let ?q = "\<lparr>hq_version = kProtocolVersion, hq_publisher = wo_publisher ?o, hq_incarnation = wo_incarnation ?o,
                   hq_domain = wo_domain ?o, hq_adopt = wo_adopt ?o, hq_tick = wo_tick ?o\<rparr>"
  have "hears [(message_type_to_u32 Msg_HelloAck, encode_hello_response greeting), ack_frame, ack_frame, ack_frame, decision_frame,
      (message_type_to_u32 Msg_ShutdownAck, [])] ?w"
    by (simp add: hears_def served_once_def idle_connection_def takes_all_def)
  then obtain w' where w': "call Msg_Hello (encode_hello ?q) Msg_HelloAck decode_hello_response ''HELLO_ACK is malformed'' ?w = Some (Inr (Inr greeting), w')"
    "hears [ack_frame, ack_frame, ack_frame, decision_frame, (message_type_to_u32 Msg_ShutdownAck, [])] w'"
    by (rule call_heard [where request = Msg_Hello and payload = "encode_hello ?q" and decode = decode_hello_response and x = greeting
          and detail = "''HELLO_ACK is malformed''"])
      (simp_all add: greeting_arrives, simp add: encode_hello_def)
  have "client_connect ?o (Inr served_once) w = Some (status_success, w'\<lparr>wc_hello := greeting, wc_sequence := 0, wc_evidence_counter := 0\<rparr>)"
    using w'(1) by (simp add: client_connect_def Let_def dist_worker_options_def one_round_def default_dist_arguments_def greeting_def id_valid_def)
  with w'(2) that show thesis by (simp add: hears_def)
qed

text \<open>The run against that coordinator ends with success, and its report shows one accepted, decided round.\<close>

lemma one_round_succeeds: "\<exists>r. run_worker one_round (Inr served_once) wall True = Some (0, r)"
proof -
  obtain w1 where w1: "client_connect (dist_worker_options one_round) (Inr served_once) new_client = Some (status_success, w1)"
    "hears [ack_frame, ack_frame, ack_frame, decision_frame, (message_type_to_u32 Msg_ShutdownAck, [])] w1"
    by (rule one_round_connects)
  have "hears [ack_frame, ack_frame, ack_frame, decision_frame, (message_type_to_u32 Msg_ShutdownAck, [])] (wr_client (worker_connected one_round w1))"
    using w1(2) by (simp add: worker_connected_def Let_def one_round_def default_dist_arguments_def)
  then obtain v where v: "worker_round one_round wall (worker_slice one_round) 0 (worker_connected one_round w1) = Some (Inr ((), v))"
    "hears [(message_type_to_u32 Msg_ShutdownAck, [])] (wr_client v)"
    by (rule round_heard)
  have "below (dg_rounds one_round) = [0]" by (simp add: below_def one_round_def)
  with v(1) have rounds: "worker_rounds one_round wall (worker_slice one_round) (below (dg_rounds one_round)) (worker_connected one_round w1) = Some (0, v)"
    by simp
  obtain w2 where "call Msg_Shutdown [] Msg_ShutdownAck (Some :: u8 list \<Rightarrow> u8 list option) '''' (wr_client v) = Some (Inr (Inr []), w2)"
    by (rule call_heard [OF v(2), where request = Msg_Shutdown and payload = "[]" and decode = Some and x = "[]" and detail = "''''"]) simp_all
  then have "shut_down 0 v = Some (0, v\<lparr>wr_client := client_close w2\<rparr>)"
    by (simp add: shut_down_def client_shutdown_def)
  with w1(1) rounds show ?thesis by (simp add: run_worker_def Let_def report_write_def)
qed


end
