(* ===== verification/Spec2Isabelle.thy ===== *)
theory Spec2Isabelle
  imports Evaluation_Bounds Input_Properties Jobs_Properties Hysteresis_Properties Ingestion_Properties Restart_Properties
    Explain Worker_Properties Sockets Adapters Process Cli_Properties Dist_Properties
begin

text \<open>
  The Oversubscription Governor decides how far a pool of resources may be committed beyond its capacity. This
  library models the program under \<^verbatim>\<open>src/\<close> and states what makes it correct. This theory imports the whole of
  it; each theory below opens with what it holds.

  \<^bold>\<open>How the program works.\<close> Publishers send numbered, digested evidence about a domain: a capacity snapshot, the
  reservations and the admissions. The governor (\<^verbatim>\<open>src/governor.cpp\<close>) holds one slot per domain and kind of
  evidence, a table of publishers, a validated policy, the fabric epoch and its own incarnation. An evaluation
  hands the policy and the evidence to the pure function \<^verbatim>\<open>evaluate_domain\<close> (\<^verbatim>\<open>src/engine.cpp\<close>), passes the raw
  outcome through the hysteresis of the domain, appends an audit record to the journal, commits the state of the
  domain in memory and answers a digested decision, which can be revalidated later. The store
  (\<^verbatim>\<open>src/persistence.cpp\<close>) keeps a state file and the journal; a restart loads the file and replays the journal over
  it. A coordinator (\<^verbatim>\<open>dist/coordinator.cpp\<close>) serves the governor to worker clients (\<^verbatim>\<open>dist/worker.cpp\<close>) over framed
  connections (\<^verbatim>\<open>src/net.cpp\<close>) and the wire protocol (\<^verbatim>\<open>dist/protocol.cpp\<close>). Two programs, \<^verbatim>\<open>cli/main.cpp\<close> and
  \<^verbatim>\<open>dist/main.cpp\<close>, run all this on synthetic populations (\<^verbatim>\<open>src/synth.cpp\<close>).

  \<^bold>\<open>Conventions.\<close> A struct is a record whose fields carry a short prefix, an enumeration a datatype with one more
  constructor for the words outside it, a fixed-width integer a word of its width, \<^verbatim>\<open>std::string\<close> a character list.
  An operation of a class is a function that takes the object and returns it changed, with its status; a function
  with output parameters returns a sum whose left side is the status of the failure. Early returns are chained with
  the combinators of Prelude. Locks and condition variables are not part of the state: an operation that holds
  the mutex is one step, and the interleavings are step relations.

  \<^bold>\<open>Theories and code.\<close>
  \<^item> Prelude, Checked, Digest, Bytes: the integer types, \<^verbatim>\<open>checked.hpp\<close>, \<^verbatim>\<open>digest.hpp\<close> (SHA-256 with its streaming
    context), \<^verbatim>\<open>bytes.hpp\<close>. Status, Ids: \<^verbatim>\<open>status.hpp\<close>, \<^verbatim>\<open>ids.hpp\<close>.
  \<^item> Evidence, Policy: \<^verbatim>\<open>evidence.cpp\<close>, \<^verbatim>\<open>policy.cpp\<close>, \<^verbatim>\<open>clock.cpp\<close>: data, digests, validators, the sorted index.
  \<^item> Engine, Evaluate: \<^verbatim>\<open>engine.cpp\<close>, phase by phase. Explain: \<^verbatim>\<open>explain_evaluation\<close> and \<^verbatim>\<open>Governor::explain\<close>.
    Evaluate_Facts, Boundary_Facts, Evaluation_Contract, Evaluation_Spec, Verdict, Evaluation_Bounds: what an
    evaluation decides.
  \<^item> State, Persistence, Journal with their Facts and Properties: \<^verbatim>\<open>state.cpp\<close>, \<^verbatim>\<open>persistence.cpp\<close>. The file system
    is a record of two files and the outcomes of the coming file operations.
  \<^item> Governor: \<^verbatim>\<open>governor.cpp\<close> without the job queue, which is Jobs. Governor_Facts, Governor_Invariant,
    Governor_Open, Governor_Durable, Decision_Facts, Governor_Properties, Governor_Authority, Governor_Epochs,
    Ingestion_Properties, Hysteresis_Properties, Restart_Properties, Isolation, Input_Properties, Jobs_Properties:
    what it promises. Samples holds the small policy the witnesses run on.
  \<^item> Transport, Sockets, Protocol, Coordinator, Worker with their Facts and Properties: \<^verbatim>\<open>net.cpp\<close> and \<^verbatim>\<open>dist/\<close>.
  \<^item> Synth, Adapters, Process: \<^verbatim>\<open>synth.cpp\<close>, \<^verbatim>\<open>adapters.hpp\<close>, \<^verbatim>\<open>process.cpp\<close>.
  \<^item> Command_Line, Cli, Cli_Properties: \<^verbatim>\<open>cli/main.cpp\<close>. Dist, Dist_Properties: \<^verbatim>\<open>dist/main.cpp\<close>, whose arguments are in
    Command_Line.
\<close>

text \<open>
  \<^bold>\<open>What the theorems show.\<close>
  \<^item> Evaluation. \<open>verdict\<close> is the decision stated over unbounded sums of the snapshots; \<^verbatim>\<open>evaluate_domain\<close> refines it
    although it computes with saturating 64-bit words. From it follow the safety properties: what a positive
    outcome protects, that no overage is silent, that an authorised increment closes the domain exactly at its
    ceiling, and that authority rests on fresh evidence of the owned epoch and generations.
  \<^item> Governor. \<open>governor_ok\<close> is kept by every operation (\<open>governor_step\<close>). A decision is answered only behind its
    journal record; epochs, incarnations and fences revoke for good; restrictions are immediate and relaxations
    wait; a publication is recorded exactly once, made durable, and leaves other domains alone.
  \<^item> Store. Saved states load, acknowledged records are read back in order, damage is cut off where it begins.
  \<^item> Job queue and network. Every accepted job can settle (\<open>runs\<close>); remote clients move the governor only by its own
    operations (\<open>coordinator_step\<close>); sockets do not leak their descriptors (\<open>socket_step\<close>); frames and messages
    survive the stream; a handler and a worker process return when the stream of the peer ends; exit code 0 of
    the worker means that its rounds were accepted.
  \<^item> Behaviour that falls short of what the comments or the documents say is stated as theorems too: the lost fence of
    a restarted domain, the duplicate answer to an unsaved publication, the torn append, the malformed
    answer to a remote fence, the uncounted demand kind, the scenario of several domains that never passes.

  \<^bold>\<open>Interfaces.\<close> \<open>codec\<close> (Bytes) is the contract of a writer and a reader, interpreted for every record of the state file,
  the journal and the wire. \<open>evaluation_contract\<close> (Evaluation_Contract) carries a predicate through all phases of an
  evaluation and is interpreted for what is recorded, bounded and explained. \<open>remote_evidence\<close> (Worker_Properties) is
  publishing from afar, interpreted for the three kinds of evidence. \<open>bounded_sink\<close> (Adapters) is the abstract
  class of the code, interpreted on the recording sink.

  \<^bold>\<open>Termination.\<close> The padding of SHA-256 has fuel 64, which its lemma \<open>sha_pad_pushes\<close> shows to be enough: it pushes
  fewer than 64 bytes. The other loops of SHA-256, those of the journal scan, of the binary search, of the
  transport and of the two parsers are functions with a measure: bytes left, bytes of the file behind the
  offset, the width of the interval, bytes to read or send, tokens left. \<open>handle_connection\<close> recurses while bytes of
  the stream are left, each frame consuming at least its header of eight. Waiting for a peer is the value
  \<^const>\<open>None\<close>, and that a call does not wait is proved where it is claimed.

  \<^bold>\<open>Parameters.\<close> The iteration order of a hash map is an argument \<open>iter\<close> that keeps the elements; the outcomes of file
  and socket operations are lists the operations consume; the wall clock, the temporary directory, \<^verbatim>\<open>fork\<close>, \<^verbatim>\<open>waitpid\<close>
  and \<^verbatim>\<open>kill\<close>, whether a socket could be opened, and whether a report file could be written are arguments.

  \<^bold>\<open>Not modelled.\<close> The Windows branches of \<^verbatim>\<open>process.cpp\<close>, \<^verbatim>\<open>net.cpp\<close> and \<^verbatim>\<open>persistence.cpp\<close>
  are Win32 calls; only the quoting of a command line is modelled. The console lines of the two processes of
  \<^verbatim>\<open>dist/main.cpp\<close> are not kept. \<^verbatim>\<open>bench/main.cpp\<close>, the examples, the downstream consumer and the tests drive the
  library and print. Inside the governor, the calls that answer one frame, and the body of an operation under the
  mutex, are single steps; data races outside the mutex are not represented, nor is exhausted memory.
\<close>

end
